(* ===== verification/Prelude.thy ===== *)
theory Prelude
  imports Main "HOL-Library.Multiset"
begin

text \<open>
  Shared vocabulary of the development: the result type of fallible operations and its
  bind, relational-table helpers (\<open>updWhere\<close> for \<open>updateMany\<close>, \<open>firstBy\<close> for
  \<open>findFirst\<close> with \<open>orderBy\<close>), decimal printing of numbers as template literals do it,
  and two interface locales every component reuses: transactional machines and
  soft-deleted tables.
\<close>

named_theorems table_simps \<open>facts about the table helpers\<close>
named_theorems result_simps \<open>facts about the result type\<close>

type_synonym uuid = nat
type_synonym time = int

section \<open>Results: a thrown error is the left summand\<close>

definition bindR :: "'e + 'a \<Rightarrow> ('a \<Rightarrow> 'e + 'b) \<Rightarrow> 'e + 'b" where
  "bindR m f = (case m of Inl e \<Rightarrow> Inl e | Inr x \<Rightarrow> f x)"

definition orThrow :: "'a option \<Rightarrow> 'e \<Rightarrow> 'e + 'a" where
  "orThrow x e = (case x of None \<Rightarrow> Inl e | Some y \<Rightarrow> Inr y)"

lemma bindR_simps [simp, result_simps]:
  "bindR (Inl e) f = Inl e"
  "bindR (Inr x) f = f x"
  by (simp_all add: bindR_def)

lemma bindR_eq_Inr [simp, result_simps]:
  "bindR m f = Inr y \<longleftrightarrow> (\<exists>x. m = Inr x \<and> f x = Inr y)"
  by (cases m) auto

lemma bindR_eq_Inl [result_simps]:
  "bindR m f = Inl e \<longleftrightarrow> m = Inl e \<or> (\<exists>x. m = Inr x \<and> f x = Inl e)"
  by (cases m) auto

lemma orThrow_simps [simp, result_simps]:
  "orThrow None e = Inl e"
  "orThrow (Some x) e = Inr x"
  by (simp_all add: orThrow_def)

lemma orThrow_eq_Inr [simp, result_simps]: "orThrow x e = Inr y \<longleftrightarrow> x = Some y"
  by (cases x) auto

lemma if_Inr_eq [result_simps]:
  "((if c then Inl e else m) = Inr y) \<longleftrightarrow> \<not> c \<and> m = Inr y"
  by auto

text \<open>Elimination rules that walk through a handler which returned: the checks it passed and
  the branch it took become hypotheses one by one.\<close>

lemma bindR_InrE:
  "bindR m f = Inr y \<Longrightarrow> (\<And>x. m = Inr x \<Longrightarrow> f x = Inr y \<Longrightarrow> P) \<Longrightarrow> P"
  by auto

lemma orThrow_InrE: "orThrow x e = Inr y \<Longrightarrow> (x = Some y \<Longrightarrow> P) \<Longrightarrow> P"
  by simp

lemma if_InrE:
  "(if c then a else b) = Inr y \<Longrightarrow> (c \<Longrightarrow> a = Inr y \<Longrightarrow> P) \<Longrightarrow> (\<not> c \<Longrightarrow> b = Inr y \<Longrightarrow> P) \<Longrightarrow> P"
  by (cases c) auto

lemma option_InrE:
  "(case x of None \<Rightarrow> a | Some z \<Rightarrow> f z) = Inr y \<Longrightarrow> (x = None \<Longrightarrow> a = Inr y \<Longrightarrow> P) \<Longrightarrow>
   (\<And>z. x = Some z \<Longrightarrow> f z = Inr y \<Longrightarrow> P) \<Longrightarrow> P"
  by (cases x) auto

lemma prod_InrE:
  "(case p of (a, b) \<Rightarrow> f a b) = Inr y \<Longrightarrow> (\<And>a b. p = (a, b) \<Longrightarrow> f a b = Inr y \<Longrightarrow> P) \<Longrightarrow> P"
  by (cases p) auto

lemma Inl_InrE: "Inl e = Inr y \<Longrightarrow> P"
  by simp

lemma Inr_InrE: "Inr x = Inr y \<Longrightarrow> (x = y \<Longrightarrow> P) \<Longrightarrow> P"
  by simp

lemma Inr_Pair_InrE: "Inr (x, z) = Inr (y, w) \<Longrightarrow> (x = y \<Longrightarrow> z = w \<Longrightarrow> P) \<Longrightarrow> P"
  by simp

lemmas inr_elims = Inl_InrE Inr_Pair_InrE Inr_InrE bindR_InrE orThrow_InrE prod_InrE if_InrE option_InrE

section \<open>Tables\<close>

definition updWhere :: "('a \<Rightarrow> bool) \<Rightarrow> ('a \<Rightarrow> 'a) \<Rightarrow> 'a list \<Rightarrow> 'a list" where
  "updWhere p f xs = map (\<lambda>x. if p x then f x else x) xs"

definition firstBy :: "('a \<Rightarrow> int) \<Rightarrow> ('a \<Rightarrow> bool) \<Rightarrow> 'a list \<Rightarrow> 'a option" where
  "firstBy key p xs = List.find p (sort_key key xs)"

lemma length_updWhere [simp]: "length (updWhere p f xs) = length xs"
  by (simp add: updWhere_def)

lemma updWhere_Nil [simp]: "updWhere p f [] = []"
  by (simp add: updWhere_def)

lemma updWhere_Cons [simp]:
  "updWhere p f (x # xs) = (if p x then f x else x) # updWhere p f xs"
  by (simp add: updWhere_def)

lemma updWhere_append [simp]: "updWhere p f (xs @ ys) = updWhere p f xs @ updWhere p f ys"
  by (simp add: updWhere_def)

lemma set_updWhere [table_simps]:
  "set (updWhere p f xs) = {x \<in> set xs. \<not> p x} \<union> f ` {x \<in> set xs. p x}"
  by (auto simp: updWhere_def)

lemma in_set_updWhereE:
  assumes "y \<in> set (updWhere p f xs)"
  obtains x where "x \<in> set xs" and "y = (if p x then f x else x)"
  using assms by (auto simp: updWhere_def)

lemma updWhere_none: "(\<And>x. x \<in> set xs \<Longrightarrow> \<not> p x) \<Longrightarrow> updWhere p f xs = xs"
  by (induction xs) auto

lemma map_updWhere [table_simps]:
  "(\<And>x. g (f x) = g x) \<Longrightarrow> map g (updWhere p f xs) = map g xs"
  by (induction xs) auto

lemma updWhere_id: "(\<And>x. x \<in> set xs \<Longrightarrow> p x \<Longrightarrow> f x = x) \<Longrightarrow> updWhere p f xs = xs"
  by (induction xs) auto

lemma updWhere_updWhere_id:
  assumes "\<And>x. x \<in> set xs \<Longrightarrow> p x \<Longrightarrow> q (f x) \<and> g (f x) = x"
    and "\<And>x. x \<in> set xs \<Longrightarrow> \<not> p x \<Longrightarrow> \<not> q x"
  shows "updWhere q g (updWhere p f xs) = xs"
  using assms by (induction xs) auto

lemma filter_updWhere_same:
  "(\<And>x. x \<in> set xs \<Longrightarrow> p x \<Longrightarrow> q (f x) = q x \<and> (q x \<longrightarrow> f x = x)) \<Longrightarrow>
   filter q (updWhere p f xs) = filter q xs"
  by (induction xs) auto

lemma find_SomeD: "List.find p xs = Some x \<Longrightarrow> x \<in> set xs \<and> p x"
  by (induction xs) (auto split: if_splits)

lemma find_Some_iff_ex: "(\<exists>x. List.find p xs = Some x) \<longleftrightarrow> (\<exists>x \<in> set xs. p x)"
  by (induction xs) auto

lemma firstBy_SomeD: "firstBy key p xs = Some x \<Longrightarrow> x \<in> set xs \<and> p x"
  by (auto simp: firstBy_def dest!: find_SomeD)

lemma firstBy_None_iff: "firstBy key p xs = None \<longleftrightarrow> (\<forall>x \<in> set xs. \<not> p x)"
  by (auto simp: firstBy_def find_None_iff)

lemma find_sorted_least:
  assumes "sorted (map key xs)" and "List.find p xs = Some x" and "y \<in> set xs" and "p y"
  shows "key x \<le> key y"
  using assms by (induction xs) (auto split: if_splits)

lemma firstBy_least:
  assumes "firstBy key p xs = Some x" and "y \<in> set xs" and "p y"
  shows "key x \<le> key y"
  using assms find_sorted_least [of key "sort_key key xs" p x y] by (simp add: firstBy_def)

section \<open>Interface: a table whose rows are invalidated, not deleted\<close>

text \<open>
  Votes, score events, penalties, faults, round summaries, appeals, decisions, windows and
  rounds carry a pair of nullable columns (time of invalidation, id of the audit row that
  did it). Cancelling a result fills the pair on the selected live rows; undoing it clears
  the pair on the rows that carry the audit id. The laws are those of a lens on the pair.
\<close>

locale soft_table =
  fixes wf :: "'r \<Rightarrow> bool"
    and mark :: "'r \<Rightarrow> (time option \<times> uuid option)"
    and setMark :: "(time option \<times> uuid option) \<Rightarrow> 'r \<Rightarrow> 'r"
  assumes mark_set: "mark (setMark m r) = m"
    and set_mark: "wf r \<Longrightarrow> setMark (mark r) r = r"
    and set_set: "setMark m (setMark m' r) = setMark m r"
begin

definition live :: "'r \<Rightarrow> bool" where
  "live r \<longleftrightarrow> fst (mark r) = None"

definition paired :: "'r \<Rightarrow> bool" where
  "paired r \<longleftrightarrow> (fst (mark r) = None \<longrightarrow> snd (mark r) = None)"

definition unstamped :: "uuid \<Rightarrow> 'r list \<Rightarrow> bool" where
  "unstamped a rows \<longleftrightarrow> (\<forall>r \<in> set rows. wf r \<and> paired r \<and> snd (mark r) \<noteq> Some a)"

text \<open>\<open>stamped q t a rows rows'\<close>: \<open>rows'\<close> is \<open>rows\<close> after some live rows in the scope \<open>q\<close> were
  invalidated with the stamp \<open>(t, a)\<close>.\<close>

definition stamped :: "('r \<Rightarrow> bool) \<Rightarrow> time \<Rightarrow> uuid \<Rightarrow> 'r list \<Rightarrow> 'r list \<Rightarrow> bool" where
  "stamped q t a = list_all2 (\<lambda>r r'. r' = r \<or> (live r \<and> q r \<and> r' = setMark (Some t, Some a) r))"

lemma stamped_refl [simp]: "stamped q t a rows rows"
  by (simp add: stamped_def list_all2_same)

lemma stamped_invalidate:
  assumes "\<And>r. r \<in> set rows \<Longrightarrow> p r \<Longrightarrow> live r \<and> q r"
  shows "stamped q t a rows (updWhere p (setMark (Some t, Some a)) rows)"
  using assms by (induction rows) (auto simp: stamped_def)

lemma stamped_trans:
  "stamped q t a rows rows' \<Longrightarrow> stamped q t a rows' rows'' \<Longrightarrow> stamped q t a rows rows''"
proof -
  let ?P = "\<lambda>r r'. r' = r \<or> (live r \<and> q r \<and> r' = setMark (Some t, Some a) r)"
  have "?P x y \<Longrightarrow> ?P y z \<Longrightarrow> ?P x z" for x y z by (auto simp: live_def mark_set)
  from list_all2_trans [of ?P ?P ?P, OF this] show
    "stamped q t a rows rows' \<Longrightarrow> stamped q t a rows' rows'' \<Longrightarrow> stamped q t a rows rows''"
    by (simp add: stamped_def)
qed

lemma stamped_live:
  "stamped q t a rows rows' \<Longrightarrow> r \<in> set rows' \<Longrightarrow> live r \<Longrightarrow> r \<in> set rows"
  unfolding stamped_def
  by (induction rows rows' rule: list_all2_induct) (auto simp: live_def mark_set)

lemma restore_stamped:
  assumes "stamped q t a rows rows'" and "unstamped a rows" and stable: "\<And>m r. q (setMark m r) = q r"
  shows "updWhere (\<lambda>r. snd (mark r) = Some a \<and> q r) (setMark (None, None)) rows' = rows"
  using assms(1,2) unfolding stamped_def
proof (induction rows rows' rule: list_all2_induct)
  case (Cons r rows r' rows')
  have "wf r" "snd (mark r) \<noteq> Some a" and "live r \<Longrightarrow> mark r = (None, None)"
    using Cons.prems by (auto simp: unstamped_def paired_def live_def prod_eq_iff)
  then have "setMark (None, None) (setMark (Some t, Some a) r) = r" if "live r"
    using that set_mark [of r] by (simp add: set_set)
  moreover have "updWhere (\<lambda>r. snd (mark r) = Some a \<and> q r) (setMark (None, None)) rows' = rows"
    using Cons by (simp add: unstamped_def)
  ultimately show ?case
    using Cons.hyps(1) \<open>snd (mark r) \<noteq> Some a\<close> by (auto simp: mark_set stable)
qed simp

end

section \<open>Interface: a transactional machine\<close>

text \<open>
  A command either commits a new state or throws, and a throw rolls the database back. An
  invariant kept by every committed command is kept by every sequence of commands.
\<close>

locale tx_machine =
  fixes step :: "'c \<Rightarrow> 's \<Rightarrow> 'e + 's"
    and inv :: "'s \<Rightarrow> bool"
  assumes step_inv: "inv s \<Longrightarrow> step c s = Inr s' \<Longrightarrow> inv s'"
begin

definition tx :: "'c \<Rightarrow> 's \<Rightarrow> 's" where
  "tx c s = (case step c s of Inl e \<Rightarrow> s | Inr s' \<Rightarrow> s')"

lemma tx_inv: "inv s \<Longrightarrow> inv (tx c s)"
  by (auto simp: tx_def intro: step_inv split: sum.split)

lemma run_inv: "inv s \<Longrightarrow> inv (fold tx cs s)"
  by (induction cs arbitrary: s) (auto intro: tx_inv)

end

section \<open>Lists\<close>

lemma sum_list_map_remdups_filter_add:
  "sum_list (map f (filter p xs)) + sum_list (map f (filter (\<lambda>x. \<not> p x) xs)) =
   (sum_list (map f xs) :: int)"
  by (induction xs) auto

lemma distinct_set_eq_perm:
  "distinct xs \<Longrightarrow> distinct ys \<Longrightarrow> set xs = set ys \<Longrightarrow> mset xs = mset ys"
  by (simp add: set_eq_iff_mset_eq_distinct)

lemma swap_mset:
  "i < length xs \<Longrightarrow> j < length xs \<Longrightarrow> mset (xs[i := xs ! j, j := xs ! i]) = mset xs"
  by (rule mset_swap)

section \<open>Texts\<close>

text \<open>Texts hold the characters U+0000 to U+00FF. \<open>trim\<close> drops the white space of that range; the
  change of case is that of the ASCII letters, the only letters of codes, user names and passcodes.\<close>

definition isSpace :: "char \<Rightarrow> bool" where
  "isSpace c \<longleftrightarrow> c \<in> {CHR '' '', CHR 0x09, CHR 0x0A, CHR 0x0B, CHR 0x0C, CHR 0x0D, CHR 0xA0}"

definition trim :: "string \<Rightarrow> string" where
  "trim s = rev (dropWhile isSpace (rev (dropWhile isSpace s)))"

definition lowerChar :: "char \<Rightarrow> char" where
  "lowerChar c = (let n = of_char c :: nat in if 65 \<le> n \<and> n \<le> 90 then char_of (n + 32) else c)"

definition toLower :: "string \<Rightarrow> string" where
  "toLower s = map lowerChar s"

definition upperChar :: "char \<Rightarrow> char" where
  "upperChar c = (let n = of_char c :: nat in if 97 \<le> n \<and> n \<le> 122 then char_of (n - 32) else c)"

definition toUpper :: "string \<Rightarrow> string" where
  "toUpper s = map upperChar s"

text \<open>\<open>Buffer.byteLength(s, 'utf8')\<close>.\<close>

definition byteLength :: "string \<Rightarrow> nat" where
  "byteLength s = sum_list (map (\<lambda>c. if of_char c < (128 :: nat) then 1 else 2) s)"

section \<open>Numbers as text\<close>

fun showNat :: "nat \<Rightarrow> string" where
  "showNat n = (if n < 10 then [char_of (48 + n)]
                else showNat (n div 10) @ [char_of (48 + n mod 10)])"

declare showNat.simps [simp del]

definition readNat :: "string \<Rightarrow> nat" where
  "readNat s = foldl (\<lambda>acc c. 10 * acc + (of_char c - 48)) 0 s"

lemma readNat_snoc: "readNat (s @ [c]) = 10 * readNat s + (of_char c - 48)"
  by (simp add: readNat_def)

lemma readNat_showNat: "readNat (showNat n) = n"
proof (induction n rule: showNat.induct)
  case (1 n)
  show ?case
  proof (cases "n < 10")
    case True
    then show ?thesis by (simp add: showNat.simps [of n] readNat_def)
  next
    case False
    have d: "of_char (char_of (48 + n mod 10) :: char) - 48 = n mod (10::nat)"
      by simp
    from False have "readNat (showNat n) = 10 * readNat (showNat (n div 10)) + n mod 10"
      using d by (simp add: showNat.simps [of n] readNat_snoc del: of_char_of)
    with 1 [OF False] show ?thesis by simp
  qed
qed

lemma showNat_inject [simp]: "showNat a = showNat b \<longleftrightarrow> a = b"
  by (metis readNat_showNat)

lemma showNat_digits: "c \<in> set (showNat n) \<Longrightarrow> 48 \<le> (of_char c :: nat) \<and> (of_char c :: nat) \<le> 57"
proof (induction n rule: showNat.induct)
  case (1 n)
  have small: "48 + n mod 10 < (256::nat)" by (simp add: less_imp_le_nat)
  show ?case
  proof (cases "n < 10")
    case True
    with 1 show ?thesis by (simp add: showNat.simps [of n])
  next
    case False
    with "1.prems" have "c \<in> set (showNat (n div 10)) \<or> c = char_of (48 + n mod 10)"
      by (auto simp: showNat.simps [of n])
    then show ?thesis
    proof
      assume "c \<in> set (showNat (n div 10))"
      with 1 False show ?thesis by simp
    next
      assume "c = char_of (48 + n mod 10)"
      then show ?thesis using small by simp
    qed
  qed
qed

definition padStart2 :: "string \<Rightarrow> string" where
  "padStart2 s = replicate (2 - length s) (CHR ''0'') @ s"

end
