(* ===== verification/Bracket_Generator.thy ===== *)
theory Bracket_Generator
  imports Prelude "HOL-Library.Word"
begin

text \<open>
  The single-elimination draw: \<open>bracket-summary.ts\<close> (the shape of a draw) and
  \<open>single-elimination-bracket.generator.ts\<close> (shuffles, bye placement, the round-by-round
  construction of fixtures and the links between them). The random source of the program
  is an argument: \<open>rs k m\<close> is the value its \<open>k\<close>-th call returns for the bound \<open>m\<close>.
\<close>

unbundle bit_operations_syntax

section \<open>Draw summary\<close>

definition MAX_BRACKET_ATHLETES :: nat where
  "MAX_BRACKET_ATHLETES = 64"

datatype bracket_error =
    TooFewAthletes | TooManyAthletes | DuplicateAthletes | InvalidMaximum
  | DuplicateDesignatedByes | DesignatedByeNotInBracket | TooManyDesignatedByes
  | InvalidRandomIndex int | UndefinedRead
  | PlacementsInvalid | PlacementsInvalidSize | IncompletePairs | DoubleBye
  | FixtureSourceMissing

record bracket_summary =
  bs_athleteCount :: nat
  bs_bracketSize :: nat
  bs_roundCount :: nat
  bs_totalFixtureCount :: nat
  bs_firstRoundFixtureCount :: nat
  bs_byeCount :: nat

text \<open>The loop \<open>while (result < value) result *= 2\<close>. The source starts it at 1; the guard
  \<open>0 < result\<close> only makes the function total.\<close>

function doubleUntil :: "nat \<Rightarrow> nat \<Rightarrow> nat" where
  "doubleUntil result value =
     (if 0 < result \<and> result < value then doubleUntil (result * 2) value else result)"
  by pat_completeness auto
termination
  by (relation "measure (\<lambda>(result, value). value - result)") auto

declare doubleUntil.simps [simp del]

definition nextPowerOfTwo :: "nat \<Rightarrow> nat" where
  "nextPowerOfTwo value = doubleUntil 1 value"

text \<open>\<open>Math.log2\<close>, applied to powers of two only.\<close>

fun log2 :: "nat \<Rightarrow> nat" where
  "log2 n = (if n \<le> 1 then 0 else Suc (log2 (n div 2)))"

declare log2.simps [simp del]

definition summarizeBracket :: "nat \<Rightarrow> bracket_error + bracket_summary" where
  "summarizeBracket athleteCount =
     (if athleteCount < 2 then Inl TooFewAthletes
      else if athleteCount > MAX_BRACKET_ATHLETES then Inl TooManyAthletes
      else let bracketSize = nextPowerOfTwo athleteCount in
        Inr \<lparr> bs_athleteCount = athleteCount, bs_bracketSize = bracketSize,
              bs_roundCount = log2 bracketSize, bs_totalFixtureCount = athleteCount - 1,
              bs_firstRoundFixtureCount = athleteCount - bracketSize div 2,
              bs_byeCount = bracketSize - athleteCount \<rparr>)"

section \<open>Data of the generator\<close>

datatype side = RED | BLUE

record placement =
  pl_drawPosition :: nat
  pl_athleteId :: "uuid option"

datatype advancement = Entrant uuid | FixtureWinner string

record bracket_slot =
  sl_side :: side
  sl_source :: advancement
  sl_resolvedEntrantId :: "uuid option"

record fixture =
  fx_id :: string
  fx_roundNumber :: nat
  fx_position :: nat
  fx_displayReference :: string
  fx_red :: bracket_slot
  fx_blue :: bracket_slot
  fx_downstream :: "(string \<times> side) option"

datatype round_label = ChungKet | BanKet | TuKet | Vong nat

record bracket_round =
  rd_roundNumber :: nat
  rd_label :: round_label
  rd_fixtures :: "fixture list"

record generated_bracket =
  gb_athleteCount :: nat
  gb_bracketSize :: nat
  gb_byeCount :: nat
  gb_roundCount :: nat
  gb_firstRoundMatchCount :: nat
  gb_totalFixtureCount :: nat
  gb_initialEntrants :: "placement list"
  gb_rounds :: "bracket_round list"
  gb_fixtures :: "fixture list"

section \<open>Shuffling\<close>

type_synonym random_source = "nat \<Rightarrow> nat \<Rightarrow> int"

definition nextRandomIndex ::
  "random_source \<Rightarrow> nat \<Rightarrow> nat \<Rightarrow> bracket_error + nat" where
  "nextRandomIndex rs k maxExclusive =
     (let value = rs k maxExclusive in
      if value < 0 \<or> value \<ge> int maxExclusive then Inl (InvalidRandomIndex value)
      else Inr (nat value))"

text \<open>One iteration per index from \<open>length - 1\<close> down to 1; \<open>k\<close> counts the random draws.\<close>

fun shuffleFrom ::
  "random_source \<Rightarrow> nat \<Rightarrow> nat \<Rightarrow> 'a list \<Rightarrow> bracket_error + ('a list \<times> nat)" where
  "shuffleFrom rs 0 k shuffled = Inr (shuffled, k)"
| "shuffleFrom rs (Suc i) k shuffled =
     bindR (nextRandomIndex rs k (Suc (Suc i)))
       (\<lambda>swapIndex. shuffleFrom rs i (Suc k)
          (shuffled[Suc i := shuffled ! swapIndex, swapIndex := shuffled ! Suc i]))"

definition fisherYatesShuffle ::
  "random_source \<Rightarrow> nat \<Rightarrow> 'a list \<Rightarrow> bracket_error + ('a list \<times> nat)" where
  "fisherYatesShuffle rs k items = shuffleFrom rs (length items - 1) k items"

definition chooseByePairPositions ::
  "random_source \<Rightarrow> nat \<Rightarrow> nat \<Rightarrow> nat \<Rightarrow> bracket_error + (nat list \<times> nat)" where
  "chooseByePairPositions rs k pairCount byeCount =
     bindR (fisherYatesShuffle rs k [0..<pairCount])
       (\<lambda>(positions, k'). Inr (take byeCount positions, k'))"

section \<open>Validation\<close>

definition assertValidAthletes :: "uuid list \<Rightarrow> int option \<Rightarrow> bracket_error + unit" where
  "assertValidAthletes athleteIds maxAthletes =
     (if length athleteIds < 2 then Inl TooFewAthletes
      else if \<not> distinct athleteIds then Inl DuplicateAthletes
      else case maxAthletes of
          None \<Rightarrow> Inr ()
        | Some m \<Rightarrow> (if m < 2 then Inl InvalidMaximum
                    else if int (length athleteIds) > m then Inl TooManyAthletes
                    else Inr ()))"

definition assertValidDesignatedByes ::
  "uuid list \<Rightarrow> uuid list \<Rightarrow> nat \<Rightarrow> bracket_error + unit" where
  "assertValidDesignatedByes athleteIds designated byeCount =
     (if \<not> distinct designated then Inl DuplicateDesignatedByes
      else if \<not> set designated \<subseteq> set athleteIds then Inl DesignatedByeNotInBracket
      else if length designated > byeCount then Inl TooManyDesignatedByes
      else Inr ())"

section \<open>Opening placements\<close>

text \<open>Reading past the end of \<open>byeRecipients\<close> or \<open>contestEntrants\<close> would store
  \<open>undefined\<close>; the model names that outcome.\<close>

definition readAt :: "'a list \<Rightarrow> nat \<Rightarrow> bracket_error + 'a" where
  "readAt xs i = (if i < length xs then Inr (xs ! i) else Inl UndefinedRead)"

fun placePairs ::
  "nat list \<Rightarrow> uuid list \<Rightarrow> uuid list \<Rightarrow> nat \<Rightarrow> nat \<Rightarrow> nat \<Rightarrow> nat
   \<Rightarrow> bracket_error + placement list" where
  "placePairs byePairs byeRecipients contestEntrants 0 pairIndex byeIndex contestIndex = Inr []"
| "placePairs byePairs byeRecipients contestEntrants (Suc n) pairIndex byeIndex contestIndex =
     (if pairIndex \<in> set byePairs then
        bindR (readAt byeRecipients byeIndex) (\<lambda>a.
        bindR (placePairs byePairs byeRecipients contestEntrants n
                 (Suc pairIndex) (Suc byeIndex) contestIndex) (\<lambda>rest.
          Inr (\<lparr> pl_drawPosition = pairIndex * 2 + 1, pl_athleteId = Some a \<rparr> #
               \<lparr> pl_drawPosition = pairIndex * 2 + 2, pl_athleteId = None \<rparr> # rest)))
      else
        bindR (readAt contestEntrants contestIndex) (\<lambda>a.
        bindR (readAt contestEntrants (Suc contestIndex)) (\<lambda>b.
        bindR (placePairs byePairs byeRecipients contestEntrants n
                 (Suc pairIndex) byeIndex (Suc (Suc contestIndex))) (\<lambda>rest.
          Inr (\<lparr> pl_drawPosition = pairIndex * 2 + 1, pl_athleteId = Some a \<rparr> #
               \<lparr> pl_drawPosition = pairIndex * 2 + 2, pl_athleteId = Some b \<rparr> # rest)))))"

definition createInitialEntrants ::
  "nat \<Rightarrow> nat list \<Rightarrow> uuid list \<Rightarrow> uuid list \<Rightarrow> bracket_error + placement list" where
  "createInitialEntrants bracketSize byePairs byeRecipients contestEntrants =
     placePairs byePairs byeRecipients contestEntrants (bracketSize div 2) 0 0 0"

section \<open>Building the graph\<close>

definition toAdvancement :: "placement \<Rightarrow> advancement option" where
  "toAdvancement p = map_option Entrant (pl_athleteId p)"

definition createSlot :: "side \<Rightarrow> advancement \<Rightarrow> bracket_slot" where
  "createSlot s adv = (case adv of
       Entrant e \<Rightarrow> \<lparr> sl_side = s, sl_source = Entrant e, sl_resolvedEntrantId = Some e \<rparr>
     | FixtureWinner f \<Rightarrow>
         \<lparr> sl_side = s, sl_source = FixtureWinner f, sl_resolvedEntrantId = None \<rparr>)"

definition fixtureId :: "nat \<Rightarrow> nat \<Rightarrow> string" where
  "fixtureId roundNumber position =
     ''r'' @ showNat roundNumber @ ''-m'' @ showNat position"

definition createFixture :: "nat \<Rightarrow> nat \<Rightarrow> advancement \<Rightarrow> advancement \<Rightarrow> fixture" where
  "createFixture roundNumber position red blue =
     \<lparr> fx_id = fixtureId roundNumber position, fx_roundNumber = roundNumber,
       fx_position = position,
       fx_displayReference =
         ''R'' @ showNat roundNumber @ ''-M'' @ padStart2 (showNat position),
       fx_red = createSlot RED red, fx_blue = createSlot BLUE blue,
       fx_downstream = None \<rparr>"

text \<open>The inner loop over adjacent pairs; \<open>position\<close> is \<open>index / 2 + 1\<close>.\<close>

fun pairRound ::
  "nat \<Rightarrow> nat \<Rightarrow> advancement option list
   \<Rightarrow> bracket_error + (fixture list \<times> advancement option list)" where
  "pairRound roundNumber position [] = Inr ([], [])"
| "pairRound roundNumber position [red] = Inl IncompletePairs"
| "pairRound roundNumber position (red # blue # rest) =
     (case (red, blue) of
        (Some r, Some b) \<Rightarrow>
          bindR (pairRound roundNumber (Suc position) rest) (\<lambda>(fs, advs).
            let f = createFixture roundNumber position r b in
            Inr (f # fs, Some (FixtureWinner (fx_id f)) # advs))
      | (Some r, None) \<Rightarrow>
          bindR (pairRound roundNumber (Suc position) rest)
            (\<lambda>(fs, advs). Inr (fs, Some r # advs))
      | (None, Some b) \<Rightarrow>
          bindR (pairRound roundNumber (Suc position) rest)
            (\<lambda>(fs, advs). Inr (fs, Some b # advs))
      | (None, None) \<Rightarrow> Inl DoubleBye)"

text \<open>The outer loop: \<open>n\<close> rounds still to build, starting with \<open>roundNumber\<close>.\<close>

fun buildRounds ::
  "nat \<Rightarrow> nat \<Rightarrow> advancement option list \<Rightarrow> bracket_error + fixture list" where
  "buildRounds 0 roundNumber advancements = Inr []"
| "buildRounds (Suc n) roundNumber advancements =
     bindR (pairRound roundNumber 1 advancements) (\<lambda>(fs, advs).
     bindR (buildRounds n (Suc roundNumber) advs) (\<lambda>gs. Inr (fs @ gs)))"

definition linkSlot ::
  "fixture \<Rightarrow> bracket_slot \<Rightarrow> fixture list \<Rightarrow> bracket_error + fixture list" where
  "linkSlot f slot fixtures = (case sl_source slot of
       Entrant e \<Rightarrow> Inr fixtures
     | FixtureWinner src \<Rightarrow>
         (if \<exists>g \<in> set fixtures. fx_id g = src
          then Inr (updWhere (\<lambda>g. fx_id g = src)
                 (\<lambda>g. g\<lparr>fx_downstream := Some (fx_id f, sl_side slot)\<rparr>) fixtures)
          else Inl FixtureSourceMissing))"

fun linkAll :: "fixture list \<Rightarrow> fixture list \<Rightarrow> bracket_error + fixture list" where
  "linkAll [] fixtures = Inr fixtures"
| "linkAll (f # fs) fixtures =
     bindR (linkSlot f (fx_red f) fixtures) (\<lambda>fixtures1.
     bindR (linkSlot f (fx_blue f) fixtures1) (\<lambda>fixtures2. linkAll fs fixtures2))"

definition linkDownstreamFixtures :: "fixture list \<Rightarrow> bracket_error + fixture list" where
  "linkDownstreamFixtures fixtures = linkAll fixtures fixtures"

definition addFixtureToRound ::
  "fixture \<Rightarrow> (nat \<rightharpoonup> fixture list) \<Rightarrow> (nat \<rightharpoonup> fixture list)" where
  "addFixtureToRound f byRound =
     (let round = (case byRound (fx_roundNumber f) of None \<Rightarrow> [] | Some fs \<Rightarrow> fs)
      in byRound(fx_roundNumber f \<mapsto> round @ [f]))"

text \<open>The four label texts of \<open>bracket-presentation.ts\<close> (Chung ket, Ban ket, Tu ket and
  Vong n, with diacritics in the source) are kept apart by constructors.\<close>

definition bracketRoundLabel :: "nat \<Rightarrow> nat \<Rightarrow> round_label" where
  "bracketRoundLabel roundNumber roundCount =
     (let roundsFromFinal = int roundCount - int roundNumber in
      if roundsFromFinal = 0 then ChungKet
      else if roundsFromFinal = 1 then BanKet
      else if roundsFromFinal = 2 then TuKet
      else Vong roundNumber)"

definition createRounds :: "nat \<Rightarrow> (nat \<rightharpoonup> fixture list) \<Rightarrow> bracket_round list" where
  "createRounds roundCount byRound =
     map (\<lambda>index. \<lparr> rd_roundNumber = Suc index,
                    rd_label = bracketRoundLabel (Suc index) roundCount,
                    rd_fixtures = (case byRound (Suc index) of None \<Rightarrow> [] | Some fs \<Rightarrow> fs) \<rparr>)
       [0..<roundCount]"

definition placedIds :: "placement list \<Rightarrow> uuid list" where
  "placedIds ps = List.map_filter pl_athleteId ps"

text \<open>The fixtures in \<open>fixturesByRound\<close> are the objects of \<open>fixtures\<close>, so the rounds
  show the links made by \<open>linkDownstreamFixtures\<close>.\<close>

definition buildSingleEliminationBracket ::
  "placement list \<Rightarrow> bracket_error + generated_bracket" where
  "buildSingleEliminationBracket initialEntrants =
     (let athleteIds = placedIds initialEntrants; size = length initialEntrants in
      if size < 2 \<or> size AND (size - 1) \<noteq> 0 \<or> length athleteIds < 2 \<or>
         \<not> distinct athleteIds \<or>
         (\<exists>i < size. pl_drawPosition (initialEntrants ! i) \<noteq> i + 1)
      then Inl PlacementsInvalid
      else bindR (summarizeBracket (length athleteIds)) (\<lambda>summary.
        if bs_bracketSize summary \<noteq> size then Inl PlacementsInvalidSize
        else bindR (buildRounds (bs_roundCount summary) 1 (map toAdvancement initialEntrants))
          (\<lambda>fixtures. bindR (linkDownstreamFixtures fixtures) (\<lambda>linked.
          Inr \<lparr> gb_athleteCount = length athleteIds, gb_bracketSize = size,
                gb_byeCount = bs_byeCount summary, gb_roundCount = bs_roundCount summary,
                gb_firstRoundMatchCount = bs_firstRoundFixtureCount summary,
                gb_totalFixtureCount = bs_totalFixtureCount summary,
                gb_initialEntrants = initialEntrants,
                gb_rounds = createRounds (bs_roundCount summary)
                  (fold addFixtureToRound linked Map.empty),
                gb_fixtures = linked \<rparr>))))"

section \<open>Drawing a bracket\<close>

record generate_input =
  gi_athleteIds :: "uuid list"
  gi_designatedByeAthleteIds :: "uuid list"
  gi_maxAthletes :: "int option"

definition drawPlacements ::
  "random_source \<Rightarrow> generate_input \<Rightarrow> bracket_summary \<Rightarrow> bracket_error + placement list" where
  "drawPlacements rs input summary =
     (let bracketSize = bs_bracketSize summary; byeCount = bs_byeCount summary;
          designated = gi_designatedByeAthleteIds input;
          remaining = filter (\<lambda>a. a \<notin> set designated) (gi_athleteIds input) in
      bindR (fisherYatesShuffle rs 0 remaining) (\<lambda>(shuffledRemaining, k1).
      let additional = take (byeCount - length designated) shuffledRemaining in
      bindR (fisherYatesShuffle rs k1 (designated @ additional)) (\<lambda>(byeRecipients, k2).
      bindR (fisherYatesShuffle rs k2
               (filter (\<lambda>a. a \<notin> set byeRecipients) (gi_athleteIds input))) (\<lambda>(contestEntrants, k3).
      bindR (chooseByePairPositions rs k3 (bracketSize div 2) byeCount) (\<lambda>(byePairs, k4).
      createInitialEntrants bracketSize byePairs byeRecipients contestEntrants)))))"

definition generateSingleEliminationBracket ::
  "random_source \<Rightarrow> generate_input \<Rightarrow> bracket_error + generated_bracket" where
  "generateSingleEliminationBracket rs input =
     bindR (assertValidAthletes (gi_athleteIds input) (gi_maxAthletes input)) (\<lambda>_.
     bindR (summarizeBracket (length (gi_athleteIds input))) (\<lambda>summary.
     bindR (assertValidDesignatedByes (gi_athleteIds input)
              (gi_designatedByeAthleteIds input) (bs_byeCount summary)) (\<lambda>_.
     bindR (drawPlacements rs input summary) (\<lambda>initialEntrants.
     buildSingleEliminationBracket initialEntrants))))"

end
