(* ===== verification/Bracket_Draw.thy ===== *)
theory Bracket_Draw
  imports Bracket_Generator
begin

text \<open>
  The random part of the draw: the bracket size is the least power of two that holds the
  athletes, the shuffles are permutations, the bye pairs are distinct, and the opening
  placements hold every athlete once with the designated athletes among the bye holders.
\<close>

section \<open>Sizes\<close>

lemma doubleUntil_power:
  assumes "0 < r"
  shows "\<exists>j. doubleUntil r v = r * 2 ^ j \<and> v \<le> r * 2 ^ j \<and> (0 < j \<longrightarrow> r * 2 ^ (j - 1) < v)"
  using assms
proof (induction r v rule: doubleUntil.induct)
  case (1 r v)
  show ?case
  proof (cases "r < v")
    case True
    with 1 obtain j where j: "doubleUntil (r * 2) v = r * 2 * 2 ^ j" "v \<le> r * 2 * 2 ^ j"
      "0 < j \<longrightarrow> r * 2 * 2 ^ (j - 1) < v" by auto
    have "0 < Suc j \<longrightarrow> r * 2 ^ (Suc j - 1) < v"
      using True j(3) by (cases j) (auto simp: mult.assoc)
    with j True "1.prems" show ?thesis
      by (intro exI [of _ "Suc j"]) (simp add: doubleUntil.simps [of r v] mult.assoc)
  next
    case False
    then show ?thesis
      by (intro exI [of _ 0]) (simp add: doubleUntil.simps [of r v])
  qed
qed

lemma nextPowerOfTwo_least:
  obtains j where "nextPowerOfTwo v = 2 ^ j" and "v \<le> 2 ^ j" and "0 < j \<longrightarrow> 2 ^ (j - 1) < v"
  using doubleUntil_power [of 1 v] by (auto simp: nextPowerOfTwo_def)

lemma log2_power [simp]: "log2 (2 ^ k) = k"
proof (induction k)
  case 0
  show ?case by (simp add: log2.simps [of "Suc 0"])
next
  case (Suc k)
  have "\<not> (2::nat) ^ Suc k \<le> 1" using one_less_power [of "2::nat" "Suc k"] by simp
  then show ?case using Suc by (simp add: log2.simps [of "2 * 2 ^ k"])
qed

lemma power_and_pred: "(2::nat) ^ k AND (2 ^ k - 1) = 0"
proof -
  have "(2::nat) ^ k AND mask k = take_bit k (2 ^ k)"
    by (simp only: take_bit_eq_mask)
  then show ?thesis by (simp add: mask_eq_exp_minus_1 take_bit_eq_mod)
qed

lemma summarizeBracket_ok:
  assumes "2 \<le> n" and "n \<le> 64"
  obtains k s where "summarizeBracket n = Inr s" and "bs_bracketSize s = 2 ^ k"
    and "bs_roundCount s = k" and "0 < k" and "n \<le> 2 ^ k" and "2 ^ (k - 1) < n"
    and "bs_byeCount s = 2 ^ k - n" and "bs_totalFixtureCount s = n - 1"
    and "bs_firstRoundFixtureCount s = n - 2 ^ (k - 1)"
proof -
  obtain k where k: "nextPowerOfTwo n = 2 ^ k" "n \<le> 2 ^ k" "0 < k \<longrightarrow> 2 ^ (k - 1) < n"
    by (rule nextPowerOfTwo_least)
  from assms k(2) have "0 < k" by (cases k) auto
  moreover have "(2::nat) ^ k div 2 = 2 ^ (k - 1)" using \<open>0 < k\<close> by (cases k) auto
  ultimately show ?thesis using assms k
    by (intro that [of "\<lparr> bs_athleteCount = n, bs_bracketSize = 2 ^ k, bs_roundCount = k,
          bs_totalFixtureCount = n - 1, bs_firstRoundFixtureCount = n - 2 ^ (k - 1),
          bs_byeCount = 2 ^ k - n \<rparr>" k])
      (simp_all add: summarizeBracket_def MAX_BRACKET_ATHLETES_def Let_def)
qed

lemma summarizeBracket_InrD:
  "summarizeBracket n = Inr s \<Longrightarrow> 2 \<le> n \<and> n \<le> 64"
  by (auto simp: summarizeBracket_def MAX_BRACKET_ATHLETES_def split: if_splits)

section \<open>Shuffles are permutations\<close>

definition valid_source :: "random_source \<Rightarrow> bool" where
  "valid_source rs \<longleftrightarrow> (\<forall>k m. 0 < m \<longrightarrow> 0 \<le> rs k m \<and> rs k m < int m)"

lemma nextRandomIndex_bound: "nextRandomIndex rs k m = Inr j \<Longrightarrow> j < m"
  by (auto simp: nextRandomIndex_def Let_def split: if_splits)

lemma nextRandomIndex_valid:
  "valid_source rs \<Longrightarrow> 0 < m \<Longrightarrow> \<exists>j. nextRandomIndex rs k m = Inr j \<and> j < m"
  by (auto simp: nextRandomIndex_def valid_source_def Let_def not_less not_le nat_less_iff)

lemma shuffleFrom_mset:
  "i < length xs \<or> i = 0 \<Longrightarrow> shuffleFrom rs i k xs = Inr (ys, k') \<Longrightarrow> mset ys = mset xs"
proof (induction rs i k xs arbitrary: ys k' rule: shuffleFrom.induct)
  case (1 rs k xs)
  then show ?case by simp
next
  case (2 rs i k xs)
  from "2.prems" obtain j where j: "nextRandomIndex rs k (Suc (Suc i)) = Inr j"
    and rest: "shuffleFrom rs i (Suc k) (xs[Suc i := xs ! j, j := xs ! Suc i]) = Inr (ys, k')"
    by auto
  from j have "j < Suc (Suc i)" by (rule nextRandomIndex_bound)
  with "2.prems" have "mset (xs[Suc i := xs ! j, j := xs ! Suc i]) = mset xs"
    by (intro swap_mset) auto
  moreover from "2.IH" [OF _ rest] "2.prems" have
    "mset ys = mset (xs[Suc i := xs ! j, j := xs ! Suc i])" by auto
  ultimately show ?case by simp
qed

lemma shuffleFrom_valid:
  "valid_source rs \<Longrightarrow> \<exists>ys k'. shuffleFrom rs i k xs = Inr (ys, k')"
proof (induction rs i k xs rule: shuffleFrom.induct)
  case (2 rs i k xs)
  from nextRandomIndex_valid [OF "2.prems", of "Suc (Suc i)" k] obtain j
    where "nextRandomIndex rs k (Suc (Suc i)) = Inr j" by auto
  with 2 show ?case by auto
qed simp

lemma fisherYates_mset:
  "fisherYatesShuffle rs k xs = Inr (ys, k') \<Longrightarrow> mset ys = mset xs"
  unfolding fisherYatesShuffle_def
  by (rule shuffleFrom_mset [rotated], assumption) (cases xs, auto)

lemma fisherYates_valid:
  assumes "valid_source rs"
  obtains ys k' where "fisherYatesShuffle rs k xs = Inr (ys, k')" and "mset ys = mset xs"
  using shuffleFrom_valid [OF assms] fisherYates_mset
  by (metis fisherYatesShuffle_def)

section \<open>Opening placements\<close>

lemma toAdvancement_simps [simp]:
  "pl_athleteId p = Some a \<Longrightarrow> toAdvancement p = Some (Entrant a)"
  "pl_athleteId p = None \<Longrightarrow> toAdvancement p = None"
  by (simp_all add: toAdvancement_def)

lemma placedIds_Cons [simp]:
  "placedIds (p # ps) = (case pl_athleteId p of None \<Rightarrow> placedIds ps | Some a \<Rightarrow> a # placedIds ps)"
  "placedIds [] = []"
  by (simp_all add: placedIds_def map_filter_simps split: option.split)

fun byeHolders :: "placement list \<Rightarrow> uuid list" where
  "byeHolders (p # q # ps) =
     (case (pl_athleteId p, pl_athleteId q) of
        (Some a, None) \<Rightarrow> a # byeHolders ps
      | (None, Some b) \<Rightarrow> b # byeHolders ps
      | _ \<Rightarrow> byeHolders ps)"
| "byeHolders _ = []"

fun noDoubleBye :: "'a option list \<Rightarrow> bool" where
  "noDoubleBye [] = True"
| "noDoubleBye [x] = False"
| "noDoubleBye (x # y # xs) = ((x \<noteq> None \<or> y \<noteq> None) \<and> noDoubleBye xs)"

definition byePairCount :: "nat list \<Rightarrow> nat \<Rightarrow> nat \<Rightarrow> nat" where
  "byePairCount byePairs i n = length (filter (\<lambda>j. j \<in> set byePairs) [i..<i + n])"

lemma byePairCount_Suc:
  "byePairCount bp i (Suc n) = (if i \<in> set bp then 1 else 0) + byePairCount bp (Suc i) n"
  unfolding byePairCount_def by (subst upt_conv_Cons) auto

lemma byePairCount_le: "byePairCount bp i n \<le> n"
  using length_filter_le [of "\<lambda>j. j \<in> set bp" "[i..<i + n]"] by (simp add: byePairCount_def)

lemma placePairs_ok:
  assumes "bi + byePairCount bp i n \<le> length br"
    and "ci + 2 * (n - byePairCount bp i n) \<le> length ce"
  shows "\<exists>ps. placePairs bp br ce n i bi ci = Inr ps \<and>
     map pl_drawPosition ps = [2 * i + 1..<2 * (i + n) + 1] \<and>
     noDoubleBye (map toAdvancement ps) \<and>
     byeHolders ps = take (byePairCount bp i n) (drop bi br) \<and>
     mset (placedIds ps) = mset (take (byePairCount bp i n) (drop bi br)) +
       mset (take (2 * (n - byePairCount bp i n)) (drop ci ce))"
  using assms
proof (induction n arbitrary: i bi ci)
  case 0
  then show ?case by (simp add: byePairCount_def)
next
  case (Suc n)
  note le = byePairCount_le [of bp "Suc i" n]
  have upt: "[2 * i + 1..<2 * (i + Suc n) + 1] =
      (2 * i + 1) # (2 * i + 2) # [2 * Suc i + 1..<2 * (Suc i + n) + 1]"
    by (simp add: upt_conv_Cons)
  show ?case
  proof (cases "i \<in> set bp")
    case True
    with Suc.prems have lt: "bi < length br"
      and p1: "Suc bi + byePairCount bp (Suc i) n \<le> length br"
      and p2: "ci + 2 * (n - byePairCount bp (Suc i) n) \<le> length ce"
      by (simp_all add: byePairCount_Suc)
    from Suc.IH [OF p1 p2] obtain ps where "placePairs bp br ce n (Suc i) (Suc bi) ci = Inr ps"
      "map pl_drawPosition ps = [2 * Suc i + 1..<2 * (Suc i + n) + 1]"
      "noDoubleBye (map toAdvancement ps)"
      "byeHolders ps = take (byePairCount bp (Suc i) n) (drop (Suc bi) br)"
      "mset (placedIds ps) = mset (take (byePairCount bp (Suc i) n) (drop (Suc bi) br)) +
       mset (take (2 * (n - byePairCount bp (Suc i) n)) (drop ci ce))" by blast
    moreover have "drop bi br = br ! bi # drop (Suc bi) br"
      using lt by (simp add: Cons_nth_drop_Suc)
    ultimately show ?thesis using True lt upt
      by (simp add: byePairCount_Suc readAt_def mult.commute)
  next
    case False
    have diff: "Suc n - byePairCount bp (Suc i) n = Suc (n - byePairCount bp (Suc i) n)"
      using le by simp
    from False Suc.prems diff have lt: "Suc ci < length ce"
      and p1: "bi + byePairCount bp (Suc i) n \<le> length br"
      and p2: "Suc (Suc ci) + 2 * (n - byePairCount bp (Suc i) n) \<le> length ce"
      by (simp_all add: byePairCount_Suc)
    from Suc.IH [OF p1 p2] obtain ps where
      "placePairs bp br ce n (Suc i) bi (Suc (Suc ci)) = Inr ps"
      "map pl_drawPosition ps = [2 * Suc i + 1..<2 * (Suc i + n) + 1]"
      "noDoubleBye (map toAdvancement ps)"
      "byeHolders ps = take (byePairCount bp (Suc i) n) (drop bi br)"
      "mset (placedIds ps) = mset (take (byePairCount bp (Suc i) n) (drop bi br)) +
       mset (take (2 * (n - byePairCount bp (Suc i) n)) (drop (Suc (Suc ci)) ce))" by blast
    moreover have "drop ci ce = ce ! ci # ce ! Suc ci # drop (Suc (Suc ci)) ce"
      using lt by (simp add: Cons_nth_drop_Suc)
    ultimately show ?thesis using False lt upt diff
      by (simp add: byePairCount_Suc readAt_def mult.commute)
  qed
qed


lemma byePairCount_full:
  assumes "distinct bp" and "set bp \<subseteq> {0..<n}"
  shows "byePairCount bp 0 n = length bp"
proof -
  have "byePairCount bp 0 n = card (set (filter (\<lambda>j. j \<in> set bp) [0..<n]))"
    unfolding byePairCount_def by (metis add_0 distinct_card distinct_filter distinct_upt)
  also have "set (filter (\<lambda>j. j \<in> set bp) [0..<n]) = set bp" using assms(2) by auto
  also have "card (set bp) = length bp" using assms(1) by (rule distinct_card)
  finally show ?thesis .
qed

lemma chooseByePairPositions_ok:
  assumes "valid_source rs" and "byeCount \<le> pairCount"
  obtains bp k' where "chooseByePairPositions rs k pairCount byeCount = Inr (bp, k')"
    and "distinct bp" and "set bp \<subseteq> {0..<pairCount}" and "length bp = byeCount"
proof -
  obtain ys k' where ys: "fisherYatesShuffle rs k [0..<pairCount] = Inr (ys, k')"
    and m: "mset ys = mset [0..<pairCount]" using fisherYates_valid [OF assms(1)] .
  from m have "distinct ys" and "set ys = {0..<pairCount}" and "length ys = pairCount"
    by (metis distinct_upt mset_eq_imp_distinct_iff, metis set_upt set_mset_mset,
        metis diff_zero length_upt size_mset)
  moreover have "set (take byeCount ys) \<subseteq> set ys" by (rule set_take_subset)
  ultimately show ?thesis using ys assms(2)
    by (intro that [of "take byeCount ys" k']) (auto simp: chooseByePairPositions_def)
qed

text \<open>Everything the drawing step promises about the placements it returns.\<close>

definition drawn :: "generate_input \<Rightarrow> bracket_summary \<Rightarrow> placement list \<Rightarrow> bool" where
  "drawn input summary ps \<longleftrightarrow>
     map pl_drawPosition ps = [1..<bs_bracketSize summary + 1] \<and>
     noDoubleBye (map toAdvancement ps) \<and>
     mset (placedIds ps) = mset (gi_athleteIds input) \<and>
     set (gi_designatedByeAthleteIds input) \<subseteq> set (byeHolders ps) \<and>
     length (byeHolders ps) = bs_byeCount summary"

lemma filter_notin_mset:
  assumes "distinct xs" and "distinct ys" and "set ys \<subseteq> set xs"
  shows "mset (filter (\<lambda>a. a \<notin> set ys) xs) + mset ys = mset xs"
proof -
  have "set (filter (\<lambda>a. a \<notin> set ys) xs @ ys) = set xs" using assms(3) by auto
  moreover have "distinct (filter (\<lambda>a. a \<notin> set ys) xs @ ys)" using assms(1,2) by auto
  ultimately have "mset (filter (\<lambda>a. a \<notin> set ys) xs @ ys) = mset xs"
    using assms(1) by (intro distinct_set_eq_perm)
  then show ?thesis by simp
qed

lemma drawPlacements_ok:
  assumes rs: "valid_source rs" and ids: "distinct (gi_athleteIds input)"
    and des: "distinct (gi_designatedByeAthleteIds input)"
      "set (gi_designatedByeAthleteIds input) \<subseteq> set (gi_athleteIds input)"
      "length (gi_designatedByeAthleteIds input) \<le> bs_byeCount summary"
    and size: "bs_bracketSize summary = 2 * half" "length (gi_athleteIds input) \<le> 2 * half"
      "half < length (gi_athleteIds input)"
      "bs_byeCount summary = 2 * half - length (gi_athleteIds input)"
  shows "\<exists>ps. drawPlacements rs input summary = Inr ps \<and> drawn input summary ps"
proof -
  let ?ids = "gi_athleteIds input" and ?des = "gi_designatedByeAthleteIds input"
  let ?bye = "bs_byeCount summary" and ?rem = "filter (\<lambda>a. a \<notin> set ?des) ?ids"
  have bye_half: "?bye \<le> half" and bye_le: "?bye \<le> length ?ids" using size by linarith+
  obtain sr k1 where sr: "fisherYatesShuffle rs 0 ?rem = Inr (sr, k1)" and msr: "mset sr = mset ?rem"
    using fisherYates_valid [OF rs] .
  define add where "add = take (?bye - length ?des) sr"
  obtain br k2 where br: "fisherYatesShuffle rs k1 (?des @ add) = Inr (br, k2)"
    and mbr: "mset br = mset (?des @ add)" using fisherYates_valid [OF rs] .
  obtain ce k3 where ce: "fisherYatesShuffle rs k2 (filter (\<lambda>a. a \<notin> set br) ?ids) = Inr (ce, k3)"
    and mce: "mset ce = mset (filter (\<lambda>a. a \<notin> set br) ?ids)" using fisherYates_valid [OF rs] .
  obtain bp k4 where bp: "chooseByePairPositions rs k3 half ?bye = Inr (bp, k4)"
    "distinct bp" "set bp \<subseteq> {0..<half}" "length bp = ?bye"
    using chooseByePairPositions_ok [OF rs bye_half] .
  have len_rem: "length ?rem + length ?des = length ?ids"
    using filter_notin_mset [OF ids des(1,2)] by (metis size_mset size_union)
  have set_sr: "set sr = set ?rem" and dsr: "distinct sr" and lsr: "length sr = length ?rem"
    using msr ids by (metis set_mset_mset, metis distinct_filter mset_eq_imp_distinct_iff,
        metis size_mset)
  have len_add: "length add = ?bye - length ?des"
    using des(3) len_rem lsr bye_le by (simp add: add_def)
  have set_add: "set add \<subseteq> set ?rem" using set_sr set_take_subset add_def by metis
  have d_all: "distinct (?des @ add)"
    using des(1) dsr set_add by (auto simp: add_def)
  have dbr: "distinct br" and sbr: "set br = set ?des \<union> set add" and lbr: "length br = ?bye"
    using mbr d_all len_add des(3)
    by (metis mset_eq_imp_distinct_iff, metis set_append set_mset_mset,
        metis add_diff_inverse_nat length_append not_le size_mset)
  have sub: "set br \<subseteq> set ?ids" using sbr des(2) set_add by auto
  have split: "mset ce + mset br = mset ?ids"
    using filter_notin_mset [OF ids dbr sub] mce by simp
  then have lce: "length ce + ?bye = length ?ids" using lbr by (metis size_mset size_union)
  have cnt: "byePairCount bp 0 half = ?bye" using byePairCount_full [OF bp(2,3)] bp(4) by simp
  have "2 * (half - ?bye) = length ce" using lce size bye_half by linarith
  with lbr cnt have "0 + byePairCount bp 0 half \<le> length br"
    and "0 + 2 * (half - byePairCount bp 0 half) \<le> length ce" by simp_all
  from placePairs_ok [OF this] obtain ps where ps: "placePairs bp br ce half 0 0 0 = Inr ps"
    "map pl_drawPosition ps = [1..<2 * half + 1]" "noDoubleBye (map toAdvancement ps)"
    "byeHolders ps = br" "mset (placedIds ps) = mset br + mset ce"
    using cnt lbr \<open>2 * (half - ?bye) = length ce\<close> by auto
  then have "drawn input summary ps"
    using sbr lbr split size by (simp add: drawn_def add.commute)
  moreover have "drawPlacements rs input summary = Inr ps"
    using sr br ce bp(1) ps(1) size(1)
    by (simp add: drawPlacements_def Let_def add_def [symmetric] createInitialEntrants_def)
  ultimately show ?thesis by blast
qed

end
