(* ===== verification/Bracket_Graph.thy ===== *)
theory Bracket_Graph
  imports Bracket_Draw
begin

text \<open>
  The graph of a built bracket: \<open>pairRound\<close> and \<open>buildRounds\<close> position by position, the
  links \<open>linkDownstreamFixtures\<close> leaves on the fixtures, and the theorems about
  \<open>buildSingleEliminationBracket\<close> and \<open>generateSingleEliminationBracket\<close>.
\<close>

section \<open>Fixture identities\<close>

lemma fixtureId_inject [simp]: "fixtureId r p = fixtureId r' p' \<longleftrightarrow> r = r' \<and> p = p'"
proof
  let ?nodash = "\<lambda>c. c \<noteq> CHR ''-''"
  have nd: "\<And>n c. c \<in> set (showNat n) \<Longrightarrow> c \<noteq> CHR ''-''"
    using showNat_digits by fastforce
  have tw: "takeWhile ?nodash (showNat n @ ''-m'' @ xs) = showNat n" for n xs
    using nd by (subst takeWhile_append2) auto
  assume "fixtureId r p = fixtureId r' p'"
  then have eq: "showNat r @ ''-m'' @ showNat p = showNat r' @ ''-m'' @ showNat p'"
    by (simp add: fixtureId_def)
  then have "showNat r = showNat r'" by (metis tw)
  with eq show "r = r' \<and> p = p'" by simp
qed simp

section \<open>One round\<close>

lemma createFixture_sel [simp]:
  "fx_id (createFixture r p a b) = fixtureId r p"
  "fx_roundNumber (createFixture r p a b) = r"
  "fx_position (createFixture r p a b) = p"
  "fx_downstream (createFixture r p a b) = None"
  "fx_red (createFixture r p a b) = createSlot RED a"
  "fx_blue (createFixture r p a b) = createSlot BLUE b"
  by (simp_all add: createFixture_def)

lemma createSlot_sel [simp]:
  "sl_side (createSlot s a) = s" "sl_source (createSlot s a) = a"
  by (simp_all add: createSlot_def split: advancement.split)

lemma pairRound_Inr_iff: "(\<exists>x. pairRound r p advs = Inr x) \<longleftrightarrow> noDoubleBye advs"
proof (induction r p advs rule: pairRound.induct)
  case (3 r p red blue rest)
  then show ?case
    by (auto split: option.splits simp: Let_def)
qed auto

text \<open>What one round produces: at index \<open>i\<close> either a new fixture for two occupants or the
  single occupant itself.\<close>

lemma pairRound_step:
  assumes "pairRound r p (red # blue # rest) = Inr (fs, nx)"
  obtains fs' nx' where "pairRound r (Suc p) rest = Inr (fs', nx')"
    and "case (red, blue) of
        (Some a, Some b) \<Rightarrow> fs = createFixture r p a b # fs' \<and>
                            nx = Some (FixtureWinner (fixtureId r p)) # nx'
      | (Some a, None) \<Rightarrow> fs = fs' \<and> nx = Some a # nx'
      | (None, Some b) \<Rightarrow> fs = fs' \<and> nx = Some b # nx'
      | (None, None) \<Rightarrow> False"
  using assms by (auto split: option.splits simp: Let_def)

lemma pairRound_length:
  "pairRound r p advs = Inr (fs, nx) \<Longrightarrow> length advs = 2 * length nx"
proof (induction advs arbitrary: p fs nx rule: noDoubleBye.induct)
  case (3 red blue rest)
  from "3.prems" show ?case
    by (rule pairRound_step) (auto split: option.splits dest: "3.IH")
qed auto

lemma pairRound_next:
  "pairRound r p advs = Inr (fs, nx) \<Longrightarrow> i < length nx \<Longrightarrow>
   nx ! i = (case (advs ! (2 * i), advs ! Suc (2 * i)) of
       (Some a, Some b) \<Rightarrow> Some (FixtureWinner (fixtureId r (p + i)))
     | (Some a, None) \<Rightarrow> Some a | (None, Some b) \<Rightarrow> Some b | (None, None) \<Rightarrow> None)
   \<and> nx ! i \<noteq> None"
proof (induction advs arbitrary: p fs nx i rule: noDoubleBye.induct)
  case (3 red blue rest)
  obtain fs' nx' where r: "pairRound r (Suc p) rest = Inr (fs', nx')"
    and c: "case (red, blue) of
        (Some a, Some b) \<Rightarrow> fs = createFixture r p a b # fs' \<and>
                            nx = Some (FixtureWinner (fixtureId r p)) # nx'
      | (Some a, None) \<Rightarrow> fs = fs' \<and> nx = Some a # nx'
      | (None, Some b) \<Rightarrow> fs = fs' \<and> nx = Some b # nx'
      | (None, None) \<Rightarrow> False"
    using "3.prems"(1) by (rule pairRound_step)
  show ?case
  proof (cases i)
    case 0
    with c show ?thesis by (auto split: option.splits)
  next
    case (Suc j)
    with c "3.prems"(2) have eq: "nx ! i = nx' ! j" and j: "j < length nx'"
      by (auto split: option.splits)
    have idx: "(red # blue # rest) ! (2 * i) = rest ! (2 * j)"
      "(red # blue # rest) ! Suc (2 * i) = rest ! Suc (2 * j)" "p + i = Suc p + j"
      using Suc by simp_all
    show ?thesis unfolding eq idx by (rule "3.IH" [OF r j])
  qed
qed auto

lemma pairRound_fixtures:
  "pairRound r p advs = Inr (fs, nx) \<Longrightarrow>
   set fs = {createFixture r (p + i) a b | i a b. i < length nx \<and>
               advs ! (2 * i) = Some a \<and> advs ! Suc (2 * i) = Some b}"
proof (induction advs arbitrary: p fs nx rule: noDoubleBye.induct)
  case (3 red blue rest)
  have shift: "{createFixture r (p + i) a b | i a b. i < Suc n \<and>
        (red # blue # rest) ! (2 * i) = Some a \<and> (red # blue # rest) ! Suc (2 * i) = Some b} =
      {createFixture r p a b | a b. red = Some a \<and> blue = Some b} \<union>
      {createFixture r (Suc p + i) a b | i a b. i < n \<and>
        rest ! (2 * i) = Some a \<and> rest ! Suc (2 * i) = Some b}" (is "?L = ?A \<union> ?B") for n
  proof
    show "?L \<subseteq> ?A \<union> ?B"
    proof
      fix f assume "f \<in> ?L"
      then obtain i a b where "f = createFixture r (p + i) a b" "i < Suc n"
        "(red # blue # rest) ! (2 * i) = Some a" "(red # blue # rest) ! Suc (2 * i) = Some b" by blast
      then show "f \<in> ?A \<union> ?B" by (cases i) auto
    qed
    show "?A \<union> ?B \<subseteq> ?L"
    proof
      fix f assume "f \<in> ?A \<union> ?B"
      then show "f \<in> ?L"
      proof
        assume "f \<in> ?A" then show ?thesis by force
      next
        assume "f \<in> ?B"
        then obtain i a b where "f = createFixture r (Suc p + i) a b" "i < n"
          "rest ! (2 * i) = Some a" "rest ! Suc (2 * i) = Some b" by blast
        then have "f = createFixture r (p + Suc i) a b \<and> Suc i < Suc n \<and>
          (red # blue # rest) ! (2 * Suc i) = Some a \<and>
          (red # blue # rest) ! Suc (2 * Suc i) = Some b" by simp
        then show ?thesis by blast
      qed
    qed
  qed
  obtain fs' nx' where r: "pairRound r (Suc p) rest = Inr (fs', nx')"
    and c: "case (red, blue) of
        (Some a, Some b) \<Rightarrow> fs = createFixture r p a b # fs' \<and>
                            nx = Some (FixtureWinner (fixtureId r p)) # nx'
      | (Some a, None) \<Rightarrow> fs = fs' \<and> nx = Some a # nx'
      | (None, Some b) \<Rightarrow> fs = fs' \<and> nx = Some b # nx'
      | (None, None) \<Rightarrow> False"
    using "3.prems" by (rule pairRound_step)
  have n: "length nx = Suc (length nx')" using c by (auto split: option.splits)
  have "set fs = {createFixture r p a b | a b. red = Some a \<and> blue = Some b} \<union> set fs'"
    using c by (auto split: option.splits)
  then show ?case unfolding n shift "3.IH" [OF r] by simp
qed auto

lemma pairRound_distinct:
  "pairRound r p advs = Inr (fs, nx) \<Longrightarrow>
   distinct (map fx_id fs) \<and> length fs + length nx = length (filter (\<lambda>x. x \<noteq> None) advs)"
proof (induction advs arbitrary: p fs nx rule: noDoubleBye.induct)
  case (3 red blue rest)
  obtain fs' nx' where r: "pairRound r (Suc p) rest = Inr (fs', nx')"
    and c: "case (red, blue) of
        (Some a, Some b) \<Rightarrow> fs = createFixture r p a b # fs' \<and>
                            nx = Some (FixtureWinner (fixtureId r p)) # nx'
      | (Some a, None) \<Rightarrow> fs = fs' \<and> nx = Some a # nx'
      | (None, Some b) \<Rightarrow> fs = fs' \<and> nx = Some b # nx'
      | (None, None) \<Rightarrow> False"
    using "3.prems" by (rule pairRound_step)
  have "fixtureId r p \<notin> fx_id ` set fs'"
    using pairRound_fixtures [OF r] by auto
  with "3.IH" [OF r] c show ?case by (auto split: option.splits)
qed auto

section \<open>Links\<close>

definition slotLink :: "fixture \<Rightarrow> bracket_slot \<Rightarrow> (string \<times> string \<times> side) list" where
  "slotLink f slot = (case sl_source slot of
     Entrant e \<Rightarrow> [] | FixtureWinner src \<Rightarrow> [(src, fx_id f, sl_side slot)])"

definition links :: "fixture list \<Rightarrow> (string \<times> string \<times> side) list" where
  "links fs = concat (map (\<lambda>f. slotLink f (fx_red f) @ slotLink f (fx_blue f)) fs)"

definition relink :: "(string \<times> string \<times> side) list \<Rightarrow> fixture \<Rightarrow> fixture" where
  "relink ls g = (case map_of (rev ls) (fx_id g) of
     None \<Rightarrow> g | Some d \<Rightarrow> g\<lparr>fx_downstream := Some d\<rparr>)"

lemma relink_sel [simp]:
  "fx_id (relink ls g) = fx_id g" "fx_roundNumber (relink ls g) = fx_roundNumber g"
  "fx_position (relink ls g) = fx_position g"
  "fx_red (relink ls g) = fx_red g" "fx_blue (relink ls g) = fx_blue g"
  by (simp_all add: relink_def split: option.split)

lemma relink_append: "relink (a @ b) g = relink b (relink a g)"
  by (auto simp: relink_def map_add_def split: option.splits)

lemma relink_Nil [simp]: "relink [] g = g"
  by (simp add: relink_def)

lemma linkSlot_eq:
  assumes "\<forall>s \<in> fst ` set (slotLink f slot). s \<in> fx_id ` set F"
  shows "linkSlot f slot F = Inr (map (relink (slotLink f slot)) F)"
proof (cases "sl_source slot")
  case (Entrant e)
  then show ?thesis by (simp add: linkSlot_def slotLink_def map_idI)
next
  case (FixtureWinner src)
  with assms show ?thesis
    by (auto simp: linkSlot_def slotLink_def updWhere_def relink_def image_iff)
qed

lemma linkAll_eq:
  "\<forall>s \<in> fst ` set (links fs). s \<in> fx_id ` set F \<Longrightarrow>
   linkAll fs F = Inr (map (relink (links fs)) F)"
proof (induction fs arbitrary: F)
  case Nil
  then show ?case by (simp add: links_def map_idI)
next
  case (Cons f fs)
  let ?R = "slotLink f (fx_red f)" and ?B = "slotLink f (fx_blue f)"
  have ls: "links (f # fs) = ?R @ ?B @ links fs" by (simp add: links_def)
  have ids: "fx_id ` set (map (relink ls) G) = fx_id ` set G" for ls G
    by (simp add: image_image)
  from Cons.prems have red: "\<forall>s \<in> fst ` set ?R. s \<in> fx_id ` set F"
    and blue: "\<forall>s \<in> fst ` set ?B. s \<in> fx_id ` set F"
    and rest: "\<forall>s \<in> fst ` set (links fs). s \<in> fx_id ` set F"
    unfolding ls by auto
  have "linkSlot f (fx_red f) F = Inr (map (relink ?R) F)" by (rule linkSlot_eq [OF red])
  moreover have "linkSlot f (fx_blue f) (map (relink ?R) F) =
      Inr (map (relink ?B) (map (relink ?R) F))"
    by (rule linkSlot_eq) (use blue in \<open>simp only: ids\<close>)
  moreover have "linkAll fs (map (relink ?B) (map (relink ?R) F)) =
      Inr (map (relink (links fs)) (map (relink ?B) (map (relink ?R) F)))"
    by (rule Cons.IH) (use rest in \<open>simp only: ids\<close>)
  ultimately show ?case by (simp add: ls relink_append comp_def)
qed


lemma in_slotLink:
  "(src, tid, s) \<in> set (slotLink f slot) \<longleftrightarrow>
   sl_source slot = FixtureWinner src \<and> tid = fx_id f \<and> s = sl_side slot"
  by (auto simp: slotLink_def split: advancement.splits)

lemma in_links:
  "(src, tid, s) \<in> set (links fs) \<longleftrightarrow>
   (\<exists>f \<in> set fs. fx_id f = tid \<and>
      (sl_source (fx_red f) = FixtureWinner src \<and> s = sl_side (fx_red f) \<or>
       sl_source (fx_blue f) = FixtureWinner src \<and> s = sl_side (fx_blue f)))"
  by (auto simp: links_def in_slotLink)

lemma links_append [simp]: "links (a @ b) = links a @ links b"
  by (simp add: links_def)

text \<open>Where the winner of the occupant of index \<open>i\<close> plays next: the tree position is kept, so
  odd positions feed the red slot and even positions the blue slot.\<close>

definition parentSide :: "nat \<Rightarrow> side" where
  "parentSide position = (if odd position then RED else BLUE)"

definition parentLink :: "nat \<Rightarrow> nat \<Rightarrow> string \<times> side" where
  "parentLink r position = (fixtureId (Suc r) ((position + 1) div 2), parentSide position)"

lemma pairRound_links:
  assumes "pairRound r 1 advs = Inr (fs, nx)" and "(src, t) \<in> set (links fs)"
  shows "\<exists>i < length advs. advs ! i = Some (FixtureWinner src) \<and>
           t = (fixtureId r ((Suc i + 1) div 2), parentSide (Suc i))"
proof -
  obtain tid s where t: "t = (tid, s)" by (cases t)
  from assms(2) t obtain f where f: "f \<in> set fs" "fx_id f = tid"
    and slot: "sl_source (fx_red f) = FixtureWinner src \<and> s = sl_side (fx_red f) \<or>
               sl_source (fx_blue f) = FixtureWinner src \<and> s = sl_side (fx_blue f)"
    by (auto simp: in_links)
  from f(1) pairRound_fixtures [OF assms(1)] obtain j a b where
    fj: "f = createFixture r (1 + j) a b" "j < length nx"
    "advs ! (2 * j) = Some a" "advs ! Suc (2 * j) = Some b" by blast
  have len: "length advs = 2 * length nx" by (rule pairRound_length [OF assms(1)])
  from slot fj(1) have "a = FixtureWinner src \<and> s = RED \<or> b = FixtureWinner src \<and> s = BLUE"
    by auto
  then show ?thesis
  proof
    assume "a = FixtureWinner src \<and> s = RED"
    with fj f(2) t len show ?thesis
      by (intro exI [of _ "2 * j"]) (auto simp: parentSide_def)
  next
    assume "b = FixtureWinner src \<and> s = BLUE"
    with fj f(2) t len show ?thesis
      by (intro exI [of _ "Suc (2 * j)"]) (auto simp: parentSide_def)
  qed
qed

lemma pairRound_links_cover:
  assumes pr: "pairRound r 1 advs = Inr (fs, nx)" and full: "None \<notin> set advs"
    and i: "i < length advs" "advs ! i = Some (FixtureWinner src)"
  shows "src \<in> fst ` set (links fs)"
proof -
  let ?j = "i div 2"
  have len: "length advs = 2 * length nx" by (rule pairRound_length [OF pr])
  with i(1) have j: "?j < length nx" by linarith
  with len have "2 * ?j < length advs" and "Suc (2 * ?j) < length advs" by linarith+
  then have "advs ! (2 * ?j) \<noteq> None" and "advs ! Suc (2 * ?j) \<noteq> None"
    using full by (metis nth_mem)+
  then obtain a b where ab: "advs ! (2 * ?j) = Some a" "advs ! Suc (2 * ?j) = Some b" by blast
  have mem: "createFixture r (1 + ?j) a b \<in> set fs"
    using pairRound_fixtures [OF pr] j ab by blast
  have "i = 2 * ?j \<or> i = Suc (2 * ?j)" by presburger
  with ab i(2) have "a = FixtureWinner src \<or> b = FixtureWinner src" by auto
  with mem have "(src, fixtureId r (1 + ?j), RED) \<in> set (links fs) \<or>
      (src, fixtureId r (1 + ?j), BLUE) \<in> set (links fs)"
    by (force simp: in_links)
  then show ?thesis by force
qed

section \<open>All rounds\<close>

definition good :: "nat \<Rightarrow> advancement option list \<Rightarrow> bool" where
  "good r advs \<longleftrightarrow>
     (\<forall>i < length advs. \<forall>s. advs ! i = Some (FixtureWinner s) \<longrightarrow> s = fixtureId (r - 1) (Suc i)) \<and>
     (None \<in> set advs \<longrightarrow> (\<forall>s. Some (FixtureWinner s) \<notin> set advs))"

lemma pairRound_winner_fixture:
  assumes pr: "pairRound r 1 advs = Inr (fs, nx)" and g: "good r advs"
    and i: "i < length nx" "nx ! i = Some (FixtureWinner s)"
  shows "s = fixtureId r (Suc i) \<and> (\<exists>a b. createFixture r (Suc i) a b \<in> set fs)"
proof -
  have len: "length advs = 2 * length nx" by (rule pairRound_length [OF pr])
  have bounds: "2 * i < length advs" "Suc (2 * i) < length advs" using i(1) len by linarith+
  note nx = pairRound_next [OF pr i(1)]
  show ?thesis
  proof (cases "advs ! (2 * i)")
    case None
    then have "None \<in> set advs" using bounds(1) by (metis nth_mem)
    moreover from None nx i(2) have "advs ! Suc (2 * i) = Some (FixtureWinner s)"
      by (auto split: option.splits)
    then have "Some (FixtureWinner s) \<in> set advs" using bounds(2) by (metis nth_mem)
    ultimately show ?thesis using g by (auto simp: good_def)
  next
    case (Some a)
    show ?thesis
    proof (cases "advs ! Suc (2 * i)")
      case None
      then have "None \<in> set advs" using bounds(2) by (metis nth_mem)
      moreover from None Some nx i(2) have "a = FixtureWinner s" by auto
      then have "Some (FixtureWinner s) \<in> set advs" using Some bounds(1) by (metis nth_mem)
      ultimately show ?thesis using g by (auto simp: good_def)
    next
      case (Some b)
      with \<open>advs ! (2 * i) = Some a\<close> nx i(2) have "s = fixtureId r (Suc i)" by auto
      moreover have "createFixture r (1 + i) a b \<in> set fs"
        using pairRound_fixtures [OF pr] \<open>advs ! (2 * i) = Some a\<close> Some i(1) by blast
      ultimately show ?thesis by auto
    qed
  qed
qed

lemma pairRound_full: "pairRound r p advs = Inr (fs, nx) \<Longrightarrow> None \<notin> set nx"
  by (metis in_set_conv_nth pairRound_next)

lemma good_step:
  assumes "pairRound r 1 advs = Inr (fs, nx)" and "good r advs"
  shows "good (Suc r) nx"
  using pairRound_winner_fixture [OF assms] pairRound_full [OF assms(1)]
  by (auto simp: good_def)

lemma buildRounds_spec:
  assumes "buildRounds n r advs = Inr fs" and "good r advs" and "length advs = 2 ^ n"
    and "0 < r" and "n = 0 \<longrightarrow> None \<notin> set advs"
  shows "(\<forall>f \<in> set fs. r \<le> fx_roundNumber f \<and> fx_roundNumber f < r + n \<and> 1 \<le> fx_position f \<and>
            fx_id f = fixtureId (fx_roundNumber f) (fx_position f) \<and> fx_downstream f = None) \<and>
    distinct (map fx_id fs) \<and>
    length fs + 1 = length (filter (\<lambda>x. x \<noteq> None) advs) \<and>
    (\<forall>src t. (src, t) \<in> set (links fs) \<longrightarrow>
       (\<exists>i < length advs. advs ! i = Some (FixtureWinner src) \<and> t = parentLink (r - 1) (Suc i)) \<or>
       (\<exists>f \<in> set fs. fx_id f = src \<and> t = parentLink (fx_roundNumber f) (fx_position f))) \<and>
    (\<forall>f \<in> set fs. Suc (fx_roundNumber f) < r + n \<longrightarrow> fx_id f \<in> fst ` set (links fs))"
  using assms
proof (induction n arbitrary: r advs fs)
  case 0
  then have "length advs = 1" and "None \<notin> set advs" by simp_all
  then have "length (filter (\<lambda>x. x \<noteq> None) advs) = 1"
    by (cases advs) auto
  with 0 show ?case by (simp add: links_def)
next
  case (Suc n)
  from Suc.prems(1) obtain f1 nx gs where pr: "pairRound r 1 advs = Inr (f1, nx)"
    and br: "buildRounds n (Suc r) nx = Inr gs" and fs: "fs = f1 @ gs" by auto
  have full: "None \<notin> set nx" by (rule pairRound_full [OF pr])
  have len: "length nx = 2 ^ n" using pairRound_length [OF pr] Suc.prems(3) by simp
  have gn: "good (Suc r) nx" by (rule good_step [OF pr Suc.prems(2)])
  have fa: "filter (\<lambda>x. x \<noteq> None) nx = nx"
    by (rule filter_True) (use full in metis)
  have IH_raw: "(\<forall>f \<in> set gs. Suc r \<le> fx_roundNumber f \<and> fx_roundNumber f < Suc r + n \<and>
            1 \<le> fx_position f \<and>
            fx_id f = fixtureId (fx_roundNumber f) (fx_position f) \<and> fx_downstream f = None) \<and>
    distinct (map fx_id gs) \<and>
    length gs + 1 = length (filter (\<lambda>x. x \<noteq> None) nx) \<and>
    (\<forall>src t. (src, t) \<in> set (links gs) \<longrightarrow>
       (\<exists>i < length nx. nx ! i = Some (FixtureWinner src) \<and> t = parentLink (Suc r - 1) (Suc i)) \<or>
       (\<exists>f \<in> set gs. fx_id f = src \<and> t = parentLink (fx_roundNumber f) (fx_position f))) \<and>
    (\<forall>f \<in> set gs. Suc (fx_roundNumber f) < Suc r + n \<longrightarrow> fx_id f \<in> fst ` set (links gs))"
    by (rule Suc.IH [OF br gn len]) (use full in simp_all)
  note IH = IH_raw [THEN conjunct1] IH_raw [THEN conjunct2, THEN conjunct1]
    IH_raw [THEN conjunct2, THEN conjunct2, THEN conjunct1]
    IH_raw [THEN conjunct2, THEN conjunct2, THEN conjunct2, THEN conjunct1]
    IH_raw [THEN conjunct2, THEN conjunct2, THEN conjunct2, THEN conjunct2]
  have r1: "\<forall>f \<in> set f1. fx_roundNumber f = r \<and> 1 \<le> fx_position f \<and> fx_position f \<le> length nx \<and>
      fx_id f = fixtureId r (fx_position f) \<and> fx_downstream f = None"
    using pairRound_fixtures [OF pr] by auto
  have "\<forall>f \<in> set fs. r \<le> fx_roundNumber f \<and> fx_roundNumber f < r + Suc n \<and> 1 \<le> fx_position f \<and>
            fx_id f = fixtureId (fx_roundNumber f) (fx_position f) \<and> fx_downstream f = None"
    using r1 IH(1) unfolding fs by fastforce
  moreover have "distinct (map fx_id fs)"
    using pairRound_distinct [OF pr] IH(1,2) r1 unfolding fs by fastforce
  moreover have "length fs + 1 = length (filter (\<lambda>x. x \<noteq> None) advs)"
    using pairRound_distinct [OF pr] IH(3) fa unfolding fs by simp
  moreover have "\<exists>i < length advs. advs ! i = Some (FixtureWinner src) \<and> t = parentLink (r - 1) (Suc i)"
    if "(src, t) \<in> set (links f1)" for src t
    using pairRound_links [OF pr that] Suc.prems(4) by (auto simp: parentLink_def)
  moreover have "\<exists>f \<in> set fs. fx_id f = src \<and> t = parentLink (fx_roundNumber f) (fx_position f)"
    if "(src, t) \<in> set (links gs)" for src t
    using IH(4) [rule_format, OF that]
  proof
    assume "\<exists>i < length nx. nx ! i = Some (FixtureWinner src) \<and> t = parentLink (Suc r - 1) (Suc i)"
    then obtain i where i: "i < length nx" "nx ! i = Some (FixtureWinner src)"
      "t = parentLink r (Suc i)" by auto
    from pairRound_winner_fixture [OF pr Suc.prems(2) i(1,2)] obtain a b where
      "src = fixtureId r (Suc i)" "createFixture r (Suc i) a b \<in> set f1" by auto
    then show ?thesis using i(3) unfolding fs by force
  next
    assume "\<exists>f \<in> set gs. fx_id f = src \<and> t = parentLink (fx_roundNumber f) (fx_position f)"
    then show ?thesis unfolding fs by auto
  qed
  moreover have "fx_id f \<in> fst ` set (links fs)"
    if f: "f \<in> set fs" and lt: "Suc (fx_roundNumber f) < r + Suc n" for f
  proof (cases "f \<in> set gs")
    case True
    then show ?thesis using IH(5) lt unfolding fs by auto
  next
    case False
    with f have f1: "f \<in> set f1" unfolding fs by simp
    with r1 lt obtain m where n: "n = Suc m" by (cases n) auto
    with br obtain f2 nx2 hs where pr2: "pairRound (Suc r) 1 nx = Inr (f2, nx2)"
      and gs: "gs = f2 @ hs" by auto
    from f1 pairRound_fixtures [OF pr] obtain i a b where i: "f = createFixture r (1 + i) a b"
      "i < length nx" "advs ! (2 * i) = Some a" "advs ! Suc (2 * i) = Some b" by blast
    with pairRound_next [OF pr i(2)] have "nx ! i = Some (FixtureWinner (fx_id f))" by simp
    from pairRound_links_cover [OF pr2 full i(2) this] show ?thesis
      unfolding fs gs by auto
  qed
  ultimately show ?case unfolding fs links_append set_append by blast
qed

lemma noDoubleBye_full: "None \<notin> set xs \<Longrightarrow> even (length xs) \<Longrightarrow> noDoubleBye xs"
  by (induction xs rule: noDoubleBye.induct) auto

lemma buildRounds_total:
  "noDoubleBye advs \<Longrightarrow> length advs = 2 ^ n \<Longrightarrow> 0 < n \<Longrightarrow> \<exists>fs. buildRounds n r advs = Inr fs"
proof (induction n arbitrary: r advs)
  case (Suc n)
  from Suc.prems(1) obtain fs nx where pr: "pairRound r 1 advs = Inr (fs, nx)"
    using pairRound_Inr_iff [of r 1 advs] by auto
  have full: "None \<notin> set nx" by (rule pairRound_full [OF pr])
  have len: "length nx = 2 ^ n" using pairRound_length [OF pr] Suc.prems(2) by simp
  show ?case
  proof (cases "n = 0")
    case True
    with pr show ?thesis by simp
  next
    case False
    then have "noDoubleBye nx" using noDoubleBye_full [OF full] len by simp
    with Suc.IH [OF _ len, of "Suc r"] False obtain gs where "buildRounds n (Suc r) nx = Inr gs" by auto
    with pr show ?thesis by simp
  qed
qed simp

lemma buildRounds_noDoubleBye: "buildRounds (Suc n) r advs = Inr fs \<Longrightarrow> noDoubleBye advs"
  using pairRound_Inr_iff [of r 1 advs] by auto

lemma buildRounds_counts:
  assumes "buildRounds n r advs = Inr fs" and "None \<notin> set advs" and "length advs = 2 ^ n" and "j < n"
    and "good r advs" and "0 < r"
  shows "length (filter (\<lambda>f. fx_roundNumber f = r + j) fs) = 2 ^ (n - Suc j)"
  using assms
proof (induction n arbitrary: r advs fs j)
  case (Suc n)
  from Suc.prems(1) obtain f1 nx gs where pr: "pairRound r 1 advs = Inr (f1, nx)"
    and br: "buildRounds n (Suc r) nx = Inr gs" and fs: "fs = f1 @ gs" by auto
  have full: "None \<notin> set nx" by (rule pairRound_full [OF pr])
  have len: "length nx = 2 ^ n" using pairRound_length [OF pr] Suc.prems(3) by simp
  have gn: "good (Suc r) nx" by (rule good_step [OF pr Suc.prems(5)])
  have fa: "filter (\<lambda>x. x \<noteq> None) advs = advs"
    by (rule filter_True) (use Suc.prems(2) in metis)
  have l1: "length f1 = 2 ^ n"
    using pairRound_distinct [OF pr] fa len Suc.prems(3) by simp
  have r1: "\<And>f. f \<in> set f1 \<Longrightarrow> fx_roundNumber f = r"
    using pairRound_fixtures [OF pr] by auto
  have r2: "\<And>f. f \<in> set gs \<Longrightarrow> Suc r \<le> fx_roundNumber f"
    using buildRounds_spec [OF br gn len] full by auto
  show ?case
  proof (cases j)
    case 0
    have "filter (\<lambda>f. fx_roundNumber f = r) f1 = f1" by (rule filter_True) (use r1 in auto)
    moreover have "filter (\<lambda>f. fx_roundNumber f = r) gs = []"
      by (rule filter_False) (use r2 in fastforce)
    ultimately show ?thesis using 0 l1 unfolding fs by simp
  next
    case (Suc i)
    have "filter (\<lambda>f. fx_roundNumber f = r + Suc i) f1 = []"
      by (rule filter_False) (use r1 in auto)
    then show ?thesis
      using Suc.IH [OF br full len _ gn, of i] Suc.prems(4) Suc unfolding fs by simp
  qed
qed simp

lemma toAdvancement_not_winner [simp]:
  "toAdvancement p \<noteq> Some (FixtureWinner s)" "Some (FixtureWinner s) \<noteq> toAdvancement p"
  by (cases "pl_athleteId p"; simp add: toAdvancement_def)+

lemma good_initial: "good 1 (map toAdvancement ps)"
  by (auto simp: good_def)

lemma count_placed: "length (filter (\<lambda>x. x \<noteq> None) (map toAdvancement ps)) = length (placedIds ps)"
  by (induction ps) (auto split: option.splits simp: toAdvancement_def)

text \<open>The checks of \<open>buildSingleEliminationBracket\<close> as one predicate, with the exponent
  of the bracket size made explicit.\<close>

definition placementsOk :: "nat \<Rightarrow> placement list \<Rightarrow> bool" where
  "placementsOk k ps \<longleftrightarrow> 0 < k \<and> length ps = 2 ^ k \<and> 2 ^ (k - 1) < length (placedIds ps) \<and>
     length (placedIds ps) \<le> 64 \<and> distinct (placedIds ps) \<and>
     map pl_drawPosition ps = [1..<length ps + 1] \<and> noDoubleBye (map toAdvancement ps)"

lemma placedIds_length_le: "length (placedIds ps) \<le> length ps"
  by (induction ps) (auto split: option.splits)

lemma drawPositions_iff:
  "map pl_drawPosition ps = [1..<length ps + 1] \<longleftrightarrow>
   \<not> (\<exists>i < length ps. pl_drawPosition (ps ! i) \<noteq> i + 1)"
proof -
  have e: "[1..<length ps + 1] = map Suc [0..<length ps]" by (simp only: map_Suc_upt One_nat_def add_Suc_right add_0_right)
  have "map pl_drawPosition ps = map Suc [0..<length ps] \<longleftrightarrow>
      (\<forall>i < length ps. map pl_drawPosition ps ! i = map Suc [0..<length ps] ! i)"
    by (simp only: list_eq_iff_nth_eq length_map length_upt diff_zero simp_thms)
  also have "\<dots> \<longleftrightarrow> (\<forall>i < length ps. pl_drawPosition (ps ! i) = i + 1)"
    by (intro all_cong) simp
  finally show ?thesis unfolding e by blast
qed

text \<open>The core of the construction: the fixtures, before and after linking.\<close>

lemma linkDownstream_ok:
  assumes br: "buildRounds k 1 (map toAdvancement ps) = Inr fs"
    and len: "length ps = 2 ^ k" and k: "0 < k"
  shows "linkDownstreamFixtures fs = Inr (map (relink (links fs)) fs)"
    and "\<And>f. f \<in> set fs \<Longrightarrow> fx_downstream (relink (links fs) f) =
      (if fx_roundNumber f = k then None
       else Some (parentLink (fx_roundNumber f) (fx_position f)))"
proof -
  have len': "length (map toAdvancement ps) = 2 ^ k" using len by simp
  have noF: "map toAdvancement ps ! i \<noteq> Some (FixtureWinner s)" if "i < length ps" for i s
    using that by (simp add: toAdvancement_def)
  have spec: "(\<forall>f \<in> set fs. 1 \<le> fx_roundNumber f \<and> fx_roundNumber f < 1 + k \<and> 1 \<le> fx_position f \<and>
            fx_id f = fixtureId (fx_roundNumber f) (fx_position f) \<and> fx_downstream f = None) \<and>
    distinct (map fx_id fs) \<and>
    length fs + 1 = length (filter (\<lambda>x. x \<noteq> None) (map toAdvancement ps)) \<and>
    (\<forall>src t. (src, t) \<in> set (links fs) \<longrightarrow>
       (\<exists>i < length (map toAdvancement ps). map toAdvancement ps ! i = Some (FixtureWinner src) \<and>
          t = parentLink (1 - 1) (Suc i)) \<or>
       (\<exists>f \<in> set fs. fx_id f = src \<and> t = parentLink (fx_roundNumber f) (fx_position f))) \<and>
    (\<forall>f \<in> set fs. Suc (fx_roundNumber f) < 1 + k \<longrightarrow> fx_id f \<in> fst ` set (links fs))"
    by (rule buildRounds_spec [OF br good_initial len']) (use k in simp_all)
  have rng: "fx_roundNumber f \<le> k \<and>
      fx_id f = fixtureId (fx_roundNumber f) (fx_position f) \<and> fx_downstream f = None"
    if "f \<in> set fs" for f using spec [THEN conjunct1, rule_format, OF that] by simp
  have cov: "fx_id f \<in> fst ` set (links fs)" if "f \<in> set fs" "fx_roundNumber f < k" for f
    using spec [THEN conjunct2, THEN conjunct2, THEN conjunct2, THEN conjunct2, rule_format, OF that(1)]
      that(2) by linarith
  have src: "\<exists>f \<in> set fs. fx_id f = src \<and> t = parentLink (fx_roundNumber f) (fx_position f)"
    if "(src, t) \<in> set (links fs)" for src t
    using spec [THEN conjunct2, THEN conjunct2, THEN conjunct2, THEN conjunct1, rule_format, OF that]
      noF by auto
  show "linkDownstreamFixtures fs = Inr (map (relink (links fs)) fs)"
    unfolding linkDownstreamFixtures_def by (rule linkAll_eq) (use src in force)
  fix f assume f: "f \<in> set fs"
  have top: "Suc (fx_roundNumber g) \<le> k" if "(src', t) \<in> set (links fs)" "g \<in> set fs"
    "fx_id g = src'" for src' t g
  proof -
    obtain tid s where t: "t = (tid, s)" by (cases t)
    from src [OF that(1)] obtain h where h: "h \<in> set fs" "fx_id h = src'"
      "t = parentLink (fx_roundNumber h) (fx_position h)" by blast
    have "fixtureId (fx_roundNumber h) (fx_position h) = fixtureId (fx_roundNumber g) (fx_position g)"
      using rng [OF h(1)] rng [OF that(2)] h(2) that(3) by metis
    then have same: "fx_roundNumber h = fx_roundNumber g" by (simp add: fixtureId_inject)
    from that(1) t obtain q where q: "q \<in> set fs" "fx_id q = tid" by (auto simp: in_links)
    with h(3) t rng [OF q(1)] have "fx_roundNumber q = Suc (fx_roundNumber h)"
      by (simp add: parentLink_def)
    with rng [OF q(1)] same show ?thesis by simp
  qed
  show "fx_downstream (relink (links fs) f) = (if fx_roundNumber f = k then None
       else Some (parentLink (fx_roundNumber f) (fx_position f)))"
  proof (cases "fx_roundNumber f = k")
    case True
    have "fx_id f \<notin> fst ` set (links fs)"
    proof
      assume "fx_id f \<in> fst ` set (links fs)"
      then obtain t where "(fx_id f, t) \<in> set (links fs)" by force
      from top [OF this f refl] True show False by simp
    qed
    then have "map_of (rev (links fs)) (fx_id f) = None"
      by (simp add: map_of_eq_None_iff)
    with True rng [OF f] show ?thesis by (simp add: relink_def)
  next
    case False
    with rng [OF f] have "fx_id f \<in> fst ` set (rev (links fs))" using cov [OF f] by simp
    then obtain t where t: "map_of (rev (links fs)) (fx_id f) = Some t"
      by (metis map_of_eq_None_iff not_Some_eq)
    then have "(fx_id f, t) \<in> set (links fs)" by (metis map_of_SomeD set_rev)
    from src [OF this] obtain g where "g \<in> set fs" "fx_id g = fx_id f"
      "t = parentLink (fx_roundNumber g) (fx_position g)" by blast
    moreover from this(1,2) have "fixtureId (fx_roundNumber g) (fx_position g) = fixtureId (fx_roundNumber f) (fx_position f)"
      using rng [of g] rng [OF f] by metis
    ultimately have "t = parentLink (fx_roundNumber f) (fx_position f)" by (simp add: fixtureId_inject)
    with t False show ?thesis by (simp add: relink_def)
  qed
qed


section \<open>The built bracket\<close>

text \<open>The graph properties of a generated bracket with \<open>k\<close> rounds.\<close>

definition bracketGraph :: "nat \<Rightarrow> generated_bracket \<Rightarrow> bool" where
  "bracketGraph k g \<longleftrightarrow>
     distinct (map fx_id (gb_fixtures g)) \<and>
     length (gb_fixtures g) + 1 = gb_athleteCount g \<and>
     gb_totalFixtureCount g = length (gb_fixtures g) \<and>
     gb_roundCount g = k \<and> gb_bracketSize g = 2 ^ k \<and>
     gb_byeCount g + gb_athleteCount g = 2 ^ k \<and>
     (\<forall>f \<in> set (gb_fixtures g).
        1 \<le> fx_roundNumber f \<and> fx_roundNumber f \<le> k \<and>
        fx_id f = fixtureId (fx_roundNumber f) (fx_position f) \<and>
        fx_downstream f = (if fx_roundNumber f = k then None
          else Some (parentLink (fx_roundNumber f) (fx_position f))))"

lemma build_iff:
  "(\<exists>g. buildSingleEliminationBracket ps = Inr g) \<longleftrightarrow> (\<exists>k. placementsOk k ps)" (is "?L \<longleftrightarrow> ?R")
proof
  assume ?L
  then obtain g where g: "buildSingleEliminationBracket ps = Inr g" by blast
  let ?n = "length (placedIds ps)"
  from g obtain s fs where dp: "map pl_drawPosition ps = [1..<length ps + 1]"
    and d: "distinct (placedIds ps)" and s: "summarizeBracket ?n = Inr s"
    and sz: "bs_bracketSize s = length ps"
    and br: "buildRounds (bs_roundCount s) 1 (map toAdvancement ps) = Inr fs"
    unfolding drawPositions_iff
    by (auto simp: buildSingleEliminationBracket_def Let_def split: if_splits)
  from summarizeBracket_InrD [OF s] have n: "2 \<le> ?n" "?n \<le> 64" by auto
  obtain k s' where k: "summarizeBracket ?n = Inr s'" "bs_bracketSize s' = 2 ^ k"
    "bs_roundCount s' = k" "0 < k" "?n \<le> 2 ^ k" "2 ^ (k - 1) < ?n"
    using n by (rule summarizeBracket_ok) blast
  obtain m where m: "k = Suc m" using k(4) by (cases k) auto
  have "noDoubleBye (map toAdvancement ps)"
  proof (rule buildRounds_noDoubleBye)
    from k(1) s have "s' = s" by simp
    with br k(3) m show "buildRounds (Suc m) 1 (map toAdvancement ps) = Inr fs" by (simp only:)
  qed
  with k n d dp sz s have "placementsOk k ps" by (simp add: placementsOk_def)
  then show ?R ..
next
  assume ?R
  then obtain k where ok: "placementsOk k ps" ..
  let ?n = "length (placedIds ps)"
  have n: "?n \<le> 64" "?n \<le> 2 ^ k" "2 ^ (k - 1) < ?n"
    using ok placedIds_length_le [of ps] by (simp_all add: placementsOk_def del: upt_Suc)
  moreover from n(3) one_le_power [of "2::nat" "k - 1"] have "2 \<le> ?n" by linarith
  ultimately have "2 \<le> ?n" "?n \<le> 64" "?n \<le> 2 ^ k" "2 ^ (k - 1) < ?n" by simp_all
  then obtain s where s: "summarizeBracket ?n = Inr s" "bs_bracketSize s = 2 ^ k" "bs_roundCount s = k"
  proof -
    assume that: "\<And>s. summarizeBracket ?n = Inr s \<Longrightarrow> bs_bracketSize s = 2 ^ k \<Longrightarrow>
      bs_roundCount s = k \<Longrightarrow> thesis" and b: "2 \<le> ?n" "?n \<le> 64" "?n \<le> 2 ^ k" "2 ^ (k - 1) < ?n"
    obtain j s where j: "summarizeBracket ?n = Inr s" "bs_bracketSize s = 2 ^ j" "bs_roundCount s = j"
      "0 < j" "?n \<le> 2 ^ j" "2 ^ (j - 1) < ?n" using b(1,2) by (rule summarizeBracket_ok) blast
    have "(2::nat) ^ (j - 1) < 2 ^ k" and "(2::nat) ^ (k - 1) < 2 ^ j"
      using j(5,6) b(3,4) by linarith+
    then have "j - 1 < k" and "k - 1 < j" by simp_all
    then have "j = k" using j(4) ok by (auto simp: placementsOk_def)
    with j that show thesis by blast
  qed
  obtain fs where br: "buildRounds k 1 (map toAdvancement ps) = Inr fs"
    using buildRounds_total [of "map toAdvancement ps" k 1] ok by (auto simp: placementsOk_def)
  have len: "length ps = 2 ^ k" and k: "0 < k" using ok by (auto simp: placementsOk_def)
  have "2 \<le> length ps" using len k by (cases k) auto
  then show ?L
    using ok s br linkDownstream_ok(1) [OF br len k] \<open>2 \<le> ?n\<close> power_and_pred [of k]
    unfolding placementsOk_def drawPositions_iff
    by (auto simp: buildSingleEliminationBracket_def Let_def)
qed

lemma build_graph:
  assumes "buildSingleEliminationBracket ps = Inr g"
  obtains k where "placementsOk k ps" and "bracketGraph k g" and "gb_initialEntrants g = ps"
    and "gb_athleteCount g = length (placedIds ps)"
proof -
  from assms obtain k where ok: "placementsOk k ps" using build_iff by blast
  let ?n = "length (placedIds ps)"
  from assms obtain s fs lk where s: "summarizeBracket ?n = Inr s"
    and sz: "bs_bracketSize s = length ps"
    and br: "buildRounds (bs_roundCount s) 1 (map toAdvancement ps) = Inr fs"
    and lk: "linkDownstreamFixtures fs = Inr lk"
    and g: "gb_fixtures g = lk" "gb_athleteCount g = ?n" "gb_totalFixtureCount g = bs_totalFixtureCount s"
      "gb_roundCount g = bs_roundCount s" "gb_bracketSize g = length ps" "gb_byeCount g = bs_byeCount s"
      "gb_initialEntrants g = ps"
    by (auto simp: buildSingleEliminationBracket_def Let_def split: if_splits)
  have len: "length ps = 2 ^ k" and k: "0 < k" using ok by (auto simp: placementsOk_def)
  from summarizeBracket_InrD [OF s] obtain j where j: "bs_bracketSize s = 2 ^ j" "bs_roundCount s = j"
    "?n \<le> 2 ^ j" "bs_byeCount s = 2 ^ j - ?n" "bs_totalFixtureCount s = ?n - 1"
    using summarizeBracket_ok [of ?n] s by (metis Inr_inject)
  with sz len have jk: "j = k" by simp
  note br = br [unfolded j(2) jk]
  have lk_eq: "lk = map (relink (links fs)) fs" using linkDownstream_ok(1) [OF br len k] lk by simp
  have len': "length (map toAdvancement ps) = 2 ^ k" using len by simp
  note spec = buildRounds_spec [OF br good_initial len']
  have ids: "map fx_id lk = map fx_id fs" by (simp add: lk_eq)
  have cnt: "length fs + 1 = ?n" using spec k count_placed by simp
  have "\<forall>f \<in> set fs. 1 \<le> fx_roundNumber f \<and> fx_roundNumber f < 1 + k \<and>
      fx_id f = fixtureId (fx_roundNumber f) (fx_position f)" using spec [THEN conjunct1] k by simp
  then have "\<forall>f \<in> set lk. 1 \<le> fx_roundNumber f \<and> fx_roundNumber f \<le> k \<and>
        fx_id f = fixtureId (fx_roundNumber f) (fx_position f) \<and>
        fx_downstream f = (if fx_roundNumber f = k then None
          else Some (parentLink (fx_roundNumber f) (fx_position f)))"
    using linkDownstream_ok(2) [OF br len k] by (auto simp: lk_eq)
  moreover have "distinct (map fx_id lk)" using spec k ids by simp
  moreover have "length lk = length fs" by (simp add: lk_eq)
  ultimately have "bracketGraph k g"
    using g j jk len cnt by (simp add: bracketGraph_def)
  with ok g that show thesis by blast
qed

lemma fold_addFixtureToRound:
  "fold addFixtureToRound fs m r =
     (if \<exists>f \<in> set fs. fx_roundNumber f = r
      then Some ((case m r of None \<Rightarrow> [] | Some gs \<Rightarrow> gs) @ filter (\<lambda>f. fx_roundNumber f = r) fs)
      else m r)"
  by (induction fs arbitrary: m) (auto simp: addFixtureToRound_def Let_def split: option.splits)

lemma createRounds_filter:
  "createRounds k (fold addFixtureToRound fs Map.empty) =
   map (\<lambda>r. \<lparr> rd_roundNumber = r, rd_label = bracketRoundLabel r k,
              rd_fixtures = filter (\<lambda>f. fx_roundNumber f = r) fs \<rparr>) [1..<k + 1]"
proof -
  have "[1..<k + 1] = map Suc [0..<k]"
    by (simp only: map_Suc_upt One_nat_def add_Suc_right add_0_right)
  moreover have "(case fold addFixtureToRound fs Map.empty r of None \<Rightarrow> [] | Some gs \<Rightarrow> gs) =
      filter (\<lambda>f. fx_roundNumber f = r) fs" for r
    by (auto simp: fold_addFixtureToRound filter_empty_conv)
  ultimately show ?thesis by (simp add: createRounds_def del: upt_Suc)
qed

lemma filter_relink_length:
  "length (filter (\<lambda>f. fx_roundNumber f = r) (map (relink ls) fs)) =
   length (filter (\<lambda>f. fx_roundNumber f = r) fs)"
  by (induction fs) (simp_all add: relink_def split: option.split)

lemma buildRounds_later_counts:
  assumes "buildRounds (Suc n) 1 advs = Inr fs" and "length advs = 2 ^ Suc n"
    and "good 1 advs" and "j < n"
  shows "length (filter (\<lambda>f. fx_roundNumber f = 2 + j) fs) = 2 ^ (n - Suc j)"
proof -
  from assms(1) obtain f1 nx gs where pr: "pairRound 1 1 advs = Inr (f1, nx)"
    and br: "buildRounds n (Suc 1) nx = Inr gs" and fs: "fs = f1 @ gs" by auto
  have len: "length nx = 2 ^ n" using pairRound_length [OF pr] assms(2) by simp
  have "filter (\<lambda>f. fx_roundNumber f = 2 + j) f1 = []"
    by (rule filter_False) (use pairRound_fixtures [OF pr] in auto)
  then show ?thesis
    using buildRounds_counts [OF br pairRound_full [OF pr] len assms(4) good_step [OF pr assms(3)]]
    unfolding fs by simp
qed

lemma sum_filter_rounds:
  assumes "\<forall>f \<in> set fs. 1 \<le> fx_roundNumber f \<and> fx_roundNumber f \<le> Suc n"
  shows "length fs = (\<Sum>r = 1..Suc n. length (filter (\<lambda>f. fx_roundNumber f = r) fs))"
  using assms
proof (induction fs)
  case (Cons f fs)
  have "(\<Sum>r = 1..Suc n. length (filter (\<lambda>g. fx_roundNumber g = r) (f # fs))) =
     (\<Sum>r = 1..Suc n. (if r = fx_roundNumber f then 1 else 0) + length (filter (\<lambda>g. fx_roundNumber g = r) fs))"
    by (rule sum.cong) auto
  also have "\<dots> = 1 + length fs" using Cons by (simp add: sum.distrib sum.delta)
  finally show ?case by simp
qed simp

lemma buildRounds_first_count:
  assumes br: "buildRounds (Suc n) 1 advs = Inr fs" and len: "length advs = 2 ^ Suc n"
    and g: "good 1 advs"
  shows "length (filter (\<lambda>f. fx_roundNumber f = 1) fs) + 2 ^ n = length (filter (\<lambda>x. x \<noteq> None) advs)"
proof -
  from br obtain f1 nx gs where pr: "pairRound 1 1 advs = Inr (f1, nx)"
    and gs: "buildRounds n (Suc 1) nx = Inr gs" and fs: "fs = f1 @ gs" by auto
  have ln: "length nx = 2 ^ n" using pairRound_length [OF pr] len by simp
  have "filter (\<lambda>f. fx_roundNumber f = 1) f1 = f1"
    by (rule filter_True) (use pairRound_fixtures [OF pr] in auto)
  moreover have "\<forall>f \<in> set gs. Suc 1 \<le> fx_roundNumber f"
    using buildRounds_spec [OF gs good_step [OF pr g] ln] pairRound_full [OF pr] by simp
  then have "filter (\<lambda>f. fx_roundNumber f = 1) gs = []" by (intro filter_False) auto
  ultimately show ?thesis using pairRound_distinct [OF pr] ln unfolding fs by simp
qed

lemma build_parts:
  assumes "buildSingleEliminationBracket ps = Inr g" and "placementsOk k ps"
  obtains fs where "buildRounds k 1 (map toAdvancement ps) = Inr fs"
    and "gb_fixtures g = map (relink (links fs)) fs"
    and "gb_rounds g = createRounds k (fold addFixtureToRound (gb_fixtures g) Map.empty)"
    and "gb_firstRoundMatchCount g = length (placedIds ps) - 2 ^ (k - 1)"
proof -
  let ?n = "length (placedIds ps)"
  from assms(1) obtain s fs lk where s: "summarizeBracket ?n = Inr s"
    and sz: "bs_bracketSize s = length ps"
    and br: "buildRounds (bs_roundCount s) 1 (map toAdvancement ps) = Inr fs"
    and lk: "linkDownstreamFixtures fs = Inr lk"
    and g: "gb_fixtures g = lk" "gb_rounds g = createRounds (bs_roundCount s) (fold addFixtureToRound lk Map.empty)"
      "gb_firstRoundMatchCount g = bs_firstRoundFixtureCount s"
    by (auto simp: buildSingleEliminationBracket_def Let_def split: if_splits)
  have len: "length ps = 2 ^ k" and k: "0 < k" using assms(2) by (auto simp: placementsOk_def)
  from summarizeBracket_InrD [OF s] obtain j where j: "bs_bracketSize s = 2 ^ j" "bs_roundCount s = j"
    "bs_firstRoundFixtureCount s = ?n - 2 ^ (j - 1)"
    using summarizeBracket_ok [of ?n] s by (metis Inr_inject)
  with sz len have jk: "j = k" by simp
  note br = br [unfolded j(2) jk]
  have "lk = map (relink (links fs)) fs" using linkDownstream_ok(1) [OF br len k] lk by simp
  with br g j jk that show thesis by simp
qed

lemma placementsOk_unique: "placementsOk k ps \<Longrightarrow> placementsOk j ps \<Longrightarrow> j = k"
  by (auto simp: placementsOk_def)

text \<open>The inputs a draw accepts.\<close>

definition drawable :: "generate_input \<Rightarrow> bool" where
  "drawable input \<longleftrightarrow>
     (let n = length (gi_athleteIds input); d = gi_designatedByeAthleteIds input in
      2 \<le> n \<and> n \<le> 64 \<and> distinct (gi_athleteIds input) \<and>
      (case gi_maxAthletes input of None \<Rightarrow> True | Some m \<Rightarrow> int n \<le> m) \<and>
      distinct d \<and> set d \<subseteq> set (gi_athleteIds input) \<and> length d \<le> nextPowerOfTwo n - n)"

lemma drawable_generates:
  assumes rs: "valid_source rs" and d: "drawable input"
  obtains g k where "generateSingleEliminationBracket rs input = Inr g" and "bracketGraph k g"
    and "mset (placedIds (gb_initialEntrants g)) = mset (gi_athleteIds input)"
    and "set (gi_designatedByeAthleteIds input) \<subseteq> set (byeHolders (gb_initialEntrants g))"
    and "length (byeHolders (gb_initialEntrants g)) = gb_byeCount g"
    and "gb_athleteCount g = length (gi_athleteIds input)"
proof -
  let ?n = "length (gi_athleteIds input)"
  from d have n: "2 \<le> ?n" "?n \<le> 64" by (simp_all add: drawable_def Let_def)
  then obtain k s where s: "summarizeBracket ?n = Inr s" "bs_bracketSize s = 2 ^ k"
    "bs_roundCount s = k" "0 < k" "?n \<le> 2 ^ k" "2 ^ (k - 1) < ?n" "bs_byeCount s = 2 ^ k - ?n"
    by (rule summarizeBracket_ok) blast
  have np: "nextPowerOfTwo ?n - ?n = bs_byeCount s"
    using s(1) n by (auto simp: summarizeBracket_def Let_def split: if_splits)
  have two: "(2::nat) ^ k = 2 * 2 ^ (k - 1)" using s(4) by (cases k) auto
  from d np have des: "distinct (gi_athleteIds input)" "distinct (gi_designatedByeAthleteIds input)"
    "set (gi_designatedByeAthleteIds input) \<subseteq> set (gi_athleteIds input)"
    "length (gi_designatedByeAthleteIds input) \<le> bs_byeCount s"
    by (simp_all add: drawable_def Let_def)
  obtain ps where ps: "drawPlacements rs input s = Inr ps" "drawn input s ps"
    using drawPlacements_ok [OF rs des(1,2,3,4), of "2 ^ (k - 1)"] s two by auto
  from ps(2) have dr: "map pl_drawPosition ps = [1..<2 ^ k + 1]" "noDoubleBye (map toAdvancement ps)"
    "mset (placedIds ps) = mset (gi_athleteIds input)"
    "set (gi_designatedByeAthleteIds input) \<subseteq> set (byeHolders ps)"
    "length (byeHolders ps) = bs_byeCount s"
    using s(2) by (simp_all only: drawn_def)
  have lp: "length ps = 2 ^ k" using arg_cong [OF dr(1), of length] by (simp del: upt_Suc)
  have lid: "length (placedIds ps) = ?n" using dr(3) by (metis size_mset)
  have "distinct (placedIds ps)" using dr(3) des(1) by (metis mset_eq_imp_distinct_iff)
  then have ok: "placementsOk k ps" using s n dr lp lid by (simp add: placementsOk_def del: upt_Suc)
  then obtain g where g: "buildSingleEliminationBracket ps = Inr g" using build_iff by blast
  obtain j where j: "placementsOk j ps" "bracketGraph j g" "gb_initialEntrants g = ps"
    "gb_athleteCount g = length (placedIds ps)" using g by (rule build_graph)
  have "gb_byeCount g = bs_byeCount s"
    using j lid lp s(5,7) by (auto simp: bracketGraph_def placementsOk_def)
  moreover have "generateSingleEliminationBracket rs input = Inr g"
    using d s ps g np n by (auto simp: generateSingleEliminationBracket_def assertValidAthletes_def
      assertValidDesignatedByes_def drawable_def Let_def split: option.splits)
  ultimately show thesis using that j dr lid by simp
qed

lemma shuffleFrom_cong:
  "(\<And>n m. k \<le> n \<Longrightarrow> rs n m = rs' n m) \<Longrightarrow> shuffleFrom rs i k (xs :: 'a list) = shuffleFrom rs' i k xs"
proof (induction i arbitrary: k xs)
  case (Suc i)
  have "shuffleFrom rs i (Suc k) zs = shuffleFrom rs' i (Suc k) zs" for zs :: "'a list"
    by (rule Suc.IH) (rule Suc.prems, simp)
  moreover have "nextRandomIndex rs k (Suc (Suc i)) = nextRandomIndex rs' k (Suc (Suc i))"
    using Suc.prems by (simp add: nextRandomIndex_def)
  ultimately show ?case by simp
qed simp

lemma shuffleFrom_onto:
  assumes "Suc i = length xs" and "mset ys = mset xs"
  shows "\<exists>rs k'. valid_source rs \<and> shuffleFrom rs i k (xs @ zs) = Inr (ys @ zs, k')"
  using assms
proof (induction i arbitrary: xs ys zs k)
  case 0
  then obtain x where "xs = [x]" by (cases xs) auto
  with 0 have "ys = xs" by simp
  moreover have "valid_source (\<lambda>_ _. 0)" by (simp add: valid_source_def)
  ultimately show ?case by auto
next
  case (Suc i)
  have ly: "length ys = Suc (Suc i)" using Suc.prems by (metis size_mset)
  then have y: "ys ! Suc i \<in> set xs" using Suc.prems(2) by (metis lessI nth_mem set_mset_mset)
  then obtain j where j: "j < length xs" "xs ! j = ys ! Suc i" by (metis in_set_conv_nth)
  let ?w = "xs[Suc i := xs ! j, j := xs ! Suc i]"
  have mw: "mset ?w = mset xs" using Suc.prems(1) j(1) by (intro swap_mset) simp_all
  have wl: "?w ! Suc i = ys ! Suc i" using Suc.prems(1) j by (cases "j = Suc i") simp_all
  have lw: "length ?w = Suc (Suc i)" using Suc.prems(1) by simp
  have split: "take (Suc i) ?w @ [ys ! Suc i] = ?w" "take (Suc i) ys @ [ys ! Suc i] = ys"
    using wl lw ly by (metis Suc_n_not_le_n append_Nil2 lessI linorder_not_le take_Suc_conv_app_nth take_all_iff order_refl)+
  have "mset (take (Suc i) ys) + {#ys ! Suc i#} = mset (take (Suc i) ?w) + {#ys ! Suc i#}"
    using arg_cong [OF split(1), of mset] arg_cong [OF split(2), of mset] mw Suc.prems(2) by simp
  then have "mset (take (Suc i) ys) = mset (take (Suc i) ?w)" by simp
  from Suc.IH [OF _ this, of "Suc k" "ys ! Suc i # zs"] lw
  obtain rs k' where rs: "valid_source rs" and
    sh: "shuffleFrom rs i (Suc k) (take (Suc i) ?w @ ys ! Suc i # zs) = Inr (take (Suc i) ys @ ys ! Suc i # zs, k')"
    by auto
  define rs' where "rs' = (\<lambda>n m. if n = k then (if j < m then int j else 0) else rs n m)"
  have v: "valid_source rs'" using rs by (auto simp: valid_source_def rs'_def)
  have nx: "nextRandomIndex rs' k (Suc (Suc i)) = Inr j"
    using j(1) Suc.prems(1) by (simp add: nextRandomIndex_def rs'_def)
  have "shuffleFrom rs' i (Suc k) (?w @ zs) = shuffleFrom rs i (Suc k) (?w @ zs)"
    by (rule shuffleFrom_cong) (simp add: rs'_def)
  also have "\<dots> = Inr (ys @ zs, k')"
    using sh split by (metis append.assoc append_Cons append_Nil)
  finally have "shuffleFrom rs' i (Suc k) (?w @ zs) = Inr (ys @ zs, k')" .
  moreover have "(xs @ zs)[Suc i := (xs @ zs) ! j, j := (xs @ zs) ! Suc i] = ?w @ zs"
    using j(1) Suc.prems(1) by (simp add: nth_append list_update_append)
  ultimately have "shuffleFrom rs' (Suc i) k (xs @ zs) = Inr (ys @ zs, k')" using nx by simp
  with v show ?case by blast
qed

lemma fisherYates_onto:
  assumes "mset ys = mset xs"
  shows "\<exists>rs k'. valid_source rs \<and> fisherYatesShuffle rs k xs = Inr (ys, k')"
proof (cases xs)
  case Nil
  moreover have "valid_source (\<lambda>_ _. 0)" by (simp add: valid_source_def)
  ultimately show ?thesis using assms by (auto simp: fisherYatesShuffle_def)
next
  case (Cons x xs')
  then show ?thesis using shuffleFrom_onto [of "length xs'" xs ys k "[]"] assms
    by (simp add: fisherYatesShuffle_def)
qed

lemma bracketGraph_count: "bracketGraph k g \<Longrightarrow> length (gb_fixtures g) + 1 = gb_athleteCount g"
  by (simp add: bracketGraph_def)

section \<open>Properties\<close>

text \<open>C4: under a random source that keeps its bound, drawing a bracket succeeds exactly for
  2 to 64 distinct athletes (no more than the optional maximum) whose designated byes are
  distinct, among them and no more than the byes of the draw. Then every athlete is placed
  exactly once, the designated athletes hold byes, the number of bye holders is the bracket
  size less the athletes, and the fixtures form the single-elimination graph of the draw.\<close>

theorem generate_draws_exactly_valid_input:
  assumes "valid_source rs"
  shows "if drawable input
    then \<exists>g k. generateSingleEliminationBracket rs input = Inr g \<and> bracketGraph k g \<and>
      gb_athleteCount g = length (gi_athleteIds input) \<and>
      mset (placedIds (gb_initialEntrants g)) = mset (gi_athleteIds input) \<and>
      set (gi_designatedByeAthleteIds input) \<subseteq> set (byeHolders (gb_initialEntrants g)) \<and>
      length (byeHolders (gb_initialEntrants g)) = gb_byeCount g
    else \<exists>e. generateSingleEliminationBracket rs input = Inl e"
proof (cases "drawable input")
  case True
  from assms True obtain g k where "generateSingleEliminationBracket rs input = Inr g"
    "bracketGraph k g" "mset (placedIds (gb_initialEntrants g)) = mset (gi_athleteIds input)"
    "set (gi_designatedByeAthleteIds input) \<subseteq> set (byeHolders (gb_initialEntrants g))"
    "length (byeHolders (gb_initialEntrants g)) = gb_byeCount g"
    "gb_athleteCount g = length (gi_athleteIds input)" by (rule drawable_generates)
  with True show ?thesis by auto
next
  case False
  then have "generateSingleEliminationBracket rs input \<noteq> Inr g" for g
    by (auto simp: generateSingleEliminationBracket_def drawable_def Let_def assertValidAthletes_def
        assertValidDesignatedByes_def summarizeBracket_def MAX_BRACKET_ATHLETES_def
        split: if_splits option.splits)
  with False show ?thesis by (cases "generateSingleEliminationBracket rs input") auto
qed

theorem generate_draws_exactly_valid_input_witness:
  "\<exists>g k. generateSingleEliminationBracket (\<lambda>_ _. 0)
       \<lparr> gi_athleteIds = [1, 2, 3], gi_designatedByeAthleteIds = [2], gi_maxAthletes = Some 8 \<rparr> = Inr g \<and>
     bracketGraph k g \<and> length (gb_fixtures g) = 2 \<and> 2 \<in> set (byeHolders (gb_initialEntrants g))"
proof -
  have "nextPowerOfTwo 3 = 4"
    by (simp add: nextPowerOfTwo_def doubleUntil.simps [of "Suc 0"] doubleUntil.simps [of 2] doubleUntil.simps [of 4])
  then have "drawable \<lparr> gi_athleteIds = [1, 2, 3], gi_designatedByeAthleteIds = [2], gi_maxAthletes = Some 8 \<rparr>"
    by (simp add: drawable_def numeral_3_eq_3 [symmetric])
  then show ?thesis
    using generate_draws_exactly_valid_input [of "\<lambda>_ _. 0"
      "\<lparr> gi_athleteIds = [1, 2, 3], gi_designatedByeAthleteIds = [2], gi_maxAthletes = Some 8 \<rparr>"]
    by (force simp: valid_source_def dest: bracketGraph_count)
qed

text \<open>A list of opening placements is accepted exactly when its length is the least power
  of two that holds its athletes, the athletes are 2 to 64 and distinct, the draw positions
  are 1, 2, 3 and so on, and no opening pair consists of two byes; every other list is
  rejected with an error.\<close>

theorem build_accepts_iff_placementsOk:
  "(\<exists>g. buildSingleEliminationBracket ps = Inr g) \<longleftrightarrow> (\<exists>k. placementsOk k ps)"
  by (rule build_iff)

text \<open>In a built bracket the fixture ids are distinct, there is one fixture fewer than
  athletes, byes and athletes fill the bracket, and every fixture of a round before the last
  feeds the fixture at half its position in the next round, on the red side for odd and the
  blue side for even positions, while a last-round fixture feeds none.\<close>

theorem build_yields_single_elimination_graph:
  assumes "buildSingleEliminationBracket ps = Inr g"
  shows "\<exists>k. placementsOk k ps \<and> bracketGraph k g \<and> gb_initialEntrants g = ps \<and>
    gb_athleteCount g = length (placedIds ps)"
  using assms by (rule build_graph) blast

theorem build_yields_single_elimination_graph_witness:
  "\<exists>g k. buildSingleEliminationBracket
      [\<lparr> pl_drawPosition = 1, pl_athleteId = Some 7 \<rparr>, \<lparr> pl_drawPosition = 2, pl_athleteId = Some 9 \<rparr>]
      = Inr g \<and> bracketGraph k g \<and> gb_athleteCount g = 2"
proof -
  let ?ps = "[\<lparr> pl_drawPosition = 1, pl_athleteId = Some 7 \<rparr>, \<lparr> pl_drawPosition = 2, pl_athleteId = Some 9 \<rparr>]"
  have "placementsOk 1 ?ps" by (simp add: placementsOk_def upt_rec)
  then obtain g where g: "buildSingleEliminationBracket ?ps = Inr g" using build_iff by blast
  from build_yields_single_elimination_graph [OF g] g show ?thesis by auto
qed

text \<open>the rounds of a built bracket are the rounds 1 to k in order, each holding exactly
  the fixtures of its number in the order they were made; the first round holds the announced
  number of matches, the later round r holds two to the power k - r.\<close>

theorem build_rounds_partition_fixtures:
  assumes "buildSingleEliminationBracket ps = Inr g" and "placementsOk k ps"
  shows "gb_rounds g = map (\<lambda>r. \<lparr> rd_roundNumber = r, rd_label = bracketRoundLabel r k,
              rd_fixtures = filter (\<lambda>f. fx_roundNumber f = r) (gb_fixtures g) \<rparr>) [1..<k + 1] \<and>
    length (filter (\<lambda>f. fx_roundNumber f = 1) (gb_fixtures g)) = gb_firstRoundMatchCount g \<and>
    (\<forall>r. 2 \<le> r \<and> r \<le> k \<longrightarrow>
       length (filter (\<lambda>f. fx_roundNumber f = r) (gb_fixtures g)) = 2 ^ (k - r))"
proof -
  obtain fs where fs: "buildRounds k 1 (map toAdvancement ps) = Inr fs"
    "gb_fixtures g = map (relink (links fs)) fs"
    "gb_rounds g = createRounds k (fold addFixtureToRound (gb_fixtures g) Map.empty)"
    "gb_firstRoundMatchCount g = length (placedIds ps) - 2 ^ (k - 1)"
    using assms by (rule build_parts)
  obtain n where n: "k = Suc n" using assms(2) by (cases k) (auto simp: placementsOk_def)
  have len: "length (map toAdvancement ps) = 2 ^ Suc n" using assms(2) n by (simp add: placementsOk_def)
  note br = fs(1) [unfolded n]
  have one: "length (filter (\<lambda>f. fx_roundNumber f = 1) fs) + 2 ^ n = length (placedIds ps)"
    using buildRounds_first_count [OF br len good_initial] by (simp only: count_placed)
  have "length (filter (\<lambda>f. fx_roundNumber f = r) fs) = 2 ^ (k - r)" if "2 \<le> r" "r \<le> k" for r
    using buildRounds_later_counts [OF br len good_initial, of "r - 2"] that n
    by (simp add: Suc_diff_Suc numeral_2_eq_2)
  with one n fs(4) show ?thesis
    by (simp add: fs(3) fs(2) createRounds_filter filter_relink_length [unfolded filter_map length_map]
        filter_map del: upt_Suc)
qed

theorem build_rounds_partition_fixtures_witness:
  "\<exists>g. buildSingleEliminationBracket
      [\<lparr> pl_drawPosition = 1, pl_athleteId = Some 7 \<rparr>, \<lparr> pl_drawPosition = 2, pl_athleteId = Some 9 \<rparr>]
      = Inr g \<and> length (filter (\<lambda>f. fx_roundNumber f = 1) (gb_fixtures g)) = gb_firstRoundMatchCount g"
proof -
  let ?ps = "[\<lparr> pl_drawPosition = 1, pl_athleteId = Some 7 \<rparr>, \<lparr> pl_drawPosition = 2, pl_athleteId = Some 9 \<rparr>]"
  have ok: "placementsOk 1 ?ps" by (simp add: placementsOk_def upt_rec)
  then obtain g where g: "buildSingleEliminationBracket ?ps = Inr g" using build_iff by blast
  from build_rounds_partition_fixtures [OF g ok] g show ?thesis by blast
qed

text \<open>The results of a shuffle under the random sources that keep their bound are exactly
  the permutations of its input: none is lost, none repeated and none out of reach.\<close>

theorem fisherYatesShuffle_permutes:
  "(\<exists>rs k'. valid_source rs \<and> fisherYatesShuffle rs k xs = Inr (ys, k')) \<longleftrightarrow> mset ys = mset xs"
  using fisherYates_mset fisherYates_onto by blast

end
