(* ===== verification/Domain.thy ===== *)
theory Domain
  imports Bracket_Generator
begin

text \<open>
  The persistent state of the API, after \<open>apps/api/prisma/schema.prisma\<close>: enums as
  datatypes, tables as lists of row records in insertion order, and the database as one
  record. Ids are numbers, dates are milliseconds. A column that no modelled operation
  reads (creation and update stamps, names, images) is left out. The unique indexes of the
  migrations that the operations can hit are the conflict predicates at the end; an insert
  that hits one throws, as PostgreSQL does. Audit rows keep their actor, event type and
  metadata object.
\<close>

section \<open>Enums\<close>

datatype match_status =
    WAITING | ROUND_1_RUNNING | ROUND_1_PAUSED | BREAK | ROUND_2_RUNNING | ROUND_2_PAUSED
  | AWAITING_RESULT_SAVE | REGULATION_APPEAL | OVERTIME_READY | OVERTIME_RUNNING
  | OVERTIME_PAUSED | OVERTIME_APPEAL | OVERTIME_TIEBREAK_DECISION
  | RESULT_PUBLICATION_READY | FINISHED

datatype match_lifecycle = NOT_STARTED | IN_PROGRESS | SUSPENDED | LC_COMPLETED

datatype round_stage = REGULATION | OVERTIME

datatype rules_version = LEGACY_SCORE_PENALTY_V1 | FAULT_APPEAL_OVERTIME_V2

datatype appeal_status = AP_COMPLETED | AP_INVALIDATED

datatype outcome_method = REGULATION_SCORE | OVERTIME_SCORE | MANUAL_AFTER_OVERTIME_TIE

datatype match_role = JUDGE | SUPERVISOR

datatype judge_slot = JUDGE_1 | JUDGE_2 | JUDGE_3

datatype access_role = AR_JUDGE_1 | AR_JUDGE_2 | AR_JUDGE_3 | AR_SUPERVISOR

datatype score_event_type = JUDGE_POINT | PENALTY | ADMIN_ADJUSTMENT

datatype fault_severity = MINOR | MAJOR

datatype operation_type =
    ROUND_RESET | MATCH_RESET | MATCH_EXIT_CANCEL_RESULTS
  | MATCH_EXIT_SUSPEND_KEEP_ROUND_1 | MATCH_EXIT_SUSPEND_KEEP_ROUNDS_1_AND_2

datatype operation_status = APPLIED | UNDONE

datatype release_reason =
    RR_MATCH_FINISHED | RR_OPERATIONAL_CANCELLED | RR_MATCH_EXIT_CANCELLED
  | RR_MATCH_EXIT_SUSPENDED_KEEP_ROUND_1 | RR_MATCH_EXIT_SUSPENDED_KEEP_ROUNDS_1_AND_2
  | RR_RESET_REQUIRES_SETUP | RR_SUPERVISOR_RELEASED | RR_REPLACED | RR_OFFICIAL_DEACTIVATED

datatype tournament_status = T_DRAFT | T_ACTIVE | T_FINISHED | T_ARCHIVED

datatype bracket_status = B_ACTIVE | B_COMPLETED | B_CANCELLED

datatype fixture_status = PENDING_PARTICIPANTS | READY | MATCH_PREPARED | AWAITING_WINNER | FX_COMPLETED

datatype audit_event =
    ADMIN_ACTION | MATCH_ACTION | SESSION_ACTION | SCORE_ACTION | PENALTY_ACTION | SYSTEM_EVENT
  | TOURNAMENT_CREATED | TOURNAMENT_UPDATED | EV_MATCH_CREATED | MATCH_UPDATED | MATCH_CODE_REGENERATED
  | EV_ROUND_STARTED | EV_ROUND_PAUSED | EV_ROUND_RESUMED | ROUND_RESULT_CANCELLED
  | ROUND_RESULT_CANCEL_UNDONE | MATCH_RESULT_RESET | MATCH_RESULT_RESET_UNDONE | MATCH_EXITED
  | EV_ROUND_ENDED | EV_MATCH_FINISHED | PRICING_VERSION_CREATED | BRACKET_CONFIRMED
  | BRACKET_MATCH_PREPARED | BRACKET_WINNER_ADVANCED | BRACKET_WINNER_MANUALLY_DECIDED
  | BRACKET_WINNER_RETRACTED | BRACKET_COMPLETED | BRACKET_CANCELLED | TOURNAMENT_OFFICIAL_CREATED
  | TOURNAMENT_OFFICIAL_UPDATED | TOURNAMENT_OFFICIAL_DEACTIVATED
  | TOURNAMENT_OFFICIAL_PASSCODE_REGENERATED | MATCH_SUPERVISOR_CLAIMED
  | MATCH_OFFICIAL_ASSIGNMENT_CONFIRMED | MATCH_OFFICIAL_ASSIGNMENT_REPLACED
  | MATCH_OFFICIAL_ASSIGNMENT_RELEASED | BRACKET_ROUND_STAFFING_UPDATED

text \<open>\<open>orderBy\<close> on an enum column follows the declaration order of the enum.\<close>

instantiation round_stage :: linorder
begin

definition less_eq_round_stage :: "round_stage \<Rightarrow> round_stage \<Rightarrow> bool" where
  "less_eq_round_stage a b \<longleftrightarrow> a = REGULATION \<or> b = OVERTIME"

definition less_round_stage :: "round_stage \<Rightarrow> round_stage \<Rightarrow> bool" where
  "less_round_stage a b \<longleftrightarrow> a = REGULATION \<and> b = OVERTIME"

instance
proof
  fix x y z :: round_stage
  show "x < y \<longleftrightarrow> x \<le> y \<and> \<not> y \<le> x" and "x \<le> x" and "x \<le> y \<or> y \<le> x"
    and "x \<le> y \<Longrightarrow> y \<le> z \<Longrightarrow> x \<le> z" and "x \<le> y \<Longrightarrow> y \<le> x \<Longrightarrow> x = y"
    by (cases x; cases y; cases z; simp add: less_eq_round_stage_def less_round_stage_def)+
qed

end

instantiation side :: linorder
begin

definition less_eq_side :: "side \<Rightarrow> side \<Rightarrow> bool" where
  "less_eq_side a b \<longleftrightarrow> a = RED \<or> b = BLUE"

definition less_side :: "side \<Rightarrow> side \<Rightarrow> bool" where
  "less_side a b \<longleftrightarrow> a = RED \<and> b = BLUE"

instance
proof
  fix x y z :: side
  show "x < y \<longleftrightarrow> x \<le> y \<and> \<not> y \<le> x" and "x \<le> x" and "x \<le> y \<or> y \<le> x"
    and "x \<le> y \<Longrightarrow> y \<le> z \<Longrightarrow> x \<le> z" and "x \<le> y \<Longrightarrow> y \<le> x \<Longrightarrow> x = y"
    by (cases x; cases y; cases z; simp add: less_eq_side_def less_side_def)+
qed

end

section \<open>JSON columns\<close>

datatype jval =
    JNull | JBool bool | JInt int | JStr string | JId uuid | JDate time
  | JStatus match_status | JStage round_stage | JColor side | JReason release_reason
  | JFixture fixture_status | JLifecycle match_lifecycle | JMethod outcome_method | JSlot judge_slot | JRole match_role
  | JSeverity fault_severity | JList "jval list" | JObj "(string \<times> jval) list"

definition jOpt :: "('a \<Rightarrow> jval) \<Rightarrow> 'a option \<Rightarrow> jval" where
  "jOpt f x = (case x of None \<Rightarrow> JNull | Some y \<Rightarrow> f y)"

section \<open>Rows\<close>

record match_row =
  m_id :: uuid
  m_publicId :: string
  m_tournamentId :: uuid
  m_weightClassId :: "uuid option"
  m_bracketFixtureId :: "uuid option"
  m_requiredJudgeCount :: nat
  m_status :: match_status
  m_lifecycle :: match_lifecycle
  m_rulesVersion :: rules_version
  m_suspendedAt :: "time option"
  m_currentRound :: "nat option"
  m_roundDurationMs :: int
  m_intermissionEndsAt :: "time option"
  m_startedAt :: "time option"
  m_finishedAt :: "time option"

record tournament_row =
  t_id :: uuid
  t_publicCode :: string
  t_name :: string
  t_sportGroupCode :: string
  t_status :: tournament_status
  t_softDeletedAt :: "time option"

record weight_class_row =
  wc_id :: uuid
  wc_tournamentId :: uuid
  wc_name :: string
  wc_normalizedName :: string
  wc_details :: "string option"
  wc_intermissionDurationSeconds :: int
  wc_isActive :: bool
  wc_deactivatedAt :: "time option"

record athlete_row =
  ta_id :: uuid
  ta_tournamentId :: uuid
  ta_organizationId :: "uuid option"
  ta_weightClassId :: uuid
  ta_name :: string
  ta_birthYear :: int
  ta_details :: "string option"
  ta_imagePath :: "string option"
  ta_isSeed :: bool
  ta_isActive :: bool
  ta_deactivatedAt :: "time option"
  ta_updatedAt :: time

record organization_row =
  og_id :: uuid
  og_tournamentId :: uuid
  og_name :: string
  og_normalizedName :: string
  og_normalizedLocation :: string
  og_location :: "string option"
  og_details :: "string option"
  og_isActive :: bool
  og_deactivatedAt :: "time option"
  og_updatedAt :: time

record match_athlete_row =
  ma_id :: uuid
  ma_matchId :: uuid
  ma_athleteId :: "uuid option"
  ma_color :: side

record round_row =
  r_id :: uuid
  r_matchId :: uuid
  r_roundNumber :: nat
  r_stage :: round_stage
  r_attemptNumber :: nat
  r_durationMs :: "int option"
  r_startedAt :: time
  r_endsAt :: time
  r_pausedAt :: "time option"
  r_remainingDurationMs :: "int option"
  r_endedAt :: "time option"
  r_createdAt :: time
  r_invalidatedAt :: "time option"
  r_invalidatedByAuditId :: "uuid option"

record window_row =
  w_id :: uuid
  w_matchId :: uuid
  w_roundNumber :: nat
  w_roundId :: "uuid option"
  w_roundElapsedMs :: "int option"
  w_startedAt :: time
  w_endsAt :: time
  w_resolvedAt :: "time option"
  w_winningColor :: "side option"
  w_scoreAwarded :: bool
  w_createdAt :: time
  w_invalidatedAt :: "time option"
  w_invalidatedByAuditId :: "uuid option"

record vote_row =
  v_scoringWindowId :: uuid
  v_matchId :: uuid
  v_judgeSlot :: "judge_slot option"
  v_athleteColor :: side
  v_sessionId :: "uuid option"
  v_assignmentId :: "uuid option"
  v_serverReceivedAt :: time
  v_invalidatedAt :: "time option"
  v_invalidatedByAuditId :: "uuid option"

record score_event_row =
  s_matchId :: uuid
  s_athleteId :: uuid
  s_roundNumber :: "nat option"
  s_roundId :: "uuid option"
  s_occurredAt :: "time option"
  s_roundElapsedMs :: "int option"
  s_type :: score_event_type
  s_value :: int
  s_scoringWindowId :: "uuid option"
  s_penaltyId :: "uuid option"
  s_createdAt :: time
  s_revertedAt :: "time option"
  s_revertedByAuditId :: "uuid option"

record penalty_row =
  p_id :: uuid
  p_matchId :: uuid
  p_athleteId :: uuid
  p_roundNumber :: "nat option"
  p_value :: int
  p_createdBySessionId :: "uuid option"
  p_createdAt :: time
  p_revertedAt :: "time option"
  p_revertedByAuditId :: "uuid option"

record fault_row =
  f_id :: uuid
  f_matchId :: uuid
  f_athleteId :: uuid
  f_roundId :: uuid
  f_severity :: fault_severity
  f_assignmentId :: "uuid option"
  f_sessionId :: "uuid option"
  f_createdAt :: time
  f_invalidatedAt :: "time option"
  f_invalidatedByAuditId :: "uuid option"

record round_result_row =
  x_matchId :: uuid
  x_roundId :: uuid
  x_athleteId :: uuid
  x_judgePoints :: int
  x_faultCount :: nat
  x_capturedAt :: time
  x_invalidatedAt :: "time option"
  x_invalidatedByAuditId :: "uuid option"

record appeal_row =
  ap_id :: uuid
  ap_matchId :: uuid
  ap_scope :: round_stage
  ap_attemptNumber :: nat
  ap_status :: appeal_status
  ap_sourceRoundId :: uuid
  ap_assignmentId :: "uuid option"
  ap_sessionId :: "uuid option"
  ap_completedAt :: time
  ap_idempotencyKey :: "string option"
  ap_invalidatedAt :: "time option"
  ap_invalidatedByAuditId :: "uuid option"

record adjustment_row =
  aj_appealId :: uuid
  aj_athleteId :: uuid
  aj_baseJudgeScore :: int
  aj_bonusPoints :: int
  aj_penaltyPoints :: int
  aj_finalScore :: int

record decision_row =
  d_matchId :: uuid
  d_winnerAthleteId :: uuid
  d_winnerColor :: side
  d_sourceAppealId :: uuid
  d_sourceOvertimeRoundId :: uuid
  d_assignmentId :: "uuid option"
  d_sessionId :: "uuid option"
  d_selectedAt :: time
  d_invalidatedAt :: "time option"
  d_invalidatedByAuditId :: "uuid option"

record outcome_row =
  o_matchId :: uuid
  o_winnerAthleteId :: uuid
  o_winnerColor :: side
  o_method :: outcome_method
  o_sourceAppealId :: "uuid option"
  o_sourceOvertimeRoundId :: "uuid option"
  o_assignmentId :: "uuid option"
  o_sessionId :: "uuid option"
  o_publishedAt :: time

record publication_response =
  pr_matchId :: uuid
  pr_matchPublicId :: string
  pr_tournamentId :: uuid
  pr_releasedOfficialIds :: "uuid list"
  pr_winner :: side
  pr_method :: outcome_method
  pr_finishedAt :: time

record publication_row =
  pb_matchId :: uuid
  pb_idempotencyKey :: string
  pb_fingerprint :: string
  pb_response :: publication_response
  pb_createdAt :: time

record operation_row =
  op_id :: uuid
  op_matchId :: uuid
  op_auditLogId :: uuid
  op_type :: operation_type
  op_roundNumbers :: "nat list"
  op_previousStatus :: match_status
  op_previousLifecycle :: match_lifecycle
  op_previousCurrentRound :: "nat option"
  op_previousStartedAt :: "time option"
  op_previousFinishedAt :: "time option"
  op_resultingStatus :: match_status
  op_resultingLifecycle :: match_lifecycle
  op_resultingCurrentRound :: "nat option"
  op_createdBySessionId :: "uuid option"
  op_status :: operation_status
  op_createdAt :: time
  op_undoneAt :: "time option"

record assignment_row =
  as_id :: uuid
  as_matchId :: uuid
  as_tournamentId :: uuid
  as_officialId :: uuid
  as_role :: match_role
  as_judgePosition :: "nat option"
  as_assignedBySupervisorId :: "uuid option"
  as_releasedAt :: "time option"
  as_releaseReason :: "release_reason option"

record official_row =
  of_id :: uuid
  of_tournamentId :: uuid
  of_role :: match_role
  of_name :: string
  of_normalizedName :: string
  of_passcodeHash :: string
  of_passcodeLookupDigest :: string
  of_isActive :: bool
  of_deactivatedAt :: "time option"

record official_session_row =
  os_id :: uuid
  os_officialId :: uuid
  os_deviceId :: string
  os_tokenHash :: string
  os_active :: bool
  os_lastSeenAt :: "time option"
  os_expiresAt :: "time option"
  os_revokedAt :: "time option"

record match_session_row =
  ms_id :: uuid
  ms_matchId :: uuid
  ms_accessCodeId :: uuid
  ms_role :: match_role
  ms_judgeSlot :: "judge_slot option"
  ms_deviceId :: string
  ms_tokenHash :: string
  ms_active :: bool
  ms_createdAt :: time
  ms_lastSeenAt :: "time option"
  ms_expiresAt :: "time option"
  ms_revokedAt :: "time option"

record access_code_row =
  ac_id :: uuid
  ac_matchId :: uuid
  ac_role :: access_role
  ac_codeHash :: string

record bracket_row =
  b_id :: uuid
  b_tournamentId :: uuid
  b_weightClassId :: uuid
  b_status :: bracket_status
  b_athleteCount :: nat
  b_bracketSize :: nat
  b_roundCount :: nat
  b_confirmationKey :: string
  b_confirmationFingerprint :: string
  b_confirmedByUserId :: "uuid option"
  b_completedAt :: "time option"
  b_cancelledAt :: "time option"
  b_championEntrantId :: "uuid option"

record entrant_row =
  e_id :: uuid
  e_bracketId :: uuid
  e_athleteId :: uuid
  e_snapshotName :: string
  e_snapshotBirthYear :: int
  e_snapshotOrganization :: "string option"
  e_snapshotImagePath :: "string option"
  e_initialRoundNumber :: nat
  e_initialFixturePosition :: nat
  e_initialSide :: side
  e_receivedBye :: bool

record fixture_row =
  bf_id :: uuid
  bf_bracketId :: uuid
  bf_roundNumber :: nat
  bf_position :: nat
  bf_displayReference :: string
  bf_status :: fixture_status
  bf_winnerEntrantId :: "uuid option"
  bf_winnerDecision :: jval

record slot_row =
  sb_id :: uuid
  sb_fixtureId :: uuid
  sb_side :: side
  sb_directEntrantId :: "uuid option"
  sb_sourceFixtureId :: "uuid option"
  sb_resolvedEntrantId :: "uuid option"

record staffing_row =
  rs_id :: uuid
  rs_bracketId :: uuid
  rs_roundNumber :: nat
  rs_requiredJudgeCount :: nat

record decide_result =
  dr_fixtureId :: uuid
  dr_winnerEntrantId :: uuid
  dr_bracketId :: uuid

record idempotency_row =
  bi_fixtureId :: uuid
  bi_key :: string
  bi_entrantId :: uuid
  bi_requestFingerprint :: string
  bi_response :: decide_result

datatype import_issue =
    NameRequired | BirthYearOutOfRange | LocalityRequired | WeightClassMissing | CurrentBracketExists
  | DuplicateRow | AlreadyRegistered | WeightClassInactive | ImportUniqueViolation

datatype import_status = IMPORT_ELIGIBLE | IMPORT_INVALID | IMPORT_CREATED | IMPORT_FAILED

datatype athlete_import_status = ATHLETE_PENDING | ATHLETE_CREATED | ATHLETE_INVALID | ATHLETE_FAILED

datatype unit_status = UNIT_EXISTING | UNIT_CREATED | UNIT_RESTORED | UNIT_PENDING | UNIT_INVALID

record import_result =
  ir_inputIndex :: nat
  ir_rowNumber :: nat
  ir_status :: import_status
  ir_errors :: "import_issue list"
  ir_unitName :: string
  ir_unitLocality :: string
  ir_unitStatus :: unit_status
  ir_unitErrors :: "import_issue list"
  ir_athleteName :: string
  ir_athleteStatus :: athlete_import_status
  ir_athleteErrors :: "import_issue list"

record import_confirmation_row =
  ic_tournamentId :: uuid
  ic_actorId :: uuid
  ic_key :: string
  ic_fingerprint :: string
  ic_results :: "import_result list"

record audit_row =
  a_id :: "uuid option"
  a_eventType :: audit_event
  a_matchId :: "uuid option"
  a_adminUserId :: "uuid option"
  a_sessionId :: "uuid option"
  a_officialSessionId :: "uuid option"
  a_metadata :: jval

section \<open>The database\<close>

record db =
  matches :: "match_row list"
  tournaments :: "tournament_row list"
  weightClasses :: "weight_class_row list"
  matchAthletes :: "match_athlete_row list"
  rounds :: "round_row list"
  windows :: "window_row list"
  votes :: "vote_row list"
  scoreEvents :: "score_event_row list"
  penalties :: "penalty_row list"
  faults :: "fault_row list"
  roundResults :: "round_result_row list"
  appeals :: "appeal_row list"
  appealRounds :: "(uuid \<times> uuid) list"
  adjustments :: "adjustment_row list"
  decisions :: "decision_row list"
  outcomes :: "outcome_row list"
  publications :: "publication_row list"
  operations :: "operation_row list"
  assignments :: "assignment_row list"
  officials :: "official_row list"
  officialSessions :: "official_session_row list"
  matchSessions :: "match_session_row list"
  accessCodes :: "access_code_row list"
  brackets :: "bracket_row list"
  entrants :: "entrant_row list"
  fixtureRows :: "fixture_row list"
  slotRows :: "slot_row list"
  idempotencyRows :: "idempotency_row list"
  roundStaffing :: "staffing_row list"
  rosterAthletes :: "athlete_row list"
  organizations :: "organization_row list"
  importConfirmations :: "import_confirmation_row list"
  auditLogs :: "audit_row list"

text \<open>The clocks one command reads: PostgreSQL's \<open>clock_timestamp()\<close>, its \<open>now()\<close> (the
  column default, fixed for the transaction) and the process's \<open>new Date()\<close>.\<close>

record env =
  serverNow :: time
  txNow :: time
  appNow :: time

section \<open>Errors\<close>

datatype match_error =
    MatchNotFound | RecordNotFound | UniqueViolation | SportGroupRulesNotImplemented string
  | InactiveVoteSession | RoundPausedForVote | MatchNotRunningForVote | RoundEndedForVote
  | PriorScoringWindowPending | DuplicateRefereeVote | WindowNotResolvedOnce
  | UnsupportedRoundNumber nat
  | InactivePenaltySession | PenaltyLegacyOnly | MatchNotRunningForPenalty | RoundEndedForPenalty
  | InactiveFaultSupervisor | InvalidFaultState | FaultRoundPaused | FaultMatchNotRunning
  | FaultRoundEnded
  | MatchLifecycleTargetMissing | InactiveRoundStartSession | InactiveRoundControlSession
  | InvalidRoundStartState match_status | InvalidRoundControlState match_status
  | InvalidResultCancellationState match_status | ResultCancellationUndoNotAllowed
  | MatchParticipantsNotReady | MatchCompletionNotReady | MatchAlreadyCompleted
  | AppealIdentity | AppealIdempotency | AppealState | ResultPublicationConflict
  | InvalidRoundDescriptor | RuntimeTypeError
  | BracketProgressionLocked | BracketWinnerDecisionInvalid | BracketWinnerDecisionConflict
  | IdempotencyKeyConflict | BracketWinnerDecisionIneligible
  | BracketFixtureParticipantsUnresolved | BracketNotFound
  | BracketCancellationUnsafe "(uuid \<times> string) list"
  | SupervisorRequired | JudgeCountMismatch | MatchLifecycleMismatch | MatchAssignmentLocked
  | OfficialInactive | MatchAlreadyClaimed uuid | StaleAssignmentSelection
  | SupervisorAlreadyInMatch uuid | OfficialTournamentMismatch | JudgeNotAvailable uuid
  | JudgeInactive uuid | JudgeAlreadyInMatch uuid uuid | AtomicTakeRequired
  | SupervisorNotMatchOwner | CheckViolation

section \<open>Reading and writing rows\<close>

definition getMatch :: "uuid \<Rightarrow> db \<Rightarrow> match_row option" where
  "getMatch mid d = List.find (\<lambda>m. m_id m = mid) (matches d)"

definition setMatch :: "uuid \<Rightarrow> (match_row \<Rightarrow> match_row) \<Rightarrow> db \<Rightarrow> db" where
  "setMatch mid f d = d\<lparr>matches := updWhere (\<lambda>m. m_id m = mid) f (matches d)\<rparr>"

definition getRound :: "uuid \<Rightarrow> db \<Rightarrow> round_row option" where
  "getRound rid d = List.find (\<lambda>r. r_id r = rid) (rounds d)"

definition getWindow :: "uuid \<Rightarrow> db \<Rightarrow> window_row option" where
  "getWindow wid d = List.find (\<lambda>w. w_id w = wid) (windows d)"

definition getAthlete :: "uuid \<Rightarrow> side \<Rightarrow> db \<Rightarrow> match_athlete_row option" where
  "getAthlete mid c d =
     List.find (\<lambda>a. ma_matchId a = mid \<and> ma_color a = c) (matchAthletes d)"

definition addAudit :: "audit_row \<Rightarrow> db \<Rightarrow> db" where
  "addAudit a d = d\<lparr>auditLogs := auditLogs d @ [a]\<rparr>"

text \<open>An insert under a unique index: it throws when a row of the table conflicts.\<close>

definition insertUnique :: "('r \<Rightarrow> 'r \<Rightarrow> bool) \<Rightarrow> 'r \<Rightarrow> 'r list \<Rightarrow> match_error + 'r list" where
  "insertUnique conflict r rows =
     (if \<exists>s \<in> set rows. conflict s r then Inl UniqueViolation else Inr (rows @ [r]))"

definition roundConflict :: "round_row \<Rightarrow> round_row \<Rightarrow> bool" where
  "roundConflict a b \<longleftrightarrow> r_invalidatedAt a = None \<and> r_invalidatedAt b = None \<and>
     r_matchId a = r_matchId b \<and> r_stage a = r_stage b \<and>
     r_attemptNumber a = r_attemptNumber b \<and> r_roundNumber a = r_roundNumber b"

definition windowConflict :: "window_row \<Rightarrow> window_row \<Rightarrow> bool" where
  "windowConflict a b \<longleftrightarrow>
     w_resolvedAt a = None \<and> w_resolvedAt b = None \<and> w_matchId a = w_matchId b"

definition voteConflict :: "vote_row \<Rightarrow> vote_row \<Rightarrow> bool" where
  "voteConflict a b \<longleftrightarrow> v_scoringWindowId a = v_scoringWindowId b \<and>
     ((v_assignmentId a = None \<and> v_assignmentId b = None \<and> v_judgeSlot a \<noteq> None \<and>
       v_judgeSlot a = v_judgeSlot b) \<or>
      (v_assignmentId a \<noteq> None \<and> v_assignmentId a = v_assignmentId b))"

definition scoreEventConflict :: "score_event_row \<Rightarrow> score_event_row \<Rightarrow> bool" where
  "scoreEventConflict a b \<longleftrightarrow>
     s_scoringWindowId a \<noteq> None \<and> s_scoringWindowId a = s_scoringWindowId b"

definition roundResultConflict :: "round_result_row \<Rightarrow> round_result_row \<Rightarrow> bool" where
  "roundResultConflict a b \<longleftrightarrow> x_roundId a = x_roundId b \<and> x_athleteId a = x_athleteId b"

definition appealConflict :: "appeal_row \<Rightarrow> appeal_row \<Rightarrow> bool" where
  "appealConflict a b \<longleftrightarrow>
     (ap_idempotencyKey a \<noteq> None \<and> ap_idempotencyKey a = ap_idempotencyKey b) \<or>
     (ap_status a = AP_COMPLETED \<and> ap_invalidatedAt a = None \<and>
      ap_status b = AP_COMPLETED \<and> ap_invalidatedAt b = None \<and>
      ap_matchId a = ap_matchId b \<and> ap_scope a = ap_scope b \<and>
      ap_attemptNumber a = ap_attemptNumber b)"

definition decisionConflict :: "decision_row \<Rightarrow> decision_row \<Rightarrow> bool" where
  "decisionConflict a b \<longleftrightarrow>
     d_matchId a = d_matchId b \<and> d_sourceAppealId a = d_sourceAppealId b"

definition outcomeConflict :: "outcome_row \<Rightarrow> outcome_row \<Rightarrow> bool" where
  "outcomeConflict a b \<longleftrightarrow> o_matchId a = o_matchId b \<or>
     (o_sourceAppealId a \<noteq> None \<and> o_sourceAppealId a = o_sourceAppealId b)"

definition publicationConflict :: "publication_row \<Rightarrow> publication_row \<Rightarrow> bool" where
  "publicationConflict a b \<longleftrightarrow>
     pb_matchId a = pb_matchId b \<and> pb_idempotencyKey a = pb_idempotencyKey b"

definition assignmentConflict :: "assignment_row \<Rightarrow> assignment_row \<Rightarrow> bool" where
  "assignmentConflict a b \<longleftrightarrow> as_releasedAt a = None \<and> as_releasedAt b = None \<and>
     (as_officialId a = as_officialId b \<or>
      (as_matchId a = as_matchId b \<and> as_role a = SUPERVISOR \<and> as_role b = SUPERVISOR) \<or>
      (as_matchId a = as_matchId b \<and> as_role a = JUDGE \<and> as_role b = JUDGE \<and>
       as_judgePosition a \<noteq> None \<and> as_judgePosition a = as_judgePosition b))"

section \<open>Facts about rows\<close>

lemma insertUnique_Inr [simp, table_simps]:
  "insertUnique c r rows = Inr rows' \<longleftrightarrow> (\<forall>s \<in> set rows. \<not> c s r) \<and> rows' = rows @ [r]"
  by (auto simp: insertUnique_def)

lemma getMatch_SomeD: "getMatch mid d = Some m \<Longrightarrow> m \<in> set (matches d) \<and> m_id m = mid"
  by (auto simp: getMatch_def dest!: find_SomeD)

lemma getMatch_unique:
  assumes "distinct (map m_id (matches d))" and "m \<in> set (matches d)"
  shows "getMatch (m_id m) d = Some m"
proof -
  obtain n where n: "getMatch (m_id m) d = Some n"
    using assms(2) find_Some_iff_ex [of "\<lambda>x. m_id x = m_id m" "matches d"]
    by (auto simp: getMatch_def)
  from getMatch_SomeD [OF n] assms have "n = m"
    by (metis distinct_map inj_onD)
  with n show ?thesis by simp
qed

lemma getMatch_setMatch [simp]:
  assumes "\<And>m. m_id (f m) = m_id m"
  shows "getMatch mid' (setMatch mid f d) =
    (if mid' = mid then map_option f (getMatch mid d) else getMatch mid' d)"
proof -
  have "List.find (\<lambda>m. m_id m = mid') (updWhere (\<lambda>m. m_id m = mid) f xs) =
     (if mid' = mid then map_option f (List.find (\<lambda>m. m_id m = mid) xs)
      else List.find (\<lambda>m. m_id m = mid') xs)" for xs
    using assms by (induction xs) auto
  then show ?thesis by (simp add: getMatch_def setMatch_def)
qed

lemma setMatch_rowE:
  assumes "distinct (map m_id (matches d))" and "getMatch mid d = Some m"
    and "m' \<in> set (matches (setMatch mid f d))"
  obtains "m' = f m" | "m' \<in> set (matches d)" and "m_id m' \<noteq> mid"
proof -
  from assms(3) obtain n where n: "n \<in> set (matches d)" "m' = (if m_id n = mid then f n else n)"
    by (auto simp: setMatch_def elim: in_set_updWhereE)
  show thesis
  proof (cases "m_id n = mid")
    case True
    with getMatch_unique [OF assms(1) n(1)] assms(2) have "n = m" by simp
    with True n that show thesis by auto
  next
    case False
    with n that show thesis by auto
  qed
qed

lemma map_id_setMatch [simp]:
  "(\<And>m. m_id (f m) = m_id m) \<Longrightarrow> map m_id (matches (setMatch mid f d)) = map m_id (matches d)"
  by (simp add: setMatch_def map_updWhere)

end
