(* ===== verification/Phase_Spec.thy ===== *)
theory Phase_Spec
  imports Domain
begin

text \<open>
  The abstract machine of a match's phases: what the documents of the match lifecycle promise,
  without rounds, scores, crews or clocks. A state is a phase and the saved phases an undo may
  return to. Plain moves are the way of a match from its first round to its end; resets leave
  or cancel and save where the match was; an undo goes back while the match is still where the
  reset left it. The invariant of the machine is proved here by rule induction and reaches the
  services through the simulation of \<open>Match_Machine\<close>.
\<close>

section \<open>Phases\<close>

record phase =
  ph_status :: match_status
  ph_lifecycle :: match_lifecycle
  ph_round :: "nat option"
  ph_started :: bool
  ph_finished :: bool

type_synonym history = "((match_status \<times> nat option) \<times> phase) set"

definition freshPhase :: phase where
  "freshPhase = \<lparr> ph_status = WAITING, ph_lifecycle = NOT_STARTED, ph_round = None, ph_started = False,
     ph_finished = False \<rparr>"

definition pauses :: "(match_status \<times> nat \<times> match_status) set" where
  "pauses = {(ROUND_1_RUNNING, 1, ROUND_1_PAUSED), (ROUND_2_RUNNING, 2, ROUND_2_PAUSED),
     (OVERTIME_RUNNING, 1, OVERTIME_PAUSED)}"

definition v2Phases :: "match_status set" where
  "v2Phases = {REGULATION_APPEAL, OVERTIME_READY, OVERTIME_RUNNING, OVERTIME_PAUSED, OVERTIME_APPEAL,
     OVERTIME_TIEBREAK_DECISION, RESULT_PUBLICATION_READY}"

inductive phase_step :: "rules_version \<Rightarrow> phase \<Rightarrow> phase \<Rightarrow> bool" for v where
  start_first: "ph_status p = WAITING \<Longrightarrow> ph_round p = None \<Longrightarrow> \<not> ph_started p \<Longrightarrow>
    phase_step v p (p\<lparr>ph_status := ROUND_1_RUNNING, ph_lifecycle := IN_PROGRESS, ph_round := Some 1, ph_started := True\<rparr>)"
| start_second: "ph_status p = BREAK \<Longrightarrow> ph_round p = Some 1 \<Longrightarrow> ph_started p \<Longrightarrow>
    phase_step v p (p\<lparr>ph_status := ROUND_2_RUNNING, ph_lifecycle := IN_PROGRESS, ph_round := Some 2\<rparr>)"
| start_overtime: "ph_status p = OVERTIME_READY \<Longrightarrow>
    phase_step v p (p\<lparr>ph_status := OVERTIME_RUNNING, ph_lifecycle := IN_PROGRESS, ph_round := Some 1\<rparr>)"
| pause: "(ph_status p, n, s) \<in> pauses \<Longrightarrow> ph_round p = Some n \<Longrightarrow> phase_step v p (p\<lparr>ph_status := s\<rparr>)"
| resume: "(s, n, ph_status p) \<in> pauses \<Longrightarrow> ph_round p = Some n \<Longrightarrow> phase_step v p (p\<lparr>ph_status := s\<rparr>)"
| expire_first: "ph_status p = ROUND_1_RUNNING \<Longrightarrow> ph_round p = Some 1 \<Longrightarrow>
    phase_step v p (p\<lparr>ph_status := BREAK, ph_lifecycle := IN_PROGRESS\<rparr>)"
| expire_second: "ph_status p = ROUND_2_RUNNING \<Longrightarrow> ph_round p = Some 2 \<Longrightarrow>
    phase_step v p (p\<lparr>ph_status := (if v = FAULT_APPEAL_OVERTIME_V2 then REGULATION_APPEAL else AWAITING_RESULT_SAVE),
      ph_lifecycle := IN_PROGRESS\<rparr>)"
| expire_overtime: "ph_status p = OVERTIME_RUNNING \<Longrightarrow>
    phase_step v p (p\<lparr>ph_status := OVERTIME_APPEAL, ph_lifecycle := IN_PROGRESS\<rparr>)"
| regulation_appeal: "v = FAULT_APPEAL_OVERTIME_V2 \<Longrightarrow> ph_status p = REGULATION_APPEAL \<Longrightarrow> ph_lifecycle p = IN_PROGRESS \<Longrightarrow>
    s \<in> {OVERTIME_READY, RESULT_PUBLICATION_READY} \<Longrightarrow> phase_step v p (p\<lparr>ph_status := s\<rparr>)"
| overtime_appeal: "v = FAULT_APPEAL_OVERTIME_V2 \<Longrightarrow> ph_status p = OVERTIME_APPEAL \<Longrightarrow> ph_lifecycle p = IN_PROGRESS \<Longrightarrow>
    s \<in> {OVERTIME_TIEBREAK_DECISION, RESULT_PUBLICATION_READY} \<Longrightarrow> phase_step v p (p\<lparr>ph_status := s\<rparr>)"
| tiebreak: "v = FAULT_APPEAL_OVERTIME_V2 \<Longrightarrow> ph_status p = OVERTIME_TIEBREAK_DECISION \<Longrightarrow>
    s \<in> {OVERTIME_READY, RESULT_PUBLICATION_READY} \<Longrightarrow> phase_step v p (p\<lparr>ph_status := s\<rparr>)"
| complete: "ph_status p = AWAITING_RESULT_SAVE \<Longrightarrow> ph_lifecycle p \<notin> {SUSPENDED, LC_COMPLETED} \<Longrightarrow>
    phase_step v p (p\<lparr>ph_status := FINISHED, ph_lifecycle := LC_COMPLETED, ph_finished := True\<rparr>)"
| publish: "v = FAULT_APPEAL_OVERTIME_V2 \<Longrightarrow> ph_status p = RESULT_PUBLICATION_READY \<Longrightarrow> ph_lifecycle p = IN_PROGRESS \<Longrightarrow>
    phase_step v p (p\<lparr>ph_status := FINISHED, ph_lifecycle := LC_COMPLETED, ph_finished := True\<rparr>)"
| take: "ph_lifecycle p = SUSPENDED \<Longrightarrow> phase_step v p (p\<lparr>ph_lifecycle := IN_PROGRESS\<rparr>)"

text \<open>\<open>reset_step v p saved p'\<close>: leaving keeps the lifecycle it found; cancelling saves the
  lifecycle the phase implies.\<close>

inductive reset_step :: "rules_version \<Rightarrow> phase \<Rightarrow> phase \<Rightarrow> phase \<Rightarrow> bool" for v where
  exit_cancel: "ph_status p \<noteq> FINISHED \<Longrightarrow> reset_step v p p freshPhase"
| exit_first: "ph_status p \<noteq> FINISHED \<Longrightarrow>
    reset_step v p p (p\<lparr>ph_status := BREAK, ph_lifecycle := SUSPENDED, ph_round := Some 1, ph_finished := False\<rparr>)"
| exit_both: "ph_status p \<noteq> FINISHED \<Longrightarrow>
    reset_step v p p (p\<lparr>ph_status := AWAITING_RESULT_SAVE, ph_lifecycle := SUSPENDED, ph_round := Some 2, ph_finished := False\<rparr>)"
| exit_phase: "ph_status p \<in> v2Phases \<Longrightarrow> reset_step v p p (p\<lparr>ph_lifecycle := SUSPENDED, ph_finished := False\<rparr>)"
| cancel_all: "reset_step v p (p\<lparr>ph_lifecycle := l\<rparr>) freshPhase"
  if "l = (if ph_status p = WAITING then NOT_STARTED else if ph_status p = FINISHED then LC_COMPLETED else IN_PROGRESS)"
| cancel_overtime: "ph_status p \<in> v2Phases - {REGULATION_APPEAL} \<Longrightarrow>
    reset_step v p (p\<lparr>ph_lifecycle := IN_PROGRESS\<rparr>)
      (p\<lparr>ph_status := OVERTIME_READY, ph_lifecycle := IN_PROGRESS, ph_round := Some 1, ph_finished := False\<rparr>)"
| cancel_second: "ph_status p \<in> {REGULATION_APPEAL, AWAITING_RESULT_SAVE, FINISHED} \<Longrightarrow>
    l = (if ph_status p = FINISHED then LC_COMPLETED else IN_PROGRESS) \<Longrightarrow>
    reset_step v p (p\<lparr>ph_lifecycle := l\<rparr>)
      (p\<lparr>ph_status := BREAK, ph_lifecycle := IN_PROGRESS, ph_round := Some 1, ph_finished := False\<rparr>)"

inductive spec_step :: "rules_version \<Rightarrow> phase \<times> history \<Rightarrow> phase \<times> history \<Rightarrow> bool" for v where
  plain: "phase_step v p p' \<Longrightarrow> spec_step v (p, H) (p', H)"
| reset: "reset_step v p s p' \<Longrightarrow> spec_step v (p, H) (p', insert ((ph_status p', ph_round p'), s) H)"
| undo: "((ph_status p, ph_round p), s) \<in> H \<Longrightarrow> spec_step v (p, H) (s, H)"

inductive_cases spec_stepE: "spec_step v s s'"

section \<open>The invariant\<close>

definition phase_ok :: "rules_version \<Rightarrow> phase \<Rightarrow> bool" where
  "phase_ok v p \<longleftrightarrow>
     (ph_status p = FINISHED \<longleftrightarrow> ph_lifecycle p = LC_COMPLETED) \<and> (ph_finished p \<longleftrightarrow> ph_status p = FINISHED) \<and>
     (ph_status p = WAITING \<longleftrightarrow> ph_lifecycle p = NOT_STARTED) \<and>
     (ph_status p = WAITING \<longrightarrow> \<not> ph_started p \<and> ph_round p = None) \<and>
     (ph_status p \<in> v2Phases \<longrightarrow> v = FAULT_APPEAL_OVERTIME_V2) \<and>
     (ph_status p \<in> {ROUND_1_RUNNING, ROUND_1_PAUSED, BREAK, OVERTIME_RUNNING, OVERTIME_PAUSED, OVERTIME_APPEAL,
        OVERTIME_TIEBREAK_DECISION} \<longrightarrow> ph_round p = Some 1) \<and>
     (ph_status p \<in> {ROUND_2_RUNNING, ROUND_2_PAUSED, REGULATION_APPEAL, AWAITING_RESULT_SAVE} \<longrightarrow> ph_round p = Some 2)"

definition spec_ok :: "rules_version \<Rightarrow> phase \<times> history \<Rightarrow> bool" where
  "spec_ok v s \<longleftrightarrow> phase_ok v (fst s) \<and> (\<forall>(q, r) \<in> snd s. phase_ok v r)"

lemma phase_step_ok:
  assumes "phase_step v p p'" and "phase_ok v p"
  shows "phase_ok v p'"
  using assms
proof cases
  case (pause n s)
  then have "ph_status p = ROUND_1_RUNNING \<and> s = ROUND_1_PAUSED \<and> n = 1 \<or>
      ph_status p = ROUND_2_RUNNING \<and> s = ROUND_2_PAUSED \<and> n = 2 \<or>
      ph_status p = OVERTIME_RUNNING \<and> s = OVERTIME_PAUSED \<and> n = 1" by (auto simp: pauses_def)
  with pause assms(2) show ?thesis by (elim disjE) (simp_all add: phase_ok_def v2Phases_def)
next
  case (resume s n)
  then have "ph_status p = ROUND_1_PAUSED \<and> s = ROUND_1_RUNNING \<and> n = 1 \<or>
      ph_status p = ROUND_2_PAUSED \<and> s = ROUND_2_RUNNING \<and> n = 2 \<or>
      ph_status p = OVERTIME_PAUSED \<and> s = OVERTIME_RUNNING \<and> n = 1" by (auto simp: pauses_def)
  with resume assms(2) show ?thesis by (elim disjE) (simp_all add: phase_ok_def v2Phases_def)
next
  case (regulation_appeal s)
  then have "s = OVERTIME_READY \<or> s = RESULT_PUBLICATION_READY" by simp
  with regulation_appeal assms(2) show ?thesis by (elim disjE) (simp_all add: phase_ok_def v2Phases_def)
next
  case (overtime_appeal s)
  then have "s = OVERTIME_TIEBREAK_DECISION \<or> s = RESULT_PUBLICATION_READY" by simp
  with overtime_appeal assms(2) show ?thesis by (elim disjE) (simp_all add: phase_ok_def v2Phases_def)
next
  case (tiebreak s)
  then have "s = OVERTIME_READY \<or> s = RESULT_PUBLICATION_READY" by simp
  with tiebreak assms(2) show ?thesis by (elim disjE) (simp_all add: phase_ok_def v2Phases_def)
qed (simp_all add: phase_ok_def v2Phases_def)

lemma v2_rules: "phase_ok v p \<Longrightarrow> ph_status p \<in> v2Phases \<Longrightarrow> v = FAULT_APPEAL_OVERTIME_V2"
  by (simp add: phase_ok_def)

lemma reset_step_ok:
  assumes "reset_step v p s p'" and "phase_ok v p"
  shows "phase_ok v s \<and> phase_ok v p'"
  using assms
proof cases
  case exit_phase
  with assms(2) show ?thesis by (cases "ph_status p") (simp_all add: phase_ok_def v2Phases_def)
next
  case (cancel_all l)
  with assms(2) show ?thesis by (cases "ph_status p") (simp_all add: phase_ok_def v2Phases_def freshPhase_def)
next
  case cancel_overtime
  with assms(2) show ?thesis by (cases "ph_status p") (simp_all add: phase_ok_def v2Phases_def)
next
  case (cancel_second l)
  with assms(2) show ?thesis by (cases "ph_status p") (simp_all add: phase_ok_def v2Phases_def)
qed (simp_all add: phase_ok_def v2Phases_def freshPhase_def)

lemma spec_step_ok: "spec_step v s s' \<Longrightarrow> spec_ok v s \<Longrightarrow> spec_ok v s'"
  by (induction rule: spec_step.induct) (auto simp: spec_ok_def dest: phase_step_ok reset_step_ok)

lemma fresh_ok: "spec_ok v (freshPhase, {})"
  by (simp add: spec_ok_def phase_ok_def freshPhase_def v2Phases_def)

text \<open>Every step to the finished phase is a completion, a publication or an undo.\<close>

lemma finished_by:
  assumes "spec_step v (p, H) (p', H')" and "ph_status p \<noteq> FINISHED" and "ph_status p' = FINISHED"
  obtains "ph_status p = AWAITING_RESULT_SAVE" | "ph_status p = RESULT_PUBLICATION_READY" "v = FAULT_APPEAL_OVERTIME_V2"
    | "((ph_status p, ph_round p), p') \<in> H"
  using assms(1)
proof cases
  case plain
  from plain(2) show thesis by cases (use assms(2,3) that in \<open>auto simp: pauses_def split: if_splits\<close>)
next
  case (reset s)
  from reset(2) show thesis by cases (use assms(2,3) in \<open>auto simp: freshPhase_def\<close>)
next
  case undo
  with that show thesis by blast
qed

end
