(* ===== verification/Sport_Rules.thy ===== *)
theory Sport_Rules
  imports Domain
begin

text \<open>
  \<open>sport-rules\<close>: the executable rule set of a sport group, the registry that resolves a
  group code, and the contract the scoring services rely on: a judge majority is more than
  half of the panel and never more than the panel.
\<close>

record sport_rules =
  sr_code :: string
  sr_athleteColors :: "side list"
  sr_accessRoles :: "access_role list"
  sr_minimumScoreboardConnections :: nat
  sr_roundCount :: nat
  sr_defaultRequiredJudgeCount :: nat
  sr_minimumRequiredRefereeCount :: nat
  sr_requiresOddRefereeCount :: bool
  sr_judgeMajority :: "nat \<Rightarrow> nat"
  sr_judgePointValue :: int
  sr_supervisorPenaltyValue :: int
  sr_determineWinner :: "(side \<Rightarrow> int) \<Rightarrow> side option"

definition oneOnOneCombatRules :: sport_rules where
  "oneOnOneCombatRules =
     \<lparr> sr_code = ''ONE_ON_ONE_COMBAT'',
       sr_athleteColors = [RED, BLUE],
       sr_accessRoles = [AR_JUDGE_1, AR_JUDGE_2, AR_JUDGE_3, AR_SUPERVISOR],
       sr_minimumScoreboardConnections = 1,
       sr_roundCount = 2,
       sr_defaultRequiredJudgeCount = 3,
       sr_minimumRequiredRefereeCount = 3,
       sr_requiresOddRefereeCount = True,
       sr_judgeMajority = (\<lambda>judgeCount. judgeCount div 2 + 1),
       sr_judgePointValue = 1,
       sr_supervisorPenaltyValue = -1,
       sr_determineWinner = (\<lambda>totals.
         if totals RED = totals BLUE then None
         else if totals RED > totals BLUE then Some RED else Some BLUE) \<rparr>"

definition resolve :: "string \<Rightarrow> match_error + sport_rules" where
  "resolve code =
     (case map_of [(sr_code oneOnOneCombatRules, oneOnOneCombatRules)] code of
        None \<Rightarrow> Inl (SportGroupRulesNotImplemented code)
      | Some rules \<Rightarrow> Inr rules)"

text \<open>\<open>rulesForMatch\<close> of the services: the group code of the match's tournament.\<close>

definition rulesForMatch :: "uuid \<Rightarrow> db \<Rightarrow> match_error + sport_rules" where
  "rulesForMatch mid d =
     bindR (orThrow (getMatch mid d) RecordNotFound) (\<lambda>m.
     bindR (orThrow (List.find (\<lambda>t. t_id t = m_tournamentId m) (tournaments d)) RecordNotFound)
       (\<lambda>t. resolve (t_sportGroupCode t)))"

section \<open>The contract of a judge majority\<close>

locale judge_majority =
  fixes majority :: "nat \<Rightarrow> nat"
  assumes more_than_half: "n < 2 * majority n"
    and reachable: "0 < n \<Longrightarrow> majority n \<le> n"
begin

definition verdict :: "nat \<Rightarrow> nat \<Rightarrow> nat \<Rightarrow> side option" where
  "verdict n redVotes blueVotes =
     (if majority n \<le> redVotes then Some RED
      else if majority n \<le> blueVotes then Some BLUE else None)"

lemma at_most_one_side:
  "redVotes + blueVotes \<le> n \<Longrightarrow> \<not> (majority n \<le> redVotes \<and> majority n \<le> blueVotes)"
  using more_than_half [of n] by linarith

lemma verdict_iff:
  assumes "redVotes + blueVotes \<le> n"
  shows "verdict n redVotes blueVotes = Some RED \<longleftrightarrow> majority n \<le> redVotes"
    and "verdict n redVotes blueVotes = Some BLUE \<longleftrightarrow> majority n \<le> blueVotes"
    and "verdict n redVotes blueVotes = None \<longleftrightarrow> redVotes < majority n \<and> blueVotes < majority n"
  using at_most_one_side [OF assms] by (auto simp: verdict_def)

lemma verdict_symmetric:
  assumes "redVotes + blueVotes \<le> n"
  shows "verdict n redVotes blueVotes = Some RED \<longleftrightarrow> verdict n blueVotes redVotes = Some BLUE"
proof -
  have "blueVotes + redVotes \<le> n" using assms by simp
  from verdict_iff(2) [OF this] verdict_iff(1) [OF assms] show ?thesis by simp
qed

lemma unanimous: "0 < n \<Longrightarrow> verdict n n 0 = Some RED"
  using reachable [of n] by (simp add: verdict_def)

end

interpretation combat: judge_majority "sr_judgeMajority oneOnOneCombatRules"
  by unfold_locales (auto simp: oneOnOneCombatRules_def)

lemma resolve_Inr [simp]: "resolve code = Inr rules \<longleftrightarrow>
    code = ''ONE_ON_ONE_COMBAT'' \<and> rules = oneOnOneCombatRules"
  by (auto simp: resolve_def oneOnOneCombatRules_def)

lemma rulesForMatch_Inr: "rulesForMatch mid d = Inr rules \<Longrightarrow> rules = oneOnOneCombatRules"
  by (auto simp: rulesForMatch_def)

lemma rulesForMatch_cong:
  "matches d' = matches d \<Longrightarrow> tournaments d' = tournaments d \<Longrightarrow> rulesForMatch mid d' = rulesForMatch mid d"
  by (simp add: rulesForMatch_def getMatch_def)

lemma judgeMajority_combat [simp]: "sr_judgeMajority oneOnOneCombatRules n = n div 2 + 1"
  by (simp add: oneOnOneCombatRules_def)

lemma pointValue_combat [simp]: "sr_judgePointValue oneOnOneCombatRules = 1"
  and penaltyValue_combat [simp]: "sr_supervisorPenaltyValue oneOnOneCombatRules = -1"
  by (simp_all add: oneOnOneCombatRules_def)

end
