(* ===== verification/Scoring.thy ===== *)
theory Scoring
  imports Sport_Rules
begin

text \<open>
  \<open>realtime/scoring.service.ts\<close> with its helpers \<open>round-timing.ts\<close>,
  \<open>match-score-projection.ts\<close> and \<open>result-calculations.ts\<close>: judges' votes open and fill
  one-second scoring windows, and a window that is due is resolved by the majority of the
  required judges. The timers that call \<open>resolveIfDue\<close> are outside the model: a
  resolution is a command. New row ids are arguments. One reading of the database clock
  serves a whole command.
\<close>

section \<open>Round timing\<close>

definition activeRoundElapsedMs :: "int option \<Rightarrow> time \<Rightarrow> time \<Rightarrow> int option" where
  "activeRoundElapsedMs durationMs endsAt occurredAt =
     (case durationMs of
        None \<Rightarrow> None
      | Some duration \<Rightarrow>
          let remainingMs = max 0 (endsAt - occurredAt) in
          Some (max 0 (duration - remainingMs)))"

section \<open>Score projection\<close>

definition countsFor :: "uuid list \<Rightarrow> score_event_row \<Rightarrow> bool" where
  "countsFor validRoundIds e \<longleftrightarrow> s_type e = JUDGE_POINT \<and> s_revertedAt e = None \<and>
     (case s_roundId e of None \<Rightarrow> False | Some r \<Rightarrow> r \<in> set validRoundIds)"

fun addPoints :: "uuid list \<Rightarrow> score_event_row list \<Rightarrow> (uuid \<rightharpoonup> int) \<Rightarrow> (uuid \<rightharpoonup> int)" where
  "addPoints valid [] scores = scores"
| "addPoints valid (e # es) scores =
     addPoints valid es
       (if countsFor valid e
        then scores(s_athleteId e \<mapsto>
               (case scores (s_athleteId e) of None \<Rightarrow> 0 | Some n \<Rightarrow> n) + s_value e)
        else scores)"

fun addFaults :: "uuid list \<Rightarrow> fault_row list \<Rightarrow> (uuid \<rightharpoonup> nat) \<Rightarrow> (uuid \<rightharpoonup> nat)" where
  "addFaults valid [] counts = counts"
| "addFaults valid (f # fs) counts =
     addFaults valid fs
       (if f_invalidatedAt f = None \<and> f_roundId f \<in> set valid
        then counts(f_athleteId f \<mapsto>
               (case counts (f_athleteId f) of None \<Rightarrow> 0 | Some n \<Rightarrow> n) + 1)
        else counts)"

record projection =
  pj_athleteId :: uuid
  pj_color :: side
  pj_faultCount :: nat
  pj_refereeScore :: int

definition calculateMatchScoreProjection ::
  "match_athlete_row list \<Rightarrow> fault_row list \<Rightarrow> score_event_row list \<Rightarrow> uuid list \<Rightarrow> projection list" where
  "calculateMatchScoreProjection athletes fs events validRoundIds =
     (let scores = addPoints validRoundIds events
                     (fold (\<lambda>a m. m(ma_id a \<mapsto> 0)) athletes Map.empty);
          faultCounts = addFaults validRoundIds fs
                     (fold (\<lambda>a m. m(ma_id a \<mapsto> 0)) athletes Map.empty) in
      map (\<lambda>a. \<lparr> pj_athleteId = ma_id a, pj_color = ma_color a,
                 pj_faultCount = (case faultCounts (ma_id a) of None \<Rightarrow> 0 | Some n \<Rightarrow> n),
                 pj_refereeScore = (case scores (ma_id a) of None \<Rightarrow> 0 | Some n \<Rightarrow> n) \<rparr>)
        athletes)"

definition finalScore :: "int \<Rightarrow> int \<Rightarrow> int \<Rightarrow> int" where
  "finalScore base bonusPoints penaltyPoints = max 0 (base + bonusPoints - penaltyPoints)"

definition judgeBaseForRounds :: "uuid \<Rightarrow> uuid list \<Rightarrow> score_event_row list \<Rightarrow> int" where
  "judgeBaseForRounds athleteId roundIds events =
     foldl (\<lambda>total e. if s_athleteId e = athleteId \<and> countsFor roundIds e
                      then total + s_value e else total) 0 events"

section \<open>Windows, rounds and judges\<close>

definition SCORING_WINDOW_DURATION_MS :: int where
  "SCORING_WINDOW_DURATION_MS = 1000"

definition isWithinScoringWindow :: "time \<Rightarrow> time \<Rightarrow> time \<Rightarrow> bool" where
  "isWithinScoringWindow received startedAt endsAt \<longleftrightarrow> received \<ge> startedAt \<and> received < endsAt"

datatype vote_authorization =
    OfficialJudge (va_assignmentId: uuid) (va_officialSessionId: uuid) (va_judgePosition: "nat option")
  | LegacyJudge (va_judgeSlot: judge_slot) (va_sessionId: uuid)

record vote_input =
  vi_athlete :: side
  vi_matchId :: uuid
  vi_officialSessionId :: "uuid option"
  vi_judgeSlot :: "judge_slot option"
  vi_sessionId :: "uuid option"

definition notExpired :: "time option \<Rightarrow> time \<Rightarrow> bool" where
  "notExpired expiresAt now = (case expiresAt of None \<Rightarrow> False | Some t \<Rightarrow> t > now)"

definition lockMatch :: "match_error \<Rightarrow> uuid \<Rightarrow> db \<Rightarrow> match_error + unit" where
  "lockMatch err mid d = (if getMatch mid d = None then Inl err else Inr ())"

definition judgeAssignmentRows :: "env \<Rightarrow> uuid \<Rightarrow> uuid \<Rightarrow> db \<Rightarrow> assignment_row list" where
  "judgeAssignmentRows ev mid officialSessionId d =
     [a. os \<leftarrow> officialSessions d, a \<leftarrow> assignments d, ofc \<leftarrow> officials d, m \<leftarrow> matches d,
         as_officialId a = os_officialId os, of_id ofc = os_officialId os, m_id m = as_matchId a,
         os_id os = officialSessionId, os_active os, os_revokedAt os = None,
         notExpired (os_expiresAt os) (serverNow ev),
         as_matchId a = mid, as_role a = JUDGE, as_releasedAt a = None,
         as_tournamentId a = m_tournamentId m, of_tournamentId ofc = m_tournamentId m]"

definition lockActiveJudgeAssignment ::
  "env \<Rightarrow> uuid \<Rightarrow> uuid \<Rightarrow> db \<Rightarrow> match_error + vote_authorization" where
  "lockActiveJudgeAssignment ev mid officialSessionId d =
     (case judgeAssignmentRows ev mid officialSessionId d of
        [row] \<Rightarrow> Inr (OfficialJudge (as_id row) officialSessionId (as_judgePosition row))
      | _ \<Rightarrow> Inl InactiveVoteSession)"

definition lockActiveJudgeSession ::
  "env \<Rightarrow> uuid \<Rightarrow> uuid \<Rightarrow> judge_slot \<Rightarrow> db \<Rightarrow> match_error + uuid" where
  "lockActiveJudgeSession ev mid sessionId slot d =
     (case filter (\<lambda>s. ms_id s = sessionId \<and> ms_matchId s = mid \<and> ms_active s \<and>
                       ms_revokedAt s = None \<and> notExpired (ms_expiresAt s) (serverNow ev) \<and>
                       ms_role s = JUDGE \<and> ms_judgeSlot s = Some slot) (matchSessions d) of
        [row] \<Rightarrow> Inr (ms_id row)
      | _ \<Rightarrow> Inl InactiveVoteSession)"

definition lockLegacyJudgeSession ::
  "env \<Rightarrow> uuid \<Rightarrow> uuid option \<Rightarrow> judge_slot option \<Rightarrow> db \<Rightarrow> match_error + vote_authorization" where
  "lockLegacyJudgeSession ev mid sessionId slot d =
     (case (sessionId, slot) of
        (Some sid, Some sl) \<Rightarrow>
          bindR (lockActiveJudgeSession ev mid sid sl d) (\<lambda>locked. Inr (LegacyJudge sl locked))
      | _ \<Rightarrow> Inl InactiveVoteSession)"

definition authorizeVote :: "env \<Rightarrow> vote_input \<Rightarrow> db \<Rightarrow> match_error + vote_authorization" where
  "authorizeVote ev input d =
     (case vi_officialSessionId input of
        Some osid \<Rightarrow> lockActiveJudgeAssignment ev (vi_matchId input) osid d
      | None \<Rightarrow> lockLegacyJudgeSession ev (vi_matchId input) (vi_sessionId input)
                  (vi_judgeSlot input) d)"

definition expectedRound :: "match_status \<Rightarrow> (nat \<times> round_stage) option" where
  "expectedRound st =
     (if st = ROUND_1_RUNNING then Some (1, REGULATION)
      else if st = ROUND_2_RUNNING then Some (2, REGULATION)
      else if st = OVERTIME_RUNNING then Some (1, OVERTIME)
      else None)"

text \<open>\<open>activeRound\<close> over the rounds the caller selected (\<open>endedAt\<close> null).\<close>

definition activeRound :: "match_row \<Rightarrow> db \<Rightarrow> round_row option" where
  "activeRound m d =
     (case expectedRound (m_status m) of
        None \<Rightarrow> None
      | Some (n, stage) \<Rightarrow>
          (if m_currentRound m \<noteq> Some n then None
           else List.find (\<lambda>r. r_roundNumber r = n \<and> r_stage r = stage)
             (filter (\<lambda>r. r_matchId r = m_id m \<and> r_endedAt r = None) (rounds d))))"

definition roundNumber12 :: "nat \<Rightarrow> match_error + nat" where
  "roundNumber12 n = (if n = 1 \<or> n = 2 then Inr n else Inl (UnsupportedRoundNumber n))"

section \<open>Resolving a window\<close>

record score_line =
  sl_athleteId :: uuid
  sl_color :: side
  sl_score :: int

definition scoreUpdatedPayload :: "uuid \<Rightarrow> db \<Rightarrow> score_line list" where
  "scoreUpdatedPayload mid d =
     map (\<lambda>a. \<lparr> sl_athleteId = ma_id a, sl_color = ma_color a,
                sl_score = sum_list (map s_value
                  (filter (\<lambda>e. s_matchId e = mid \<and> s_revertedAt e = None \<and>
                               s_athleteId e = ma_id a) (scoreEvents d))) \<rparr>)
       (sort_key ma_color (filter (\<lambda>a. ma_matchId a = mid) (matchAthletes d)))"

record resolution =
  rs_matchId :: uuid
  rs_matchPublicId :: string
  rs_windowId :: uuid
  rs_resolvedAt :: time
  rs_roundNumber :: nat
  rs_votes :: "vote_row list"
  rs_winningColor :: "side option"
  rs_scoreUpdated :: "score_line list option"

definition windowVotes :: "uuid \<Rightarrow> db \<Rightarrow> vote_row list" where
  "windowVotes wid d =
     sort_key v_serverReceivedAt (filter (\<lambda>v. v_scoringWindowId v = wid) (votes d))"

definition colorVotes :: "side \<Rightarrow> vote_row list \<Rightarrow> nat" where
  "colorVotes c vs = length (filter (\<lambda>v. v_athleteColor v = c) vs)"

definition winningColorOf :: "sport_rules \<Rightarrow> nat \<Rightarrow> vote_row list \<Rightarrow> side option" where
  "winningColorOf rules requiredJudgeCount vs =
     (if colorVotes RED vs \<ge> sr_judgeMajority rules requiredJudgeCount then Some RED
      else if colorVotes BLUE vs \<ge> sr_judgeMajority rules requiredJudgeCount then Some BLUE
      else None)"

definition judgePositionOf :: "vote_row \<Rightarrow> db \<Rightarrow> nat option" where
  "judgePositionOf v d = (case v_assignmentId v of
       None \<Rightarrow> None
     | Some aid \<Rightarrow> Option.bind (List.find (\<lambda>a. as_id a = aid) (assignments d)) as_judgePosition)"

definition resolutionMetadata :: "window_row \<Rightarrow> side option \<Rightarrow> vote_row list \<Rightarrow> db \<Rightarrow> jval" where
  "resolutionMetadata w winner vs d = JObj
     [(''action'', JStr ''SCORING_WINDOW_RESOLVED''),
      (''scoreAwarded'', JBool (winner \<noteq> None)),
      (''scoringWindowId'', JId (w_id w)),
      (''votes'', JList (map (\<lambda>v. JObj
         [(''athlete'', JColor (v_athleteColor v)),
          (''assignmentId'', jOpt JId (v_assignmentId v)),
          (''judgePosition'', jOpt (\<lambda>n. JInt (int n)) (judgePositionOf v d)),
          (''judgeSlot'', jOpt JSlot (v_judgeSlot v)),
          (''serverReceivedAt'', JDate (v_serverReceivedAt v))]) vs)),
      (''winningColor'', jOpt JColor winner)]"

definition awardPoint ::
  "env \<Rightarrow> window_row \<Rightarrow> sport_rules \<Rightarrow> side \<Rightarrow> db \<Rightarrow> match_error + db" where
  "awardPoint ev w rules color d =
     bindR (orThrow (getAthlete (w_matchId w) color d) RecordNotFound) (\<lambda>athlete.
     bindR (insertUnique scoreEventConflict
        \<lparr> s_matchId = w_matchId w, s_athleteId = ma_id athlete,
          s_roundNumber = Some (w_roundNumber w), s_roundId = w_roundId w,
          s_occurredAt = Some (w_startedAt w), s_roundElapsedMs = w_roundElapsedMs w,
          s_type = JUDGE_POINT, s_value = sr_judgePointValue rules,
          s_scoringWindowId = Some (w_id w), s_penaltyId = None, s_createdAt = txNow ev,
          s_revertedAt = None, s_revertedByAuditId = None \<rparr> (scoreEvents d)) (\<lambda>events.
     Inr (d\<lparr>scoreEvents := events\<rparr>)))"

definition openWindow :: "window_row \<Rightarrow> bool" where
  "openWindow w \<longleftrightarrow> w_invalidatedAt w = None \<and> w_resolvedAt w = None"

definition resolveLockedWindow ::
  "env \<Rightarrow> window_row \<Rightarrow> time \<Rightarrow> string \<Rightarrow> db \<Rightarrow> match_error + (resolution \<times> db)" where
  "resolveLockedWindow ev w resolvedAt matchPublicId d =
     bindR (rulesForMatch (w_matchId w) d) (\<lambda>rules.
     bindR (orThrow (getMatch (w_matchId w) d) RecordNotFound) (\<lambda>m.
     let vs = windowVotes (w_id w) d;
         winner = winningColorOf rules (m_requiredJudgeCount m) vs;
         hit = (\<lambda>x. w_id x = w_id w \<and> openWindow x);
         d1 = d\<lparr>windows := updWhere hit (\<lambda>x. x\<lparr>w_resolvedAt := Some resolvedAt,
                 w_scoreAwarded := (winner \<noteq> None), w_winningColor := winner\<rparr>) (windows d)\<rparr> in
     if length (filter hit (windows d)) \<noteq> 1 then Inl WindowNotResolvedOnce
     else bindR (case winner of None \<Rightarrow> Inr (d1, None)
                 | Some c \<Rightarrow> bindR (awardPoint ev w rules c d1) (\<lambda>d2.
                     Inr (d2, Some (scoreUpdatedPayload (w_matchId w) d2)))) (\<lambda>(d2, upd).
     let d3 = addAudit \<lparr> a_id = None, a_eventType = SCORE_ACTION, a_matchId = Some (w_matchId w),
                a_adminUserId = None, a_sessionId = None, a_officialSessionId = None,
                a_metadata = resolutionMetadata w winner vs d2 \<rparr> d2 in
     bindR (roundNumber12 (w_roundNumber w)) (\<lambda>n.
     Inr (\<lparr> rs_matchId = w_matchId w, rs_matchPublicId = matchPublicId, rs_windowId = w_id w,
            rs_resolvedAt = resolvedAt, rs_roundNumber = n, rs_votes = vs,
            rs_winningColor = winner, rs_scoreUpdated = upd \<rparr>, d3)))))"

text \<open>The loop of \<open>resolveDueWindowsLocked\<close>: the earliest due window first.\<close>

definition nextDueWindow :: "uuid \<Rightarrow> time \<Rightarrow> db \<Rightarrow> window_row option" where
  "nextDueWindow mid resolvedAt d =
     firstBy w_startedAt (\<lambda>w. w_matchId w = mid \<and> openWindow w \<and> w_endsAt w \<le> resolvedAt) (windows d)"

lemma bindR_cong [fundef_cong]:
  "m = m' \<Longrightarrow> (\<And>x. m' = Inr x \<Longrightarrow> f x = g x) \<Longrightarrow> bindR m f = bindR m' g"
  by (cases m') auto

lemma filter_updWhere_less:
  assumes "\<And>x. q x \<Longrightarrow> p x" and "\<And>x. \<not> p (f x)" and "filter q xs \<noteq> []"
  shows "length (filter p (updWhere q f xs)) < length (filter p xs)"
proof -
  have le: "length (filter p (updWhere q f ys)) \<le> length (filter p ys)" for ys
    using assms(1,2) by (induction ys) (auto simp: le_SucI)
  show ?thesis using assms le by (induction xs) (auto simp: le_imp_less_Suc split: if_splits)
qed

lemma resolveLockedWindow_windows:
  assumes "resolveLockedWindow ev w t pid d = Inr (tr, d')"
  shows "windows d' = updWhere (\<lambda>x. w_id x = w_id w \<and> openWindow x)
      (\<lambda>x. x\<lparr>w_resolvedAt := Some t, w_scoreAwarded := (rs_winningColor tr \<noteq> None),
            w_winningColor := rs_winningColor tr\<rparr>) (windows d)"
    and "length (filter (\<lambda>x. w_id x = w_id w \<and> openWindow x) (windows d)) = 1"
  using assms
  by (auto simp: resolveLockedWindow_def Let_def awardPoint_def addAudit_def
      split: if_splits option.splits)

lemma resolveLockedWindow_less:
  assumes "resolveLockedWindow ev w t pid d = Inr (tr, d')"
  shows "length (filter openWindow (windows d')) < length (filter openWindow (windows d))"
proof -
  have "filter (\<lambda>x. w_id x = w_id w \<and> openWindow x) (windows d) \<noteq> []"
    using resolveLockedWindow_windows(2) [OF assms] by auto
  then show ?thesis unfolding resolveLockedWindow_windows(1) [OF assms]
    by (intro filter_updWhere_less) (auto simp: openWindow_def)
qed

function resolveDueWindowsLocked ::
  "env \<Rightarrow> uuid \<Rightarrow> string \<Rightarrow> time \<Rightarrow> db \<Rightarrow> match_error + db" where
  "resolveDueWindowsLocked ev mid publicId resolvedAt d =
     (case nextDueWindow mid resolvedAt d of
        None \<Rightarrow> Inr d
      | Some w \<Rightarrow> bindR (resolveLockedWindow ev w resolvedAt publicId d)
          (\<lambda>(tr, d'). resolveDueWindowsLocked ev mid publicId resolvedAt d'))"
  by pat_completeness auto
termination
  by (relation "measure (\<lambda>(ev, mid, publicId, resolvedAt, d). length (filter openWindow (windows d)))")
    (auto dest: resolveLockedWindow_less)

declare resolveDueWindowsLocked.simps [simp del]

datatype resolve_decision = Inactive | Pending int | Resolved resolution

definition resolveIfDue ::
  "env \<Rightarrow> uuid \<Rightarrow> uuid \<Rightarrow> db \<Rightarrow> match_error + (resolve_decision \<times> db)" where
  "resolveIfDue ev mid windowId d =
     bindR (lockMatch MatchNotFound mid d) (\<lambda>_.
     bindR (rulesForMatch mid d) (\<lambda>_.
     bindR (orThrow (getMatch mid d) RecordNotFound) (\<lambda>m.
     case List.find (\<lambda>w. w_id w = windowId \<and> openWindow w \<and> w_matchId w = mid) (windows d) of
       None \<Rightarrow> Inr (Inactive, d)
     | Some w \<Rightarrow>
         let delayMs = w_endsAt w - serverNow ev in
         if delayMs > 0 then Inr (Pending delayMs, d)
         else bindR (resolveLockedWindow ev w (serverNow ev) (m_publicId m) d)
           (\<lambda>(tr, d'). Inr (Resolved tr, d')))))"

section \<open>Submitting a vote\<close>

record vote_accepted =
  vc_athlete :: side
  vc_identity :: vote_authorization
  vc_matchPublicId :: string
  vc_scoringWindowId :: uuid
  vc_serverReceivedAt :: time

record vote_transition =
  vt_accepted :: vote_accepted
  vt_opened :: "window_row option"
  vt_resolvedBefore :: "resolution option"

definition acceptedPayload ::
  "side \<Rightarrow> string \<Rightarrow> vote_authorization \<Rightarrow> uuid \<Rightarrow> time \<Rightarrow> vote_accepted" where
  "acceptedPayload athlete publicId auth windowId receivedAt =
     \<lparr> vc_athlete = athlete, vc_identity = auth, vc_matchPublicId = publicId,
       vc_scoringWindowId = windowId, vc_serverReceivedAt = receivedAt \<rparr>"

definition sameJudge :: "vote_authorization \<Rightarrow> vote_row \<Rightarrow> bool" where
  "sameJudge auth v = (case auth of
       OfficialJudge aid osid pos \<Rightarrow> v_assignmentId v = Some aid
     | LegacyJudge slot sid \<Rightarrow> v_assignmentId v = None \<and> v_judgeSlot v = Some slot)"

definition newVote :: "env \<Rightarrow> vote_input \<Rightarrow> vote_authorization \<Rightarrow> uuid \<Rightarrow> vote_row" where
  "newVote ev input auth windowId =
     \<lparr> v_scoringWindowId = windowId, v_matchId = vi_matchId input,
       v_judgeSlot = (case auth of OfficialJudge _ _ _ \<Rightarrow> None | LegacyJudge slot _ \<Rightarrow> Some slot),
       v_athleteColor = vi_athlete input,
       v_sessionId = (case auth of OfficialJudge _ _ _ \<Rightarrow> None | LegacyJudge _ sid \<Rightarrow> Some sid),
       v_assignmentId = (case auth of OfficialJudge aid _ _ \<Rightarrow> Some aid | LegacyJudge _ _ \<Rightarrow> None),
       v_serverReceivedAt = serverNow ev,
       v_invalidatedAt = None, v_invalidatedByAuditId = None \<rparr>"

text \<open>The first part of the transaction: every check before the windows are looked at.\<close>

definition voteGuards ::
  "env \<Rightarrow> vote_input \<Rightarrow> db \<Rightarrow> match_error + (vote_authorization \<times> match_row \<times> round_row)" where
  "voteGuards ev input d =
     bindR (lockMatch MatchNotFound (vi_matchId input) d) (\<lambda>_.
     bindR (rulesForMatch (vi_matchId input) d) (\<lambda>_.
     bindR (authorizeVote ev input d) (\<lambda>auth.
     bindR (orThrow (getMatch (vi_matchId input) d) RecordNotFound) (\<lambda>m.
     if m_status m \<in> {ROUND_1_PAUSED, ROUND_2_PAUSED, OVERTIME_PAUSED} then Inl RoundPausedForVote
     else bindR (orThrow (activeRound m d) MatchNotRunningForVote) (\<lambda>r.
     if serverNow ev \<ge> r_endsAt r then Inl RoundEndedForVote
     else Inr (auth, m, r))))))"

text \<open>A due window is resolved before the vote is looked at.\<close>

definition settleDueWindow ::
  "env \<Rightarrow> match_row \<Rightarrow> db \<Rightarrow> match_error + (window_row option \<times> resolution option \<times> db)" where
  "settleDueWindow ev m d =
     (case firstBy w_startedAt (\<lambda>w. openWindow w \<and> w_matchId w = m_id m) (windows d) of
        None \<Rightarrow> Inr (None, None, d)
      | Some w \<Rightarrow>
          (if serverNow ev \<ge> w_endsAt w
           then bindR (resolveLockedWindow ev w (serverNow ev) (m_publicId m) d)
                  (\<lambda>(tr, d'). Inr (None, Some tr, d'))
           else Inr (Some w, None, d)))"

definition voteInWindow ::
  "env \<Rightarrow> vote_input \<Rightarrow> vote_authorization \<Rightarrow> match_row \<Rightarrow> window_row \<Rightarrow> resolution option \<Rightarrow> db
   \<Rightarrow> match_error + (vote_transition \<times> db)" where
  "voteInWindow ev input auth m w prior d =
     (if \<not> isWithinScoringWindow (serverNow ev) (w_startedAt w) (w_endsAt w) then Inl RoundEndedForVote
      else if \<exists>v \<in> set (votes d). v_scoringWindowId v = w_id w \<and> sameJudge auth v
      then Inl DuplicateRefereeVote
      else bindR (insertUnique voteConflict (newVote ev input auth (w_id w)) (votes d)) (\<lambda>vs.
        Inr (\<lparr> vt_accepted = acceptedPayload (vi_athlete input) (m_publicId m) auth (w_id w) (serverNow ev),
               vt_opened = None, vt_resolvedBefore = prior \<rparr>, d\<lparr>votes := vs\<rparr>)))"

definition newWindow :: "env \<Rightarrow> uuid \<Rightarrow> uuid \<Rightarrow> round_row \<Rightarrow> window_row" where
  "newWindow ev windowId mid r =
     \<lparr> w_id = windowId, w_matchId = mid, w_roundNumber = r_roundNumber r, w_roundId = Some (r_id r),
       w_roundElapsedMs = activeRoundElapsedMs (r_durationMs r) (r_endsAt r) (serverNow ev),
       w_startedAt = serverNow ev, w_endsAt = serverNow ev + SCORING_WINDOW_DURATION_MS,
       w_resolvedAt = None, w_winningColor = None, w_scoreAwarded = False, w_createdAt = txNow ev,
       w_invalidatedAt = None, w_invalidatedByAuditId = None \<rparr>"

definition voteInNewWindow ::
  "env \<Rightarrow> vote_input \<Rightarrow> vote_authorization \<Rightarrow> match_row \<Rightarrow> round_row \<Rightarrow> uuid \<Rightarrow> resolution option \<Rightarrow> db
   \<Rightarrow> match_error + (vote_transition \<times> db)" where
  "voteInNewWindow ev input auth m r windowId prior d =
     (let w = newWindow ev windowId (vi_matchId input) r in
      bindR (insertUnique windowConflict w (windows d)) (\<lambda>ws.
      bindR (insertUnique voteConflict (newVote ev input auth windowId) (votes d)) (\<lambda>vs.
      bindR (roundNumber12 (w_roundNumber w)) (\<lambda>n.
      Inr (\<lparr> vt_accepted = acceptedPayload (vi_athlete input) (m_publicId m) auth windowId (serverNow ev),
             vt_opened = Some w, vt_resolvedBefore = prior \<rparr>,
           d\<lparr>windows := ws, votes := vs\<rparr>)))))"

definition submitVote ::
  "env \<Rightarrow> vote_input \<Rightarrow> uuid \<Rightarrow> db \<Rightarrow> match_error + (vote_transition \<times> db)" where
  "submitVote ev input windowId d =
     bindR (voteGuards ev input d) (\<lambda>(auth, m, r).
     bindR (settleDueWindow ev m d) (\<lambda>(unresolved, prior, d1).
     case unresolved of
       Some w \<Rightarrow> (if w_roundNumber w \<noteq> r_roundNumber r then Inl PriorScoringWindowPending
                  else voteInWindow ev input auth m w prior d1)
     | None \<Rightarrow> voteInNewWindow ev input auth m r windowId prior d1))"

end
