(* ===== verification/Constraints.thy ===== *)
theory Constraints
  imports Domain
begin

text \<open>
  Two interfaces every table of the database meets: a unique index, kept by guarded
  inserts and by updates that create no new conflict, and a soft-deleted table
  (\<open>soft_table\<close> of the prelude) whose mark is the pair of invalidation columns. Both are
  interpreted on each table the operations use them for.
\<close>

section \<open>Unique indexes\<close>

locale unique_index =
  fixes conflict :: "'r \<Rightarrow> 'r \<Rightarrow> bool"
  assumes conflict_sym: "conflict a b \<Longrightarrow> conflict b a"
begin

definition unique :: "'r list \<Rightarrow> bool" where
  "unique rows \<longleftrightarrow> sorted_wrt (\<lambda>a b. \<not> conflict a b) rows"

lemma unique_Nil [simp]: "unique []"
  by (simp add: unique_def)

lemma insert_unique: "unique rows \<Longrightarrow> insertUnique conflict r rows = Inr rows' \<Longrightarrow> unique rows'"
  by (auto simp: unique_def sorted_wrt_append)

lemma update_unique:
  assumes "unique rows"
    and "\<And>a b. conflict (if p a then f a else a) (if p b then f b else b) \<Longrightarrow> conflict a b"
  shows "unique (updWhere p f rows)"
  using assms(1) unfolding unique_def updWhere_def sorted_wrt_map
  by (rule sorted_wrt_mono_rel [rotated]) (use assms(2) in blast)

lemma filter_unique: "unique rows \<Longrightarrow> unique (filter p rows)"
  by (simp add: unique_def sorted_wrt_filter)

lemma unique_nth:
  assumes "unique rows" and "i < length rows" and "j < length rows" and "conflict (rows ! i) (rows ! j)"
  shows "i = j"
proof (rule ccontr)
  assume "i \<noteq> j"
  then consider "i < j" | "j < i" by linarith
  then show False
    using assms conflict_sym by cases (auto simp: unique_def sorted_wrt_iff_nth_less)
qed

lemma at_most_one:
  assumes "unique rows" and "\<And>a b. p a \<Longrightarrow> p b \<Longrightarrow> conflict a b"
  shows "length (filter p rows) \<le> 1"
proof (rule ccontr)
  assume "\<not> length (filter p rows) \<le> 1"
  then have l: "1 < length (filter p rows)" by simp
  have mem: "p x" if "x \<in> set (filter p rows)" for x using that by simp
  have "p (filter p rows ! 0)" "p (filter p rows ! 1)"
    by (rule mem, rule nth_mem, use l in linarith)+
  then have c: "conflict (filter p rows ! 0) (filter p rows ! 1)" by (rule assms(2))
  have z: "0 < length (filter p rows)" using l by linarith
  have "(0::nat) = 1" by (rule unique_nth [OF filter_unique [OF assms(1)] z l c])
  then show False by simp
qed

lemma same_row:
  assumes "unique rows" and "\<And>a b. p a \<Longrightarrow> p b \<Longrightarrow> conflict a b"
    and "a \<in> set rows" "p a" and "b \<in> set rows" "p b"
  shows "a = b"
proof -
  have "a \<in> set (filter p rows)" "b \<in> set (filter p rows)" using assms by auto
  moreover have "length (filter p rows) \<le> 1" using assms(1,2) by (rule at_most_one)
  ultimately show ?thesis by (cases "filter p rows") auto
qed

end

interpretation roundIdx: unique_index roundConflict
  by unfold_locales (auto simp: roundConflict_def)

interpretation windowIdx: unique_index windowConflict
  by unfold_locales (auto simp: windowConflict_def)

interpretation voteIdx: unique_index voteConflict
  by unfold_locales (auto simp: voteConflict_def)

interpretation scoreEventIdx: unique_index scoreEventConflict
  by unfold_locales (unfold scoreEventConflict_def, metis)

interpretation roundResultIdx: unique_index roundResultConflict
  by unfold_locales (auto simp: roundResultConflict_def)

interpretation appealIdx: unique_index appealConflict
  by unfold_locales (unfold appealConflict_def, metis)

interpretation decisionIdx: unique_index decisionConflict
  by unfold_locales (auto simp: decisionConflict_def)

interpretation outcomeIdx: unique_index outcomeConflict
  by unfold_locales (unfold outcomeConflict_def, metis)

interpretation publicationIdx: unique_index publicationConflict
  by unfold_locales (auto simp: publicationConflict_def)

interpretation assignmentIdx: unique_index assignmentConflict
  by unfold_locales (unfold assignmentConflict_def, metis)

section \<open>Invalidation marks\<close>

definition voteMark :: "vote_row \<Rightarrow> time option \<times> uuid option" where
  "voteMark r = (v_invalidatedAt r, v_invalidatedByAuditId r)"

definition setVoteMark :: "time option \<times> uuid option \<Rightarrow> vote_row \<Rightarrow> vote_row" where
  "setVoteMark m r = r\<lparr>v_invalidatedAt := fst m, v_invalidatedByAuditId := snd m\<rparr>"

definition eventMark :: "score_event_row \<Rightarrow> time option \<times> uuid option" where
  "eventMark r = (s_revertedAt r, s_revertedByAuditId r)"

definition setEventMark :: "time option \<times> uuid option \<Rightarrow> score_event_row \<Rightarrow> score_event_row" where
  "setEventMark m r = r\<lparr>s_revertedAt := fst m, s_revertedByAuditId := snd m\<rparr>"

definition penaltyMark :: "penalty_row \<Rightarrow> time option \<times> uuid option" where
  "penaltyMark r = (p_revertedAt r, p_revertedByAuditId r)"

definition setPenaltyMark :: "time option \<times> uuid option \<Rightarrow> penalty_row \<Rightarrow> penalty_row" where
  "setPenaltyMark m r = r\<lparr>p_revertedAt := fst m, p_revertedByAuditId := snd m\<rparr>"

definition faultMark :: "fault_row \<Rightarrow> time option \<times> uuid option" where
  "faultMark r = (f_invalidatedAt r, f_invalidatedByAuditId r)"

definition setFaultMark :: "time option \<times> uuid option \<Rightarrow> fault_row \<Rightarrow> fault_row" where
  "setFaultMark m r = r\<lparr>f_invalidatedAt := fst m, f_invalidatedByAuditId := snd m\<rparr>"

definition roundResultMark :: "round_result_row \<Rightarrow> time option \<times> uuid option" where
  "roundResultMark r = (x_invalidatedAt r, x_invalidatedByAuditId r)"

definition setRoundResultMark :: "time option \<times> uuid option \<Rightarrow> round_result_row \<Rightarrow> round_result_row" where
  "setRoundResultMark m r = r\<lparr>x_invalidatedAt := fst m, x_invalidatedByAuditId := snd m\<rparr>"

definition decisionMark :: "decision_row \<Rightarrow> time option \<times> uuid option" where
  "decisionMark r = (d_invalidatedAt r, d_invalidatedByAuditId r)"

definition setDecisionMark :: "time option \<times> uuid option \<Rightarrow> decision_row \<Rightarrow> decision_row" where
  "setDecisionMark m r = r\<lparr>d_invalidatedAt := fst m, d_invalidatedByAuditId := snd m\<rparr>"

definition windowMark :: "window_row \<Rightarrow> time option \<times> uuid option" where
  "windowMark r = (w_invalidatedAt r, w_invalidatedByAuditId r)"

definition setWindowMark :: "time option \<times> uuid option \<Rightarrow> window_row \<Rightarrow> window_row" where
  "setWindowMark m r = r\<lparr>w_invalidatedAt := fst m, w_invalidatedByAuditId := snd m\<rparr>"

definition roundMark :: "round_row \<Rightarrow> time option \<times> uuid option" where
  "roundMark r = (r_invalidatedAt r, r_invalidatedByAuditId r)"

definition setRoundMark :: "time option \<times> uuid option \<Rightarrow> round_row \<Rightarrow> round_row" where
  "setRoundMark m r = r\<lparr>r_invalidatedAt := fst m, r_invalidatedByAuditId := snd m\<rparr>"

lemmas mark_defs =
  voteMark_def setVoteMark_def eventMark_def setEventMark_def penaltyMark_def setPenaltyMark_def
  faultMark_def setFaultMark_def roundResultMark_def setRoundResultMark_def decisionMark_def
  setDecisionMark_def windowMark_def setWindowMark_def roundMark_def setRoundMark_def

interpretation voteTab: soft_table "\<lambda>_. True" voteMark setVoteMark
  by unfold_locales (simp_all add: mark_defs)

interpretation eventTab: soft_table "\<lambda>_. True" eventMark setEventMark
  by unfold_locales (simp_all add: mark_defs)

interpretation penaltyTab: soft_table "\<lambda>_. True" penaltyMark setPenaltyMark
  by unfold_locales (simp_all add: mark_defs)

interpretation faultTab: soft_table "\<lambda>_. True" faultMark setFaultMark
  by unfold_locales (simp_all add: mark_defs)

interpretation roundResultTab: soft_table "\<lambda>_. True" roundResultMark setRoundResultMark
  by unfold_locales (simp_all add: mark_defs)

interpretation decisionTab: soft_table "\<lambda>_. True" decisionMark setDecisionMark
  by unfold_locales (simp_all add: mark_defs)

interpretation windowTab: soft_table "\<lambda>_. True" windowMark setWindowMark
  by unfold_locales (simp_all add: mark_defs)

interpretation roundTab: soft_table "\<lambda>_. True" roundMark setRoundMark
  by unfold_locales (simp_all add: mark_defs)

end
