(* ===== verification/Supervision.thy ===== *)
theory Supervision
  imports Scoring Constraints
begin

text \<open>
  The supervisor: \<open>command-identity.ts\<close>, the three SQL authorisation checks
  (\<open>supervisor-authorization.service.ts\<close> and the private copies in the lifecycle and penalty
  services), \<open>penalty.service.ts\<close> and \<open>fault.service.ts\<close>. Inner joins are list
  comprehensions over the joined tables; a check passes when the query returns one row.
\<close>

section \<open>Identities\<close>

datatype supervisor_identity =
    LegacyIdentity (si_sessionId: uuid) (si_sessionTokenHash: string)
  | OfficialIdentity (si_assignmentId: uuid) (si_officialId: uuid) (si_officialSessionId: uuid)

definition auditActor :: "supervisor_identity \<Rightarrow> uuid option \<times> uuid option" where
  "auditActor identity = (case identity of
       LegacyIdentity sid _ \<Rightarrow> (Some sid, None)
     | OfficialIdentity _ _ osid \<Rightarrow> (None, Some osid))"

definition legacySessionOf :: "supervisor_identity \<Rightarrow> uuid option" where
  "legacySessionOf identity = (case identity of
       LegacyIdentity sid _ \<Rightarrow> Some sid | OfficialIdentity _ _ _ \<Rightarrow> None)"

definition assignmentOf :: "supervisor_identity \<Rightarrow> uuid option" where
  "assignmentOf identity = (case identity of
       LegacyIdentity _ _ \<Rightarrow> None | OfficialIdentity aid _ _ \<Rightarrow> Some aid)"

definition assignmentMeta :: "supervisor_identity \<Rightarrow> (string \<times> jval) list" where
  "assignmentMeta identity = (case identity of
       LegacyIdentity _ _ \<Rightarrow> [] | OfficialIdentity aid _ _ \<Rightarrow> [(''assignmentId'', JId aid)])"

definition actorAudit ::
  "uuid option \<Rightarrow> audit_event \<Rightarrow> uuid \<Rightarrow> supervisor_identity \<Rightarrow> jval \<Rightarrow> audit_row" where
  "actorAudit aid event mid identity meta =
     \<lparr> a_id = aid, a_eventType = event, a_matchId = Some mid, a_adminUserId = None,
       a_sessionId = fst (auditActor identity), a_officialSessionId = snd (auditActor identity),
       a_metadata = meta \<rparr>"

section \<open>Authorisation queries\<close>

definition activeAssignment :: "uuid \<Rightarrow> db \<Rightarrow> bool" where
  "activeAssignment mid d \<longleftrightarrow> (\<exists>a \<in> set (assignments d). as_matchId a = mid \<and> as_releasedAt a = None)"

definition supervisorRows :: "env \<Rightarrow> uuid \<Rightarrow> supervisor_identity \<Rightarrow> db \<Rightarrow> uuid list" where
  "supervisorRows ev mid identity d = (case identity of
       OfficialIdentity aid oid osid \<Rightarrow>
         [as_id a. a \<leftarrow> assignments d, s \<leftarrow> officialSessions d,
            os_officialId s = as_officialId a, as_id a = aid, as_matchId a = mid,
            as_officialId a = oid, as_role a = SUPERVISOR, as_releasedAt a = None,
            os_id s = osid, os_active s, os_revokedAt s = None, notExpired (os_expiresAt s) (serverNow ev)]
     | LegacyIdentity sid tokenHash \<Rightarrow>
         [ms_id s. s \<leftarrow> matchSessions d, c \<leftarrow> accessCodes d,
            ac_id c = ms_accessCodeId s, ms_id s = sid, ms_matchId s = mid, ms_tokenHash s = tokenHash,
            ms_role s = SUPERVISOR, ac_role c = AR_SUPERVISOR, ms_active s, ms_revokedAt s = None,
            notExpired (ms_expiresAt s) (serverNow ev), \<not> activeAssignment (ms_matchId s) d])"

definition lockAndVerify ::
  "env \<Rightarrow> uuid \<Rightarrow> supervisor_identity \<Rightarrow> match_error \<Rightarrow> db \<Rightarrow> match_error + unit" where
  "lockAndVerify ev mid identity err d =
     (if length (supervisorRows ev mid identity d) = 1 then Inr () else Inl err)"

definition officialSupervisorRows ::
  "env \<Rightarrow> uuid \<Rightarrow> uuid \<Rightarrow> uuid \<Rightarrow> uuid \<Rightarrow> db \<Rightarrow> uuid list" where
  "officialSupervisorRows ev mid aid oid osid d =
     [os_id s. s \<leftarrow> officialSessions d, ofc \<leftarrow> officials d, m \<leftarrow> matches d, a \<leftarrow> assignments d,
        of_id ofc = os_officialId s, m_id m = mid, as_id a = aid, os_id s = osid,
        os_officialId s = oid, os_active s, os_revokedAt s = None,
        notExpired (os_expiresAt s) (serverNow ev), of_isActive ofc, of_role ofc = SUPERVISOR,
        of_tournamentId ofc = m_tournamentId m, as_matchId a = m_id m, as_officialId a = of_id ofc,
        as_role a = SUPERVISOR, as_releasedAt a = None]"

definition lockActiveSupervisorIdentity ::
  "env \<Rightarrow> uuid \<Rightarrow> supervisor_identity \<Rightarrow> db \<Rightarrow> match_error + unit" where
  "lockActiveSupervisorIdentity ev mid identity d =
     (let rows = (case identity of
          OfficialIdentity aid oid osid \<Rightarrow> officialSupervisorRows ev mid aid oid osid d
        | LegacyIdentity sid tokenHash \<Rightarrow>
            [ms_id s. s \<leftarrow> matchSessions d, c \<leftarrow> accessCodes d,
               ac_id c = ms_accessCodeId s, ms_id s = sid, ms_matchId s = mid, ms_active s,
               ms_revokedAt s = None, notExpired (ms_expiresAt s) (serverNow ev),
               ms_tokenHash s = tokenHash, ms_role s = SUPERVISOR, ac_role c = AR_SUPERVISOR,
               \<not> activeAssignment (ms_matchId s) d]) in
      if length rows = 1 then Inr () else Inl InactiveRoundStartSession)"

definition lockActiveControlSession ::
  "env \<Rightarrow> uuid \<Rightarrow> supervisor_identity \<Rightarrow> db \<Rightarrow> match_error + unit" where
  "lockActiveControlSession ev mid identity d =
     (case lockActiveSupervisorIdentity ev mid identity d of
        Inl err \<Rightarrow> (if err = InactiveRoundStartSession then Inl InactiveRoundControlSession else Inl err)
      | Inr u \<Rightarrow> Inr u)"

text \<open>The penalty service's own check: no token hash and no exclusion of claimed matches.\<close>

definition lockPenaltySupervisor ::
  "env \<Rightarrow> uuid \<Rightarrow> supervisor_identity \<Rightarrow> db \<Rightarrow> match_error + unit" where
  "lockPenaltySupervisor ev mid identity d =
     (let rows = (case identity of
          OfficialIdentity aid oid osid \<Rightarrow> officialSupervisorRows ev mid aid oid osid d
        | LegacyIdentity sid tokenHash \<Rightarrow>
            [ms_id s. s \<leftarrow> matchSessions d, c \<leftarrow> accessCodes d,
               ac_id c = ms_accessCodeId s, ms_id s = sid, ms_matchId s = mid, ms_active s,
               ms_revokedAt s = None, notExpired (ms_expiresAt s) (serverNow ev),
               ms_role s = SUPERVISOR, ms_judgeSlot s = None, ac_role c = AR_SUPERVISOR]) in
      if length rows = 1 then Inr () else Inl InactivePenaltySession)"

section \<open>Penalties\<close>

definition penaltyRound :: "match_row \<Rightarrow> db \<Rightarrow> round_row option" where
  "penaltyRound m d =
     (if m_status m \<noteq> ROUND_1_RUNNING \<and> m_status m \<noteq> ROUND_2_RUNNING then None
      else let n = (if m_status m = ROUND_1_RUNNING then 1 else 2) in
        if m_currentRound m \<noteq> Some n then None
        else List.find (\<lambda>r. r_roundNumber r = n)
          (filter (\<lambda>r. r_matchId r = m_id m \<and> r_endedAt r = None) (rounds d)))"

record penalty_transition =
  pt_matchId :: uuid
  pt_penalty :: penalty_row
  pt_violationCount :: nat
  pt_scores :: "score_line list"

definition penaltyGuards ::
  "env \<Rightarrow> uuid \<Rightarrow> supervisor_identity \<Rightarrow> db
   \<Rightarrow> match_error + (sport_rules \<times> match_row \<times> round_row)" where
  "penaltyGuards ev mid identity d =
     bindR (lockMatch MatchNotFound mid d) (\<lambda>_.
     bindR (rulesForMatch mid d) (\<lambda>rules.
     bindR (lockPenaltySupervisor ev mid identity d) (\<lambda>_.
     bindR (orThrow (getMatch mid d) RecordNotFound) (\<lambda>m.
     if m_rulesVersion m \<noteq> LEGACY_SCORE_PENALTY_V1 then Inl PenaltyLegacyOnly
     else bindR (orThrow (penaltyRound m d) MatchNotRunningForPenalty) (\<lambda>r.
     if serverNow ev \<ge> r_endsAt r then Inl RoundEndedForPenalty
     else Inr (rules, m, r))))))"

definition penaltyRows ::
  "env \<Rightarrow> uuid \<Rightarrow> uuid \<Rightarrow> uuid option \<Rightarrow> uuid \<Rightarrow> sport_rules \<Rightarrow> round_row
   \<Rightarrow> penalty_row \<times> score_event_row" where
  "penaltyRows ev penaltyId mid sessionId athleteId rules r =
     (\<lparr> p_id = penaltyId, p_matchId = mid, p_athleteId = athleteId,
        p_roundNumber = Some (r_roundNumber r), p_value = sr_supervisorPenaltyValue rules,
        p_createdBySessionId = sessionId, p_createdAt = serverNow ev,
        p_revertedAt = None, p_revertedByAuditId = None \<rparr>,
      \<lparr> s_matchId = mid, s_athleteId = athleteId, s_roundNumber = Some (r_roundNumber r),
        s_roundId = Some (r_id r), s_occurredAt = Some (serverNow ev),
        s_roundElapsedMs = activeRoundElapsedMs (r_durationMs r) (r_endsAt r) (serverNow ev),
        s_type = PENALTY, s_value = sr_supervisorPenaltyValue rules, s_scoringWindowId = None,
        s_penaltyId = Some penaltyId, s_createdAt = serverNow ev,
        s_revertedAt = None, s_revertedByAuditId = None \<rparr>)"

definition addPenalty ::
  "env \<Rightarrow> side \<Rightarrow> uuid \<Rightarrow> supervisor_identity option \<Rightarrow> uuid option \<Rightarrow> uuid \<Rightarrow> db
   \<Rightarrow> match_error + (penalty_transition \<times> db)" where
  "addPenalty ev athlete mid identity0 sessionId penaltyId d =
     (case (case identity0 of Some i \<Rightarrow> Some i | None \<Rightarrow> map_option (\<lambda>sid. LegacyIdentity sid []) sessionId) of
        None \<Rightarrow> Inl InactivePenaltySession
      | Some identity \<Rightarrow>
     bindR (penaltyGuards ev mid identity d) (\<lambda>(rules, m, r).
     bindR (orThrow (getAthlete mid athlete d) RecordNotFound) (\<lambda>a.
     let (pen, event) = penaltyRows ev penaltyId mid (legacySessionOf identity) (ma_id a) rules r in
     bindR (insertUnique scoreEventConflict event (scoreEvents d)) (\<lambda>events.
     let d1 = d\<lparr>penalties := penalties d @ [pen], scoreEvents := events\<rparr>;
         violationCount = length (filter (\<lambda>p. p_athleteId p = ma_id a \<and> p_matchId p = mid \<and>
            p_revertedAt p = None) (penalties d1));
         d2 = addAudit (actorAudit None PENALTY_ACTION mid identity (JObj
            ([(''action'', JStr ''PENALTY_ADDED''), (''athlete'', JColor athlete),
              (''athleteId'', JId (ma_id a)), (''penaltyId'', JId penaltyId),
              (''roundNumber'', JInt (int (r_roundNumber r))), (''value'', JInt (p_value pen)),
              (''violationCount'', JInt (int violationCount))] @ assignmentMeta identity))) d1 in
     bindR (roundNumber12 (r_roundNumber r)) (\<lambda>_.
     Inr (\<lparr> pt_matchId = mid, pt_penalty = pen, pt_violationCount = violationCount,
            pt_scores = scoreUpdatedPayload mid d2 \<rparr>, d2))))))"

section \<open>Faults\<close>

record fault_transition =
  ft_fault :: fault_row
  ft_matchPublicId :: string
  ft_projection :: "projection list"

definition faultRound :: "match_row \<Rightarrow> db \<Rightarrow> round_row option" where
  "faultRound m d = List.find (\<lambda>r. Some (r_roundNumber r) = m_currentRound m)
     (filter (\<lambda>r. r_matchId r = m_id m \<and> r_endedAt r = None \<and> r_invalidatedAt r = None) (rounds d))"

definition faultGuards ::
  "env \<Rightarrow> side \<Rightarrow> supervisor_identity \<Rightarrow> uuid \<Rightarrow> db
   \<Rightarrow> match_error + (match_row \<times> round_row \<times> match_athlete_row)" where
  "faultGuards ev athlete identity mid d =
     bindR (lockMatch InvalidFaultState mid d) (\<lambda>_.
     bindR (lockAndVerify ev mid identity InactiveFaultSupervisor d) (\<lambda>_.
     bindR (orThrow (getMatch mid d) RecordNotFound) (\<lambda>m.
     if m_status m \<notin> {ROUND_1_RUNNING, ROUND_2_RUNNING, OVERTIME_RUNNING} then
       (if m_status m \<in> {ROUND_1_PAUSED, ROUND_2_PAUSED, OVERTIME_PAUSED} then Inl FaultRoundPaused
        else Inl FaultMatchNotRunning)
     else bindR (orThrow (faultRound m d) InvalidFaultState) (\<lambda>r.
     if r_pausedAt r \<noteq> None then Inl FaultRoundPaused
     else if serverNow ev \<ge> r_endsAt r then Inl FaultRoundEnded
     else bindR (orThrow (getAthlete mid athlete d) InvalidFaultState) (\<lambda>a. Inr (m, r, a))))))"

definition recordFault ::
  "env \<Rightarrow> side \<Rightarrow> fault_severity \<Rightarrow> supervisor_identity \<Rightarrow> uuid \<Rightarrow> string option \<Rightarrow> uuid \<Rightarrow> uuid \<Rightarrow> db
   \<Rightarrow> match_error + (fault_transition \<times> db)" where
  "recordFault ev athlete severity identity mid traceId faultId auditId d =
     bindR (faultGuards ev athlete identity mid d) (\<lambda>(m, r, a).
     let fault = \<lparr> f_id = faultId, f_matchId = mid, f_athleteId = ma_id a, f_roundId = r_id r,
                   f_severity = severity, f_assignmentId = assignmentOf identity,
                   f_sessionId = legacySessionOf identity, f_createdAt = serverNow ev,
                   f_invalidatedAt = None, f_invalidatedByAuditId = None \<rparr>;
         d1 = d\<lparr>faults := faults d @ [fault]\<rparr>;
         d2 = addAudit (actorAudit (Some auditId) MATCH_ACTION mid identity (JObj
            [(''action'', JStr ''FAULT_RECORDED''), (''athlete'', JColor athlete),
             (''severity'', JSeverity severity), (''faultId'', JId faultId),
             (''roundId'', JId (r_id r)), (''traceId'', jOpt JStr traceId)])) d1;
         projection = calculateMatchScoreProjection
            (filter (\<lambda>x. ma_matchId x = mid) (matchAthletes d2))
            (filter (\<lambda>x. f_matchId x = mid) (faults d2))
            (filter (\<lambda>x. s_matchId x = mid) (scoreEvents d2))
            (map r_id (filter (\<lambda>x. r_matchId x = mid \<and> r_invalidatedAt x = None) (rounds d2))) in
     Inr (\<lparr> ft_fault = fault, ft_matchPublicId = m_publicId m, ft_projection = projection \<rparr>, d2))"

end
