(* ===== verification/Bracket_Outcome.thy ===== *)
theory Bracket_Outcome
  imports Sport_Rules
begin

text \<open>
  \<open>brackets/bracket-outcome.service.ts\<close>: deciding a fixture from a finished match or by
  hand, propagating the winner to the slots it feeds, and retracting a decision; and
  \<open>brackets/bracket-cancellation.service.ts\<close>. Row locks have no effect on the state, so
  \<open>lockFixtureAndDownstream\<close> has no counterpart. The SHA-256 of a JSON text is a parameter.
\<close>

section \<open>Reading the bracket tables\<close>

definition getFixture :: "uuid \<Rightarrow> db \<Rightarrow> fixture_row option" where
  "getFixture fid d = List.find (\<lambda>f. bf_id f = fid) (fixtureRows d)"

definition getBracket :: "uuid \<Rightarrow> db \<Rightarrow> bracket_row option" where
  "getBracket bid d = List.find (\<lambda>b. b_id b = bid) (brackets d)"

definition fixtureMatch :: "uuid \<Rightarrow> db \<Rightarrow> match_row option" where
  "fixtureMatch fid d = List.find (\<lambda>m. m_bracketFixtureId m = Some fid) (matches d)"

definition slotsOf :: "uuid \<Rightarrow> db \<Rightarrow> slot_row list" where
  "slotsOf fid d = filter (\<lambda>s. sb_fixtureId s = fid) (slotRows d)"

definition sourceSlots :: "uuid \<Rightarrow> db \<Rightarrow> slot_row list" where
  "sourceSlots fid d = filter (\<lambda>s. sb_sourceFixtureId s = Some fid) (slotRows d)"

definition setFixture :: "uuid \<Rightarrow> (fixture_row \<Rightarrow> fixture_row) \<Rightarrow> db \<Rightarrow> db" where
  "setFixture fid f d = d\<lparr>fixtureRows := updWhere (\<lambda>x. bf_id x = fid) f (fixtureRows d)\<rparr>"

definition setSlot :: "uuid \<Rightarrow> uuid option \<Rightarrow> db \<Rightarrow> db" where
  "setSlot sid entrant d = d\<lparr>slotRows := updWhere (\<lambda>s. sb_id s = sid)
     (\<lambda>s. s\<lparr>sb_resolvedEntrantId := entrant\<rparr>) (slotRows d)\<rparr>"

definition setBracket :: "uuid \<Rightarrow> (bracket_row \<Rightarrow> bracket_row) \<Rightarrow> db \<Rightarrow> db" where
  "setBracket bid f d = d\<lparr>brackets := updWhere (\<lambda>b. b_id b = bid) f (brackets d)\<rparr>"

definition allResolved :: "uuid \<Rightarrow> db \<Rightarrow> bool" where
  "allResolved fid d \<longleftrightarrow> list_all (\<lambda>s. sb_resolvedEntrantId s \<noteq> None) (slotsOf fid d)"

section \<open>Decisions\<close>

datatype decision_type = RULES | ADMIN_TIEBREAK | WITHDRAWAL_OR_INJURY

record winner_decision =
  wd_decisionType :: decision_type
  wd_actorId :: "uuid option"
  wd_reason :: "string option"
  wd_scoreSnapshot :: "jval option"

definition decisionTypeName :: "decision_type \<Rightarrow> string" where
  "decisionTypeName t = (case t of RULES \<Rightarrow> ''RULES'' | ADMIN_TIEBREAK \<Rightarrow> ''ADMIN_TIEBREAK''
     | WITHDRAWAL_OR_INJURY \<Rightarrow> ''WITHDRAWAL_OR_INJURY'')"

definition decisionFields :: "winner_decision \<Rightarrow> (string \<times> jval) list" where
  "decisionFields wd =
     (case wd_actorId wd of None \<Rightarrow> [] | Some a \<Rightarrow> [(''actorId'', JId a)]) @
     [(''decisionType'', JStr (decisionTypeName (wd_decisionType wd)))] @
     (case wd_reason wd of None \<Rightarrow> [] | Some r \<Rightarrow> [(''reason'', JStr r)]) @
     (case wd_scoreSnapshot wd of None \<Rightarrow> [] | Some s \<Rightarrow> [(''scoreSnapshot'', s)])"

definition jField :: "string \<Rightarrow> jval \<Rightarrow> jval option" where
  "jField k j = (case j of JObj kvs \<Rightarrow> map_of kvs k | _ \<Rightarrow> None)"

text \<open>The loop of \<open>decide\<close> over the slots fed by the fixture, as read before the loop: the
  body after its conflict check, and the loop.\<close>

definition fillSlot :: "uuid \<Rightarrow> slot_row \<Rightarrow> db \<Rightarrow> db" where
  "fillSlot entrantId slot d =
     (let d1 = (if sb_resolvedEntrantId slot = None then setSlot (sb_id slot) (Some entrantId) d else d) in
      if allResolved (sb_fixtureId slot) d1
      then d1\<lparr>fixtureRows := updWhere
             (\<lambda>f. bf_id f = sb_fixtureId slot \<and> bf_status f = PENDING_PARTICIPANTS)
             (\<lambda>f. f\<lparr>bf_status := READY\<rparr>) (fixtureRows d1)\<rparr>
      else d1)"

fun propagate :: "uuid \<Rightarrow> slot_row list \<Rightarrow> db \<Rightarrow> match_error + db" where
  "propagate entrantId [] d = Inr d"
| "propagate entrantId (slot # rest) d =
     (if sb_resolvedEntrantId slot \<noteq> None \<and> sb_resolvedEntrantId slot \<noteq> Some entrantId
      then Inl BracketWinnerDecisionConflict
      else propagate entrantId rest (fillSlot entrantId slot d))"

definition completeBracket :: "env \<Rightarrow> bracket_row \<Rightarrow> uuid \<Rightarrow> db \<Rightarrow> db" where
  "completeBracket ev b entrantId d =
     addAudit \<lparr> a_id = None, a_eventType = BRACKET_COMPLETED, a_matchId = None, a_adminUserId = None,
       a_sessionId = None, a_officialSessionId = None,
       a_metadata = JObj [(''bracketId'', JId (b_id b)), (''tournamentId'', JId (b_tournamentId b)),
         (''weightClassId'', JId (b_weightClassId b)), (''championEntrantId'', JId entrantId)] \<rparr>
     (setBracket (b_id b) (\<lambda>x. x\<lparr>b_status := B_COMPLETED, b_completedAt := Some (appNow ev),
        b_championEntrantId := Some entrantId\<rparr>) d)"

definition decisionAudit :: "uuid \<Rightarrow> uuid \<Rightarrow> winner_decision \<Rightarrow> db \<Rightarrow> audit_row" where
  "decisionAudit fxId entrantId decision d =
     \<lparr> a_id = None,
       a_eventType = (if wd_decisionType decision \<in> {ADMIN_TIEBREAK, WITHDRAWAL_OR_INJURY}
                      then BRACKET_WINNER_MANUALLY_DECIDED else BRACKET_WINNER_ADVANCED),
       a_matchId = map_option m_id (fixtureMatch fxId d), a_adminUserId = wd_actorId decision,
       a_sessionId = None, a_officialSessionId = None,
       a_metadata = JObj ([(''fixtureId'', JId fxId), (''entrantId'', JId entrantId)] @
         decisionFields decision) \<rparr>"

definition decided :: "uuid \<Rightarrow> winner_decision \<Rightarrow> fixture_row \<Rightarrow> fixture_row" where
  "decided entrantId decision f = f\<lparr>bf_winnerEntrantId := Some entrantId,
     bf_status := FX_COMPLETED, bf_winnerDecision := JObj (decisionFields decision)\<rparr>"

definition decide ::
  "env \<Rightarrow> uuid \<Rightarrow> uuid \<Rightarrow> winner_decision \<Rightarrow> db \<Rightarrow> match_error + (decide_result \<times> db)" where
  "decide ev fxId entrantId decision d =
     bindR (orThrow (getFixture fxId d) RecordNotFound) (\<lambda>f.
     bindR (orThrow (getBracket (bf_bracketId f) d) RecordNotFound) (\<lambda>b.
     let result = \<lparr> dr_fixtureId = fxId, dr_winnerEntrantId = entrantId, dr_bracketId = bf_bracketId f \<rparr> in
     case bf_winnerEntrantId f of
       Some w \<Rightarrow> (if w \<noteq> entrantId then Inl BracketWinnerDecisionConflict else Inr (result, d))
     | None \<Rightarrow>
         let d1 = setFixture fxId (decided entrantId decision) d in
         bindR (propagate entrantId (sourceSlots fxId d1) d1) (\<lambda>d2.
         let d3 = (if bf_roundNumber f = b_roundCount b then completeBracket ev b entrantId d2 else d2) in
         Inr (result, addAudit (decisionAudit fxId entrantId decision d) d3))))"

section \<open>A finished match\<close>

definition liveEvents :: "uuid \<Rightarrow> db \<Rightarrow> score_event_row list" where
  "liveEvents mid d = filter (\<lambda>e. s_matchId e = mid \<and> s_revertedAt e = None) (scoreEvents d)"

definition effectiveTotals :: "uuid \<Rightarrow> db \<Rightarrow> side \<Rightarrow> int" where
  "effectiveTotals mid d c = sum_list (map s_value (filter (\<lambda>e.
     \<exists>a \<in> set (matchAthletes d). ma_id a = s_athleteId e \<and> ma_color a = c) (liveEvents mid d)))"

definition scoreSnapshot :: "env \<Rightarrow> uuid \<Rightarrow> db \<Rightarrow> jval" where
  "scoreSnapshot ev mid d = JObj
     [(''effectiveTotals'', JObj [(''RED'', JInt (effectiveTotals mid d RED)),
                                  (''BLUE'', JInt (effectiveTotals mid d BLUE))]),
      (''evaluatedAt'', JDate (appNow ev)), (''eventCount'', JInt (int (length (liveEvents mid d))))]"

definition winnerSlot :: "uuid \<Rightarrow> side \<Rightarrow> fixture_row \<Rightarrow> db \<Rightarrow> slot_row option" where
  "winnerSlot mid color f d =
     (let winnerAthlete = List.find (\<lambda>a. ma_matchId a = mid \<and> ma_color a = color) (matchAthletes d);
          slots = slotsOf (bf_id f) d;
          es = filter (\<lambda>e. \<exists>s \<in> set slots. sb_resolvedEntrantId s = Some (e_id e)) (entrants d) in
      List.find (\<lambda>s. sb_resolvedEntrantId s \<noteq> None \<and>
          (\<exists>e \<in> set es. Some (e_id e) = sb_resolvedEntrantId s \<and>
             (case winnerAthlete of None \<Rightarrow> False
              | Some a \<Rightarrow> ma_athleteId a = Some (e_athleteId e)))) slots)"

definition processFinishedMatch ::
  "env \<Rightarrow> uuid \<Rightarrow> side option \<Rightarrow> db \<Rightarrow> match_error + db" where
  "processFinishedMatch ev mid publishedWinnerColor d =
     bindR (orThrow (getMatch mid d) RecordNotFound) (\<lambda>m.
     if m_status m \<noteq> FINISHED then Inr d
     else let snapshot = scoreSnapshot ev mid d in
     bindR (case publishedWinnerColor of
              Some c \<Rightarrow> Inr (Some c)
            | None \<Rightarrow> bindR (rulesForMatch mid d) (\<lambda>rules.
                Inr (sr_determineWinner rules (effectiveTotals mid d)))) (\<lambda>winnerColor.
     case m_bracketFixtureId m of
       None \<Rightarrow> Inr d
     | Some fid \<Rightarrow>
         bindR (orThrow (getFixture fid d) RecordNotFound) (\<lambda>f.
         if bf_winnerEntrantId f \<noteq> None \<or> bf_status f = AWAITING_WINNER then Inr d
         else case winnerColor of
           None \<Rightarrow> Inr (setFixture fid (\<lambda>x. x\<lparr>bf_status := AWAITING_WINNER,
               bf_winnerDecision := JObj [(''decisionType'', JStr ''RULES_TIE''), (''scoreSnapshot'', snapshot)]\<rparr>) d)
         | Some c \<Rightarrow>
             (case Option.bind (winnerSlot mid c f d) sb_resolvedEntrantId of
                None \<Rightarrow> Inl BracketWinnerDecisionInvalid
              | Some entrantId \<Rightarrow> bindR (decide ev fid entrantId
                    \<lparr> wd_decisionType = RULES, wd_actorId = None, wd_reason = None,
                      wd_scoreSnapshot = Some snapshot \<rparr> d) (\<lambda>(result, d'). Inr d')))))"

section \<open>Retraction\<close>

definition clearSlot :: "slot_row \<Rightarrow> db \<Rightarrow> db" where
  "clearSlot slot d =
     (let d1 = setSlot (sb_id slot) None d in
      if \<not> allResolved (sb_fixtureId slot) d1
      then setFixture (sb_fixtureId slot) (\<lambda>f. f\<lparr>bf_status := PENDING_PARTICIPANTS\<rparr>) d1
      else d1)"

definition retractFinishedMatch ::
  "uuid \<Rightarrow> uuid option \<Rightarrow> uuid option \<Rightarrow> string \<Rightarrow> db \<Rightarrow> match_error + db" where
  "retractFinishedMatch mid sessionId adminUserId reason d =
     bindR (orThrow (getMatch mid d) RecordNotFound) (\<lambda>m.
     case m_bracketFixtureId m of
       None \<Rightarrow> Inr d
     | Some fid \<Rightarrow>
         bindR (orThrow (getFixture fid d) RecordNotFound) (\<lambda>f.
         bindR (orThrow (getBracket (bf_bracketId f) d) RecordNotFound) (\<lambda>b.
         if bf_winnerEntrantId f = None \<and> bf_status f \<noteq> AWAITING_WINNER then Inr d
         else if \<exists>s \<in> set (sourceSlots fid d). fixtureMatch (sb_fixtureId s) d \<noteq> None
         then Inl BracketProgressionLocked
         else
           let d1 = setFixture fid (\<lambda>x. x\<lparr>bf_winnerEntrantId := None, bf_winnerDecision := JNull,
                      bf_status := MATCH_PREPARED\<rparr>) d;
               d2 = fold clearSlot (sourceSlots fid d) d1;
               d3 = (if bf_roundNumber f = b_roundCount b
                     then setBracket (bf_bracketId f) (\<lambda>x. x\<lparr>b_status := B_ACTIVE, b_completedAt := None,
                            b_championEntrantId := None\<rparr>) d2 else d2) in
           Inr (addAudit \<lparr> a_id = None, a_eventType = BRACKET_WINNER_RETRACTED, a_matchId = Some mid,
                  a_adminUserId = adminUserId, a_sessionId = sessionId, a_officialSessionId = None,
                  a_metadata = JObj [(''action'', JStr reason), (''fixtureId'', JId fid),
                    (''previousState'', JObj [(''status'', JFixture (bf_status f)),
                       (''winnerEntrantId'', jOpt JId (bf_winnerEntrantId f)),
                       (''winnerDecision'', bf_winnerDecision f)]),
                    (''nextState'', JObj [(''status'', JFixture MATCH_PREPARED),
                       (''winnerEntrantId'', JNull)])] \<rparr> d3))))"

section \<open>Manual decisions\<close>

definition manualDecisionFingerprint ::
  "(jval \<Rightarrow> string) \<Rightarrow> uuid \<Rightarrow> uuid \<Rightarrow> string \<Rightarrow> decision_type \<Rightarrow> string" where
  "manualDecisionFingerprint sha256 fxId entrantId reason decisionType =
     sha256 (JObj [(''fixtureId'', JId fxId), (''entrantId'', JId entrantId),
       (''reason'', JStr (trim reason)), (''decisionType'', JStr (decisionTypeName decisionType))])"

definition isTieDecision :: "decision_type \<Rightarrow> fixture_row \<Rightarrow> db \<Rightarrow> bool" where
  "isTieDecision t f d \<longleftrightarrow> t = ADMIN_TIEBREAK \<and>
     map_option m_status (fixtureMatch (bf_id f) d) = Some FINISHED \<and> bf_status f = AWAITING_WINNER"

definition isWithdrawalDecision :: "decision_type \<Rightarrow> fixture_row \<Rightarrow> db \<Rightarrow> bool" where
  "isWithdrawalDecision t f d \<longleftrightarrow> t = WITHDRAWAL_OR_INJURY \<and>
     fixtureMatch (bf_id f) d = None \<and> bf_status f = READY"

definition manuallyDecide ::
  "(jval \<Rightarrow> string) \<Rightarrow> env \<Rightarrow> uuid \<Rightarrow> uuid \<Rightarrow> uuid \<Rightarrow> string \<Rightarrow> string \<Rightarrow> decision_type \<Rightarrow> db
   \<Rightarrow> match_error + (decide_result \<times> db)" where
  "manuallyDecide sha256 ev fxId entrantId actorId reason key decisionType d =
     (let fingerprint = manualDecisionFingerprint sha256 fxId entrantId reason decisionType in
      case List.find (\<lambda>i. bi_key i = key) (idempotencyRows d) of
        Some row \<Rightarrow> (if bi_requestFingerprint row \<noteq> fingerprint then Inl IdempotencyKeyConflict
                     else Inr (bi_response row, d))
      | None \<Rightarrow>
          bindR (orThrow (getFixture fxId d) RecordNotFound) (\<lambda>f.
          if \<not> isTieDecision decisionType f d \<and> \<not> isWithdrawalDecision decisionType f d
          then Inl BracketWinnerDecisionIneligible
          else let participantIds = List.map_filter sb_resolvedEntrantId (slotsOf fxId d) in
          if length participantIds \<noteq> 2 \<or> length (remdups participantIds) \<noteq> 2
          then Inl BracketFixtureParticipantsUnresolved
          else if entrantId \<notin> set participantIds then Inl BracketWinnerDecisionInvalid
          else bindR (decide ev fxId entrantId
                 \<lparr> wd_decisionType = decisionType, wd_actorId = Some actorId, wd_reason = Some reason,
                   wd_scoreSnapshot = (if isTieDecision decisionType f d
                     then Some (case jField ''scoreSnapshot'' (bf_winnerDecision f) of
                                  None \<Rightarrow> JNull | Some s \<Rightarrow> s) else None) \<rparr> d) (\<lambda>(result, d').
            Inr (result, d'\<lparr>idempotencyRows := idempotencyRows d' @
              [\<lparr> bi_fixtureId = fxId, bi_key = key, bi_entrantId = entrantId,
                 bi_requestFingerprint = fingerprint, bi_response = result \<rparr>]\<rparr>))))"

section \<open>Cancellation\<close>

definition bracketMatches :: "uuid \<Rightarrow> db \<Rightarrow> match_row list" where
  "bracketMatches bid d = List.map_filter (\<lambda>f. fixtureMatch (bf_id f) d)
     (filter (\<lambda>f. bf_bracketId f = bid) (fixtureRows d))"

definition unsafeMatch :: "db \<Rightarrow> match_row \<Rightarrow> bool" where
  "unsafeMatch d m \<longleftrightarrow> m_status m \<noteq> WAITING \<or> m_startedAt m \<noteq> None \<or> m_finishedAt m \<noteq> None \<or>
     (\<exists>e \<in> set (scoreEvents d). s_matchId e = m_id m) \<or> (\<exists>p \<in> set (penalties d). p_matchId p = m_id m) \<or>
     (\<exists>r \<in> set (rounds d). r_matchId r = m_id m) \<or> (\<exists>v \<in> set (votes d). v_matchId v = m_id m) \<or>
     (\<exists>p \<in> set (operations d). op_matchId p = m_id m)"

text \<open>\<open>match.deleteMany\<close> with the cascades of the schema: rows that belong to a deleted match go
  with it, audit rows lose their match.\<close>

definition deleteMatches :: "(match_row \<Rightarrow> bool) \<Rightarrow> db \<Rightarrow> db" where
  "deleteMatches p d =
     (let gone = (\<lambda>mid. \<exists>m \<in> set (matches d). m_id m = mid \<and> p m);
          goneAppeal = (\<lambda>aid. \<exists>a \<in> set (appeals d). ap_id a = aid \<and> gone (ap_matchId a)) in
      d\<lparr> matches := filter (\<lambda>m. \<not> gone (m_id m)) (matches d),
         matchAthletes := filter (\<lambda>r. \<not> gone (ma_matchId r)) (matchAthletes d),
         rounds := filter (\<lambda>r. \<not> gone (r_matchId r)) (rounds d),
         windows := filter (\<lambda>r. \<not> gone (w_matchId r)) (windows d),
         votes := filter (\<lambda>r. \<not> gone (v_matchId r)) (votes d),
         scoreEvents := filter (\<lambda>r. \<not> gone (s_matchId r)) (scoreEvents d),
         penalties := filter (\<lambda>r. \<not> gone (p_matchId r)) (penalties d),
         faults := filter (\<lambda>r. \<not> gone (f_matchId r)) (faults d),
         roundResults := filter (\<lambda>r. \<not> gone (x_matchId r)) (roundResults d),
         appealRounds := filter (\<lambda>r. \<not> goneAppeal (fst r)) (appealRounds d),
         adjustments := filter (\<lambda>r. \<not> goneAppeal (aj_appealId r)) (adjustments d),
         appeals := filter (\<lambda>r. \<not> gone (ap_matchId r)) (appeals d),
         operations := filter (\<lambda>r. \<not> gone (op_matchId r)) (operations d),
         assignments := filter (\<lambda>r. \<not> gone (as_matchId r)) (assignments d),
         matchSessions := filter (\<lambda>r. \<not> gone (ms_matchId r)) (matchSessions d),
         auditLogs := updWhere (\<lambda>a. case a_matchId a of None \<Rightarrow> False | Some i \<Rightarrow> gone i)
           (\<lambda>a. a\<lparr>a_matchId := None\<rparr>) (auditLogs d) \<rparr>)"

text \<open>The deletes of fixtures and of the bracket cascade to the stored answers and the staffing.\<close>

definition forceDeleteBracket :: "uuid \<Rightarrow> uuid \<Rightarrow> uuid \<Rightarrow> uuid list \<Rightarrow> db \<Rightarrow> db" where
  "forceDeleteBracket tournamentId weightClassId bid mids d =
     (let d1 = d\<lparr> publications := filter (\<lambda>r. pb_matchId r \<notin> set mids) (publications d),
                 decisions := filter (\<lambda>r. d_matchId r \<notin> set mids) (decisions d),
                 outcomes := filter (\<lambda>r. o_matchId r \<notin> set mids) (outcomes d) \<rparr>;
          d2 = deleteMatches (\<lambda>m. m_id m \<in> set mids \<and> m_tournamentId m = tournamentId \<and>
                 m_weightClassId m = Some weightClassId) d1;
          inBracket = (\<lambda>fid. \<exists>f \<in> set (fixtureRows d2). bf_id f = fid \<and> bf_bracketId f = bid) in
      d2\<lparr> slotRows := filter (\<lambda>s. \<not> inBracket (sb_fixtureId s)) (slotRows d2),
          idempotencyRows := filter (\<lambda>r. \<not> inBracket (bi_fixtureId r)) (idempotencyRows d2),
          fixtureRows := filter (\<lambda>f. bf_bracketId f \<noteq> bid) (fixtureRows d2),
          entrants := filter (\<lambda>e. e_bracketId e \<noteq> bid) (entrants d2),
          brackets := filter (\<lambda>b. b_id b \<noteq> bid) (brackets d2),
          roundStaffing := filter (\<lambda>r. rs_bracketId r \<noteq> bid) (roundStaffing d2) \<rparr>)"

definition cancelBracket ::
  "env \<Rightarrow> uuid \<Rightarrow> uuid \<Rightarrow> uuid \<Rightarrow> string \<Rightarrow> bool \<Rightarrow> db \<Rightarrow> match_error + db" where
  "cancelBracket ev tournamentId weightClassId actorId reason force d =
     bindR (orThrow (List.find (\<lambda>b. b_tournamentId b = tournamentId \<and> b_weightClassId b = weightClassId \<and>
              b_status b \<in> {B_ACTIVE, B_COMPLETED}) (brackets d)) BracketNotFound) (\<lambda>b.
     let ms = bracketMatches (b_id b) d in
     if ms \<noteq> [] \<and> \<not> force
     then Inl (BracketCancellationUnsafe (map (\<lambda>m. (m_id m, m_publicId m)) ms))
     else
       let d1 = (if force then forceDeleteBracket tournamentId weightClassId (b_id b) (map m_id ms) d
                 else setBracket (b_id b) (\<lambda>x. x\<lparr>b_status := B_CANCELLED,
                        b_cancelledAt := Some (appNow ev)\<rparr>) d) in
       Inr (addAudit \<lparr> a_id = None, a_eventType = BRACKET_CANCELLED, a_matchId = None,
              a_adminUserId = Some actorId, a_sessionId = None, a_officialSessionId = None,
              a_metadata = JObj [(''actorId'', JId actorId), (''reason'', JStr reason),
                (''bracketId'', JId (b_id b)), (''tournamentId'', JId tournamentId),
                (''weightClassId'', JId weightClassId), (''forced'', JBool force),
                (''unsafeMatchIds'', JList (map (\<lambda>m. JId (m_id m)) (filter (unsafeMatch d) ms))),
                (''deletedMatchIds'', JList (map (\<lambda>m. JId (m_id m)) (if force then ms else [])))] \<rparr> d1))"

end
