(* ===== verification/Match_Lifecycle.thy ===== *)
theory Match_Lifecycle
  imports Supervision Bracket_Outcome
begin

text \<open>
  \<open>realtime/match-lifecycle.service.ts\<close> and the assignment release of
  \<open>match-official-assignment-lifecycle.service.ts\<close>: starting, pausing, resuming and
  expiring rounds, exiting and completing a match, cancelling results and undoing a
  cancellation. Each operation is one transaction on the database; timers, logging and
  socket publication are left out. Presence counts, kept by the socket registry, are an
  argument. New row ids are arguments.
\<close>

section \<open>Releasing officials\<close>

definition assignmentReleaseReasonForTransition ::
  "match_status \<Rightarrow> match_status \<Rightarrow> release_reason option" where
  "assignmentReleaseReasonForTransition from to' =
     (if to' = FINISHED then Some RR_MATCH_FINISHED
      else if from = FINISHED then Some RR_RESET_REQUIRES_SETUP
      else None)"

definition releaseRows :: "uuid \<Rightarrow> match_role \<Rightarrow> release_reason \<Rightarrow> time \<Rightarrow> assignment_row list \<Rightarrow> assignment_row list" where
  "releaseRows mid role reason occurredAt rows =
     updWhere (\<lambda>a. as_matchId a = mid \<and> as_releasedAt a = None \<and> as_role a = role)
       (\<lambda>a. a\<lparr>as_releaseReason := Some reason, as_releasedAt := Some occurredAt\<rparr>) rows"

definition releaseForTransition ::
  "supervisor_identity \<Rightarrow> match_status \<Rightarrow> match_status \<Rightarrow> uuid \<Rightarrow> time \<Rightarrow> release_reason option \<Rightarrow> db
   \<Rightarrow> uuid list \<times> db" where
  "releaseForTransition identity from to' mid occurredAt reason0 d =
     (case (case reason0 of Some r \<Rightarrow> Some r | None \<Rightarrow> assignmentReleaseReasonForTransition from to') of
        None \<Rightarrow> ([], d)
      | Some reason \<Rightarrow>
          let crew = filter (\<lambda>a. as_matchId a = mid \<and> as_releasedAt a = None) (assignments d) in
          if crew = [] then ([], d)
          else
            let d1 = d\<lparr>assignments := releaseRows mid SUPERVISOR reason occurredAt
                         (releaseRows mid JUDGE reason occurredAt (assignments d))\<rparr> in
            (map as_officialId crew, addAudit (actorAudit None MATCH_OFFICIAL_ASSIGNMENT_RELEASED mid identity
               (JObj ([(''assignments'', JList (map (\<lambda>a. JObj [(''officialId'', JId (as_officialId a)),
                    (''judgePosition'', jOpt (\<lambda>n. JInt (int n)) (as_judgePosition a)),
                    (''role'', JRole (as_role a))]) crew))] @ assignmentMeta identity @
                  [(''fromStatus'', JStatus from), (''reason'', JReason reason), (''toStatus'', JStatus to')]))) d1))"

section \<open>Phases and rounds\<close>

definition runningStatus :: "nat \<Rightarrow> round_stage \<Rightarrow> match_status option" where
  "runningStatus n stage =
     (if stage = OVERTIME then Some OVERTIME_RUNNING
      else if n = 1 then Some ROUND_1_RUNNING
      else if n = 2 then Some ROUND_2_RUNNING else None)"

definition lifecycleForPhase :: "match_status \<Rightarrow> match_lifecycle" where
  "lifecycleForPhase phase =
     (if phase = WAITING then NOT_STARTED else if phase = FINISHED then LC_COMPLETED else IN_PROGRESS)"

record round_descriptor =
  rdc_stage :: round_stage
  rdc_roundNumber :: nat
  rdc_attemptNumber :: nat

definition nextRoundDescriptor ::
  "match_status \<Rightarrow> nat option \<Rightarrow> time option \<Rightarrow> nat list \<Rightarrow> match_error + round_descriptor" where
  "nextRoundDescriptor st currentRound startedAt overtimeAttempts =
     (if st = WAITING \<and> currentRound = None \<and> startedAt = None
      then Inr \<lparr> rdc_stage = REGULATION, rdc_roundNumber = 1, rdc_attemptNumber = 0 \<rparr>
      else if st = BREAK \<and> currentRound = Some 1 \<and> startedAt \<noteq> None
      then Inr \<lparr> rdc_stage = REGULATION, rdc_roundNumber = 2, rdc_attemptNumber = 0 \<rparr>
      else if st = OVERTIME_READY
      then Inr \<lparr> rdc_stage = OVERTIME, rdc_roundNumber = 1,
                 rdc_attemptNumber = fold max overtimeAttempts 0 + 1 \<rparr>
      else Inl (InvalidRoundStartState st))"

record round_state =
  rt_id :: uuid
  rt_roundNumber :: nat
  rt_stage :: round_stage
  rt_attemptNumber :: nat
  rt_startedAt :: time
  rt_endsAt :: time
  rt_endedAt :: "time option"
  rt_pausedAt :: "time option"
  rt_remainingDurationMs :: "int option"

definition sharedRound :: "round_row \<Rightarrow> match_error + round_state" where
  "sharedRound r =
     (if r_stage r = REGULATION \<and> r_roundNumber r \<noteq> 1 \<and> r_roundNumber r \<noteq> 2
      then Inl (UnsupportedRoundNumber (r_roundNumber r))
      else Inr \<lparr> rt_id = r_id r, rt_roundNumber = r_roundNumber r, rt_stage = r_stage r,
                 rt_attemptNumber = (if r_stage r = REGULATION then 0 else r_attemptNumber r),
                 rt_startedAt = r_startedAt r, rt_endsAt = r_endsAt r, rt_endedAt = r_endedAt r,
                 rt_pausedAt = r_pausedAt r, rt_remainingDurationMs = r_remainingDurationMs r \<rparr>)"

definition setRound :: "uuid \<Rightarrow> (round_row \<Rightarrow> round_row) \<Rightarrow> db \<Rightarrow> db" where
  "setRound rid f d = d\<lparr>rounds := updWhere (\<lambda>r. r_id r = rid) f (rounds d)\<rparr>"

text \<open>Every command starts with the match lock, the rules of its sport group and, for a
  command of a person, the supervisor check.\<close>

definition openCommand ::
  "(db \<Rightarrow> match_error + unit) \<Rightarrow> uuid \<Rightarrow> db \<Rightarrow> match_error + match_row" where
  "openCommand check mid d =
     bindR (lockMatch MatchLifecycleTargetMissing mid d) (\<lambda>_.
     bindR (rulesForMatch mid d) (\<lambda>_.
     bindR (check d) (\<lambda>_.
     orThrow (getMatch mid d) RecordNotFound)))"

section \<open>Starting a round\<close>

record presence =
  pr_official :: "string \<Rightarrow> uuid \<Rightarrow> nat"
  pr_role :: "string \<Rightarrow> access_role \<Rightarrow> nat"
  pr_scoreboard :: "string \<Rightarrow> nat"

definition assertStartReadiness ::
  "presence \<Rightarrow> uuid \<Rightarrow> string \<Rightarrow> nat \<Rightarrow> db \<Rightarrow> match_error + unit" where
  "assertStartReadiness pr mid publicId requiredJudgeCount d =
     (let crew = filter (\<lambda>a. as_matchId a = mid \<and> as_releasedAt a = None) (assignments d) in
      if crew \<noteq> [] then
        (let inspectors = filter (\<lambda>a. as_role a = SUPERVISOR) crew;
             referees = filter (\<lambda>a. as_role a = JUDGE) crew in
         if length inspectors \<noteq> 1 \<or> length referees \<noteq> requiredJudgeCount \<or>
            length (remdups (map as_officialId referees)) \<noteq> requiredJudgeCount \<or>
            (\<exists>a \<in> set crew. pr_official pr publicId (as_officialId a) < 1) \<or>
            pr_scoreboard pr publicId < 1
         then Inl MatchParticipantsNotReady else Inr ())
      else if requiredJudgeCount \<noteq> 3 \<or>
              (\<exists>role \<in> {AR_SUPERVISOR, AR_JUDGE_1, AR_JUDGE_2, AR_JUDGE_3}. pr_role pr publicId role < 1) \<or>
              pr_scoreboard pr publicId < 1
      then Inl MatchParticipantsNotReady else Inr ())"

definition newRound :: "env \<Rightarrow> uuid \<Rightarrow> match_row \<Rightarrow> round_descriptor \<Rightarrow> round_row" where
  "newRound ev rid m desc =
     \<lparr> r_id = rid, r_matchId = m_id m, r_roundNumber = rdc_roundNumber desc, r_stage = rdc_stage desc,
       r_attemptNumber = rdc_attemptNumber desc, r_durationMs = Some (m_roundDurationMs m),
       r_startedAt = serverNow ev, r_endsAt = serverNow ev + m_roundDurationMs m, r_pausedAt = None,
       r_remainingDurationMs = None, r_endedAt = None, r_createdAt = txNow ev,
       r_invalidatedAt = None, r_invalidatedByAuditId = None \<rparr>"

definition startedStatus :: "round_descriptor \<Rightarrow> match_status" where
  "startedStatus desc =
     (if rdc_stage desc = OVERTIME then OVERTIME_RUNNING
      else if rdc_roundNumber desc = 1 then ROUND_1_RUNNING else ROUND_2_RUNNING)"

definition startRound ::
  "presence \<Rightarrow> env \<Rightarrow> uuid \<Rightarrow> supervisor_identity \<Rightarrow> uuid \<Rightarrow> db
   \<Rightarrow> match_error + ((round_state \<times> match_status) \<times> db)" where
  "startRound pr ev mid identity rid d =
     bindR (openCommand (lockActiveSupervisorIdentity ev mid identity) mid d) (\<lambda>m.
     bindR (if m_status m = WAITING \<and> m_currentRound m = None
            then assertStartReadiness pr mid (m_publicId m) (m_requiredJudgeCount m) d else Inr ()) (\<lambda>_.
     bindR (nextRoundDescriptor (m_status m) (m_currentRound m) (m_startedAt m)
              (map r_attemptNumber (filter (\<lambda>r. r_matchId r = mid \<and> r_stage r = OVERTIME) (rounds d)))) (\<lambda>desc.
     let r = newRound ev rid m desc; nextStatus = startedStatus desc in
     bindR (insertUnique roundConflict r (rounds d)) (\<lambda>rs.
     let d1 = setMatch mid (\<lambda>x. x\<lparr>m_currentRound := Some (rdc_roundNumber desc), m_intermissionEndsAt := None,
                m_lifecycle := IN_PROGRESS,
                m_startedAt := (if rdc_roundNumber desc = 1 \<and> rdc_stage desc = REGULATION
                                then Some (serverNow ev) else m_startedAt m),
                m_status := nextStatus\<rparr>) (d\<lparr>rounds := rs\<rparr>);
         d2 = addAudit (actorAudit None EV_ROUND_STARTED mid identity (JObj
            ([(''endsAt'', JDate (r_endsAt r)), (''fromStatus'', JStatus (m_status m)), (''roundId'', JId rid),
              (''roundNumber'', JInt (int (rdc_roundNumber desc))), (''stage'', JStage (rdc_stage desc)),
              (''attemptNumber'', JInt (int (rdc_attemptNumber desc))), (''startedAt'', JDate (serverNow ev)),
              (''toStatus'', JStatus nextStatus)] @ assignmentMeta identity))) d1 in
     bindR (sharedRound r) (\<lambda>state. Inr ((state, nextStatus), d2))))))"

section \<open>Pausing and resuming\<close>

definition pausableRound :: "match_status \<Rightarrow> (nat \<times> match_status) option" where
  "pausableRound st =
     (if st = ROUND_1_RUNNING then Some (1, ROUND_1_PAUSED)
      else if st = ROUND_2_RUNNING then Some (2, ROUND_2_PAUSED)
      else if st = OVERTIME_RUNNING then Some (1, OVERTIME_PAUSED) else None)"

definition resumableRound :: "match_status \<Rightarrow> (nat \<times> match_status) option" where
  "resumableRound st =
     (if st = ROUND_1_PAUSED then Some (1, ROUND_1_RUNNING)
      else if st = ROUND_2_PAUSED then Some (2, ROUND_2_RUNNING)
      else if st = OVERTIME_PAUSED then Some (1, OVERTIME_RUNNING) else None)"

definition liveRound :: "uuid \<Rightarrow> nat \<Rightarrow> db \<Rightarrow> round_row option" where
  "liveRound mid n d = firstBy (\<lambda>r. - r_createdAt r)
     (\<lambda>r. r_invalidatedAt r = None \<and> r_matchId r = mid \<and> r_roundNumber r = n \<and> r_endedAt r = None) (rounds d)"

definition pauseRound ::
  "env \<Rightarrow> uuid \<Rightarrow> supervisor_identity \<Rightarrow> db \<Rightarrow> match_error + ((round_state \<times> match_status) \<times> db)" where
  "pauseRound ev mid identity d =
     bindR (openCommand (lockActiveControlSession ev mid identity) mid d) (\<lambda>m.
     case pausableRound (m_status m) of
       None \<Rightarrow> Inl (InvalidRoundControlState (m_status m))
     | Some (n, nextStatus) \<Rightarrow>
         if m_currentRound m \<noteq> Some n then Inl (InvalidRoundControlState (m_status m))
         else bindR (orThrow (liveRound mid n d) RecordNotFound) (\<lambda>r.
         let remaining = max 0 (r_endsAt r - serverNow ev) in
         if remaining = 0 then Inl (InvalidRoundControlState (m_status m))
         else
           let f = (\<lambda>x. x\<lparr>r_pausedAt := Some (serverNow ev), r_remainingDurationMs := Some remaining\<rparr>);
               d1 = setMatch mid (\<lambda>x. x\<lparr>m_status := nextStatus\<rparr>) (setRound (r_id r) f d);
               d2 = addAudit (actorAudit None EV_ROUND_PAUSED mid identity (JObj
                  ([(''fromStatus'', JStatus (m_status m)), (''pausedAt'', JDate (serverNow ev)),
                    (''remainingDurationMs'', JInt remaining), (''roundId'', JId (r_id r)),
                    (''roundNumber'', JInt (int n)), (''toStatus'', JStatus nextStatus)] @
                   assignmentMeta identity))) d1 in
           bindR (sharedRound (f r)) (\<lambda>state. Inr ((state, nextStatus), d2))))"

definition resumeRound ::
  "env \<Rightarrow> uuid \<Rightarrow> supervisor_identity \<Rightarrow> db \<Rightarrow> match_error + ((round_state \<times> match_status) \<times> db)" where
  "resumeRound ev mid identity d =
     bindR (openCommand (lockActiveControlSession ev mid identity) mid d) (\<lambda>m.
     case resumableRound (m_status m) of
       None \<Rightarrow> Inl (InvalidRoundControlState (m_status m))
     | Some (n, nextStatus) \<Rightarrow>
         if m_currentRound m \<noteq> Some n then Inl (InvalidRoundControlState (m_status m))
         else bindR (orThrow (liveRound mid n d) RecordNotFound) (\<lambda>r.
         case (r_pausedAt r, r_remainingDurationMs r) of
           (Some _, Some remaining) \<Rightarrow>
             let f = (\<lambda>x. x\<lparr>r_endsAt := serverNow ev + remaining, r_pausedAt := None,
                             r_remainingDurationMs := None\<rparr>);
                 d1 = setMatch mid (\<lambda>x. x\<lparr>m_status := nextStatus\<rparr>) (setRound (r_id r) f d);
                 d2 = addAudit (actorAudit None EV_ROUND_RESUMED mid identity (JObj
                    ([(''endsAt'', JDate (serverNow ev + remaining)), (''fromStatus'', JStatus (m_status m)),
                      (''resumedAt'', JDate (serverNow ev)), (''roundId'', JId (r_id r)),
                      (''roundNumber'', JInt (int n)), (''toStatus'', JStatus nextStatus)] @
                     assignmentMeta identity))) d1 in
             bindR (sharedRound (f r)) (\<lambda>state. Inr ((state, nextStatus), d2))
         | _ \<Rightarrow> Inl (InvalidRoundControlState (m_status m))))"

section \<open>Expiry\<close>

record round_ended =
  re_matchId :: uuid
  re_round :: round_state
  re_status :: match_status
  re_releasedOfficialIds :: "uuid list"

datatype expiration_decision = ExpInactive | ExpPending int | ExpEnded round_ended

definition expiredStatus :: "match_row \<Rightarrow> round_row \<Rightarrow> match_status" where
  "expiredStatus m r =
     (if r_stage r = OVERTIME then OVERTIME_APPEAL
      else if r_roundNumber r = 1 then BREAK
      else if m_rulesVersion m = FAULT_APPEAL_OVERTIME_V2 then REGULATION_APPEAL
      else AWAITING_RESULT_SAVE)"

definition intermissionSeconds :: "match_row \<Rightarrow> db \<Rightarrow> int" where
  "intermissionSeconds m d =
     (case Option.bind (m_weightClassId m) (\<lambda>wid. List.find (\<lambda>w. wc_id w = wid) (weightClasses d)) of
        None \<Rightarrow> 0 | Some w \<Rightarrow> wc_intermissionDurationSeconds w)"

definition expiredIntermission :: "env \<Rightarrow> match_row \<Rightarrow> round_row \<Rightarrow> db \<Rightarrow> time option" where
  "expiredIntermission ev m r d =
     (if r_stage r = REGULATION \<and> r_roundNumber r = 1
      then (case m_intermissionEndsAt m of
              Some t \<Rightarrow> Some t
            | None \<Rightarrow> if intermissionSeconds m d > 0
                      then Some (serverNow ev + intermissionSeconds m d * 1000) else None)
      else None)"

definition roundSummary :: "uuid \<Rightarrow> uuid \<Rightarrow> time \<Rightarrow> db \<Rightarrow> match_athlete_row \<Rightarrow> round_result_row" where
  "roundSummary mid rid endedAt d a =
     \<lparr> x_matchId = mid, x_roundId = rid, x_athleteId = ma_id a,
       x_judgePoints = sum_list (map s_value (filter (\<lambda>e. s_matchId e = mid \<and> s_roundId e = Some rid \<and>
          s_type e = JUDGE_POINT \<and> s_revertedAt e = None \<and> s_athleteId e = ma_id a) (scoreEvents d))),
       x_faultCount = length (filter (\<lambda>f. f_matchId f = mid \<and> f_roundId f = rid \<and>
          f_invalidatedAt f = None \<and> f_athleteId f = ma_id a) (faults d)),
       x_capturedAt = endedAt, x_invalidatedAt = None, x_invalidatedByAuditId = None \<rparr>"

fun insertAll :: "('r \<Rightarrow> 'r \<Rightarrow> bool) \<Rightarrow> 'r list \<Rightarrow> 'r list \<Rightarrow> match_error + 'r list" where
  "insertAll conflict [] rows = Inr rows"
| "insertAll conflict (r # rs) rows =
     bindR (insertUnique conflict r rows) (\<lambda>rows'. insertAll conflict rs rows')"

definition captureRoundResults :: "match_row \<Rightarrow> round_row \<Rightarrow> db \<Rightarrow> match_error + db" where
  "captureRoundResults m r d =
     (if m_rulesVersion m = FAULT_APPEAL_OVERTIME_V2
      then bindR (insertAll roundResultConflict
             (map (roundSummary (m_id m) (r_id r) (r_endsAt r) d)
                (filter (\<lambda>a. ma_matchId a = m_id m) (matchAthletes d))) (roundResults d)) (\<lambda>xs.
           Inr (d\<lparr>roundResults := xs\<rparr>))
      else Inr d)"

definition expireRound ::
  "env \<Rightarrow> match_row \<Rightarrow> round_row \<Rightarrow> db \<Rightarrow> match_error + (expiration_decision \<times> db)" where
  "expireRound ev m r d =
     (let nextStatus = expiredStatus m r; endedAt = r_endsAt r;
          f = (\<lambda>x. x\<lparr>r_endedAt := Some endedAt\<rparr>) in
      bindR (resolveDueWindowsLocked ev (m_id m) (m_publicId m) (serverNow ev) (setRound (r_id r) f d)) (\<lambda>d2.
      bindR (captureRoundResults m r d2) (\<lambda>d3.
      let d4 = setMatch (m_id m) (\<lambda>x. x\<lparr>m_intermissionEndsAt := expiredIntermission ev m r d,
                 m_lifecycle := IN_PROGRESS, m_status := nextStatus\<rparr>) d3;
          d5 = addAudit \<lparr> a_id = None, a_eventType = EV_ROUND_ENDED, a_matchId = Some (m_id m),
                 a_adminUserId = None, a_sessionId = None, a_officialSessionId = None,
                 a_metadata = JObj [(''endedAt'', JDate endedAt), (''fromStatus'', JStatus (m_status m)),
                   (''roundId'', JId (r_id r)), (''roundNumber'', JInt (int (r_roundNumber r))),
                   (''toStatus'', JStatus nextStatus)] \<rparr> d4 in
      bindR (sharedRound (f r)) (\<lambda>state.
      Inr (ExpEnded \<lparr> re_matchId = m_id m, re_round = state, re_status = nextStatus,
                      re_releasedOfficialIds = [] \<rparr>, d5)))))"

definition evaluateExpiration ::
  "env \<Rightarrow> uuid \<Rightarrow> uuid \<Rightarrow> db \<Rightarrow> match_error + (expiration_decision \<times> db)" where
  "evaluateExpiration ev mid rid d =
     bindR (openCommand (\<lambda>_. Inr ()) mid d) (\<lambda>m.
     case List.find (\<lambda>r. r_id r = rid \<and> r_matchId r = mid) (rounds d) of
       None \<Rightarrow> Inr (ExpInactive, d)
     | Some r \<Rightarrow>
         if r_endedAt r \<noteq> None \<or> m_currentRound m \<noteq> Some (r_roundNumber r) \<or>
            runningStatus (r_roundNumber r) (r_stage r) \<noteq> Some (m_status m)
         then Inr (ExpInactive, d)
         else let delayMs = r_endsAt r - serverNow ev in
         if delayMs > 0 then Inr (ExpPending delayMs, d)
         else expireRound ev m r d)"

text \<open>\<open>handleExpiration\<close> drops the error of a match that is gone. On start-up
  \<open>recoverActiveRounds\<close> evaluates the active round of every running match, each in its own
  transaction: an error ends the loop but keeps what was committed. \<open>evs\<close> gives the clocks
  of each of these transactions.\<close>

definition handleExpiration ::
  "env \<Rightarrow> uuid \<Rightarrow> uuid \<Rightarrow> db \<Rightarrow> match_error + (expiration_decision \<times> db)" where
  "handleExpiration ev mid rid d =
     (case evaluateExpiration ev mid rid d of
        Inl err \<Rightarrow> (if err = MatchLifecycleTargetMissing then Inr (ExpInactive, d) else Inl err)
      | Inr x \<Rightarrow> Inr x)"

definition recoverableRound :: "match_row \<Rightarrow> db \<Rightarrow> round_row option" where
  "recoverableRound m d = List.find (\<lambda>r. m_currentRound m = Some (r_roundNumber r) \<and>
       (if m_status m = OVERTIME_RUNNING then r_stage r = OVERTIME else r_stage r = REGULATION))
     (sort_key (\<lambda>r. - int (r_roundNumber r))
        (filter (\<lambda>r. r_matchId r = m_id m \<and> r_endedAt r = None \<and> r_invalidatedAt r = None) (rounds d)))"

fun recoverEach ::
  "(uuid \<Rightarrow> env) \<Rightarrow> (match_row \<times> round_row option) list \<Rightarrow> db \<Rightarrow> match_error option \<times> db" where
  "recoverEach evs [] d = (None, d)"
| "recoverEach evs ((m, None) # rest) d = recoverEach evs rest d"
| "recoverEach evs ((m, Some r) # rest) d =
     (case handleExpiration (evs (m_id m)) (m_id m) (r_id r) d of
        Inl err \<Rightarrow> (Some err, d)
      | Inr (_, d') \<Rightarrow> recoverEach evs rest d')"

definition recoverActiveRounds :: "(uuid \<Rightarrow> env) \<Rightarrow> db \<Rightarrow> match_error option \<times> db" where
  "recoverActiveRounds evs d =
     recoverEach evs (map (\<lambda>m. (m, recoverableRound m d))
       (filter (\<lambda>m. m_status m \<in> {ROUND_1_RUNNING, ROUND_2_RUNNING, OVERTIME_RUNNING}) (matches d))) d"

end
