(* ===== verification/Match_Results.thy ===== *)
theory Match_Results
  imports Match_Lifecycle
begin

text \<open>
  The second half of \<open>realtime/match-lifecycle.service.ts\<close>: leaving a match
  (\<open>exitMatch\<close>), completing one (\<open>completeMatch\<close>), cancelling a round's or the whole match's
  results (\<open>cancelResults\<close>) and undoing that (\<open>undoResultCancellation\<close>). A cancellation
  stamps the rows of the selected rounds with the id of its audit row and stores the
  previous state of the match in an operation row; undoing clears the stamps that carry
  that id. Clearing the marks of rounds and appeals can hit their unique indexes.
\<close>

definition setAuditMetadata :: "uuid \<Rightarrow> jval \<Rightarrow> db \<Rightarrow> db" where
  "setAuditMetadata aid meta d =
     d\<lparr>auditLogs := updWhere (\<lambda>a. a_id a = Some aid) (\<lambda>a. a\<lparr>a_metadata := meta\<rparr>) (auditLogs d)\<rparr>"

definition checkUnique :: "('r \<Rightarrow> 'r \<Rightarrow> bool) \<Rightarrow> 'r list \<Rightarrow> match_error + 'r list" where
  "checkUnique conflict rows =
     (if sorted_wrt (\<lambda>a b. \<not> conflict a b) rows then Inr rows else Inl UniqueViolation)"

definition jNats :: "nat list \<Rightarrow> jval" where
  "jNats ns = JList (map (\<lambda>n. JInt (int n)) ns)"

definition openWindowOf :: "uuid \<Rightarrow> db \<Rightarrow> window_row option" where
  "openWindowOf mid d = List.find (\<lambda>w. w_invalidatedAt w = None \<and> w_matchId w = mid \<and>
     w_resolvedAt w = None) (windows d)"

definition endedRound :: "uuid \<Rightarrow> nat \<Rightarrow> db \<Rightarrow> bool" where
  "endedRound mid n d \<longleftrightarrow> (\<exists>r \<in> set (rounds d). r_invalidatedAt r = None \<and> r_matchId r = mid \<and>
     r_roundNumber r = n \<and> r_endedAt r \<noteq> None)"

section \<open>Leaving a match\<close>

datatype match_exit_mode =
    CANCEL_RESULTS | SUSPEND_KEEP_ROUND_1 | SUSPEND_KEEP_ROUNDS_1_AND_2 | SUSPEND_KEEP_V2_PHASE

definition exitModeName :: "match_exit_mode \<Rightarrow> string" where
  "exitModeName mode = (case mode of CANCEL_RESULTS \<Rightarrow> ''CANCEL_RESULTS''
     | SUSPEND_KEEP_ROUND_1 \<Rightarrow> ''SUSPEND_KEEP_ROUND_1''
     | SUSPEND_KEEP_ROUNDS_1_AND_2 \<Rightarrow> ''SUSPEND_KEEP_ROUNDS_1_AND_2''
     | SUSPEND_KEEP_V2_PHASE \<Rightarrow> ''SUSPEND_KEEP_V2_PHASE'')"

definition retainableV2Phase :: "match_status \<Rightarrow> bool" where
  "retainableV2Phase st \<longleftrightarrow> st \<in> {REGULATION_APPEAL, OVERTIME_READY, OVERTIME_RUNNING, OVERTIME_PAUSED,
     OVERTIME_APPEAL, OVERTIME_TIEBREAK_DECISION, RESULT_PUBLICATION_READY}"

definition exitRefused :: "match_exit_mode \<Rightarrow> match_row \<Rightarrow> db \<Rightarrow> bool" where
  "exitRefused mode m d =
     (let hasRoundOne = endedRound (m_id m) 1 d; hasRoundTwo = endedRound (m_id m) 2 d;
          unresolved = openWindowOf (m_id m) d in
      (mode = SUSPEND_KEEP_V2_PHASE \<and> \<not> retainableV2Phase (m_status m)) \<or>
      (mode = SUSPEND_KEEP_ROUND_1 \<and> (\<not> hasRoundOne \<or> unresolved \<noteq> None)) \<or>
      (mode = SUSPEND_KEEP_ROUNDS_1_AND_2 \<and> (\<not> hasRoundOne \<or> \<not> hasRoundTwo \<or> unresolved \<noteq> None)))"

definition exitRoundNumbers :: "match_exit_mode \<Rightarrow> nat list" where
  "exitRoundNumbers mode =
     (if mode = CANCEL_RESULTS then [1, 2] else if mode = SUSPEND_KEEP_ROUND_1 then [2] else [])"

definition exitStatus :: "match_exit_mode \<Rightarrow> match_row \<Rightarrow> match_status" where
  "exitStatus mode m =
     (if mode = CANCEL_RESULTS then WAITING
      else if mode = SUSPEND_KEEP_V2_PHASE then m_status m
      else if mode = SUSPEND_KEEP_ROUND_1 then BREAK else AWAITING_RESULT_SAVE)"

definition exitLifecycle :: "match_exit_mode \<Rightarrow> match_lifecycle" where
  "exitLifecycle mode = (if mode = CANCEL_RESULTS then NOT_STARTED else SUSPENDED)"

definition exitCurrentRound :: "match_exit_mode \<Rightarrow> match_row \<Rightarrow> nat option" where
  "exitCurrentRound mode m =
     (if mode = CANCEL_RESULTS then None
      else if mode = SUSPEND_KEEP_V2_PHASE then m_currentRound m
      else if mode = SUSPEND_KEEP_ROUND_1 then Some 1 else Some 2)"

definition exitOperation ::
  "env \<Rightarrow> match_exit_mode \<Rightarrow> match_row \<Rightarrow> supervisor_identity \<Rightarrow> uuid \<Rightarrow> uuid \<Rightarrow> operation_row" where
  "exitOperation ev mode m identity auditId operationId =
     \<lparr> op_id = operationId, op_matchId = m_id m, op_auditLogId = auditId,
       op_type = (if mode = CANCEL_RESULTS then MATCH_EXIT_CANCEL_RESULTS
                  else if mode = SUSPEND_KEEP_ROUND_1 then MATCH_EXIT_SUSPEND_KEEP_ROUND_1
                  else MATCH_EXIT_SUSPEND_KEEP_ROUNDS_1_AND_2),
       op_roundNumbers = exitRoundNumbers mode, op_previousStatus = m_status m,
       op_previousLifecycle = m_lifecycle m, op_previousCurrentRound = m_currentRound m,
       op_previousStartedAt = m_startedAt m, op_previousFinishedAt = m_finishedAt m,
       op_resultingStatus = exitStatus mode m, op_resultingLifecycle = exitLifecycle mode,
       op_resultingCurrentRound = exitCurrentRound mode m,
       op_createdBySessionId = legacySessionOf identity, op_status = APPLIED,
       op_createdAt = txNow ev, op_undoneAt = None \<rparr>"

definition invalidateRoundNumbers :: "uuid \<Rightarrow> nat list \<Rightarrow> time \<Rightarrow> uuid \<Rightarrow> db \<Rightarrow> db" where
  "invalidateRoundNumbers mid ns t auditId d =
     (let mark = (Some t, Some auditId);
          windowIn = (\<lambda>wid. \<exists>w \<in> set (windows d). w_id w = wid \<and> w_roundNumber w \<in> set ns);
          roundIn = (\<lambda>rid. \<exists>r \<in> set (rounds d). r_id r = rid \<and> r_roundNumber r \<in> set ns);
          eventIn = (\<lambda>n. case n of None \<Rightarrow> False | Some k \<Rightarrow> k \<in> set ns) in
      d\<lparr> votes := updWhere (\<lambda>v. v_invalidatedAt v = None \<and> v_matchId v = mid \<and>
           windowIn (v_scoringWindowId v)) (setVoteMark mark) (votes d),
         scoreEvents := updWhere (\<lambda>e. s_revertedAt e = None \<and> s_matchId e = mid \<and>
           eventIn (s_roundNumber e)) (setEventMark mark) (scoreEvents d),
         penalties := updWhere (\<lambda>p. p_revertedAt p = None \<and> p_matchId p = mid \<and>
           eventIn (p_roundNumber p)) (setPenaltyMark mark) (penalties d),
         faults := updWhere (\<lambda>f. f_invalidatedAt f = None \<and> f_matchId f = mid \<and>
           roundIn (f_roundId f)) (setFaultMark mark) (faults d),
         windows := updWhere (\<lambda>w. w_invalidatedAt w = None \<and> w_matchId w = mid \<and>
           w_roundNumber w \<in> set ns) (setWindowMark mark) (windows d),
         rounds := updWhere (\<lambda>r. r_invalidatedAt r = None \<and> r_matchId r = mid \<and>
           r_roundNumber r \<in> set ns) (setRoundMark mark) (rounds d) \<rparr>)"

definition exitReason :: "match_exit_mode \<Rightarrow> release_reason" where
  "exitReason mode =
     (if mode = CANCEL_RESULTS then RR_MATCH_EXIT_CANCELLED
      else if mode = SUSPEND_KEEP_ROUND_1 then RR_MATCH_EXIT_SUSPENDED_KEEP_ROUND_1
      else RR_MATCH_EXIT_SUSPENDED_KEEP_ROUNDS_1_AND_2)"

definition exitMatchRow :: "env \<Rightarrow> match_exit_mode \<Rightarrow> match_row \<Rightarrow> match_row \<Rightarrow> match_row" where
  "exitMatchRow ev mode m x = x\<lparr>m_currentRound := exitCurrentRound mode m, m_finishedAt := None,
     m_intermissionEndsAt := None, m_lifecycle := exitLifecycle mode,
     m_startedAt := (if mode = CANCEL_RESULTS then None else m_startedAt m),
     m_status := exitStatus mode m,
     m_suspendedAt := (if exitLifecycle mode = SUSPENDED then Some (serverNow ev) else None)\<rparr>"

definition exitMatch ::
  "env \<Rightarrow> uuid \<Rightarrow> supervisor_identity \<Rightarrow> match_exit_mode \<Rightarrow> uuid \<Rightarrow> uuid \<Rightarrow> db
   \<Rightarrow> match_error + (uuid list \<times> db)" where
  "exitMatch ev mid identity mode auditId operationId d =
     bindR (openCommand (lockActiveSupervisorIdentity ev mid identity) mid d) (\<lambda>m.
     if m_lifecycle m = LC_COMPLETED \<or> m_status m = FINISHED
     then Inl (InvalidResultCancellationState (m_status m))
     else if exitRefused mode m d then Inl (InvalidResultCancellationState (m_status m))
     else
       let ns = exitRoundNumbers mode; nextStatus = exitStatus mode m;
           d1 = addAudit (actorAudit (Some auditId) MATCH_EXITED mid identity (JObj
              [(''mode'', JStr (exitModeName mode)), (''exitedAt'', JDate (serverNow ev)),
               (''fromStatus'', JStatus (m_status m)), (''toStatus'', JStatus nextStatus)])) d;
           d2 = d1\<lparr>operations := operations d1 @ [exitOperation ev mode m identity auditId operationId]\<rparr>;
           d3 = setAuditMetadata auditId (JObj [(''mode'', JStr (exitModeName mode)),
              (''exitOperationId'', JId operationId), (''invalidatedRoundNumbers'', jNats ns)]) d2;
           d4 = (if ns \<noteq> [] then invalidateRoundNumbers mid ns (serverNow ev) auditId d3 else d3);
           d5 = setMatch mid (exitMatchRow ev mode m) d4 in
       Inr (releaseForTransition identity (m_status m) nextStatus mid (serverNow ev)
              (Some (exitReason mode)) d5))"

section \<open>Completing a match\<close>

record match_completion =
  mc_finishedAt :: time
  mc_releasedOfficialIds :: "uuid list"

definition completeMatch ::
  "env \<Rightarrow> uuid \<Rightarrow> supervisor_identity \<Rightarrow> db \<Rightarrow> match_error + (match_completion \<times> db)" where
  "completeMatch ev mid identity d =
     bindR (openCommand (lockActiveSupervisorIdentity ev mid identity) mid d) (\<lambda>m.
     if m_lifecycle m = LC_COMPLETED \<or> m_status m = FINISHED then
       (case m_finishedAt m of
          None \<Rightarrow> Inl MatchAlreadyCompleted
        | Some t \<Rightarrow> Inr (\<lparr> mc_finishedAt = t, mc_releasedOfficialIds = [] \<rparr>, d))
     else if m_lifecycle m = SUSPENDED \<or> m_status m \<noteq> AWAITING_RESULT_SAVE
     then Inl MatchCompletionNotReady
     else if openWindowOf mid d \<noteq> None \<or> \<not> endedRound mid 1 d \<or> \<not> endedRound mid 2 d
     then Inl MatchCompletionNotReady
     else
       let d1 = setMatch mid (\<lambda>x. x\<lparr>m_finishedAt := Some (serverNow ev), m_lifecycle := LC_COMPLETED,
                  m_status := FINISHED\<rparr>) d in
       bindR (processFinishedMatch ev mid None d1) (\<lambda>d2.
       let d3 = addAudit (actorAudit None EV_MATCH_FINISHED mid identity (JObj
              ((''completedAt'', JDate (serverNow ev)) # assignmentMeta identity))) d2;
           (released, d4) = releaseForTransition identity (m_status m) FINISHED mid (serverNow ev) None d3 in
       Inr (\<lparr> mc_finishedAt = serverNow ev, mc_releasedOfficialIds = released \<rparr>, d4)))"

section \<open>Cancelling results\<close>

definition activeRounds :: "uuid \<Rightarrow> db \<Rightarrow> round_row list" where
  "activeRounds mid d =
     sort_key r_stage (sort_key (\<lambda>r. - int (r_attemptNumber r)) (sort_key (\<lambda>r. - r_createdAt r)
       (filter (\<lambda>r. r_invalidatedAt r = None \<and> r_matchId r = mid) (rounds d))))"

definition overtimePhase :: "match_status \<Rightarrow> bool" where
  "overtimePhase st \<longleftrightarrow> st \<in> {OVERTIME_READY, OVERTIME_RUNNING, OVERTIME_PAUSED, OVERTIME_APPEAL,
     OVERTIME_TIEBREAK_DECISION, RESULT_PUBLICATION_READY}"

definition regulationRound :: "nat \<Rightarrow> round_row \<Rightarrow> bool" where
  "regulationRound n r \<longleftrightarrow> r_stage r = REGULATION \<and> r_roundNumber r = n"

definition selectedRounds :: "bool \<Rightarrow> match_row \<Rightarrow> round_row list \<Rightarrow> round_row list" where
  "selectedRounds entireMatch m active =
     (if entireMatch then active
      else if m_status m = REGULATION_APPEAL then filter (regulationRound 2) active
      else if overtimePhase (m_status m) then take 1 (filter (\<lambda>r. r_stage r = OVERTIME) active)
      else if m_status m = BREAK \<and> m_currentRound m = Some 1 then filter (regulationRound 1) active
      else if (m_status m = FINISHED \<or> m_status m = AWAITING_RESULT_SAVE) \<and> m_currentRound m = Some 2
      then filter (regulationRound 2) active
      else [])"

definition cancelStatus :: "bool \<Rightarrow> round_row list \<Rightarrow> match_status" where
  "cancelStatus entireMatch selected =
     (if entireMatch \<or> list_ex (regulationRound 1) selected then WAITING
      else if list_ex (\<lambda>r. r_stage r = OVERTIME) selected then OVERTIME_READY
      else BREAK)"

definition cancelCurrentRound :: "match_status \<Rightarrow> nat option" where
  "cancelCurrentRound st = (if st = WAITING then None else Some 1)"

definition cancelLifecycle :: "match_status \<Rightarrow> match_lifecycle" where
  "cancelLifecycle st = (if st = WAITING then NOT_STARTED else IN_PROGRESS)"

definition cancelOperation ::
  "env \<Rightarrow> bool \<Rightarrow> match_row \<Rightarrow> supervisor_identity \<Rightarrow> nat list \<Rightarrow> match_status \<Rightarrow> uuid \<Rightarrow> uuid
   \<Rightarrow> operation_row" where
  "cancelOperation ev entireMatch m identity ns nextStatus auditId operationId =
     \<lparr> op_id = operationId, op_matchId = m_id m, op_auditLogId = auditId,
       op_type = (if entireMatch then MATCH_RESET else ROUND_RESET),
       op_roundNumbers = ns, op_previousStatus = m_status m,
       op_previousLifecycle = lifecycleForPhase (m_status m), op_previousCurrentRound = m_currentRound m,
       op_previousStartedAt = m_startedAt m, op_previousFinishedAt = m_finishedAt m,
       op_resultingStatus = nextStatus, op_resultingLifecycle = cancelLifecycle nextStatus,
       op_resultingCurrentRound = cancelCurrentRound nextStatus,
       op_createdBySessionId = legacySessionOf identity, op_status = APPLIED,
       op_createdAt = serverNow ev, op_undoneAt = None \<rparr>"

text \<open>The ids of the appeals that rest on a cancelled round, or of every appeal.\<close>

definition affectedAppeals :: "bool \<Rightarrow> uuid \<Rightarrow> uuid list \<Rightarrow> db \<Rightarrow> uuid list" where
  "affectedAppeals entireMatch mid rids d =
     map ap_id (filter (\<lambda>a. ap_invalidatedAt a = None \<and> ap_matchId a = mid \<and>
       (entireMatch \<or> ap_sourceRoundId a \<in> set rids \<or>
        (\<exists>(aid, rid) \<in> set (appealRounds d). aid = ap_id a \<and> rid \<in> set rids))) (appeals d))"

definition setAppealMark :: "time option \<times> uuid option \<Rightarrow> appeal_row \<Rightarrow> appeal_row" where
  "setAppealMark mk a = a\<lparr>ap_status := (if fst mk = None then AP_COMPLETED else AP_INVALIDATED),
     ap_invalidatedAt := fst mk, ap_invalidatedByAuditId := snd mk\<rparr>"

definition appealMark :: "appeal_row \<Rightarrow> time option \<times> uuid option" where
  "appealMark a = (ap_invalidatedAt a, ap_invalidatedByAuditId a)"

definition appealConsistent :: "appeal_row \<Rightarrow> bool" where
  "appealConsistent a \<longleftrightarrow> (ap_status a = AP_COMPLETED \<longleftrightarrow> ap_invalidatedAt a = None)"

interpretation appealTab: soft_table appealConsistent appealMark setAppealMark
proof
  fix a assume "appealConsistent a"
  then show "setAppealMark (appealMark a) a = a"
    by (cases "ap_status a") (simp_all add: appealConsistent_def appealMark_def setAppealMark_def)
qed (simp_all add: appealMark_def setAppealMark_def)

definition invalidateAppeals :: "uuid \<Rightarrow> uuid list \<Rightarrow> time \<Rightarrow> uuid \<Rightarrow> db \<Rightarrow> db" where
  "invalidateAppeals mid appealIds t auditId d =
     (if appealIds = [] then d
      else d\<lparr> decisions := updWhere (\<lambda>x. d_invalidatedAt x = None \<and> d_matchId x = mid \<and>
                d_sourceAppealId x \<in> set appealIds) (setDecisionMark (Some t, Some auditId)) (decisions d),
              appeals := updWhere (\<lambda>a. ap_id a \<in> set appealIds)
                (setAppealMark (Some t, Some auditId)) (appeals d) \<rparr>)"

definition invalidateRecords ::
  "bool \<Rightarrow> uuid \<Rightarrow> uuid list \<Rightarrow> nat list \<Rightarrow> time \<Rightarrow> uuid \<Rightarrow> db \<Rightarrow> db" where
  "invalidateRecords entireMatch mid rids ns t auditId d =
     (let mark = (Some t, Some auditId);
          windowIn = (\<lambda>wid. \<exists>w \<in> set (windows d). w_id w = wid \<and>
             (case w_roundId w of None \<Rightarrow> False | Some rid \<Rightarrow> rid \<in> set rids));
          inRounds = (\<lambda>x. case x of None \<Rightarrow> False | Some rid \<Rightarrow> rid \<in> set rids);
          inNumbers = (\<lambda>x. case x of None \<Rightarrow> False | Some n \<Rightarrow> n \<in> set ns) in
      d\<lparr> votes := updWhere (\<lambda>v. v_invalidatedAt v = None \<and> v_matchId v = mid \<and>
           windowIn (v_scoringWindowId v)) (setVoteMark mark) (votes d),
         scoreEvents := updWhere (\<lambda>e. s_matchId e = mid \<and> s_revertedAt e = None \<and>
           (entireMatch \<or> inRounds (s_roundId e))) (setEventMark mark) (scoreEvents d),
         penalties := updWhere (\<lambda>p. p_matchId p = mid \<and> p_revertedAt p = None \<and>
           (entireMatch \<or> inNumbers (p_roundNumber p))) (setPenaltyMark mark) (penalties d),
         faults := updWhere (\<lambda>f. f_invalidatedAt f = None \<and> f_matchId f = mid \<and>
           (entireMatch \<or> f_roundId f \<in> set rids)) (setFaultMark mark) (faults d),
         roundResults := updWhere (\<lambda>x. x_invalidatedAt x = None \<and> x_matchId x = mid \<and>
           x_roundId x \<in> set rids) (setRoundResultMark mark) (roundResults d) \<rparr>)"

definition invalidateRounds :: "uuid \<Rightarrow> uuid list \<Rightarrow> time \<Rightarrow> uuid \<Rightarrow> db \<Rightarrow> db" where
  "invalidateRounds mid rids t auditId d =
     (let mark = (Some t, Some auditId) in
      d\<lparr> decisions := updWhere (\<lambda>x. d_invalidatedAt x = None \<and> d_matchId x = mid \<and>
           d_sourceOvertimeRoundId x \<in> set rids) (setDecisionMark mark) (decisions d),
         windows := updWhere (\<lambda>w. w_invalidatedAt w = None \<and> w_matchId w = mid \<and>
           (case w_roundId w of None \<Rightarrow> False | Some rid \<Rightarrow> rid \<in> set rids)) (setWindowMark mark) (windows d),
         rounds := updWhere (\<lambda>r. r_id r \<in> set rids \<and> r_invalidatedAt r = None \<and> r_matchId r = mid)
           (setRoundMark mark) (rounds d) \<rparr>)"

definition cancelAudit ::
  "env \<Rightarrow> bool \<Rightarrow> match_row \<Rightarrow> supervisor_identity \<Rightarrow> nat list \<Rightarrow> match_status \<Rightarrow> uuid \<Rightarrow> uuid \<Rightarrow> db \<Rightarrow> db" where
  "cancelAudit ev entireMatch m identity ns nextStatus auditId operationId d =
     (let d1 = addAudit (actorAudit (Some auditId)
            (if entireMatch then MATCH_RESULT_RESET else ROUND_RESULT_CANCELLED) (m_id m) identity (JObj
              ([(''cancelledAt'', JDate (serverNow ev)), (''fromStatus'', JStatus (m_status m)),
                (''roundNumbers'', jNats ns), (''toStatus'', JStatus nextStatus)] @ assignmentMeta identity))) d;
          d2 = d1\<lparr>operations := operations d1 @
                 [cancelOperation ev entireMatch m identity ns nextStatus auditId operationId]\<rparr> in
      setAuditMetadata auditId (JObj [(''cancelledAt'', JDate (serverNow ev)),
        (''fromStatus'', JStatus (m_status m)), (''resetOperationId'', JId operationId),
        (''roundNumber'', if entireMatch then JNull else JInt (int (hd ns))),
        (''roundNumbers'', jNats ns), (''toStatus'', JStatus nextStatus)]) d2)"

record result_cancellation =
  rc_actionId :: uuid
  rc_roundNumbers :: "nat list"
  rc_status :: match_status
  rc_releasedOfficialIds :: "uuid list"

text \<open>The distinct numbers in first-occurrence order, as iterating a \<open>Set\<close> yields them.\<close>

definition distinctNumbers :: "nat list \<Rightarrow> nat list" where
  "distinctNumbers ns = rev (remdups (rev ns))"

definition cancelSelected ::
  "env \<Rightarrow> bool \<Rightarrow> match_row \<Rightarrow> supervisor_identity \<Rightarrow> round_row list \<Rightarrow> uuid \<Rightarrow> uuid \<Rightarrow> db \<Rightarrow> db" where
  "cancelSelected ev entireMatch m identity selected auditId operationId d =
     (let mid = m_id m; rids = map r_id selected; ns = distinctNumbers (map r_roundNumber selected);
          nextStatus = cancelStatus entireMatch selected; t = serverNow ev;
          d1 = cancelAudit ev entireMatch m identity ns nextStatus auditId operationId d;
          d2 = invalidateRecords entireMatch mid rids ns t auditId d1;
          d3 = invalidateAppeals mid (affectedAppeals entireMatch mid rids d2) t auditId d2;
          d4 = invalidateRounds mid rids t auditId d3 in
      setMatch mid (\<lambda>x. x\<lparr>m_currentRound := cancelCurrentRound nextStatus, m_finishedAt := None,
        m_intermissionEndsAt := None, m_lifecycle := cancelLifecycle nextStatus,
        m_startedAt := (if nextStatus = WAITING then None else m_startedAt m),
        m_status := nextStatus\<rparr>) d4)"

definition cancelResults ::
  "env \<Rightarrow> bool \<Rightarrow> uuid \<Rightarrow> supervisor_identity \<Rightarrow> uuid \<Rightarrow> uuid \<Rightarrow> db
   \<Rightarrow> match_error + (result_cancellation \<times> db)" where
  "cancelResults ev entireMatch mid identity auditId operationId d =
     bindR (openCommand (lockActiveControlSession ev mid identity) mid d) (\<lambda>m.
     let selected = selectedRounds entireMatch m (activeRounds mid d) in
     if selected = [] then Inl (InvalidResultCancellationState (m_status m))
     else bindR (if m_status m = FINISHED
                 then retractFinishedMatch mid (legacySessionOf identity) None
                        (if entireMatch then ''MATCH_RESET'' else ''ROUND_RESET'') d
                 else Inr d) (\<lambda>d0.
       let nextStatus = cancelStatus entireMatch selected;
           d1 = cancelSelected ev entireMatch m identity selected auditId operationId d0;
           (released, d2) = releaseForTransition identity (m_status m) nextStatus mid (serverNow ev) None d1 in
       Inr (\<lparr> rc_actionId = operationId, rc_roundNumbers = distinctNumbers (map r_roundNumber selected),
              rc_status = nextStatus, rc_releasedOfficialIds = released \<rparr>, d2)))"

section \<open>Undoing a cancellation\<close>

definition activitySince :: "uuid \<Rightarrow> time \<Rightarrow> db \<Rightarrow> bool" where
  "activitySince mid t d \<longleftrightarrow>
     (\<exists>r \<in> set (rounds d). r_createdAt r > t \<and> r_invalidatedAt r = None \<and> r_matchId r = mid) \<or>
     (\<exists>w \<in> set (windows d). w_createdAt w > t \<and> w_invalidatedAt w = None \<and> w_matchId w = mid) \<or>
     (\<exists>e \<in> set (scoreEvents d). s_createdAt e > t \<and> s_matchId e = mid \<and> s_revertedAt e = None) \<or>
     (\<exists>p \<in> set (penalties d). p_createdAt p > t \<and> p_matchId p = mid \<and> p_revertedAt p = None) \<or>
     (\<exists>f \<in> set (faults d). f_createdAt f > t \<and> f_invalidatedAt f = None \<and> f_matchId f = mid) \<or>
     (\<exists>a \<in> set (appeals d). ap_completedAt a > t \<and> ap_invalidatedAt a = None \<and> ap_matchId a = mid) \<or>
     (\<exists>x \<in> set (decisions d). d_selectedAt x > t \<and> d_invalidatedAt x = None \<and> d_matchId x = mid) \<or>
     (\<exists>x \<in> set (outcomes d). o_publishedAt x > t \<and> o_matchId x = mid) \<or>
     (\<exists>x \<in> set (publications d). pb_createdAt x > t \<and> pb_matchId x = mid)"

definition restoreRecords :: "uuid \<Rightarrow> uuid \<Rightarrow> db \<Rightarrow> db" where
  "restoreRecords mid auditId d =
     d\<lparr> votes := updWhere (\<lambda>v. v_invalidatedByAuditId v = Some auditId \<and> v_matchId v = mid)
          (setVoteMark (None, None)) (votes d),
        scoreEvents := updWhere (\<lambda>e. s_revertedByAuditId e = Some auditId \<and> s_matchId e = mid)
          (setEventMark (None, None)) (scoreEvents d),
        penalties := updWhere (\<lambda>p. p_revertedByAuditId p = Some auditId \<and> p_matchId p = mid)
          (setPenaltyMark (None, None)) (penalties d),
        faults := updWhere (\<lambda>f. f_invalidatedByAuditId f = Some auditId \<and> f_matchId f = mid)
          (setFaultMark (None, None)) (faults d),
        roundResults := updWhere (\<lambda>x. x_invalidatedByAuditId x = Some auditId \<and> x_matchId x = mid)
          (setRoundResultMark (None, None)) (roundResults d),
        decisions := updWhere (\<lambda>x. d_invalidatedByAuditId x = Some auditId \<and> d_matchId x = mid)
          (setDecisionMark (None, None)) (decisions d),
        appeals := updWhere (\<lambda>a. ap_invalidatedByAuditId a = Some auditId \<and> ap_matchId a = mid)
          (setAppealMark (None, None)) (appeals d),
        windows := updWhere (\<lambda>w. w_invalidatedByAuditId w = Some auditId \<and> w_matchId w = mid)
          (setWindowMark (None, None)) (windows d),
        rounds := updWhere (\<lambda>r. r_invalidatedByAuditId r = Some auditId \<and> r_matchId r = mid)
          (setRoundMark (None, None)) (rounds d) \<rparr>"

definition undoAudit :: "env \<Rightarrow> supervisor_identity \<Rightarrow> operation_row \<Rightarrow> audit_row" where
  "undoAudit ev identity op =
     actorAudit None (if op_type op = MATCH_RESET then MATCH_RESULT_RESET_UNDONE
                      else ROUND_RESULT_CANCEL_UNDONE) (op_matchId op) identity (JObj
       ([(''resetOperationId'', JId (op_id op)), (''restoredAt'', JDate (serverNow ev)),
         (''restoredStatus'', JStatus (op_previousStatus op)),
         (''roundNumber'', if op_type op = ROUND_RESET then
             (case op_roundNumbers op of [] \<Rightarrow> JNull | n # _ \<Rightarrow> JInt (int n)) else JNull),
         (''roundNumbers'', jNats (op_roundNumbers op))] @ assignmentMeta identity))"

definition undoRow :: "operation_row \<Rightarrow> match_row \<Rightarrow> match_row" where
  "undoRow op x = x\<lparr>m_currentRound := op_previousCurrentRound op, m_finishedAt := op_previousFinishedAt op,
     m_intermissionEndsAt := None, m_lifecycle := op_previousLifecycle op,
     m_startedAt := op_previousStartedAt op, m_status := op_previousStatus op\<rparr>"

definition undoResultCancellation ::
  "env \<Rightarrow> uuid \<Rightarrow> uuid \<Rightarrow> supervisor_identity \<Rightarrow> db \<Rightarrow> match_error + (operation_row \<times> db)" where
  "undoResultCancellation ev mid operationId identity d =
     bindR (openCommand (lockActiveControlSession ev mid identity) mid d) (\<lambda>m.
     case List.find (\<lambda>op. op_id op = operationId \<and> op_matchId op = mid) (operations d) of
       None \<Rightarrow> Inl ResultCancellationUndoNotAllowed
     | Some op \<Rightarrow>
         if op_status op \<noteq> APPLIED then Inl ResultCancellationUndoNotAllowed
         else if m_status m \<noteq> op_resultingStatus op \<or> m_currentRound m \<noteq> op_resultingCurrentRound op \<or>
                 activitySince mid (op_createdAt op) d
         then Inl ResultCancellationUndoNotAllowed
         else
           let d1 = restoreRecords mid (op_auditLogId op) d in
           bindR (checkUnique appealConflict (appeals d1)) (\<lambda>_.
           bindR (checkUnique roundConflict (rounds d1)) (\<lambda>_.
           let d2 = setMatch mid (undoRow op) d1;
               d3 = d2\<lparr>operations := updWhere (\<lambda>o'. op_id o' = op_id op)
                      (\<lambda>o'. o'\<lparr>op_status := UNDONE, op_undoneAt := Some (serverNow ev)\<rparr>) (operations d2)\<rparr> in
           bindR (if op_previousStatus op = FINISHED then processFinishedMatch ev mid None d3
                  else Inr d3) (\<lambda>d4.
           Inr (op, addAudit (undoAudit ev identity op) d4)))))"

end
