(* ===== verification/Appeals.thy ===== *)
theory Appeals
  imports Match_Results
begin

text \<open>
  \<open>realtime/regulation-appeal.service.ts\<close>, \<open>overtime.service.ts\<close> and
  \<open>result-publication.service.ts\<close>: the phases after the second regulation round under the
  fault, appeal and overtime rules. A relation such as \<open>sourceRound\<close> is a lookup by id;
  \<open>new Map\<close> over rows keeps the last row of a key. The SHA-256 of a JSON text is a parameter.
\<close>

section \<open>Shared reads\<close>

record appeal_points =
  bonusPoints :: int
  penaltyPoints :: int

record appeal_input =
  ai_RED :: appeal_points
  ai_BLUE :: appeal_points
  ai_idempotencyKey :: string
  ai_traceId :: "string option"

definition suppliedPoints :: "appeal_input \<Rightarrow> side \<Rightarrow> appeal_points" where
  "suppliedPoints payload c = (case c of RED \<Rightarrow> ai_RED payload | BLUE \<Rightarrow> ai_BLUE payload)"

definition sourceRoundLive :: "appeal_row \<Rightarrow> db \<Rightarrow> bool" where
  "sourceRoundLive a d \<longleftrightarrow>
     (\<exists>r \<in> set (rounds d). r_id r = ap_sourceRoundId a \<and> r_invalidatedAt r = None)"

definition adjustmentsOf :: "uuid \<Rightarrow> db \<Rightarrow> adjustment_row list" where
  "adjustmentsOf aid d = filter (\<lambda>x. aj_appealId x = aid) (adjustments d)"

definition athleteColor :: "uuid \<Rightarrow> db \<Rightarrow> side option" where
  "athleteColor athleteId d = map_option ma_color (List.find (\<lambda>a. ma_id a = athleteId) (matchAthletes d))"

definition adjustmentByColor :: "side \<Rightarrow> uuid \<Rightarrow> db \<Rightarrow> adjustment_row option" where
  "adjustmentByColor c aid d =
     List.find (\<lambda>x. athleteColor (aj_athleteId x) d = Some c) (rev (adjustmentsOf aid d))"

definition samePoints :: "adjustment_row \<Rightarrow> appeal_points \<Rightarrow> bool" where
  "samePoints x sent \<longleftrightarrow> aj_bonusPoints x = bonusPoints sent \<and> aj_penaltyPoints x = penaltyPoints sent"

record scored =
  sc_athlete :: match_athlete_row
  sc_base :: int
  sc_points :: appeal_points
  sc_final :: int

definition scoredOf :: "match_athlete_row \<Rightarrow> int \<Rightarrow> appeal_points \<Rightarrow> scored" where
  "scoredOf a base pts = \<lparr> sc_athlete = a, sc_base = base, sc_points = pts,
     sc_final = finalScore base (bonusPoints pts) (penaltyPoints pts) \<rparr>"

definition adjustmentRow :: "uuid \<Rightarrow> scored \<Rightarrow> adjustment_row" where
  "adjustmentRow aid s =
     \<lparr> aj_appealId = aid, aj_athleteId = ma_id (sc_athlete s), aj_baseJudgeScore = sc_base s,
       aj_bonusPoints = bonusPoints (sc_points s), aj_penaltyPoints = penaltyPoints (sc_points s),
       aj_finalScore = sc_final s \<rparr>"

definition newAppeal ::
  "env \<Rightarrow> uuid \<Rightarrow> uuid \<Rightarrow> round_stage \<Rightarrow> nat \<Rightarrow> uuid \<Rightarrow> string \<Rightarrow> supervisor_identity \<Rightarrow> appeal_row" where
  "newAppeal ev aid mid scope attempt sourceRoundId key identity =
     \<lparr> ap_id = aid, ap_matchId = mid, ap_scope = scope, ap_attemptNumber = attempt,
       ap_status = AP_COMPLETED, ap_sourceRoundId = sourceRoundId, ap_assignmentId = assignmentOf identity,
       ap_sessionId = legacySessionOf identity, ap_completedAt = serverNow ev,
       ap_idempotencyKey = Some key, ap_invalidatedAt = None, ap_invalidatedByAuditId = None \<rparr>"

definition verifiedMatch ::
  "env \<Rightarrow> uuid \<Rightarrow> supervisor_identity \<Rightarrow> db \<Rightarrow> match_error + match_row" where
  "verifiedMatch ev mid identity d =
     bindR (lockAndVerify ev mid identity AppealIdentity d) (\<lambda>_.
     orThrow (getMatch mid d) RecordNotFound)"

section \<open>The regulation appeal\<close>

record score_detail =
  sd_base :: int
  sd_bonusPoints :: int
  sd_penaltyPoints :: int
  sd_final :: int

record regulation_appeal_transition =
  ra_appealId :: uuid
  ra_matchId :: uuid
  ra_matchPublicId :: string
  ra_phase :: match_status
  ra_RED :: score_detail
  ra_BLUE :: score_detail
  ra_isTie :: bool

definition scoreDetail :: "scored \<Rightarrow> score_detail" where
  "scoreDetail s = \<lparr> sd_base = sc_base s, sd_bonusPoints = bonusPoints (sc_points s),
     sd_penaltyPoints = penaltyPoints (sc_points s), sd_final = sc_final s \<rparr>"

definition adjustmentDetail :: "adjustment_row \<Rightarrow> score_detail" where
  "adjustmentDetail x = \<lparr> sd_base = aj_baseJudgeScore x, sd_bonusPoints = aj_bonusPoints x,
     sd_penaltyPoints = aj_penaltyPoints x, sd_final = aj_finalScore x \<rparr>"

definition detailJson :: "score_detail \<Rightarrow> jval" where
  "detailJson s = JObj [(''base'', JInt (sd_base s)), (''bonusPoints'', JInt (sd_bonusPoints s)),
     (''penaltyPoints'', JInt (sd_penaltyPoints s)), (''final'', JInt (sd_final s))]"

definition replayRegulation ::
  "appeal_row \<Rightarrow> appeal_input \<Rightarrow> match_row \<Rightarrow> db \<Rightarrow> regulation_appeal_transition option" where
  "replayRegulation existing payload m d =
     (if ap_scope existing \<noteq> REGULATION \<or> length (adjustmentsOf (ap_id existing) d) \<noteq> 2 then None
      else case (adjustmentByColor RED (ap_id existing) d, adjustmentByColor BLUE (ap_id existing) d) of
        (Some red, Some blue) \<Rightarrow>
          (if samePoints red (ai_RED payload) \<and> samePoints blue (ai_BLUE payload)
           then Some \<lparr> ra_appealId = ap_id existing, ra_matchId = ap_matchId existing,
                       ra_matchPublicId = m_publicId m, ra_phase = m_status m,
                       ra_RED = adjustmentDetail red, ra_BLUE = adjustmentDetail blue,
                       ra_isTie = (aj_finalScore red = aj_finalScore blue) \<rparr>
           else None)
      | _ \<Rightarrow> None)"

definition staleAppeal :: "uuid \<Rightarrow> db \<Rightarrow> appeal_row \<Rightarrow> bool" where
  "staleAppeal mid d a \<longleftrightarrow> ap_matchId a = mid \<and> ap_status a = AP_COMPLETED \<and> ap_invalidatedAt a = None \<and>
     (\<exists>r \<in> set (rounds d). r_id r = ap_sourceRoundId a \<and> r_invalidatedAt r \<noteq> None)"

definition invalidateStaleAppeals ::
  "env \<Rightarrow> uuid \<Rightarrow> supervisor_identity \<Rightarrow> uuid \<Rightarrow> db \<Rightarrow> db" where
  "invalidateStaleAppeals ev mid identity staleAuditId d =
     (let ids = map ap_id (filter (staleAppeal mid d) (appeals d)) in
      if ids = [] then d
      else
        let d1 = addAudit (actorAudit (Some staleAuditId) MATCH_ACTION mid identity (JObj
              [(''action'', JStr ''STALE_APPEALS_INVALIDATED''), (''appealIds'', JList (map JId ids)),
               (''reason'', JStr ''SOURCE_ROUND_INVALIDATED'')])) d in
        d1\<lparr>appeals := updWhere (\<lambda>a. ap_id a \<in> set ids)
             (setAppealMark (Some (appNow ev), Some staleAuditId)) (appeals d1)\<rparr>)"

definition regulationRounds :: "uuid \<Rightarrow> db \<Rightarrow> round_row list" where
  "regulationRounds mid d = sort_key r_roundNumber (filter (\<lambda>r. r_matchId r = mid \<and> r_stage r = REGULATION \<and>
     r_attemptNumber r = 0 \<and> r_invalidatedAt r = None \<and> r_endedAt r \<noteq> None) (rounds d))"

definition priorRegulationAppeal :: "uuid \<Rightarrow> db \<Rightarrow> bool" where
  "priorRegulationAppeal mid d \<longleftrightarrow> (\<exists>a \<in> set (appeals d). ap_matchId a = mid \<and> ap_scope a = REGULATION \<and>
     ap_attemptNumber a = 0 \<and> ap_status a = AP_COMPLETED \<and> ap_invalidatedAt a = None \<and> sourceRoundLive a d)"

definition liveSummaries :: "uuid \<Rightarrow> uuid list \<Rightarrow> db \<Rightarrow> round_result_row list" where
  "liveSummaries mid rids d = filter (\<lambda>x. x_matchId x = mid \<and> x_roundId x \<in> set rids \<and>
     x_invalidatedAt x = None) (roundResults d)"

definition summaryBase :: "uuid \<Rightarrow> round_result_row list \<Rightarrow> int" where
  "summaryBase athleteId summaries =
     sum_list (map x_judgePoints (filter (\<lambda>x. x_athleteId x = athleteId) summaries))"

definition appealPhase :: "match_status \<Rightarrow> scored \<Rightarrow> scored \<Rightarrow> match_status" where
  "appealPhase tied red blue =
     (if sc_final red = sc_final blue then tied else RESULT_PUBLICATION_READY)"

definition regulationInputs ::
  "uuid \<Rightarrow> appeal_input \<Rightarrow> db \<Rightarrow> match_error + (round_row list \<times> scored list)" where
  "regulationInputs mid payload d =
     (let rs = regulationRounds mid d;
          athletes = sort_key ma_color (filter (\<lambda>a. ma_matchId a = mid) (matchAthletes d)) in
      if openWindowOf mid d \<noteq> None \<or> map r_roundNumber rs \<noteq> [1, 2] \<or> length athletes \<noteq> 2 \<or>
         priorRegulationAppeal mid d
      then Inl AppealState
      else
        let summaries = liveSummaries mid (map r_id rs) d in
        if length summaries \<noteq> 4 then Inl AppealState
        else Inr (rs, map (\<lambda>a. scoredOf a (summaryBase (ma_id a) summaries)
                               (suppliedPoints payload (ma_color a))) athletes))"

definition scoredOfColor :: "side \<Rightarrow> scored list \<Rightarrow> match_error + scored" where
  "scoredOfColor c xs = orThrow (List.find (\<lambda>s. ma_color (sc_athlete s) = c) xs) RuntimeTypeError"

definition commitRegulation ::
  "env \<Rightarrow> match_row \<Rightarrow> supervisor_identity \<Rightarrow> appeal_input \<Rightarrow> uuid \<Rightarrow> round_row list \<Rightarrow> scored list
   \<Rightarrow> scored \<Rightarrow> scored \<Rightarrow> db \<Rightarrow> match_error + (regulation_appeal_transition \<times> db)" where
  "commitRegulation ev m identity payload appealId rs values red blue d =
     (let phase = appealPhase OVERTIME_READY red blue; isTie = (sc_final red = sc_final blue) in
      bindR (insertUnique appealConflict (newAppeal ev appealId (m_id m) REGULATION 0 (r_id (rs ! 1))
               (ai_idempotencyKey payload) identity) (appeals d)) (\<lambda>as.
      let d1 = d\<lparr>appeals := as, appealRounds := appealRounds d @ map (\<lambda>r. (appealId, r_id r)) rs,
                 adjustments := adjustments d @ map (adjustmentRow appealId) values\<rparr>;
          d2 = setMatch (m_id m) (\<lambda>x. x\<lparr>m_status := phase\<rparr>) d1;
          d3 = addAudit (actorAudit None MATCH_ACTION (m_id m) identity (JObj
             [(''action'', JStr ''REGULATION_APPEAL_COMPLETED''), (''appealId'', JId appealId),
              (''idempotencyKey'', JStr (ai_idempotencyKey payload)),
              (''traceId'', jOpt JStr (ai_traceId payload)), (''phase'', JStatus phase),
              (''isTie'', JBool isTie),
              (''regulation'', JObj [(''RED'', detailJson (scoreDetail red)),
                                     (''BLUE'', detailJson (scoreDetail blue))])])) d2 in
      Inr (\<lparr> ra_appealId = appealId, ra_matchId = m_id m, ra_matchPublicId = m_publicId m,
             ra_phase = phase, ra_RED = scoreDetail red, ra_BLUE = scoreDetail blue,
             ra_isTie = isTie \<rparr>, d3)))"

definition completeRegulationAppeal ::
  "env \<Rightarrow> uuid \<Rightarrow> supervisor_identity \<Rightarrow> appeal_input \<Rightarrow> uuid \<Rightarrow> uuid \<Rightarrow> db
   \<Rightarrow> match_error + (regulation_appeal_transition \<times> db)" where
  "completeRegulationAppeal ev mid identity payload staleAuditId appealId d =
     bindR (verifiedMatch ev mid identity d) (\<lambda>m.
     let d1 = invalidateStaleAppeals ev mid identity staleAuditId d in
     case List.find (\<lambda>a. ap_idempotencyKey a = Some (ai_idempotencyKey payload)) (appeals d1) of
       Some existing \<Rightarrow>
         bindR (orThrow (replayRegulation existing payload m d1) AppealIdempotency) (\<lambda>tr. Inr (tr, d1))
     | None \<Rightarrow>
         if m_rulesVersion m \<noteq> FAULT_APPEAL_OVERTIME_V2 \<or> m_lifecycle m \<noteq> IN_PROGRESS \<or>
            m_status m \<noteq> REGULATION_APPEAL
         then Inl AppealState
         else bindR (regulationInputs mid payload d1) (\<lambda>(rs, values).
              bindR (scoredOfColor RED values) (\<lambda>red.
              bindR (scoredOfColor BLUE values) (\<lambda>blue.
              commitRegulation ev m identity payload appealId rs values red blue d1))))"

section \<open>Overtime\<close>

record overtime_appeal_transition =
  oa_appealId :: uuid
  oa_matchId :: uuid
  oa_matchPublicId :: string
  oa_phase :: match_status
  oa_attemptNumber :: nat
  oa_isTie :: bool

definition replayOvertime ::
  "appeal_row \<Rightarrow> uuid \<Rightarrow> appeal_input \<Rightarrow> match_row \<Rightarrow> db \<Rightarrow> match_error + overtime_appeal_transition" where
  "replayOvertime existing mid payload m d =
     (case (adjustmentByColor RED (ap_id existing) d, adjustmentByColor BLUE (ap_id existing) d) of
        (Some red, Some blue) \<Rightarrow>
          (if ap_matchId existing \<noteq> mid \<or> ap_scope existing \<noteq> OVERTIME \<or>
              \<not> samePoints red (ai_RED payload) \<or> \<not> samePoints blue (ai_BLUE payload)
           then Inl AppealIdempotency
           else let isTie = (aj_finalScore red = aj_finalScore blue) in
             Inr \<lparr> oa_appealId = ap_id existing, oa_matchId = mid, oa_matchPublicId = m_publicId m,
                   oa_phase = (if isTie then OVERTIME_TIEBREAK_DECISION else RESULT_PUBLICATION_READY),
                   oa_attemptNumber = ap_attemptNumber existing, oa_isTie = isTie \<rparr>)
      | _ \<Rightarrow> Inl AppealIdempotency)"

definition overtimeRound :: "uuid \<Rightarrow> db \<Rightarrow> round_row option" where
  "overtimeRound mid d = firstBy (\<lambda>r. - int (r_attemptNumber r))
     (\<lambda>r. r_matchId r = mid \<and> r_stage r = OVERTIME \<and> r_invalidatedAt r = None \<and> r_endedAt r \<noteq> None)
     (rounds d)"

definition overtimeScore ::
  "side \<Rightarrow> appeal_input \<Rightarrow> match_athlete_row list \<Rightarrow> round_result_row list \<Rightarrow> match_error + scored" where
  "overtimeScore c payload athletes summaries =
     bindR (orThrow (List.find (\<lambda>a. ma_color a = c) athletes) RuntimeTypeError) (\<lambda>a.
     let base = (case List.find (\<lambda>x. x_athleteId x = ma_id a) summaries of
                   None \<Rightarrow> 0 | Some x \<Rightarrow> x_judgePoints x) in
     Inr (scoredOf a base (suppliedPoints payload c)))"

definition overtimeInputs ::
  "uuid \<Rightarrow> appeal_input \<Rightarrow> db \<Rightarrow> match_error + (round_row \<times> scored \<times> scored)" where
  "overtimeInputs mid payload d =
     bindR (orThrow (overtimeRound mid d) AppealState) (\<lambda>r.
     if (\<exists>w \<in> set (windows d). w_matchId w = mid \<and> w_roundId w = Some (r_id r) \<and>
           w_invalidatedAt w = None \<and> w_resolvedAt w = None) \<or>
        (\<exists>a \<in> set (appeals d). ap_matchId a = mid \<and> ap_scope a = OVERTIME \<and>
           ap_attemptNumber a = r_attemptNumber r \<and> ap_invalidatedAt a = None)
     then Inl AppealState
     else
       let athletes = filter (\<lambda>a. ma_matchId a = mid) (matchAthletes d);
           summaries = liveSummaries mid [r_id r] d in
       if length athletes \<noteq> 2 \<or> length summaries \<noteq> 2 then Inl AppealState
       else bindR (overtimeScore RED payload athletes summaries) (\<lambda>red.
            bindR (overtimeScore BLUE payload athletes summaries) (\<lambda>blue. Inr (r, red, blue))))"

definition commitOvertime ::
  "env \<Rightarrow> match_row \<Rightarrow> supervisor_identity \<Rightarrow> appeal_input \<Rightarrow> uuid \<Rightarrow> round_row \<Rightarrow> scored \<Rightarrow> scored \<Rightarrow> db
   \<Rightarrow> match_error + (overtime_appeal_transition \<times> db)" where
  "commitOvertime ev m identity payload appealId r red blue d =
     (let isTie = (sc_final red = sc_final blue); phase = appealPhase OVERTIME_TIEBREAK_DECISION red blue in
      bindR (insertUnique appealConflict (newAppeal ev appealId (m_id m) OVERTIME (r_attemptNumber r) (r_id r)
               (ai_idempotencyKey payload) identity) (appeals d)) (\<lambda>as.
      let d1 = d\<lparr>appeals := as, appealRounds := appealRounds d @ [(appealId, r_id r)],
                 adjustments := adjustments d @ map (adjustmentRow appealId) [red, blue]\<rparr>;
          d2 = setMatch (m_id m) (\<lambda>x. x\<lparr>m_status := phase\<rparr>) d1;
          d3 = addAudit (actorAudit None MATCH_ACTION (m_id m) identity (JObj
             [(''action'', JStr ''OVERTIME_APPEAL_COMPLETED''), (''appealId'', JId appealId),
              (''attemptNumber'', JInt (int (r_attemptNumber r))), (''isTie'', JBool isTie),
              (''phase'', JStatus phase)])) d2 in
      Inr (\<lparr> oa_appealId = appealId, oa_matchId = m_id m, oa_matchPublicId = m_publicId m,
             oa_phase = phase, oa_attemptNumber = r_attemptNumber r, oa_isTie = isTie \<rparr>, d3)))"

definition completeOvertimeAppeal ::
  "env \<Rightarrow> uuid \<Rightarrow> supervisor_identity \<Rightarrow> appeal_input \<Rightarrow> uuid \<Rightarrow> db
   \<Rightarrow> match_error + (overtime_appeal_transition \<times> db)" where
  "completeOvertimeAppeal ev mid identity payload appealId d =
     bindR (verifiedMatch ev mid identity d) (\<lambda>m.
     case List.find (\<lambda>a. ap_idempotencyKey a = Some (ai_idempotencyKey payload)) (appeals d) of
       Some existing \<Rightarrow> bindR (replayOvertime existing mid payload m d) (\<lambda>tr. Inr (tr, d))
     | None \<Rightarrow>
         if m_rulesVersion m \<noteq> FAULT_APPEAL_OVERTIME_V2 then Inl AppealState
         else if m_status m \<noteq> OVERTIME_APPEAL \<or> m_lifecycle m \<noteq> IN_PROGRESS then Inl AppealState
         else bindR (overtimeInputs mid payload d) (\<lambda>(r, red, blue).
              commitOvertime ev m identity payload appealId r red blue d))"

definition tiedOvertimeAppeal ::
  "env \<Rightarrow> uuid \<Rightarrow> supervisor_identity \<Rightarrow> db \<Rightarrow> match_error + (match_row \<times> appeal_row)" where
  "tiedOvertimeAppeal ev mid identity d =
     bindR (verifiedMatch ev mid identity d) (\<lambda>m.
     if m_rulesVersion m \<noteq> FAULT_APPEAL_OVERTIME_V2 then Inl AppealState
     else if m_status m \<noteq> OVERTIME_TIEBREAK_DECISION then Inl AppealState
     else bindR (orThrow (firstBy (\<lambda>a. - int (ap_attemptNumber a)) (\<lambda>a. ap_matchId a = mid \<and>
            ap_scope a = OVERTIME \<and> ap_status a = AP_COMPLETED \<and> ap_invalidatedAt a = None)
            (appeals d)) RecordNotFound) (\<lambda>a. Inr (m, a)))"

record overtime_decision_transition =
  od_matchId :: uuid
  od_matchPublicId :: string
  od_attemptNumber :: nat
  od_phase :: match_status

definition invalidateAttempt :: "env \<Rightarrow> uuid \<Rightarrow> appeal_row \<Rightarrow> db \<Rightarrow> db" where
  "invalidateAttempt ev auditId a d =
     (let mark = (Some (appNow ev), Some auditId); rid = ap_sourceRoundId a in
      d\<lparr> rounds := updWhere (\<lambda>r. r_id r = rid) (setRoundMark mark) (rounds d),
         roundResults := updWhere (\<lambda>x. x_roundId x = rid \<and> x_invalidatedAt x = None)
           (setRoundResultMark mark) (roundResults d),
         scoreEvents := updWhere (\<lambda>e. s_roundId e = Some rid \<and> s_revertedAt e = None)
           (setEventMark mark) (scoreEvents d),
         faults := updWhere (\<lambda>f. f_roundId f = rid \<and> f_invalidatedAt f = None)
           (setFaultMark mark) (faults d),
         windows := updWhere (\<lambda>w. w_roundId w = Some rid \<and> w_invalidatedAt w = None)
           (setWindowMark mark) (windows d),
         appeals := updWhere (\<lambda>x. ap_id x = ap_id a) (setAppealMark mark) (appeals d),
         decisions := updWhere (\<lambda>x. d_sourceAppealId x = ap_id a \<and> d_invalidatedAt x = None)
           (setDecisionMark mark) (decisions d) \<rparr>)"

definition restartOvertime ::
  "env \<Rightarrow> uuid \<Rightarrow> supervisor_identity \<Rightarrow> uuid \<Rightarrow> db \<Rightarrow> match_error + (overtime_decision_transition \<times> db)" where
  "restartOvertime ev mid identity auditId d =
     bindR (tiedOvertimeAppeal ev mid identity d) (\<lambda>(m, a).
     bindR (orThrow (getRound (ap_sourceRoundId a) d) RecordNotFound) (\<lambda>_.
     let d1 = addAudit (actorAudit (Some auditId) MATCH_ACTION mid identity (JObj
            [(''action'', JStr ''OVERTIME_RESTARTED''),
             (''attemptNumber'', JInt (int (ap_attemptNumber a)))])) d;
         d2 = invalidateAttempt ev auditId a d1;
         d3 = setMatch mid (\<lambda>x. x\<lparr>m_status := OVERTIME_READY\<rparr>) d2 in
     Inr (\<lparr> od_matchId = mid, od_matchPublicId = m_publicId m,
            od_attemptNumber = ap_attemptNumber a + 1, od_phase = OVERTIME_READY \<rparr>, d3)))"

definition manualWinner ::
  "env \<Rightarrow> uuid \<Rightarrow> supervisor_identity \<Rightarrow> side \<Rightarrow> db \<Rightarrow> match_error + (overtime_decision_transition \<times> db)" where
  "manualWinner ev mid identity winner d =
     bindR (tiedOvertimeAppeal ev mid identity d) (\<lambda>(m, a).
     bindR (orThrow (getAthlete mid winner d) RecordNotFound) (\<lambda>athlete.
     bindR (insertUnique decisionConflict
        \<lparr> d_matchId = mid, d_winnerAthleteId = ma_id athlete, d_winnerColor = winner,
          d_sourceAppealId = ap_id a, d_sourceOvertimeRoundId = ap_sourceRoundId a,
          d_assignmentId = assignmentOf identity, d_sessionId = legacySessionOf identity,
          d_selectedAt = txNow ev, d_invalidatedAt = None, d_invalidatedByAuditId = None \<rparr>
        (decisions d)) (\<lambda>ds.
     let d1 = setMatch mid (\<lambda>x. x\<lparr>m_status := RESULT_PUBLICATION_READY\<rparr>) (d\<lparr>decisions := ds\<rparr>);
         d2 = addAudit (actorAudit None MATCH_ACTION mid identity (JObj
            [(''action'', JStr ''MANUAL_AFTER_OVERTIME_TIE_SELECTED''), (''winner'', JColor winner),
             (''appealId'', JId (ap_id a)), (''attemptNumber'', JInt (int (ap_attemptNumber a))),
             (''pendingPublication'', JBool True)])) d1 in
     Inr (\<lparr> od_matchId = mid, od_matchPublicId = m_publicId m,
            od_attemptNumber = ap_attemptNumber a, od_phase = RESULT_PUBLICATION_READY \<rparr>, d2))))"

section \<open>Publication\<close>

definition publicationFingerprint :: "(jval \<Rightarrow> string) \<Rightarrow> string option \<Rightarrow> string" where
  "publicationFingerprint sha256 traceId = sha256 (JObj [(''traceId'', jOpt JStr traceId)])"

definition publishableAppeal :: "uuid \<Rightarrow> db \<Rightarrow> appeal_row option" where
  "publishableAppeal mid d = firstBy (\<lambda>a. - ap_completedAt a) (\<lambda>a. ap_matchId a = mid \<and>
     ap_status a = AP_COMPLETED \<and> ap_invalidatedAt a = None \<and> sourceRoundLive a d) (appeals d)"

text \<open>The winner's colour and athlete row, and the method.\<close>

definition selectWinner ::
  "uuid \<Rightarrow> appeal_row \<Rightarrow> db \<Rightarrow> match_error + (side \<times> uuid \<times> outcome_method)" where
  "selectWinner mid a d =
     (case adjustmentsOf (ap_id a) d of
        [x, y] \<Rightarrow>
          (case List.find (\<lambda>q. d_matchId q = mid \<and> d_sourceAppealId q = ap_id a \<and>
                  d_invalidatedAt q = None) (decisions d) of
             Some q \<Rightarrow>
               (if ap_scope a \<noteq> OVERTIME \<or> aj_finalScore x \<noteq> aj_finalScore y then Inl AppealState
                else Inr (d_winnerColor q, d_winnerAthleteId q, MANUAL_AFTER_OVERTIME_TIE))
           | None \<Rightarrow>
               (if aj_finalScore x = aj_finalScore y then Inl AppealState
                else
                  let sel = (if aj_finalScore x > aj_finalScore y then x else y) in
                  bindR (orThrow (athleteColor (aj_athleteId sel) d) RuntimeTypeError) (\<lambda>c.
                  Inr (c, aj_athleteId sel,
                       if ap_scope a = REGULATION then REGULATION_SCORE else OVERTIME_SCORE))))
      | _ \<Rightarrow> Inl AppealState)"

definition outcomeRow ::
  "env \<Rightarrow> uuid \<Rightarrow> supervisor_identity \<Rightarrow> appeal_row \<Rightarrow> side \<Rightarrow> uuid \<Rightarrow> outcome_method \<Rightarrow> outcome_row" where
  "outcomeRow ev mid identity a winner winnerAthleteId method =
     \<lparr> o_matchId = mid, o_winnerAthleteId = winnerAthleteId, o_winnerColor = winner, o_method = method,
       o_sourceAppealId = Some (ap_id a),
       o_sourceOvertimeRoundId = (if ap_scope a = OVERTIME then Some (ap_sourceRoundId a) else None),
       o_assignmentId = assignmentOf identity, o_sessionId = legacySessionOf identity,
       o_publishedAt = appNow ev \<rparr>"

definition commitPublication ::
  "env \<Rightarrow> match_row \<Rightarrow> supervisor_identity \<Rightarrow> string \<Rightarrow> string \<Rightarrow> string option \<Rightarrow> appeal_row
   \<Rightarrow> side \<times> uuid \<times> outcome_method \<Rightarrow> db \<Rightarrow> match_error + (publication_response \<times> db)" where
  "commitPublication ev m identity key fingerprint traceId a win d =
     (let mid = m_id m; (winner, winnerAthleteId, method) = win in
      bindR (insertUnique outcomeConflict (outcomeRow ev mid identity a winner winnerAthleteId method)
               (outcomes d)) (\<lambda>os.
      let d1 = setMatch mid (\<lambda>x. x\<lparr>m_status := FINISHED, m_lifecycle := LC_COMPLETED,
                 m_finishedAt := Some (appNow ev)\<rparr>) (d\<lparr>outcomes := os\<rparr>) in
      bindR (processFinishedMatch ev mid (Some winner) d1) (\<lambda>d2.
      let (released, d3) = releaseForTransition identity RESULT_PUBLICATION_READY FINISHED mid
             (appNow ev) None d2;
          d4 = addAudit (actorAudit None MATCH_ACTION mid identity (JObj
             [(''action'', JStr ''RESULT_PUBLISHED''), (''traceId'', jOpt JStr traceId),
              (''winner'', JColor winner), (''method'', JMethod method)])) d3;
          transition = \<lparr> pr_matchId = mid, pr_matchPublicId = m_publicId m,
             pr_tournamentId = m_tournamentId m, pr_releasedOfficialIds = released, pr_winner = winner,
             pr_method = method, pr_finishedAt = appNow ev \<rparr> in
      bindR (insertUnique publicationConflict
         \<lparr> pb_matchId = mid, pb_idempotencyKey = key, pb_fingerprint = fingerprint,
           pb_response = transition, pb_createdAt = txNow ev \<rparr> (publications d4)) (\<lambda>ps.
      Inr (transition, d4\<lparr>publications := ps\<rparr>)))))"

definition publish ::
  "(jval \<Rightarrow> string) \<Rightarrow> env \<Rightarrow> uuid \<Rightarrow> supervisor_identity \<Rightarrow> string \<Rightarrow> string option \<Rightarrow> db
   \<Rightarrow> match_error + (publication_response \<times> db)" where
  "publish sha256 ev mid identity key traceId d =
     (let fingerprint = publicationFingerprint sha256 traceId in
      case List.find (\<lambda>p. pb_matchId p = mid \<and> pb_idempotencyKey p = key) (publications d) of
        Some replay \<Rightarrow>
          (if pb_fingerprint replay \<noteq> fingerprint then Inl ResultPublicationConflict
           else Inr (pb_response replay, d))
      | None \<Rightarrow>
          bindR (verifiedMatch ev mid identity d) (\<lambda>m.
          if m_rulesVersion m \<noteq> FAULT_APPEAL_OVERTIME_V2 then Inl AppealState
          else if m_status m \<noteq> RESULT_PUBLICATION_READY \<or> m_lifecycle m \<noteq> IN_PROGRESS
          then Inl AppealState
          else bindR (orThrow (publishableAppeal mid d) AppealState) (\<lambda>a.
               bindR (selectWinner mid a d) (\<lambda>win.
               commitPublication ev m identity key fingerprint traceId a win d))))"

end
