(* ===== verification/Sample.thy ===== *)
theory Sample
  imports Domain
begin

text \<open>
  A small concrete database for the witnesses: one tournament, one match with a red and a
  blue athlete, three judge sessions and one supervisor session of the per-match login, a
  supervisor and three judges of the tournament, and optionally a running or ended round.
\<close>

definition emptyDb :: db where
  "emptyDb = \<lparr> matches = [], tournaments = [], weightClasses = [], matchAthletes = [], rounds = [],
     windows = [], votes = [], scoreEvents = [], penalties = [], faults = [], roundResults = [],
     appeals = [], appealRounds = [], adjustments = [], decisions = [], outcomes = [],
     publications = [], operations = [], assignments = [], officials = [], officialSessions = [],
     matchSessions = [], accessCodes = [], brackets = [], entrants = [], fixtureRows = [],
     slotRows = [], idempotencyRows = [], roundStaffing = [], rosterAthletes = [], organizations = [], importConfirmations = [],
     auditLogs = [] \<rparr>"

definition sampleMatch :: match_row where
  "sampleMatch = \<lparr> m_id = 1, m_publicId = ''M1'', m_tournamentId = 1, m_weightClassId = None,
     m_bracketFixtureId = None, m_requiredJudgeCount = 3, m_status = WAITING,
     m_lifecycle = NOT_STARTED, m_rulesVersion = FAULT_APPEAL_OVERTIME_V2, m_suspendedAt = None,
     m_currentRound = None, m_roundDurationMs = 90000, m_intermissionEndsAt = None,
     m_startedAt = None, m_finishedAt = None \<rparr>"

definition sampleSession :: "uuid \<Rightarrow> match_role \<Rightarrow> judge_slot option \<Rightarrow> match_session_row" where
  "sampleSession i role slot = \<lparr> ms_id = i, ms_matchId = 1, ms_accessCodeId = i, ms_role = role,
     ms_judgeSlot = slot, ms_deviceId = ''device'', ms_tokenHash = ''hash'', ms_active = True,
     ms_createdAt = 0, ms_lastSeenAt = None, ms_expiresAt = Some 1000000, ms_revokedAt = None \<rparr>"

definition sampleCode :: "uuid \<Rightarrow> access_role \<Rightarrow> access_code_row" where
  "sampleCode i role = \<lparr> ac_id = i, ac_matchId = 1, ac_role = role, ac_codeHash = ''code'' \<rparr>"

definition sampleRound :: "uuid \<Rightarrow> nat \<Rightarrow> time option \<Rightarrow> round_row" where
  "sampleRound i n endedAt = \<lparr> r_id = i, r_matchId = 1, r_roundNumber = n, r_stage = REGULATION,
     r_attemptNumber = 0, r_durationMs = Some 90000, r_startedAt = 0, r_endsAt = 90000,
     r_pausedAt = None, r_remainingDurationMs = None, r_endedAt = endedAt, r_createdAt = 0,
     r_invalidatedAt = None, r_invalidatedByAuditId = None \<rparr>"

definition sampleOfficial :: "uuid \<Rightarrow> match_role \<Rightarrow> official_row" where
  "sampleOfficial i role = \<lparr> of_id = i, of_tournamentId = 1, of_role = role, of_name = ''official'',
     of_normalizedName = ''official'', of_passcodeHash = ''code'', of_passcodeLookupDigest = ''digest'',
     of_isActive = True, of_deactivatedAt = None \<rparr>"

definition waitingDb :: db where
  "waitingDb = emptyDb\<lparr> matches := [sampleMatch],
     tournaments := [\<lparr> t_id = 1, t_publicCode = ''T1'', t_name = ''open'',
       t_sportGroupCode = ''ONE_ON_ONE_COMBAT'', t_status = T_ACTIVE, t_softDeletedAt = None \<rparr>],
     matchAthletes :=
       [\<lparr> ma_id = 11, ma_matchId = 1, ma_athleteId = Some 21, ma_color = RED \<rparr>,
        \<lparr> ma_id = 12, ma_matchId = 1, ma_athleteId = Some 22, ma_color = BLUE \<rparr>],
     matchSessions := [sampleSession 1 JUDGE (Some JUDGE_1), sampleSession 2 JUDGE (Some JUDGE_2),
       sampleSession 3 JUDGE (Some JUDGE_3), sampleSession 4 SUPERVISOR None],
     accessCodes := [sampleCode 1 AR_JUDGE_1, sampleCode 2 AR_JUDGE_2, sampleCode 3 AR_JUDGE_3,
       sampleCode 4 AR_SUPERVISOR],
     officials := [sampleOfficial 61 SUPERVISOR, sampleOfficial 62 JUDGE, sampleOfficial 63 JUDGE,
       sampleOfficial 64 JUDGE],
     officialSessions := [\<lparr> os_id = 71, os_officialId = 61, os_deviceId = ''device'',
       os_tokenHash = ''hash'', os_active = True, os_lastSeenAt = None,
       os_expiresAt = Some 1000000, os_revokedAt = None \<rparr>] \<rparr>"

definition runningDb :: db where
  "runningDb = waitingDb\<lparr> matches := [sampleMatch\<lparr> m_status := ROUND_1_RUNNING,
       m_lifecycle := IN_PROGRESS, m_currentRound := Some 1, m_startedAt := Some 0 \<rparr>],
     rounds := [sampleRound 31 1 None] \<rparr>"

text \<open>The break after a first round in which red scored one point and blue committed a fault.\<close>

definition breakDb :: db where
  "breakDb = waitingDb\<lparr> matches := [sampleMatch\<lparr> m_status := BREAK, m_lifecycle := IN_PROGRESS,
       m_currentRound := Some 1, m_startedAt := Some 0 \<rparr>],
     rounds := [sampleRound 31 1 (Some 90000)],
     scoreEvents := [\<lparr> s_matchId = 1, s_athleteId = 11, s_roundNumber = Some 1, s_roundId = Some 31,
       s_occurredAt = Some 5000, s_roundElapsedMs = Some 5000, s_type = JUDGE_POINT, s_value = 1,
       s_scoringWindowId = Some 41, s_penaltyId = None, s_createdAt = 6000, s_revertedAt = None,
       s_revertedByAuditId = None \<rparr>],
     faults := [\<lparr> f_id = 51, f_matchId = 1, f_athleteId = 12, f_roundId = 31, f_severity = MINOR,
       f_assignmentId = None, f_sessionId = Some 4, f_createdAt = 7000, f_invalidatedAt = None,
       f_invalidatedByAuditId = None \<rparr>],
     roundResults :=
       [\<lparr> x_matchId = 1, x_roundId = 31, x_athleteId = 11, x_judgePoints = 1, x_faultCount = 0,
          x_capturedAt = 90000, x_invalidatedAt = None, x_invalidatedByAuditId = None \<rparr>,
        \<lparr> x_matchId = 1, x_roundId = 31, x_athleteId = 12, x_judgePoints = 0, x_faultCount = 1,
          x_capturedAt = 90000, x_invalidatedAt = None, x_invalidatedByAuditId = None \<rparr>] \<rparr>"

text \<open>Both regulation rounds are over: red scored one point, blue none.\<close>

definition sampleSummary :: "uuid \<Rightarrow> uuid \<Rightarrow> int \<Rightarrow> round_result_row" where
  "sampleSummary rid aid n = \<lparr> x_matchId = 1, x_roundId = rid, x_athleteId = aid, x_judgePoints = n,
     x_faultCount = 0, x_capturedAt = 90000, x_invalidatedAt = None, x_invalidatedByAuditId = None \<rparr>"

definition appealDb :: db where
  "appealDb = waitingDb\<lparr> matches := [sampleMatch\<lparr> m_status := REGULATION_APPEAL, m_lifecycle := IN_PROGRESS,
       m_currentRound := Some 2, m_startedAt := Some 0 \<rparr>],
     rounds := [sampleRound 31 1 (Some 90000), sampleRound 32 2 (Some 90000)],
     roundResults := [sampleSummary 31 11 1, sampleSummary 31 12 0, sampleSummary 32 11 0,
       sampleSummary 32 12 0] \<rparr>"

definition at :: "time \<Rightarrow> env" where
  "at t = \<lparr> serverNow = t, txNow = t, appNow = t \<rparr>"

lemmas sample_defs = emptyDb_def sampleMatch_def sampleSession_def sampleCode_def sampleRound_def sampleOfficial_def waitingDb_def
  runningDb_def breakDb_def sampleSummary_def appealDb_def at_def

end
