(* ===== verification/Scoring_Facts.thy ===== *)
theory Scoring_Facts
  imports Scoring Constraints Sample
begin

text \<open>
  What the scoring definitions guarantee: the projection equals the per-athlete sums, a
  resolution awards one point exactly on a majority, the due-window loop returns and
  leaves no due window, and an accepted vote meets every guard.
\<close>

section \<open>Projection and timing\<close>

lemma addPoints_sum:
  "(case addPoints valid es m a of None \<Rightarrow> 0 | Some n \<Rightarrow> n) =
   (case m a of None \<Rightarrow> 0 | Some n \<Rightarrow> n) +
   sum_list (map s_value (filter (\<lambda>e. s_athleteId e = a \<and> countsFor valid e) es))"
  by (induction es arbitrary: m) (auto split: option.splits)

lemma addFaults_count:
  "(case addFaults valid fs m a of None \<Rightarrow> 0 | Some n \<Rightarrow> n) =
   (case m a of None \<Rightarrow> 0 | Some n \<Rightarrow> n) +
   length (filter (\<lambda>f. f_athleteId f = a \<and> f_invalidatedAt f = None \<and> f_roundId f \<in> set valid) fs)"
  by (induction fs arbitrary: m) (auto split: option.splits)

lemma fold_zero:
  fixes m :: "uuid \<rightharpoonup> 'n::zero"
  shows "(case fold (\<lambda>a m. m(ma_id a \<mapsto> 0)) xs m k of None \<Rightarrow> 0 | Some n \<Rightarrow> n) =
   (if k \<in> ma_id ` set xs then 0 else case m k of None \<Rightarrow> 0 | Some n \<Rightarrow> n)"
  by (induction xs arbitrary: m) auto

lemma foldl_if_sum:
  "foldl (\<lambda>t e. if p e then t + s_value e else t) n es = n + sum_list (map s_value (filter p es))"
  by (induction es arbitrary: n) auto

lemma judgeBase_sum:
  "judgeBaseForRounds a ids es =
   sum_list (map s_value (filter (\<lambda>e. s_athleteId e = a \<and> countsFor ids e) es))"
  by (simp add: judgeBaseForRounds_def foldl_if_sum)

lemma elapsed_range:
  "0 \<le> duration \<Longrightarrow> activeRoundElapsedMs (Some duration) endsAt t = Some x \<Longrightarrow> 0 \<le> x \<and> x \<le> duration"
  by (auto simp: activeRoundElapsedMs_def Let_def)

lemma elapsed_running:
  "endsAt - duration \<le> t \<Longrightarrow> t \<le> endsAt \<Longrightarrow>
   activeRoundElapsedMs (Some duration) endsAt t = Some (t - (endsAt - duration))"
  by (simp add: activeRoundElapsedMs_def Let_def)

section \<open>Resolution\<close>

lemma rulesForMatch_resolve [dest]: "rulesForMatch mid d = Inr rules \<Longrightarrow> rules = oneOnOneCombatRules"
  by (rule rulesForMatch_Inr)

lemma windowVotes_length [simp]:
  "length (windowVotes wid d) = length (filter (\<lambda>v. v_scoringWindowId v = wid) (votes d))"
  by (simp add: windowVotes_def)

lemma colorVotes_sum: "colorVotes RED vs + colorVotes BLUE vs = length vs"
proof (induction vs)
  case (Cons v vs)
  then show ?case by (cases "v_athleteColor v") (simp_all add: colorVotes_def)
qed (simp add: colorVotes_def)

lemma winningColor_verdict:
  "winningColorOf oneOnOneCombatRules n vs =
   combat.verdict n (colorVotes RED vs) (colorVotes BLUE vs)"
  by (simp add: winningColorOf_def combat.verdict_def)

lemma winningColor_iff:
  assumes "length vs \<le> n"
  shows "winningColorOf oneOnOneCombatRules n vs = Some c \<longleftrightarrow> n div 2 + 1 \<le> colorVotes c vs"
  using combat.verdict_iff(1,2) [of "colorVotes RED vs" "colorVotes BLUE vs" n] assms colorVotes_sum [of vs]
  by (cases c) (simp_all add: winningColor_verdict)

lemma resolve_cases:
  assumes "resolveLockedWindow ev w t pid d = Inr (tr, d')"
  obtains m where "getMatch (w_matchId w) d = Some m"
    and "rs_winningColor tr =
         winningColorOf oneOnOneCombatRules (m_requiredJudgeCount m) (windowVotes (w_id w) d)"
    and "rs_winningColor tr = None \<Longrightarrow> scoreEvents d' = scoreEvents d"
    and "\<And>c. rs_winningColor tr = Some c \<Longrightarrow> \<exists>a e. getAthlete (w_matchId w) c d = Some a \<and>
         scoreEvents d' = scoreEvents d @ [e] \<and> s_athleteId e = ma_id a \<and> s_value e = 1 \<and>
         s_type e = JUDGE_POINT \<and> s_scoringWindowId e = Some (w_id w) \<and> s_roundId e = w_roundId w \<and>
         s_matchId e = w_matchId w \<and> s_revertedAt e = None \<and>
         (\<forall>e' \<in> set (scoreEvents d). s_scoringWindowId e' \<noteq> Some (w_id w))"
  using assms
  by (force simp: resolveLockedWindow_def Let_def awardPoint_def addAudit_def getAthlete_def
      scoreEventConflict_def split: if_splits option.splits)

lemma resolve_frame:
  assumes "resolveLockedWindow ev w t pid d = Inr (tr, d')"
  shows "votes d' = votes d" "matches d' = matches d" "rounds d' = rounds d"
    "tournaments d' = tournaments d" "matchAthletes d' = matchAthletes d" "assignments d' = assignments d"
    "operations d' = operations d" "faults d' = faults d" "appeals d' = appeals d"
    "outcomes d' = outcomes d" "roundResults d' = roundResults d" "decisions d' = decisions d"
    "publications d' = publications d" "penalties d' = penalties d"
  using assms
  by (auto simp: resolveLockedWindow_def Let_def awardPoint_def addAudit_def
      split: if_splits option.splits)

text \<open>When a resolution succeeds.\<close>

definition resolvable :: "window_row \<Rightarrow> db \<Rightarrow> bool" where
  "resolvable w d \<longleftrightarrow>
     (\<exists>rules. rulesForMatch (w_matchId w) d = Inr rules) \<and>
     length (filter (\<lambda>x. w_id x = w_id w) (windows d)) = 1 \<and> w \<in> set (windows d) \<and> openWindow w \<and>
     (\<forall>c. getAthlete (w_matchId w) c d \<noteq> None) \<and>
     (\<forall>e \<in> set (scoreEvents d). s_scoringWindowId e \<noteq> Some (w_id w)) \<and>
     (w_roundNumber w = 1 \<or> w_roundNumber w = 2)"

lemma filter_single:
  assumes "length (filter p xs) = 1" and "x \<in> set xs" and "p x" and "q x"
  shows "length (filter (\<lambda>y. p y \<and> q y) xs) = 1"
proof -
  from assms obtain y where y: "filter p xs = [y]" by (auto simp: length_Suc_conv)
  have "x \<in> set (filter p xs)" using assms(2,3) by simp
  then have "x = y" using y by simp
  then have "filter q (filter p xs) = [y]" using y assms(4) by simp
  then show ?thesis by (simp add: conj_commute)
qed

lemma resolvable_resolves:
  assumes "resolvable w d"
  shows "\<exists>tr d'. resolveLockedWindow ev w t pid d = Inr (tr, d')"
proof -
  from assms obtain rules where r: "rulesForMatch (w_matchId w) d = Inr rules"
    by (auto simp: resolvable_def)
  then obtain m where m: "getMatch (w_matchId w) d = Some m" by (auto simp: rulesForMatch_def)
  have one: "length (filter (\<lambda>x. w_id x = w_id w \<and> openWindow x) (windows d)) = 1"
    using assms by (intro filter_single [of _ _ w]) (auto simp: resolvable_def)
  show ?thesis
  proof (cases "winningColorOf rules (m_requiredJudgeCount m) (windowVotes (w_id w) d)")
    case None
    with r m one assms show ?thesis
      by (auto simp: resolveLockedWindow_def Let_def resolvable_def roundNumber12_def)
  next
    case (Some c)
    from assms obtain a where "getAthlete (w_matchId w) c d = Some a" by (auto simp: resolvable_def)
    moreover have "\<forall>e \<in> set (scoreEvents d). \<not> scoreEventConflict e x" if "s_scoringWindowId x = Some (w_id w)" for x
      using assms that by (auto simp: resolvable_def scoreEventConflict_def)
    ultimately show ?thesis using Some r m one assms
      by (auto simp: resolveLockedWindow_def Let_def resolvable_def roundNumber12_def awardPoint_def
          insertUnique_def getAthlete_def addAudit_def)
  qed
qed

section \<open>The loop over due windows\<close>

definition dueWindow :: "uuid \<Rightarrow> time \<Rightarrow> window_row \<Rightarrow> bool" where
  "dueWindow mid t w \<longleftrightarrow> w_matchId w = mid \<and> openWindow w \<and> w_endsAt w \<le> t"

definition scoringReady :: "uuid \<Rightarrow> time \<Rightarrow> db \<Rightarrow> bool" where
  "scoringReady mid t d \<longleftrightarrow> distinct (map w_id (windows d)) \<and>
     (\<forall>w \<in> set (windows d). dueWindow mid t w \<longrightarrow> resolvable w d)"

lemma nextDueWindow_SomeD: "nextDueWindow mid t d = Some w \<Longrightarrow> w \<in> set (windows d) \<and> dueWindow mid t w"
  by (auto simp: nextDueWindow_def dueWindow_def dest!: firstBy_SomeD)

lemma nextDueWindow_None_iff: "nextDueWindow mid t d = None \<longleftrightarrow> (\<forall>w \<in> set (windows d). \<not> dueWindow mid t w)"
  by (simp add: nextDueWindow_def dueWindow_def firstBy_None_iff)

lemma resolve_keeps_others:
  assumes r: "resolveLockedWindow ev w t pid d = Inr (tr, d')" and x: "x \<in> set (windows d)"
    and keep: "w_id x = w_id w \<longrightarrow> \<not> openWindow x"
  shows "x \<in> set (windows d')"
  unfolding resolveLockedWindow_windows(1) [OF r] using x keep by (auto simp: updWhere_def image_iff)

lemma resolve_due_only:
  assumes r: "resolveLockedWindow ev w t pid d = Inr (tr, d')" and x: "x \<in> set (windows d')" and "openWindow x"
  shows "x \<in> set (windows d) \<and> w_id x \<noteq> w_id w"
  using x assms(3) unfolding resolveLockedWindow_windows(1) [OF r]
  by (auto simp: openWindow_def elim!: in_set_updWhereE split: if_splits)

lemma resolve_keeps_ready:
  assumes r: "resolveLockedWindow ev w t pid d = Inr (tr, d')" and rdy: "scoringReady mid t d"
  shows "scoringReady mid t d'"
proof -
  have ids: "map w_id (windows d') = map w_id (windows d)"
    unfolding resolveLockedWindow_windows(1) [OF r] by (simp add: map_updWhere)
  have "resolvable x d'" if x: "x \<in> set (windows d')" "dueWindow mid t x" for x
  proof -
    from resolve_due_only [OF r x(1)] x(2) have x': "x \<in> set (windows d)" "w_id x \<noteq> w_id w"
      by (auto simp: dueWindow_def)
    with rdy x(2) have rx: "resolvable x d" by (auto simp: scoringReady_def)
    have "length (filter (\<lambda>y. w_id y = w_id x) (windows d')) =
        length (filter (\<lambda>i. i = w_id x) (map w_id (windows d')))" by (simp add: filter_map o_def)
    also have "\<dots> = length (filter (\<lambda>y. w_id y = w_id x) (windows d))"
      unfolding ids by (simp add: filter_map o_def)
    finally have one: "length (filter (\<lambda>y. w_id y = w_id x) (windows d')) = 1"
      using rx by (simp add: resolvable_def)
    have ev: "\<forall>e \<in> set (scoreEvents d'). s_scoringWindowId e \<noteq> Some (w_id x)"
      using r rx x'(2) by (cases "rs_winningColor tr") (auto simp: resolvable_def elim!: resolve_cases)
    have at: "getAthlete (w_matchId x) c d' = getAthlete (w_matchId x) c d" for c
      using resolve_frame(5) [OF r] by (simp add: getAthlete_def)
    show ?thesis
      using rx one ev x at rulesForMatch_cong [OF resolve_frame(2,4) [OF r]]
      by (auto simp: resolvable_def)
  qed
  with ids rdy show ?thesis by (simp add: scoringReady_def)
qed

lemma resolveDue_correct:
  assumes "scoringReady mid t d"
  shows "\<exists>d'. resolveDueWindowsLocked ev mid pid t d = Inr d' \<and>
    (\<forall>w \<in> set (windows d'). \<not> dueWindow mid t w) \<and>
    (\<forall>w \<in> set (windows d). \<not> dueWindow mid t w \<longrightarrow> w \<in> set (windows d')) \<and>
    votes d' = votes d \<and> matches d' = matches d \<and> rounds d' = rounds d"
  using assms
proof (induction ev mid pid t d rule: resolveDueWindowsLocked.induct)
  case (1 ev mid pid t d)
  show ?case
  proof (cases "nextDueWindow mid t d")
    case None
    then have "resolveDueWindowsLocked ev mid pid t d = Inr d"
      by (simp add: resolveDueWindowsLocked.simps [of ev mid pid t d])
    with None show ?thesis by (simp add: nextDueWindow_None_iff)
  next
    case (Some w)
    then have w: "w \<in> set (windows d)" "dueWindow mid t w" using nextDueWindow_SomeD by blast+
    with "1.prems" have "resolvable w d" by (simp add: scoringReady_def)
    then obtain tr d1 where r: "resolveLockedWindow ev w t pid d = Inr (tr, d1)"
      using resolvable_resolves by blast
    obtain d' where d': "resolveDueWindowsLocked ev mid pid t d1 = Inr d'"
      "\<forall>w \<in> set (windows d'). \<not> dueWindow mid t w"
      "\<forall>w \<in> set (windows d1). \<not> dueWindow mid t w \<longrightarrow> w \<in> set (windows d')"
      "votes d' = votes d1" "matches d' = matches d1" "rounds d' = rounds d1"
      using "1.IH" [OF Some r refl resolve_keeps_ready [OF r "1.prems"]] by blast
    have "x \<in> set (windows d1)" if x: "x \<in> set (windows d)" "\<not> dueWindow mid t x" for x
    proof (rule resolve_keeps_others [OF r x(1)], rule impI)
      assume "w_id x = w_id w"
      with "1.prems" w(1) x(1) have "x = w" by (auto simp: scoringReady_def distinct_map inj_on_def)
      with w(2) x(2) show "\<not> openWindow x" by simp
    qed
    with d' Some r resolve_frame(1-3) [OF r] show ?thesis
      by (simp add: resolveDueWindowsLocked.simps [of ev mid pid t d])
  qed
qed

lemma resolveDue_frame:
  "resolveDueWindowsLocked ev mid pid t d = Inr d' \<Longrightarrow>
   matches d' = matches d \<and> operations d' = operations d \<and> rounds d' = rounds d \<and> votes d' = votes d \<and>
   tournaments d' = tournaments d \<and> matchAthletes d' = matchAthletes d \<and> faults d' = faults d \<and>
   roundResults d' = roundResults d \<and> outcomes d' = outcomes d"
proof (induction ev mid pid t d rule: resolveDueWindowsLocked.induct)
  case (1 ev mid pid t d)
  show ?case
  proof (cases "nextDueWindow mid t d")
    case None
    with "1.prems" show ?thesis by (simp add: resolveDueWindowsLocked.simps [of ev mid pid t d])
  next
    case (Some w)
    with "1.prems" obtain tr d1 where r: "resolveLockedWindow ev w t pid d = Inr (tr, d1)"
      and n: "resolveDueWindowsLocked ev mid pid t d1 = Inr d'"
      by (auto simp: resolveDueWindowsLocked.simps [of ev mid pid t d])
    from "1.IH" [OF Some r refl n] resolve_frame [OF r] show ?thesis by simp
  qed
qed

section \<open>Votes\<close>

lemma voteGuardsE:
  assumes "voteGuards ev input d = Inr (auth, m, r)"
  shows "authorizeVote ev input d = Inr auth" "getMatch (vi_matchId input) d = Some m"
    "activeRound m d = Some r" "serverNow ev < r_endsAt r"
    "m_status m \<in> {ROUND_1_RUNNING, ROUND_2_RUNNING, OVERTIME_RUNNING}"
  using assms by (auto simp: voteGuards_def activeRound_def expectedRound_def split: if_splits option.splits)

lemma settle_frame:
  assumes "settleDueWindow ev m d = Inr (u, b, d1)"
  shows "votes d1 = votes d" "matches d1 = matches d" "rounds d1 = rounds d" "operations d1 = operations d"
    "outcomes d1 = outcomes d"
  using assms by (auto simp: settleDueWindow_def split: option.splits if_splits dest: resolve_frame)

lemma settle_open:
  assumes "settleDueWindow ev m d = Inr (Some w, b, d1)"
  shows "w \<in> set (windows d1)" "openWindow w" "w_matchId w = m_id m" "serverNow ev < w_endsAt w" "d1 = d"
  using assms by (auto simp: settleDueWindow_def split: option.splits if_splits dest!: firstBy_SomeD)

lemma submitVoteE:
  assumes "submitVote ev input wid d = Inr (tr, d')"
  obtains auth m r w where "authorizeVote ev input d = Inr auth"
    and "getMatch (vi_matchId input) d = Some m" and "activeRound m d = Some r"
    and "m_status m \<in> {ROUND_1_RUNNING, ROUND_2_RUNNING, OVERTIME_RUNNING}"
    and "serverNow ev < r_endsAt r"
    and "votes d' = votes d @ [newVote ev input auth (w_id w)]"
    and "w \<in> set (windows d')" and "openWindow w" and "w_matchId w = vi_matchId input"
    and "w_roundNumber w = r_roundNumber r"
    and "isWithinScoringWindow (serverNow ev) (w_startedAt w) (w_endsAt w)"
    and "vc_scoringWindowId (vt_accepted tr) = w_id w"
    and "matches d' = matches d" and "rounds d' = rounds d"
proof -
  from assms obtain auth m r u b d1 where g: "voteGuards ev input d = Inr (auth, m, r)"
    and s: "settleDueWindow ev m d = Inr (u, b, d1)"
    and k: "(case u of Some w \<Rightarrow> (if w_roundNumber w \<noteq> r_roundNumber r then Inl PriorScoringWindowPending
                  else voteInWindow ev input auth m w b d1)
       | None \<Rightarrow> voteInNewWindow ev input auth m r wid b d1) = Inr (tr, d')"
    by (auto simp: submitVote_def)
  note g' = voteGuardsE [OF g]
  have mid: "m_id m = vi_matchId input" using getMatch_SomeD [OF g'(2)] by simp
  show thesis
  proof (cases u)
    case (Some w)
    note w = settle_open [OF s [unfolded Some]]
    from k Some have "voteInWindow ev input auth m w b d1 = Inr (tr, d')"
      and rn: "w_roundNumber w = r_roundNumber r" by (auto split: if_splits)
    then have "votes d' = votes d @ [newVote ev input auth (w_id w)]" "windows d' = windows d1"
      "isWithinScoringWindow (serverNow ev) (w_startedAt w) (w_endsAt w)"
      "vc_scoringWindowId (vt_accepted tr) = w_id w" "matches d' = matches d" "rounds d' = rounds d"
      using w(5) by (auto simp: voteInWindow_def acceptedPayload_def split: if_splits)
    with g' w mid rn show thesis by (intro that [of auth m r w]) auto
  next
    case None
    let ?w = "newWindow ev wid (vi_matchId input) r"
    from k None have "votes d' = votes d1 @ [newVote ev input auth (w_id ?w)]" "?w \<in> set (windows d')"
      "vc_scoringWindowId (vt_accepted tr) = w_id ?w" "matches d' = matches d1" "rounds d' = rounds d1"
      by (auto simp: voteInNewWindow_def newWindow_def acceptedPayload_def Let_def)
    with settle_frame [OF s] g' mid show thesis
      by (intro that [of auth m r ?w])
        (auto simp: newWindow_def openWindow_def isWithinScoringWindow_def SCORING_WINDOW_DURATION_MS_def)
  qed
qed

text \<open>A window that was invalidated while unresolved still occupies the unique index on
  unresolved windows, so no later vote of the match can open a window.\<close>

lemma stuck_window_blocks:
  assumes u: "windowIdx.unique (windows d)"
    and w: "w \<in> set (windows d)" "w_resolvedAt w = None" "w_invalidatedAt w \<noteq> None"
  shows "\<exists>e. submitVote ev (input\<lparr>vi_matchId := w_matchId w\<rparr>) wid d = Inl e"
proof (rule ccontr)
  let ?in = "input\<lparr>vi_matchId := w_matchId w\<rparr>"
  assume "\<not> ?thesis"
  then obtain tr d' where "submitVote ev ?in wid d = Inr (tr, d')"
    by (cases "submitVote ev ?in wid d") auto
  then obtain auth m r un b d1 where g: "voteGuards ev ?in d = Inr (auth, m, r)"
    and s: "settleDueWindow ev m d = Inr (un, b, d1)"
    and k: "(case un of Some w \<Rightarrow> (if w_roundNumber w \<noteq> r_roundNumber r then Inl PriorScoringWindowPending
                  else voteInWindow ev ?in auth m w b d1)
       | None \<Rightarrow> voteInNewWindow ev ?in auth m r wid b d1) = Inr (tr, d')"
    by (auto simp: submitVote_def)
  have mid: "m_id m = w_matchId w" using getMatch_SomeD [OF voteGuardsE(2) [OF g]] by simp
  have none: "\<not> (openWindow x \<and> w_matchId x = m_id m)" if "x \<in> set (windows d)" for x
  proof
    assume x: "openWindow x \<and> w_matchId x = m_id m"
    have "x = w"
      by (rule windowIdx.same_row [OF u, where p = "\<lambda>y. w_resolvedAt y = None \<and> w_matchId y = m_id m"])
        (use that w mid x in \<open>simp_all add: windowConflict_def openWindow_def\<close>)
    with x w(3) show False by (simp add: openWindow_def)
  qed
  then have "firstBy w_startedAt (\<lambda>w. openWindow w \<and> w_matchId w = m_id m) (windows d) = None"
    by (simp add: firstBy_None_iff)
  with s have "un = None" "d1 = d" by (simp_all add: settleDueWindow_def)
  with k w show False
    by (auto simp: voteInNewWindow_def newWindow_def windowConflict_def Let_def)
qed

section \<open>Properties\<close>

text \<open>C27: the score projection computed with mutable maps gives every athlete exactly the judge
  points of its valid rounds, as the appeal services compute them, and the number of its
  valid faults: faults never change a score.\<close>

theorem projection_equals_judge_base:
  "calculateMatchScoreProjection athletes fs events valid =
   map (\<lambda>a. \<lparr> pj_athleteId = ma_id a, pj_color = ma_color a,
     pj_faultCount = length (filter (\<lambda>f. f_athleteId f = ma_id a \<and> f_invalidatedAt f = None \<and>
                                          f_roundId f \<in> set valid) fs),
     pj_refereeScore = judgeBaseForRounds (ma_id a) valid events \<rparr>) athletes"
  by (simp add: calculateMatchScoreProjection_def Let_def addPoints_sum addFaults_count fold_zero
      judgeBase_sum)

text \<open>C2: when a window with no more votes than required judges is resolved, the winner is the
  colour that has more than half of the required judges, or nobody; exactly one judge point
  of value one is added for the winner's athlete and none otherwise, and every open window
  with that id is closed at the resolution time.\<close>

theorem resolution_awards_iff_majority:
  assumes "resolveLockedWindow ev w t pid d = Inr (tr, d')"
    and "getMatch (w_matchId w) d = Some m"
    and "length (windowVotes (w_id w) d) \<le> m_requiredJudgeCount m"
  shows "(\<forall>c. rs_winningColor tr = Some c \<longleftrightarrow>
        m_requiredJudgeCount m < 2 * colorVotes c (windowVotes (w_id w) d)) \<and>
    (case rs_winningColor tr of
       None \<Rightarrow> scoreEvents d' = scoreEvents d
     | Some c \<Rightarrow> (\<exists>a e. getAthlete (w_matchId w) c d = Some a \<and> scoreEvents d' = scoreEvents d @ [e] \<and>
         s_athleteId e = ma_id a \<and> s_value e = 1 \<and> s_type e = JUDGE_POINT \<and>
         s_scoringWindowId e = Some (w_id w) \<and> s_roundId e = w_roundId w)) \<and>
    (\<forall>x \<in> set (windows d'). w_id x = w_id w \<longrightarrow> \<not> openWindow x)"
proof -
  have maj: "n div 2 + 1 \<le> k \<longleftrightarrow> n < 2 * k" for n k :: nat by linarith
  have "rs_winningColor tr = Some c \<longleftrightarrow>
      m_requiredJudgeCount m < 2 * colorVotes c (windowVotes (w_id w) d)" for c
    using assms(1) by (rule resolve_cases) (use assms(2,3) winningColor_iff maj in auto)
  moreover have "case rs_winningColor tr of
       None \<Rightarrow> scoreEvents d' = scoreEvents d
     | Some c \<Rightarrow> (\<exists>a e. getAthlete (w_matchId w) c d = Some a \<and> scoreEvents d' = scoreEvents d @ [e] \<and>
         s_athleteId e = ma_id a \<and> s_value e = 1 \<and> s_type e = JUDGE_POINT \<and>
         s_scoringWindowId e = Some (w_id w) \<and> s_roundId e = w_roundId w)"
    using assms(1) by (rule resolve_cases) (auto split: option.splits)
  moreover have "\<forall>x \<in> set (windows d'). w_id x = w_id w \<longrightarrow> \<not> openWindow x"
    using resolve_due_only [OF assms(1)] by blast
  ultimately show ?thesis by blast
qed

definition votedDb :: db where
  "votedDb = runningDb\<lparr>
     windows := [newWindow (at 100) 50 1 (sampleRound 31 1 None)],
     votes := map (\<lambda>(slot, sid). newVote (at 100)
         \<lparr> vi_athlete = RED, vi_matchId = 1, vi_officialSessionId = None, vi_judgeSlot = Some slot,
           vi_sessionId = Some sid \<rparr> (LegacyJudge slot sid) 50) [(JUDGE_1, 1), (JUDGE_2, 2)] \<rparr>"

lemma votedDb_ready: "scoringReady mid t votedDb"
proof -
  have "resolvable w votedDb" if "w \<in> set (windows votedDb)" for w
  proof -
    have "w = newWindow (at 100) 50 1 (sampleRound 31 1 None)" using that by (simp add: votedDb_def)
    moreover have "\<exists>rules. rulesForMatch 1 votedDb = Inr rules"
      by (simp add: rulesForMatch_def getMatch_def votedDb_def sample_defs)
    moreover have "\<forall>c. getAthlete 1 c votedDb \<noteq> None"
      by (rule allI, rename_tac c, case_tac c) (simp_all add: getAthlete_def votedDb_def sample_defs)
    ultimately show ?thesis
      by (simp add: resolvable_def votedDb_def newWindow_def openWindow_def sample_defs)
  qed
  moreover have "distinct (map w_id (windows votedDb))" by (simp add: votedDb_def)
  ultimately show ?thesis by (simp add: scoringReady_def)
qed

theorem resolution_awards_iff_majority_witness:
  "\<exists>tr d'. resolveLockedWindow (at 1100) (newWindow (at 100) 50 1 (sampleRound 31 1 None)) 1100 ''M1'' votedDb
      = Inr (tr, d') \<and> rs_winningColor tr = Some RED"
proof -
  let ?w = "newWindow (at 100) 50 1 (sampleRound 31 1 None)"
  have "\<not> isl (resolveLockedWindow (at 1100) ?w 1100 ''M1'' votedDb)" by code_simp
  then obtain tr d' where r: "resolveLockedWindow (at 1100) ?w 1100 ''M1'' votedDb = Inr (tr, d')"
    by (cases "resolveLockedWindow (at 1100) ?w 1100 ''M1'' votedDb") auto
  have m: "getMatch (w_matchId ?w) votedDb = Some (hd (matches runningDb))"
    "length (windowVotes (w_id ?w) votedDb) \<le> m_requiredJudgeCount (hd (matches runningDb))"
    "m_requiredJudgeCount (hd (matches runningDb)) < 2 * colorVotes RED (windowVotes (w_id ?w) votedDb)"
    by code_simp+
  from resolution_awards_iff_majority [OF r m(1,2)] m(3) r show ?thesis by blast
qed

text \<open>C26: if every due open window of a match can be resolved and window ids are distinct, the
  loop over due windows returns, leaves no due open window of the match, and leaves every
  window that was not due, the votes, the rounds and the matches as they were.\<close>

theorem due_windows_all_resolved:
  assumes "scoringReady mid t d"
  shows "\<exists>d'. resolveDueWindowsLocked ev mid pid t d = Inr d' \<and>
    (\<forall>w \<in> set (windows d'). \<not> dueWindow mid t w) \<and>
    (\<forall>w \<in> set (windows d). \<not> dueWindow mid t w \<longrightarrow> w \<in> set (windows d')) \<and>
    votes d' = votes d \<and> matches d' = matches d \<and> rounds d' = rounds d"
  by (rule resolveDue_correct [OF assms])

theorem due_windows_all_resolved_witness:
  "\<exists>d'. resolveDueWindowsLocked (at 1100) 1 ''M1'' 1100 votedDb = Inr d' \<and>
     (\<forall>w \<in> set (windows d'). \<not> dueWindow 1 1100 w)"
  by (rule exE [OF due_windows_all_resolved [OF votedDb_ready, where mid = 1 and t = 1100 and ev = "at 1100" and pid = "''M1''"]]) blast

text \<open>a vote is accepted only from an authorised judge while a round is running and before
  its deadline; it is appended as the judge's vote in an open window of that match and of
  that round number which contains the server time, and matches and rounds stay as they are.\<close>

theorem accepted_vote_meets_guards:
  assumes "submitVote ev input wid d = Inr (tr, d')"
  shows "\<exists>auth m r w. authorizeVote ev input d = Inr auth \<and> getMatch (vi_matchId input) d = Some m \<and>
    activeRound m d = Some r \<and> m_status m \<in> {ROUND_1_RUNNING, ROUND_2_RUNNING, OVERTIME_RUNNING} \<and>
    serverNow ev < r_endsAt r \<and> votes d' = votes d @ [newVote ev input auth (w_id w)] \<and>
    w \<in> set (windows d') \<and> openWindow w \<and> w_matchId w = vi_matchId input \<and>
    w_roundNumber w = r_roundNumber r \<and> w_startedAt w \<le> serverNow ev \<and> serverNow ev < w_endsAt w \<and>
    vc_scoringWindowId (vt_accepted tr) = w_id w \<and> matches d' = matches d \<and> rounds d' = rounds d"
  using assms
proof (rule submitVoteE)
  fix auth m r w
  assume "authorizeVote ev input d = Inr auth" "getMatch (vi_matchId input) d = Some m"
    "activeRound m d = Some r" "m_status m \<in> {ROUND_1_RUNNING, ROUND_2_RUNNING, OVERTIME_RUNNING}"
    "serverNow ev < r_endsAt r" "votes d' = votes d @ [newVote ev input auth (w_id w)]"
    "w \<in> set (windows d')" "openWindow w" "w_matchId w = vi_matchId input"
    "w_roundNumber w = r_roundNumber r" "isWithinScoringWindow (serverNow ev) (w_startedAt w) (w_endsAt w)"
    "vc_scoringWindowId (vt_accepted tr) = w_id w" "matches d' = matches d" "rounds d' = rounds d"
  then show ?thesis
    by (intro exI [of _ auth] exI [of _ m] exI [of _ r] exI [of _ w]) (simp add: isWithinScoringWindow_def)
qed

definition sampleVote :: vote_input where
  "sampleVote = \<lparr> vi_athlete = RED, vi_matchId = 1, vi_officialSessionId = None,
     vi_judgeSlot = Some JUDGE_1, vi_sessionId = Some 1 \<rparr>"

theorem accepted_vote_meets_guards_witness:
  "\<exists>tr d' v. submitVote (at 100) sampleVote 50 runningDb = Inr (tr, d') \<and> votes d' = votes runningDb @ [v]"
proof -
  have "\<not> isl (submitVote (at 100) sampleVote 50 runningDb)" by code_simp
  then obtain tr d' where r: "submitVote (at 100) sampleVote 50 runningDb = Inr (tr, d')"
    by (cases "submitVote (at 100) sampleVote 50 runningDb") auto
  from accepted_vote_meets_guards [OF r] r show ?thesis by blast
qed

text \<open>C39: a scoring window that was invalidated before it was resolved keeps occupying the
  unique index on unresolved windows, so every later vote of its match is rejected.\<close>

theorem invalidated_open_window_blocks_votes:
  assumes "windowIdx.unique (windows d)"
    and "w \<in> set (windows d)" and "w_resolvedAt w = None" and "w_invalidatedAt w \<noteq> None"
    and "vi_matchId input = w_matchId w"
  shows "\<exists>e. submitVote ev input wid d = Inl e"
proof -
  have "input\<lparr>vi_matchId := w_matchId w\<rparr> = input" using assms(5) by (cases input) simp
  with stuck_window_blocks [OF assms(1-4), of ev input wid] show ?thesis by simp
qed

theorem invalidated_open_window_blocks_votes_witness:
  "\<exists>e. submitVote (at 5000) sampleVote 51 (runningDb\<lparr>windows :=
      [setWindowMark (Some 300, Some 9) (newWindow (at 100) 50 1 (sampleRound 30 1 None))]\<rparr>) = Inl e"
proof (rule invalidated_open_window_blocks_votes)
  let ?w = "setWindowMark (Some 300, Some 9) (newWindow (at 100) 50 1 (sampleRound 30 1 None))"
  show "windowIdx.unique (windows (runningDb\<lparr>windows := [?w]\<rparr>))"
    by (simp add: windowIdx.unique_def)
  show "?w \<in> set (windows (runningDb\<lparr>windows := [?w]\<rparr>))" by simp
  show "w_resolvedAt ?w = None" "w_invalidatedAt ?w \<noteq> None" "vi_matchId sampleVote = w_matchId ?w"
    by (simp_all add: setWindowMark_def newWindow_def sampleVote_def)
qed

end
