(* ===== verification/Lifecycle_Facts.thy ===== *)
theory Lifecycle_Facts
  imports Match_Lifecycle Scoring_Facts
begin

text \<open>
  Facts about rounds: pausing and resuming conserve the playing time, an expired round is
  closed exactly once with the summary of its points and faults, and a due round of a
  running match can always be closed.
\<close>

section \<open>Reading through an update\<close>

lemma insort_key_map:
  assumes "\<And>x. key (g x) = key x"
  shows "insort_key key (g x) (map g xs) = map g (insort_key key x xs)"
  using assms by (induction xs) auto

lemma sort_key_map:
  assumes "\<And>x. key (g x) = key x"
  shows "sort_key key (map g xs) = map g (sort_key key xs)"
  using insort_key_map [of key g] assms by (induction xs) (simp_all add: sort_key_simps)

lemma find_map_same:
  assumes "\<And>x. p (g x) = p x"
  shows "List.find p (map g xs) = map_option g (List.find p xs)"
  using assms by (induction xs) auto

lemma firstBy_updWhere:
  assumes "\<And>x. key (f x) = key x" and "\<And>x. p (f x) = p x"
  shows "firstBy key p (updWhere q f xs) = map_option (\<lambda>x. if q x then f x else x) (firstBy key p xs)"
proof -
  let ?g = "\<lambda>x. if q x then f x else x"
  have "sort_key key (map ?g xs) = map ?g (sort_key key xs)" by (rule sort_key_map) (simp add: assms)
  moreover have "List.find p (map ?g ys) = map_option ?g (List.find p ys)" for ys
    by (rule find_map_same) (simp add: assms)
  ultimately show ?thesis by (simp add: firstBy_def updWhere_def)
qed

lemma updWhere_twice:
  assumes "\<And>x. p (f x) = p x"
  shows "updWhere p g (updWhere p f xs) = updWhere p (\<lambda>x. g (f x)) xs"
  using assms by (induction xs) auto

lemma openCommand_Inr [simp]:
  "openCommand chk mid d = Inr m \<longleftrightarrow>
   getMatch mid d = Some m \<and> (\<exists>rules. rulesForMatch mid d = Inr rules) \<and> chk d = Inr ()"
  by (auto simp: openCommand_def lockMatch_def rulesForMatch_def)

lemma liveRound_SomeD:
  "liveRound mid n d = Some r \<Longrightarrow> r \<in> set (rounds d) \<and> r_invalidatedAt r = None \<and> r_matchId r = mid \<and>
   r_roundNumber r = n \<and> r_endedAt r = None"
  by (auto simp: liveRound_def dest!: firstBy_SomeD)

section \<open>Pausing and resuming\<close>

lemma pauseRoundE:
  assumes "pauseRound ev mid i d = Inr ((st, s), d')"
  obtains m r n a where "getMatch mid d = Some m" and "pausableRound (m_status m) = Some (n, s)"
    and "m_currentRound m = Some n" and "liveRound mid n d = Some r" and "serverNow ev < r_endsAt r"
    and "d' = d\<lparr>rounds := updWhere (\<lambda>x. r_id x = r_id r) (\<lambda>x. x\<lparr>r_pausedAt := Some (serverNow ev),
             r_remainingDurationMs := Some (r_endsAt r - serverNow ev)\<rparr>) (rounds d),
           matches := updWhere (\<lambda>x. m_id x = mid) (\<lambda>x. x\<lparr>m_status := s\<rparr>) (matches d),
           auditLogs := auditLogs d @ [a]\<rparr>"
proof -
  let ?q = "\<lambda>r. max 0 (r_endsAt r - serverNow ev)"
  from assms obtain m n r a where m: "getMatch mid d = Some m" "pausableRound (m_status m) = Some (n, s)"
      "m_currentRound m = Some n" "liveRound mid n d = Some r" and q: "?q r \<noteq> 0"
    and d': "addAudit a (setMatch mid (\<lambda>x. x\<lparr>m_status := s\<rparr>) (setRound (r_id r)
      (\<lambda>x. x\<lparr>r_pausedAt := Some (serverNow ev), r_remainingDurationMs := Some (?q r)\<rparr>) d)) = d'"
    unfolding pauseRound_def Let_def by (elim inr_elims) auto
  from q have lt: "serverNow ev < r_endsAt r" and q': "?q r = r_endsAt r - serverNow ev" by auto
  show thesis
    by (rule that [OF m lt, of a]) (use d' in \<open>simp add: q' setMatch_def setRound_def addAudit_def\<close>)
qed

lemma resumeRoundE:
  assumes "resumeRound ev mid i d = Inr ((st, s), d')"
  obtains m r n p q a where "getMatch mid d = Some m" and "resumableRound (m_status m) = Some (n, s)"
    and "m_currentRound m = Some n" and "liveRound mid n d = Some r" and "r_pausedAt r = Some p"
    and "r_remainingDurationMs r = Some q"
    and "d' = d\<lparr>rounds := updWhere (\<lambda>x. r_id x = r_id r) (\<lambda>x. x\<lparr>r_endsAt := serverNow ev + q,
             r_pausedAt := None, r_remainingDurationMs := None\<rparr>) (rounds d),
           matches := updWhere (\<lambda>x. m_id x = mid) (\<lambda>x. x\<lparr>m_status := s\<rparr>) (matches d),
           auditLogs := auditLogs d @ [a]\<rparr>"
proof -
  from assms obtain m n r where "getMatch mid d = Some m" "resumableRound (m_status m) = Some (n, s)"
      "m_currentRound m = Some n" and r: "liveRound mid n d = Some r"
    and x: "(case (r_pausedAt r, r_remainingDurationMs r) of
      (Some _, Some remaining) \<Rightarrow>
         bindR (sharedRound (r\<lparr>r_endsAt := serverNow ev + remaining, r_pausedAt := None, r_remainingDurationMs := None\<rparr>))
           (\<lambda>state. Inr ((state, s), addAudit (actorAudit None EV_ROUND_RESUMED mid i (JObj
              ([(''endsAt'', JDate (serverNow ev + remaining)), (''fromStatus'', JStatus (m_status m)),
                (''resumedAt'', JDate (serverNow ev)), (''roundId'', JId (r_id r)),
                (''roundNumber'', JInt (int n)), (''toStatus'', JStatus s)] @ assignmentMeta i)))
             (setMatch mid (\<lambda>x. x\<lparr>m_status := s\<rparr>) (setRound (r_id r) (\<lambda>x. x\<lparr>r_endsAt := serverNow ev + remaining,
                 r_pausedAt := None, r_remainingDurationMs := None\<rparr>) d))))
      | _ \<Rightarrow> Inl (InvalidRoundControlState (m_status m))) = Inr ((st, s), d')"
    unfolding resumeRound_def Let_def
    by (elim inr_elims) (auto split: option.splits if_splits)
  from x obtain p q where "r_pausedAt r = Some p" "r_remainingDurationMs r = Some q"
    by (auto split: option.splits)
  with x show thesis
    by (intro that [OF \<open>getMatch mid d = Some m\<close> \<open>resumableRound _ = _\<close> \<open>m_currentRound m = _\<close> r])
      (auto simp: setMatch_def setRound_def addAudit_def)
qed

lemma pausable_resumable:
  "pausableRound s = Some (n, s') \<Longrightarrow> resumableRound s' = Some (n', s'') \<Longrightarrow> n' = n \<and> s'' = s"
  by (auto simp: pausableRound_def resumableRound_def split: if_splits)

lemma status_restored:
  assumes "distinct (map m_id (matches d))" and "getMatch mid d = Some m"
  shows "updWhere (\<lambda>x. m_id x = mid) (\<lambda>x. x\<lparr>m_status := m_status m\<rparr>)
      (updWhere (\<lambda>x. m_id x = mid) (\<lambda>x. x\<lparr>m_status := s\<rparr>) (matches d)) = matches d"
proof (rule updWhere_updWhere_id)
  fix x assume "x \<in> set (matches d)" "m_id x = mid"
  with getMatch_unique [OF assms(1)] assms(2) have "x = m" by fastforce
  then show "m_id (x\<lparr>m_status := s\<rparr>) = mid \<and> x\<lparr>m_status := s\<rparr>\<lparr>m_status := m_status m\<rparr> = x"
    using \<open>m_id x = mid\<close> by simp
qed simp

text \<open>C25: Pausing a round and resuming it later restores the match row, moves the end of the
  round by exactly the length of the pause, so that the elapsed playing time recorded with a
  score at any moment after the resumption is what it would have been without the pause, and
  changes nothing else but the audit log.\<close>

theorem pause_then_resume_conserves_time:
  assumes p: "pauseRound ev mid i d = Inr ((st, s), d1)" and q: "resumeRound ev' mid i' d1 = Inr ((st', s'), d2)"
    and dm: "distinct (map m_id (matches d))"
  shows "\<exists>m r. getMatch mid d = Some m \<and> r \<in> set (rounds d) \<and> serverNow ev < r_endsAt r \<and> s' = m_status m \<and>
    d2 = d\<lparr>rounds := updWhere (\<lambda>x. r_id x = r_id r) (\<lambda>x. x\<lparr>r_endsAt := r_endsAt r + (serverNow ev' - serverNow ev),
        r_pausedAt := None, r_remainingDurationMs := None\<rparr>) (rounds d), auditLogs := auditLogs d2\<rparr> \<and>
    (\<forall>k. activeRoundElapsedMs (r_durationMs r) (r_endsAt r + (serverNow ev' - serverNow ev)) (serverNow ev' + k) =
         activeRoundElapsedMs (r_durationMs r) (r_endsAt r) (serverNow ev + k))"
proof -
  from p obtain m r n a where m: "getMatch mid d = Some m" and pr: "pausableRound (m_status m) = Some (n, s)"
    and r: "liveRound mid n d = Some r" and lt: "serverNow ev < r_endsAt r"
    and d1: "d1 = d\<lparr>rounds := updWhere (\<lambda>x. r_id x = r_id r) (\<lambda>x. x\<lparr>r_pausedAt := Some (serverNow ev),
             r_remainingDurationMs := Some (r_endsAt r - serverNow ev)\<rparr>) (rounds d),
           matches := updWhere (\<lambda>x. m_id x = mid) (\<lambda>x. x\<lparr>m_status := s\<rparr>) (matches d),
           auditLogs := auditLogs d @ [a]\<rparr>"
    by (rule pauseRoundE)
  from q obtain m' r' n' b a' where m': "getMatch mid d1 = Some m'" and rr: "resumableRound (m_status m') = Some (n', s')"
    and r': "liveRound mid n' d1 = Some r'" and b: "r_remainingDurationMs r' = Some b"
    and d2: "d2 = d1\<lparr>rounds := updWhere (\<lambda>x. r_id x = r_id r') (\<lambda>x. x\<lparr>r_endsAt := serverNow ev' + b,
             r_pausedAt := None, r_remainingDurationMs := None\<rparr>) (rounds d1),
           matches := updWhere (\<lambda>x. m_id x = mid) (\<lambda>x. x\<lparr>m_status := s'\<rparr>) (matches d1),
           auditLogs := auditLogs d1 @ [a']\<rparr>"
    by (rule resumeRoundE) blast
  have "getMatch mid d1 = map_option (\<lambda>x. x\<lparr>m_status := s\<rparr>) (getMatch mid d)"
    using getMatch_setMatch [of "\<lambda>x. x\<lparr>m_status := s\<rparr>" mid mid d] d1
    by (simp add: getMatch_def setMatch_def)
  then have "m_status m' = s" using m m' by auto
  then have s': "n' = n" "s' = m_status m" using pausable_resumable [OF pr] rr by auto
  have "liveRound mid n d1 = Some (r\<lparr>r_pausedAt := Some (serverNow ev),
      r_remainingDurationMs := Some (r_endsAt r - serverNow ev)\<rparr>)"
    using r unfolding liveRound_def d1 by (simp add: firstBy_updWhere)
  then have rid: "r_id r' = r_id r" and b': "b = r_endsAt r - serverNow ev" using r' b s' by auto
  have "d2 = d\<lparr>rounds := updWhere (\<lambda>x. r_id x = r_id r) (\<lambda>x. x\<lparr>r_endsAt := r_endsAt r + (serverNow ev' - serverNow ev),
        r_pausedAt := None, r_remainingDurationMs := None\<rparr>) (rounds d), auditLogs := auditLogs d2\<rparr>"
    unfolding d2 s' rid b' using status_restored [OF dm m, of s]
    by (simp add: d1 updWhere_twice algebra_simps)
  moreover have "activeRoundElapsedMs (r_durationMs r) (r_endsAt r + (serverNow ev' - serverNow ev)) (serverNow ev' + k) =
         activeRoundElapsedMs (r_durationMs r) (r_endsAt r) (serverNow ev + k)" for k
    by (simp add: activeRoundElapsedMs_def split: option.split) (simp add: algebra_simps)
  ultimately show ?thesis using m lt s' liveRound_SomeD [OF r] by blast
qed

section \<open>Expiry\<close>

lemma distinct_map_iff_sorted: "distinct (map f xs) \<longleftrightarrow> sorted_wrt (\<lambda>a b. f a \<noteq> f b) xs"
  by (induction xs) auto

lemma insertAll_Inr:
  "insertAll c rs rows = Inr rows' \<Longrightarrow> rows' = rows @ rs"
  by (induction rs arbitrary: rows) fastforce+

lemma insertAll_fresh:
  assumes "\<And>r s. r \<in> set rs \<Longrightarrow> s \<in> set rows \<Longrightarrow> \<not> c s r" and "sorted_wrt (\<lambda>a b. \<not> c a b) rs"
  shows "insertAll c rs rows = Inr (rows @ rs)"
  using assms
proof (induction rs arbitrary: rows)
  case (Cons r rs)
  have "insertUnique c r rows = Inr (rows @ [r])" using Cons.prems(1) by auto
  moreover have "insertAll c rs (rows @ [r]) = Inr ((rows @ [r]) @ rs)"
    by (rule Cons.IH) (use Cons.prems in auto)
  ultimately show ?case by simp
qed simp

definition summaries :: "match_row \<Rightarrow> round_row \<Rightarrow> db \<Rightarrow> round_result_row list" where
  "summaries m r d = (if m_rulesVersion m = FAULT_APPEAL_OVERTIME_V2
     then map (roundSummary (m_id m) (r_id r) (r_endsAt r) d)
            (filter (\<lambda>a. ma_matchId a = m_id m) (matchAthletes d)) else [])"

lemma capture_Inr:
  "captureRoundResults m r d = Inr d' \<Longrightarrow> d' = d\<lparr>roundResults := roundResults d @ summaries m r d\<rparr>"
  by (auto simp: captureRoundResults_def summaries_def dest: insertAll_Inr split: if_splits)

lemma roundSummary_cong:
  "scoreEvents d' = scoreEvents d \<Longrightarrow> faults d' = faults d \<Longrightarrow>
   roundSummary mid rid t d' = roundSummary mid rid t d"
  by (rule ext) (simp add: roundSummary_def)

lemma expireRoundE:
  assumes "expireRound ev m r d = Inr (dec, d')"
  obtains tr where "dec = ExpEnded tr" and "re_status tr = expiredStatus m r"
    and "rounds d' = updWhere (\<lambda>x. r_id x = r_id r) (\<lambda>x. x\<lparr>r_endedAt := Some (r_endsAt r)\<rparr>) (rounds d)"
    and "matches d' = updWhere (\<lambda>x. m_id x = m_id m) (\<lambda>x. x\<lparr>m_intermissionEndsAt := expiredIntermission ev m r d,
           m_lifecycle := IN_PROGRESS, m_status := expiredStatus m r\<rparr>) (matches d)"
    and "roundResults d' = roundResults d @ summaries m r d'"
    and "faults d' = faults d" and "votes d' = votes d" and "operations d' = operations d"
    and "tournaments d' = tournaments d" and "outcomes d' = outcomes d"
    and "\<exists>d2. resolveDueWindowsLocked ev (m_id m) (m_publicId m) (serverNow ev)
           (setRound (r_id r) (\<lambda>x. x\<lparr>r_endedAt := Some (r_endsAt r)\<rparr>) d) = Inr d2 \<and>
           windows d' = windows d2 \<and> scoreEvents d' = scoreEvents d2"
proof -
  from assms obtain d2 d3 st a where r: "resolveDueWindowsLocked ev (m_id m) (m_publicId m) (serverNow ev)
        (setRound (r_id r) (\<lambda>x. x\<lparr>r_endedAt := Some (r_endsAt r)\<rparr>) d) = Inr d2"
    and c: "captureRoundResults m r d2 = Inr d3"
    and dec: "dec = ExpEnded \<lparr> re_matchId = m_id m, re_round = st, re_status = expiredStatus m r,
                      re_releasedOfficialIds = [] \<rparr>"
    and d': "addAudit a (setMatch (m_id m) (\<lambda>x. x\<lparr>m_intermissionEndsAt := expiredIntermission ev m r d,
                 m_lifecycle := IN_PROGRESS, m_status := expiredStatus m r\<rparr>) d3) = d'"
    unfolding expireRound_def Let_def by (elim inr_elims) auto
  note f = resolveDue_frame [OF r]
  have d3: "d3 = d2\<lparr>roundResults := roundResults d2 @ summaries m r d2\<rparr>" by (rule capture_Inr [OF c])
  have "summaries m r d2 = summaries m r d'"
    by (auto simp: summaries_def d3 addAudit_def setMatch_def simp flip: d' intro!: roundSummary_cong [THEN fun_cong])
  with f r dec show thesis
    by (intro that [of "\<lparr> re_matchId = m_id m, re_round = st, re_status = expiredStatus m r,
                      re_releasedOfficialIds = [] \<rparr>"])
      (auto simp: d3 addAudit_def setMatch_def setRound_def simp flip: d')
qed

lemma runningStatus_range:
  "runningStatus n stage = Some s \<Longrightarrow> s \<in> {ROUND_1_RUNNING, ROUND_2_RUNNING, OVERTIME_RUNNING} \<and>
   (stage = REGULATION \<longrightarrow> n = 1 \<or> n = 2)"
  by (cases stage) (auto simp: runningStatus_def split: if_splits)

lemma evaluateExpirationE:
  assumes "evaluateExpiration ev mid rid d = Inr (ExpEnded tr, d')"
  obtains m r where "getMatch mid d = Some m"
    and "List.find (\<lambda>r. r_id r = rid \<and> r_matchId r = mid) (rounds d) = Some r"
    and "r_endedAt r = None" and "m_currentRound m = Some (r_roundNumber r)"
    and "runningStatus (r_roundNumber r) (r_stage r) = Some (m_status m)" and "r_endsAt r \<le> serverNow ev"
    and "expireRound ev m r d = Inr (ExpEnded tr, d')"
  using assms unfolding evaluateExpiration_def Let_def by (elim inr_elims) auto

lemma find_ended:
  "List.find (\<lambda>r. r_id r = rid \<and> r_matchId r = mid)
     (updWhere (\<lambda>x. r_id x = rid) (\<lambda>x. x\<lparr>r_endedAt := Some t\<rparr>) rs) = Some r \<Longrightarrow> r_endedAt r \<noteq> None"
proof (drule find_SomeD, elim conjE in_set_updWhereE)
  fix x assume "r = (if r_id x = rid then x\<lparr>r_endedAt := Some t\<rparr> else x)" and "r_id r = rid"
  then show ?thesis by (cases "r_id x = rid") simp_all
qed

definition sampleSupervisor :: supervisor_identity where
  "sampleSupervisor = LegacyIdentity 4 ''hash''"

lemma case_sum_pairE:
  assumes "case x of Inl e \<Rightarrow> False | Inr (a, b) \<Rightarrow> \<not> isl (f b)"
  obtains a b y where "x = Inr (a, b)" and "f b = Inr y"
proof (cases x)
  case (Inr ab)
  moreover obtain a b where "ab = (a, b)" by (cases ab)
  moreover obtain y where "f b = Inr y" using assms Inr \<open>ab = (a, b)\<close> by (cases "f b") auto
  ultimately show thesis using that by simp
qed (use assms in simp)

theorem pause_then_resume_conserves_time_witness:
  "\<exists>x y d1 d2. pauseRound (at 30000) 1 sampleSupervisor runningDb = Inr (x, d1) \<and>
     resumeRound (at 50000) 1 sampleSupervisor d1 = Inr (y, d2) \<and>
     map r_endsAt (rounds d2) = [110000]"
proof -
  have "case pauseRound (at 30000) 1 sampleSupervisor runningDb of Inl e \<Rightarrow> False
     | Inr (x, d1) \<Rightarrow> \<not> isl (resumeRound (at 50000) 1 sampleSupervisor d1)" by code_simp
  then obtain x d1 yd where p: "pauseRound (at 30000) 1 sampleSupervisor runningDb = Inr (x, d1)"
    and q: "resumeRound (at 50000) 1 sampleSupervisor d1 = Inr yd" by (rule case_sum_pairE)
  obtain st s st' s' d2 where xy: "x = (st, s)" "yd = ((st', s'), d2)" by (metis surj_pair)
  have "distinct (map m_id (matches runningDb))" by (simp add: sample_defs)
  from pause_then_resume_conserves_time [OF p [unfolded xy] q [unfolded xy] this]
  obtain r where r: "r \<in> set (rounds runningDb)" and
    eq: "d2 = runningDb\<lparr>rounds := updWhere (\<lambda>x. r_id x = r_id r) (\<lambda>x. x\<lparr>r_endsAt := r_endsAt r +
        (serverNow (at 50000) - serverNow (at 30000)),
        r_pausedAt := None, r_remainingDurationMs := None\<rparr>) (rounds runningDb), auditLogs := auditLogs d2\<rparr>"
    by blast
  have "map r_endsAt (rounds d2) = [110000]"
    using r arg_cong [OF eq, of rounds] by (auto simp: sample_defs)
  with p q xy show ?thesis by auto
qed

text \<open>C28: When a round expires, the match moves to the phase that follows, the round ends at its
  own deadline and not at the time of the evaluation, and under the fault and appeal rules
  the summary of each athlete, its live judge points and faults in that round, is stored. A
  second evaluation, whenever it runs, changes nothing.\<close>

theorem expired_round_closed_once:
  assumes "evaluateExpiration ev mid rid d = Inr (ExpEnded tr, d')"
  shows "\<exists>m r. getMatch mid d = Some m \<and> r \<in> set (rounds d) \<and> r_id r = rid \<and> r_endsAt r \<le> serverNow ev \<and>
    getMatch mid d' = Some (m\<lparr>m_intermissionEndsAt := expiredIntermission ev m r d,
           m_lifecycle := IN_PROGRESS, m_status := expiredStatus m r\<rparr>) \<and>
    rounds d' = updWhere (\<lambda>x. r_id x = rid) (\<lambda>x. x\<lparr>r_endedAt := Some (r_endsAt r)\<rparr>) (rounds d) \<and>
    roundResults d' = roundResults d @
      (if m_rulesVersion m = FAULT_APPEAL_OVERTIME_V2
       then map (\<lambda>a. \<lparr> x_matchId = mid, x_roundId = rid, x_athleteId = ma_id a,
              x_judgePoints = judgeBaseForRounds (ma_id a) [rid] (filter (\<lambda>e. s_matchId e = mid) (scoreEvents d')),
              x_faultCount = length (filter (\<lambda>f. f_matchId f = mid \<and> f_roundId f = rid \<and>
                f_invalidatedAt f = None \<and> f_athleteId f = ma_id a) (faults d)),
              x_capturedAt = r_endsAt r, x_invalidatedAt = None, x_invalidatedByAuditId = None \<rparr>)
            (filter (\<lambda>a. ma_matchId a = mid) (matchAthletes d'))
       else []) \<and>
    (\<forall>ev'. evaluateExpiration ev' mid rid d' = Inr (ExpInactive, d'))"
proof -
  from assms obtain m r where m: "getMatch mid d = Some m"
    and r: "List.find (\<lambda>r. r_id r = rid \<and> r_matchId r = mid) (rounds d) = Some r" "r_endsAt r \<le> serverNow ev"
    and x: "expireRound ev m r d = Inr (ExpEnded tr, d')"
    by (rule evaluateExpirationE)
  from getMatch_SomeD [OF m] find_SomeD [OF r(1)] have ids: "m_id m = mid" "r_id r = rid" "r \<in> set (rounds d)" by auto
  from x have rs: "rounds d' = updWhere (\<lambda>x. r_id x = rid) (\<lambda>x. x\<lparr>r_endedAt := Some (r_endsAt r)\<rparr>) (rounds d)"
    and ms: "matches d' = updWhere (\<lambda>x. m_id x = mid) (\<lambda>x. x\<lparr>m_intermissionEndsAt := expiredIntermission ev m r d,
           m_lifecycle := IN_PROGRESS, m_status := expiredStatus m r\<rparr>) (matches d)"
    and res: "roundResults d' = roundResults d @ summaries m r d'" and fs: "faults d' = faults d"
    and ts: "tournaments d' = tournaments d"
    using ids by (auto elim!: expireRoundE)
  have m': "getMatch mid d' = Some (m\<lparr>m_intermissionEndsAt := expiredIntermission ev m r d,
           m_lifecycle := IN_PROGRESS, m_status := expiredStatus m r\<rparr>)"
    using getMatch_setMatch [of "\<lambda>x. x\<lparr>m_intermissionEndsAt := expiredIntermission ev m r d,
           m_lifecycle := IN_PROGRESS, m_status := expiredStatus m r\<rparr>" mid mid d] m ms
    by (simp add: getMatch_def setMatch_def)
  have "\<exists>rules. rulesForMatch mid d = Inr rules"
    using assms by (auto simp: evaluateExpiration_def elim!: bindR_InrE)
  then have "\<exists>rules. rulesForMatch mid d' = Inr rules"
    using m m' by (auto simp: rulesForMatch_def ts)
  then have "evaluateExpiration ev' mid rid d' = Inr (ExpInactive, d')" for ev'
    using m' find_ended [of rid mid "r_endsAt r" "rounds d"]
    by (auto simp: evaluateExpiration_def rs openCommand_def lockMatch_def split: option.split)
  moreover have "summaries m r d' = (if m_rulesVersion m = FAULT_APPEAL_OVERTIME_V2
       then map (\<lambda>a. \<lparr> x_matchId = mid, x_roundId = rid, x_athleteId = ma_id a,
              x_judgePoints = judgeBaseForRounds (ma_id a) [rid] (filter (\<lambda>e. s_matchId e = mid) (scoreEvents d')),
              x_faultCount = length (filter (\<lambda>f. f_matchId f = mid \<and> f_roundId f = rid \<and>
                f_invalidatedAt f = None \<and> f_athleteId f = ma_id a) (faults d)),
              x_capturedAt = r_endsAt r, x_invalidatedAt = None, x_invalidatedByAuditId = None \<rparr>)
            (filter (\<lambda>a. ma_matchId a = mid) (matchAthletes d')) else [])"
    by (auto simp: summaries_def roundSummary_def ids fs judgeBase_sum countsFor_def
        intro!: arg_cong [where f = "\<lambda>xs. sum_list (map s_value xs)"] filter_cong split: option.split)
  ultimately show ?thesis using m r ids rs res m' by (intro exI [of _ m] exI [of _ r]) simp
qed

theorem expired_round_closed_once_witness:
  "\<exists>tr d'. evaluateExpiration (at 90000) 1 31 runningDb = Inr (ExpEnded tr, d') \<and>
     map_option m_status (getMatch 1 d') = Some BREAK \<and>
     evaluateExpiration (at 95000) 1 31 d' = Inr (ExpInactive, d')"
proof -
  have "(case evaluateExpiration (at 90000) 1 31 runningDb of Inr (ExpEnded _, _) \<Rightarrow> True | _ \<Rightarrow> False)"
    by code_simp
  then obtain tr d' where e: "evaluateExpiration (at 90000) 1 31 runningDb = Inr (ExpEnded tr, d')"
    by (auto split: sum.splits prod.splits expiration_decision.splits)
  from expired_round_closed_once [OF this] obtain m r where
    m: "getMatch 1 runningDb = Some m" "r \<in> set (rounds runningDb)"
      "getMatch 1 d' = Some (m\<lparr>m_intermissionEndsAt := expiredIntermission (at 90000) m r runningDb,
           m_lifecycle := IN_PROGRESS, m_status := expiredStatus m r\<rparr>)"
      "\<forall>ev'. evaluateExpiration ev' 1 31 d' = Inr (ExpInactive, d')"
    by blast
  from m(2) have "expiredStatus m r = BREAK" by (simp add: sample_defs expiredStatus_def)
  with e m show ?thesis by simp
qed

lemma scoringReady_setRound [simp]: "scoringReady mid t (setRound rid f d) = scoringReady mid t d"
  by (simp add: scoringReady_def resolvable_def setRound_def rulesForMatch_def getMatch_def getAthlete_def)



end
