(* ===== verification/Bracket_Outcome_Facts.thy ===== *)
theory Bracket_Outcome_Facts
  imports Bracket_Outcome Sample
begin

text \<open>
  What the bracket outcome operations guarantee: propagation fills exactly the slots a
  fixture feeds, a decision is final and repeatable, retraction undoes a decision, a manual
  winner is a participant, and a forced cancellation leaves nothing of the bracket behind.
\<close>

section \<open>Propagation\<close>

lemma updWhere_compose:
  "updWhere q g (updWhere p f xs) =
   map (\<lambda>x. if p x then (if q (f x) then g (f x) else f x) else if q x then g x else x) xs"
  by (simp add: updWhere_def)

lemma fillSlot_tables:
  "slotRows (fillSlot e s d) = updWhere (\<lambda>x. sb_resolvedEntrantId s = None \<and> sb_id x = sb_id s)
     (\<lambda>x. x\<lparr>sb_resolvedEntrantId := Some e\<rparr>) (slotRows d)"
  "\<exists>b. fixtureRows (fillSlot e s d) = updWhere
     (\<lambda>f. b \<and> bf_id f = sb_fixtureId s \<and> bf_status f = PENDING_PARTICIPANTS)
     (\<lambda>f. f\<lparr>bf_status := READY\<rparr>) (fixtureRows d)"
proof -
  show "slotRows (fillSlot e s d) = updWhere (\<lambda>x. sb_resolvedEntrantId s = None \<and> sb_id x = sb_id s)
     (\<lambda>x. x\<lparr>sb_resolvedEntrantId := Some e\<rparr>) (slotRows d)"
    by (simp add: fillSlot_def Let_def setSlot_def updWhere_none)
  show "\<exists>b. fixtureRows (fillSlot e s d) = updWhere
     (\<lambda>f. b \<and> bf_id f = sb_fixtureId s \<and> bf_status f = PENDING_PARTICIPANTS)
     (\<lambda>f. f\<lparr>bf_status := READY\<rparr>) (fixtureRows d)"
    by (rule exI [of _ "allResolved (sb_fixtureId s)
        (if sb_resolvedEntrantId s = None then setSlot (sb_id s) (Some e) d else d)"])
      (simp add: fillSlot_def Let_def setSlot_def updWhere_none)
qed

lemma fillSlot_frame [simp]:
  "brackets (fillSlot e s d) = brackets d" "matches (fillSlot e s d) = matches d"
  "operations (fillSlot e s d) = operations d" "entrants (fillSlot e s d) = entrants d"
  "map bf_id (fixtureRows (fillSlot e s d)) = map bf_id (fixtureRows d)"
  by (simp_all add: fillSlot_def Let_def setSlot_def map_updWhere)

lemma propagate_Cons_Inr:
  "propagate e (s # ss) d = Inr d' \<longleftrightarrow>
   (sb_resolvedEntrantId s = None \<or> sb_resolvedEntrantId s = Some e) \<and>
   propagate e ss (fillSlot e s d) = Inr d'"
  by auto

lemma propagate_slots:
  "propagate e ss d = Inr d' \<Longrightarrow>
   slotRows d' = updWhere (\<lambda>s. sb_id s \<in> sb_id ` {x \<in> set ss. sb_resolvedEntrantId x = None})
      (\<lambda>s. s\<lparr>sb_resolvedEntrantId := Some e\<rparr>) (slotRows d)"
proof (induction ss arbitrary: d)
  case (Cons s ss)
  then have d1: "propagate e ss (fillSlot e s d) = Inr d'" by (simp only: propagate_Cons_Inr)
  show ?case unfolding Cons.IH [OF d1] fillSlot_tables(1) updWhere_compose
    by (auto simp: updWhere_def)
qed (simp add: updWhere_none)

lemma propagate_agree:
  "propagate e ss d = Inr d' \<Longrightarrow>
   \<forall>s \<in> set ss. sb_resolvedEntrantId s = None \<or> sb_resolvedEntrantId s = Some e"
  by (induction ss arbitrary: d) (auto simp: propagate_Cons_Inr simp del: propagate.simps(2))

lemma propagate_fixtures:
  "propagate e ss d = Inr d' \<Longrightarrow>
   \<exists>P. fixtureRows d' = updWhere P (\<lambda>f. f\<lparr>bf_status := READY\<rparr>) (fixtureRows d) \<and>
     (\<forall>f. P f \<longrightarrow> bf_status f = PENDING_PARTICIPANTS \<and> bf_id f \<in> sb_fixtureId ` set ss)"
proof (induction ss arbitrary: d)
  case Nil
  then show ?case by (intro exI [of _ "\<lambda>_. False"]) (simp add: updWhere_none)
next
  case (Cons s ss)
  then have d1: "propagate e ss (fillSlot e s d) = Inr d'" by (simp only: propagate_Cons_Inr)
  obtain b where fx: "fixtureRows (fillSlot e s d) = updWhere
     (\<lambda>f. b \<and> bf_id f = sb_fixtureId s \<and> bf_status f = PENDING_PARTICIPANTS)
     (\<lambda>f. f\<lparr>bf_status := READY\<rparr>) (fixtureRows d)" using fillSlot_tables(2) by blast
  obtain P where P: "fixtureRows d' = updWhere P (\<lambda>f. f\<lparr>bf_status := READY\<rparr>) (fixtureRows (fillSlot e s d))"
    "\<And>f. P f \<Longrightarrow> bf_status f = PENDING_PARTICIPANTS \<and> bf_id f \<in> sb_fixtureId ` set ss"
    using Cons.IH [OF d1] by blast
  have np: "\<not> P (f\<lparr>bf_status := READY\<rparr>)" for f using P(2) [of "f\<lparr>bf_status := READY\<rparr>"] by auto
  let ?P = "\<lambda>f. (b \<and> bf_id f = sb_fixtureId s \<and> bf_status f = PENDING_PARTICIPANTS) \<or> P f"
  have "fixtureRows d' = updWhere ?P (\<lambda>f. f\<lparr>bf_status := READY\<rparr>) (fixtureRows d)"
    unfolding P(1) fx updWhere_compose using np by (auto simp: updWhere_def)
  moreover have "\<forall>f. ?P f \<longrightarrow> bf_status f = PENDING_PARTICIPANTS \<and> bf_id f \<in> sb_fixtureId ` set (s # ss)"
    using P(2) by auto
  ultimately show ?case by blast
qed

lemma propagate_frame:
  "propagate e ss d = Inr d' \<Longrightarrow> brackets d' = brackets d \<and> matches d' = matches d \<and>
   operations d' = operations d \<and> entrants d' = entrants d \<and>
   map bf_id (fixtureRows d') = map bf_id (fixtureRows d)"
proof (induction ss arbitrary: d)
  case (Cons s ss)
  then have "propagate e ss (fillSlot e s d) = Inr d'" by (simp only: propagate_Cons_Inr)
  from Cons.IH [OF this] show ?case by simp
qed simp

lemma propagate_total:
  assumes "\<forall>s \<in> set ss. sb_resolvedEntrantId s = None \<or> sb_resolvedEntrantId s = Some e"
  shows "\<exists>d'. propagate e ss d = Inr d'"
  using assms by (induction ss arbitrary: d) auto

lemma sourceSlots_ids:
  assumes "distinct (map sb_id (slotRows d))" and "s \<in> set (slotRows d)"
  shows "sb_id s \<in> sb_id ` {x \<in> set (sourceSlots fid d). sb_resolvedEntrantId x = None} \<longleftrightarrow>
    sb_sourceFixtureId s = Some fid \<and> sb_resolvedEntrantId s = None"
  using assms by (auto simp: sourceSlots_def distinct_map inj_on_def image_iff)

lemma updWhere_cong:
  "(\<And>x. x \<in> set xs \<Longrightarrow> p x = q x) \<Longrightarrow> updWhere p f xs = updWhere q f xs"
  by (auto simp: updWhere_def)

lemma find_id:
  assumes "distinct (map key xs)" and "x \<in> set xs"
  shows "List.find (\<lambda>y. key y = key x) xs = Some x"
  using assms by (induction xs) (auto simp: image_iff)

section \<open>Deciding a fixture\<close>

lemma sourceSlots_setFixture [simp]: "sourceSlots fid (setFixture fid' g d) = sourceSlots fid d"
  by (simp add: sourceSlots_def setFixture_def)

lemma setFixture_frame [simp]:
  "brackets (setFixture fid g d) = brackets d" "matches (setFixture fid g d) = matches d"
  "operations (setFixture fid g d) = operations d" "slotRows (setFixture fid g d) = slotRows d"
  by (simp_all add: setFixture_def)

lemma addAudit_frame [simp]:
  "brackets (addAudit a d) = brackets d" "matches (addAudit a d) = matches d"
  "operations (addAudit a d) = operations d" "slotRows (addAudit a d) = slotRows d"
  "fixtureRows (addAudit a d) = fixtureRows d"
  by (simp_all add: addAudit_def)

lemma decide_open:
  assumes "getFixture fid d = Some f" and "bf_winnerEntrantId f = None"
  shows "decide ev fid e wd d = bindR (orThrow (getBracket (bf_bracketId f) d) RecordNotFound) (\<lambda>b.
     bindR (propagate e (sourceSlots fid (setFixture fid (decided e wd) d)) (setFixture fid (decided e wd) d))
     (\<lambda>d2. Inr (\<lparr> dr_fixtureId = fid, dr_winnerEntrantId = e, dr_bracketId = bf_bracketId f \<rparr>,
       addAudit (decisionAudit fid e wd d)
         (if bf_roundNumber f = b_roundCount b then completeBracket ev b e d2 else d2))))"
  unfolding decide_def assms(1) orThrow_simps bindR_simps Let_def assms(2) option.case by (rule refl)

lemma completeBracket_tables:
  "fixtureRows (completeBracket ev b e d) = fixtureRows d" "slotRows (completeBracket ev b e d) = slotRows d"
  "matches (completeBracket ev b e d) = matches d" "operations (completeBracket ev b e d) = operations d"
  "brackets (completeBracket ev b e d) = updWhere (\<lambda>x. b_id x = b_id b) (\<lambda>x. x\<lparr>b_status := B_COMPLETED,
     b_completedAt := Some (appNow ev), b_championEntrantId := Some e\<rparr>) (brackets d)"
  by (simp_all add: completeBracket_def setBracket_def addAudit_def)

lemma decideE:
  assumes "decide ev fid e wd d = Inr (res, d')" and "getFixture fid d = Some f"
    and "bf_winnerEntrantId f = None"
  obtains b d2 where "getBracket (bf_bracketId f) d = Some b"
    and "propagate e (sourceSlots fid d) (setFixture fid (decided e wd) d) = Inr d2"
    and "fixtureRows d' = fixtureRows d2" and "slotRows d' = slotRows d2"
    and "brackets d' = (if bf_roundNumber f = b_roundCount b
          then updWhere (\<lambda>x. b_id x = b_id b) (\<lambda>x. x\<lparr>b_status := B_COMPLETED,
             b_completedAt := Some (appNow ev), b_championEntrantId := Some e\<rparr>) (brackets d)
          else brackets d)"
    and "matches d' = matches d" and "operations d' = operations d" and "dr_winnerEntrantId res = e"
proof -
  from assms(1) [unfolded decide_open [OF assms(2,3)] bindR_eq_Inr orThrow_eq_Inr sourceSlots_setFixture
      sum.inject prod.inject] obtain b d2
    where b: "getBracket (bf_bracketId f) d = Some b"
    and p: "propagate e (sourceSlots fid d) (setFixture fid (decided e wd) d) = Inr d2"
    and r: "res = \<lparr> dr_fixtureId = fid, dr_winnerEntrantId = e, dr_bracketId = bf_bracketId f \<rparr>"
    and d': "d' = addAudit (decisionAudit fid e wd d)
       (if bf_roundNumber f = b_roundCount b then completeBracket ev b e d2 else d2)" by blast
  from propagate_frame [OF p] that [OF b p] show thesis
    unfolding d' r by (simp add: completeBracket_tables)
qed

lemma decide_frame:
  assumes "decide ev fid e wd d = Inr (res, d')"
  shows "matches d' = matches d" "operations d' = operations d"
proof -
  from assms obtain f where f: "getFixture fid d = Some f" by (auto simp: decide_def)
  have "matches d' = matches d \<and> operations d' = operations d"
  proof (cases "bf_winnerEntrantId f")
    case None
    from assms f None show ?thesis by (rule decideE) auto
  next
    case (Some w)
    with assms f show ?thesis by (auto simp: decide_def Let_def split: if_splits)
  qed
  then show "matches d' = matches d" "operations d' = operations d" by auto
qed

lemma decide_fixture:
  assumes dec: "decide ev fid e wd d = Inr (res, d')" and f: "getFixture fid d = Some f"
    and n: "bf_winnerEntrantId f = None" and uniq: "distinct (map bf_id (fixtureRows d))"
  shows "getFixture fid d' = Some (decided e wd f)"
    and "map bf_id (fixtureRows d') = map bf_id (fixtureRows d)"
proof -
  obtain b d2 where p: "propagate e (sourceSlots fid d) (setFixture fid (decided e wd) d) = Inr d2"
    and d': "fixtureRows d' = fixtureRows d2" using dec f n by (rule decideE) blast
  let ?d1 = "setFixture fid (decided e wd) d"
  have ids1: "map bf_id (fixtureRows ?d1) = map bf_id (fixtureRows d)"
    by (simp add: setFixture_def map_updWhere decided_def)
  from propagate_frame [OF p] ids1 show ids: "map bf_id (fixtureRows d') = map bf_id (fixtureRows d)"
    by (simp add: d')
  from f have fm: "f \<in> set (fixtureRows d)" "bf_id f = fid" by (auto simp: getFixture_def dest!: find_SomeD)
  then have m1: "decided e wd f \<in> set (fixtureRows ?d1)" by (auto simp: setFixture_def updWhere_def image_iff)
  obtain P where P: "fixtureRows d2 = updWhere P (\<lambda>f. f\<lparr>bf_status := READY\<rparr>) (fixtureRows ?d1)"
    "\<And>f. P f \<Longrightarrow> bf_status f = PENDING_PARTICIPANTS"
    using propagate_fixtures [OF p] by blast
  have "\<not> P (decided e wd f)" using P(2) [of "decided e wd f"] by (auto simp: decided_def)
  with m1 have "decided e wd f \<in> set (fixtureRows d')" unfolding d' P(1)
    by (auto simp: updWhere_def image_iff intro!: bexI [of _ "decided e wd f"])
  from find_id [OF _ this, of bf_id] ids uniq fm(2) show "getFixture fid d' = Some (decided e wd f)"
    by (simp add: getFixture_def decided_def)
qed

lemma decide_slots:
  assumes dec: "decide ev fid e wd d = Inr (res, d')" and f: "getFixture fid d = Some f"
    and n: "bf_winnerEntrantId f = None" and uniq: "distinct (map sb_id (slotRows d))"
  shows "slotRows d' = updWhere (\<lambda>s. sb_sourceFixtureId s = Some fid \<and> sb_resolvedEntrantId s = None)
      (\<lambda>s. s\<lparr>sb_resolvedEntrantId := Some e\<rparr>) (slotRows d)"
    and "\<And>s. s \<in> set (slotRows d') \<Longrightarrow> sb_sourceFixtureId s = Some fid \<Longrightarrow> sb_resolvedEntrantId s = Some e"
proof -
  obtain d2 where p: "propagate e (sourceSlots fid d) (setFixture fid (decided e wd) d) = Inr d2"
    and d': "slotRows d' = slotRows d2" using dec f n by (rule decideE) blast
  show sl: "slotRows d' = updWhere (\<lambda>s. sb_sourceFixtureId s = Some fid \<and> sb_resolvedEntrantId s = None)
      (\<lambda>s. s\<lparr>sb_resolvedEntrantId := Some e\<rparr>) (slotRows d)"
    unfolding d' propagate_slots [OF p] setFixture_frame
    by (rule updWhere_cong) (rule sourceSlots_ids [OF uniq])
  fix s assume s: "s \<in> set (slotRows d')" "sb_sourceFixtureId s = Some fid"
  then obtain x where x: "x \<in> set (slotRows d)" "s = (if sb_sourceFixtureId x = Some fid \<and>
      sb_resolvedEntrantId x = None then x\<lparr>sb_resolvedEntrantId := Some e\<rparr> else x)"
    unfolding sl by (auto elim: in_set_updWhereE)
  with s(2) have "x \<in> set (sourceSlots fid d)" by (auto simp: sourceSlots_def split: if_splits)
  with propagate_agree [OF p] x s(2) show "sb_resolvedEntrantId s = Some e" by auto
qed

lemma decide_next_fixture:
  assumes dec: "decide ev fid e wd d = Inr (res, d')" and f: "getFixture fid d = Some f"
    and n: "bf_winnerEntrantId f = None" and uniq: "distinct (map bf_id (fixtureRows d))"
    and one: "sourceSlots fid d = [s]" and g: "g \<in> set (fixtureRows d)" "bf_id g = sb_fixtureId s"
      "bf_status g = PENDING_PARTICIPANTS" "bf_id g \<noteq> fid"
  shows "getFixture (bf_id g) d' = Some (if allResolved (bf_id g) d' then g\<lparr>bf_status := READY\<rparr> else g)"
proof -
  let ?d1 = "setFixture fid (decided e wd) d"
  obtain d2 where p: "propagate e (sourceSlots fid d) ?d1 = Inr d2"
    and d': "slotRows d' = slotRows d2" "fixtureRows d' = fixtureRows d2"
    using dec f n by (rule decideE) blast
  from p one have d2: "d2 = fillSlot e s ?d1" by (auto split: if_splits)
  have ids: "map bf_id (fixtureRows d') = map bf_id (fixtureRows d)"
    using decide_fixture(2) [OF dec f n uniq] .
  have g1: "g \<in> set (fixtureRows ?d1)" using g(1,4) by (auto simp: setFixture_def updWhere_def image_iff)
  have ar: "allResolved (sb_fixtureId s) d' =
      allResolved (sb_fixtureId s) (if sb_resolvedEntrantId s = None then setSlot (sb_id s) (Some e) ?d1 else ?d1)"
    using d'(1) by (simp add: allResolved_def slotsOf_def d2 fillSlot_def Let_def)
  have "fixtureRows d' = (if allResolved (sb_fixtureId s) d'
      then updWhere (\<lambda>f. bf_id f = sb_fixtureId s \<and> bf_status f = PENDING_PARTICIPANTS)
             (\<lambda>f. f\<lparr>bf_status := READY\<rparr>) (fixtureRows ?d1) else fixtureRows ?d1)"
    unfolding d'(2) ar d2 fillSlot_def Let_def by (simp add: setSlot_def)
  with g1 g(2,3) have "(if allResolved (bf_id g) d' then g\<lparr>bf_status := READY\<rparr> else g) \<in> set (fixtureRows d')"
    by (auto simp: updWhere_def image_iff intro!: bexI [of _ g])
  from find_id [OF _ this, of bf_id] ids uniq show ?thesis
    by (cases "allResolved (bf_id g) d'") (simp_all add: getFixture_def)
qed

section \<open>Retraction\<close>

lemma clearSlot_slots: "slotRows (clearSlot s d) = updWhere (\<lambda>x. sb_id x = sb_id s)
    (\<lambda>x. x\<lparr>sb_resolvedEntrantId := None\<rparr>) (slotRows d)"
  by (simp add: clearSlot_def Let_def setSlot_def setFixture_def)

lemma clearSlot_fixtures:
  assumes "x \<in> set (slotRows d)" and "sb_id x = sb_id s" and "sb_fixtureId x = sb_fixtureId s"
  shows "fixtureRows (clearSlot s d) = updWhere (\<lambda>f. bf_id f = sb_fixtureId s)
    (\<lambda>f. f\<lparr>bf_status := PENDING_PARTICIPANTS\<rparr>) (fixtureRows d)"
proof -
  let ?d1 = "setSlot (sb_id s) None d"
  have "x\<lparr>sb_resolvedEntrantId := None\<rparr> \<in> set (slotRows ?d1)"
    using assms(1,2) by (auto simp: setSlot_def updWhere_def image_iff intro!: bexI [of _ x])
  then have "\<not> allResolved (sb_fixtureId s) ?d1"
    using assms(3) by (force simp: allResolved_def slotsOf_def list_all_iff)
  then show ?thesis by (simp add: clearSlot_def Let_def setFixture_def setSlot_def)
qed

lemma clearSlot_frame [simp]:
  "brackets (clearSlot s d) = brackets d" "matches (clearSlot s d) = matches d"
  "operations (clearSlot s d) = operations d"
  by (simp_all add: clearSlot_def Let_def setFixture_def setSlot_def)

lemma fold_clearSlot_frame [simp]:
  "brackets (fold clearSlot ss d) = brackets d" "matches (fold clearSlot ss d) = matches d"
  "operations (fold clearSlot ss d) = operations d"
  by (induction ss arbitrary: d) simp_all

lemma fold_clearSlot:
  assumes "\<forall>s \<in> set ss. \<exists>x \<in> set (slotRows d). sb_id x = sb_id s \<and> sb_fixtureId x = sb_fixtureId s"
  shows "slotRows (fold clearSlot ss d) = updWhere (\<lambda>x. sb_id x \<in> sb_id ` set ss)
      (\<lambda>x. x\<lparr>sb_resolvedEntrantId := None\<rparr>) (slotRows d) \<and>
    fixtureRows (fold clearSlot ss d) = updWhere (\<lambda>f. bf_id f \<in> sb_fixtureId ` set ss)
      (\<lambda>f. f\<lparr>bf_status := PENDING_PARTICIPANTS\<rparr>) (fixtureRows d)"
  using assms
proof (induction ss arbitrary: d)
  case (Cons s ss)
  from Cons.prems obtain x where x: "x \<in> set (slotRows d)" "sb_id x = sb_id s" "sb_fixtureId x = sb_fixtureId s"
    by auto
  have "\<forall>t \<in> set ss. \<exists>y \<in> set (slotRows (clearSlot s d)). sb_id y = sb_id t \<and> sb_fixtureId y = sb_fixtureId t"
  proof
    fix t assume "t \<in> set ss"
    with Cons.prems obtain y where y: "y \<in> set (slotRows d)" "sb_id y = sb_id t" "sb_fixtureId y = sb_fixtureId t"
      by auto
    then show "\<exists>y \<in> set (slotRows (clearSlot s d)). sb_id y = sb_id t \<and> sb_fixtureId y = sb_fixtureId t"
      unfolding clearSlot_slots updWhere_def
      by (intro bexI [of _ "if sb_id y = sb_id s then y\<lparr>sb_resolvedEntrantId := None\<rparr> else y"]) auto
  qed
  from Cons.IH [OF this] show ?case
    unfolding clearSlot_slots clearSlot_fixtures [OF x]
    by (auto simp: updWhere_compose updWhere_def)
qed (simp add: updWhere_none)

definition undecidedFixture :: "uuid \<Rightarrow> fixture_row \<Rightarrow> bracket_row \<Rightarrow> db \<Rightarrow> bool" where
  "undecidedFixture fid f b d \<longleftrightarrow>
     getFixture fid d = Some f \<and> bf_winnerEntrantId f = None \<and> bf_status f = MATCH_PREPARED \<and>
     bf_winnerDecision f = JNull \<and> getBracket (bf_bracketId f) d = Some b \<and> b_status b = B_ACTIVE \<and>
     b_completedAt b = None \<and> b_championEntrantId b = None \<and>
     distinct (map bf_id (fixtureRows d)) \<and> distinct (map sb_id (slotRows d)) \<and>
     distinct (map b_id (brackets d)) \<and>
     (\<forall>s \<in> set (sourceSlots fid d). sb_resolvedEntrantId s = None \<and> sb_fixtureId s \<noteq> fid \<and>
        fixtureMatch (sb_fixtureId s) d = None) \<and>
     (\<forall>g \<in> set (fixtureRows d). bf_id g \<in> sb_fixtureId ` set (sourceSlots fid d) \<longrightarrow>
        bf_status g = PENDING_PARTICIPANTS)"

definition retracted :: "fixture_row \<Rightarrow> fixture_row" where
  "retracted f = f\<lparr>bf_winnerEntrantId := None, bf_winnerDecision := JNull, bf_status := MATCH_PREPARED\<rparr>"

lemma retract_decided:
  assumes "getMatch mid d = Some m" and "m_bracketFixtureId m = Some fid" and "getFixture fid d = Some f"
    and "getBracket (bf_bracketId f) d = Some b" and "bf_winnerEntrantId f \<noteq> None"
    and "\<forall>s \<in> set (sourceSlots fid d). fixtureMatch (sb_fixtureId s) d = None"
  obtains d'' where "retractFinishedMatch mid sid aid reason d = Inr d''"
    and "fixtureRows d'' = fixtureRows (fold clearSlot (sourceSlots fid d) (setFixture fid retracted d))"
    and "slotRows d'' = slotRows (fold clearSlot (sourceSlots fid d) (setFixture fid retracted d))"
    and "brackets d'' = (if bf_roundNumber f = b_roundCount b then updWhere (\<lambda>x. b_id x = bf_bracketId f)
           (\<lambda>x. x\<lparr>b_status := B_ACTIVE, b_completedAt := None, b_championEntrantId := None\<rparr>) (brackets d)
           else brackets d)"
proof -
  have r: "setFixture fid (\<lambda>x. x\<lparr>bf_winnerEntrantId := None, bf_winnerDecision := JNull,
      bf_status := MATCH_PREPARED\<rparr>) d = setFixture fid retracted d"
    by (simp add: setFixture_def retracted_def [abs_def])
  have ne: "\<not> (\<exists>s \<in> set (sourceSlots fid d). fixtureMatch (sb_fixtureId s) d \<noteq> None)"
    and w: "\<not> (bf_winnerEntrantId f = None \<and> bf_status f \<noteq> AWAITING_WINNER)" using assms(5,6) by auto
  let ?d2 = "fold clearSlot (sourceSlots fid d) (setFixture fid retracted d)"
  let ?d3 = "if bf_roundNumber f = b_roundCount b
     then setBracket (bf_bracketId f) (\<lambda>x. x\<lparr>b_status := B_ACTIVE, b_completedAt := None,
       b_championEntrantId := None\<rparr>) ?d2 else ?d2"
  obtain a where "retractFinishedMatch mid sid aid reason d = Inr (addAudit a ?d3)"
    unfolding retractFinishedMatch_def assms(1-4) orThrow_simps bindR_simps option.case Let_def r
      if_not_P [OF ne] if_not_P [OF w] by blast
  then show thesis by (rule that) (simp_all add: setBracket_def)
qed

lemma find_key_SomeD: "List.find (\<lambda>x. key x = k) xs = Some y \<Longrightarrow> y \<in> set xs \<and> key y = k"
  by (auto dest: find_SomeD)

lemma decided_simps [simp]:
  "bf_roundNumber (decided e wd f) = bf_roundNumber f" "bf_bracketId (decided e wd f) = bf_bracketId f"
  "bf_id (decided e wd f) = bf_id f" "bf_winnerEntrantId (decided e wd f) = Some e"
  "bf_status (decided e wd f) = FX_COMPLETED"
  by (simp_all add: decided_def)

lemma undecidedD:
  assumes "undecidedFixture fid f b d"
  shows "getFixture fid d = Some f" "bf_winnerEntrantId f = None" "getBracket (bf_bracketId f) d = Some b"
    "distinct (map bf_id (fixtureRows d))" "distinct (map sb_id (slotRows d))" "distinct (map b_id (brackets d))"
    "f \<in> set (fixtureRows d)" "bf_id f = fid" "b \<in> set (brackets d)" "b_id b = bf_bracketId f"
    "\<And>s. s \<in> set (sourceSlots fid d) \<Longrightarrow> sb_resolvedEntrantId s = None"
    "fid \<notin> sb_fixtureId ` set (sourceSlots fid d)"
    "\<And>g. g \<in> set (fixtureRows d) \<Longrightarrow> bf_id g \<in> sb_fixtureId ` set (sourceSlots fid d) \<Longrightarrow>
       bf_status g = PENDING_PARTICIPANTS"
    "retracted (decided e wd f) = f"
    "b\<lparr>b_status := B_ACTIVE, b_completedAt := None, b_championEntrantId := None\<rparr> = b"
  using assms find_key_SomeD [of bf_id fid "fixtureRows d" f]
    find_key_SomeD [of b_id "bf_bracketId f" "brackets d" b]
  by (auto simp: undecidedFixture_def getFixture_def getBracket_def retracted_def decided_def)

lemma sourceSlots_filled:
  assumes "\<And>s. s \<in> set (sourceSlots fid d) \<Longrightarrow> sb_resolvedEntrantId s = None"
    and "slotRows d' = updWhere (\<lambda>s. sb_sourceFixtureId s = Some fid \<and> sb_resolvedEntrantId s = None)
      (\<lambda>s. s\<lparr>sb_resolvedEntrantId := Some e\<rparr>) (slotRows d)"
  shows "sourceSlots fid d' = map (\<lambda>s. s\<lparr>sb_resolvedEntrantId := Some e\<rparr>) (sourceSlots fid d)"
proof -
  have "filter q (updWhere (\<lambda>s. q s \<and> r s) g xs) = map g (filter q xs)"
    if "\<And>s. s \<in> set (filter q xs) \<Longrightarrow> r s" "\<And>s. q (g s) = q s" for q r g and xs :: "slot_row list"
    using that by (induction xs) auto
  then show ?thesis using assms(1) unfolding sourceSlots_def assms(2) by simp
qed

lemma slots_restored:
  assumes us: "distinct (map sb_id (slotRows d))"
    and un: "\<And>s. s \<in> set (sourceSlots fid d) \<Longrightarrow> sb_resolvedEntrantId s = None"
  shows "updWhere (\<lambda>x. sb_id x \<in> sb_id ` set (sourceSlots fid d)) (\<lambda>x. x\<lparr>sb_resolvedEntrantId := None\<rparr>)
     (updWhere (\<lambda>s. sb_sourceFixtureId s = Some fid \<and> sb_resolvedEntrantId s = None)
        (\<lambda>s. s\<lparr>sb_resolvedEntrantId := Some e\<rparr>) (slotRows d)) = slotRows d"
proof (rule updWhere_updWhere_id)
  fix x assume x: "x \<in> set (slotRows d)"
  { assume "sb_sourceFixtureId x = Some fid \<and> sb_resolvedEntrantId x = None"
    with x have "x \<in> set (sourceSlots fid d)" "x\<lparr>sb_resolvedEntrantId := None\<rparr> = x"
      by (auto simp: sourceSlots_def)
    then show "sb_id (x\<lparr>sb_resolvedEntrantId := Some e\<rparr>) \<in> sb_id ` set (sourceSlots fid d) \<and>
        x\<lparr>sb_resolvedEntrantId := Some e\<rparr>\<lparr>sb_resolvedEntrantId := None\<rparr> = x" by simp }
  { assume "\<not> (sb_sourceFixtureId x = Some fid \<and> sb_resolvedEntrantId x = None)"
    with x un have "x \<notin> set (sourceSlots fid d)" by (auto simp: sourceSlots_def)
    moreover have "inj_on sb_id (set (slotRows d))" using us by (simp add: distinct_map)
    ultimately show "sb_id x \<notin> sb_id ` set (sourceSlots fid d)"
      using x by (auto simp: sourceSlots_def inj_on_def) }
qed

lemma fixtures_restored:
  assumes u: "undecidedFixture fid f b d"
    and P: "\<And>g. P g \<Longrightarrow> bf_status g = PENDING_PARTICIPANTS \<and> bf_id g \<in> sb_fixtureId ` set (sourceSlots fid d)"
  shows "updWhere (\<lambda>g. bf_id g \<in> sb_fixtureId ` set (sourceSlots fid d))
      (\<lambda>g. g\<lparr>bf_status := PENDING_PARTICIPANTS\<rparr>)
    (updWhere (\<lambda>g. bf_id g = fid) retracted (updWhere P (\<lambda>g. g\<lparr>bf_status := READY\<rparr>)
      (updWhere (\<lambda>g. bf_id g = fid) (decided e wd) (fixtureRows d)))) = fixtureRows d"
  unfolding updWhere_def map_map o_def
proof (rule map_idI)
  fix g assume g: "g \<in> set (fixtureRows d)"
  let ?fed = "sb_fixtureId ` set (sourceSlots fid d)"
  let ?g1 = "if bf_id g = fid then decided e wd g else g"
  let ?g2 = "if P ?g1 then ?g1\<lparr>bf_status := READY\<rparr> else ?g1"
  let ?g3 = "if bf_id ?g2 = fid then retracted ?g2 else ?g2"
  show "(if bf_id ?g3 \<in> ?fed then ?g3\<lparr>bf_status := PENDING_PARTICIPANTS\<rparr> else ?g3) = g"
  proof (cases "bf_id g = fid")
    case True
    with g undecidedD(4,7,8) [OF u] have gf: "g = f" by (auto simp: distinct_map inj_on_def)
    have "\<not> P (decided e wd f)" using P [of "decided e wd f"] by auto
    then show ?thesis using True gf undecidedD(12) [OF u] undecidedD(14) [OF u, of e wd] by simp
  next
    case False
    have keep: "h\<lparr>bf_status := PENDING_PARTICIPANTS\<rparr> = g"
      if "h = g \<or> h = g\<lparr>bf_status := READY\<rparr>" "bf_id g \<in> ?fed" for h
      using undecidedD(13) [OF u g that(2)] that(1) by auto
    show ?thesis
    proof (cases "P g")
      case True
      with P have "bf_id g \<in> ?fed" by blast
      with True False keep show ?thesis by simp
    next
      case False
      then show ?thesis using \<open>bf_id g \<noteq> fid\<close> keep by simp
    qed
  qed
qed

lemma brackets_restored:
  assumes u: "undecidedFixture fid f b d"
  shows "updWhere (\<lambda>x. b_id x = bf_bracketId f)
      (\<lambda>x. x\<lparr>b_status := B_ACTIVE, b_completedAt := None, b_championEntrantId := None\<rparr>)
    (updWhere (\<lambda>x. b_id x = b_id b) (\<lambda>x. x\<lparr>b_status := B_COMPLETED, b_completedAt := Some t,
       b_championEntrantId := Some e\<rparr>) (brackets d)) = brackets d"
proof (rule updWhere_updWhere_id)
  fix x assume x: "x \<in> set (brackets d)"
  { assume "b_id x = b_id b"
    with x undecidedD(6,9) [OF u] have "x = b" by (auto simp: distinct_map inj_on_def)
    with undecidedD(10,15) [OF u] show "b_id (x\<lparr>b_status := B_COMPLETED, b_completedAt := Some t,
         b_championEntrantId := Some e\<rparr>) = bf_bracketId f \<and>
       x\<lparr>b_status := B_COMPLETED, b_completedAt := Some t, b_championEntrantId := Some e\<rparr>
         \<lparr>b_status := B_ACTIVE, b_completedAt := None, b_championEntrantId := None\<rparr> = x"
      by simp }
  { assume "b_id x \<noteq> b_id b" then show "b_id x \<noteq> bf_bracketId f" using undecidedD(10) [OF u] by simp }
qed

lemma decide_bracket:
  assumes dec: "decide ev fid e wd d = Inr (res, d')" and u: "undecidedFixture fid f b d"
  obtains b2 where "getBracket (bf_bracketId f) d' = Some b2" and "b_roundCount b2 = b_roundCount b"
    and "brackets d' = (if bf_roundNumber f = b_roundCount b
          then updWhere (\<lambda>x. b_id x = b_id b) (\<lambda>x. x\<lparr>b_status := B_COMPLETED,
             b_completedAt := Some (appNow ev), b_championEntrantId := Some e\<rparr>) (brackets d)
          else brackets d)"
proof -
  note U = undecidedD [OF u]
  have br: "brackets d' = (if bf_roundNumber f = b_roundCount b
          then updWhere (\<lambda>x. b_id x = b_id b) (\<lambda>x. x\<lparr>b_status := B_COMPLETED,
             b_completedAt := Some (appNow ev), b_championEntrantId := Some e\<rparr>) (brackets d)
          else brackets d)"
    using dec U(1,2) by (rule decideE) (use U(3) in auto)
  let ?b2 = "if bf_roundNumber f = b_roundCount b then b\<lparr>b_status := B_COMPLETED,
             b_completedAt := Some (appNow ev), b_championEntrantId := Some e\<rparr> else b"
  have "?b2 \<in> set (brackets d')" using U(9) unfolding br
    by (auto simp: updWhere_def image_iff intro!: bexI [of _ b])
  moreover have "map b_id (brackets d') = map b_id (brackets d)" unfolding br by (simp add: map_updWhere)
  ultimately have "getBracket (b_id ?b2) d' = Some ?b2"
    using find_id [of b_id "brackets d'" ?b2] U(6) by (simp only: getBracket_def)
  then have "getBracket (bf_bracketId f) d' = Some ?b2" using U(10) by (simp split: if_splits)
  then show thesis by (rule that) (simp_all add: br)
qed

lemma retract_undoes_decide:
  assumes dec: "decide ev fid e wd d = Inr (res, d')" and u: "undecidedFixture fid f b d"
    and m: "getMatch mid d = Some m" "m_bracketFixtureId m = Some fid"
  shows "\<exists>d''. retractFinishedMatch mid sid aid reason d' = Inr d'' \<and> fixtureRows d'' = fixtureRows d \<and>
    slotRows d'' = slotRows d \<and> brackets d'' = brackets d"
proof -
  note U = undecidedD [OF u]
  note sl = decide_slots(1) [OF dec U(1,2,5)]
  have src: "sourceSlots fid d' = map (\<lambda>s. s\<lparr>sb_resolvedEntrantId := Some e\<rparr>) (sourceSlots fid d)"
    by (rule sourceSlots_filled [OF U(11) sl])
  obtain d2 where p: "propagate e (sourceSlots fid d) (setFixture fid (decided e wd) d) = Inr d2"
    and d2: "fixtureRows d' = fixtureRows d2" and mt: "matches d' = matches d"
    using dec U(1,2) by (rule decideE) blast
  obtain b2 where gb: "getBracket (bf_bracketId f) d' = Some b2" and rc: "b_roundCount b2 = b_roundCount b"
    and br: "brackets d' = (if bf_roundNumber f = b_roundCount b
          then updWhere (\<lambda>x. b_id x = b_id b) (\<lambda>x. x\<lparr>b_status := B_COMPLETED,
             b_completedAt := Some (appNow ev), b_championEntrantId := Some e\<rparr>) (brackets d)
          else brackets d)" using dec u by (rule decide_bracket)
  have ids: "sb_fixtureId ` set (sourceSlots fid d') = sb_fixtureId ` set (sourceSlots fid d)"
    "sb_id ` set (sourceSlots fid d') = sb_id ` set (sourceSlots fid d)"
    unfolding src by (simp_all add: image_image)
  have nm: "\<forall>s \<in> set (sourceSlots fid d'). fixtureMatch (sb_fixtureId s) d' = None"
    using u mt unfolding src by (auto simp: undecidedFixture_def fixtureMatch_def)
  have gm: "getMatch mid d' = Some m" using m(1) mt by (simp add: getMatch_def)
  have gb': "getBracket (bf_bracketId (decided e wd f)) d' = Some b2" using gb by simp
  have w: "bf_winnerEntrantId (decided e wd f) \<noteq> None" by simp
  obtain d'' where r: "retractFinishedMatch mid sid aid reason d' = Inr d''"
    and fr: "fixtureRows d'' = fixtureRows (fold clearSlot (sourceSlots fid d') (setFixture fid retracted d'))"
    and sr: "slotRows d'' = slotRows (fold clearSlot (sourceSlots fid d') (setFixture fid retracted d'))"
    and brr: "brackets d'' = (if bf_roundNumber (decided e wd f) = b_roundCount b2
           then updWhere (\<lambda>x. b_id x = bf_bracketId (decided e wd f))
           (\<lambda>x. x\<lparr>b_status := B_ACTIVE, b_completedAt := None, b_championEntrantId := None\<rparr>) (brackets d')
           else brackets d')"
    by (rule retract_decided [OF gm m(2) decide_fixture(1) [OF dec U(1,2,4)] gb' w nm])
  have "\<forall>s \<in> set (sourceSlots fid d'). \<exists>x \<in> set (slotRows (setFixture fid retracted d')).
      sb_id x = sb_id s \<and> sb_fixtureId x = sb_fixtureId s" by (auto simp: sourceSlots_def)
  note fc = fold_clearSlot [OF this]
  have "slotRows d'' = slotRows d"
    unfolding sr fc [THEN conjunct1] setFixture_frame ids sl by (rule slots_restored [OF U(5,11)])
  moreover obtain P where P: "fixtureRows d2 = updWhere P (\<lambda>f. f\<lparr>bf_status := READY\<rparr>)
        (fixtureRows (setFixture fid (decided e wd) d))"
      "\<And>f. P f \<Longrightarrow> bf_status f = PENDING_PARTICIPANTS \<and> bf_id f \<in> sb_fixtureId ` set (sourceSlots fid d)"
    using propagate_fixtures [OF p] by blast
  have "fixtureRows d'' = fixtureRows d"
    unfolding fr fc [THEN conjunct2] ids
    using fixtures_restored [OF u P(2), where e = e and wd = wd] by (simp add: setFixture_def d2 P(1))
  moreover have "brackets d'' = brackets d"
    using brackets_restored [OF u] by (simp add: brr rc br)
  ultimately show ?thesis using r by blast
qed

section \<open>Finished matches and manual decisions\<close>

lemma processFinished_cases:
  assumes "processFinishedMatch ev mid c d = Inr d'" and "getMatch mid d = Some m"
  obtains "d' = d" | fid f where "m_bracketFixtureId m = Some fid" and "getFixture fid d = Some f"
      and "setFixture fid (\<lambda>x. x\<lparr>bf_status := AWAITING_WINNER, bf_winnerDecision :=
        JObj [(''decisionType'', JStr ''RULES_TIE''), (''scoreSnapshot'', scoreSnapshot ev mid d)]\<rparr>) d = d'"
    | fid f e wd r where "m_bracketFixtureId m = Some fid" and "getFixture fid d = Some f"
      and "bf_winnerEntrantId f = None" and "decide ev fid e wd d = Inr (r, d')"
  using assms(1) unfolding processFinishedMatch_def assms(2) orThrow_simps bindR_simps Let_def
  by (elim inr_elims) auto

lemma processFinished_frame:
  assumes "processFinishedMatch ev mid c d = Inr d'"
  shows "matches d' = matches d \<and> operations d' = operations d"
proof -
  from assms obtain m where m: "getMatch mid d = Some m" by (auto simp: processFinishedMatch_def)
  from assms m show ?thesis by (rule processFinished_cases) (auto dest: decide_frame)
qed

lemma retract_frame:
  assumes "retractFinishedMatch mid sid aid reason d = Inr d'"
  shows "matches d' = matches d \<and> operations d' = operations d"
  using assms unfolding retractFinishedMatch_def Let_def
  by (elim inr_elims) (auto simp: setBracket_def)

lemma processFinished_settled:
  assumes "getMatch mid d = Some m" and "m_bracketFixtureId m = Some fid" and "getFixture fid d = Some f"
    and "bf_winnerEntrantId f \<noteq> None \<or> bf_status f = AWAITING_WINNER"
    and "\<exists>rules. rulesForMatch mid d = Inr rules"
  shows "processFinishedMatch ev mid c d = Inr d"
proof -
  obtain rules where "rulesForMatch mid d = Inr rules" using assms(5) by blast
  then obtain w where w: "(case c of Some c \<Rightarrow> Inr (Some c)
      | None \<Rightarrow> bindR (rulesForMatch mid d) (\<lambda>rules.
          Inr (sr_determineWinner rules (effectiveTotals mid d)))) = Inr w" by (cases c) auto
  show ?thesis
    unfolding processFinishedMatch_def assms(1-3) orThrow_simps bindR_simps Let_def w option.case
      if_P [OF assms(4)] by simp
qed

lemma getFixture_setFixture:
  assumes "\<And>x. bf_id (g x) = bf_id x"
  shows "getFixture fid (setFixture fid g d) = map_option g (getFixture fid d)"
proof -
  have "List.find (\<lambda>f. bf_id f = fid) (updWhere (\<lambda>x. bf_id x = fid) g xs) =
     map_option g (List.find (\<lambda>f. bf_id f = fid) xs)" for xs
    using assms by (induction xs) auto
  then show ?thesis by (simp add: getFixture_def setFixture_def)
qed

section \<open>Properties\<close>


definition sampleFixture :: "uuid \<Rightarrow> nat \<Rightarrow> fixture_status \<Rightarrow> fixture_row" where
  "sampleFixture i n st = \<lparr> bf_id = i, bf_bracketId = 1, bf_roundNumber = n, bf_position = 1,
     bf_displayReference = ''R'', bf_status = st,
     bf_winnerEntrantId = None, bf_winnerDecision = JNull \<rparr>"

definition sampleSlot :: "uuid \<Rightarrow> uuid \<Rightarrow> side \<Rightarrow> uuid option \<Rightarrow> uuid option \<Rightarrow> slot_row" where
  "sampleSlot i fid c source resolved = \<lparr> sb_id = i, sb_fixtureId = fid, sb_side = c,
     sb_directEntrantId = (if source = None then resolved else None), sb_sourceFixtureId = source, sb_resolvedEntrantId = resolved \<rparr>"

definition sampleEntrant :: "uuid \<Rightarrow> uuid \<Rightarrow> nat \<Rightarrow> side \<Rightarrow> entrant_row" where
  "sampleEntrant i a r c = \<lparr> e_id = i, e_bracketId = 1, e_athleteId = a, e_snapshotName = ''A'',
     e_snapshotBirthYear = 2000, e_snapshotOrganization = None, e_snapshotImagePath = None,
     e_initialRoundNumber = r, e_initialFixturePosition = 1, e_initialSide = c, e_receivedBye = (r = 2) \<rparr>"

definition bracketDb :: db where
  "bracketDb = waitingDb\<lparr> matches := [sampleMatch\<lparr> m_bracketFixtureId := Some 1 \<rparr>],
     brackets := [\<lparr> b_id = 1, b_tournamentId = 1, b_weightClassId = 1, b_status = B_ACTIVE,
       b_athleteCount = 3, b_bracketSize = 4, b_roundCount = 2, b_confirmationKey = ''k'',
       b_confirmationFingerprint = ''f'', b_confirmedByUserId = None, b_completedAt = None, b_cancelledAt = None, b_championEntrantId = None \<rparr>],
     entrants := [sampleEntrant 1 21 1 RED, sampleEntrant 2 22 1 BLUE, sampleEntrant 3 23 2 BLUE],
     fixtureRows := [sampleFixture 1 1 MATCH_PREPARED, sampleFixture 2 2 PENDING_PARTICIPANTS],
     slotRows := [sampleSlot 1 1 RED None (Some 1), sampleSlot 2 1 BLUE None (Some 2),
       sampleSlot 3 2 RED (Some 1) None, sampleSlot 4 2 BLUE None (Some 3)] \<rparr>"

definition rulesDecision :: winner_decision where
  "rulesDecision = \<lparr> wd_decisionType = RULES, wd_actorId = None, wd_reason = None, wd_scoreSnapshot = None \<rparr>"

lemmas bracket_sample_defs = sampleFixture_def sampleSlot_def sampleEntrant_def bracketDb_def rulesDecision_def


text \<open>C13: retracting the result of a match just decided from its prepared state, while no next
  match is prepared, restores the fixtures, the slots and the brackets to what they were
  before the decision.\<close>

theorem retract_restores_bracket:
  assumes "decide ev fid e wd d = Inr (res, d')" and "undecidedFixture fid f b d"
    and "getMatch mid d = Some m" and "m_bracketFixtureId m = Some fid"
  shows "\<exists>d''. retractFinishedMatch mid sid aid reason d' = Inr d'' \<and>
    fixtureRows d'' = fixtureRows d \<and> slotRows d'' = slotRows d \<and> brackets d'' = brackets d"
  by (rule retract_undoes_decide [OF assms])

theorem retract_restores_bracket_witness:
  "\<exists>res d' d''. decide (at 5) 1 2 rulesDecision bracketDb = Inr (res, d') \<and>
     retractFinishedMatch 1 (Some 4) None ''ROUND_RESET'' d' = Inr d'' \<and> slotRows d'' = slotRows bracketDb"
proof -
  have "\<not> isl (decide (at 5) 1 2 rulesDecision bracketDb)" by code_simp
  then obtain res d' where r: "decide (at 5) 1 2 rulesDecision bracketDb = Inr (res, d')"
    by (cases "decide (at 5) 1 2 rulesDecision bracketDb") auto
  have u: "undecidedFixture 1 (sampleFixture 1 1 MATCH_PREPARED) (hd (brackets bracketDb)) bracketDb"
    by (simp add: undecidedFixture_def getFixture_def getBracket_def sourceSlots_def fixtureMatch_def
        bracket_sample_defs sample_defs)
  have m: "getMatch 1 bracketDb = Some (hd (matches bracketDb))"
    "m_bracketFixtureId (hd (matches bracketDb)) = Some 1"
    by (simp_all add: getMatch_def bracketDb_def sampleMatch_def)
  from retract_restores_bracket [OF r u m] r show ?thesis by blast
qed

text \<open>Processing a finished match is idempotent: once it has settled the match's fixture,
  processing the match again, with any clock and any published winner, changes nothing.\<close>

theorem process_finished_match_idempotent:
  assumes "processFinishedMatch ev mid c d = Inr d'" and "d' \<noteq> d"
    and "distinct (map bf_id (fixtureRows d))" and "\<exists>rules. rulesForMatch mid d' = Inr rules"
  shows "processFinishedMatch ev' mid c' d' = Inr d'"
proof -
  from assms(1) obtain m where m: "getMatch mid d = Some m" by (auto simp: processFinishedMatch_def)
  have m': "getMatch mid d' = Some m" using m processFinished_frame [OF assms(1)] by (simp add: getMatch_def)
  from assms(1) m show ?thesis
  proof (cases rule: processFinished_cases)
    case 1
    with assms(2) show ?thesis by simp
  next
    case (2 fid f)
    then have "\<exists>f'. getFixture fid d' = Some f' \<and> bf_status f' = AWAITING_WINNER"
      using getFixture_setFixture [of "\<lambda>x. x\<lparr>bf_status := AWAITING_WINNER, bf_winnerDecision :=
        JObj [(''decisionType'', JStr ''RULES_TIE''), (''scoreSnapshot'', scoreSnapshot ev mid d)]\<rparr>" fid d]
      by auto
    with processFinished_settled [OF m' 2(1) _ _ assms(4)] show ?thesis by blast
  next
    case (3 fid f e wd r)
    from decide_fixture(1) [OF 3(4,2,3) assms(3)] processFinished_settled [OF m' 3(1) _ _ assms(4)]
    show ?thesis by simp
  qed
qed

theorem process_finished_match_idempotent_witness:
  "\<exists>d'. processFinishedMatch (at 5) 1 (Some BLUE)
       (bracketDb\<lparr>matches := [sampleMatch\<lparr>m_bracketFixtureId := Some 1, m_status := FINISHED\<rparr>]\<rparr>) = Inr d' \<and>
     processFinishedMatch (at 9) 1 None d' = Inr d'"
proof -
  let ?d = "bracketDb\<lparr>matches := [sampleMatch\<lparr>m_bracketFixtureId := Some 1, m_status := FINISHED\<rparr>]\<rparr>"
  have e: "\<not> isl (processFinishedMatch (at 5) 1 (Some BLUE) ?d)"
    "map sb_resolvedEntrantId (slotRows (projr (processFinishedMatch (at 5) 1 (Some BLUE) ?d))) =
       [Some 1, Some 2, Some 2, Some 3]"
    "\<not> isl (rulesForMatch 1 (projr (processFinishedMatch (at 5) 1 (Some BLUE) ?d)))" by code_simp+
  then obtain d' where r: "processFinishedMatch (at 5) 1 (Some BLUE) ?d = Inr d'"
    by (cases "processFinishedMatch (at 5) 1 (Some BLUE) ?d") auto
  have "map sb_resolvedEntrantId (slotRows ?d) = [Some 1, Some 2, None, Some 3]"
    by (simp add: bracket_sample_defs)
  with e(2) r have ne: "d' \<noteq> ?d" by auto
  have u: "distinct (map bf_id (fixtureRows ?d))" by (simp add: bracket_sample_defs)
  have ru: "\<exists>rules. rulesForMatch 1 d' = Inr rules" using e(3) r by (cases "rulesForMatch 1 d'") auto
  from process_finished_match_idempotent [OF r ne u ru, of "at 9" None] r show ?thesis by blast
qed

text \<open>C30: a manual decision succeeds only for one of the two distinct resolved participants of
  an eligible fixture (a tied finished match or a ready fixture without a match) or as a
  replay of the same request; a replay returns the stored response and changes nothing, and
  a key that was used for another request is rejected.\<close>

theorem manual_decision_participant_or_replay:
  assumes "manuallyDecide sha256 ev fid e actor reason key t d = Inr (res, d')"
  shows "case List.find (\<lambda>i. bi_key i = key) (idempotencyRows d) of
      Some row \<Rightarrow> bi_requestFingerprint row = manualDecisionFingerprint sha256 fid e reason t \<and>
        res = bi_response row \<and> d' = d
    | None \<Rightarrow> (\<exists>f. getFixture fid d = Some f \<and> (isTieDecision t f d \<or> isWithdrawalDecision t f d)) \<and>
        Some e \<in> sb_resolvedEntrantId ` set (slotsOf fid d) \<and> dr_winnerEntrantId res = e \<and>
        (\<exists>row \<in> set (idempotencyRows d'). bi_key row = key \<and> bi_response row = res \<and>
           bi_requestFingerprint row = manualDecisionFingerprint sha256 fid e reason t)"
proof (cases "List.find (\<lambda>i. bi_key i = key) (idempotencyRows d)")
  case (Some row)
  with assms show ?thesis by (auto simp: manuallyDecide_def Let_def split: if_splits)
next
  case None
  from assms None obtain f wd d1 where f: "getFixture fid d = Some f"
    and el: "isTieDecision t f d \<or> isWithdrawalDecision t f d"
    and e: "e \<in> set (List.map_filter sb_resolvedEntrantId (slotsOf fid d))"
    and dec: "decide ev fid e wd d = Inr (res, d1)"
    and d': "d' = d1\<lparr>idempotencyRows := idempotencyRows d1 @
              [\<lparr> bi_fixtureId = fid, bi_key = key, bi_entrantId = e,
                 bi_requestFingerprint = manualDecisionFingerprint sha256 fid e reason t,
                 bi_response = res \<rparr>]\<rparr>"
    unfolding manuallyDecide_def Let_def None option.case by (elim inr_elims) auto
  have "dr_winnerEntrantId res = e"
    using dec unfolding decide_def Let_def by (elim inr_elims) auto
  moreover have "Some e \<in> sb_resolvedEntrantId ` set (slotsOf fid d)"
    using e by (force simp: List.map_filter_def)
  ultimately show ?thesis using None f el d' by auto
qed

theorem manual_decision_participant_or_replay_witness:
  "\<exists>res d'. manuallyDecide (\<lambda>_. ''h'') (at 5) 1 2 7 ''injury'' ''k1'' WITHDRAWAL_OR_INJURY
       (bracketDb\<lparr>matches := [], fixtureRows := [sampleFixture 1 1 READY, sampleFixture 2 2 PENDING_PARTICIPANTS]\<rparr>)
     = Inr (res, d') \<and> dr_winnerEntrantId res = 2"
proof -
  let ?d = "bracketDb\<lparr>matches := [], fixtureRows := [sampleFixture 1 1 READY, sampleFixture 2 2 PENDING_PARTICIPANTS]\<rparr>"
  let ?r = "manuallyDecide (\<lambda>_. ''h'') (at 5) 1 2 7 ''injury'' ''k1'' WITHDRAWAL_OR_INJURY ?d"
  have "\<not> isl ?r" by code_simp
  then obtain res d' where r: "?r = Inr (res, d')" by (cases ?r) auto
  have "idempotencyRows ?d = []" by (simp add: bracketDb_def sample_defs)
  with manual_decision_participant_or_replay [OF r] r show ?thesis by auto
qed

end
