(* ===== verification/Results_Facts.thy ===== *)
theory Results_Facts
  imports Match_Results Lifecycle_Facts Bracket_Outcome_Facts
begin

text \<open>
  Facts about cancelling results: a cancellation only stamps live rows of its match, and
  undoing it puts every table back. The proofs go through \<open>stamped\<close> of the soft-table
  interface, once per table.
\<close>

section \<open>Untouched tables\<close>

lemma setMatch_frame [simp]:
  fixes d :: db
  shows
    "tournaments (setMatch k f d) = tournaments d" "weightClasses (setMatch k f d) = weightClasses d"
    "matchAthletes (setMatch k f d) = matchAthletes d" "rounds (setMatch k f d) = rounds d"
    "windows (setMatch k f d) = windows d" "votes (setMatch k f d) = votes d"
    "scoreEvents (setMatch k f d) = scoreEvents d" "penalties (setMatch k f d) = penalties d"
    "faults (setMatch k f d) = faults d" "roundResults (setMatch k f d) = roundResults d"
    "appeals (setMatch k f d) = appeals d" "appealRounds (setMatch k f d) = appealRounds d"
    "adjustments (setMatch k f d) = adjustments d" "decisions (setMatch k f d) = decisions d"
    "outcomes (setMatch k f d) = outcomes d" "publications (setMatch k f d) = publications d"
    "operations (setMatch k f d) = operations d" "assignments (setMatch k f d) = assignments d"
    "officials (setMatch k f d) = officials d" "officialSessions (setMatch k f d) = officialSessions d"
    "matchSessions (setMatch k f d) = matchSessions d" "accessCodes (setMatch k f d) = accessCodes d"
    "brackets (setMatch k f d) = brackets d" "entrants (setMatch k f d) = entrants d"
    "fixtureRows (setMatch k f d) = fixtureRows d" "slotRows (setMatch k f d) = slotRows d"
    "idempotencyRows (setMatch k f d) = idempotencyRows d"
    "roundStaffing (setMatch k f d) = roundStaffing d" "rosterAthletes (setMatch k f d) = rosterAthletes d"
    "organizations (setMatch k f d) = organizations d" "importConfirmations (setMatch k f d) = importConfirmations d" "auditLogs (setMatch k f d) = auditLogs d"
  by (simp_all add: setMatch_def)

lemma cancelAudit_frame [simp]:
  fixes d :: db
  shows
    "matches (cancelAudit ev w m i ns st a o1 d) = matches d"
    "tournaments (cancelAudit ev w m i ns st a o1 d) = tournaments d"
    "weightClasses (cancelAudit ev w m i ns st a o1 d) = weightClasses d"
    "matchAthletes (cancelAudit ev w m i ns st a o1 d) = matchAthletes d"
    "rounds (cancelAudit ev w m i ns st a o1 d) = rounds d" "windows (cancelAudit ev w m i ns st a o1 d) = windows d"
    "votes (cancelAudit ev w m i ns st a o1 d) = votes d"
    "scoreEvents (cancelAudit ev w m i ns st a o1 d) = scoreEvents d"
    "penalties (cancelAudit ev w m i ns st a o1 d) = penalties d"
    "faults (cancelAudit ev w m i ns st a o1 d) = faults d"
    "roundResults (cancelAudit ev w m i ns st a o1 d) = roundResults d"
    "appeals (cancelAudit ev w m i ns st a o1 d) = appeals d"
    "appealRounds (cancelAudit ev w m i ns st a o1 d) = appealRounds d"
    "adjustments (cancelAudit ev w m i ns st a o1 d) = adjustments d"
    "decisions (cancelAudit ev w m i ns st a o1 d) = decisions d"
    "outcomes (cancelAudit ev w m i ns st a o1 d) = outcomes d"
    "publications (cancelAudit ev w m i ns st a o1 d) = publications d"
    "assignments (cancelAudit ev w m i ns st a o1 d) = assignments d"
    "officials (cancelAudit ev w m i ns st a o1 d) = officials d"
    "officialSessions (cancelAudit ev w m i ns st a o1 d) = officialSessions d"
    "matchSessions (cancelAudit ev w m i ns st a o1 d) = matchSessions d"
    "accessCodes (cancelAudit ev w m i ns st a o1 d) = accessCodes d"
    "brackets (cancelAudit ev w m i ns st a o1 d) = brackets d"
    "entrants (cancelAudit ev w m i ns st a o1 d) = entrants d"
    "fixtureRows (cancelAudit ev w m i ns st a o1 d) = fixtureRows d"
    "slotRows (cancelAudit ev w m i ns st a o1 d) = slotRows d"
    "idempotencyRows (cancelAudit ev w m i ns st a o1 d) = idempotencyRows d"
    "roundStaffing (cancelAudit ev w m i ns st a o1 d) = roundStaffing d" "rosterAthletes (cancelAudit ev w m i ns st a o1 d) = rosterAthletes d"
    "organizations (cancelAudit ev w m i ns st a o1 d) = organizations d" "importConfirmations (cancelAudit ev w m i ns st a o1 d) = importConfirmations d"
  by (simp_all add: cancelAudit_def Let_def setAuditMetadata_def addAudit_def)

lemma invalidateRecords_frame [simp]:
  fixes d :: db
  shows
    "matches (invalidateRecords w k rs ns t a d) = matches d"
    "tournaments (invalidateRecords w k rs ns t a d) = tournaments d"
    "weightClasses (invalidateRecords w k rs ns t a d) = weightClasses d"
    "matchAthletes (invalidateRecords w k rs ns t a d) = matchAthletes d"
    "rounds (invalidateRecords w k rs ns t a d) = rounds d" "windows (invalidateRecords w k rs ns t a d) = windows d"
    "appeals (invalidateRecords w k rs ns t a d) = appeals d"
    "appealRounds (invalidateRecords w k rs ns t a d) = appealRounds d"
    "adjustments (invalidateRecords w k rs ns t a d) = adjustments d"
    "decisions (invalidateRecords w k rs ns t a d) = decisions d"
    "outcomes (invalidateRecords w k rs ns t a d) = outcomes d"
    "publications (invalidateRecords w k rs ns t a d) = publications d"
    "operations (invalidateRecords w k rs ns t a d) = operations d"
    "assignments (invalidateRecords w k rs ns t a d) = assignments d"
    "officials (invalidateRecords w k rs ns t a d) = officials d"
    "officialSessions (invalidateRecords w k rs ns t a d) = officialSessions d"
    "matchSessions (invalidateRecords w k rs ns t a d) = matchSessions d"
    "accessCodes (invalidateRecords w k rs ns t a d) = accessCodes d"
    "brackets (invalidateRecords w k rs ns t a d) = brackets d"
    "entrants (invalidateRecords w k rs ns t a d) = entrants d"
    "fixtureRows (invalidateRecords w k rs ns t a d) = fixtureRows d"
    "slotRows (invalidateRecords w k rs ns t a d) = slotRows d"
    "idempotencyRows (invalidateRecords w k rs ns t a d) = idempotencyRows d"
    "roundStaffing (invalidateRecords w k rs ns t a d) = roundStaffing d" "rosterAthletes (invalidateRecords w k rs ns t a d) = rosterAthletes d"
    "organizations (invalidateRecords w k rs ns t a d) = organizations d" "importConfirmations (invalidateRecords w k rs ns t a d) = importConfirmations d"
    "auditLogs (invalidateRecords w k rs ns t a d) = auditLogs d"
  by (simp_all add: invalidateRecords_def Let_def)

lemma invalidateAppeals_frame [simp]:
  fixes d :: db
  shows
    "matches (invalidateAppeals k as t a d) = matches d" "tournaments (invalidateAppeals k as t a d) = tournaments d"
    "weightClasses (invalidateAppeals k as t a d) = weightClasses d"
    "matchAthletes (invalidateAppeals k as t a d) = matchAthletes d"
    "rounds (invalidateAppeals k as t a d) = rounds d" "windows (invalidateAppeals k as t a d) = windows d"
    "votes (invalidateAppeals k as t a d) = votes d" "scoreEvents (invalidateAppeals k as t a d) = scoreEvents d"
    "penalties (invalidateAppeals k as t a d) = penalties d" "faults (invalidateAppeals k as t a d) = faults d"
    "roundResults (invalidateAppeals k as t a d) = roundResults d"
    "appealRounds (invalidateAppeals k as t a d) = appealRounds d"
    "adjustments (invalidateAppeals k as t a d) = adjustments d"
    "outcomes (invalidateAppeals k as t a d) = outcomes d"
    "publications (invalidateAppeals k as t a d) = publications d"
    "operations (invalidateAppeals k as t a d) = operations d"
    "assignments (invalidateAppeals k as t a d) = assignments d"
    "officials (invalidateAppeals k as t a d) = officials d"
    "officialSessions (invalidateAppeals k as t a d) = officialSessions d"
    "matchSessions (invalidateAppeals k as t a d) = matchSessions d"
    "accessCodes (invalidateAppeals k as t a d) = accessCodes d"
    "brackets (invalidateAppeals k as t a d) = brackets d" "entrants (invalidateAppeals k as t a d) = entrants d"
    "fixtureRows (invalidateAppeals k as t a d) = fixtureRows d"
    "slotRows (invalidateAppeals k as t a d) = slotRows d"
    "idempotencyRows (invalidateAppeals k as t a d) = idempotencyRows d"
    "roundStaffing (invalidateAppeals k as t a d) = roundStaffing d" "rosterAthletes (invalidateAppeals k as t a d) = rosterAthletes d"
    "organizations (invalidateAppeals k as t a d) = organizations d" "importConfirmations (invalidateAppeals k as t a d) = importConfirmations d"
    "auditLogs (invalidateAppeals k as t a d) = auditLogs d"
  by (simp_all add: invalidateAppeals_def)

lemma invalidateRounds_frame [simp]:
  fixes d :: db
  shows
    "matches (invalidateRounds k rs t a d) = matches d" "tournaments (invalidateRounds k rs t a d) = tournaments d"
    "weightClasses (invalidateRounds k rs t a d) = weightClasses d"
    "matchAthletes (invalidateRounds k rs t a d) = matchAthletes d" "votes (invalidateRounds k rs t a d) = votes d"
    "scoreEvents (invalidateRounds k rs t a d) = scoreEvents d"
    "penalties (invalidateRounds k rs t a d) = penalties d" "faults (invalidateRounds k rs t a d) = faults d"
    "roundResults (invalidateRounds k rs t a d) = roundResults d" "appeals (invalidateRounds k rs t a d) = appeals d"
    "appealRounds (invalidateRounds k rs t a d) = appealRounds d"
    "adjustments (invalidateRounds k rs t a d) = adjustments d" "outcomes (invalidateRounds k rs t a d) = outcomes d"
    "publications (invalidateRounds k rs t a d) = publications d"
    "operations (invalidateRounds k rs t a d) = operations d"
    "assignments (invalidateRounds k rs t a d) = assignments d"
    "officials (invalidateRounds k rs t a d) = officials d"
    "officialSessions (invalidateRounds k rs t a d) = officialSessions d"
    "matchSessions (invalidateRounds k rs t a d) = matchSessions d"
    "accessCodes (invalidateRounds k rs t a d) = accessCodes d" "brackets (invalidateRounds k rs t a d) = brackets d"
    "entrants (invalidateRounds k rs t a d) = entrants d" "fixtureRows (invalidateRounds k rs t a d) = fixtureRows d"
    "slotRows (invalidateRounds k rs t a d) = slotRows d"
    "idempotencyRows (invalidateRounds k rs t a d) = idempotencyRows d"
    "roundStaffing (invalidateRounds k rs t a d) = roundStaffing d" "rosterAthletes (invalidateRounds k rs t a d) = rosterAthletes d"
    "organizations (invalidateRounds k rs t a d) = organizations d" "importConfirmations (invalidateRounds k rs t a d) = importConfirmations d"
    "auditLogs (invalidateRounds k rs t a d) = auditLogs d"
  by (simp_all add: invalidateRounds_def Let_def)

lemma restoreRecords_frame [simp]:
  fixes d :: db
  shows
    "matches (restoreRecords k a d) = matches d" "tournaments (restoreRecords k a d) = tournaments d"
    "weightClasses (restoreRecords k a d) = weightClasses d" "matchAthletes (restoreRecords k a d) = matchAthletes d"
    "appealRounds (restoreRecords k a d) = appealRounds d" "adjustments (restoreRecords k a d) = adjustments d"
    "outcomes (restoreRecords k a d) = outcomes d" "publications (restoreRecords k a d) = publications d"
    "operations (restoreRecords k a d) = operations d" "assignments (restoreRecords k a d) = assignments d"
    "officials (restoreRecords k a d) = officials d" "officialSessions (restoreRecords k a d) = officialSessions d"
    "matchSessions (restoreRecords k a d) = matchSessions d" "accessCodes (restoreRecords k a d) = accessCodes d"
    "brackets (restoreRecords k a d) = brackets d" "entrants (restoreRecords k a d) = entrants d"
    "fixtureRows (restoreRecords k a d) = fixtureRows d" "slotRows (restoreRecords k a d) = slotRows d"
    "idempotencyRows (restoreRecords k a d) = idempotencyRows d"
    "roundStaffing (restoreRecords k a d) = roundStaffing d" "rosterAthletes (restoreRecords k a d) = rosterAthletes d"
    "organizations (restoreRecords k a d) = organizations d" "importConfirmations (restoreRecords k a d) = importConfirmations d" "auditLogs (restoreRecords k a d) = auditLogs d"
  by (simp_all add: restoreRecords_def)

section \<open>What a cancellation writes\<close>

abbreviation (input) ofMatch :: "('r \<Rightarrow> uuid) \<Rightarrow> uuid \<Rightarrow> 'r \<Rightarrow> bool" where
  "ofMatch sel mid r \<equiv> sel r = mid"

lemmas stamp_tables = voteTab.live_def eventTab.live_def penaltyTab.live_def faultTab.live_def
  roundResultTab.live_def decisionTab.live_def windowTab.live_def roundTab.live_def appealTab.live_def
  appealMark_def

lemma cancelAudit_operations [simp]:
  "operations (cancelAudit ev w m i ns st a o1 d) = operations d @ [cancelOperation ev w m i ns st a o1]"
  by (simp add: cancelAudit_def Let_def setAuditMetadata_def addAudit_def)

lemma invalidateRecords_tables [simp]:
  "votes (invalidateRecords w k rs ns t a d) = updWhere (\<lambda>v. v_invalidatedAt v = None \<and> v_matchId v = k \<and>
     (\<exists>x \<in> set (windows d). w_id x = v_scoringWindowId v \<and>
        (case w_roundId x of None \<Rightarrow> False | Some rid \<Rightarrow> rid \<in> set rs))) (setVoteMark (Some t, Some a)) (votes d)"
  "scoreEvents (invalidateRecords w k rs ns t a d) = updWhere (\<lambda>e. s_matchId e = k \<and> s_revertedAt e = None \<and>
     (w \<or> (case s_roundId e of None \<Rightarrow> False | Some rid \<Rightarrow> rid \<in> set rs))) (setEventMark (Some t, Some a)) (scoreEvents d)"
  "penalties (invalidateRecords w k rs ns t a d) = updWhere (\<lambda>p. p_matchId p = k \<and> p_revertedAt p = None \<and>
     (w \<or> (case p_roundNumber p of None \<Rightarrow> False | Some n \<Rightarrow> n \<in> set ns))) (setPenaltyMark (Some t, Some a)) (penalties d)"
  "faults (invalidateRecords w k rs ns t a d) = updWhere (\<lambda>f. f_invalidatedAt f = None \<and> f_matchId f = k \<and>
     (w \<or> f_roundId f \<in> set rs)) (setFaultMark (Some t, Some a)) (faults d)"
  "roundResults (invalidateRecords w k rs ns t a d) = updWhere (\<lambda>x. x_invalidatedAt x = None \<and> x_matchId x = k \<and>
     x_roundId x \<in> set rs) (setRoundResultMark (Some t, Some a)) (roundResults d)"
  by (simp_all add: invalidateRecords_def Let_def)

lemma invalidateAppeals_tables [simp]:
  "decisions (invalidateAppeals k as t a d) = updWhere (\<lambda>x. d_invalidatedAt x = None \<and> d_matchId x = k \<and>
     d_sourceAppealId x \<in> set as) (setDecisionMark (Some t, Some a)) (decisions d)"
  "appeals (invalidateAppeals k as t a d) = updWhere (\<lambda>x. ap_id x \<in> set as)
     (setAppealMark (Some t, Some a)) (appeals d)"
  by (cases as; simp add: invalidateAppeals_def updWhere_none)+

lemma affectedAppeals_cong:
  "appeals d' = appeals d \<Longrightarrow> appealRounds d' = appealRounds d \<Longrightarrow>
   affectedAppeals w k rs d' = affectedAppeals w k rs d"
  by (simp add: affectedAppeals_def)

lemma invalidateRounds_tables [simp]:
  "decisions (invalidateRounds k rs t a d) = updWhere (\<lambda>x. d_invalidatedAt x = None \<and> d_matchId x = k \<and>
     d_sourceOvertimeRoundId x \<in> set rs) (setDecisionMark (Some t, Some a)) (decisions d)"
  "windows (invalidateRounds k rs t a d) = updWhere (\<lambda>w. w_invalidatedAt w = None \<and> w_matchId w = k \<and>
     (case w_roundId w of None \<Rightarrow> False | Some rid \<Rightarrow> rid \<in> set rs)) (setWindowMark (Some t, Some a)) (windows d)"
  "rounds (invalidateRounds k rs t a d) = updWhere (\<lambda>r. r_id r \<in> set rs \<and> r_invalidatedAt r = None \<and>
     r_matchId r = k) (setRoundMark (Some t, Some a)) (rounds d)"
  by (simp_all add: invalidateRounds_def Let_def)

lemma cancel_stamps_records:
  fixes d :: db
  assumes d1_def: "d1 = cancelSelected ev whole m i sel aid oid d"
  shows "voteTab.stamped (ofMatch v_matchId (m_id m)) (serverNow ev) aid (votes d) (votes d1)"
    and "eventTab.stamped (ofMatch s_matchId (m_id m)) (serverNow ev) aid (scoreEvents d) (scoreEvents d1)"
    and "penaltyTab.stamped (ofMatch p_matchId (m_id m)) (serverNow ev) aid (penalties d) (penalties d1)"
    and "faultTab.stamped (ofMatch f_matchId (m_id m)) (serverNow ev) aid (faults d) (faults d1)"
    and "roundResultTab.stamped (ofMatch x_matchId (m_id m)) (serverNow ev) aid (roundResults d) (roundResults d1)"
    and "windowTab.stamped (ofMatch w_matchId (m_id m)) (serverNow ev) aid (windows d) (windows d1)"
    and "roundTab.stamped (ofMatch r_matchId (m_id m)) (serverNow ev) aid (rounds d) (rounds d1)"
  unfolding d1_def
  by (simp_all add: cancelSelected_def Let_def)
    (rule voteTab.stamped_invalidate eventTab.stamped_invalidate penaltyTab.stamped_invalidate
      faultTab.stamped_invalidate roundResultTab.stamped_invalidate windowTab.stamped_invalidate
      roundTab.stamped_invalidate, simp add: stamp_tables mark_defs)+

lemma cancel_stamps_decisions:
  fixes d :: db
  shows "decisionTab.stamped (ofMatch d_matchId (m_id m)) (serverNow ev) aid (decisions d)
    (decisions (cancelSelected ev whole m i sel aid oid d))"
proof -
  let ?s = "decisionTab.stamped (ofMatch d_matchId (m_id m)) (serverNow ev) aid"
  have step: "?s xs (updWhere (\<lambda>x. d_invalidatedAt x = None \<and> d_matchId x = m_id m \<and> P x)
      (setDecisionMark (Some (serverNow ev), Some aid)) xs)" for P xs
    by (rule decisionTab.stamped_invalidate) (simp add: stamp_tables mark_defs)
  show ?thesis
    by (simp add: cancelSelected_def Let_def) (rule decisionTab.stamped_trans [OF step step])
qed

lemma cancel_stamps_appeals:
  fixes d :: db
  assumes "distinct (map ap_id (appeals d))"
  shows "appealTab.stamped (ofMatch ap_matchId (m_id m)) (serverNow ev) aid (appeals d)
    (appeals (cancelSelected ev whole m i sel aid oid d))"
proof -
  have ids: "x \<in> set (affectedAppeals w k rs e) \<Longrightarrow>
      \<exists>b \<in> set (appeals e). ap_id b = x \<and> ap_invalidatedAt b = None \<and> ap_matchId b = k" for w k rs e x
    by (auto simp: affectedAppeals_def)
  have one: "a = b" if "a \<in> set (appeals d)" and "b \<in> set (appeals d)" and "ap_id a = ap_id b" for a b
    using that assms by (metis distinct_map inj_onD)
  show ?thesis
  proof (simp add: cancelSelected_def Let_def, rule appealTab.stamped_invalidate)
    fix a assume "a \<in> set (appeals d)" and "ap_id a \<in> set (affectedAppeals whole (m_id m) (map r_id sel)
      (invalidateRecords whole (m_id m) (map r_id sel) (distinctNumbers (map r_roundNumber sel)) (serverNow ev) aid
        (cancelAudit ev whole m i (distinctNumbers (map r_roundNumber sel)) (cancelStatus whole sel) aid oid d)))"
    with ids [OF this(2)] one show "appealTab.live a \<and> ap_matchId a = m_id m"
      by (fastforce simp: stamp_tables)
  qed
qed

lemma cancel_matches:
  fixes d :: db
  shows "matches (cancelSelected ev whole m i sel aid oid d) = updWhere (\<lambda>x. m_id x = m_id m)
      (\<lambda>x. x\<lparr>m_currentRound := cancelCurrentRound (cancelStatus whole sel),
        m_finishedAt := None, m_intermissionEndsAt := None, m_lifecycle := cancelLifecycle (cancelStatus whole sel),
        m_startedAt := (if cancelStatus whole sel = WAITING then None else m_startedAt m),
        m_status := cancelStatus whole sel\<rparr>) (matches d)"
    and "operations (cancelSelected ev whole m i sel aid oid d) = operations d @
      [cancelOperation ev whole m i (distinctNumbers (map r_roundNumber sel)) (cancelStatus whole sel) aid oid]"
  by (simp_all add: cancelSelected_def Let_def, simp add: setMatch_def)

lemma cancelSelected_frame [simp]:
  fixes d :: db
  shows
    "tournaments (cancelSelected ev w m i sel a o1 d) = tournaments d"
    "weightClasses (cancelSelected ev w m i sel a o1 d) = weightClasses d"
    "matchAthletes (cancelSelected ev w m i sel a o1 d) = matchAthletes d"
    "appealRounds (cancelSelected ev w m i sel a o1 d) = appealRounds d"
    "adjustments (cancelSelected ev w m i sel a o1 d) = adjustments d"
    "outcomes (cancelSelected ev w m i sel a o1 d) = outcomes d"
    "publications (cancelSelected ev w m i sel a o1 d) = publications d"
    "assignments (cancelSelected ev w m i sel a o1 d) = assignments d"
    "officials (cancelSelected ev w m i sel a o1 d) = officials d"
    "officialSessions (cancelSelected ev w m i sel a o1 d) = officialSessions d"
    "matchSessions (cancelSelected ev w m i sel a o1 d) = matchSessions d"
    "accessCodes (cancelSelected ev w m i sel a o1 d) = accessCodes d"
    "brackets (cancelSelected ev w m i sel a o1 d) = brackets d"
    "entrants (cancelSelected ev w m i sel a o1 d) = entrants d"
    "fixtureRows (cancelSelected ev w m i sel a o1 d) = fixtureRows d"
    "slotRows (cancelSelected ev w m i sel a o1 d) = slotRows d"
    "idempotencyRows (cancelSelected ev w m i sel a o1 d) = idempotencyRows d"
    "roundStaffing (cancelSelected ev w m i sel a o1 d) = roundStaffing d" "rosterAthletes (cancelSelected ev w m i sel a o1 d) = rosterAthletes d"
    "organizations (cancelSelected ev w m i sel a o1 d) = organizations d" "importConfirmations (cancelSelected ev w m i sel a o1 d) = importConfirmations d"
  by (simp_all add: cancelSelected_def Let_def)

lemma cancelStatus_range: "cancelStatus whole sel \<in> {WAITING, OVERTIME_READY, BREAK}"
  by (simp add: cancelStatus_def)

lemma release_noop:
  "from \<noteq> FINISHED \<Longrightarrow> to' \<noteq> FINISHED \<Longrightarrow> releaseForTransition i from to' mid t None d = ([], d)"
  by (simp add: releaseForTransition_def assignmentReleaseReasonForTransition_def)

lemma cancelResultsE:
  assumes "cancelResults ev whole mid i aid oid d = Inr (rc, d1)" and "getMatch mid d = Some m"
    and "m_status m \<noteq> FINISHED"
  obtains sel where "sel = selectedRounds whole m (activeRounds mid d)" and "sel \<noteq> []"
    and "rc_roundNumbers rc = distinctNumbers (map r_roundNumber sel)" and "rc_status rc = cancelStatus whole sel"
    and "d1 = cancelSelected ev whole m i sel aid oid d" and "\<exists>rules. rulesForMatch mid d = Inr rules"
  using assms cancelStatus_range [of whole "selectedRounds whole m (activeRounds mid d)"]
  unfolding cancelResults_def Let_def
  by (elim inr_elims) (auto simp: release_noop)

section \<open>Undoing a cancellation\<close>

lemma officialRows_cong:
  assumes "officialSessions d' = officialSessions d" "officials d' = officials d" "assignments d' = assignments d"
    and ms: "matches d' = map g (matches d)" and "\<And>m. m_id (g m) = m_id m" "\<And>m. m_tournamentId (g m) = m_tournamentId m"
  shows "officialSupervisorRows ev mid aid oid osid d' = officialSupervisorRows ev mid aid oid osid d"
  unfolding officialSupervisorRows_def using assms by (simp add: comp_def cong: if_cong)

lemma lockControl_cong:
  assumes "officialSessions d' = officialSessions d" "officials d' = officials d" "assignments d' = assignments d"
    and "matchSessions d' = matchSessions d" "accessCodes d' = accessCodes d"
    and "matches d' = updWhere p f (matches d)" and "\<And>m. m_id (f m) = m_id m" "\<And>m. m_tournamentId (f m) = m_tournamentId m"
  shows "lockActiveControlSession ev mid i d' = lockActiveControlSession ev mid i d"
proof -
  have "officialSupervisorRows ev mid aid oid osid d' = officialSupervisorRows ev mid aid oid osid d" for aid oid osid
    by (rule officialRows_cong [where g = "\<lambda>m. if p m then f m else m"]) (use assms in \<open>auto simp: updWhere_def\<close>)
  moreover have "activeAssignment k d' = activeAssignment k d" for k
    using assms(3) by (simp add: activeAssignment_def)
  ultimately have "lockActiveSupervisorIdentity ev mid i d' = lockActiveSupervisorIdentity ev mid i d"
    using assms(4,5) by (cases i) (simp_all add: lockActiveSupervisorIdentity_def cong: if_cong)
  then show ?thesis by (simp add: lockActiveControlSession_def)
qed

lemma rulesForMatch_same_match:
  assumes "getMatch mid d' = Some m'" "getMatch mid d = Some m" "m_tournamentId m' = m_tournamentId m"
    "tournaments d' = tournaments d"
  shows "rulesForMatch mid d' = rulesForMatch mid d"
  using assms by (simp add: rulesForMatch_def)

definition stampFree :: "uuid \<Rightarrow> db \<Rightarrow> bool" where
  "stampFree aid d \<longleftrightarrow> voteTab.unstamped aid (votes d) \<and> eventTab.unstamped aid (scoreEvents d) \<and>
     penaltyTab.unstamped aid (penalties d) \<and> faultTab.unstamped aid (faults d) \<and>
     roundResultTab.unstamped aid (roundResults d) \<and> decisionTab.unstamped aid (decisions d) \<and>
     appealTab.unstamped aid (appeals d) \<and> windowTab.unstamped aid (windows d) \<and>
     roundTab.unstamped aid (rounds d)"

lemma restore_after_cancel:
  fixes d :: db
  assumes free: "stampFree aid d" and ap: "distinct (map ap_id (appeals d))"
    and d1: "d1 = cancelSelected ev whole m i sel aid oid d" and mid: "m_id m = mid"
  shows "votes (restoreRecords mid aid d1) = votes d"
    and "scoreEvents (restoreRecords mid aid d1) = scoreEvents d"
    and "penalties (restoreRecords mid aid d1) = penalties d"
    and "faults (restoreRecords mid aid d1) = faults d"
    and "roundResults (restoreRecords mid aid d1) = roundResults d"
    and "decisions (restoreRecords mid aid d1) = decisions d"
    and "appeals (restoreRecords mid aid d1) = appeals d"
    and "windows (restoreRecords mid aid d1) = windows d"
    and "rounds (restoreRecords mid aid d1) = rounds d"
proof -
  note st = cancel_stamps_records [OF d1, unfolded mid]
    cancel_stamps_decisions [of m ev aid d whole i sel oid, folded d1, unfolded mid]
    cancel_stamps_appeals [OF ap, of m ev aid whole i sel oid, folded d1, unfolded mid]
  note fr = free [unfolded stampFree_def]
  show "votes (restoreRecords mid aid d1) = votes d"
    using voteTab.restore_stamped [OF st(1)] fr by (simp add: restoreRecords_def mark_defs)
  show "scoreEvents (restoreRecords mid aid d1) = scoreEvents d"
    using eventTab.restore_stamped [OF st(2)] fr by (simp add: restoreRecords_def mark_defs)
  show "penalties (restoreRecords mid aid d1) = penalties d"
    using penaltyTab.restore_stamped [OF st(3)] fr by (simp add: restoreRecords_def mark_defs)
  show "faults (restoreRecords mid aid d1) = faults d"
    using faultTab.restore_stamped [OF st(4)] fr by (simp add: restoreRecords_def mark_defs)
  show "roundResults (restoreRecords mid aid d1) = roundResults d"
    using roundResultTab.restore_stamped [OF st(5)] fr by (simp add: restoreRecords_def mark_defs)
  show "windows (restoreRecords mid aid d1) = windows d"
    using windowTab.restore_stamped [OF st(6)] fr by (simp add: restoreRecords_def mark_defs)
  show "rounds (restoreRecords mid aid d1) = rounds d"
    using roundTab.restore_stamped [OF st(7)] fr by (simp add: restoreRecords_def mark_defs)
  show "decisions (restoreRecords mid aid d1) = decisions d"
    using decisionTab.restore_stamped [OF st(8)] fr by (simp add: restoreRecords_def mark_defs)
  show "appeals (restoreRecords mid aid d1) = appeals d"
    using appealTab.restore_stamped [OF st(9)] fr by (simp add: restoreRecords_def appealMark_def setAppealMark_def)
qed

lemma no_activity_after_cancel:
  fixes d :: db
  assumes na: "\<not> activitySince mid t d" and ap: "distinct (map ap_id (appeals d))"
    and d1: "d1 = cancelSelected ev whole m i sel aid oid d"
  shows "\<not> activitySince mid t d1"
proof -
  note st = cancel_stamps_records [OF d1] cancel_stamps_decisions [of m ev aid d whole i sel oid, folded d1]
    cancel_stamps_appeals [OF ap, of m ev aid whole i sel oid, folded d1]
  have live1: "r \<in> set (rounds d1) \<Longrightarrow> r_invalidatedAt r = None \<Longrightarrow> r \<in> set (rounds d)" for r
    using roundTab.stamped_live [OF st(7)] by (simp add: roundTab.live_def roundMark_def)
  have live2: "r \<in> set (windows d1) \<Longrightarrow> w_invalidatedAt r = None \<Longrightarrow> r \<in> set (windows d)" for r
    using windowTab.stamped_live [OF st(6)] by (simp add: windowTab.live_def windowMark_def)
  have live3: "r \<in> set (scoreEvents d1) \<Longrightarrow> s_revertedAt r = None \<Longrightarrow> r \<in> set (scoreEvents d)" for r
    using eventTab.stamped_live [OF st(2)] by (simp add: eventTab.live_def eventMark_def)
  have live4: "r \<in> set (penalties d1) \<Longrightarrow> p_revertedAt r = None \<Longrightarrow> r \<in> set (penalties d)" for r
    using penaltyTab.stamped_live [OF st(3)] by (simp add: penaltyTab.live_def penaltyMark_def)
  have live5: "r \<in> set (faults d1) \<Longrightarrow> f_invalidatedAt r = None \<Longrightarrow> r \<in> set (faults d)" for r
    using faultTab.stamped_live [OF st(4)] by (simp add: faultTab.live_def faultMark_def)
  have live6: "r \<in> set (decisions d1) \<Longrightarrow> d_invalidatedAt r = None \<Longrightarrow> r \<in> set (decisions d)" for r
    using decisionTab.stamped_live [OF st(8)] by (simp add: decisionTab.live_def decisionMark_def)
  have live7: "r \<in> set (appeals d1) \<Longrightarrow> ap_invalidatedAt r = None \<Longrightarrow> r \<in> set (appeals d)" for r
    using appealTab.stamped_live [OF st(9)] by (simp add: appealTab.live_def appealMark_def)
  note live = live1 live2 live3 live4 live5 live6 live7
  have same: "outcomes d1 = outcomes d" "publications d1 = publications d" by (simp_all add: d1)
  show ?thesis
  proof
    assume "activitySince mid t d1"
    then have "activitySince mid t d"
      unfolding activitySince_def same
      by (elim disj_forward bexE) (blast dest: live)+
    with na show False by blast
  qed
qed

definition cancelledRow :: "match_status \<Rightarrow> match_row \<Rightarrow> match_row \<Rightarrow> match_row" where
  "cancelledRow st m x = x\<lparr>m_currentRound := cancelCurrentRound st, m_finishedAt := None,
     m_intermissionEndsAt := None, m_lifecycle := cancelLifecycle st,
     m_startedAt := (if st = WAITING then None else m_startedAt m), m_status := st\<rparr>"

lemma getMatch_cong: "matches d' = matches d \<Longrightarrow> getMatch mid d' = getMatch mid d"
  by (simp add: getMatch_def)

lemma find_appended:
  "(\<And>x. x \<in> set xs \<Longrightarrow> \<not> p x) \<Longrightarrow> p y \<Longrightarrow> List.find p (xs @ [y]) = Some y"
  by (induction xs) auto

lemma undone_row:
  assumes "distinct (map m_id (matches d))" and "getMatch mid d = Some m"
  shows "updWhere (\<lambda>x. m_id x = mid) (undoRow (cancelOperation ev whole m i ns st aid oid))
      (updWhere (\<lambda>x. m_id x = mid) (cancelledRow st' m) (matches d)) =
    updWhere (\<lambda>x. m_id x = mid) (\<lambda>x. x\<lparr>m_intermissionEndsAt := None, m_lifecycle := lifecycleForPhase (m_status x)\<rparr>)
      (matches d)"
proof -
  have "x = m" if "x \<in> set (matches d)" "m_id x = mid" for x
    using getMatch_unique [OF assms(1) that(1)] that(2) assms(2) by simp
  then show ?thesis
    by (subst updWhere_twice) (auto simp: updWhere_def undoRow_def cancelOperation_def cancelledRow_def)
qed

text \<open>C7: Undoing the cancellation of an unfinished match's results, before anything else
  happened and by a supervisor who may control the match, succeeds and puts every table
  back as it was: only the match's intermission deadline is dropped, its lifecycle is the one
  its phase implies, and the audit log and the operation record what happened.\<close>

theorem undo_restores_cancelled_results:
  assumes c: "cancelResults ev whole mid i aid oid d = Inr (rc, d1)"
    and m: "getMatch mid d = Some m" and nf: "m_status m \<noteq> FINISHED"
    and ids: "distinct (map m_id (matches d))" "distinct (map ap_id (appeals d))"
    and fresh: "stampFree aid d" "\<forall>op \<in> set (operations d). op_id op \<noteq> oid"
    and uniq: "appealIdx.unique (appeals d)" "roundIdx.unique (rounds d)"
    and na: "\<not> activitySince mid (serverNow ev) d"
    and auth: "lockActiveControlSession ev' mid i' d = Inr ()"
  shows "\<exists>op d2. undoResultCancellation ev' mid oid i' d1 = Inr (op, d2) \<and>
    d2 = d\<lparr>matches := updWhere (\<lambda>x. m_id x = mid) (\<lambda>x. x\<lparr>m_intermissionEndsAt := None,
            m_lifecycle := lifecycleForPhase (m_status x)\<rparr>) (matches d),
          operations := operations d @ [(cancelOperation ev whole m i (rc_roundNumbers rc) (rc_status rc) aid oid)
            \<lparr>op_status := UNDONE, op_undoneAt := Some (serverNow ev')\<rparr>],
          auditLogs := auditLogs d2\<rparr>"
proof -
  from c m nf obtain sel where rc: "rc_roundNumbers rc = distinctNumbers (map r_roundNumber sel)"
      "rc_status rc = cancelStatus whole sel"
    and d1: "d1 = cancelSelected ev whole m i sel aid oid d"
    and rules: "\<exists>rules. rulesForMatch mid d = Inr rules"
    by (rule cancelResultsE)
  have mid: "m_id m = mid" using getMatch_SomeD [OF m] by simp
  define op where "op = cancelOperation ev whole m i (rc_roundNumbers rc) (rc_status rc) aid oid"
  have mat: "matches d1 = matches (setMatch mid (cancelledRow (rc_status rc) m) d)"
    using cancel_matches(1) [of ev whole m i sel aid oid d] mid
    by (simp add: d1 rc setMatch_def cancelledRow_def [abs_def])
  have ops: "operations d1 = operations d @ [op]"
    using cancel_matches(2) [of ev whole m i sel aid oid d] by (simp add: d1 op_def rc)
  have g: "getMatch mid d1 = Some (cancelledRow (rc_status rc) m m)"
    using m mat by (simp add: getMatch_cong [OF mat] cancelledRow_def)
  have lock: "lockActiveControlSession ev' mid i' d1 = Inr ()"
    using auth lockControl_cong [of d1 d "\<lambda>x. m_id x = mid" "cancelledRow (rc_status rc) m" ev' mid i'] mat
    by (simp add: d1 setMatch_def cancelledRow_def)
  have "rulesForMatch mid d1 = rulesForMatch mid d"
    by (rule rulesForMatch_same_match [OF g m]) (simp_all add: cancelledRow_def d1)
  with rules g lock have open1: "openCommand (lockActiveControlSession ev' mid i') mid d1 =
      Inr (cancelledRow (rc_status rc) m m)"
    by (auto simp: openCommand_def lockMatch_def)
  have f: "List.find (\<lambda>op. op_id op = oid \<and> op_matchId op = mid) (operations d1) = Some op"
    unfolding ops by (rule find_appended) (use fresh(2) mid in \<open>auto simp: op_def cancelOperation_def\<close>)
  note restored = restore_after_cancel [OF fresh(1) ids(2) d1 mid]
  have others: "updWhere (\<lambda>o'. op_id o' = oid) g (operations d) = operations d" for g
    using fresh(2) by (intro updWhere_none) auto
  have opid: "op_id op = oid" by (simp add: op_def cancelOperation_def)
  define d2 where "d2 = addAudit (undoAudit ev' i' op)
     ((setMatch mid (undoRow op) (restoreRecords mid aid d1))\<lparr>operations := updWhere (\<lambda>o'. op_id o' = oid)
        (\<lambda>o'. o'\<lparr>op_status := UNDONE, op_undoneAt := Some (serverNow ev')\<rparr>) (operations d1)\<rparr>)"
  have "undoResultCancellation ev' mid oid i' d1 = Inr (op, d2)"
    unfolding undoResultCancellation_def open1
    using no_activity_after_cancel [OF na ids(2) d1] uniq nf
    by (simp add: f restored op_def cancelOperation_def cancelledRow_def checkUnique_def appealIdx.unique_def
        roundIdx.unique_def d2_def)
  moreover have "d2 = d\<lparr>matches := updWhere (\<lambda>x. m_id x = mid) (\<lambda>x. x\<lparr>m_intermissionEndsAt := None,
            m_lifecycle := lifecycleForPhase (m_status x)\<rparr>) (matches d),
          operations := operations d @ [op\<lparr>op_status := UNDONE, op_undoneAt := Some (serverNow ev')\<rparr>],
          auditLogs := auditLogs d2\<rparr>"
    using undone_row [OF ids(1) m, of ev whole i "rc_roundNumbers rc" "rc_status rc" aid oid] others
    by (intro db.equality)
      (simp_all add: opid d2_def addAudit_def restored setMatch_def mat ops op_def [symmetric], simp_all add: d1)
  ultimately show ?thesis unfolding op_def by blast
qed

theorem undo_restores_cancelled_results_witness:
  "\<exists>rc d1 op d2. cancelResults (at 100000) False 1 sampleSupervisor 500 600 breakDb = Inr (rc, d1) \<and>
     scoreEvents d1 \<noteq> scoreEvents breakDb \<and>
     undoResultCancellation (at 110000) 1 600 sampleSupervisor d1 = Inr (op, d2) \<and>
     scoreEvents d2 = scoreEvents breakDb \<and> rounds d2 = rounds breakDb"
proof -
  have "(case cancelResults (at 100000) False 1 sampleSupervisor 500 600 breakDb of Inl _ \<Rightarrow> False
     | Inr (_, d1) \<Rightarrow> list_all (\<lambda>e. s_revertedAt e = Some 100000) (scoreEvents d1))" by code_simp
  then obtain rc d1 where c: "cancelResults (at 100000) False 1 sampleSupervisor 500 600 breakDb = Inr (rc, d1)"
    and ev: "list_all (\<lambda>e. s_revertedAt e = Some 100000) (scoreEvents d1)"
    by (auto split: sum.splits prod.splits)
  obtain m where m: "getMatch 1 breakDb = Some m" "m_status m \<noteq> FINISHED"
    by (simp add: getMatch_def breakDb_def sampleMatch_def)
  have ids: "distinct (map m_id (matches breakDb))" "distinct (map ap_id (appeals breakDb))"
    "appealIdx.unique (appeals breakDb)" "roundIdx.unique (rounds breakDb)"
    "\<forall>op \<in> set (operations breakDb). op_id op \<noteq> 600"
    by (simp_all add: sample_defs appealIdx.unique_def roundIdx.unique_def)
  have free: "stampFree 500 breakDb"
    by (simp add: stampFree_def sample_defs voteTab.unstamped_def eventTab.unstamped_def penaltyTab.unstamped_def
        faultTab.unstamped_def roundResultTab.unstamped_def decisionTab.unstamped_def appealTab.unstamped_def
        windowTab.unstamped_def roundTab.unstamped_def eventTab.paired_def faultTab.paired_def
        roundResultTab.paired_def roundTab.paired_def mark_defs)
  have na: "\<not> activitySince 1 (serverNow (at 100000)) breakDb" by (simp add: activitySince_def sample_defs)
  have auth: "lockActiveControlSession (at 110000) 1 sampleSupervisor breakDb = Inr ()" by code_simp
  from undo_restores_cancelled_results [OF c m ids(1,2) free ids(5,3,4) na auth] obtain op d2 where
    u: "undoResultCancellation (at 110000) 1 600 sampleSupervisor d1 = Inr (op, d2)"
    and d2: "\<exists>ms ops as. d2 = breakDb\<lparr>matches := ms, operations := ops, auditLogs := as\<rparr>"
    by blast
  from d2 have "scoreEvents d2 = scoreEvents breakDb" "rounds d2 = rounds breakDb" by auto
  with u have "undoResultCancellation (at 110000) 1 600 sampleSupervisor d1 = Inr (op, d2) \<and>
     scoreEvents d2 = scoreEvents breakDb \<and> rounds d2 = rounds breakDb" by blast
  moreover have "scoreEvents d1 \<noteq> scoreEvents breakDb"
    using ev by (auto simp: breakDb_def)
  ultimately show ?thesis using c by blast
qed

end
