(* ===== verification/Frames.thy ===== *)
theory Frames
  imports Match_Lifecycle
begin

text \<open>
  What an operation leaves alone. A view erases the tables a group of operations may write;
  an operation of the group keeps the view, and two databases with the same view agree on
  every other table. Views compose by transitivity of equality, so the frame of a handler is
  the chain of the frames of its steps.
\<close>

section \<open>Views\<close>

definition noBrackets :: "db \<Rightarrow> db" where
  "noBrackets d = d\<lparr>brackets := [], fixtureRows := [], slotRows := [], idempotencyRows := [], auditLogs := []\<rparr>"

definition noCrew :: "db \<Rightarrow> db" where
  "noCrew d = d\<lparr>assignments := [], auditLogs := []\<rparr>"

definition noScoring :: "db \<Rightarrow> db" where
  "noScoring d = d\<lparr>windows := [], votes := [], scoreEvents := [], auditLogs := []\<rparr>"

lemma noBracketsD:
  assumes "noBrackets d' = noBrackets d"
  shows "matches d' = matches d" "tournaments d' = tournaments d" "matchAthletes d' = matchAthletes d"
    "rounds d' = rounds d" "windows d' = windows d" "votes d' = votes d" "scoreEvents d' = scoreEvents d"
    "penalties d' = penalties d" "faults d' = faults d" "roundResults d' = roundResults d"
    "appeals d' = appeals d" "appealRounds d' = appealRounds d" "adjustments d' = adjustments d"
    "decisions d' = decisions d" "outcomes d' = outcomes d" "publications d' = publications d"
    "operations d' = operations d" "assignments d' = assignments d" "officials d' = officials d"
    "entrants d' = entrants d"
  using arg_cong [OF assms, of matches] arg_cong [OF assms, of tournaments]
    arg_cong [OF assms, of matchAthletes] arg_cong [OF assms, of rounds] arg_cong [OF assms, of windows]
    arg_cong [OF assms, of votes] arg_cong [OF assms, of scoreEvents] arg_cong [OF assms, of penalties]
    arg_cong [OF assms, of faults] arg_cong [OF assms, of roundResults] arg_cong [OF assms, of appeals]
    arg_cong [OF assms, of appealRounds] arg_cong [OF assms, of adjustments]
    arg_cong [OF assms, of decisions] arg_cong [OF assms, of outcomes]
    arg_cong [OF assms, of publications] arg_cong [OF assms, of operations]
    arg_cong [OF assms, of assignments] arg_cong [OF assms, of officials] arg_cong [OF assms, of entrants]
  by (simp_all add: noBrackets_def)

lemma noCrewD:
  assumes "noCrew d' = noCrew d"
  shows "matches d' = matches d" "tournaments d' = tournaments d" "matchAthletes d' = matchAthletes d"
    "rounds d' = rounds d" "windows d' = windows d" "votes d' = votes d" "scoreEvents d' = scoreEvents d"
    "penalties d' = penalties d" "faults d' = faults d" "roundResults d' = roundResults d"
    "appeals d' = appeals d" "appealRounds d' = appealRounds d" "adjustments d' = adjustments d"
    "decisions d' = decisions d" "outcomes d' = outcomes d" "publications d' = publications d"
    "operations d' = operations d" "fixtureRows d' = fixtureRows d" "slotRows d' = slotRows d"
    "brackets d' = brackets d"
  using arg_cong [OF assms, of matches] arg_cong [OF assms, of tournaments]
    arg_cong [OF assms, of matchAthletes] arg_cong [OF assms, of rounds] arg_cong [OF assms, of windows]
    arg_cong [OF assms, of votes] arg_cong [OF assms, of scoreEvents] arg_cong [OF assms, of penalties]
    arg_cong [OF assms, of faults] arg_cong [OF assms, of roundResults] arg_cong [OF assms, of appeals]
    arg_cong [OF assms, of appealRounds] arg_cong [OF assms, of adjustments]
    arg_cong [OF assms, of decisions] arg_cong [OF assms, of outcomes]
    arg_cong [OF assms, of publications] arg_cong [OF assms, of operations]
    arg_cong [OF assms, of fixtureRows] arg_cong [OF assms, of slotRows] arg_cong [OF assms, of brackets]
  by (simp_all add: noCrew_def)

lemma noScoringD:
  assumes "noScoring d' = noScoring d"
  shows "matches d' = matches d" "tournaments d' = tournaments d" "matchAthletes d' = matchAthletes d"
    "rounds d' = rounds d" "penalties d' = penalties d" "faults d' = faults d" "roundResults d' = roundResults d"
    "appeals d' = appeals d" "appealRounds d' = appealRounds d" "adjustments d' = adjustments d"
    "decisions d' = decisions d" "outcomes d' = outcomes d" "publications d' = publications d"
    "operations d' = operations d" "assignments d' = assignments d" "fixtureRows d' = fixtureRows d"
    "slotRows d' = slotRows d" "brackets d' = brackets d"
  using arg_cong [OF assms, of matches] arg_cong [OF assms, of tournaments]
    arg_cong [OF assms, of matchAthletes] arg_cong [OF assms, of rounds] arg_cong [OF assms, of penalties]
    arg_cong [OF assms, of faults] arg_cong [OF assms, of roundResults] arg_cong [OF assms, of appeals]
    arg_cong [OF assms, of appealRounds] arg_cong [OF assms, of adjustments]
    arg_cong [OF assms, of decisions] arg_cong [OF assms, of outcomes]
    arg_cong [OF assms, of publications] arg_cong [OF assms, of operations]
    arg_cong [OF assms, of assignments] arg_cong [OF assms, of fixtureRows]
    arg_cong [OF assms, of slotRows] arg_cong [OF assms, of brackets]
  by (simp_all add: noScoring_def)

lemma addAudit_views [simp]:
  "noBrackets (addAudit a d) = noBrackets d" "noCrew (addAudit a d) = noCrew d"
  "noScoring (addAudit a d) = noScoring d"
  by (simp_all add: noBrackets_def noCrew_def noScoring_def addAudit_def)

section \<open>Brackets\<close>

lemma bracket_steps [simp]:
  "noBrackets (setFixture fid g d) = noBrackets d" "noBrackets (setSlot sid e d) = noBrackets d"
  "noBrackets (setBracket bid h d) = noBrackets d" "noBrackets (fillSlot w s d) = noBrackets d"
  "noBrackets (clearSlot s d) = noBrackets d" "noBrackets (completeBracket ev b w d) = noBrackets d"
  by (simp_all add: noBrackets_def setFixture_def setSlot_def setBracket_def fillSlot_def clearSlot_def
      completeBracket_def addAudit_def Let_def)

lemma propagate_noBrackets: "propagate e ss d = Inr d' \<Longrightarrow> noBrackets d' = noBrackets d"
proof (induction ss arbitrary: d)
  case (Cons s ss)
  then have "propagate e ss (fillSlot e s d) = Inr d'" by (auto split: if_splits)
  from Cons.IH [OF this] show ?case by simp
qed simp

lemma decide_noBrackets: "decide ev fid e wd d = Inr (res, d') \<Longrightarrow> noBrackets d' = noBrackets d"
  unfolding decide_def Let_def by (elim inr_elims) (auto dest!: propagate_noBrackets split: if_splits)

lemma processFinished_noBrackets: "processFinishedMatch ev mid c d = Inr d' \<Longrightarrow> noBrackets d' = noBrackets d"
  unfolding processFinishedMatch_def Let_def
  by (elim inr_elims) (auto dest: decide_noBrackets split: option.splits)

lemma fold_clearSlot_view [simp]: "noBrackets (fold clearSlot ss d) = noBrackets d"
  by (induction ss arbitrary: d) auto

lemma retract_noBrackets: "retractFinishedMatch mid s a r d = Inr d' \<Longrightarrow> noBrackets d' = noBrackets d"
  unfolding retractFinishedMatch_def Let_def by (elim inr_elims) auto

section \<open>Crew release and scoring\<close>

lemma release_noCrew: "releaseForTransition i from to' mid t reason d = (ids, d') \<Longrightarrow> noCrew d' = noCrew d"
  by (auto simp: releaseForTransition_def Let_def noCrew_def addAudit_def split: option.splits if_splits)

lemma resolveLocked_noScoring: "resolveLockedWindow ev w t pid d = Inr (res, d') \<Longrightarrow> noScoring d' = noScoring d"
  unfolding resolveLockedWindow_def Let_def awardPoint_def
  by (elim inr_elims) (auto simp: noScoring_def addAudit_def)

lemma resolveDue_noScoring: "resolveDueWindowsLocked ev mid pid t d = Inr d' \<Longrightarrow> noScoring d' = noScoring d"
proof (induction ev mid pid t d rule: resolveDueWindowsLocked.induct)
  case (1 ev mid pid t d)
  then show ?case
    by (subst (asm) (2) resolveDueWindowsLocked.simps)
      (auto dest: resolveLocked_noScoring split: option.splits)
qed

end
