(* ===== verification/Appeals_Facts.thy ===== *)
theory Appeals_Facts
  imports Appeals Results_Facts Frames
begin

text \<open>
  Facts about the phases after the second round: what the stored round summaries count, how
  an appeal decides the next phase, that repeating a command with its idempotency key
  changes nothing, and which athlete a publication can name.
\<close>

section \<open>Round summaries\<close>

lemma roundSummary_base:
  "x_judgePoints (roundSummary mid rid t d a) =
   judgeBaseForRounds (ma_id a) [rid] (filter (\<lambda>e. s_matchId e = mid) (scoreEvents d))"
  by (auto simp: roundSummary_def judgeBase_sum countsFor_def
      intro!: arg_cong [where f = "\<lambda>xs. sum_list (map s_value xs)"] filter_cong split: option.split)

lemma summary_stored:
  assumes "evaluateExpiration ev mid rid d = Inr (ExpEnded tr, d')" and "getMatch mid d = Some m"
    and "m_rulesVersion m = FAULT_APPEAL_OVERTIME_V2" and "a \<in> set (matchAthletes d')" and "ma_matchId a = mid"
  shows "\<exists>t. roundSummary mid rid t d' a \<in> set (roundResults d')"
proof -
  from assms(1) obtain n r where n: "getMatch mid d = Some n"
    and r: "List.find (\<lambda>r. r_id r = rid \<and> r_matchId r = mid) (rounds d) = Some r"
    and x: "expireRound ev n r d = Inr (ExpEnded tr, d')"
    by (rule evaluateExpirationE)
  from getMatch_SomeD [OF n] find_SomeD [OF r] have ids: "m_id n = mid" "r_id r = rid" by auto
  from x have "roundResults d' = roundResults d @ summaries n r d'" by (auto elim!: expireRoundE)
  with assms n ids show ?thesis by (auto simp: summaries_def)
qed

lemma resolveIfDueE:
  assumes "resolveIfDue ev mid wid d = Inr (Resolved res, d')"
  obtains w m where "w \<in> set (windows d)" and "w_id w = wid" and "w_matchId w = mid" and "openWindow w"
    and "getMatch mid d = Some m" and "resolveLockedWindow ev w (serverNow ev) (m_publicId m) d = Inr (res, d')"
  using assms unfolding resolveIfDue_def Let_def
  by (elim inr_elims) (auto dest!: find_SomeD)

text \<open>C37: A point that a scoring window awards after its round has expired counts for the athlete
  but not in the round summary that expiry stored: the summary, from which the regulation
  and overtime appeals compute their scores, is one short of the live judge points of the
  round. A window opened in the last second of a round is such a window, because it closes
  one second after its first vote and not with the round.\<close>

theorem late_point_missing_from_summary:
  assumes e: "evaluateExpiration ev mid rid d = Inr (ExpEnded tr, d1)"
    and m: "getMatch mid d = Some m" "m_rulesVersion m = FAULT_APPEAL_OVERTIME_V2"
    and r: "resolveIfDue ev' mid wid d1 = Inr (Resolved res, d2)"
    and w: "\<forall>w \<in> set (windows d1). w_id w = wid \<longrightarrow> w_roundId w = Some rid"
    and c: "rs_winningColor res = Some c"
  shows "\<exists>a x. getAthlete mid c d1 = Some a \<and> x \<in> set (roundResults d2) \<and> x_matchId x = mid \<and>
    x_roundId x = rid \<and> x_athleteId x = ma_id a \<and> x_invalidatedAt x = None \<and>
    judgeBaseForRounds (ma_id a) [rid] (filter (\<lambda>e. s_matchId e = mid) (scoreEvents d2)) = x_judgePoints x + 1"
proof -
  from r obtain y and n :: match_row where y: "y \<in> set (windows d1)" "w_id y = wid" "w_matchId y = mid"
    and rl: "resolveLockedWindow ev' y (serverNow ev') (m_publicId n) d1 = Inr (res, d2)"
    by (rule resolveIfDueE) blast
  from rl obtain a ev1 where a: "getAthlete mid c d1 = Some a" and ev1: "scoreEvents d2 = scoreEvents d1 @ [ev1]"
    "s_athleteId ev1 = ma_id a" "s_value ev1 = 1" "s_type ev1 = JUDGE_POINT" "s_roundId ev1 = w_roundId y"
    "s_matchId ev1 = mid" "s_revertedAt ev1 = None"
    by (rule resolve_cases) (metis c y(3))
  from a have "a \<in> set (matchAthletes d1)" "ma_matchId a = mid"
    by (auto simp: getAthlete_def dest!: find_SomeD)
  from summary_stored [OF e m this] obtain t where x: "roundSummary mid rid t d1 a \<in> set (roundResults d1)" ..
  have "judgeBaseForRounds (ma_id a) [rid] (filter (\<lambda>e. s_matchId e = mid) (scoreEvents d2)) =
      x_judgePoints (roundSummary mid rid t d1 a) + 1"
    using ev1 w y(1,2) by (simp add: roundSummary_base judgeBase_sum countsFor_def)
  with a x resolve_frame(11) [OF rl] show ?thesis
    by (intro exI [of _ a] exI [of _ "roundSummary mid rid t d1 a"]) (simp add: roundSummary_def)
qed

definition lateDb :: db where
  "lateDb = runningDb\<lparr>
     windows := [newWindow (at 89500) 50 1 (sampleRound 31 1 None)],
     votes := map (\<lambda>(slot, sid). newVote (at 89500)
         \<lparr> vi_athlete = RED, vi_matchId = 1, vi_officialSessionId = None, vi_judgeSlot = Some slot,
           vi_sessionId = Some sid \<rparr> (LegacyJudge slot sid) 50) [(JUDGE_1, 1), (JUDGE_2, 2)] \<rparr>"

theorem late_point_missing_from_summary_witness:
  "\<exists>tr d1 res d2 x. evaluateExpiration (at 90000) 1 31 lateDb = Inr (ExpEnded tr, d1) \<and>
     resolveIfDue (at 90500) 1 50 d1 = Inr (Resolved res, d2) \<and> x \<in> set (roundResults d2) \<and>
     judgeBaseForRounds (x_athleteId x) [31] (filter (\<lambda>e. s_matchId e = 1) (scoreEvents d2)) = x_judgePoints x + 1"
proof -
  have "(case evaluateExpiration (at 90000) 1 31 lateDb of Inr (ExpEnded _, _) \<Rightarrow> True | _ \<Rightarrow> False)" by code_simp
  then obtain tr d1 where e: "evaluateExpiration (at 90000) 1 31 lateDb = Inr (ExpEnded tr, d1)"
    by (auto split: sum.splits expiration_decision.splits)
  have "(case evaluateExpiration (at 90000) 1 31 lateDb of Inl _ \<Rightarrow> False | Inr (_, d1) \<Rightarrow>
       list_all (\<lambda>w. w_id w = 50 \<longrightarrow> w_roundId w = Some 31) (windows d1) \<and>
       (case resolveIfDue (at 90500) 1 50 d1 of Inr (Resolved res, d2) \<Rightarrow> rs_winningColor res = Some RED
        | _ \<Rightarrow> False))" by code_simp
  then have w: "\<forall>w \<in> set (windows d1). w_id w = 50 \<longrightarrow> w_roundId w = Some 31"
    and "case resolveIfDue (at 90500) 1 50 d1 of Inr (Resolved res, d2) \<Rightarrow> rs_winningColor res = Some RED
        | _ \<Rightarrow> False" unfolding e by (simp_all add: list_all_iff)
  then obtain res d2 where r: "resolveIfDue (at 90500) 1 50 d1 = Inr (Resolved res, d2)"
    and c: "rs_winningColor res = Some RED"
    by (auto split: sum.splits resolve_decision.splits)
  obtain m where m: "getMatch 1 lateDb = Some m" "m_rulesVersion m = FAULT_APPEAL_OVERTIME_V2"
    by (simp add: getMatch_def lateDb_def sample_defs)
  from late_point_missing_from_summary [OF e m r w c] obtain a x where "x \<in> set (roundResults d2)"
    and "judgeBaseForRounds (x_athleteId x) [31] (filter (\<lambda>e. s_matchId e = 1) (scoreEvents d2)) = x_judgePoints x + 1"
    by auto
  with e r show ?thesis by blast
qed

section \<open>The regulation appeal\<close>

lemma stale_frame [simp]:
  fixes d :: db
  shows "matches (invalidateStaleAppeals ev mid i sid d) = matches d"
    "rounds (invalidateStaleAppeals ev mid i sid d) = rounds d"
    "windows (invalidateStaleAppeals ev mid i sid d) = windows d"
    "roundResults (invalidateStaleAppeals ev mid i sid d) = roundResults d"
    "matchAthletes (invalidateStaleAppeals ev mid i sid d) = matchAthletes d"
    "adjustments (invalidateStaleAppeals ev mid i sid d) = adjustments d"
    "decisions (invalidateStaleAppeals ev mid i sid d) = decisions d"
    "outcomes (invalidateStaleAppeals ev mid i sid d) = outcomes d"
    "publications (invalidateStaleAppeals ev mid i sid d) = publications d"
    "operations (invalidateStaleAppeals ev mid i sid d) = operations d"
    "tournaments (invalidateStaleAppeals ev mid i sid d) = tournaments d"
    "scoreEvents (invalidateStaleAppeals ev mid i sid d) = scoreEvents d"
    "map ap_idempotencyKey (appeals (invalidateStaleAppeals ev mid i sid d)) = map ap_idempotencyKey (appeals d)"
    "map ap_id (appeals (invalidateStaleAppeals ev mid i sid d)) = map ap_id (appeals d)"
  by (simp_all add: invalidateStaleAppeals_def Let_def addAudit_def map_updWhere setAppealMark_def)

lemma verifiedMatch_Inr: "verifiedMatch ev mid i d = Inr m \<Longrightarrow> getMatch mid d = Some m"
  by (auto simp: verifiedMatch_def)

lemma key_absent:
  "List.find (\<lambda>a. ap_idempotencyKey a = Some k) as = None \<longleftrightarrow> Some k \<notin> set (map ap_idempotencyKey as)"
  by (induction as) auto

lemma regulationAppealE:
  assumes "completeRegulationAppeal ev mid i payload sid aid d = Inr (tr, d')"
    and "Some (ai_idempotencyKey payload) \<notin> set (map ap_idempotencyKey (appeals d))"
    and d1: "d1 = invalidateStaleAppeals ev mid i sid d"
  obtains m rs vals red blue where "getMatch mid d = Some m" and "m_rulesVersion m = FAULT_APPEAL_OVERTIME_V2"
    and "m_lifecycle m = IN_PROGRESS" and "m_status m = REGULATION_APPEAL"
    and "regulationInputs mid payload d1 = Inr (rs, vals)" and "scoredOfColor RED vals = Inr red"
    and "scoredOfColor BLUE vals = Inr blue"
    and "commitRegulation ev m i payload aid rs vals red blue d1 = Inr (tr, d')"
proof -
  have "List.find (\<lambda>a. ap_idempotencyKey a = Some (ai_idempotencyKey payload)) (appeals d1) = None"
    using assms(2) by (simp only: key_absent d1 stale_frame not_False_eq_True)
  then show thesis
    using assms(1) that unfolding completeRegulationAppeal_def Let_def d1 [symmetric]
    by (elim inr_elims) (auto dest: verifiedMatch_Inr)
qed

lemma length_two: "length xs = 2 \<Longrightarrow> \<exists>a b. xs = [a, b]"
  by (auto simp: length_Suc_conv numeral_2_eq_2)

lemma two_athletes:
  assumes len: "length (sort_key ma_color (filter (\<lambda>a. ma_matchId a = mid) (matchAthletes d))) = 2"
    and red: "List.find (\<lambda>a. ma_color a = RED) (sort_key ma_color (filter (\<lambda>a. ma_matchId a = mid) (matchAthletes d))) = Some red"
    and blue: "List.find (\<lambda>a. ma_color a = BLUE) (sort_key ma_color (filter (\<lambda>a. ma_matchId a = mid) (matchAthletes d))) = Some blue"
  shows "sort_key ma_color (filter (\<lambda>a. ma_matchId a = mid) (matchAthletes d)) = [red, blue]"
    and "getAthlete mid RED d = Some red" "getAthlete mid BLUE d = Some blue"
proof -
  let ?as = "sort_key ma_color (filter (\<lambda>a. ma_matchId a = mid) (matchAthletes d))"
  from length_two [OF len] obtain a b where ab: "?as = [a, b]" by blast
  have "sorted (map ma_color ?as)" by simp
  then have "ma_color a \<le> ma_color b" by (simp add: ab)
  with red blue show as: "?as = [red, blue]"
    by (auto simp: ab less_eq_side_def split: if_splits)
  have in_as: "x \<in> {red, blue}" if "x \<in> set (matchAthletes d)" "ma_matchId x = mid" for x
  proof -
    from that have "x \<in> set ?as" by simp
    then show ?thesis unfolding as by simp
  qed
  have cs: "ma_color red = RED" "ma_color blue = BLUE" using find_SomeD [OF red] find_SomeD [OF blue] by auto
  have mem: "red \<in> set (matchAthletes d)" "ma_matchId red = mid" "blue \<in> set (matchAthletes d)" "ma_matchId blue = mid"
    using find_SomeD [OF red] find_SomeD [OF blue] by auto
  have "getAthlete mid c d = Some x" if "x \<in> {red, blue}" "ma_color x = c" for c x
  proof -
    from that mem obtain y where y: "getAthlete mid c d = Some y"
      using find_Some_iff_ex [of "\<lambda>a. ma_matchId a = mid \<and> ma_color a = c" "matchAthletes d"]
      by (auto simp: getAthlete_def)
    then have "y \<in> {red, blue}" "ma_color y = c" using in_as by (auto simp: getAthlete_def dest!: find_SomeD)
    with that cs y show ?thesis by auto
  qed
  with cs show "getAthlete mid RED d = Some red" "getAthlete mid BLUE d = Some blue" by auto
qed

lemma find_map_find: "List.find p (map f xs) = map_option f (List.find (p \<circ> f) xs)"
  by (induction xs) auto

lemma regulationInputsE:
  assumes "regulationInputs mid payload d = Inr (rs, vals)" and "scoredOfColor RED vals = Inr sred"
    and "scoredOfColor BLUE vals = Inr sblue"
  obtains red blue where "rs = regulationRounds mid d" and "map r_roundNumber rs = [1, 2]"
    and "getAthlete mid RED d = Some red" and "getAthlete mid BLUE d = Some blue" and "vals = [sred, sblue]"
    and "sred = scoredOf red (summaryBase (ma_id red) (liveSummaries mid (map r_id rs) d)) (ai_RED payload)"
    and "sblue = scoredOf blue (summaryBase (ma_id blue) (liveSummaries mid (map r_id rs) d)) (ai_BLUE payload)"
proof -
  let ?as = "sort_key ma_color (filter (\<lambda>a. ma_matchId a = mid) (matchAthletes d))"
  let ?f = "\<lambda>a. scoredOf a (summaryBase (ma_id a) (liveSummaries mid (map r_id rs) d))
       (suppliedPoints payload (ma_color a))"
  from assms(1) have rs: "rs = regulationRounds mid d" "map r_roundNumber rs = [1, 2]" and len: "length ?as = 2"
    and vals: "vals = map ?f ?as"
    unfolding regulationInputs_def Let_def by (auto split: if_splits)
  have comp: "(\<lambda>s. ma_color (sc_athlete s) = c) \<circ> ?f = (\<lambda>a. ma_color a = c)" for c
    by (auto simp: scoredOf_def)
  from assms(2,3) obtain red blue where f: "List.find (\<lambda>a. ma_color a = RED) ?as = Some red" "sred = ?f red"
    "List.find (\<lambda>a. ma_color a = BLUE) ?as = Some blue" "sblue = ?f blue"
    unfolding scoredOfColor_def vals find_map_find comp by auto
  note two = two_athletes [OF len f(1,3)]
  have "ma_color red = RED" "ma_color blue = BLUE" using find_SomeD [OF f(1)] find_SomeD [OF f(3)] by auto
  then have "sred = scoredOf red (summaryBase (ma_id red) (liveSummaries mid (map r_id rs) d)) (ai_RED payload)"
    "sblue = scoredOf blue (summaryBase (ma_id blue) (liveSummaries mid (map r_id rs) d)) (ai_BLUE payload)"
    by (simp_all add: f suppliedPoints_def)
  moreover have "vals = [sred, sblue]" unfolding vals two(1) f by simp
  ultimately show thesis by (intro that [OF rs two(2,3)])
qed

lemma commitRegulationE:
  assumes "commitRegulation ev m i payload aid rs vals red blue d = Inr (tr, d')"
  obtains "\<forall>a \<in> set (appeals d). \<not> appealConflict a (newAppeal ev aid (m_id m) REGULATION 0 (r_id (rs ! 1))
            (ai_idempotencyKey payload) i)"
    and "appeals d' = appeals d @ [newAppeal ev aid (m_id m) REGULATION 0 (r_id (rs ! 1)) (ai_idempotencyKey payload) i]"
    and "adjustments d' = adjustments d @ map (adjustmentRow aid) vals"
    and "matches d' = matches (setMatch (m_id m) (\<lambda>x. x\<lparr>m_status := appealPhase OVERTIME_READY red blue\<rparr>) d)"
    and "rounds d' = rounds d" and "matchAthletes d' = matchAthletes d"
    and "tr = \<lparr> ra_appealId = aid, ra_matchId = m_id m, ra_matchPublicId = m_publicId m,
             ra_phase = appealPhase OVERTIME_READY red blue, ra_RED = scoreDetail red, ra_BLUE = scoreDetail blue,
             ra_isTie = (sc_final red = sc_final blue) \<rparr>"
  using assms unfolding commitRegulation_def Let_def
  by (elim inr_elims) (auto simp: addAudit_def setMatch_def)

lemma athlete_match: "getAthlete mid c d = Some a \<Longrightarrow> a \<in> set (matchAthletes d) \<and> ma_matchId a = mid \<and> ma_color a = c"
  by (auto simp: getAthlete_def dest!: find_SomeD)

lemma stale_inputs [simp]:
  fixes d :: db
  shows "regulationRounds mid (invalidateStaleAppeals ev mid i sid d) = regulationRounds mid d"
    "liveSummaries mid rids (invalidateStaleAppeals ev mid i sid d) = liveSummaries mid rids d"
    "getAthlete mid c (invalidateStaleAppeals ev mid i sid d) = getAthlete mid c d"
  by (simp_all add: regulationRounds_def liveSummaries_def getAthlete_def)

lemma regulation_appeal_committed:
  assumes "completeRegulationAppeal ev mid i payload sid aid d = Inr (tr, d')"
    and "Some (ai_idempotencyKey payload) \<notin> set (map ap_idempotencyKey (appeals d))"
    and d1: "d1 = invalidateStaleAppeals ev mid i sid d"
  obtains m red blue sred sblue where "getMatch mid d = Some m" and "m_rulesVersion m = FAULT_APPEAL_OVERTIME_V2"
    and "m_lifecycle m = IN_PROGRESS" and "m_status m = REGULATION_APPEAL"
    and "map r_roundNumber (regulationRounds mid d) = [1, 2]"
    and "getAthlete mid RED d = Some red" and "getAthlete mid BLUE d = Some blue"
    and "sred = scoredOf red (summaryBase (ma_id red) (liveSummaries mid (map r_id (regulationRounds mid d)) d)) (ai_RED payload)"
    and "sblue = scoredOf blue (summaryBase (ma_id blue) (liveSummaries mid (map r_id (regulationRounds mid d)) d)) (ai_BLUE payload)"
    and "commitRegulation ev m i payload aid (regulationRounds mid d) [sred, sblue] sred sblue d1 = Inr (tr, d')"
proof -
  from assms obtain m rs vals sred sblue where m: "getMatch mid d = Some m" "m_rulesVersion m = FAULT_APPEAL_OVERTIME_V2"
      "m_lifecycle m = IN_PROGRESS" "m_status m = REGULATION_APPEAL"
    and inp: "regulationInputs mid payload d1 = Inr (rs, vals)" "scoredOfColor RED vals = Inr sred"
      "scoredOfColor BLUE vals = Inr sblue"
    and c: "commitRegulation ev m i payload aid rs vals sred sblue d1 = Inr (tr, d')"
    by (rule regulationAppealE)
  from inp obtain red blue where "rs = regulationRounds mid d1" and "map r_roundNumber rs = [1, 2]"
    and "getAthlete mid RED d1 = Some red" and "getAthlete mid BLUE d1 = Some blue" and "vals = [sred, sblue]"
    and "sred = scoredOf red (summaryBase (ma_id red) (liveSummaries mid (map r_id rs) d1)) (ai_RED payload)"
    and "sblue = scoredOf blue (summaryBase (ma_id blue) (liveSummaries mid (map r_id rs) d1)) (ai_BLUE payload)"
    by (rule regulationInputsE)
  with m c show thesis by (intro that [of m red blue sred sblue]) (simp_all add: d1)
qed

text \<open>C11: A new regulation appeal is only accepted in its phase, with both regulation rounds over.
  Each athlete's final score is the sum of its stored points of the two rounds plus bonus
  minus penalty and never negative; equal scores lead to overtime and different ones to
  publication; both scores are stored with the appeal.\<close>

theorem regulation_appeal_decides_phase:
  assumes c: "completeRegulationAppeal ev mid i payload sid aid d = Inr (tr, d')"
    and key: "Some (ai_idempotencyKey payload) \<notin> set (map ap_idempotencyKey (appeals d))"
    and fresh: "\<forall>x \<in> set (adjustments d). aj_appealId x \<noteq> aid"
  shows "\<exists>m red blue. getMatch mid d = Some m \<and> m_status m = REGULATION_APPEAL \<and>
    getAthlete mid RED d = Some red \<and> getAthlete mid BLUE d = Some blue \<and>
    map r_roundNumber (regulationRounds mid d) = [1, 2] \<and>
    sd_final (ra_RED tr) = max 0 (summaryBase (ma_id red) (liveSummaries mid (map r_id (regulationRounds mid d)) d) +
        bonusPoints (ai_RED payload) - penaltyPoints (ai_RED payload)) \<and>
    sd_final (ra_BLUE tr) = max 0 (summaryBase (ma_id blue) (liveSummaries mid (map r_id (regulationRounds mid d)) d) +
        bonusPoints (ai_BLUE payload) - penaltyPoints (ai_BLUE payload)) \<and>
    ra_phase tr = (if sd_final (ra_RED tr) = sd_final (ra_BLUE tr) then OVERTIME_READY else RESULT_PUBLICATION_READY) \<and>
    getMatch mid d' = Some (m\<lparr>m_status := ra_phase tr\<rparr>) \<and>
    map (\<lambda>x. (aj_athleteId x, aj_finalScore x)) (adjustmentsOf aid d') =
      [(ma_id red, sd_final (ra_RED tr)), (ma_id blue, sd_final (ra_BLUE tr))]"
proof -
  let ?d1 = "invalidateStaleAppeals ev mid i sid d"
  from c key refl obtain m red blue sred sblue where m: "getMatch mid d = Some m" "m_status m = REGULATION_APPEAL"
      "map r_roundNumber (regulationRounds mid d) = [1, 2]"
      "getAthlete mid RED d = Some red" "getAthlete mid BLUE d = Some blue"
    and s: "sred = scoredOf red (summaryBase (ma_id red) (liveSummaries mid (map r_id (regulationRounds mid d)) d)) (ai_RED payload)"
      "sblue = scoredOf blue (summaryBase (ma_id blue) (liveSummaries mid (map r_id (regulationRounds mid d)) d)) (ai_BLUE payload)"
    and k: "commitRegulation ev m i payload aid (regulationRounds mid d) [sred, sblue] sred sblue ?d1 = Inr (tr, d')"
    by (rule regulation_appeal_committed)
  have mid: "m_id m = mid" using getMatch_SomeD [OF m(1)] by simp
  from k have adj: "adjustments d' = adjustments d @ map (adjustmentRow aid) [sred, sblue]"
    and mat: "matches d' = matches (setMatch mid (\<lambda>x. x\<lparr>m_status := appealPhase OVERTIME_READY sred sblue\<rparr>) ?d1)"
    and tr: "ra_phase tr = appealPhase OVERTIME_READY sred sblue" "ra_RED tr = scoreDetail sred" "ra_BLUE tr = scoreDetail sblue"
    by (auto elim!: commitRegulationE simp: mid)
  have "getMatch mid ?d1 = Some m" using m(1) by (simp add: getMatch_def)
  then have g: "getMatch mid d' = Some (m\<lparr>m_status := ra_phase tr\<rparr>)"
    by (simp add: getMatch_cong [OF mat] tr)
  have "adjustmentsOf aid d' = map (adjustmentRow aid) [sred, sblue]"
    using fresh by (simp add: adjustmentsOf_def adj filter_empty_conv adjustmentRow_def)
  with m g show ?thesis
    by (intro exI [of _ m] exI [of _ red] exI [of _ blue])
      (simp add: tr scoreDetail_def s scoredOf_def finalScore_def appealPhase_def adjustmentRow_def)
qed

definition sampleAppeal :: appeal_input where
  "sampleAppeal = \<lparr> ai_RED = \<lparr> bonusPoints = 0, penaltyPoints = 3 \<rparr>, ai_BLUE = \<lparr> bonusPoints = 0, penaltyPoints = 0 \<rparr>,
     ai_idempotencyKey = ''k1'', ai_traceId = None \<rparr>"

theorem regulation_appeal_decides_phase_witness:
  "\<exists>tr d'. completeRegulationAppeal (at 100000) 1 sampleSupervisor sampleAppeal 500 700 appealDb = Inr (tr, d') \<and>
     sd_final (ra_RED tr) = 0 \<and> ra_phase tr = OVERTIME_READY"
proof -
  have "\<not> isl (completeRegulationAppeal (at 100000) 1 sampleSupervisor sampleAppeal 500 700 appealDb)" by code_simp
  then obtain tr d' where c: "completeRegulationAppeal (at 100000) 1 sampleSupervisor sampleAppeal 500 700 appealDb = Inr (tr, d')"
    by (cases "completeRegulationAppeal (at 100000) 1 sampleSupervisor sampleAppeal 500 700 appealDb") auto
  have "Some (ai_idempotencyKey sampleAppeal) \<notin> set (map ap_idempotencyKey (appeals appealDb))"
    "\<forall>x \<in> set (adjustments appealDb). aj_appealId x \<noteq> 700" by (simp_all add: sample_defs)
  note t = regulation_appeal_decides_phase [OF c this]
  have b: "(\<forall>red. getAthlete 1 RED appealDb = Some red \<longrightarrow>
        summaryBase (ma_id red) (liveSummaries 1 (map r_id (regulationRounds 1 appealDb)) appealDb) = 1)"
    "(\<forall>blue. getAthlete 1 BLUE appealDb = Some blue \<longrightarrow>
        summaryBase (ma_id blue) (liveSummaries 1 (map r_id (regulationRounds 1 appealDb)) appealDb) = 0)"
    by (simp_all add: sample_defs getAthlete_def summaryBase_def liveSummaries_def regulationRounds_def)
  from t b show ?thesis using c by (auto simp: sampleAppeal_def)
qed

lemma no_stale_left:
  assumes "a \<in> set (appeals (invalidateStaleAppeals ev mid i sid d))"
  shows "\<not> staleAppeal mid d a"
proof
  assume st: "staleAppeal mid d a"
  let ?ids = "map ap_id (filter (staleAppeal mid d) (appeals d))"
  have "appeals (invalidateStaleAppeals ev mid i sid d) =
      updWhere (\<lambda>x. ap_id x \<in> set ?ids) (setAppealMark (Some (appNow ev), Some sid)) (appeals d)"
    by (cases "filter (staleAppeal mid d) (appeals d) = []")
      (auto simp: invalidateStaleAppeals_def Let_def addAudit_def updWhere_none filter_empty_conv)
  with assms obtain x where x: "x \<in> set (appeals d)"
    "a = (if ap_id x \<in> set ?ids then setAppealMark (Some (appNow ev), Some sid) x else x)"
    by (auto elim: in_set_updWhereE)
  show False
  proof (cases "ap_id x \<in> set ?ids")
    case True
    with x(2) st show False by (simp add: staleAppeal_def setAppealMark_def)
  next
    case False
    with x st show False by auto
  qed
qed

lemma staleAppeal_cong: "rounds d' = rounds d \<Longrightarrow> staleAppeal mid d' = staleAppeal mid d"
  by (rule ext) (simp add: staleAppeal_def)

lemma athleteColor_own:
  assumes "distinct (map ma_id (matchAthletes d))" and "a \<in> set (matchAthletes d)"
  shows "athleteColor (ma_id a) d = Some (ma_color a)"
proof -
  obtain b where b: "List.find (\<lambda>x. ma_id x = ma_id a) (matchAthletes d) = Some b"
    using assms(2) find_Some_iff_ex [of "\<lambda>x. ma_id x = ma_id a" "matchAthletes d"] by auto
  with assms have "b = a" by (metis (mono_tags, lifting) distinct_map find_SomeD inj_onD)
  with b show ?thesis by (simp add: athleteColor_def)
qed

lemma athleteColor_cong: "matchAthletes d' = matchAthletes d \<Longrightarrow> athleteColor a d' = athleteColor a d"
  by (simp add: athleteColor_def)

text \<open>Repeating a completed regulation appeal with the same idempotency key and points, by any
  supervisor who may control the match, returns the same answer and changes nothing.\<close>

theorem regulation_appeal_replayed:
  assumes c: "completeRegulationAppeal ev mid i payload sid aid d = Inr (tr, d')"
    and key: "Some (ai_idempotencyKey payload) \<notin> set (map ap_idempotencyKey (appeals d))"
    and fresh: "\<forall>x \<in> set (adjustments d). aj_appealId x \<noteq> aid"
    and ids: "distinct (map ma_id (matchAthletes d))" "distinct (map r_id (rounds d))"
    and auth: "lockAndVerify ev' mid i' AppealIdentity d' = Inr ()"
  shows "completeRegulationAppeal ev' mid i' payload sid' aid' d' = Inr (tr, d')"
proof -
  let ?d1 = "invalidateStaleAppeals ev mid i sid d"
  from c key refl obtain m red blue sred sblue where m: "getMatch mid d = Some m"
      "map r_roundNumber (regulationRounds mid d) = [1, 2]"
      "getAthlete mid RED d = Some red" "getAthlete mid BLUE d = Some blue"
    and s: "sred = scoredOf red (summaryBase (ma_id red) (liveSummaries mid (map r_id (regulationRounds mid d)) d)) (ai_RED payload)"
      "sblue = scoredOf blue (summaryBase (ma_id blue) (liveSummaries mid (map r_id (regulationRounds mid d)) d)) (ai_BLUE payload)"
    and k: "commitRegulation ev m i payload aid (regulationRounds mid d) [sred, sblue] sred sblue ?d1 = Inr (tr, d')"
    by (rule regulation_appeal_committed)
  have mid: "m_id m = mid" using getMatch_SomeD [OF m(1)] by simp
  define new where "new = newAppeal ev aid mid REGULATION 0 (r_id (regulationRounds mid d ! 1)) (ai_idempotencyKey payload) i"
  from k have adj: "adjustments d' = adjustments d @ map (adjustmentRow aid) [sred, sblue]"
    and mat: "matches d' = matches (setMatch mid (\<lambda>x. x\<lparr>m_status := appealPhase OVERTIME_READY sred sblue\<rparr>) ?d1)"
    and app: "appeals d' = appeals ?d1 @ [new]" and rs: "rounds d' = rounds d" "matchAthletes d' = matchAthletes d"
    and tr: "tr = \<lparr> ra_appealId = aid, ra_matchId = mid, ra_matchPublicId = m_publicId m,
             ra_phase = appealPhase OVERTIME_READY sred sblue, ra_RED = scoreDetail sred, ra_BLUE = scoreDetail sblue,
             ra_isTie = (sc_final sred = sc_final sblue) \<rparr>"
    by (auto elim!: commitRegulationE simp: mid new_def)
  have "getMatch mid ?d1 = Some m" using m(1) by (simp add: getMatch_def)
  then have g: "getMatch mid d' = Some (m\<lparr>m_status := appealPhase OVERTIME_READY sred sblue\<rparr>)"
    by (simp add: getMatch_cong [OF mat])
  have "length (regulationRounds mid d) = 2" using arg_cong [OF m(2), of length] by simp
  then have "regulationRounds mid d ! 1 \<in> set (regulationRounds mid d)" by (intro nth_mem) simp
  then have src: "regulationRounds mid d ! 1 \<in> set (rounds d)" "r_invalidatedAt (regulationRounds mid d ! 1) = None"
    by (simp_all add: regulationRounds_def)
  have "\<not> staleAppeal mid d new"
    using src ids(2) by (auto simp: staleAppeal_def new_def newAppeal_def distinct_map dest!: inj_onD)
  then have "filter (staleAppeal mid d') (appeals d') = []"
    by (auto simp: app staleAppeal_cong [OF rs(1)] filter_empty_conv dest: no_stale_left)
  then have same: "invalidateStaleAppeals ev' mid i' sid' d' = d'"
    by (simp add: invalidateStaleAppeals_def)
  have find: "List.find (\<lambda>a. ap_idempotencyKey a = Some (ai_idempotencyKey payload)) (appeals d') = Some new"
    unfolding app
  proof (rule find_appended)
    fix a assume "a \<in> set (appeals ?d1)"
    then have "ap_idempotencyKey a \<in> set (map ap_idempotencyKey (appeals ?d1))" by (simp only: set_map imageI)
    with key show "ap_idempotencyKey a \<noteq> Some (ai_idempotencyKey payload)" by (simp only: stale_frame) auto
  qed (simp add: new_def newAppeal_def)
  note a = m(3) [THEN athlete_match] m(4) [THEN athlete_match]
  have col: "athleteColor (ma_id red) d' = Some RED" "athleteColor (ma_id blue) d' = Some BLUE"
    using a athleteColor_own [OF ids(1)] by (auto simp: athleteColor_cong [OF rs(2)])
  have of: "adjustmentsOf aid d' = map (adjustmentRow aid) [sred, sblue]"
    using fresh by (simp add: adjustmentsOf_def adj filter_empty_conv adjustmentRow_def)
  have "replayRegulation new payload (m\<lparr>m_status := appealPhase OVERTIME_READY sred sblue\<rparr>) d' = Some tr"
    by (simp add: replayRegulation_def adjustmentByColor_def new_def newAppeal_def of col s scoredOf_def adjustmentRow_def
        samePoints_def tr scoreDetail_def adjustmentDetail_def)
  with auth g same find show ?thesis
    by (simp add: completeRegulationAppeal_def verifiedMatch_def)
qed

theorem regulation_appeal_replayed_witness:
  "\<exists>tr d'. completeRegulationAppeal (at 100000) 1 sampleSupervisor sampleAppeal 500 700 appealDb = Inr (tr, d') \<and>
     completeRegulationAppeal (at 110000) 1 sampleSupervisor sampleAppeal 501 701 d' = Inr (tr, d')"
proof -
  have "(case completeRegulationAppeal (at 100000) 1 sampleSupervisor sampleAppeal 500 700 appealDb of Inl _ \<Rightarrow> False
     | Inr (_, d') \<Rightarrow> \<not> isl (lockAndVerify (at 110000) 1 sampleSupervisor AppealIdentity d'))" by code_simp
  then obtain tr d' x where c: "completeRegulationAppeal (at 100000) 1 sampleSupervisor sampleAppeal 500 700 appealDb = Inr (tr, d')"
    and v: "lockAndVerify (at 110000) 1 sampleSupervisor AppealIdentity d' = Inr x" by (rule case_sum_pairE)
  have h: "Some (ai_idempotencyKey sampleAppeal) \<notin> set (map ap_idempotencyKey (appeals appealDb))"
    "\<forall>x \<in> set (adjustments appealDb). aj_appealId x \<noteq> 700"
    "distinct (map ma_id (matchAthletes appealDb))" "distinct (map r_id (rounds appealDb))"
    by (simp_all add: sample_defs)
  from v have "lockAndVerify (at 110000) 1 sampleSupervisor AppealIdentity d' = Inr ()" by simp
  from regulation_appeal_replayed [OF c h this] c show ?thesis by blast
qed

section \<open>Publication\<close>

lemma selectWinnerE:
  assumes "selectWinner mid a d = Inr (c, aid, meth)"
  obtains x y where "adjustmentsOf (ap_id a) d = [x, y]"
    and "aj_finalScore x = aj_finalScore y \<Longrightarrow> ap_scope a = OVERTIME \<and> meth = MANUAL_AFTER_OVERTIME_TIE \<and>
      (\<exists>q \<in> set (decisions d). d_matchId q = mid \<and> d_sourceAppealId q = ap_id a \<and> d_invalidatedAt q = None \<and>
         d_winnerColor q = c \<and> d_winnerAthleteId q = aid)"
    and "aj_finalScore x \<noteq> aj_finalScore y \<Longrightarrow>
      meth = (if ap_scope a = REGULATION then REGULATION_SCORE else OVERTIME_SCORE) \<and>
      aid = aj_athleteId (if aj_finalScore x > aj_finalScore y then x else y) \<and> athleteColor aid d = Some c"
proof -
  obtain x y where xy: "adjustmentsOf (ap_id a) d = [x, y]"
    using assms unfolding selectWinner_def by (auto split: list.splits)
  show thesis
    using assms unfolding selectWinner_def xy list.case Let_def
    by (intro that [OF xy]) (auto simp: split: option.splits if_splits dest!: find_SomeD)
qed

lemma publishE:
  assumes p: "publish sha ev mid i key trace d = Inr (resp, d')"
    and new: "\<forall>p \<in> set (publications d). \<not> (pb_matchId p = mid \<and> pb_idempotencyKey p = key)"
  obtains m a win where "getMatch mid d = Some m" and "m_rulesVersion m = FAULT_APPEAL_OVERTIME_V2"
    and "m_status m = RESULT_PUBLICATION_READY" and "m_lifecycle m = IN_PROGRESS"
    and "publishableAppeal mid d = Some a" and "selectWinner mid a d = Inr win"
    and "commitPublication ev m i key (publicationFingerprint sha trace) trace a win d = Inr (resp, d')"
proof -
  have "List.find (\<lambda>p. pb_matchId p = mid \<and> pb_idempotencyKey p = key) (publications d) = None"
    using new by (auto simp: find_None_iff)
  with p show thesis unfolding publish_def Let_def
    by (simp only: option.case, elim inr_elims) (auto intro: that dest: verifiedMatch_Inr)
qed

lemma commitPublicationE:
  assumes "commitPublication ev m i key fp trace a (c, aid, meth) d = Inr (resp, d')"
  obtains "\<forall>x \<in> set (outcomes d). \<not> outcomeConflict x (outcomeRow ev (m_id m) i a c aid meth)"
    and "outcomes d' = outcomes d @ [outcomeRow ev (m_id m) i a c aid meth]"
    and "matches d' = matches (setMatch (m_id m) (\<lambda>x. x\<lparr>m_status := FINISHED, m_lifecycle := LC_COMPLETED,
                 m_finishedAt := Some (appNow ev)\<rparr>) d)"
    and "pr_winner resp = c" and "pr_method resp = meth" and "pr_finishedAt resp = appNow ev"
    and "publications d' = publications d @ [\<lparr> pb_matchId = m_id m, pb_idempotencyKey = key, pb_fingerprint = fp,
           pb_response = resp, pb_createdAt = txNow ev \<rparr>]"
    and "appeals d' = appeals d" and "operations d' = operations d" and "rounds d' = rounds d"
    and "windows d' = windows d"
proof -
  let ?o = "outcomeRow ev (m_id m) i a c aid meth"
  let ?d1 = "setMatch (m_id m) (\<lambda>x. x\<lparr>m_status := FINISHED, m_lifecycle := LC_COMPLETED,
                 m_finishedAt := Some (appNow ev)\<rparr>) (d\<lparr>outcomes := outcomes d @ [?o]\<rparr>)"
  from assms obtain d2 ids d3 au where o: "\<forall>x \<in> set (outcomes d). \<not> outcomeConflict x ?o"
    and p: "processFinishedMatch ev (m_id m) (Some c) ?d1 = Inr d2"
    and r: "releaseForTransition i RESULT_PUBLICATION_READY FINISHED (m_id m) (appNow ev) None d2 = (ids, d3)"
    and resp: "resp = \<lparr> pr_matchId = m_id m, pr_matchPublicId = m_publicId m,
             pr_tournamentId = m_tournamentId m, pr_releasedOfficialIds = ids, pr_winner = c,
             pr_method = meth, pr_finishedAt = appNow ev \<rparr>"
    and d': "(addAudit au d3)\<lparr>publications := publications d3 @ [\<lparr> pb_matchId = m_id m, pb_idempotencyKey = key,
           pb_fingerprint = fp, pb_response = resp, pb_createdAt = txNow ev \<rparr>]\<rparr> = d'"
    unfolding commitPublication_def Let_def by (elim inr_elims) (auto simp: addAudit_def)
  note f2 = noBracketsD [OF processFinished_noBrackets [OF p]] and f3 = noCrewD [OF release_noCrew [OF r]]
  show thesis
    by (rule that) (use o in \<open>simp_all add: resp f2 f3 addAudit_def setMatch_def flip: d'\<close>)
qed

text \<open>C9: A publication names the athlete with the strictly higher final score of the latest live
  appeal; a tie is only published after an overtime appeal and then names the winner the
  supervisor selected for it. The match is finished, it had no outcome before, and repeating
  the publication with its key and trace id returns the same answer and changes nothing,
  whoever asks.\<close>

theorem published_winner_leads_or_was_selected:
  assumes p: "publish sha ev mid i key trace d = Inr (resp, d')"
    and new: "\<forall>p \<in> set (publications d). \<not> (pb_matchId p = mid \<and> pb_idempotencyKey p = key)"
  shows "\<exists>m a x y. getMatch mid d = Some m \<and> m_status m = RESULT_PUBLICATION_READY \<and>
    getMatch mid d' = Some (m\<lparr>m_status := FINISHED, m_lifecycle := LC_COMPLETED, m_finishedAt := Some (appNow ev)\<rparr>) \<and>
    publishableAppeal mid d = Some a \<and> adjustmentsOf (ap_id a) d = [x, y] \<and>
    (if aj_finalScore x = aj_finalScore y
     then ap_scope a = OVERTIME \<and> pr_method resp = MANUAL_AFTER_OVERTIME_TIE \<and>
       (\<exists>q \<in> set (decisions d). d_matchId q = mid \<and> d_sourceAppealId q = ap_id a \<and> d_invalidatedAt q = None \<and>
          d_winnerColor q = pr_winner resp)
     else pr_method resp = (if ap_scope a = REGULATION then REGULATION_SCORE else OVERTIME_SCORE) \<and>
       athleteColor (aj_athleteId (if aj_finalScore x > aj_finalScore y then x else y)) d = Some (pr_winner resp)) \<and>
    (\<forall>z \<in> set (outcomes d). o_matchId z \<noteq> mid) \<and>
    map (\<lambda>z. (o_matchId z, o_winnerColor z, o_method z)) (outcomes d') =
      map (\<lambda>z. (o_matchId z, o_winnerColor z, o_method z)) (outcomes d) @ [(mid, pr_winner resp, pr_method resp)] \<and>
    (\<forall>ev' i'. publish sha ev' mid i' key trace d' = Inr (resp, d'))"
proof -
  from p new obtain m a win where m: "getMatch mid d = Some m" "m_status m = RESULT_PUBLICATION_READY"
    and a: "publishableAppeal mid d = Some a" and w: "selectWinner mid a d = Inr win"
    and k: "commitPublication ev m i key (publicationFingerprint sha trace) trace a win d = Inr (resp, d')"
    by (rule publishE)
  obtain c aid meth where win: "win = (c, aid, meth)" by (cases win)
  have mid: "m_id m = mid" using getMatch_SomeD [OF m(1)] by simp
  from k have out: "\<forall>x \<in> set (outcomes d). \<not> outcomeConflict x (outcomeRow ev mid i a c aid meth)"
      "outcomes d' = outcomes d @ [outcomeRow ev mid i a c aid meth]"
    and mat: "matches d' = matches (setMatch mid (\<lambda>x. x\<lparr>m_status := FINISHED, m_lifecycle := LC_COMPLETED,
                 m_finishedAt := Some (appNow ev)\<rparr>) d)"
    and resp: "pr_winner resp = c" "pr_method resp = meth"
    and pub: "publications d' = publications d @ [\<lparr> pb_matchId = mid, pb_idempotencyKey = key,
           pb_fingerprint = publicationFingerprint sha trace, pb_response = resp, pb_createdAt = txNow ev \<rparr>]"
    unfolding win by (auto elim!: commitPublicationE simp: mid)
  have g: "getMatch mid d' = Some (m\<lparr>m_status := FINISHED, m_lifecycle := LC_COMPLETED, m_finishedAt := Some (appNow ev)\<rparr>)"
    using m(1) by (simp add: getMatch_cong [OF mat])
  have "List.find (\<lambda>p. pb_matchId p = mid \<and> pb_idempotencyKey p = key) (publications d') =
      Some \<lparr> pb_matchId = mid, pb_idempotencyKey = key,
           pb_fingerprint = publicationFingerprint sha trace, pb_response = resp, pb_createdAt = txNow ev \<rparr>"
    unfolding pub by (rule find_appended) (use new in auto)
  then have again: "publish sha ev' mid i' key trace d' = Inr (resp, d')" for ev' i'
    by (simp add: publish_def Let_def)
  have only: "\<forall>z \<in> set (outcomes d). o_matchId z \<noteq> mid"
    using out(1) by (auto simp: outcomeConflict_def outcomeRow_def)
  from w show ?thesis unfolding win
  proof (rule selectWinnerE)
    fix x y assume xy: "adjustmentsOf (ap_id a) d = [x, y]"
      and tie: "aj_finalScore x = aj_finalScore y \<Longrightarrow> ap_scope a = OVERTIME \<and> meth = MANUAL_AFTER_OVERTIME_TIE \<and>
      (\<exists>q \<in> set (decisions d). d_matchId q = mid \<and> d_sourceAppealId q = ap_id a \<and> d_invalidatedAt q = None \<and>
         d_winnerColor q = c \<and> d_winnerAthleteId q = aid)"
      and lead: "aj_finalScore x \<noteq> aj_finalScore y \<Longrightarrow>
      meth = (if ap_scope a = REGULATION then REGULATION_SCORE else OVERTIME_SCORE) \<and>
      aid = aj_athleteId (if aj_finalScore x > aj_finalScore y then x else y) \<and> athleteColor aid d = Some c"
    show ?thesis
      using m g a xy only again tie lead resp
      by (intro exI [of _ m] exI [of _ a] exI [of _ x] exI [of _ y]) (auto simp: out(2) outcomeRow_def)
  qed
qed

definition leadAppeal :: appeal_input where
  "leadAppeal = sampleAppeal\<lparr>ai_RED := \<lparr> bonusPoints = 2, penaltyPoints = 1 \<rparr>\<rparr>"

theorem published_winner_leads_or_was_selected_witness:
  "\<exists>tr d resp d'. completeRegulationAppeal (at 100000) 1 sampleSupervisor leadAppeal 500 700 appealDb = Inr (tr, d) \<and>
     publish (\<lambda>_. ''digest'') (at 110000) 1 sampleSupervisor ''p1'' None d = Inr (resp, d') \<and>
     filter (\<lambda>z. o_matchId z = 1) (outcomes d) = [] \<and>
     publish (\<lambda>_. ''digest'') (at 120000) 1 sampleSupervisor ''p1'' None d' = Inr (resp, d')"
proof -
  have "(case completeRegulationAppeal (at 100000) 1 sampleSupervisor leadAppeal 500 700 appealDb of Inl _ \<Rightarrow> False
     | Inr (_, d) \<Rightarrow> \<not> isl (publish (\<lambda>_. ''digest'') (at 110000) 1 sampleSupervisor ''p1'' None d))" by code_simp
  then obtain tr d x where c: "completeRegulationAppeal (at 100000) 1 sampleSupervisor leadAppeal 500 700 appealDb = Inr (tr, d)"
    and "publish (\<lambda>_. ''digest'') (at 110000) 1 sampleSupervisor ''p1'' None d = Inr x" by (rule case_sum_pairE)
  then obtain resp d' where p: "publish (\<lambda>_. ''digest'') (at 110000) 1 sampleSupervisor ''p1'' None d = Inr (resp, d')"
    by (cases x) auto
  have "(case completeRegulationAppeal (at 100000) 1 sampleSupervisor leadAppeal 500 700 appealDb of Inl _ \<Rightarrow> False
     | Inr (_, d) \<Rightarrow> publications d = [])" by code_simp
  then have "\<forall>p \<in> set (publications d). \<not> (pb_matchId p = 1 \<and> pb_idempotencyKey p = ''p1'')"
    unfolding c by simp
  from published_winner_leads_or_was_selected [OF p this] c p show ?thesis by (auto simp: filter_empty_conv)
qed

end
