(* ===== verification/Staffing.thy ===== *)
theory Staffing
  imports Match_Lifecycle
begin

text \<open>
  \<open>match-official-assignments/match-official-assignments.service.ts\<close>: an inspector takes a
  match together with its referee team, changes the team before the start, or releases it.
  Writes to the assignment table pass the row trigger \<open>validate_match_official_assignment\<close>
  (last version in \<open>prisma/migrations/20260928230000_official_role_judge_supervisor_rename\<close>)
  and the three partial unique indexes. A row trigger sees the rows its own statement has
  already changed; a statement visits rows in the order of the list. Socket publication is
  left out; new ids come from the argument \<open>newId\<close>.
\<close>

record official_identity =
  oi_sessionId :: uuid
  oi_officialId :: uuid
  oi_tournamentId :: uuid
  oi_role :: match_role

section \<open>The trigger on the assignment table\<close>

definition validAssignment :: "official_row list \<Rightarrow> assignment_row list \<Rightarrow> assignment_row \<Rightarrow> bool" where
  "validAssignment offs rows new \<longleftrightarrow>
     (case List.find (\<lambda>x. of_id x = as_officialId new) offs of
        None \<Rightarrow> False
      | Some x \<Rightarrow> of_tournamentId x = as_tournamentId new \<and> of_role x = as_role new) \<and>
     (if as_role new = SUPERVISOR then as_assignedBySupervisorId new = None
      else case as_assignedBySupervisorId new of
        None \<Rightarrow> False
      | Some s \<Rightarrow> \<exists>a \<in> set rows. as_matchId a = as_matchId new \<and> as_tournamentId a = as_tournamentId new \<and>
                    as_officialId a = s \<and> as_role a = SUPERVISOR \<and> as_releasedAt a = None)"

fun guardedUpdate ::
  "official_row list \<Rightarrow> (assignment_row \<Rightarrow> bool) \<Rightarrow> (assignment_row \<Rightarrow> assignment_row)
   \<Rightarrow> assignment_row list \<Rightarrow> assignment_row list \<Rightarrow> match_error + assignment_row list" where
  "guardedUpdate offs p f done [] = Inr done"
| "guardedUpdate offs p f done (x # xs) =
     (if p x
      then (if validAssignment offs (done @ x # xs) (f x)
            then guardedUpdate offs p f (done @ [f x]) xs else Inl CheckViolation)
      else guardedUpdate offs p f (done @ [x]) xs)"

definition updateAssignments ::
  "(assignment_row \<Rightarrow> bool) \<Rightarrow> (assignment_row \<Rightarrow> assignment_row) \<Rightarrow> db \<Rightarrow> match_error + db" where
  "updateAssignments p f d =
     bindR (guardedUpdate (officials d) p f [] (assignments d)) (\<lambda>rows. Inr (d\<lparr>assignments := rows\<rparr>))"

fun insertAssignments :: "assignment_row list \<Rightarrow> db \<Rightarrow> match_error + db" where
  "insertAssignments [] d = Inr d"
| "insertAssignments (r # rs) d =
     (if \<not> validAssignment (officials d) (assignments d) r then Inl CheckViolation
      else bindR (insertUnique assignmentConflict r (assignments d)) (\<lambda>rows.
           insertAssignments rs (d\<lparr>assignments := rows\<rparr>)))"

section \<open>Checks\<close>

definition supervisor :: "official_identity \<Rightarrow> match_error + unit" where
  "supervisor identity = (if oi_role identity \<noteq> SUPERVISOR then Inl SupervisorRequired else Inr ())"

definition requireActiveInspector :: "official_identity \<Rightarrow> db \<Rightarrow> match_error + unit" where
  "requireActiveInspector identity d =
     (if \<exists>x \<in> set (officials d). of_id x = oi_officialId identity \<and>
           of_tournamentId x = oi_tournamentId identity \<and> of_role x = SUPERVISOR \<and> of_isActive x
      then Inr () else Inl OfficialInactive)"

definition tournamentOpen :: "uuid \<Rightarrow> db \<Rightarrow> bool" where
  "tournamentOpen tid d \<longleftrightarrow> (\<exists>t \<in> set (tournaments d). t_id t = tid \<and> t_softDeletedAt t = None \<and>
     t_status t \<noteq> T_ARCHIVED)"

definition activeMatch :: "uuid \<Rightarrow> uuid \<Rightarrow> db \<Rightarrow> match_error + match_row" where
  "activeMatch mid tid d =
     orThrow (List.find (\<lambda>m. m_id m = mid \<and> m_tournamentId m = tid \<and> m_status m = WAITING \<and>
       m_startedAt m = None \<and> tournamentOpen tid d) (matches d)) MatchAssignmentLocked"

definition claimableMatch :: "uuid \<Rightarrow> uuid \<Rightarrow> db \<Rightarrow> match_error + match_row" where
  "claimableMatch mid tid d =
     orThrow (List.find (\<lambda>m. m_id m = mid \<and> m_tournamentId m = tid \<and>
       m_lifecycle m \<in> {NOT_STARTED, SUSPENDED} \<and> tournamentOpen tid d) (matches d)) MatchLifecycleMismatch"

definition activeCrew :: "uuid \<Rightarrow> db \<Rightarrow> assignment_row list" where
  "activeCrew mid d = filter (\<lambda>a. as_matchId a = mid \<and> as_releasedAt a = None) (assignments d)"

definition positionOf :: "assignment_row \<Rightarrow> nat" where
  "positionOf a = (case as_judgePosition a of None \<Rightarrow> 0 | Some n \<Rightarrow> n)"

definition requestedTeam :: "uuid list \<Rightarrow> (uuid \<times> nat) list" where
  "requestedTeam judgeIds = zip judgeIds [1..<Suc (length judgeIds)]"

definition checkJudges :: "uuid list \<Rightarrow> uuid \<Rightarrow> db \<Rightarrow> match_error + unit" where
  "checkJudges judgeIds tid d =
     (let offs = filter (\<lambda>x. of_id x \<in> set judgeIds) (officials d) in
      if length offs \<noteq> length judgeIds \<or> (\<exists>x \<in> set offs. of_tournamentId x \<noteq> tid)
      then Inl OfficialTournamentMismatch
      else case List.find (\<lambda>x. of_role x \<noteq> JUDGE) offs of
        Some x \<Rightarrow> Inl (JudgeNotAvailable (of_id x))
      | None \<Rightarrow> (case List.find (\<lambda>x. \<not> of_isActive x) offs of
          Some x \<Rightarrow> Inl (JudgeInactive (of_id x))
        | None \<Rightarrow> Inr ()))"

definition supervisorRow :: "uuid \<Rightarrow> match_row \<Rightarrow> official_identity \<Rightarrow> assignment_row" where
  "supervisorRow aid m identity =
     \<lparr> as_id = aid, as_matchId = m_id m, as_tournamentId = m_tournamentId m,
       as_officialId = oi_officialId identity, as_role = SUPERVISOR, as_judgePosition = None,
       as_assignedBySupervisorId = None, as_releasedAt = None, as_releaseReason = None \<rparr>"

definition judgeRow :: "uuid \<Rightarrow> match_row \<Rightarrow> official_identity \<Rightarrow> uuid \<times> nat \<Rightarrow> assignment_row" where
  "judgeRow aid m identity req =
     \<lparr> as_id = aid, as_matchId = m_id m, as_tournamentId = m_tournamentId m,
       as_officialId = fst req, as_role = JUDGE, as_judgePosition = Some (snd req),
       as_assignedBySupervisorId = Some (oi_officialId identity), as_releasedAt = None,
       as_releaseReason = None \<rparr>"

definition judgeRows ::
  "(nat \<Rightarrow> uuid) \<Rightarrow> match_row \<Rightarrow> official_identity \<Rightarrow> (uuid \<times> nat) list \<Rightarrow> assignment_row list" where
  "judgeRows newId m identity reqs = map (\<lambda>r. judgeRow (newId (snd r)) m identity r) reqs"

definition staffAudit :: "audit_event \<Rightarrow> uuid \<Rightarrow> official_identity \<Rightarrow> (string \<times> jval) list \<Rightarrow> audit_row" where
  "staffAudit event mid identity meta =
     \<lparr> a_id = None, a_eventType = event, a_matchId = Some mid, a_adminUserId = None, a_sessionId = None,
       a_officialSessionId = Some (oi_sessionId identity), a_metadata = JObj meta \<rparr>"

definition teamJson :: "(uuid \<times> nat) list \<Rightarrow> jval" where
  "teamJson reqs = JList (map (\<lambda>(oid, n). JObj [(''officialId'', JId oid), (''judgePosition'', JInt (int n))]) reqs)"

definition assignmentPair :: "assignment_row \<Rightarrow> uuid \<times> nat" where
  "assignmentPair a = (as_officialId a, positionOf a)"

section \<open>Reading\<close>

definition listClaimable :: "official_identity \<Rightarrow> db \<Rightarrow> match_error + (match_row \<times> bool) list" where
  "listClaimable identity d =
     bindR (supervisor identity) (\<lambda>_.
     Inr (map (\<lambda>m. (m, \<not> (\<exists>a \<in> set (activeCrew (m_id m) d). as_role a = SUPERVISOR) \<or>
              (\<exists>a \<in> set (activeCrew (m_id m) d). as_officialId a = oi_officialId identity)))
       (filter (\<lambda>m. m_tournamentId m = oi_tournamentId identity \<and>
          m_lifecycle m \<in> {NOT_STARTED, SUSPENDED} \<and> tournamentOpen (oi_tournamentId identity) d)
          (matches d))))"

datatype official_status = OS_DISABLED | OS_IN_MATCH "uuid option" | OS_READY

definition officialStatus :: "official_row \<Rightarrow> bool \<Rightarrow> db \<Rightarrow> official_status" where
  "officialStatus x discloseMatch d =
     (let mine = filter (\<lambda>a. as_officialId a = of_id x \<and> as_releasedAt a = None) (assignments d) in
      if \<not> of_isActive x then OS_DISABLED
      else case mine of
        a # _ \<Rightarrow> OS_IN_MATCH (if discloseMatch then Some (as_matchId a) else None)
      | [] \<Rightarrow> OS_READY)"

definition assertActiveSupervisorAssignment ::
  "uuid \<Rightarrow> official_identity \<Rightarrow> db \<Rightarrow> match_error + unit" where
  "assertActiveSupervisorAssignment mid identity d =
     bindR (supervisor identity) (\<lambda>_.
     if \<exists>a \<in> set (assignments d). as_matchId a = mid \<and> as_officialId a = oi_officialId identity \<and>
          as_releasedAt a = None \<and> as_role a = SUPERVISOR \<and> as_tournamentId a = oi_tournamentId identity
     then Inr () else Inl SupervisorNotMatchOwner)"

section \<open>Taking a match\<close>

definition sameTeam :: "uuid list \<Rightarrow> official_identity \<Rightarrow> assignment_row list \<Rightarrow> bool" where
  "sameTeam judgeIds identity crew \<longleftrightarrow>
     map_option as_officialId (List.find (\<lambda>a. as_role a = SUPERVISOR) crew) = Some (oi_officialId identity) \<and>
     map (\<lambda>a. (as_officialId a, as_judgePosition a))
       (sort_key positionOf (filter (\<lambda>a. as_role a = JUDGE) crew)) =
     map (\<lambda>(oid, n). (oid, Some n)) (requestedTeam judgeIds)"

definition takeChecks ::
  "uuid list \<Rightarrow> official_identity \<Rightarrow> assignment_row list \<Rightarrow> db \<Rightarrow> match_error + unit" where
  "takeChecks judgeIds identity crew d =
     (case List.find (\<lambda>a. as_role a = SUPERVISOR) crew of
        Some a \<Rightarrow> Inl (MatchAlreadyClaimed (as_officialId a))
      | None \<Rightarrow>
     if crew \<noteq> [] then Inl StaleAssignmentSelection
     else case List.find (\<lambda>a. as_officialId a = oi_officialId identity \<and> as_releasedAt a = None) (assignments d) of
        Some a \<Rightarrow> Inl (SupervisorAlreadyInMatch (as_matchId a))
      | None \<Rightarrow>
     bindR (checkJudges judgeIds (oi_tournamentId identity) d) (\<lambda>_.
     case List.find (\<lambda>a. as_officialId a \<in> set judgeIds \<and> as_releasedAt a = None) (assignments d) of
        Some a \<Rightarrow> Inl (JudgeAlreadyInMatch (as_officialId a) (as_matchId a))
      | None \<Rightarrow> Inr ()))"

definition takeMatch ::
  "uuid \<Rightarrow> uuid list \<Rightarrow> official_identity \<Rightarrow> (nat \<Rightarrow> uuid) \<Rightarrow> db \<Rightarrow> match_error + (bool \<times> db)" where
  "takeMatch mid judgeIds identity newId d =
     bindR (supervisor identity) (\<lambda>_.
     if \<not> distinct judgeIds then Inl JudgeCountMismatch
     else bindR (claimableMatch mid (oi_tournamentId identity) d) (\<lambda>m.
     bindR (requireActiveInspector identity d) (\<lambda>_.
     if length judgeIds \<noteq> m_requiredJudgeCount m then Inl JudgeCountMismatch
     else let crew = activeCrew mid d in
     if sameTeam judgeIds identity crew then Inr (False, d)
     else bindR (takeChecks judgeIds identity crew d) (\<lambda>_.
     bindR (insertAssignments (supervisorRow (newId 0) m identity #
              judgeRows newId m identity (requestedTeam judgeIds)) d) (\<lambda>d1.
     let d2 = (if m_lifecycle m = SUSPENDED
               then setMatch mid (\<lambda>x. x\<lparr>m_lifecycle := IN_PROGRESS, m_suspendedAt := None\<rparr>) d1 else d1) in
     Inr (True, addAudit (staffAudit MATCH_OFFICIAL_ASSIGNMENT_CONFIRMED mid identity
       [(''inspectorId'', JId (oi_officialId identity)), (''referees'', teamJson (requestedTeam judgeIds)),
        (''priorLifecycle'', JLifecycle (m_lifecycle m)),
        (''resumed'', JBool (m_lifecycle m = SUSPENDED))]) d2))))))"

definition claim :: "official_identity \<Rightarrow> match_error + unit" where
  "claim identity = bindR (supervisor identity) (\<lambda>_. Inl AtomicTakeRequired)"

section \<open>Changing and releasing a team\<close>

definition ownsMatch :: "uuid \<Rightarrow> official_identity \<Rightarrow> db \<Rightarrow> match_error + unit" where
  "ownsMatch mid identity d =
     (if \<exists>a \<in> set (assignments d). as_matchId a = mid \<and> as_officialId a = oi_officialId identity \<and>
           as_role a = SUPERVISOR \<and> as_releasedAt a = None
      then Inr () else Inl SupervisorNotMatchOwner)"

definition confirmGuards ::
  "uuid \<Rightarrow> uuid list \<Rightarrow> official_identity \<Rightarrow> db \<Rightarrow> match_error + match_row" where
  "confirmGuards mid judgeIds identity d =
     bindR (supervisor identity) (\<lambda>_.
     if \<not> distinct judgeIds then Inl JudgeCountMismatch
     else bindR (activeMatch mid (oi_tournamentId identity) d) (\<lambda>m.
     bindR (requireActiveInspector identity d) (\<lambda>_.
     if length judgeIds \<noteq> m_requiredJudgeCount m then Inl JudgeCountMismatch
     else bindR (ownsMatch mid identity d) (\<lambda>_.
     bindR (checkJudges judgeIds (oi_tournamentId identity) d) (\<lambda>_.
     case List.find (\<lambda>a. as_officialId a \<in> set judgeIds \<and> as_releasedAt a = None \<and> as_matchId a \<noteq> mid)
            (assignments d) of
       Some a \<Rightarrow> Inl (JudgeAlreadyInMatch (as_officialId a) (as_matchId a))
     | None \<Rightarrow> Inr m)))))"

definition confirmTeam ::
  "env \<Rightarrow> uuid \<Rightarrow> uuid list \<Rightarrow> official_identity \<Rightarrow> (nat \<Rightarrow> uuid) \<Rightarrow> db \<Rightarrow> match_error + (uuid list \<times> db)" where
  "confirmTeam ev mid judgeIds identity newId d =
     bindR (confirmGuards mid judgeIds identity d) (\<lambda>m.
     let old = sort_key positionOf (filter (\<lambda>a. as_role a = JUDGE) (activeCrew mid d));
         after = requestedTeam judgeIds;
         retained = filter (\<lambda>a. assignmentPair a \<in> set after) old;
         replaced = filter (\<lambda>a. as_id a \<notin> as_id ` set retained) old;
         added = filter (\<lambda>n. n \<notin> assignmentPair ` set retained) after in
     bindR (updateAssignments (\<lambda>a. as_id a \<in> as_id ` set replaced)
        (\<lambda>a. a\<lparr>as_releasedAt := Some (appNow ev), as_releaseReason := Some RR_REPLACED\<rparr>) d) (\<lambda>d1.
     bindR (insertAssignments (judgeRows newId m identity added) d1) (\<lambda>d2.
     Inr (map as_officialId (filter (\<lambda>a. as_officialId a \<notin> fst ` set after) replaced),
       addAudit (staffAudit (if old \<noteq> [] then MATCH_OFFICIAL_ASSIGNMENT_REPLACED
                             else MATCH_OFFICIAL_ASSIGNMENT_CONFIRMED) mid identity
         [(''before'', JList (map (\<lambda>a. JObj [(''id'', JId (as_id a)), (''officialId'', JId (as_officialId a)),
             (''judgePosition'', JInt (int (positionOf a)))]) old)),
          (''after'', teamJson after), (''retained'', teamJson (map assignmentPair retained)),
          (''removed'', teamJson (map assignmentPair replaced)), (''added'', teamJson added)]) d2))))"

definition releaseTeam ::
  "env \<Rightarrow> uuid \<Rightarrow> official_identity \<Rightarrow> db \<Rightarrow> match_error + (uuid list \<times> db)" where
  "releaseTeam ev mid identity d =
     bindR (supervisor identity) (\<lambda>_.
     bindR (activeMatch mid (oi_tournamentId identity) d) (\<lambda>_.
     bindR (requireActiveInspector identity d) (\<lambda>_.
     bindR (ownsMatch mid identity d) (\<lambda>_.
     let crew = activeCrew mid d in
     bindR (updateAssignments (\<lambda>a. as_matchId a = mid \<and> as_releasedAt a = None)
        (\<lambda>a. a\<lparr>as_releasedAt := Some (appNow ev), as_releaseReason := Some RR_SUPERVISOR_RELEASED\<rparr>) d) (\<lambda>d1.
     Inr (map as_officialId crew, addAudit (staffAudit MATCH_OFFICIAL_ASSIGNMENT_RELEASED mid identity
       [(''before'', JList (map (\<lambda>a. JObj [(''officialId'', JId (as_officialId a)), (''role'', JRole (as_role a)),
           (''judgePosition'', jOpt (\<lambda>n. JInt (int n)) (as_judgePosition a))]) crew))]) d1))))))"

end
