(* ===== verification/Staffing_Facts.thy ===== *)
theory Staffing_Facts
  imports Staffing Constraints Sample
begin

text \<open>
  Facts about staffing: what taking a match writes, when repeating it is a no-op, that the
  unique indexes on active assignments are kept, and how the row trigger treats releasing
  a crew in one statement and in two.
\<close>

section \<open>Writes under the trigger\<close>

lemma insertAssignments_Inr:
  "insertAssignments rs d = Inr d' \<Longrightarrow>
   d' = d\<lparr>assignments := assignments d @ rs\<rparr> \<and>
   (assignmentIdx.unique (assignments d) \<longrightarrow> assignmentIdx.unique (assignments d'))"
proof (induction rs arbitrary: d)
  case (Cons r rs)
  then obtain rows where ins: "insertUnique assignmentConflict r (assignments d) = Inr rows"
    and rest: "insertAssignments rs (d\<lparr>assignments := rows\<rparr>) = Inr d'"
    by (auto split: if_splits)
  have "rows = assignments d @ [r]" using ins by simp
  with Cons.IH [OF rest] assignmentIdx.insert_unique [OF _ ins] show ?case by auto
qed simp

lemma guardedUpdate_none:
  "(\<And>x. x \<in> set xs \<Longrightarrow> \<not> p x) \<Longrightarrow>
   guardedUpdate offs p f done (xs @ ys) = guardedUpdate offs p f (done @ xs) ys"
  by (induction xs arbitrary: "done") auto

definition activeSupervisors :: "assignment_row list \<Rightarrow> assignment_row set" where
  "activeSupervisors rows = {a \<in> set rows. as_role a = SUPERVISOR \<and> as_releasedAt a = None}"

lemma validAssignment_cong:
  assumes "activeSupervisors rows = activeSupervisors rows'"
  shows "validAssignment offs rows new = validAssignment offs rows' new"
proof -
  have "(\<exists>a \<in> set xs. as_matchId a = i \<and> as_tournamentId a = j \<and> as_officialId a = k \<and>
      as_role a = SUPERVISOR \<and> as_releasedAt a = None) \<longleftrightarrow>
    (\<exists>a \<in> activeSupervisors xs. as_matchId a = i \<and> as_tournamentId a = j \<and> as_officialId a = k)"
    for xs i j k by (auto simp: activeSupervisors_def)
  with assms show ?thesis
    by (cases "as_assignedBySupervisorId new") (simp_all add: validAssignment_def)
qed

lemma activeSupervisors_append [simp]:
  "activeSupervisors (xs @ ys) = activeSupervisors xs \<union> activeSupervisors ys"
  "activeSupervisors (x # ys) =
   (if as_role x = SUPERVISOR \<and> as_releasedAt x = None then insert x (activeSupervisors ys)
    else activeSupervisors ys)"
  by (auto simp: activeSupervisors_def)

text \<open>Rows whose validity does not depend on a changing set of active supervisors are all
  updated.\<close>

lemma guardedUpdate_all:
  assumes "\<And>x. x \<in> set xs \<Longrightarrow> p x \<Longrightarrow> as_role x \<noteq> SUPERVISOR \<and> as_role (f x) \<noteq> SUPERVISOR"
    and "\<And>x. x \<in> set xs \<Longrightarrow> p x \<Longrightarrow> validAssignment offs (done @ xs) (f x)"
  shows "guardedUpdate offs p f done xs = Inr (done @ updWhere p f xs)"
  using assms
proof (induction xs arbitrary: "done")
  case (Cons x xs)
  show ?case
  proof (cases "p x")
    case True
    have roles: "as_role x \<noteq> SUPERVISOR" "as_role (f x) \<noteq> SUPERVISOR" using Cons.prems(1) True by auto
    have same: "activeSupervisors (done @ x # xs) = activeSupervisors ((done @ [f x]) @ xs)"
      using roles by simp
    have "guardedUpdate offs p f (done @ [f x]) xs = Inr ((done @ [f x]) @ updWhere p f xs)"
    proof (rule Cons.IH)
      fix y assume "y \<in> set xs" "p y"
      with Cons.prems(2) [of y] show "validAssignment offs ((done @ [f x]) @ xs) (f y)"
        using validAssignment_cong [OF same] by simp
    qed (use Cons.prems in auto)
    with True Cons.prems(2) [of x] show ?thesis by simp
  next
    case False
    with Cons show ?thesis by simp
  qed
qed simp

lemma validAssignment_supervisor:
  "as_role new = SUPERVISOR \<Longrightarrow> validAssignment offs rows new = validAssignment offs rows' new"
  by (simp add: validAssignment_def)

lemma guardedUpdate_supervisors:
  assumes "\<And>x. x \<in> set xs \<Longrightarrow> p x \<Longrightarrow> as_role (f x) = SUPERVISOR \<and> validAssignment offs [] (f x)"
  shows "guardedUpdate offs p f done xs = Inr (done @ updWhere p f xs)"
  using assms
proof (induction xs arbitrary: "done")
  case (Cons x xs)
  show ?case
  proof (cases "p x")
    case True
    have "validAssignment offs (done @ x # xs) (f x)"
      using Cons.prems [of x] True validAssignment_supervisor [of "f x" offs "[]"] by auto
    with True Cons.IH [of "done @ [f x]"] Cons.prems show ?thesis by simp
  qed (use Cons in simp)
qed simp

section \<open>Releasing a crew\<close>

definition crewValid :: "db \<Rightarrow> bool" where
  "crewValid d \<longleftrightarrow> (\<forall>a \<in> set (assignments d). as_releasedAt a = None \<longrightarrow>
     validAssignment (officials d) (assignments d) a)"

definition released :: "release_reason \<Rightarrow> time \<Rightarrow> assignment_row \<Rightarrow> assignment_row" where
  "released reason t a = a\<lparr>as_releaseReason := Some reason, as_releasedAt := Some t\<rparr>"

definition inCrew :: "uuid \<Rightarrow> match_role \<Rightarrow> assignment_row \<Rightarrow> bool" where
  "inCrew mid role a \<longleftrightarrow> as_matchId a = mid \<and> as_releasedAt a = None \<and> as_role a = role"

lemma validAssignment_released [simp]:
  "validAssignment offs rows (released reason t a) = validAssignment offs rows a"
  by (simp add: validAssignment_def released_def split: option.split)

lemma released_role [simp]: "as_role (released reason t a) = as_role a"
  by (simp add: released_def)

lemma releaseRows_alt:
  "releaseRows mid role reason t rows = updWhere (inCrew mid role) (released reason t) rows"
  by (auto simp: releaseRows_def updWhere_def inCrew_def released_def)

lemma two_steps:
  assumes "crewValid d"
  shows "bindR (guardedUpdate (officials d) (inCrew mid JUDGE) (released reason t) [] (assignments d))
      (guardedUpdate (officials d) (inCrew mid SUPERVISOR) (released reason t) []) =
    Inr (releaseRows mid SUPERVISOR reason t (releaseRows mid JUDGE reason t (assignments d)))"
proof -
  have "guardedUpdate (officials d) (inCrew mid JUDGE) (released reason t) [] (assignments d) =
      Inr ([] @ updWhere (inCrew mid JUDGE) (released reason t) (assignments d))"
    by (rule guardedUpdate_all) (use assms in \<open>auto simp: crewValid_def inCrew_def\<close>)
  moreover have "guardedUpdate (officials d) (inCrew mid SUPERVISOR) (released reason t) []
      (updWhere (inCrew mid JUDGE) (released reason t) (assignments d)) =
      Inr ([] @ updWhere (inCrew mid SUPERVISOR) (released reason t)
        (updWhere (inCrew mid JUDGE) (released reason t) (assignments d)))"
  proof (rule guardedUpdate_supervisors)
    fix x assume "x \<in> set (updWhere (inCrew mid JUDGE) (released reason t) (assignments d))"
      and sup: "inCrew mid SUPERVISOR x"
    then have "x \<in> set (assignments d)"
      by (auto simp: inCrew_def released_def elim!: in_set_updWhereE split: if_splits)
    with assms sup have "validAssignment (officials d) (assignments d) x"
      by (auto simp: crewValid_def inCrew_def)
    with sup show "as_role (released reason t x) = SUPERVISOR \<and>
        validAssignment (officials d) [] (released reason t x)"
      using validAssignment_supervisor [of x "officials d" "assignments d" "[]"]
      by (simp add: inCrew_def)
  qed
  ultimately show ?thesis by (simp add: releaseRows_alt)
qed

section \<open>Taking a match\<close>

lemma find_None_all: "List.find p xs = None \<Longrightarrow> x \<in> set xs \<Longrightarrow> \<not> p x"
  by (auto simp: find_None_iff)

lemma takeMatchE:
  assumes "takeMatch mid js i newId d = Inr (True, d')"
  obtains m where "claimableMatch mid (oi_tournamentId i) d = Inr m" and "m_id m = mid"
    and "supervisor i = Inr ()" and "distinct js" and "length js = m_requiredJudgeCount m"
    and "requireActiveInspector i d = Inr ()" and "activeCrew mid d = []"
    and "checkJudges js (oi_tournamentId i) d = Inr ()"
    and "\<And>a. a \<in> set (assignments d) \<Longrightarrow> as_releasedAt a = None \<Longrightarrow> as_officialId a \<notin> set (oi_officialId i # js)"
    and "insertAssignments (supervisorRow (newId 0) m i # judgeRows newId m i (requestedTeam js)) d =
         Inr (d\<lparr>assignments := assignments d @ supervisorRow (newId 0) m i # judgeRows newId m i (requestedTeam js)\<rparr>)"
    and "d' = addAudit (staffAudit MATCH_OFFICIAL_ASSIGNMENT_CONFIRMED mid i
         [(''inspectorId'', JId (oi_officialId i)), (''referees'', teamJson (requestedTeam js)),
          (''priorLifecycle'', JLifecycle (m_lifecycle m)), (''resumed'', JBool (m_lifecycle m = SUSPENDED))])
        (if m_lifecycle m = SUSPENDED
         then setMatch mid (\<lambda>x. x\<lparr>m_lifecycle := IN_PROGRESS, m_suspendedAt := None\<rparr>)
           (d\<lparr>assignments := assignments d @ supervisorRow (newId 0) m i # judgeRows newId m i (requestedTeam js)\<rparr>)
         else d\<lparr>assignments := assignments d @ supervisorRow (newId 0) m i # judgeRows newId m i (requestedTeam js)\<rparr>)"
proof -
  let ?new = "\<lambda>m. supervisorRow (newId 0) m i # judgeRows newId m i (requestedTeam js)"
  from assms obtain m d1 where c: "claimableMatch mid (oi_tournamentId i) d = Inr m"
    and s: "supervisor i = Inr ()" and dj: "distinct js" and l: "length js = m_requiredJudgeCount m"
    and r: "requireActiveInspector i d = Inr ()"
    and t: "takeChecks js i (activeCrew mid d) d = Inr ()"
    and ins: "insertAssignments (?new m) d = Inr d1"
    and d': "addAudit (staffAudit MATCH_OFFICIAL_ASSIGNMENT_CONFIRMED mid i
         [(''inspectorId'', JId (oi_officialId i)), (''referees'', teamJson (requestedTeam js)),
          (''priorLifecycle'', JLifecycle (m_lifecycle m)), (''resumed'', JBool (m_lifecycle m = SUSPENDED))])
        (if m_lifecycle m = SUSPENDED
         then setMatch mid (\<lambda>x. x\<lparr>m_lifecycle := IN_PROGRESS, m_suspendedAt := None\<rparr>) d1 else d1) = d'"
    unfolding takeMatch_def Let_def by (elim inr_elims) auto
  have m: "m_id m = mid" using c by (auto simp: claimableMatch_def dest!: find_SomeD)
  have crew: "activeCrew mid d = []" and cj: "checkJudges js (oi_tournamentId i) d = Inr ()"
    and f1: "List.find (\<lambda>a. as_officialId a = oi_officialId i \<and> as_releasedAt a = None) (assignments d) = None"
    and f2: "List.find (\<lambda>a. as_officialId a \<in> set js \<and> as_releasedAt a = None) (assignments d) = None"
    using t unfolding takeChecks_def by (auto elim!: inr_elims split: if_splits option.splits)
  have d1: "d1 = d\<lparr>assignments := assignments d @ ?new m\<rparr>" using insertAssignments_Inr [OF ins] by simp
  show thesis
    by (rule that [OF c m s dj l r crew cj _ ins [unfolded d1] d' [unfolded d1, symmetric]])
      (use find_None_all [OF f1] find_None_all [OF f2] in fastforce)
qed

lemma filter_none: "(\<And>x. x \<in> set xs \<Longrightarrow> \<not> p x) \<Longrightarrow> filter p xs = []"
  by (induction xs) auto

lemma judgeRows_simps [simp]:
  "x \<in> set (judgeRows newId m i reqs) \<Longrightarrow> as_role x = JUDGE"
  "x \<in> set (judgeRows newId m i reqs) \<Longrightarrow> as_matchId x = m_id m"
  "x \<in> set (judgeRows newId m i reqs) \<Longrightarrow> as_releasedAt x = None"
  by (auto simp: judgeRows_def judgeRow_def)

lemma newCrew:
  "filter (\<lambda>a. as_matchId a = m_id m \<and> as_releasedAt a = None)
     (supervisorRow aid m i # judgeRows newId m i reqs) = supervisorRow aid m i # judgeRows newId m i reqs"
  by (simp add: supervisorRow_def)

lemma judges_sorted:
  "sort_key positionOf (judgeRows newId m i (requestedTeam js)) = judgeRows newId m i (requestedTeam js)"
proof (rule sort_key_id_if_sorted)
  have "map positionOf (judgeRows newId m i (requestedTeam js)) = [1..<Suc (length js)]"
    by (simp add: judgeRows_def judgeRow_def positionOf_def requestedTeam_def comp_def del: upt_Suc)
  then show "sorted (map positionOf (judgeRows newId m i (requestedTeam js)))"
    by (simp del: upt_Suc)
qed

lemma sameTeam_new:
  "sameTeam js i (supervisorRow aid m i # judgeRows newId m i (requestedTeam js))"
proof -
  have "filter (\<lambda>a. as_role a = JUDGE) (judgeRows newId m i (requestedTeam js)) =
      judgeRows newId m i (requestedTeam js)" by simp
  then show ?thesis
    by (simp add: sameTeam_def supervisorRow_def judges_sorted)
      (simp add: judgeRows_def judgeRow_def case_prod_beta comp_def)
qed

lemma crew_after_take:
  assumes "takeMatch mid js i newId d = Inr (True, d')" and "claimableMatch mid (oi_tournamentId i) d = Inr m"
  shows "assignments d' = assignments d @ supervisorRow (newId 0) m i # judgeRows newId m i (requestedTeam js)"
    and "activeCrew mid d' = supervisorRow (newId 0) m i # judgeRows newId m i (requestedTeam js)"
    and "officials d' = officials d" and "tournaments d' = tournaments d"
    and "mid' \<noteq> mid \<Longrightarrow> activeCrew mid' d' = activeCrew mid' d"
proof -
  from assms(1) obtain n where c: "claimableMatch mid (oi_tournamentId i) d = Inr n" and n: "m_id n = mid"
    and crew: "activeCrew mid d = []"
    and d': "d' = addAudit (staffAudit MATCH_OFFICIAL_ASSIGNMENT_CONFIRMED mid i
         [(''inspectorId'', JId (oi_officialId i)), (''referees'', teamJson (requestedTeam js)),
          (''priorLifecycle'', JLifecycle (m_lifecycle n)), (''resumed'', JBool (m_lifecycle n = SUSPENDED))])
        (if m_lifecycle n = SUSPENDED
         then setMatch mid (\<lambda>x. x\<lparr>m_lifecycle := IN_PROGRESS, m_suspendedAt := None\<rparr>)
           (d\<lparr>assignments := assignments d @ supervisorRow (newId 0) n i # judgeRows newId n i (requestedTeam js)\<rparr>)
         else d\<lparr>assignments := assignments d @ supervisorRow (newId 0) n i # judgeRows newId n i (requestedTeam js)\<rparr>)"
    by (rule takeMatchE)
  have "n = m" using c assms(2) by simp
  then show as: "assignments d' = assignments d @ supervisorRow (newId 0) m i # judgeRows newId m i (requestedTeam js)"
    and "officials d' = officials d" and "tournaments d' = tournaments d"
    by (simp_all add: d' addAudit_def setMatch_def)
  show "activeCrew mid d' = supervisorRow (newId 0) m i # judgeRows newId m i (requestedTeam js)"
  proof -
    have mid: "m_id m = mid" using \<open>n = m\<close> n by simp
    show ?thesis
      using crew newCrew [of m "newId 0" i newId "requestedTeam js"]
      unfolding activeCrew_def as filter_append mid by simp
  qed
  show "activeCrew mid' d' = activeCrew mid' d" if "mid' \<noteq> mid"
  proof -
    have "filter (\<lambda>a. as_matchId a = mid' \<and> as_releasedAt a = None)
        (supervisorRow (newId 0) m i # judgeRows newId m i (requestedTeam js)) = []"
      using that \<open>n = m\<close> n by (intro filter_none) (auto simp: supervisorRow_def)
    then show ?thesis unfolding activeCrew_def as by simp
  qed
qed

lemma guardedUpdate_done:
  "guardedUpdate offs p f done xs = Inr rows \<Longrightarrow> \<exists>ys. rows = done @ ys"
  by (induction xs arbitrary: "done") (fastforce split: if_splits)+

lemma single_statement_fails:
  assumes pre: "\<And>a. a \<in> set pre \<Longrightarrow> \<not> (as_matchId a = mid \<and> as_releasedAt a = None)"
    and s: "as_matchId s = mid" "as_releasedAt s = None"
    and j: "as_matchId j = mid" "as_releasedAt j = None" "as_role j = JUDGE"
    and js: "\<And>a. a \<in> set rest \<Longrightarrow> as_role a = JUDGE"
    and f: "\<And>a. as_releasedAt (f a) \<noteq> None" "\<And>a. as_role (f a) = as_role a" "\<And>a. as_matchId (f a) = as_matchId a"
  shows "guardedUpdate offs (\<lambda>a. as_matchId a = mid \<and> as_releasedAt a = None) f [] (pre @ s # j # rest) =
    Inl CheckViolation"
proof -
  have "\<not> validAssignment offs ((pre @ [f s]) @ j # rest) (f j)"
    using pre j js f by (auto simp: validAssignment_def split: option.splits)
  with s j show ?thesis using pre by (simp add: guardedUpdate_none)
qed

lemma find_None_resumed:
  "List.find (\<lambda>m. m_id m = mid \<and> m_tournamentId m = tid \<and> (m_lifecycle m = NOT_STARTED \<or> m_lifecycle m = SUSPENDED) \<and> b)
     (updWhere (\<lambda>x. m_id x = mid) (\<lambda>x. x\<lparr>m_lifecycle := IN_PROGRESS, m_suspendedAt := None\<rparr>) xs) = None"
  by (induction xs) auto

definition sampleInspector :: official_identity where
  "sampleInspector = \<lparr> oi_sessionId = 71, oi_officialId = 61, oi_tournamentId = 1, oi_role = SUPERVISOR \<rparr>"

definition suspendedDb :: db where
  "suspendedDb = setMatch 1 (\<lambda>m. m\<lparr>m_status := BREAK, m_lifecycle := SUSPENDED, m_suspendedAt := Some 5,
     m_currentRound := Some 1, m_startedAt := Some 0\<rparr>) waitingDb"

lemma sample_take:
  "\<not> isl (takeMatch 1 [62, 63, 64] sampleInspector (\<lambda>n. 80 + n) waitingDb)"
  "map_sum id fst (takeMatch 1 [62, 63, 64] sampleInspector (\<lambda>n. 80 + n) waitingDb) = Inr True"
  by code_simp+

lemma sample_take_resume:
  "map_sum id fst (takeMatch 1 [62, 63, 64] sampleInspector (\<lambda>n. 80 + n) suspendedDb) = Inr True"
  by code_simp

lemma map_sum_fst_Inr: "map_sum id fst x = Inr b \<Longrightarrow> \<exists>y. x = Inr (b, y)"
  by (cases x) auto

section \<open>Properties\<close>

text \<open>C10: Taking a match succeeds only for an active inspector, with as many distinct active
  judges of the tournament as the match requires, none of whom nor the inspector serves
  anywhere else. It then staffs the match with exactly that crew, judge positions from one,
  leaves every other crew alone and keeps the unique indexes.\<close>

theorem take_staffs_exact_crew:
  assumes "takeMatch mid js i newId d = Inr (True, d')" and "assignmentIdx.unique (assignments d)"
  shows "\<exists>m. claimableMatch mid (oi_tournamentId i) d = Inr m \<and> length js = m_requiredJudgeCount m \<and>
    distinct js \<and> requireActiveInspector i d = Inr () \<and> checkJudges js (oi_tournamentId i) d = Inr () \<and>
    (\<forall>a \<in> set (assignments d). as_releasedAt a = None \<longrightarrow> as_officialId a \<notin> set (oi_officialId i # js)) \<and>
    activeCrew mid d = [] \<and>
    activeCrew mid d' = supervisorRow (newId 0) m i # judgeRows newId m i (zip js [1..<Suc (length js)]) \<and>
    (\<forall>mid'. mid' \<noteq> mid \<longrightarrow> activeCrew mid' d' = activeCrew mid' d) \<and>
    assignmentIdx.unique (assignments d')"
proof -
  from assms(1) obtain m where m: "claimableMatch mid (oi_tournamentId i) d = Inr m" "length js = m_requiredJudgeCount m"
    "distinct js" "requireActiveInspector i d = Inr ()" "checkJudges js (oi_tournamentId i) d = Inr ()"
    "activeCrew mid d = []"
    and free: "\<And>a. a \<in> set (assignments d) \<Longrightarrow> as_releasedAt a = None \<Longrightarrow> as_officialId a \<notin> set (oi_officialId i # js)"
    and ins: "insertAssignments (supervisorRow (newId 0) m i # judgeRows newId m i (requestedTeam js)) d =
         Inr (d\<lparr>assignments := assignments d @ supervisorRow (newId 0) m i # judgeRows newId m i (requestedTeam js)\<rparr>)"
    by (rule takeMatchE) blast
  have "assignmentIdx.unique (assignments d')"
    using insertAssignments_Inr [OF ins] assms(2) unfolding crew_after_take(1) [OF assms(1) m(1)] by simp
  with m free crew_after_take(2,5) [OF assms(1) m(1)] show ?thesis
    unfolding requestedTeam_def by blast
qed

theorem take_staffs_exact_crew_witness:
  "\<exists>d'. takeMatch 1 [62, 63, 64] sampleInspector (\<lambda>n. 80 + n) waitingDb = Inr (True, d') \<and>
     length (activeCrew 1 d') = 4"
proof -
  obtain d' where t: "takeMatch 1 [62, 63, 64] sampleInspector (\<lambda>n. 80 + n) waitingDb = Inr (True, d')"
    using map_sum_fst_Inr [OF sample_take(2)] by blast
  have "assignmentIdx.unique (assignments waitingDb)" by (simp add: sample_defs)
  from take_staffs_exact_crew [OF t this] have "length (activeCrew 1 d') = 4"
    by (auto simp: judgeRows_def)
  with t show ?thesis by blast
qed

text \<open>Repeating a take that staffed a match which had not started changes nothing; repeating
  one that resumed a suspended match is refused.\<close>

theorem take_repeated:
  assumes "takeMatch mid js i newId d = Inr (True, d')" and "distinct (map m_id (matches d))"
    and "claimableMatch mid (oi_tournamentId i) d = Inr m"
  shows "takeMatch mid js i newId' d' =
    (if m_lifecycle m = SUSPENDED then Inl MatchLifecycleMismatch else Inr (False, d'))"
proof -
  from assms(1) obtain n where n: "claimableMatch mid (oi_tournamentId i) d = Inr n" "m_id n = mid"
      "supervisor i = Inr ()" "distinct js" "length js = m_requiredJudgeCount n" "requireActiveInspector i d = Inr ()"
    and d': "d' = addAudit (staffAudit MATCH_OFFICIAL_ASSIGNMENT_CONFIRMED mid i
         [(''inspectorId'', JId (oi_officialId i)), (''referees'', teamJson (requestedTeam js)),
          (''priorLifecycle'', JLifecycle (m_lifecycle n)), (''resumed'', JBool (m_lifecycle n = SUSPENDED))])
        (if m_lifecycle n = SUSPENDED
         then setMatch mid (\<lambda>x. x\<lparr>m_lifecycle := IN_PROGRESS, m_suspendedAt := None\<rparr>)
           (d\<lparr>assignments := assignments d @ supervisorRow (newId 0) n i # judgeRows newId n i (requestedTeam js)\<rparr>)
         else d\<lparr>assignments := assignments d @ supervisorRow (newId 0) n i # judgeRows newId n i (requestedTeam js)\<rparr>)"
    by (rule takeMatchE)
  have nm: "n = m" using n assms(3) by simp
  have open_eq: "tournamentOpen tid d' = tournamentOpen tid d" for tid
    by (simp add: tournamentOpen_def crew_after_take(4) [OF assms(1,3)])
  show ?thesis
  proof (cases "m_lifecycle m = SUSPENDED")
    case True
    have "matches d' = updWhere (\<lambda>x. m_id x = mid) (\<lambda>x. x\<lparr>m_lifecycle := IN_PROGRESS, m_suspendedAt := None\<rparr>) (matches d)"
      using True by (simp add: d' nm addAudit_def setMatch_def)
    then have "claimableMatch mid (oi_tournamentId i) d' = Inl MatchLifecycleMismatch"
      by (simp add: claimableMatch_def find_None_resumed)
    with True n show ?thesis by (simp add: takeMatch_def)
  next
    case False
    have "matches d' = matches d" using False by (simp add: d' nm addAudit_def)
    then have "claimableMatch mid (oi_tournamentId i) d' = Inr m"
      using assms(3) by (simp add: claimableMatch_def open_eq)
    moreover have "requireActiveInspector i d' = Inr ()"
      using n by (simp add: requireActiveInspector_def crew_after_take(3) [OF assms(1,3)])
    ultimately show ?thesis
      using False n nm sameTeam_new crew_after_take(2) [OF assms(1,3)] by (simp add: takeMatch_def)
  qed
qed

theorem take_repeated_witness:
  "\<exists>d'. takeMatch 1 [62, 63, 64] sampleInspector (\<lambda>n. 80 + n) suspendedDb = Inr (True, d') \<and>
     takeMatch 1 [62, 63, 64] sampleInspector (\<lambda>n. 90 + n) d' = Inl MatchLifecycleMismatch"
proof -
  obtain d' where t: "takeMatch 1 [62, 63, 64] sampleInspector (\<lambda>n. 80 + n) suspendedDb = Inr (True, d')"
    using map_sum_fst_Inr [OF sample_take_resume] by blast
  have dist: "distinct (map m_id (matches suspendedDb))"
    by (simp add: suspendedDb_def setMatch_def sample_defs)
  have "\<exists>m. claimableMatch 1 (oi_tournamentId sampleInspector) suspendedDb = Inr m \<and> m_lifecycle m = SUSPENDED"
    by (simp add: claimableMatch_def suspendedDb_def setMatch_def sample_defs tournamentOpen_def sampleInspector_def)
  then obtain m where m: "claimableMatch 1 (oi_tournamentId sampleInspector) suspendedDb = Inr m" "m_lifecycle m = SUSPENDED"
    by blast
  from take_repeated [OF t dist m(1)] m(2) t show ?thesis by simp
qed



text \<open>Releasing a valid crew in the two statements of \<open>releaseForTransition\<close>, judges before
  the inspector, passes the trigger on every row.\<close>

theorem release_in_two_steps_passes_trigger:
  fixes d :: db
  assumes "\<forall>a \<in> set (assignments d). as_releasedAt a = None \<longrightarrow>
      validAssignment (officials d) (assignments d) a"
  shows "bindR (guardedUpdate (officials d) (\<lambda>a. as_matchId a = mid \<and> as_releasedAt a = None \<and> as_role a = JUDGE)
        (\<lambda>a. a\<lparr>as_releaseReason := Some reason, as_releasedAt := Some t\<rparr>) [] (assignments d))
      (guardedUpdate (officials d) (\<lambda>a. as_matchId a = mid \<and> as_releasedAt a = None \<and> as_role a = SUPERVISOR)
        (\<lambda>a. a\<lparr>as_releaseReason := Some reason, as_releasedAt := Some t\<rparr>) []) =
    Inr (releaseRows mid SUPERVISOR reason t (releaseRows mid JUDGE reason t (assignments d)))"
  using two_steps [of d mid reason t] assms unfolding crewValid_def inCrew_def [abs_def] released_def [abs_def]
  by simp

theorem release_in_two_steps_passes_trigger_witness:
  "\<exists>d'. takeMatch 1 [62, 63, 64] sampleInspector (\<lambda>n. 80 + n) waitingDb = Inr (True, d') \<and>
     \<not> isl (bindR (guardedUpdate (officials d') (\<lambda>a. as_matchId a = 1 \<and> as_releasedAt a = None \<and> as_role a = JUDGE)
        (\<lambda>a. a\<lparr>as_releaseReason := Some RR_MATCH_FINISHED, as_releasedAt := Some 9\<rparr>) [] (assignments d'))
      (guardedUpdate (officials d') (\<lambda>a. as_matchId a = 1 \<and> as_releasedAt a = None \<and> as_role a = SUPERVISOR)
        (\<lambda>a. a\<lparr>as_releaseReason := Some RR_MATCH_FINISHED, as_releasedAt := Some 9\<rparr>) []))"
proof -
  obtain d' where t: "takeMatch 1 [62, 63, 64] sampleInspector (\<lambda>n. 80 + n) waitingDb = Inr (True, d')"
    using map_sum_fst_Inr [OF sample_take(2)] by blast
  have "(case takeMatch 1 [62, 63, 64] sampleInspector (\<lambda>n. 80 + n) waitingDb of Inl e \<Rightarrow> False
     | Inr (b, d) \<Rightarrow> list_all (\<lambda>a. validAssignment (officials d) (assignments d) a) (assignments d))" by code_simp
  with t have "\<forall>a \<in> set (assignments d'). as_releasedAt a = None \<longrightarrow>
      validAssignment (officials d') (assignments d') a" by (auto simp: list_all_iff)
  from release_in_two_steps_passes_trigger [OF this, where mid = 1 and reason = RR_MATCH_FINISHED and t = 9] t show ?thesis by auto
qed

end
