(* ===== verification/Match_Machine.thy ===== *)
theory Match_Machine
  imports Phase_Spec Appeals_Facts Staffing_Facts
begin

text \<open>
  The services together: every command of the modelled services as one transaction on the
  database, and the simulation of the abstract machine of \<open>Phase_Spec\<close>. A command that throws
  rolls back, so a run of commands is a fold of transactions.
\<close>

section \<open>Commands\<close>

datatype command =
    CastVote env vote_input uuid
  | ResolveWindow env uuid uuid
  | AddPenalty env side uuid "supervisor_identity option" "uuid option" uuid
  | RecordFault env side fault_severity supervisor_identity uuid "string option" uuid uuid
  | StartRound presence env uuid supervisor_identity uuid
  | PauseRound env uuid supervisor_identity
  | ResumeRound env uuid supervisor_identity
  | ExpireRound env uuid uuid
  | ExitMatch env uuid supervisor_identity match_exit_mode uuid uuid
  | CompleteMatch env uuid supervisor_identity
  | CancelResults env bool uuid supervisor_identity uuid uuid
  | UndoCancellation env uuid uuid supervisor_identity
  | RegulationAppeal env uuid supervisor_identity appeal_input uuid uuid
  | OvertimeAppeal env uuid supervisor_identity appeal_input uuid
  | RestartOvertime env uuid supervisor_identity uuid
  | SelectWinner env uuid supervisor_identity side
  | PublishResult env uuid supervisor_identity string "string option"
  | TakeMatch uuid "uuid list" official_identity "nat \<Rightarrow> uuid"
  | ConfirmTeam env uuid "uuid list" official_identity "nat \<Rightarrow> uuid"
  | ReleaseTeam env uuid official_identity
  | DecideFixture env uuid uuid uuid string string decision_type
  | CancelBracket env uuid uuid uuid string bool

definition commit :: "match_error + ('a \<times> db) \<Rightarrow> match_error + db" where
  "commit r = bindR r (\<lambda>(_, d). Inr d)"

fun exec :: "(jval \<Rightarrow> string) \<Rightarrow> command \<Rightarrow> db \<Rightarrow> match_error + db" where
  "exec sha (CastVote ev input wid) d = commit (submitVote ev input wid d)"
| "exec sha (ResolveWindow ev mid wid) d = commit (resolveIfDue ev mid wid d)"
| "exec sha (AddPenalty ev athlete mid identity sid pid) d = commit (addPenalty ev athlete mid identity sid pid d)"
| "exec sha (RecordFault ev athlete severity identity mid trace fid aid) d =
     commit (recordFault ev athlete severity identity mid trace fid aid d)"
| "exec sha (StartRound pr ev mid identity rid) d = commit (startRound pr ev mid identity rid d)"
| "exec sha (PauseRound ev mid identity) d = commit (pauseRound ev mid identity d)"
| "exec sha (ResumeRound ev mid identity) d = commit (resumeRound ev mid identity d)"
| "exec sha (ExpireRound ev mid rid) d = commit (handleExpiration ev mid rid d)"
| "exec sha (ExitMatch ev mid identity mode aid oid) d = commit (exitMatch ev mid identity mode aid oid d)"
| "exec sha (CompleteMatch ev mid identity) d = commit (completeMatch ev mid identity d)"
| "exec sha (CancelResults ev whole mid identity aid oid) d = commit (cancelResults ev whole mid identity aid oid d)"
| "exec sha (UndoCancellation ev mid oid identity) d = commit (undoResultCancellation ev mid oid identity d)"
| "exec sha (RegulationAppeal ev mid identity payload sid aid) d =
     commit (completeRegulationAppeal ev mid identity payload sid aid d)"
| "exec sha (OvertimeAppeal ev mid identity payload aid) d = commit (completeOvertimeAppeal ev mid identity payload aid d)"
| "exec sha (RestartOvertime ev mid identity aid) d = commit (restartOvertime ev mid identity aid d)"
| "exec sha (SelectWinner ev mid identity winner) d = commit (manualWinner ev mid identity winner d)"
| "exec sha (PublishResult ev mid identity key trace) d = commit (publish sha ev mid identity key trace d)"
| "exec sha (TakeMatch mid judges identity newId) d = commit (takeMatch mid judges identity newId d)"
| "exec sha (ConfirmTeam ev mid judges identity newId) d = commit (confirmTeam ev mid judges identity newId d)"
| "exec sha (ReleaseTeam ev mid identity) d = commit (releaseTeam ev mid identity d)"
| "exec sha (DecideFixture ev fid entrant actor reason key type) d =
     commit (manuallyDecide sha ev fid entrant actor reason key type d)"
| "exec sha (CancelBracket ev tid wid actor reason force) d = cancelBracket ev tid wid actor reason force d"

lemma commit_InrE: "commit r = Inr d \<Longrightarrow> (\<And>x. r = Inr (x, d) \<Longrightarrow> P) \<Longrightarrow> P"
  by (auto simp: commit_def)

section \<open>The abstraction\<close>

definition phaseOf :: "match_row \<Rightarrow> phase" where
  "phaseOf m = \<lparr> ph_status = m_status m, ph_lifecycle = m_lifecycle m, ph_round = m_currentRound m,
     ph_started = (m_startedAt m \<noteq> None), ph_finished = (m_finishedAt m \<noteq> None) \<rparr>"

definition savedPhase :: "operation_row \<Rightarrow> phase" where
  "savedPhase op = \<lparr> ph_status = op_previousStatus op, ph_lifecycle = op_previousLifecycle op,
     ph_round = op_previousCurrentRound op, ph_started = (op_previousStartedAt op \<noteq> None),
     ph_finished = (op_previousFinishedAt op \<noteq> None) \<rparr>"

definition historyOf :: "uuid \<Rightarrow> db \<Rightarrow> history" where
  "historyOf mid d = set (map (\<lambda>op. ((op_resultingStatus op, op_resultingCurrentRound op), savedPhase op))
     (filter (\<lambda>op. op_matchId op = mid) (operations d)))"

definition absOf :: "match_row \<Rightarrow> db \<Rightarrow> phase \<times> history" where
  "absOf m d = (phaseOf m, historyOf (m_id m) d)"

definition same_or_step :: "rules_version \<Rightarrow> phase \<times> history \<Rightarrow> phase \<times> history \<Rightarrow> bool" where
  "same_or_step v s s' \<longleftrightarrow> s' = s \<or> spec_step v s s'"

definition refines :: "db \<Rightarrow> db \<Rightarrow> bool" where
  "refines d d' \<longleftrightarrow> distinct (map m_id (matches d')) \<and>
     (\<forall>m' \<in> set (matches d'). \<exists>m \<in> set (matches d). m_id m = m_id m' \<and> m_rulesVersion m = m_rulesVersion m' \<and>
        same_or_step (m_rulesVersion m) (absOf m d) (absOf m' d'))"

lemma map_filter_updWhere:
  "(\<And>x. g (h x) = g x) \<Longrightarrow> (\<And>x. p (h x) = p x) \<Longrightarrow> map g (filter p (updWhere q h xs)) = map g (filter p xs)"
  by (induction xs) auto

lemma refines_same:
  "distinct (map m_id (matches d)) \<Longrightarrow> matches d' = matches d \<Longrightarrow> operations d' = operations d \<Longrightarrow> refines d d'"
  by (force simp: refines_def same_or_step_def absOf_def historyOf_def)

text \<open>A command that writes one match row: the other rows keep their phase, and their history
  unless an operation of theirs was added.\<close>

lemma refines_row:
  assumes ids: "distinct (map m_id (matches d))" and m: "getMatch mid d = Some m"
    and mat: "matches d' = matches (setMatch mid f d)"
    and f: "\<And>x. m_id (f x) = m_id x" "m_rulesVersion (f m) = m_rulesVersion m"
    and others: "\<And>k. k \<noteq> mid \<Longrightarrow> historyOf k d' = historyOf k d"
    and own: "same_or_step (m_rulesVersion m) (phaseOf m, historyOf mid d) (phaseOf (f m), historyOf mid d')"
  shows "refines d d'"
proof -
  have "distinct (map m_id (matches d'))" using ids f(1) by (simp add: mat)
  moreover have "\<exists>n \<in> set (matches d). m_id n = m_id m' \<and> m_rulesVersion n = m_rulesVersion m' \<and>
      same_or_step (m_rulesVersion n) (absOf n d) (absOf m' d')" if "m' \<in> set (matches d')" for m'
    using ids m that [unfolded mat]
  proof (rule setMatch_rowE)
    assume "m' = f m"
    with own f getMatch_SomeD [OF m] show ?thesis by (intro bexI [of _ m]) (auto simp: absOf_def)
  next
    assume "m' \<in> set (matches d)" "m_id m' \<noteq> mid"
    with others show ?thesis by (intro bexI [of _ m']) (auto simp: absOf_def same_or_step_def)
  qed
  ultimately show ?thesis by (simp add: refines_def)
qed

lemma refines_move:
  assumes "distinct (map m_id (matches d))" "getMatch mid d = Some m" "matches d' = matches (setMatch mid f d)"
    and "\<And>x. m_id (f x) = m_id x" "m_rulesVersion (f m) = m_rulesVersion m" and ops: "operations d' = operations d"
    and move: "phase_step (m_rulesVersion m) (phaseOf m) (phaseOf (f m))"
  shows "refines d d'"
  using assms(1-5)
  by (rule refines_row) (use move in \<open>auto simp: historyOf_def ops same_or_step_def intro: spec_step.plain\<close>)

lemma refines_reset:
  assumes "distinct (map m_id (matches d))" "getMatch mid d = Some m" "matches d' = matches (setMatch mid f d)"
    and "\<And>x. m_id (f x) = m_id x" "m_rulesVersion (f m) = m_rulesVersion m"
    and ops: "operations d' = operations d @ [op]" "op_matchId op = mid"
    and op: "op_resultingStatus op = m_status (f m)" "op_resultingCurrentRound op = m_currentRound (f m)"
    and move: "reset_step (m_rulesVersion m) (phaseOf m) (savedPhase op) (phaseOf (f m))"
  shows "refines d d'"
  using assms(1-5)
proof (rule refines_row)
  show "historyOf k d' = historyOf k d" if "k \<noteq> mid" for k
    using that by (simp add: historyOf_def ops)
  have "historyOf mid d' = insert ((ph_status (phaseOf (f m)), ph_round (phaseOf (f m))), savedPhase op) (historyOf mid d)"
    by (simp add: historyOf_def ops op phaseOf_def)
  with move show "same_or_step (m_rulesVersion m) (phaseOf m, historyOf mid d) (phaseOf (f m), historyOf mid d')"
    by (auto simp: same_or_step_def intro: spec_step.reset)
qed

lemma refines_undo:
  assumes "distinct (map m_id (matches d))" "getMatch mid d = Some m" "matches d' = matches (setMatch mid f d)"
    and "\<And>x. m_id (f x) = m_id x" "m_rulesVersion (f m) = m_rulesVersion m"
    and ops: "operations d' = updWhere q (\<lambda>x. x\<lparr>op_status := s, op_undoneAt := t\<rparr>) (operations d)"
    and op: "op \<in> set (operations d)" "op_matchId op = mid" "op_resultingStatus op = m_status m"
      "op_resultingCurrentRound op = m_currentRound m" "phaseOf (f m) = savedPhase op"
  shows "refines d d'"
proof -
  have h: "historyOf k d' = historyOf k d" for k
    unfolding historyOf_def ops by (subst map_filter_updWhere) (simp_all add: savedPhase_def)
  from assms(1-5) show ?thesis
  proof (rule refines_row)
    have "((ph_status (phaseOf m), ph_round (phaseOf m)), savedPhase op) \<in> historyOf mid d"
      using op by (force simp: historyOf_def phaseOf_def)
    then show "same_or_step (m_rulesVersion m) (phaseOf m, historyOf mid d) (phaseOf (f m), historyOf mid d')"
      using op(5) by (auto simp: same_or_step_def h intro: spec_step.undo)
  qed (rule h)
qed

section \<open>Commands that keep every phase\<close>

lemma settle_noScoring: "settleDueWindow ev m d = Inr (u, b, d') \<Longrightarrow> noScoring d' = noScoring d"
  unfolding settleDueWindow_def Let_def by (elim inr_elims) (auto dest: resolveLocked_noScoring)

lemma vote_noScoring: "submitVote ev input wid d = Inr (tr, d') \<Longrightarrow> noScoring d' = noScoring d"
  unfolding submitVote_def voteInWindow_def voteInNewWindow_def Let_def
  by (elim inr_elims) (auto dest!: settle_noScoring simp: noScoring_def)

lemma resolveIfDue_noScoring: "resolveIfDue ev mid wid d = Inr (dec, d') \<Longrightarrow> noScoring d' = noScoring d"
  unfolding resolveIfDue_def Let_def by (elim inr_elims) (auto dest: resolveLocked_noScoring)

lemma penalty_keeps: "addPenalty ev a mid i sid pid d = Inr (tr, d') \<Longrightarrow> matches d' = matches d \<and> operations d' = operations d"
  unfolding addPenalty_def Let_def by (elim inr_elims) (auto simp: addAudit_def)

lemma fault_keeps: "recordFault ev a sev i mid trace fid aid d = Inr (tr, d') \<Longrightarrow> matches d' = matches d \<and> operations d' = operations d"
  unfolding recordFault_def Let_def by (elim inr_elims) (auto simp: addAudit_def)

lemma updateAssignments_noCrew: "updateAssignments p f d = Inr d' \<Longrightarrow> noCrew d' = noCrew d"
  unfolding updateAssignments_def by (elim inr_elims) (auto simp: noCrew_def)

lemma insertAssignments_noCrew: "insertAssignments rs d = Inr d' \<Longrightarrow> noCrew d' = noCrew d"
  by (drule insertAssignments_Inr) (simp add: noCrew_def)

lemma confirm_noCrew: "confirmTeam ev mid js i newId d = Inr (ids, d') \<Longrightarrow> noCrew d' = noCrew d"
  unfolding confirmTeam_def Let_def
  by (elim inr_elims) (auto dest!: updateAssignments_noCrew insertAssignments_noCrew)

lemma releaseTeam_noCrew: "releaseTeam ev mid i d = Inr (ids, d') \<Longrightarrow> noCrew d' = noCrew d"
  unfolding releaseTeam_def Let_def by (elim inr_elims) (auto dest!: updateAssignments_noCrew)

lemma noBrackets_idempotency [simp]: "noBrackets (d\<lparr>idempotencyRows := rows\<rparr>) = noBrackets d"
  by (simp add: noBrackets_def)

lemma manuallyDecide_noBrackets:
  "manuallyDecide sha ev fid e actor reason key ty d = Inr (res, d') \<Longrightarrow> noBrackets d' = noBrackets d"
  unfolding manuallyDecide_def Let_def
  by (elim inr_elims) (auto dest!: decide_noBrackets)

section \<open>Rounds\<close>

lemma startRound_refines:
  assumes ids: "distinct (map m_id (matches d))" and s: "startRound pr ev mid i rid d = Inr (x, d')"
  shows "refines d d'"
proof -
  from s obtain m desc rs au where m: "getMatch mid d = Some m"
    and desc: "nextRoundDescriptor (m_status m) (m_currentRound m) (m_startedAt m)
              (map r_attemptNumber (filter (\<lambda>r. r_matchId r = mid \<and> r_stage r = OVERTIME) (rounds d))) = Inr desc"
    and d': "addAudit au (setMatch mid (\<lambda>x. x\<lparr>m_currentRound := Some (rdc_roundNumber desc), m_intermissionEndsAt := None,
                m_lifecycle := IN_PROGRESS,
                m_startedAt := (if rdc_roundNumber desc = 1 \<and> rdc_stage desc = REGULATION
                                then Some (serverNow ev) else m_startedAt m),
                m_status := startedStatus desc\<rparr>) (d\<lparr>rounds := rs\<rparr>)) = d'"
    unfolding startRound_def Let_def by (elim inr_elims) auto
  from ids m show ?thesis
  proof (rule refines_move)
    show "matches d' = matches (setMatch mid (\<lambda>x. x\<lparr>m_currentRound := Some (rdc_roundNumber desc), m_intermissionEndsAt := None,
                m_lifecycle := IN_PROGRESS,
                m_startedAt := (if rdc_roundNumber desc = 1 \<and> rdc_stage desc = REGULATION
                                then Some (serverNow ev) else m_startedAt m),
                m_status := startedStatus desc\<rparr>) d)"
      by (simp add: setMatch_def flip: d')
    show "operations d' = operations d" by (simp flip: d')
    from desc consider (first) "m_status m = WAITING" "m_currentRound m = None" "m_startedAt m = None"
        "desc = \<lparr> rdc_stage = REGULATION, rdc_roundNumber = 1, rdc_attemptNumber = 0 \<rparr>"
      | (second) "m_status m = BREAK" "m_currentRound m = Some 1" "m_startedAt m \<noteq> None"
        "desc = \<lparr> rdc_stage = REGULATION, rdc_roundNumber = 2, rdc_attemptNumber = 0 \<rparr>"
      | (overtime) n where "m_status m = OVERTIME_READY"
        "desc = \<lparr> rdc_stage = OVERTIME, rdc_roundNumber = 1, rdc_attemptNumber = n \<rparr>"
      unfolding nextRoundDescriptor_def by (elim inr_elims) auto
    then show "phase_step (m_rulesVersion m) (phaseOf m) (phaseOf (m\<lparr>m_currentRound := Some (rdc_roundNumber desc),
          m_intermissionEndsAt := None, m_lifecycle := IN_PROGRESS,
                m_startedAt := (if rdc_roundNumber desc = 1 \<and> rdc_stage desc = REGULATION
                                then Some (serverNow ev) else m_startedAt m),
                m_status := startedStatus desc\<rparr>))"
    proof cases
      case first
      then show ?thesis
        using phase_step.start_first [of "phaseOf m" "m_rulesVersion m"] by (simp add: phaseOf_def startedStatus_def)
    next
      case second
      then show ?thesis
        using phase_step.start_second [of "phaseOf m" "m_rulesVersion m"] by (simp add: phaseOf_def startedStatus_def)
    next
      case overtime
      then show ?thesis
        using phase_step.start_overtime [of "phaseOf m" "m_rulesVersion m"] by (simp add: phaseOf_def startedStatus_def)
    qed
  qed simp_all
qed

lemma pauses_pausable: "pausableRound s = Some (n, s') \<Longrightarrow> (s, n, s') \<in> pauses"
  by (auto simp: pausableRound_def pauses_def split: if_splits)

lemma pauses_resumable: "resumableRound s = Some (n, s') \<Longrightarrow> (s', n, s) \<in> pauses"
  by (auto simp: resumableRound_def pauses_def split: if_splits)

lemma pauseRound_refines:
  assumes "distinct (map m_id (matches d))" and "pauseRound ev mid i d = Inr (x, d')"
  shows "refines d d'"
proof -
  obtain st s where x: "x = (st, s)" by (cases x)
  from assms(2) [unfolded x] obtain m n where m: "getMatch mid d = Some m" "pausableRound (m_status m) = Some (n, s)"
      "m_currentRound m = Some n" and mat: "matches d' = matches (setMatch mid (\<lambda>x. x\<lparr>m_status := s\<rparr>) d)"
    and "operations d' = operations d"
    by (auto elim!: pauseRoundE simp: setMatch_def)
  then show ?thesis
    using phase_step.pause [of "phaseOf m" n s "m_rulesVersion m"] pauses_pausable [OF m(2)]
    by (intro refines_move [OF assms(1) m(1) mat]) (simp_all add: phaseOf_def)
qed

lemma resumeRound_refines:
  assumes "distinct (map m_id (matches d))" and "resumeRound ev mid i d = Inr (x, d')"
  shows "refines d d'"
proof -
  obtain st s where x: "x = (st, s)" by (cases x)
  from assms(2) [unfolded x] obtain m n where m: "getMatch mid d = Some m" "resumableRound (m_status m) = Some (n, s)"
      "m_currentRound m = Some n" and mat: "matches d' = matches (setMatch mid (\<lambda>x. x\<lparr>m_status := s\<rparr>) d)"
    and "operations d' = operations d"
    by (auto elim!: resumeRoundE simp: setMatch_def)
  then show ?thesis
    using phase_step.resume [of s n "phaseOf m" "m_rulesVersion m"] pauses_resumable [OF m(2)]
    by (intro refines_move [OF assms(1) m(1) mat]) (simp_all add: phaseOf_def)
qed

lemma expiry_move:
  assumes "m_currentRound m = Some (r_roundNumber r)" and "runningStatus (r_roundNumber r) (r_stage r) = Some (m_status m)"
  shows "phase_step (m_rulesVersion m) (phaseOf m)
    (phaseOf (m\<lparr>m_intermissionEndsAt := t, m_lifecycle := IN_PROGRESS, m_status := expiredStatus m r\<rparr>))"
proof (cases "r_stage r")
  case REGULATION
  then consider "r_roundNumber r = 1" "m_status m = ROUND_1_RUNNING" | "r_roundNumber r = 2" "m_status m = ROUND_2_RUNNING"
    using assms(2) by (auto simp: runningStatus_def split: if_splits)
  then show ?thesis
  proof cases
    case 1
    with REGULATION assms(1) phase_step.expire_first [of "phaseOf m" "m_rulesVersion m"] show ?thesis
      by (simp add: phaseOf_def expiredStatus_def)
  next
    case 2
    with REGULATION assms(1) phase_step.expire_second [of "phaseOf m" "m_rulesVersion m"] show ?thesis
      by (simp add: phaseOf_def expiredStatus_def)
  qed
next
  case OVERTIME
  then have "m_status m = OVERTIME_RUNNING" using assms(2) by (simp add: runningStatus_def)
  with OVERTIME phase_step.expire_overtime [of "phaseOf m" "m_rulesVersion m"] show ?thesis
    by (simp add: phaseOf_def expiredStatus_def)
qed

lemma expiration_refines:
  assumes ids: "distinct (map m_id (matches d))" and e: "handleExpiration ev mid rid d = Inr (x, d')"
  shows "refines d d'"
proof (cases "\<exists>tr. evaluateExpiration ev mid rid d = Inr (ExpEnded tr, d')")
  case True
  then obtain tr where "evaluateExpiration ev mid rid d = Inr (ExpEnded tr, d')" ..
  then obtain m r where m: "getMatch mid d = Some m" and r: "m_currentRound m = Some (r_roundNumber r)"
      "runningStatus (r_roundNumber r) (r_stage r) = Some (m_status m)"
    and x: "expireRound ev m r d = Inr (ExpEnded tr, d')"
    by (rule evaluateExpirationE)
  have mid: "m_id m = mid" using getMatch_SomeD [OF m] by simp
  from x have mat: "matches d' = matches (setMatch mid (\<lambda>x. x\<lparr>m_intermissionEndsAt := expiredIntermission ev m r d,
           m_lifecycle := IN_PROGRESS, m_status := expiredStatus m r\<rparr>) d)" and ops: "operations d' = operations d"
    by (auto elim!: expireRoundE simp: setMatch_def mid)
  show ?thesis by (rule refines_move [OF ids m mat _ _ ops expiry_move [OF r]]) simp_all
next
  case False
  have "d' = d"
  proof (cases "evaluateExpiration ev mid rid d")
    case (Inl err)
    with e show ?thesis by (auto simp: handleExpiration_def split: if_splits)
  next
    case (Inr a)
    with e have "evaluateExpiration ev mid rid d = Inr (x, d')" by (simp add: handleExpiration_def)
    with False show ?thesis unfolding evaluateExpiration_def Let_def
      by (elim inr_elims) (auto elim: expireRoundE)
  qed
  with ids show ?thesis by (simp add: refines_same)
qed

section \<open>Leaving, completing, cancelling and undoing\<close>

lemma invalidateNumbers_frame [simp]:
  fixes d :: db
  shows "matches (invalidateRoundNumbers mid ns t a d) = matches d"
    "operations (invalidateRoundNumbers mid ns t a d) = operations d"
  by (simp_all add: invalidateRoundNumbers_def Let_def)

lemma retainable_v2: "retainableV2Phase s \<longleftrightarrow> s \<in> v2Phases"
  by (simp add: retainableV2Phase_def v2Phases_def)

lemma overtime_v2: "overtimePhase s \<longleftrightarrow> s \<in> v2Phases - {REGULATION_APPEAL}"
  by (cases s) (simp_all add: overtimePhase_def v2Phases_def)

lemma exit_move:
  assumes "m_status m \<noteq> FINISHED" and "\<not> exitRefused mode m d"
  shows "reset_step (m_rulesVersion m) (phaseOf m) (savedPhase (exitOperation ev mode m i aid oid))
    (phaseOf (exitMatchRow ev mode m m))"
proof -
  have s: "savedPhase (exitOperation ev mode m i aid oid) = phaseOf m"
    by (simp add: savedPhase_def exitOperation_def phaseOf_def)
  note defs = phaseOf_def exitMatchRow_def exitStatus_def exitLifecycle_def exitCurrentRound_def freshPhase_def
  have "reset_step (m_rulesVersion m) (phaseOf m) (phaseOf m) (phaseOf (exitMatchRow ev mode m m))"
  proof (cases mode)
    case CANCEL_RESULTS
    with assms(1) reset_step.exit_cancel [of "phaseOf m" "m_rulesVersion m"] show ?thesis by (simp add: defs)
  next
    case SUSPEND_KEEP_ROUND_1
    with assms(1) reset_step.exit_first [of "phaseOf m" "m_rulesVersion m"] show ?thesis by (simp add: defs)
  next
    case SUSPEND_KEEP_ROUNDS_1_AND_2
    with assms(1) reset_step.exit_both [of "phaseOf m" "m_rulesVersion m"] show ?thesis by (simp add: defs)
  next
    case SUSPEND_KEEP_V2_PHASE
    with assms(2) have "m_status m \<in> v2Phases" by (simp add: exitRefused_def retainable_v2)
    with SUSPEND_KEEP_V2_PHASE reset_step.exit_phase [of "phaseOf m" "m_rulesVersion m"] show ?thesis
      by (simp add: defs)
  qed
  then show ?thesis by (simp add: s)
qed

lemma exitMatch_refines:
  assumes ids: "distinct (map m_id (matches d))" and e: "exitMatch ev mid i mode aid oid d = Inr (x, d')"
  shows "refines d d'"
proof -
  let ?op = "\<lambda>m. exitOperation ev mode m i aid oid"
  let ?d3 = "\<lambda>m au meta. setAuditMetadata aid meta ((addAudit au d)\<lparr>operations := operations (addAudit au d) @ [?op m]\<rparr>)"
  let ?d4 = "\<lambda>m au meta. if exitRoundNumbers mode \<noteq> []
    then invalidateRoundNumbers mid (exitRoundNumbers mode) (serverNow ev) aid (?d3 m au meta) else ?d3 m au meta"
  from e obtain m au meta where m: "getMatch mid d = Some m" and nf: "m_status m \<noteq> FINISHED" and r: "\<not> exitRefused mode m d"
    and rel: "releaseForTransition i (m_status m) (exitStatus mode m) mid (serverNow ev) (Some (exitReason mode))
        (setMatch mid (exitMatchRow ev mode m) (?d4 m au meta)) = (x, d')"
    unfolding exitMatch_def Let_def by (elim inr_elims) simp_all
  have d4: "matches (?d4 m au meta) = matches d" "operations (?d4 m au meta) = operations d @ [?op m]"
    by (simp_all add: setAuditMetadata_def addAudit_def)
  have mat5: "matches (setMatch mid (exitMatchRow ev mode m) (?d4 m au meta)) = matches (setMatch mid (exitMatchRow ev mode m) d)"
    unfolding setMatch_def d4 by simp
  have ops5: "operations (setMatch mid (exitMatchRow ev mode m) (?d4 m au meta)) = operations d @ [?op m]"
    unfolding setMatch_frame d4 by (rule refl)
  note f = noCrewD [OF release_noCrew [OF rel]]
  have mid: "m_id m = mid" using getMatch_SomeD [OF m] by simp
  show ?thesis
    by (rule refines_reset [OF ids m, where f = "exitMatchRow ev mode m" and op = "?op m"])
      (simp_all only: f mat5 ops5 exit_move [OF nf r], simp_all add: exitOperation_def exitMatchRow_def mid)
qed

lemma completeMatch_refines:
  assumes ids: "distinct (map m_id (matches d))" and c: "completeMatch ev mid i d = Inr (x, d')"
  shows "refines d d'"
proof -
  let ?f = "\<lambda>x. x\<lparr>m_finishedAt := Some (serverNow ev), m_lifecycle := LC_COMPLETED, m_status := FINISHED\<rparr>"
  from c consider "d' = d" | m d2 au rel where "getMatch mid d = Some m" "m_lifecycle m \<notin> {SUSPENDED, LC_COMPLETED}"
      "m_status m = AWAITING_RESULT_SAVE" "processFinishedMatch ev mid None (setMatch mid ?f d) = Inr d2"
      "releaseForTransition i (m_status m) FINISHED mid (serverNow ev) None (addAudit au d2) = (rel, d')"
    unfolding completeMatch_def Let_def by (elim inr_elims) auto
  then show ?thesis
  proof cases
    case 1
    with ids show ?thesis by (simp add: refines_same)
  next
    case (2 m d2 au rel)
    note f2 = noBracketsD [OF processFinished_noBrackets [OF 2(4)]] and f3 = noCrewD [OF release_noCrew [OF 2(5)]]
    show ?thesis
      using 2(2,3) phase_step.complete [of "phaseOf m" "m_rulesVersion m"]
      by (intro refines_move [OF ids 2(1), where f = ?f])
        (simp_all add: f2 f3, simp add: phaseOf_def)
  qed
qed

lemma selected_cases:
  assumes "selectedRounds whole m active = sel" and "sel \<noteq> []"
  obtains "cancelStatus whole sel = WAITING"
    | "cancelStatus whole sel = OVERTIME_READY" and "m_status m \<in> v2Phases - {REGULATION_APPEAL}"
    | "cancelStatus whole sel = BREAK" and "m_status m \<in> {REGULATION_APPEAL, AWAITING_RESULT_SAVE, FINISHED}"
proof -
  have reg: "\<not> list_ex (\<lambda>r. r_stage r = OVERTIME) (filter (regulationRound n) active)" for n
    by (auto simp: list_ex_iff regulationRound_def)
  have one: "\<not> list_ex (regulationRound 1) (filter (regulationRound 2) active)"
    by (auto simp: list_ex_iff regulationRound_def)
  have first: "list_ex (regulationRound 1) (filter (regulationRound 1) active)" if "filter (regulationRound 1) active \<noteq> []"
    using that by (auto simp: list_ex_iff filter_empty_conv)
  have ot: "list_ex (\<lambda>r. r_stage r = OVERTIME) xs \<and> \<not> list_ex (regulationRound 1) xs"
    if "xs = take 1 (filter (\<lambda>r. r_stage r = OVERTIME) active)" "xs \<noteq> []" for xs
    using that by (cases "filter (\<lambda>r. r_stage r = OVERTIME) active")
      (auto simp: regulationRound_def filter_eq_Cons_iff)
  show thesis
  proof (cases "whole \<or> list_ex (regulationRound 1) sel")
    case True
    then show thesis by (intro that(1)) (auto simp: cancelStatus_def)
  next
    case False
    then have w: "\<not> whole" and n1: "\<not> list_ex (regulationRound 1) sel" by auto
    show thesis
    proof (cases "m_status m = REGULATION_APPEAL \<or> \<not> overtimePhase (m_status m)")
      case True
      with w n1 assms first have "sel = filter (regulationRound 2) active"
        and st: "m_status m \<in> {REGULATION_APPEAL, AWAITING_RESULT_SAVE, FINISHED}"
        unfolding selectedRounds_def by (auto simp: overtimePhase_def split: if_splits)
      then have "cancelStatus whole sel = BREAK" using w one reg by (simp add: cancelStatus_def)
      with st show thesis by (rule that(3) [rotated])
    next
      case False
      with w assms ot [of sel] have "cancelStatus whole sel = OVERTIME_READY"
        unfolding selectedRounds_def by (auto simp: cancelStatus_def)
      with False overtime_v2 show thesis by (intro that(2)) auto
    qed
  qed
qed

lemma cancel_move:
  assumes "selectedRounds whole m active = sel" and "sel \<noteq> []"
  shows "reset_step (m_rulesVersion m) (phaseOf m)
    (savedPhase (cancelOperation ev whole m i ns (cancelStatus whole sel) aid oid))
    (phaseOf (cancelledRow (cancelStatus whole sel) m m))"
proof -
  have s: "savedPhase (cancelOperation ev whole m i ns st aid oid) =
      (phaseOf m)\<lparr>ph_lifecycle := lifecycleForPhase (m_status m)\<rparr>" for st
    by (simp add: savedPhase_def cancelOperation_def phaseOf_def)
  note defs = phaseOf_def cancelledRow_def cancelLifecycle_def cancelCurrentRound_def freshPhase_def lifecycleForPhase_def
  from assms show ?thesis
  proof (rule selected_cases)
    assume w: "cancelStatus whole sel = WAITING"
    have "lifecycleForPhase (m_status m) = (if ph_status (phaseOf m) = WAITING then NOT_STARTED
        else if ph_status (phaseOf m) = FINISHED then LC_COMPLETED else IN_PROGRESS)"
      by (simp add: lifecycleForPhase_def phaseOf_def)
    moreover have "phaseOf (cancelledRow WAITING m m) = freshPhase" by (simp add: defs)
    ultimately show ?thesis by (simp only: w s reset_step.cancel_all)
  next
    assume a: "cancelStatus whole sel = OVERTIME_READY" "m_status m \<in> v2Phases - {REGULATION_APPEAL}"
    then have "lifecycleForPhase (m_status m) = IN_PROGRESS" by (auto simp: lifecycleForPhase_def v2Phases_def)
    with a show ?thesis
      using reset_step.cancel_overtime [of "phaseOf m" "m_rulesVersion m"]
      by (simp add: s) (simp add: defs)
  next
    assume a: "cancelStatus whole sel = BREAK" "m_status m \<in> {REGULATION_APPEAL, AWAITING_RESULT_SAVE, FINISHED}"
    have "phaseOf (cancelledRow BREAK m m) = (phaseOf m)\<lparr>ph_status := BREAK, ph_lifecycle := IN_PROGRESS,
        ph_round := Some 1, ph_finished := False\<rparr>" by (simp add: defs)
    moreover have "ph_status (phaseOf m) \<in> {REGULATION_APPEAL, AWAITING_RESULT_SAVE, FINISHED}"
      "lifecycleForPhase (m_status m) = (if ph_status (phaseOf m) = FINISHED then LC_COMPLETED else IN_PROGRESS)"
      using a(2) by (auto simp: lifecycleForPhase_def phaseOf_def)
    ultimately show ?thesis by (simp only: a(1) s reset_step.cancel_second)
  qed
qed

lemma cancelResults_refines:
  assumes ids: "distinct (map m_id (matches d))" and c: "cancelResults ev whole mid i aid oid d = Inr (x, d')"
  shows "refines d d'"
proof -
  let ?sel = "\<lambda>m. selectedRounds whole m (activeRounds mid d)"
  from c obtain m d0 rel where m: "getMatch mid d = Some m" and sel: "?sel m \<noteq> []"
    and d0: "noBrackets d0 = noBrackets d"
    and r: "releaseForTransition i (m_status m) (cancelStatus whole (?sel m)) mid (serverNow ev) None
        (cancelSelected ev whole m i (?sel m) aid oid d0) = (rel, d')"
    unfolding cancelResults_def Let_def
    by (elim inr_elims) (auto dest!: retract_noBrackets)
  note f0 = noBracketsD [OF d0] and f1 = noCrewD [OF release_noCrew [OF r]]
  have mid: "m_id m = mid" using getMatch_SomeD [OF m] by simp
  have "matches d' = matches (setMatch mid (cancelledRow (cancelStatus whole (?sel m)) m) d)"
    by (simp add: f1 cancel_matches mid f0 setMatch_def cancelledRow_def [abs_def])
  then show ?thesis
    using cancel_move [OF refl sel, of ev i "distinctNumbers (map r_roundNumber (?sel m))" aid oid]
    by (intro refines_reset [OF ids m, where f = "cancelledRow (cancelStatus whole (?sel m)) m"
        and op = "cancelOperation ev whole m i (distinctNumbers (map r_roundNumber (?sel m)))
          (cancelStatus whole (?sel m)) aid oid"])
      (simp_all add: f0 f1 cancel_matches cancelledRow_def cancelOperation_def mid)
qed

lemma undo_refines:
  assumes ids: "distinct (map m_id (matches d))" and u: "undoResultCancellation ev mid oid i d = Inr (x, d')"
  shows "refines d d'"
proof -
  let ?ops = "\<lambda>op. updWhere (\<lambda>o'. op_id o' = op_id op) (\<lambda>o'. o'\<lparr>op_status := UNDONE, op_undoneAt := Some (serverNow ev)\<rparr>)"
  let ?d3 = "\<lambda>op. (setMatch mid (undoRow op) (restoreRecords mid (op_auditLogId op) d))\<lparr>operations := ?ops op (operations d)\<rparr>"
  from u obtain m op d4 where m: "getMatch mid d = Some m"
    and f: "List.find (\<lambda>op. op_id op = oid \<and> op_matchId op = mid) (operations d) = Some op"
    and st: "m_status m = op_resultingStatus op" "m_currentRound m = op_resultingCurrentRound op"
    and d4: "noBrackets d4 = noBrackets (?d3 op)" and d': "addAudit (undoAudit ev i op) d4 = d'"
    unfolding undoResultCancellation_def Let_def
    by (elim inr_elims) (auto dest!: processFinished_noBrackets)
  note f4 = noBracketsD [OF d4]
  from find_SomeD [OF f] have op: "op \<in> set (operations d)" "op_matchId op = mid" by auto
  show ?thesis
    by (rule refines_undo [OF ids m, where f = "undoRow op" and op = op])
      (simp_all add: f4 st op undoRow_def phaseOf_def savedPhase_def flip: d', simp_all add: setMatch_def)
qed

section \<open>Appeals, publication and staffing\<close>

lemma status_refines:
  assumes "distinct (map m_id (matches d))" and "getMatch mid d = Some m"
    and "matches d' = matches (setMatch mid (\<lambda>x. x\<lparr>m_status := s\<rparr>) d)" and "operations d' = operations d"
    and "phase_step (m_rulesVersion m) (phaseOf m) ((phaseOf m)\<lparr>ph_status := s\<rparr>)"
  shows "refines d d'"
  by (rule refines_move [OF assms(1-3)]) (use assms(4,5) in \<open>simp_all add: phaseOf_def\<close>)

lemma appealPhase_range: "appealPhase s red blue \<in> {s, RESULT_PUBLICATION_READY}"
  by (simp add: appealPhase_def)

lemma regulationAppeal_refines:
  assumes ids: "distinct (map m_id (matches d))"
    and c: "completeRegulationAppeal ev mid i payload sid aid d = Inr (tr, d')"
  shows "refines d d'"
proof (cases "Some (ai_idempotencyKey payload) \<in> set (map ap_idempotencyKey (appeals d))")
  case True
  let ?d1 = "invalidateStaleAppeals ev mid i sid d"
  have "List.find (\<lambda>a. ap_idempotencyKey a = Some (ai_idempotencyKey payload)) (appeals ?d1) \<noteq> None"
    using True by (simp only: key_absent stale_frame not_False_eq_True not_not)
  with c have "d' = ?d1"
    unfolding completeRegulationAppeal_def Let_def by (elim inr_elims) auto
  with ids show ?thesis by (simp add: refines_same)
next
  case False
  let ?d1 = "invalidateStaleAppeals ev mid i sid d"
  from c False refl obtain m sred sblue where m: "getMatch mid d = Some m" "m_rulesVersion m = FAULT_APPEAL_OVERTIME_V2"
      "m_lifecycle m = IN_PROGRESS" "m_status m = REGULATION_APPEAL"
    and k: "commitRegulation ev m i payload aid (regulationRounds mid d) [sred, sblue] sred sblue ?d1 = Inr (tr, d')"
    by (rule regulation_appeal_committed) blast
  have mid: "m_id m = mid" using getMatch_SomeD [OF m(1)] by simp
  from k have mat: "matches d' = matches (setMatch mid (\<lambda>x. x\<lparr>m_status := appealPhase OVERTIME_READY sred sblue\<rparr>) d)"
    by (auto elim!: commitRegulationE simp: mid setMatch_def)
  have "operations d' = operations d"
    using k unfolding commitRegulation_def Let_def by (elim inr_elims) (auto simp: addAudit_def)
  with m mat appealPhase_range [of OVERTIME_READY sred sblue] show ?thesis
    by (intro status_refines [OF ids m(1) mat] phase_step.regulation_appeal) (simp_all add: phaseOf_def)
qed

lemma overtimeAppeal_refines:
  assumes ids: "distinct (map m_id (matches d))"
    and c: "completeOvertimeAppeal ev mid i payload aid d = Inr (tr, d')"
  shows "refines d d'"
proof -
  from c consider "d' = d" | m r red blue where "getMatch mid d = Some m" "m_rulesVersion m = FAULT_APPEAL_OVERTIME_V2"
      "m_status m = OVERTIME_APPEAL" "m_lifecycle m = IN_PROGRESS"
      "commitOvertime ev m i payload aid r red blue d = Inr (tr, d')"
    unfolding completeOvertimeAppeal_def Let_def by (elim inr_elims) (auto dest: verifiedMatch_Inr)
  then show ?thesis
  proof cases
    case 1
    with ids show ?thesis by (simp add: refines_same)
  next
    case (2 m r red blue)
    have mid: "m_id m = mid" using getMatch_SomeD [OF 2(1)] by simp
    from 2(5) have mat: "matches d' = matches (setMatch mid (\<lambda>x. x\<lparr>m_status := appealPhase OVERTIME_TIEBREAK_DECISION red blue\<rparr>) d)"
      and "operations d' = operations d"
      unfolding commitOvertime_def Let_def by (elim inr_elims, auto simp: addAudit_def setMatch_def mid)+
    with 2 mat appealPhase_range [of OVERTIME_TIEBREAK_DECISION red blue] show ?thesis
      by (intro status_refines [OF ids 2(1) mat] phase_step.overtime_appeal) (simp_all add: phaseOf_def)
  qed
qed

lemma tied_match:
  "tiedOvertimeAppeal ev mid i d = Inr (m, a) \<Longrightarrow> getMatch mid d = Some m \<and>
   m_rulesVersion m = FAULT_APPEAL_OVERTIME_V2 \<and> m_status m = OVERTIME_TIEBREAK_DECISION"
  unfolding tiedOvertimeAppeal_def by (elim inr_elims) (auto dest: verifiedMatch_Inr)

lemma tie_refines:
  assumes "distinct (map m_id (matches d))" and "tiedOvertimeAppeal ev mid i d = Inr (m, a)"
    and "matches d' = matches (setMatch mid (\<lambda>x. x\<lparr>m_status := s\<rparr>) d)" and "operations d' = operations d"
    and "s \<in> {OVERTIME_READY, RESULT_PUBLICATION_READY}"
  shows "refines d d'"
  using tied_match [OF assms(2)] assms
  by (intro status_refines [OF assms(1) _ assms(3)] phase_step.tiebreak) (auto simp: phaseOf_def)

lemma restart_refines:
  assumes ids: "distinct (map m_id (matches d))" and r: "restartOvertime ev mid i aid d = Inr (tr, d')"
  shows "refines d d'"
proof -
  from r obtain m a au where t: "tiedOvertimeAppeal ev mid i d = Inr (m, a)"
    and d': "setMatch mid (\<lambda>x. x\<lparr>m_status := OVERTIME_READY\<rparr>) (invalidateAttempt ev aid a (addAudit au d)) = d'"
    unfolding restartOvertime_def Let_def by (elim inr_elims) auto
  show ?thesis
    by (rule tie_refines [OF ids t, where s = OVERTIME_READY])
      (simp_all add: invalidateAttempt_def Let_def setMatch_def flip: d')
qed

lemma manualWinner_refines:
  assumes ids: "distinct (map m_id (matches d))" and w: "manualWinner ev mid i c d = Inr (tr, d')"
  shows "refines d d'"
proof -
  from w obtain m a ds au where t: "tiedOvertimeAppeal ev mid i d = Inr (m, a)"
    and d': "addAudit au (setMatch mid (\<lambda>x. x\<lparr>m_status := RESULT_PUBLICATION_READY\<rparr>) (d\<lparr>decisions := ds\<rparr>)) = d'"
    unfolding manualWinner_def Let_def by (elim inr_elims) auto
  show ?thesis
    by (rule tie_refines [OF ids t, where s = RESULT_PUBLICATION_READY])
      (simp_all add: setMatch_def flip: d')
qed

lemma publish_refines:
  assumes ids: "distinct (map m_id (matches d))" and p: "publish sha ev mid i key trace d = Inr (resp, d')"
  shows "refines d d'"
proof (cases "\<exists>p \<in> set (publications d). pb_matchId p = mid \<and> pb_idempotencyKey p = key")
  case True
  then obtain q where "List.find (\<lambda>p. pb_matchId p = mid \<and> pb_idempotencyKey p = key) (publications d) = Some q"
    using find_Some_iff_ex [of "\<lambda>p. pb_matchId p = mid \<and> pb_idempotencyKey p = key" "publications d"] by auto
  with p have "d' = d" by (auto simp: publish_def Let_def split: if_splits)
  with ids show ?thesis by (simp add: refines_same)
next
  case False
  then have new: "\<forall>p \<in> set (publications d). \<not> (pb_matchId p = mid \<and> pb_idempotencyKey p = key)" by blast
  from p new obtain m a win where m: "getMatch mid d = Some m" "m_rulesVersion m = FAULT_APPEAL_OVERTIME_V2"
      "m_status m = RESULT_PUBLICATION_READY" "m_lifecycle m = IN_PROGRESS"
    and k: "commitPublication ev m i key (publicationFingerprint sha trace) trace a win d = Inr (resp, d')"
    by (rule publishE)
  obtain c aid meth where win: "win = (c, aid, meth)" by (cases win)
  have mid: "m_id m = mid" using getMatch_SomeD [OF m(1)] by simp
  from k have mat: "matches d' = matches (setMatch mid (\<lambda>x. x\<lparr>m_status := FINISHED, m_lifecycle := LC_COMPLETED,
                 m_finishedAt := Some (appNow ev)\<rparr>) d)" and "operations d' = operations d"
    unfolding win by (auto elim!: commitPublicationE simp: mid)
  with m phase_step.publish [of "m_rulesVersion m" "phaseOf m"] show ?thesis
    by (intro refines_move [OF ids m(1) mat]) (simp_all, simp add: phaseOf_def)
qed

lemma takeMatch_refines:
  assumes ids: "distinct (map m_id (matches d))" and t: "takeMatch mid js i newId d = Inr (b, d')"
  shows "refines d d'"
proof (cases b)
  case False
  with t have "d' = d" unfolding takeMatch_def Let_def by (elim inr_elims) auto
  with ids show ?thesis by (simp add: refines_same)
next
  case True
  with t obtain m au rows where c: "claimableMatch mid (oi_tournamentId i) d = Inr m" "m_id m = mid"
    and d': "d' = addAudit au (if m_lifecycle m = SUSPENDED
         then setMatch mid (\<lambda>x. x\<lparr>m_lifecycle := IN_PROGRESS, m_suspendedAt := None\<rparr>) (d\<lparr>assignments := rows\<rparr>)
         else d\<lparr>assignments := rows\<rparr>)"
    by (auto elim!: takeMatchE)
  from c have "m \<in> set (matches d)" by (auto simp: claimableMatch_def dest!: find_SomeD)
  from getMatch_unique [OF ids this] c(2) have m: "getMatch mid d = Some m" by simp
  show ?thesis
  proof (cases "m_lifecycle m = SUSPENDED")
    case True
    then show ?thesis
      using phase_step.take [of "phaseOf m" "m_rulesVersion m"]
      by (intro refines_move [OF ids m, where f = "\<lambda>x. x\<lparr>m_lifecycle := IN_PROGRESS, m_suspendedAt := None\<rparr>"])
        (simp_all add: d' setMatch_def phaseOf_def)
  next
    case False
    with ids show ?thesis by (intro refines_same) (simp_all add: d')
  qed
qed

lemma cancelBracket_refines:
  assumes ids: "distinct (map m_id (matches d))" and c: "cancelBracket ev tid wid actor reason force d = Inr d'"
  shows "refines d d'"
proof -
  from c obtain bid ms au where d': "d' = addAudit au (if force then forceDeleteBracket tid wid bid ms d
      else setBracket bid (\<lambda>x. x\<lparr>b_status := B_CANCELLED, b_cancelledAt := Some (appNow ev)\<rparr>) d)"
    unfolding cancelBracket_def Let_def by (elim inr_elims) auto
  show ?thesis
  proof (cases force)
    case True
    define gone where "gone mid \<longleftrightarrow> (\<exists>m \<in> set (matches d). m_id m = mid \<and> m_id m \<in> set ms \<and>
        m_tournamentId m = tid \<and> m_weightClassId m = Some wid)" for mid
    have mat: "matches d' = filter (\<lambda>m. \<not> gone (m_id m)) (matches d)"
      and ops: "operations d' = filter (\<lambda>op. \<not> gone (op_matchId op)) (operations d)"
      using True by (simp_all add: d' forceDeleteBracket_def deleteMatches_def Let_def gone_def)
    have "distinct (map m_id (matches d'))" using ids by (simp add: mat distinct_map_filter)
    moreover have "historyOf k d' = historyOf k d" if "\<not> gone k" for k
      using that by (auto simp: historyOf_def ops)
    ultimately show ?thesis
      by (auto simp: refines_def mat same_or_step_def absOf_def)
  next
    case False
    with ids show ?thesis by (intro refines_same) (simp_all add: d' setBracket_def)
  qed
qed

section \<open>The simulation\<close>

lemma exec_refines:
  assumes ids: "distinct (map m_id (matches d))" and "exec sha c d = Inr d'"
  shows "refines d d'"
proof -
  note keep = refines_same [OF ids]
  show ?thesis
    using assms(2)
    by (cases c)
      (auto elim!: commit_InrE
        dest: vote_noScoring [THEN noScoringD(1)] vote_noScoring [THEN noScoringD(14)]
          resolveIfDue_noScoring [THEN noScoringD(1)] resolveIfDue_noScoring [THEN noScoringD(14)]
          penalty_keeps fault_keeps confirm_noCrew [THEN noCrewD(1)] confirm_noCrew [THEN noCrewD(17)]
          releaseTeam_noCrew [THEN noCrewD(1)] releaseTeam_noCrew [THEN noCrewD(17)]
          manuallyDecide_noBrackets [THEN noBracketsD(1)] manuallyDecide_noBrackets [THEN noBracketsD(17)]
        intro: keep startRound_refines [OF ids] pauseRound_refines [OF ids] resumeRound_refines [OF ids]
          expiration_refines [OF ids] exitMatch_refines [OF ids] completeMatch_refines [OF ids]
          cancelResults_refines [OF ids] undo_refines [OF ids] regulationAppeal_refines [OF ids]
          overtimeAppeal_refines [OF ids] restart_refines [OF ids] manualWinner_refines [OF ids]
          publish_refines [OF ids] takeMatch_refines [OF ids] cancelBracket_refines [OF ids])
qed

definition phasesOk :: "db \<Rightarrow> bool" where
  "phasesOk d \<longleftrightarrow> distinct (map m_id (matches d)) \<and>
     (\<forall>m \<in> set (matches d). spec_ok (m_rulesVersion m) (absOf m d))"

lemma refines_ok: "phasesOk d \<Longrightarrow> refines d d' \<Longrightarrow> phasesOk d'"
  by (fastforce simp: phasesOk_def refines_def same_or_step_def dest: spec_step_ok)

interpretation services: tx_machine "exec sha" phasesOk for sha
proof
  fix d d' c assume "phasesOk d" and "exec sha c d = Inr d'"
  then show "phasesOk d'" by (blast intro: refines_ok exec_refines dest: phasesOk_def [THEN iffD1])
qed

definition transact :: "(jval \<Rightarrow> string) \<Rightarrow> command \<Rightarrow> db \<Rightarrow> db" where
  "transact sha c d = (case exec sha c d of Inl _ \<Rightarrow> d | Inr d' \<Rightarrow> d')"

lemma tx_transact: "services.tx sha = transact sha"
  by (intro ext) (simp add: services.tx_def transact_def)

text \<open>C1: Every committed command of the services moves each match by at most one step of the
  abstract phase machine: the phase, lifecycle and current round of a match, and the phases
  an undo may restore, change as the machine allows and in no other way.\<close>

theorem services_refine_phase_machine:
  assumes "distinct (map m_id (matches d))" and "exec sha c d = Inr d'" and "m' \<in> set (matches d')"
  shows "\<exists>m \<in> set (matches d). m_id m = m_id m' \<and> m_rulesVersion m = m_rulesVersion m' \<and>
    (absOf m' d' = absOf m d \<or> spec_step (m_rulesVersion m) (absOf m d) (absOf m' d'))"
  using exec_refines [OF assms(1,2)] assms(3) by (auto simp: refines_def same_or_step_def)

definition everyone :: presence where
  "everyone = \<lparr> pr_official = \<lambda>_ _. 1, pr_role = \<lambda>_ _. 1, pr_scoreboard = \<lambda>_. 1 \<rparr>"

definition noDigest :: "jval \<Rightarrow> string" where
  "noDigest _ = ''digest''"

theorem services_refine_phase_machine_witness:
  "\<exists>d' m'. exec noDigest (StartRound everyone (at 0) 1 sampleSupervisor 31) waitingDb = Inr d' \<and> matches d' = [m'] \<and>
     m_status m' = ROUND_1_RUNNING \<and>
     spec_step (m_rulesVersion sampleMatch) (absOf sampleMatch waitingDb) (absOf m' d')"
proof -
  have "(case exec noDigest (StartRound everyone (at 0) 1 sampleSupervisor 31) waitingDb of Inl _ \<Rightarrow> False
     | Inr d' \<Rightarrow> map m_status (matches d') = [ROUND_1_RUNNING])" by code_simp
  then obtain d' m' where e: "exec noDigest (StartRound everyone (at 0) 1 sampleSupervisor 31) waitingDb = Inr d'"
    and m': "matches d' = [m']" "m_status m' = ROUND_1_RUNNING"
    by (auto simp: map_eq_Cons_conv split: sum.splits)
  have "distinct (map m_id (matches waitingDb))" and w: "matches waitingDb = [sampleMatch]"
    by (simp_all add: sample_defs)
  from services_refine_phase_machine [OF this(1) e, of m'] m'
  have "absOf m' d' = absOf sampleMatch waitingDb \<or> spec_step (m_rulesVersion sampleMatch) (absOf sampleMatch waitingDb) (absOf m' d')"
    unfolding w by auto
  moreover have "absOf m' d' \<noteq> absOf sampleMatch waitingDb"
    using m'(2) by (auto simp: absOf_def phaseOf_def sampleMatch_def)
  ultimately show ?thesis using e m' by blast
qed

text \<open>C5: After any sequence of commands, thrown ones included, a match is finished exactly when
  its lifecycle is completed and exactly when it has a finish time; it waits exactly when its
  lifecycle is not started, and then without a start time or a current round; appeal,
  overtime and publication phases only occur under the fault and appeal rules; and the
  current round is the one its phase requires.\<close>

theorem every_run_keeps_phases_consistent:
  assumes "phasesOk d" and "m \<in> set (matches (fold (transact sha) cs d))"
  shows "(m_status m = FINISHED \<longleftrightarrow> m_lifecycle m = LC_COMPLETED) \<and> (m_status m = FINISHED \<longleftrightarrow> m_finishedAt m \<noteq> None) \<and>
    (m_status m = WAITING \<longleftrightarrow> m_lifecycle m = NOT_STARTED) \<and>
    (m_status m = WAITING \<longrightarrow> m_startedAt m = None \<and> m_currentRound m = None) \<and>
    (m_status m \<in> v2Phases \<longrightarrow> m_rulesVersion m = FAULT_APPEAL_OVERTIME_V2) \<and>
    (m_status m \<in> {ROUND_1_RUNNING, ROUND_1_PAUSED, BREAK, OVERTIME_RUNNING, OVERTIME_PAUSED, OVERTIME_APPEAL,
       OVERTIME_TIEBREAK_DECISION} \<longrightarrow> m_currentRound m = Some 1) \<and>
    (m_status m \<in> {ROUND_2_RUNNING, ROUND_2_PAUSED, REGULATION_APPEAL, AWAITING_RESULT_SAVE} \<longrightarrow> m_currentRound m = Some 2)"
proof -
  have "phasesOk (fold (transact sha) cs d)"
    using services.run_inv [OF assms(1), of sha cs] by (simp add: tx_transact)
  with assms(2) have "phase_ok (m_rulesVersion m) (phaseOf m)"
    by (auto simp: phasesOk_def spec_ok_def absOf_def)
  then show ?thesis unfolding phase_ok_def phaseOf_def phase.select_convs by blast
qed

definition sampleRun :: "command list" where
  "sampleRun = [StartRound everyone (at 0) 1 sampleSupervisor 31, PauseRound (at 30000) 1 sampleSupervisor,
     ExpireRound (at 40000) 1 31, ResumeRound (at 50000) 1 sampleSupervisor, ExpireRound (at 110000) 1 31]"

theorem every_run_keeps_phases_consistent_witness:
  "phasesOk waitingDb \<and> map m_status (matches (fold (transact noDigest) sampleRun waitingDb)) = [BREAK] \<and>
   map m_currentRound (matches (fold (transact noDigest) sampleRun waitingDb)) = [Some 1]"
proof -
  have ok: "phasesOk waitingDb"
    by (simp add: phasesOk_def sample_defs absOf_def historyOf_def phaseOf_def spec_ok_def phase_ok_def v2Phases_def)
  have r: "map m_status (matches (fold (transact noDigest) sampleRun waitingDb)) = [BREAK]" by code_simp
  from ok r every_run_keeps_phases_consistent [OF ok, of _ noDigest sampleRun] show ?thesis
    by (auto simp: map_eq_Cons_conv)
qed



end
