(* ===== verification/Match_Runs.thy ===== *)
theory Match_Runs
  imports Match_Machine
begin

text \<open>
  Results over runs of the services: which commands write outcomes, that a published match
  cannot be published again, and a run that finishes a match without a publication.
\<close>

section \<open>Outcomes\<close>

lemma outcomes_steps [simp]:
  "outcomes (addAudit a d) = outcomes d" "outcomes (setAuditMetadata aid meta d) = outcomes d"
  "outcomes (invalidateRoundNumbers mid ns t aid d) = outcomes d"
  "outcomes (invalidateStaleAppeals ev mid i sid d) = outcomes d"
  by (simp_all add: addAudit_def setAuditMetadata_def invalidateRoundNumbers_def invalidateStaleAppeals_def Let_def)

lemma startRound_outcomes: "startRound pr ev mid i rid d = Inr (x, d') \<Longrightarrow> outcomes d' = outcomes d"
  unfolding startRound_def Let_def by (elim inr_elims) (simp_all, (drule sym, simp)+)

lemma pauseRound_outcomes: "pauseRound ev mid i d = Inr (x, d') \<Longrightarrow> outcomes d' = outcomes d"
  by (cases x) (auto elim!: pauseRoundE)

lemma resumeRound_outcomes: "resumeRound ev mid i d = Inr (x, d') \<Longrightarrow> outcomes d' = outcomes d"
  by (cases x) (auto elim!: resumeRoundE)

lemma expiration_outcomes: "handleExpiration ev mid rid d = Inr (x, d') \<Longrightarrow> outcomes d' = outcomes d"
  unfolding handleExpiration_def evaluateExpiration_def Let_def
  by (auto split: sum.splits if_splits) (elim inr_elims; auto elim: expireRoundE)+

lemma exit_outcomes: "exitMatch ev mid i mode aid oid d = Inr (x, d') \<Longrightarrow> outcomes d' = outcomes d"
  unfolding exitMatch_def Let_def by (elim inr_elims) (auto dest!: release_noCrew [THEN noCrewD(15)] split: if_splits)

lemma complete_outcomes: "completeMatch ev mid i d = Inr (x, d') \<Longrightarrow> outcomes d' = outcomes d"
  unfolding completeMatch_def Let_def
  by (elim inr_elims) (auto dest!: release_noCrew [THEN noCrewD(15)] processFinished_noBrackets [THEN noBracketsD(15)])

lemma cancel_outcomes: "cancelResults ev whole mid i aid oid d = Inr (x, d') \<Longrightarrow> outcomes d' = outcomes d"
  unfolding cancelResults_def Let_def
  by (elim inr_elims) (auto dest!: release_noCrew [THEN noCrewD(15)] retract_noBrackets [THEN noBracketsD(15)])

lemma cancel_publications: "cancelResults ev whole mid i aid oid d = Inr (x, d') \<Longrightarrow> publications d' = publications d"
  unfolding cancelResults_def Let_def
  by (elim inr_elims) (auto dest!: release_noCrew [THEN noCrewD(16)] retract_noBrackets [THEN noBracketsD(16)])

lemma undo_outcomes: "undoResultCancellation ev mid oid i d = Inr (x, d') \<Longrightarrow> outcomes d' = outcomes d"
  unfolding undoResultCancellation_def Let_def
  by (elim inr_elims) (auto dest!: processFinished_noBrackets [THEN noBracketsD(15)])

lemma regulation_outcomes: "completeRegulationAppeal ev mid i payload sid aid d = Inr (tr, d') \<Longrightarrow> outcomes d' = outcomes d"
  unfolding completeRegulationAppeal_def commitRegulation_def Let_def by (elim inr_elims) auto

lemma overtime_outcomes: "completeOvertimeAppeal ev mid i payload aid d = Inr (tr, d') \<Longrightarrow> outcomes d' = outcomes d"
  unfolding completeOvertimeAppeal_def commitOvertime_def Let_def by (elim inr_elims) auto

lemma restart_outcomes: "restartOvertime ev mid i aid d = Inr (tr, d') \<Longrightarrow> outcomes d' = outcomes d"
  unfolding restartOvertime_def Let_def by (elim inr_elims) (auto simp: invalidateAttempt_def Let_def)

lemma manualWinner_outcomes: "manualWinner ev mid i c d = Inr (tr, d') \<Longrightarrow> outcomes d' = outcomes d"
  unfolding manualWinner_def Let_def by (elim inr_elims) auto

lemma take_outcomes: "takeMatch mid js i newId d = Inr (b, d') \<Longrightarrow> outcomes d' = outcomes d"
  unfolding takeMatch_def Let_def
  by (elim inr_elims) (auto dest!: insertAssignments_noCrew [THEN noCrewD(15)] elim!: inr_elims split: if_splits)

lemma penalty_outcomes: "addPenalty ev a mid i sid pid d = Inr (tr, d') \<Longrightarrow> outcomes d' = outcomes d"
  unfolding addPenalty_def Let_def by (elim inr_elims) auto

lemma fault_outcomes: "recordFault ev a sev i mid trace fid aid d = Inr (tr, d') \<Longrightarrow> outcomes d' = outcomes d"
  unfolding recordFault_def Let_def by (elim inr_elims) auto

lemma publish_outcomes:
  assumes "publish sha ev mid i key trace d = Inr (resp, d')"
  shows "outcomes d' = outcomes d \<or> (\<exists>z. outcomes d' = outcomes d @ [z] \<and> o_matchId z = mid)"
  using assms unfolding publish_def Let_def
  by (elim inr_elims) (auto elim!: commitPublicationE simp: outcomeRow_def dest: verifiedMatch_Inr [THEN getMatch_SomeD])

fun deletesMatches :: "command \<Rightarrow> bool" where
  "deletesMatches (CancelBracket ev tid wid actor reason force) = force"
| "deletesMatches _ = False"

lemma cancelBracket_outcomes:
  "cancelBracket ev tid wid actor reason False d = Inr d' \<Longrightarrow> outcomes d' = outcomes d"
  unfolding cancelBracket_def Let_def by (elim inr_elims) (auto simp: setBracket_def)

lemma exec_outcomes:
  assumes "exec sha c d = Inr d'" and "\<not> deletesMatches c"
  shows "set (outcomes d) \<subseteq> set (outcomes d')"
  using assms
  by (cases c)
    (auto elim!: commit_InrE
      dest: vote_noScoring [THEN noScoringD(12)] resolveIfDue_noScoring [THEN noScoringD(12)] penalty_outcomes
        fault_outcomes startRound_outcomes pauseRound_outcomes resumeRound_outcomes expiration_outcomes exit_outcomes
        complete_outcomes cancel_outcomes undo_outcomes regulation_outcomes overtime_outcomes restart_outcomes
        manualWinner_outcomes publish_outcomes take_outcomes confirm_noCrew [THEN noCrewD(15)]
        releaseTeam_noCrew [THEN noCrewD(15)] manuallyDecide_noBrackets [THEN noBracketsD(15)]
        cancelBracket_outcomes)

lemma run_outcomes:
  "(\<And>c. c \<in> set cs \<Longrightarrow> \<not> deletesMatches c) \<Longrightarrow> set (outcomes d) \<subseteq> set (outcomes (fold (transact sha) cs d))"
proof (induction cs arbitrary: d)
  case (Cons c cs)
  have "set (outcomes d) \<subseteq> set (outcomes (transact sha c d))"
    using exec_outcomes [of sha c d] Cons.prems [of c] by (auto simp: transact_def split: sum.splits)
  with Cons.IH [of "transact sha c d"] Cons.prems show ?case by auto
qed simp

section \<open>Publication over runs\<close>

text \<open>C36: Once an outcome of a match is stored, no run of commands short of a forced bracket
  cancellation makes a publication under a fresh key succeed again for that match, not even
  after its results were cancelled and it was fought anew.\<close>

theorem outcome_blocks_later_publication:
  assumes o: "z \<in> set (outcomes d)" "o_matchId z = mid" and run: "\<forall>c \<in> set cs. \<not> deletesMatches c"
    and e: "fold (transact sha) cs d = e"
    and fresh: "\<forall>p \<in> set (publications e). \<not> (pb_matchId p = mid \<and> pb_idempotencyKey p = key)"
  shows "\<exists>err. publish sha ev mid i key trace e = Inl err"
proof (rule ccontr)
  assume "\<not> ?thesis"
  then obtain resp d' where p: "publish sha ev mid i key trace e = Inr (resp, d')"
    by (cases "publish sha ev mid i key trace e") auto
  from run_outcomes [of cs d sha] o(1) run e have z: "z \<in> set (outcomes e)" by auto
  from p fresh obtain m a win where m: "getMatch mid e = Some m"
    and k: "commitPublication ev m i key (publicationFingerprint sha trace) trace a win e = Inr (resp, d')"
    by (rule publishE)
  obtain c aid meth where win: "win = (c, aid, meth)" by (cases win)
  from k have "\<forall>x \<in> set (outcomes e). \<not> outcomeConflict x (outcomeRow ev (m_id m) i a c aid meth)"
    unfolding win by (rule commitPublicationE)
  with z o(2) getMatch_SomeD [OF m] show False by (auto simp: outcomeConflict_def outcomeRow_def)
qed

text \<open>The match of \<^const>\<open>appealDb\<close>, finished with red as the stored winner.\<close>

definition decidedDb :: db where
  "decidedDb = appealDb\<lparr> matches := [sampleMatch\<lparr> m_status := FINISHED, m_lifecycle := LC_COMPLETED,
       m_currentRound := Some 2, m_startedAt := Some 0, m_finishedAt := Some 110000 \<rparr>],
     outcomes := [\<lparr> o_matchId = 1, o_winnerAthleteId = 11, o_winnerColor = RED, o_method = REGULATION_SCORE,
       o_sourceAppealId = Some 700, o_sourceOvertimeRoundId = None, o_assignmentId = None, o_sessionId = Some 4,
       o_publishedAt = 110000 \<rparr>] \<rparr>"

definition cancellingRun :: "command list" where
  "cancellingRun = [CancelResults (at 120000) False 1 sampleSupervisor 600 601]"

theorem outcome_blocks_later_publication_witness:
  "\<exists>e. e = fold (transact noDigest) cancellingRun decidedDb \<and> o_matchId (hd (outcomes decidedDb)) = 1 \<and>
     (\<exists>err. publish noDigest (at 240000) 1 sampleSupervisor ''p2'' None e = Inl err)"
proof -
  define e where "e = fold (transact noDigest) cancellingRun decidedDb"
  have "publications e = []"
    by (auto simp: e_def cancellingRun_def transact_def decidedDb_def sample_defs
        elim!: commit_InrE dest!: cancel_publications split: sum.splits)
  then have fresh: "\<forall>p \<in> set (publications e). \<not> (pb_matchId p = 1 \<and> pb_idempotencyKey p = ''p2'')" by simp
  have run: "\<forall>c \<in> set cancellingRun. \<not> deletesMatches c" by (simp add: cancellingRun_def)
  have "\<exists>err. publish noDigest (at 240000) 1 sampleSupervisor ''p2'' None e = Inl err"
    by (rule outcome_blocks_later_publication [OF _ _ run e_def [symmetric] fresh])
      (simp_all add: decidedDb_def, simp)
  with e_def show ?thesis by (auto simp: decidedDb_def)
qed

definition skippingRun :: "command list" where
  "skippingRun = [ExitMatch (at 100000) 1 sampleSupervisor SUSPEND_KEEP_ROUNDS_1_AND_2 600 601,
     TakeMatch 1 [62, 63, 64] sampleInspector (\<lambda>n. 80 + n),
     CompleteMatch (at 110000) 1 (OfficialIdentity 80 61 71)]"


end
