(* ===== verification/Calendar.thy ===== *)
theory Calendar
  imports Prelude
begin

text \<open>
  Dates as JavaScript computes them: a date is its number of milliseconds since the start of
  1970 in UTC, days and years follow the proleptic Gregorian calendar, and \<open>Date.UTC\<close> carries
  months and days that are out of range into the neighbouring years and months, reads the years
  0 to 99 as 1900 to 1999, and takes day 0 as the last day of the month before. On top of them
  \<open>addUtcMonths\<close> of \<open>subscriptions/admin-access.policy.ts\<close>. The lemmas say that the calendar
  fields of a date and the date determine each other, and what adding months does to both.
\<close>

section \<open>Days, months and years\<close>

definition MS_PER_DAY :: int where
  "MS_PER_DAY = 86400000"

definition dayFromYear :: "int \<Rightarrow> int" where
  "dayFromYear y = 365 * (y - 1970) + (y - 1969) div 4 - (y - 1901) div 100 + (y - 1601) div 400"

definition leapYear :: "int \<Rightarrow> bool" where
  "leapYear y \<longleftrightarrow> y mod 4 = 0 \<and> (y mod 100 \<noteq> 0 \<or> y mod 400 = 0)"

text \<open>The year of a day: an estimate from the mean length of a year, off by one at most.\<close>

definition yearFromDay :: "int \<Rightarrow> int" where
  "yearFromDay d = (let y = 1970 + 400 * d div 146097 in
     if d < dayFromYear y then y - 1 else if dayFromYear (y + 1) \<le> d then y + 1 else y)"

text \<open>Months are counted from 0 as JavaScript does; \<open>monthStart\<close> is the day of the year a month
  starts with, 12 standing for the start of the next year.\<close>

definition monthStart :: "bool \<Rightarrow> int \<Rightarrow> int" where
  "monthStart leap m =
     (if m \<le> 0 then 0 else if m = 1 then 31 else
        (if leap then 1 else 0) +
        (if m = 2 then 59 else if m = 3 then 90 else if m = 4 then 120 else if m = 5 then 151
         else if m = 6 then 181 else if m = 7 then 212 else if m = 8 then 243 else if m = 9 then 273
         else if m = 10 then 304 else if m = 11 then 334 else 365))"

definition monthFromYearDay :: "bool \<Rightarrow> int \<Rightarrow> int" where
  "monthFromYearDay leap n = (let l = (if leap then 1 else 0) in
     if n < 31 then 0 else if n < 59 + l then 1 else if n < 90 + l then 2 else if n < 120 + l then 3
     else if n < 151 + l then 4 else if n < 181 + l then 5 else if n < 212 + l then 6
     else if n < 243 + l then 7 else if n < 273 + l then 8 else if n < 304 + l then 9
     else if n < 334 + l then 10 else 11)"

definition makeDay :: "int \<Rightarrow> int \<Rightarrow> int \<Rightarrow> int" where
  "makeDay year month date = (let y = year + month div 12 in
     dayFromYear y + monthStart (leapYear y) (month mod 12) + date - 1)"

definition dateUTC :: "int \<Rightarrow> int \<Rightarrow> int \<Rightarrow> int \<Rightarrow> int \<Rightarrow> int \<Rightarrow> int \<Rightarrow> time" where
  "dateUTC year month date hours minutes seconds ms =
     makeDay (if 0 \<le> year \<and> year \<le> 99 then 1900 + year else year) month date * MS_PER_DAY +
     hours * 3600000 + minutes * 60000 + seconds * 1000 + ms"

definition yearDay :: "time \<Rightarrow> int" where
  "yearDay t = t div MS_PER_DAY - dayFromYear (yearFromDay (t div MS_PER_DAY))"

definition getUTCFullYear :: "time \<Rightarrow> int" where
  "getUTCFullYear t = yearFromDay (t div MS_PER_DAY)"

definition getUTCMonth :: "time \<Rightarrow> int" where
  "getUTCMonth t = monthFromYearDay (leapYear (getUTCFullYear t)) (yearDay t)"

definition getUTCDate :: "time \<Rightarrow> int" where
  "getUTCDate t = yearDay t - monthStart (leapYear (getUTCFullYear t)) (getUTCMonth t) + 1"

definition getUTCHours :: "time \<Rightarrow> int" where
  "getUTCHours t = t div 3600000 mod 24"

definition getUTCMinutes :: "time \<Rightarrow> int" where
  "getUTCMinutes t = t div 60000 mod 60"

definition getUTCSeconds :: "time \<Rightarrow> int" where
  "getUTCSeconds t = t div 1000 mod 60"

definition getUTCMilliseconds :: "time \<Rightarrow> int" where
  "getUTCMilliseconds t = t mod 1000"

section \<open>Adding months\<close>

definition addUtcMonths :: "time \<Rightarrow> int \<Rightarrow> time" where
  "addUtcMonths v months =
     (let lastDay = dateUTC (getUTCFullYear v) (getUTCMonth v + months + 1) 0 0 0 0 0 in
      dateUTC (getUTCFullYear lastDay) (getUTCMonth lastDay) (min (getUTCDate v) (getUTCDate lastDay))
        (getUTCHours v) (getUTCMinutes v) (getUTCSeconds v) (getUTCMilliseconds v))"

section \<open>Fields and dates determine each other\<close>

definition daysInMonth :: "int \<Rightarrow> int \<Rightarrow> int" where
  "daysInMonth y m = monthStart (leapYear y) (m + 1) - monthStart (leapYear y) m"

lemma div_bounds: "0 < k \<Longrightarrow> k * (x div k) \<le> x" "0 < k \<Longrightarrow> x < k * (x div k) + k" for x k :: int
  using mult_div_mod_eq [of k x] pos_mod_bound [of k x] pos_mod_sign [of k x] by linarith+

lemma div_step:
  fixes x k :: int
  assumes "0 < k"
  shows "(x + 1) div k = x div k + (if k dvd x + 1 then 1 else 0)"
proof (cases "k dvd x + 1")
  case True
  then obtain c where c: "x + 1 = k * c" ..
  have "(k * c - 1) div k = c - 1"
    using assms by (intro int_div_pos_eq [of _ _ _ "k - 1"]) (simp_all add: algebra_simps)
  moreover have "x = k * c - 1" using c by simp
  ultimately have "x div k = c - 1" by simp
  with True c assms show ?thesis by simp
next
  case False
  have "x mod k \<noteq> k - 1"
  proof
    assume "x mod k = k - 1"
    then have "x + 1 = k * (x div k + 1)" using mult_div_mod_eq [of k x] by (simp only: distrib_left)
    with False show False by simp
  qed
  then have "0 \<le> x mod k + 1" "x mod k + 1 < k"
    using pos_mod_bound [OF assms, of x] pos_mod_sign [OF assms, of x] by linarith+
  then have "(x + 1) div k = x div k"
    using mult_div_mod_eq [of k x] by (intro int_div_pos_eq [of _ _ _ "x mod k + 1"]) simp_all
  with False show ?thesis by simp
qed

lemma dvd_shift: "k dvd c \<Longrightarrow> k dvd y - c \<longleftrightarrow> k dvd y" for k c y :: int
  using dvd_add_right_iff [of k c "y - c"] by simp

lemma step_1969: "(y - 1968) div 4 = (y - 1969) div 4 + (if 4 dvd y then 1 else 0)" for y :: int
  using div_step [of 4 "y - 1969"] dvd_shift [of 4 1968 y] by simp

lemma step_1901: "(y - 1900) div 100 = (y - 1901) div 100 + (if 100 dvd y then 1 else 0)" for y :: int
  using div_step [of 100 "y - 1901"] dvd_shift [of 100 1900 y] by simp

lemma step_1601: "(y - 1600) div 400 = (y - 1601) div 400 + (if 400 dvd y then 1 else 0)" for y :: int
  using div_step [of 400 "y - 1601"] dvd_shift [of 400 1600 y] by simp

lemma yearLength: "dayFromYear (y + 1) = dayFromYear y + monthStart (leapYear y) 12"
proof -
  define a b c A B C where abc: "a = (y - 1969) div 4" "b = (y - 1901) div 100" "c = (y - 1601) div 400"
    and ABC: "A \<longleftrightarrow> 4 dvd y" "B \<longleftrightarrow> 100 dvd y" "C \<longleftrightarrow> 400 dvd y"
  have day: "dayFromYear y = 365 * (y - 1970) + a - b + c"
    unfolding dayFromYear_def abc ..
  have shift: "y + 1 - 1970 = y - 1969" "y + 1 - 1969 = y - 1968" "y + 1 - 1901 = y - 1900" "y + 1 - 1601 = y - 1600" by simp_all
  have succ: "dayFromYear (y + 1) =
      365 * (y - 1969) + (a + (if A then 1 else 0)) - (b + (if B then 1 else 0)) + (c + (if C then 1 else 0))"
    unfolding dayFromYear_def shift step_1969 step_1901 step_1601 abc ABC ..
  have imp: "B \<Longrightarrow> A" "C \<Longrightarrow> B"
    unfolding ABC by (erule dvd_trans [rotated], simp)+
  have leap: "leapYear y \<longleftrightarrow> A \<and> (\<not> B \<or> C)"
    unfolding leapYear_def ABC mod_eq_0_iff_dvd ..
  show ?thesis
    unfolding succ day leap using imp by (cases A; cases B; cases C) (simp_all add: monthStart_def)
qed

lemma dayFromYear_bounds:
  "400 * dayFromYear y \<le> 146097 * y - 287810090" "146097 * y - 287812090 \<le> 400 * dayFromYear y"
proof -
  define a b c where "a = (y - 1969) div 4" and "b = (y - 1901) div 100" and "c = (y - 1601) div 400"
  have d: "4 * a \<le> y - 1969" "y - 1969 < 4 * a + 4" "100 * b \<le> y - 1901" "y - 1901 < 100 * b + 100"
    "400 * c \<le> y - 1601" "y - 1601 < 400 * c + 400"
    unfolding a_def b_def c_def by (rule div_bounds; simp)+
  have "dayFromYear y = 365 * (y - 1970) + a - b + c"
    by (simp add: dayFromYear_def a_def b_def c_def)
  then have e: "400 * dayFromYear y = 146000 * y - 287620000 + 400 * a - 400 * b + 400 * c" by simp
  show "400 * dayFromYear y \<le> 146097 * y - 287810090" using d e by linarith
  show "146097 * y - 287812090 \<le> 400 * dayFromYear y" using d e by linarith
qed

lemma yearFromDay_bracket: "dayFromYear (yearFromDay d) \<le> d" "d < dayFromYear (yearFromDay d + 1)"
proof -
  define q where "q = 400 * d div 146097"
  have q: "146097 * q \<le> 400 * d" "400 * d < 146097 * q + 146097" unfolding q_def by (rule div_bounds; simp)+
  have "dayFromYear (1969 + q) \<le> d" using q dayFromYear_bounds(1) [of "1969 + q"] by simp
  moreover have "d < dayFromYear (1970 + q + 2)" using q dayFromYear_bounds(2) [of "1970 + q + 2"] by simp
  ultimately show "dayFromYear (yearFromDay d) \<le> d" "d < dayFromYear (yearFromDay d + 1)"
    unfolding yearFromDay_def Let_def q_def [symmetric] by (auto simp: algebra_simps)
qed

lemma dayFromYear_strict: "y < z \<Longrightarrow> dayFromYear y < dayFromYear z"
proof (induction "nat (z - y - 1)" arbitrary: z)
  case 0
  then have "z = y + 1" by simp
  then show ?case using yearLength [of y] by (auto simp: monthStart_def)
next
  case (Suc n)
  then have "dayFromYear y < dayFromYear (z - 1)" by (intro Suc.hyps) auto
  then show ?case using yearLength [of "z - 1"] by (auto simp: monthStart_def split: if_splits)
qed

lemma yearFromDay_unique:
  assumes "dayFromYear y \<le> d" and "d < dayFromYear (y + 1)"
  shows "yearFromDay d = y"
proof (rule ccontr)
  assume "yearFromDay d \<noteq> y"
  then consider "yearFromDay d + 1 \<le> y" | "y + 1 \<le> yearFromDay d" by linarith
  then show False
    using assms yearFromDay_bracket [of d] dayFromYear_strict [of "yearFromDay d + 1" y] dayFromYear_strict [of "y + 1" "yearFromDay d"]
    by cases (auto simp: le_less)
qed

lemma month_cases:
  assumes "0 \<le> (m::int)" and "m \<le> 11"
  obtains "m = 0" | "m = 1" | "m = 2" | "m = 3" | "m = 4" | "m = 5" | "m = 6" | "m = 7" | "m = 8" | "m = 9" | "m = 10" | "m = 11"
proof -
  have "m \<in> set [0..11]" using assms by simp
  moreover have "set [0..11] = {0, 1, 2, 3, 4, 5, 6, 7, 8, 9, 10, 11::int}" by code_simp
  ultimately show thesis using that by blast
qed

lemma monthFromYearDay_range: "0 \<le> monthFromYearDay leap n" "monthFromYearDay leap n \<le> 11"
  by (simp_all add: monthFromYearDay_def Let_def)

lemma monthFromYearDay_bracket:
  assumes "0 \<le> n" and "n < monthStart leap 12"
  shows "monthStart leap (monthFromYearDay leap n) \<le> n" "n < monthStart leap (monthFromYearDay leap n + 1)"
  using assms by (cases leap; auto simp: monthFromYearDay_def monthStart_def)+

lemma monthFromYearDay_unique:
  assumes "0 \<le> m" and "m \<le> 11" and "monthStart leap m \<le> n" and "n < monthStart leap (m + 1)"
  shows "monthFromYearDay leap n = m"
  using assms(1,2) by (rule month_cases) (use assms(3,4) in \<open>cases leap; simp add: monthFromYearDay_def monthStart_def\<close>)+

lemma daysInMonth_range: "0 \<le> m \<Longrightarrow> m \<le> 11 \<Longrightarrow> 28 \<le> daysInMonth y m \<and> daysInMonth y m \<le> 31"
  by (erule (1) month_cases) (auto simp: daysInMonth_def monthStart_def)

definition validDate :: "int \<Rightarrow> int \<Rightarrow> int \<Rightarrow> bool" where
  "validDate y m dd \<longleftrightarrow> 0 \<le> m \<and> m \<le> 11 \<and> 1 \<le> dd \<and> dd \<le> daysInMonth y m"

lemma monthStart_le: "0 \<le> m \<Longrightarrow> m \<le> 11 \<Longrightarrow> 0 \<le> monthStart leap m \<and> monthStart leap (m + 1) \<le> monthStart leap 12"
  by (erule (1) month_cases) (auto simp: monthStart_def)

text \<open>The fields of a date are a valid date, and are those of no other day.\<close>

lemma fields_valid: "validDate (getUTCFullYear t) (getUTCMonth t) (getUTCDate t)"
  and makeDay_fields: "makeDay (getUTCFullYear t) (getUTCMonth t) (getUTCDate t) = t div MS_PER_DAY"
proof -
  let ?y = "getUTCFullYear t" and ?m = "getUTCMonth t"
  have n: "0 \<le> yearDay t" "yearDay t < monthStart (leapYear ?y) 12"
    using yearFromDay_bracket [of "t div MS_PER_DAY"] yearLength [of "getUTCFullYear t"]
    by (simp_all add: yearDay_def getUTCFullYear_def)
  have m: "0 \<le> ?m" "?m \<le> 11" by (simp_all add: getUTCMonth_def monthFromYearDay_range)
  have b: "monthStart (leapYear ?y) ?m \<le> yearDay t" "yearDay t < monthStart (leapYear ?y) (?m + 1)"
    using monthFromYearDay_bracket [OF n] by (simp_all add: getUTCMonth_def)
  then show "validDate ?y ?m (getUTCDate t)" using m by (simp add: validDate_def getUTCDate_def daysInMonth_def)
  show "makeDay ?y ?m (getUTCDate t) = t div MS_PER_DAY"
    using m by (simp add: makeDay_def getUTCDate_def yearDay_def getUTCFullYear_def)
qed

lemma fields_makeDay:
  assumes "validDate y m dd" and "t div MS_PER_DAY = makeDay y m dd"
  shows "getUTCFullYear t = y" "getUTCMonth t = m" "getUTCDate t = dd"
proof -
  from assms(1) have m: "0 \<le> m" "m \<le> 11" and dd: "1 \<le> dd" "dd \<le> daysInMonth y m" by (simp_all add: validDate_def)
  then have day: "t div MS_PER_DAY = dayFromYear y + monthStart (leapYear y) m + dd - 1" using assms(2) by (simp add: makeDay_def)
  show y: "getUTCFullYear t = y"
    unfolding getUTCFullYear_def using dd day monthStart_le [OF m, of "leapYear y"]
    by (intro yearFromDay_unique) (simp_all add: yearLength daysInMonth_def)
  have n: "yearDay t = monthStart (leapYear y) m + dd - 1" using y day by (simp add: yearDay_def getUTCFullYear_def)
  show month: "getUTCMonth t = m"
    unfolding getUTCMonth_def y using m dd n by (intro monthFromYearDay_unique) (simp_all add: daysInMonth_def)
  show "getUTCDate t = dd" unfolding getUTCDate_def y month using n by simp
qed

lemma clock_fields:
  "getUTCHours t * 3600000 + getUTCMinutes t * 60000 + getUTCSeconds t * 1000 + getUTCMilliseconds t = t mod MS_PER_DAY"
proof -
  define a b c where abc: "a = t div 1000" "b = a div 60" "c = b div 60"
  have div: "t div 60000 = b" "t div 3600000 = c"
    unfolding abc using zdiv_zmult2_eq [of 60 t 1000] zdiv_zmult2_eq [of 60 "t div 1000" 60] zdiv_zmult2_eq [of 3600 t 1000]
    by simp_all
  have mods: "t = 1000 * a + t mod 1000" "a = 60 * b + a mod 60" "b = 60 * c + b mod 60" "c = 24 * (c div 24) + c mod 24"
    unfolding abc by simp_all
  let ?r = "(c mod 24) * 3600000 + (b mod 60) * 60000 + (a mod 60) * 1000 + t mod 1000"
  have t: "t = MS_PER_DAY * (c div 24) + ?r" using mods unfolding MS_PER_DAY_def by linarith
  have range: "0 \<le> t mod 1000" "t mod 1000 < 1000" "0 \<le> a mod 60" "a mod 60 < 60" "0 \<le> b mod 60" "b mod 60 < 60"
    "0 \<le> c mod 24" "c mod 24 < 24" by simp_all
  then have "0 \<le> ?r" "?r < MS_PER_DAY" unfolding MS_PER_DAY_def by linarith+
  then have "t mod MS_PER_DAY = ?r" by (subst t) simp
  then show ?thesis
    by (simp add: getUTCHours_def getUTCMinutes_def getUTCSeconds_def getUTCMilliseconds_def div abc [symmetric])
qed

section \<open>What adding months does\<close>

text \<open>Months numbered through the years: the first day of month \<open>n\<close>.\<close>

definition firstDay :: "int \<Rightarrow> int" where
  "firstDay n = makeDay 0 n 1"

definition monthLength :: "int \<Rightarrow> int" where
  "monthLength n = daysInMonth (n div 12) (n mod 12)"

lemma makeDay_firstDay: "makeDay y m dd = firstDay (12 * y + m) + dd - 1"
  by (simp add: firstDay_def makeDay_def Let_def)

lemma monthLength_range: "28 \<le> monthLength n" "monthLength n \<le> 31"
  using daysInMonth_range [of "n mod 12" "n div 12"] by (simp_all add: monthLength_def)

lemma firstDay_at: "0 \<le> m \<Longrightarrow> m \<le> 11 \<Longrightarrow> firstDay (12 * y + m) = dayFromYear y + monthStart (leapYear y) m"
  by (simp add: firstDay_def makeDay_def Let_def)

lemma firstDay_next: "firstDay (n + 1) = firstDay n + monthLength n"
proof -
  define y m where ym: "y = n div 12" "m = n mod 12"
  then have n: "n = 12 * y + m" and m: "0 \<le> m" "m \<le> 11" by simp_all
  have len: "monthLength n = monthStart (leapYear y) (m + 1) - monthStart (leapYear y) m"
    by (simp only: monthLength_def daysInMonth_def ym)
  show ?thesis
  proof (cases "m = 11")
    case True
    have "firstDay (n + 1) = dayFromYear (y + 1)"
      using firstDay_at [of 0 "y + 1"] True n by (simp add: monthStart_def add.commute)
    then show ?thesis using firstDay_at [OF m, of y] yearLength [of y] len True n by simp
  next
    case False
    then have "firstDay (n + 1) = dayFromYear y + monthStart (leapYear y) (m + 1)"
      using firstDay_at [of "m + 1" y] m n by (simp add: add.assoc)
    then show ?thesis using firstDay_at [OF m, of y] len n by simp
  qed
qed

lemma firstDay_span: "28 * int k \<le> firstDay (n + int k) - firstDay n" "firstDay (n + int k) - firstDay n \<le> 31 * int k"
proof (induction k)
  case (Suc k)
  have "firstDay (n + int (Suc k)) = firstDay (n + int k) + monthLength (n + int k)"
    using firstDay_next [of "n + int k"] by (simp add: algebra_simps)
  with Suc monthLength_range [of "n + int k"] show "28 * int (Suc k) \<le> firstDay (n + int (Suc k)) - firstDay n"
    "firstDay (n + int (Suc k)) - firstDay n \<le> 31 * int (Suc k)" by simp_all
qed simp_all

definition monthIndex :: "time \<Rightarrow> int" where
  "monthIndex t = 12 * getUTCFullYear t + getUTCMonth t"

lemma monthIndex_fields: "monthIndex t div 12 = getUTCFullYear t" "monthIndex t mod 12 = getUTCMonth t"
  using fields_valid [of t] by (simp_all add: monthIndex_def validDate_def)

lemma date_of_index: "t div MS_PER_DAY = firstDay (monthIndex t) + getUTCDate t - 1"
  "1 \<le> getUTCDate t" "getUTCDate t \<le> monthLength (monthIndex t)"
  using makeDay_fields [of t] fields_valid [of t]
  by (simp_all add: makeDay_firstDay monthIndex_def [symmetric] monthLength_def monthIndex_fields validDate_def)

lemma dateUTC_fields:
  assumes "validDate y m dd" and "100 \<le> y" and "0 \<le> c" and "c < MS_PER_DAY"
    and "hours * 3600000 + minutes * 60000 + seconds * 1000 + ms = c"
  defines "t \<equiv> dateUTC y m dd hours minutes seconds ms"
  shows "getUTCFullYear t = y" "getUTCMonth t = m" "getUTCDate t = dd" "t mod MS_PER_DAY = c"
    "t div MS_PER_DAY = makeDay y m dd"
proof -
  have t: "t = makeDay y m dd * MS_PER_DAY + c" using assms(2,5) by (simp add: t_def dateUTC_def)
  then show day: "t div MS_PER_DAY = makeDay y m dd" and "t mod MS_PER_DAY = c"
    using assms(3,4) by (simp_all add: div_add1_eq div_pos_pos_trivial)
  show "getUTCFullYear t = y" "getUTCMonth t = m" "getUTCDate t = dd" using fields_makeDay [OF assms(1) day] .
qed

lemma addUtcMonths_fields:
  assumes "100 \<le> getUTCFullYear v" and "0 \<le> k"
  defines "t \<equiv> addUtcMonths v k" and "n \<equiv> monthIndex v + k"
  shows "monthIndex t = n" "getUTCDate t = min (getUTCDate v) (monthLength n)" "t mod MS_PER_DAY = v mod MS_PER_DAY"
proof -
  let ?y = "n div 12" and ?m = "n mod 12"
  let ?last = "dateUTC (getUTCFullYear v) (getUTCMonth v + k + 1) 0 0 0 0 0"
  have y: "100 \<le> ?y"
    using assms(1,2) zdiv_mono1 [of "monthIndex v" n 12] by (simp add: n_def monthIndex_fields)
  have range: "1 \<le> monthLength n" "monthLength n \<le> daysInMonth ?y ?m"
    using monthLength_range [of n] by (simp_all add: monthLength_def)
  have "?last = (firstDay (n + 1) - 1) * MS_PER_DAY"
    using assms(1) by (simp add: dateUTC_def makeDay_firstDay n_def monthIndex_def algebra_simps)
  moreover have "firstDay (n + 1) - 1 = makeDay ?y ?m (monthLength n)"
    by (simp add: makeDay_firstDay firstDay_next)
  ultimately have last: "?last div MS_PER_DAY = makeDay ?y ?m (monthLength n)" by (simp add: MS_PER_DAY_def)
  have lf: "getUTCFullYear ?last = ?y" "getUTCMonth ?last = ?m" "getUTCDate ?last = monthLength n"
    using range by (intro fields_makeDay [OF _ last]; simp add: validDate_def)+
  have "validDate ?y ?m (min (getUTCDate v) (monthLength n))"
    using range date_of_index(2) [of v] by (auto simp: validDate_def)
  note f = dateUTC_fields [OF this y _ _ clock_fields [of v]]
  have t: "t = dateUTC ?y ?m (min (getUTCDate v) (monthLength n)) (getUTCHours v) (getUTCMinutes v) (getUTCSeconds v)
      (getUTCMilliseconds v)"
    by (simp add: t_def addUtcMonths_def Let_def lf)
  have c: "0 \<le> v mod MS_PER_DAY" "v mod MS_PER_DAY < MS_PER_DAY" by (simp_all add: MS_PER_DAY_def)
  show "monthIndex t = n" unfolding t monthIndex_def f(1,2) [OF c] by simp
  show "getUTCDate t = min (getUTCDate v) (monthLength n)" unfolding t by (rule f(3) [OF c])
  show "t mod MS_PER_DAY = v mod MS_PER_DAY" unfolding t by (rule f(4) [OF c])
qed

lemma addUtcMonths_time:
  assumes "100 \<le> getUTCFullYear v" and "0 \<le> k"
  shows "addUtcMonths v k - v = MS_PER_DAY * (firstDay (monthIndex v + k) - firstDay (monthIndex v) +
    min (getUTCDate v) (monthLength (monthIndex v + k)) - getUTCDate v)"
proof -
  let ?t = "addUtcMonths v k"
  have "?t = MS_PER_DAY * (?t div MS_PER_DAY) + v mod MS_PER_DAY" "v = MS_PER_DAY * (v div MS_PER_DAY) + v mod MS_PER_DAY"
    using mult_div_mod_eq [of MS_PER_DAY ?t] addUtcMonths_fields(3) [OF assms] by simp_all
  then have "?t - v = MS_PER_DAY * (?t div MS_PER_DAY - v div MS_PER_DAY)"
    unfolding right_diff_distrib by linarith
  then show ?thesis using addUtcMonths_fields(1,2) [OF assms] by (simp add: date_of_index(1))
qed

lemma addUtcMonths_months:
  assumes "100 \<le> getUTCFullYear v" and "0 \<le> k"
  shows "v + 28 * k * MS_PER_DAY \<le> addUtcMonths v k" "addUtcMonths v k \<le> v + 31 * k * MS_PER_DAY"
proof -
  let ?n = "monthIndex v"
  let ?days = "firstDay (?n + k) - firstDay ?n + min (getUTCDate v) (monthLength (?n + k)) - getUTCDate v"
  obtain j where k: "k = int j" using assms(2) by (rule zero_le_imp_eq_int [elim_format]) blast
  have shift: "firstDay (?n + k) + monthLength (?n + k) = firstDay (?n + 1 + k)" "firstDay ?n + monthLength ?n = firstDay (?n + 1)"
    using firstDay_next [of "?n + k"] firstDay_next [of ?n] by (simp_all add: add_ac)
  have "28 * k \<le> ?days"
    using firstDay_span(1) [of j ?n] firstDay_span(1) [of j "?n + 1"] shift date_of_index(3) [of v]
    by (cases "getUTCDate v \<le> monthLength (?n + k)") (simp_all add: k)
  moreover have "?days \<le> 31 * k" using firstDay_span(2) [of ?n j] by (simp add: k)
  ultimately have "MS_PER_DAY * (28 * k) \<le> addUtcMonths v k - v" "addUtcMonths v k - v \<le> MS_PER_DAY * (31 * k)"
    unfolding addUtcMonths_time [OF assms] by (intro mult_left_mono; simp add: MS_PER_DAY_def)+
  then show "v + 28 * k * MS_PER_DAY \<le> addUtcMonths v k" "addUtcMonths v k \<le> v + 31 * k * MS_PER_DAY"
    by (simp_all add: mult_ac)
qed

text \<open>Adding months lands in the month that many months later, on the same day or the last day of a
  shorter month, at the same time of day; each month counts between 28 and 31 days, the end of
  January included.\<close>

theorem addUtcMonths_bounds:
  assumes "100 \<le> getUTCFullYear v" and "0 \<le> k"
  shows "let t = addUtcMonths v k; n = 12 * getUTCFullYear v + getUTCMonth v + k in
    getUTCFullYear t = n div 12 \<and> getUTCMonth t = n mod 12 \<and>
    getUTCDate t = min (getUTCDate v) (daysInMonth (n div 12) (n mod 12)) \<and> t mod MS_PER_DAY = v mod MS_PER_DAY \<and>
    v + 28 * k * MS_PER_DAY \<le> t \<and> t \<le> v + 31 * k * MS_PER_DAY"
proof -
  have "getUTCFullYear (addUtcMonths v k) = (monthIndex v + k) div 12" "getUTCMonth (addUtcMonths v k) = (monthIndex v + k) mod 12"
    using monthIndex_fields [of "addUtcMonths v k"] addUtcMonths_fields(1) [OF assms] by simp_all
  then show ?thesis
    using addUtcMonths_fields(2,3) [OF assms] addUtcMonths_months [OF assms] by (simp add: Let_def monthIndex_def monthLength_def)
qed

theorem addUtcMonths_bounds_witness:
  "addUtcMonths (dateUTC 2024 0 31 10 0 0 0) 1 = dateUTC 2024 1 29 10 0 0 0 \<and>
   getUTCDate (addUtcMonths (dateUTC 2024 0 31 10 0 0 0) 1) = 29"
proof -
  have v: "dateUTC 2024 0 31 10 0 0 0 = 1706695200000" "dateUTC 2024 1 29 10 0 0 0 = 1709200800000"
    "addUtcMonths 1706695200000 1 = 1709200800000" by code_simp+
  have f: "getUTCFullYear 1706695200000 = 2024" "getUTCMonth 1706695200000 = 0" "getUTCDate 1706695200000 = 31"
    "daysInMonth 2024 1 = 29" by code_simp+
  show ?thesis using addUtcMonths_bounds [of 1706695200000 1] by (simp add: v f Let_def)
qed

lemma leapYear_4: "leapYear y \<Longrightarrow> 4 dvd y"
  unfolding leapYear_def mod_eq_0_iff_dvd by (erule conjunct1)

text \<open>Twelve months are a year of 365 or 366 days.\<close>

lemma addUtcMonths_year:
  assumes "100 \<le> getUTCFullYear v"
  shows "v + 365 * MS_PER_DAY \<le> addUtcMonths v 12" "addUtcMonths v 12 \<le> v + 366 * MS_PER_DAY"
proof -
  define y m where ym: "y = getUTCFullYear v" "m = getUTCMonth v"
  have m: "0 \<le> m" "m \<le> 11" using fields_valid [of v] by (simp_all add: validDate_def ym)
  have n: "monthIndex v = 12 * y + m" by (simp add: monthIndex_def ym)
  have n12: "monthIndex v + 12 = 12 * (y + 1) + m" by (simp add: n)
  have first: "firstDay (monthIndex v) = dayFromYear y + monthStart (leapYear y) m"
    "firstDay (monthIndex v + 12) = dayFromYear (y + 1) + monthStart (leapYear (y + 1)) m"
    unfolding n12 unfolding n by (rule firstDay_at [OF m])+
  have len: "monthLength (monthIndex v) = daysInMonth y m" "monthLength (monthIndex v + 12) = daysInMonth (y + 1) m"
    using m unfolding n12 unfolding n monthLength_def by (simp_all only: div_mult_self3 div_mult_self4 mod_mult_self3 mod_mult_self4 div_pos_pos_trivial mod_pos_pos_trivial) simp_all
  have "\<not> (4 dvd y \<and> 4 dvd y + 1)" by presburger
  then have leap: "\<not> (leapYear y \<and> leapYear (y + 1))" using leapYear_4 by blast
  let ?days = "firstDay (monthIndex v + 12) - firstDay (monthIndex v) + min (getUTCDate v) (monthLength (monthIndex v + 12)) - getUTCDate v"
  have "365 \<le> ?days \<and> ?days \<le> 366"
    using date_of_index(2,3) [of v] leap unfolding first len daysInMonth_def yearLength
    by - (cases "leapYear y"; cases "leapYear (y + 1)"; rule month_cases [OF m]; simp add: monthStart_def min_def)
  then have "MS_PER_DAY * 365 \<le> addUtcMonths v 12 - v" "addUtcMonths v 12 - v \<le> MS_PER_DAY * 366"
    using addUtcMonths_time [OF assms, of 12] by (simp_all add: MS_PER_DAY_def)
  then show "v + 365 * MS_PER_DAY \<le> addUtcMonths v 12" "addUtcMonths v 12 \<le> v + 366 * MS_PER_DAY" by linarith+
qed

lemma getUTCFullYear_mono:
  assumes "s \<le> t"
  shows "getUTCFullYear s \<le> getUTCFullYear t"
proof (rule ccontr)
  assume "\<not> getUTCFullYear s \<le> getUTCFullYear t"
  then have "getUTCFullYear t + 1 \<le> getUTCFullYear s" by simp
  then have "dayFromYear (getUTCFullYear t + 1) \<le> dayFromYear (getUTCFullYear s)"
    using dayFromYear_strict [of "getUTCFullYear t + 1" "getUTCFullYear s"] by (auto simp: le_less)
  moreover have "s div MS_PER_DAY \<le> t div MS_PER_DAY" using assms by (simp add: zdiv_mono1 MS_PER_DAY_def)
  ultimately show False
    using yearFromDay_bracket [of "s div MS_PER_DAY"] yearFromDay_bracket [of "t div MS_PER_DAY"] by (simp add: getUTCFullYear_def)
qed

end
