(* ===== verification/Accounts.thy ===== *)
theory Accounts
  imports Domain Calendar
begin

text \<open>
  The commercial side of the system: \<open>pricing/pricing-calculator.ts\<close> and \<open>pricing.service.ts\<close>,
  \<open>subscriptions/admin-access.policy.ts\<close>, \<open>subscriptions.service.ts\<close> and
  \<open>tournament-lifecycle.service.ts\<close>, \<open>super-admin/super-admin.service.ts\<close>, \<open>auth/roles.guard.ts\<close>,
  \<open>password-policy.ts\<close> and \<open>identity-normalization.service.ts\<close>. The tables these services share are
  the record \<open>account_db\<close>; of a tournament it has the columns of its commercial life and of its
  description, of the rosters the image paths a purge collects. Texts are strings of ASCII
  characters, dates are in the range where JavaScript computes with them exactly; amounts are
  integers, which the database stores in 32 bits and refuses beyond. The password hash of bcrypt is a
  parameter. A transaction runs alone: the services run them at the serialisable level or under
  an advisory lock, and the loser of a race on a unique index answers what it finds stored.
\<close>

section \<open>Tables\<close>

datatype user_role = SUPER_ADMIN | ADMIN | USER

datatype entitlement_status = EN_ACTIVE | EN_SUSPENDED | EN_EXPIRED | EN_REVOKED

datatype discount_type = DURATION | TOURNAMENT

datatype deletion_reason = ADMIN_SUBSCRIPTION_LAPSED

record user_row =
  u_id :: uuid
  u_username :: string
  u_normalizedUsername :: string
  u_fullName :: "string option"
  u_email :: "string option"
  u_normalizedEmail :: "string option"
  u_phone :: "string option"
  u_normalizedPhone :: "string option"
  u_organization :: "string option"
  u_passwordHash :: string
  u_role :: user_role
  u_isActive :: bool
  u_deletedAt :: "time option"

record entitlement_row =
  en_userId :: uuid
  en_status :: entitlement_status
  en_activeFrom :: time
  en_activeUntil :: time
  en_tournamentLimit :: int
  en_adminAccessEndedAt :: "time option"

record discount_tier =
  dt_type :: discount_type
  dt_quantity :: int
  dt_discountBasisPoints :: int

record pricing_plan =
  pp_id :: uuid
  pp_baseAmountVnd :: int
  pp_baseDurationMonths :: int
  pp_baseTournamentLimit :: int
  pp_durationAddonUnitAmountVnd :: int
  pp_tournamentAddonUnitAmountVnd :: int
  pp_discountTiers :: "discount_tier list"
  pp_active :: bool
  pp_activatedAt :: "time option"
  pp_createdByUserId :: "uuid option"

record addon =
  ad_subtotalVnd :: int
  ad_discountVnd :: int

record quote =
  q_pricingVersionId :: uuid
  q_baseAmountVnd :: int
  q_durationAddon :: addon
  q_tournamentAddon :: addon
  q_totalDurationMonths :: int
  q_totalTournamentLimit :: int
  q_totalPayableVnd :: int

record order_row =
  o_id :: uuid
  o_userId :: uuid
  o_pricingPlanVersionId :: uuid
  o_idempotencyKey :: string
  o_durationBundle :: int
  o_tournamentBundle :: int
  o_durationMonthsGranted :: int
  o_tournamentLimitGranted :: int
  o_priceSnapshot :: quote
  o_totalAmountVnd :: int
  o_createdAt :: time

record tournament_record =
  tr_id :: uuid
  tr_publicCode :: string
  tr_name :: string
  tr_description :: "string option"
  tr_imagePath :: "string option"
  tr_location :: "string option"
  tr_startDate :: "time option"
  tr_endDate :: "time option"
  tr_status :: tournament_status
  tr_ownerUserId :: uuid
  tr_sportId :: uuid
  tr_softDeletedAt :: "time option"
  tr_purgeAfter :: "time option"
  tr_deletionReason :: "deletion_reason option"
  tr_restoredAt :: "time option"

record media_deletion_row =
  md_id :: uuid
  md_storageKey :: string
  md_reason :: string
  md_createdAt :: time
  md_attempts :: nat
  md_lastError :: "string option"
  md_lastTriedAt :: "time option"
  md_nextAttemptAt :: time
  md_leaseOwner :: "string option"
  md_leaseUntil :: "time option"

text \<open>\<open>organizationImages\<close>, \<open>athleteImages\<close> and \<open>snapshotImages\<close> pair the tournament of an organization,
  an athlete and a bracket entrant with its image path; \<open>matchTournaments\<close> pairs a match with its
  tournament; \<open>pendingMigrations\<close> are the keys of migrations in the state \<open>PENDING\<close>.\<close>

record account_db =
  users :: "user_row list"
  entitlements :: "entitlement_row list"
  plans :: "pricing_plan list"
  orders :: "order_row list"
  tournamentRecords :: "tournament_record list"
  organizationImages :: "(uuid \<times> string option) list"
  athleteImages :: "(uuid \<times> string option) list"
  snapshotImages :: "(uuid \<times> string option) list"
  matchTournaments :: "(uuid \<times> uuid) list"
  sports :: "(uuid \<times> bool) list"
  mediaDeletions :: "media_deletion_row list"
  pendingMigrations :: "string list"
  accountAudits :: "audit_row list"

datatype account_error =
    InvalidBundleQuantity | UnsupportedBundle | ActivePricingNotFound | InvalidPricingConfiguration
  | InvalidPricingTiers | SuperAdminSubscriptionNotAllowed | InvalidIdempotencyKey | Forbidden
  | AccountRuntimeError | PasswordTooShort | PasswordTooLong | InvalidPhone | InvalidEntitlementPeriod
  | UserNotFound | CannotModifySelf | LastSuperAdmin | UserNotDeleted | UserDeleted
  | CannotChangeSuperAdminEntitlement | EntitlementNotFound | EmailAlreadyExists | PhoneAlreadyExists
  | UsernameAlreadyExists | AdminSubscriptionExpired | AdminSubscriptionRequired

definition accountAudit :: "uuid option \<Rightarrow> audit_event \<Rightarrow> (string \<times> jval) list \<Rightarrow> account_db \<Rightarrow> account_db" where
  "accountAudit userId event meta d = d\<lparr> accountAudits := accountAudits d @
     [\<lparr> a_id = None, a_eventType = event, a_matchId = None, a_adminUserId = userId, a_sessionId = None,
        a_officialSessionId = None, a_metadata = JObj meta \<rparr>] \<rparr>"

text \<open>The operator \<open>??\<close>.\<close>

definition orDefault :: "'a option \<Rightarrow> 'a \<Rightarrow> 'a" where
  "orDefault x y = (case x of None \<Rightarrow> y | Some z \<Rightarrow> z)"

text \<open>An \<open>Int\<close> column holds 32 bits.\<close>

definition fitsInt :: "int \<Rightarrow> bool" where
  "fitsInt n \<longleftrightarrow> - (2 ^ 31) \<le> n \<and> n < 2 ^ 31"

definition getUser :: "uuid \<Rightarrow> account_db \<Rightarrow> user_row option" where
  "getUser uid d = List.find (\<lambda>u. u_id u = uid) (users d)"

definition entitlementOf :: "uuid \<Rightarrow> account_db \<Rightarrow> entitlement_row option" where
  "entitlementOf uid d = List.find (\<lambda>e. en_userId e = uid) (entitlements d)"

section \<open>Texts\<close>

definition normalizeUsername :: "string \<Rightarrow> string" where
  "normalizeUsername v = toLower (trim v)"

definition normalizeEmail :: "string \<Rightarrow> string" where
  "normalizeEmail v = toLower (trim v)"

definition normalizePhone :: "string \<Rightarrow> string" where
  "normalizePhone v = (let s = filter (\<lambda>c. c \<in> set ''0123456789+'') v in
     if take 2 s = ''00'' then CHR ''+'' # drop 2 s else s)"

definition passwordValidationCode :: "string \<Rightarrow> account_error option" where
  "passwordValidationCode password =
     (if length password < 8 then Some PasswordTooShort
      else if length password > 72 then Some PasswordTooLong else None)"

section \<open>Pricing\<close>

definition tierOf :: "pricing_plan \<Rightarrow> discount_type \<Rightarrow> int \<Rightarrow> discount_tier option" where
  "tierOf plan type quantity =
     List.find (\<lambda>x. dt_type x = type \<and> dt_quantity x = quantity) (pp_discountTiers plan)"

definition truncDiv :: "int \<Rightarrow> int \<Rightarrow> int" where
  "truncDiv a b = (if a \<ge> 0 then a div b else - ((- a) div b))"

definition calculateAddon :: "pricing_plan \<Rightarrow> discount_type \<Rightarrow> int \<Rightarrow> int \<Rightarrow> account_error + addon" where
  "calculateAddon plan type quantity unit =
     (if quantity < 0 then Inl InvalidBundleQuantity
      else if quantity = 0 then Inr \<lparr> ad_subtotalVnd = 0, ad_discountVnd = 0 \<rparr>
      else bindR (orThrow (tierOf plan type quantity) UnsupportedBundle) (\<lambda>discount.
        let subtotal = quantity * unit in
        Inr \<lparr> ad_subtotalVnd = subtotal,
              ad_discountVnd = truncDiv (subtotal * dt_discountBasisPoints discount) 10000 \<rparr>))"

definition calculateQuote :: "pricing_plan \<Rightarrow> int option \<Rightarrow> int option \<Rightarrow> account_error + quote" where
  "calculateQuote plan durationBundle tournamentBundle =
     (let duration = orDefault durationBundle 0; tournaments = orDefault tournamentBundle 0 in
      bindR (calculateAddon plan DURATION duration (pp_durationAddonUnitAmountVnd plan)) (\<lambda>da.
      bindR (calculateAddon plan TOURNAMENT tournaments (pp_tournamentAddonUnitAmountVnd plan)) (\<lambda>ta.
      Inr \<lparr> q_pricingVersionId = pp_id plan, q_baseAmountVnd = pp_baseAmountVnd plan,
        q_durationAddon = da, q_tournamentAddon = ta,
        q_totalDurationMonths = pp_baseDurationMonths plan + duration,
        q_totalTournamentLimit = pp_baseTournamentLimit plan + tournaments,
        q_totalPayableVnd = pp_baseAmountVnd plan + ad_subtotalVnd da - ad_discountVnd da +
          ad_subtotalVnd ta - ad_discountVnd ta \<rparr>)))"

definition pricingQuote :: "int option \<Rightarrow> int option \<Rightarrow> account_db \<Rightarrow> account_error + quote" where
  "pricingQuote durationBundle tournamentBundle d =
     bindR (orThrow (List.find pp_active (plans d)) ActivePricingNotFound) (\<lambda>plan.
     calculateQuote plan durationBundle tournamentBundle)"

record pricing_input =
  pr_baseAmountVnd :: int
  pr_baseDurationMonths :: int
  pr_baseTournamentLimit :: int
  pr_durationAddonUnitAmountVnd :: int
  pr_tournamentAddonUnitAmountVnd :: int
  pr_discountTiers :: "discount_tier list"

definition requiredTiers :: "(discount_type \<times> int) list" where
  "requiredTiers = [(DURATION, 6), (DURATION, 12), (TOURNAMENT, 3), (TOURNAMENT, 5), (TOURNAMENT, 10)]"

definition validatePricing :: "pricing_input \<Rightarrow> account_error + unit" where
  "validatePricing i =
     (let keys = map (\<lambda>x. (dt_type x, dt_quantity x)) (pr_discountTiers i) in
      if pr_baseAmountVnd i < 0 \<or> pr_baseDurationMonths i < 1 \<or> pr_baseTournamentLimit i < 1 \<or>
         pr_durationAddonUnitAmountVnd i < 0 \<or> pr_tournamentAddonUnitAmountVnd i < 0 \<or>
         (\<exists>x \<in> set (pr_discountTiers i). dt_quantity x < 1 \<or> dt_discountBasisPoints x < 0 \<or>
            dt_discountBasisPoints x > 10000)
      then Inl InvalidPricingConfiguration
      else if \<not> distinct keys \<or> \<not> set requiredTiers \<subseteq> set keys then Inl InvalidPricingTiers
      else Inr ())"

definition createPricing :: "uuid \<Rightarrow> pricing_input \<Rightarrow> uuid \<Rightarrow> time \<Rightarrow> account_db \<Rightarrow> account_error + (pricing_plan \<times> account_db)" where
  "createPricing newId i actorId now d =
     bindR (validatePricing i) (\<lambda>_.
     if \<not> list_all fitsInt ([pr_baseAmountVnd i, pr_baseDurationMonths i, pr_baseTournamentLimit i,
          pr_durationAddonUnitAmountVnd i, pr_tournamentAddonUnitAmountVnd i] @ map dt_quantity (pr_discountTiers i))
     then Inl AccountRuntimeError
     else
       let previous = List.find pp_active (plans d);
           plan = \<lparr> pp_id = newId, pp_baseAmountVnd = pr_baseAmountVnd i,
             pp_baseDurationMonths = pr_baseDurationMonths i, pp_baseTournamentLimit = pr_baseTournamentLimit i,
             pp_durationAddonUnitAmountVnd = pr_durationAddonUnitAmountVnd i,
             pp_tournamentAddonUnitAmountVnd = pr_tournamentAddonUnitAmountVnd i,
             pp_discountTiers = pr_discountTiers i, pp_active = True, pp_activatedAt = Some now,
             pp_createdByUserId = Some actorId \<rparr>;
           d1 = d\<lparr> plans := updWhere pp_active (\<lambda>p. p\<lparr>pp_active := False\<rparr>) (plans d) @ [plan] \<rparr> in
       Inr (plan, accountAudit (Some actorId) PRICING_VERSION_CREATED
         [(''oldVersionId'', jOpt (JId \<circ> pp_id) previous), (''newVersionId'', JId newId),
          (''actorId'', JId actorId)] d1))"

section \<open>The access policy\<close>

datatype access_state = ACTIVE_ADMIN | EXPIRED_READ_ONLY | HIDDEN | AS_SUSPENDED | AS_REVOKED

definition ADMIN_GRACE_MONTHS :: int where
  "ADMIN_GRACE_MONTHS = 12"

definition adminAccessEndedAt :: "entitlement_row \<Rightarrow> time" where
  "adminAccessEndedAt e = orDefault (en_adminAccessEndedAt e) (en_activeUntil e)"

definition calculateAdminAccessState :: "user_role \<Rightarrow> entitlement_row option \<Rightarrow> time \<Rightarrow> access_state" where
  "calculateAdminAccessState role entitlement now =
     (if role = SUPER_ADMIN then ACTIVE_ADMIN
      else case entitlement of
        None \<Rightarrow> HIDDEN
      | Some e \<Rightarrow>
          if en_status e = EN_SUSPENDED then AS_SUSPENDED
          else if en_status e = EN_REVOKED then AS_REVOKED
          else if en_status e = EN_ACTIVE \<and> en_activeFrom e \<le> now \<and> now < en_activeUntil e then ACTIVE_ADMIN
          else if (en_status e = EN_EXPIRED \<or> (en_status e = EN_ACTIVE \<and> now \<ge> en_activeUntil e)) \<and>
                  now < addUtcMonths (adminAccessEndedAt e) ADMIN_GRACE_MONTHS
          then EXPIRED_READ_ONLY
          else HIDDEN)"

definition isActiveAdminState :: "access_state \<Rightarrow> bool" where
  "isActiveAdminState s \<longleftrightarrow> s = ACTIVE_ADMIN"

text \<open>\<open>RolesGuard.canActivate\<close>; \<open>required\<close> is None for a handler without required roles.\<close>

definition canActivate :: "user_role list option \<Rightarrow> uuid \<Rightarrow> string \<Rightarrow> time \<Rightarrow> account_db \<Rightarrow> account_error + bool" where
  "canActivate required uid requestMethod now d =
     (case required of
        None \<Rightarrow> Inr True
      | Some roles \<Rightarrow>
          bindR (orThrow (getUser uid d) Forbidden) (\<lambda>u.
          if u_role u = SUPER_ADMIN \<and> u_role u \<in> set roles then Inr True
          else
            let state = calculateAdminAccessState (u_role u) (entitlementOf uid d) now in
            if ADMIN \<in> set roles \<and> isActiveAdminState state then Inr True
            else if ADMIN \<in> set roles \<and> requestMethod = ''GET'' \<and> state = EXPIRED_READ_ONLY then Inr True
            else Inl (if entitlementOf uid d \<noteq> None then AdminSubscriptionExpired else AdminSubscriptionRequired)))"

section \<open>Subscriptions\<close>

record activation_input =
  ai_durationBundle :: "int option"
  ai_tournamentBundle :: "int option"
  ai_idempotencyKey :: string

definition assertSubscriptionAllowed :: "user_role option \<Rightarrow> account_error + unit" where
  "assertSubscriptionAllowed role = (if role = Some SUPER_ADMIN then Inl SuperAdminSubscriptionNotAllowed else Inr ())"

definition orderByKey :: "string \<Rightarrow> account_db \<Rightarrow> order_row option" where
  "orderByKey key d = List.find (\<lambda>o'. o_idempotencyKey o' = key) (orders d)"

definition replayOrder :: "uuid \<Rightarrow> order_row \<Rightarrow> account_error + order_row" where
  "replayOrder uid order = (if o_userId order \<noteq> uid then Inl Forbidden else Inr order)"

definition upsertEntitlement :: "uuid \<Rightarrow> entitlement_row \<Rightarrow> (entitlement_row \<Rightarrow> entitlement_row) \<Rightarrow> account_db \<Rightarrow> account_db" where
  "upsertEntitlement uid new update d = d\<lparr> entitlements :=
     (if \<exists>e \<in> set (entitlements d). en_userId e = uid
      then updWhere (\<lambda>e. en_userId e = uid) update (entitlements d) else entitlements d @ [new]) \<rparr>"

definition restoreLapsed :: "uuid \<Rightarrow> time \<Rightarrow> account_db \<Rightarrow> account_db" where
  "restoreLapsed uid now d = d\<lparr> tournamentRecords := updWhere
     (\<lambda>t. tr_deletionReason t = Some ADMIN_SUBSCRIPTION_LAPSED \<and> tr_ownerUserId t = uid \<and> tr_softDeletedAt t \<noteq> None)
     (\<lambda>t. t\<lparr> tr_deletionReason := None, tr_purgeAfter := None, tr_restoredAt := Some now, tr_softDeletedAt := None \<rparr>)
     (tournamentRecords d) \<rparr>"

definition setRole :: "uuid \<Rightarrow> user_role \<Rightarrow> account_db \<Rightarrow> account_db" where
  "setRole uid role d = d\<lparr> users := updWhere (\<lambda>u. u_id u = uid) (\<lambda>u. u\<lparr>u_role := role\<rparr>) (users d) \<rparr>"

text \<open>The transaction of \<open>activate\<close>. An order needs its user and 32-bit numbers, else the insert
  fails; a missing user therefore never reaches the later check of the updated count.\<close>

definition activateTx ::
  "uuid \<Rightarrow> uuid \<Rightarrow> activation_input \<Rightarrow> quote \<Rightarrow> time \<Rightarrow> account_db \<Rightarrow> account_error + (order_row \<times> account_db)" where
  "activateTx newId uid input quote now d =
     bindR (assertSubscriptionAllowed (map_option u_role (getUser uid d))) (\<lambda>_.
     case orderByKey (ai_idempotencyKey input) d of
       Some duplicate \<Rightarrow> bindR (replayOrder uid duplicate) (\<lambda>order. Inr (order, d))
     | None \<Rightarrow>
         let current = entitlementOf uid d;
             active = (case current of None \<Rightarrow> False | Some e \<Rightarrow> en_status e = EN_ACTIVE \<and> en_activeUntil e > now);
             starts = (case current of Some e \<Rightarrow> if active then en_activeUntil e else now | None \<Rightarrow> now);
             until = addUtcMonths starts (q_totalDurationMonths quote);
             limit = (case current of Some e \<Rightarrow> if active then en_tournamentLimit e else 0 | None \<Rightarrow> 0) +
               q_totalTournamentLimit quote;
             order = \<lparr> o_id = newId, o_userId = uid, o_pricingPlanVersionId = q_pricingVersionId quote,
               o_idempotencyKey = ai_idempotencyKey input, o_durationBundle = orDefault (ai_durationBundle input) 0,
               o_tournamentBundle = orDefault (ai_tournamentBundle input) 0,
               o_durationMonthsGranted = q_totalDurationMonths quote,
               o_tournamentLimitGranted = q_totalTournamentLimit quote, o_priceSnapshot = quote,
               o_totalAmountVnd = q_totalPayableVnd quote, o_createdAt = now \<rparr> in
         if getUser uid d = None \<or> \<not> list_all fitsInt [o_durationBundle order, o_tournamentBundle order,
              o_durationMonthsGranted order, o_tournamentLimitGranted order, o_totalAmountVnd order, limit]
         then Inl AccountRuntimeError
         else
           let d1 = d\<lparr> orders := orders d @ [order] \<rparr>;
               d2 = upsertEntitlement uid
                 \<lparr> en_userId = uid, en_status = EN_ACTIVE, en_activeFrom = now, en_activeUntil = until,
                   en_tournamentLimit = limit, en_adminAccessEndedAt = None \<rparr>
                 (\<lambda>e. e\<lparr> en_status := EN_ACTIVE, en_activeFrom := (if active then en_activeFrom e else now),
                   en_activeUntil := until, en_tournamentLimit := limit, en_adminAccessEndedAt := None \<rparr>) d1 in
           Inr (order, accountAudit (Some uid) ADMIN_ACTION
             [(''action'', JStr ''SUBSCRIPTION_SIMULATED_SUCCESS''), (''orderId'', JId newId)]
             (setRole uid ADMIN (restoreLapsed uid now d2))))"

definition activate ::
  "uuid \<Rightarrow> uuid \<Rightarrow> user_role \<Rightarrow> activation_input \<Rightarrow> time \<Rightarrow> account_db \<Rightarrow> account_error + (order_row \<times> account_db)" where
  "activate newId uid role input now d =
     bindR (assertSubscriptionAllowed (Some role)) (\<lambda>_.
     if trim (ai_idempotencyKey input) = [] then Inl InvalidIdempotencyKey
     else case orderByKey (ai_idempotencyKey input) d of
       Some old \<Rightarrow> bindR (replayOrder uid old) (\<lambda>order. Inr (order, d))
     | None \<Rightarrow>
         bindR (pricingQuote (ai_durationBundle input) (ai_tournamentBundle input) d) (\<lambda>quote.
         activateTx newId uid input quote now d))"

record subscription_view =
  sv_entitlement :: entitlement_row
  sv_accessState :: access_state
  sv_readOnlyUntil :: time
  sv_usedTournamentQuota :: nat
  sv_remainingTournamentQuota :: int

definition subscriptionOf :: "uuid \<Rightarrow> time \<Rightarrow> account_db \<Rightarrow> subscription_view option" where
  "subscriptionOf uid now d =
     (let role = (case getUser uid d of None \<Rightarrow> USER | Some u \<Rightarrow> u_role u);
          used = length (filter (\<lambda>t. tr_ownerUserId t = uid \<and> tr_softDeletedAt t = None) (tournamentRecords d));
          entitlement = (case getUser uid d of None \<Rightarrow> None | Some _ \<Rightarrow> entitlementOf uid d) in
      map_option (\<lambda>e. \<lparr> sv_entitlement = e, sv_accessState = calculateAdminAccessState role (Some e) now,
        sv_readOnlyUntil = addUtcMonths (adminAccessEndedAt e) 12, sv_usedTournamentQuota = used,
        sv_remainingTournamentQuota = max 0 (en_tournamentLimit e - int used) \<rparr>) entitlement)"

definition ordersOf :: "uuid \<Rightarrow> account_db \<Rightarrow> order_row list" where
  "ordersOf uid d = rev (sort_key o_createdAt (filter (\<lambda>o'. o_userId o' = uid) (orders d)))"

section \<open>The lifecycle worker\<close>

definition RECOVERY_DAYS :: int where
  "RECOVERY_DAYS = 60"

definition expireEntitlements :: "time \<Rightarrow> account_db \<Rightarrow> account_db" where
  "expireEntitlements now d = d\<lparr> entitlements := updWhere (\<lambda>e. en_status e = EN_ACTIVE \<and> en_activeUntil e \<le> now)
     (\<lambda>e. e\<lparr>en_status := EN_EXPIRED\<rparr>) (entitlements d) \<rparr>"

definition stampEndOfAccess :: "account_db \<Rightarrow> account_db" where
  "stampEndOfAccess d = d\<lparr> entitlements := updWhere (\<lambda>e. en_status e = EN_EXPIRED \<and> en_adminAccessEndedAt e = None)
     (\<lambda>e. e\<lparr>en_adminAccessEndedAt := Some (en_activeUntil e)\<rparr>) (entitlements d) \<rparr>"

definition hasEntitlement :: "uuid \<Rightarrow> (entitlement_row \<Rightarrow> bool) \<Rightarrow> account_db \<Rightarrow> bool" where
  "hasEntitlement uid p d = (case entitlementOf uid d of None \<Rightarrow> False | Some e \<Rightarrow> p e)"

definition downgradeExpired :: "account_db \<Rightarrow> account_db" where
  "downgradeExpired d = d\<lparr> users := updWhere
     (\<lambda>u. u_role u = ADMIN \<and> hasEntitlement (u_id u) (\<lambda>e. en_status e = EN_EXPIRED) d)
     (\<lambda>u. u\<lparr>u_role := USER\<rparr>) (users d) \<rparr>"

definition restorable :: "time \<Rightarrow> account_db \<Rightarrow> tournament_record \<Rightarrow> bool" where
  "restorable now d t \<longleftrightarrow> tr_deletionReason t = Some ADMIN_SUBSCRIPTION_LAPSED \<and> tr_softDeletedAt t \<noteq> None \<and>
     hasEntitlement (tr_ownerUserId t)
       (\<lambda>e. en_status e = EN_ACTIVE \<and> en_activeFrom e \<le> now \<and> en_activeUntil e > now) d"

definition restoreTournaments :: "time \<Rightarrow> account_db \<Rightarrow> account_db" where
  "restoreTournaments now d = d\<lparr> tournamentRecords := updWhere (restorable now d)
     (\<lambda>t. t\<lparr> tr_softDeletedAt := None, tr_purgeAfter := None, tr_deletionReason := None, tr_restoredAt := Some now \<rparr>)
     (tournamentRecords d) \<rparr>"

definition softDeleteOf :: "time \<Rightarrow> uuid \<Rightarrow> account_db \<Rightarrow> account_db" where
  "softDeleteOf now uid d = d\<lparr> tournamentRecords := updWhere
     (\<lambda>t. tr_ownerUserId t = uid \<and> tr_softDeletedAt t = None)
     (\<lambda>t. t\<lparr> tr_softDeletedAt := Some now, tr_purgeAfter := Some (now + RECOVERY_DAYS * 86400000),
        tr_deletionReason := Some ADMIN_SUBSCRIPTION_LAPSED \<rparr>) (tournamentRecords d) \<rparr>"

definition countOf :: "uuid \<Rightarrow> account_db \<Rightarrow> nat" where
  "countOf uid d = length (filter (\<lambda>t. tr_ownerUserId t = uid \<and> tr_softDeletedAt t = None) (tournamentRecords d))"

text \<open>The loop over the expired entitlements whose grace period is over.\<close>

fun softDeleteLapsed :: "time \<Rightarrow> entitlement_row list \<Rightarrow> nat \<Rightarrow> account_db \<Rightarrow> nat \<times> account_db" where
  "softDeleteLapsed now [] n d = (n, d)"
| "softDeleteLapsed now (owner # owners) n d =
     (case en_adminAccessEndedAt owner of
        None \<Rightarrow> softDeleteLapsed now owners n d
      | Some endedAt \<Rightarrow>
          if addUtcMonths endedAt ADMIN_GRACE_MONTHS > now then softDeleteLapsed now owners n d
          else softDeleteLapsed now owners (n + countOf (en_userId owner) d) (softDeleteOf now (en_userId owner) d))"

definition lapsedOwners :: "account_db \<Rightarrow> entitlement_row list" where
  "lapsedOwners d = filter (\<lambda>e. en_status e = EN_EXPIRED \<and> en_adminAccessEndedAt e \<noteq> None) (entitlements d)"

definition purgeable :: "time \<Rightarrow> tournament_record \<Rightarrow> bool" where
  "purgeable now t \<longleftrightarrow> tr_softDeletedAt t \<noteq> None \<and> (case tr_purgeAfter t of None \<Rightarrow> False | Some p \<Rightarrow> p \<le> now)"

definition imagesOf :: "uuid \<Rightarrow> account_db \<Rightarrow> string list" where
  "imagesOf tid d = List.map_filter id
     ((case List.find (\<lambda>t. tr_id t = tid) (tournamentRecords d) of None \<Rightarrow> None | Some t \<Rightarrow> tr_imagePath t) #
      map snd (filter (\<lambda>x. fst x = tid) (organizationImages d)) @ map snd (filter (\<lambda>x. fst x = tid) (athleteImages d)))"

text \<open>\<open>createMany\<close> with \<open>skipDuplicates\<close> on the unique storage key.\<close>

fun enqueueMedia :: "(nat \<Rightarrow> uuid) \<Rightarrow> time \<Rightarrow> string \<Rightarrow> string list \<Rightarrow> media_deletion_row list \<Rightarrow> media_deletion_row list" where
  "enqueueMedia ids now reason [] rows = rows"
| "enqueueMedia ids now reason (key # keys) rows = enqueueMedia ids now reason keys
     (if \<exists>r \<in> set rows. md_storageKey r = key then rows
      else rows @ [\<lparr> md_id = ids (length rows), md_storageKey = key, md_reason = reason, md_createdAt = now,
        md_attempts = 0, md_lastError = None, md_lastTriedAt = None, md_nextAttemptAt = now,
        md_leaseOwner = None, md_leaseUntil = None \<rparr>])"

text \<open>Deleting a tournament deletes its organizations, athletes and brackets with their entrants.\<close>

definition purgeOne :: "(nat \<Rightarrow> uuid) \<Rightarrow> time \<Rightarrow> uuid \<Rightarrow> nat \<times> account_db \<Rightarrow> nat \<times> account_db" where
  "purgeOne ids now tid = (\<lambda>(n, d).
     let images = imagesOf tid d;
         d1 = d\<lparr> matchTournaments := filter (\<lambda>x. snd x \<noteq> tid) (matchTournaments d) \<rparr>;
         gone = filter (\<lambda>t. tr_id t = tid \<and> purgeable now t) (tournamentRecords d1) in
     if gone = [] then (n, d1)
     else (n + length gone, d1\<lparr> tournamentRecords := filter (\<lambda>t. \<not> (tr_id t = tid \<and> purgeable now t)) (tournamentRecords d1),
       organizationImages := filter (\<lambda>x. fst x \<noteq> tid) (organizationImages d1),
       athleteImages := filter (\<lambda>x. fst x \<noteq> tid) (athleteImages d1),
       snapshotImages := filter (\<lambda>x. fst x \<noteq> tid) (snapshotImages d1),
       mediaDeletions := enqueueMedia ids now ''TOURNAMENT_PURGE'' images (mediaDeletions d1) \<rparr>))"

record lifecycle_counts =
  lc_expired :: nat
  lc_softDeleted :: nat
  lc_restored :: nat
  lc_purged :: nat

text \<open>The transaction of \<open>run\<close>, on the instance that holds the advisory lock.\<close>

definition runLifecycle :: "(nat \<Rightarrow> uuid) \<Rightarrow> time \<Rightarrow> account_db \<Rightarrow> lifecycle_counts \<times> account_db" where
  "runLifecycle ids now d =
     (let expired = length (filter (\<lambda>e. en_status e = EN_ACTIVE \<and> en_activeUntil e \<le> now) (entitlements d));
          d1 = downgradeExpired (stampEndOfAccess (expireEntitlements now d));
          restored = length (filter (restorable now d1) (tournamentRecords d1));
          d2 = restoreTournaments now d1;
          (softDeleted, d3) = softDeleteLapsed now (lapsedOwners d2) 0 d2;
          candidates = map tr_id (filter (purgeable now) (tournamentRecords d3));
          (purged, d4) = foldl (\<lambda>acc tid. purgeOne ids now tid acc) (0, d3) candidates;
          counts = \<lparr> lc_expired = expired, lc_softDeleted = softDeleted, lc_restored = restored, lc_purged = purged \<rparr>;
          d5 = (if expired + restored + softDeleted + purged \<noteq> 0
                then accountAudit None SYSTEM_EVENT
                  [(''action'', JStr ''TOURNAMENT_LIFECYCLE''), (''expired'', JInt (int expired)),
                   (''restored'', JInt (int restored)), (''softDeleted'', JInt (int softDeleted)),
                   (''purged'', JInt (int purged))] d4
                else d4) in
      (counts, d5))"

section \<open>Media deletion\<close>

definition LEASE_MS :: int where
  "LEASE_MS = 5 * 60000"

definition PROTECTED_RECHECK_MS :: int where
  "PROTECTED_RECHECK_MS = 15 * 60000"

definition FAILURE_BACKOFF_MIN_MS :: int where
  "FAILURE_BACKOFF_MIN_MS = 5 * 60000"

definition FAILURE_BACKOFF_MAX_MS :: int where
  "FAILURE_BACKOFF_MAX_MS = 60 * 60000"

definition failureBackoffMs :: "nat \<Rightarrow> int" where
  "failureBackoffMs previousAttempts =
     min (FAILURE_BACKOFF_MIN_MS * 2 ^ min previousAttempts 20) FAILURE_BACKOFF_MAX_MS"

definition mediaEligible :: "time \<Rightarrow> media_deletion_row \<Rightarrow> bool" where
  "mediaEligible now r \<longleftrightarrow> md_nextAttemptAt r \<le> now \<and>
     (case md_leaseUntil r of None \<Rightarrow> True | Some l \<Rightarrow> l < now)"

definition isProtected :: "string \<Rightarrow> account_db \<Rightarrow> bool" where
  "isProtected key d \<longleftrightarrow> Some key \<in> tr_imagePath ` set (tournamentRecords d) \<or> Some key \<in> snd ` set (organizationImages d) \<or>
     Some key \<in> snd ` set (athleteImages d) \<or> Some key \<in> snd ` set (snapshotImages d) \<or> key \<in> set (pendingMigrations d)"

record media_counts =
  mc_deleted :: nat
  mc_failed :: nat
  mc_deferred :: nat
  mc_contention :: nat

definition updMedia :: "(media_deletion_row \<Rightarrow> bool) \<Rightarrow> (media_deletion_row \<Rightarrow> media_deletion_row) \<Rightarrow> account_db \<Rightarrow> account_db" where
  "updMedia p f d = d\<lparr> mediaDeletions := updWhere p f (mediaDeletions d) \<rparr>"

text \<open>One turn of the loop of \<open>reconcile\<close>; \<open>storage\<close> answers the message of a failed deletion, and
  the last component collects the keys deleted from the storage.\<close>

definition reconcileRow ::
  "string \<Rightarrow> time \<Rightarrow> (string \<Rightarrow> string option) \<Rightarrow> media_deletion_row \<Rightarrow> media_counts \<times> account_db \<times> string list
   \<Rightarrow> media_counts \<times> account_db \<times> string list" where
  "reconcileRow worker now storage row = (\<lambda>(c, d, deletedKeys).
     if \<not> (\<exists>r \<in> set (mediaDeletions d). md_id r = md_id row \<and> mediaEligible now r)
     then (c\<lparr> mc_contention := mc_contention c + 1 \<rparr>, d, deletedKeys)
     else
       let d1 = updMedia (\<lambda>r. md_id r = md_id row \<and> mediaEligible now r)
             (\<lambda>r. r\<lparr> md_leaseOwner := Some worker, md_leaseUntil := Some (now + LEASE_MS) \<rparr>) d;
           mine = (\<lambda>r. md_id r = md_id row \<and> md_leaseOwner r = Some worker) in
       if isProtected (md_storageKey row) d1
       then (c\<lparr> mc_deferred := mc_deferred c + 1 \<rparr>,
             updMedia mine (\<lambda>r. r\<lparr> md_nextAttemptAt := now + PROTECTED_RECHECK_MS, md_lastTriedAt := Some now,
               md_lastError := Some ''protected by a live media reference or PENDING migration'',
               md_leaseOwner := None, md_leaseUntil := None \<rparr>) d1, deletedKeys)
       else case storage (md_storageKey row) of
         None \<Rightarrow>
           (if \<exists>r \<in> set (mediaDeletions d1). mine r
            then (c\<lparr> mc_deleted := mc_deleted c + 1 \<rparr>,
                  d1\<lparr> mediaDeletions := filter (\<lambda>r. \<not> mine r) (mediaDeletions d1) \<rparr>, deletedKeys @ [md_storageKey row])
            else (c\<lparr> mc_contention := mc_contention c + 1 \<rparr>, d1, deletedKeys @ [md_storageKey row]))
       | Some message \<Rightarrow>
           (c\<lparr> mc_failed := mc_failed c + 1 \<rparr>,
            updMedia mine (\<lambda>r. r\<lparr> md_attempts := md_attempts r + 1, md_lastError := Some (take 2000 message),
              md_lastTriedAt := Some now, md_nextAttemptAt := now + failureBackoffMs (md_attempts row),
              md_leaseOwner := None, md_leaseUntil := None \<rparr>) d1, deletedKeys))"

definition reconcileMedia ::
  "string \<Rightarrow> time \<Rightarrow> (string \<Rightarrow> string option) \<Rightarrow> nat \<Rightarrow> account_db \<Rightarrow> media_counts \<times> account_db \<times> string list" where
  "reconcileMedia worker now storage limit d =
     (let rows = take (min (max limit 1) 1000)
            (sort_key md_nextAttemptAt (sort_key md_createdAt (sort_key md_id (filter (mediaEligible now) (mediaDeletions d))))) in
      foldl (\<lambda>acc row. reconcileRow worker now storage row acc)
        (\<lparr> mc_deleted = 0, mc_failed = 0, mc_deferred = 0, mc_contention = 0 \<rparr>, d, []) rows)"

section \<open>User management\<close>

record initial_access =
  ia_activeFrom :: "time option"
  ia_activeUntil :: time
  ia_tournamentLimit :: int

record create_user_input =
  cu_username :: string
  cu_fullName :: string
  cu_email :: string
  cu_phone :: string
  cu_password :: string
  cu_organization :: "string option"
  cu_initialAdminAccess :: "initial_access option"

record update_user_input =
  uu_username :: "string option"
  uu_fullName :: "string option"
  uu_email :: "string option"
  uu_phone :: "string option"
  uu_organization :: "string option"
  uu_isActive :: "bool option"
  uu_reason :: "string option"

datatype access_action = ACTIVATE | SUSPEND | REVOKE | ADJUST

record access_input =
  ac_action :: access_action
  ac_activeFrom :: "time option"
  ac_activeUntil :: "time option"
  ac_tournamentLimit :: "int option"
  ac_reason :: "string option"

definition roleName :: "user_role \<Rightarrow> string" where
  "roleName r = (case r of SUPER_ADMIN \<Rightarrow> ''SUPER_ADMIN'' | ADMIN \<Rightarrow> ''ADMIN'' | USER \<Rightarrow> ''USER'')"

definition statusName :: "entitlement_status \<Rightarrow> string" where
  "statusName s = (case s of EN_ACTIVE \<Rightarrow> ''ACTIVE'' | EN_SUSPENDED \<Rightarrow> ''SUSPENDED'' | EN_EXPIRED \<Rightarrow> ''EXPIRED''
     | EN_REVOKED \<Rightarrow> ''REVOKED'')"

definition userSnapshot :: "user_row \<Rightarrow> string list \<Rightarrow> account_db \<Rightarrow> jval" where
  "userSnapshot u changedFields d = JObj [(''userId'', JId (u_id u)), (''role'', JStr (roleName (u_role u))),
     (''isActive'', JBool (u_isActive u)), (''deletedAt'', jOpt JDate (u_deletedAt u)),
     (''entitlement'', jOpt (\<lambda>e. JObj [(''status'', JStr (statusName (en_status e))), (''activeFrom'', JDate (en_activeFrom e)),
        (''activeUntil'', JDate (en_activeUntil e)), (''tournamentLimit'', JInt (en_tournamentLimit e))])
        (entitlementOf (u_id u) d)),
     (''changedFields'', JList (map JStr changedFields))]"

definition superAudit :: "uuid \<Rightarrow> string \<Rightarrow> uuid \<Rightarrow> jval \<Rightarrow> jval \<Rightarrow> string option \<Rightarrow> account_db \<Rightarrow> account_db" where
  "superAudit actorId action target before after reason = accountAudit (Some actorId) ADMIN_ACTION
     [(''action'', JStr action), (''targetUserId'', JId target),
      (''reason'', (case reason of None \<Rightarrow> JNull | Some r \<Rightarrow> if trim r = [] then JNull else JStr (trim r))),
      (''before'', before), (''after'', after)]"

text \<open>The unique columns of a user; a null never conflicts.\<close>

definition identityConflict :: "user_row \<Rightarrow> user_row list \<Rightarrow> account_error option" where
  "identityConflict u others =
     (if \<exists>x \<in> set others. u_normalizedUsername x = u_normalizedUsername u then Some UsernameAlreadyExists
      else if u_normalizedEmail u \<noteq> None \<and> (\<exists>x \<in> set others. u_normalizedEmail x = u_normalizedEmail u)
      then Some EmailAlreadyExists
      else if u_normalizedPhone u \<noteq> None \<and> (\<exists>x \<in> set others. u_normalizedPhone x = u_normalizedPhone u)
      then Some PhoneAlreadyExists else None)"

definition nonBlank :: "string \<Rightarrow> string option" where
  "nonBlank s = (if trim s = [] then None else Some (trim s))"

definition createUser ::
  "(string \<Rightarrow> string) \<Rightarrow> uuid \<Rightarrow> create_user_input \<Rightarrow> uuid \<Rightarrow> time \<Rightarrow> account_db \<Rightarrow> account_error + (user_row \<times> account_db)" where
  "createUser bcrypt newId i actorId now d =
     (case passwordValidationCode (cu_password i) of
        Some code \<Rightarrow> Inl code
      | None \<Rightarrow>
          if length (normalizePhone (cu_phone i)) < 6 then Inl InvalidPhone
          else
            let access = cu_initialAdminAccess i;
                activeFrom = (case access of None \<Rightarrow> now | Some a \<Rightarrow> orDefault (ia_activeFrom a) now) in
            if (case access of None \<Rightarrow> False | Some a \<Rightarrow> ia_activeUntil a \<le> activeFrom)
            then Inl InvalidEntitlementPeriod
            else
              let u = \<lparr> u_id = newId, u_username = trim (cu_username i),
                    u_normalizedUsername = normalizeUsername (cu_username i), u_fullName = Some (trim (cu_fullName i)),
                    u_email = Some (trim (cu_email i)), u_normalizedEmail = Some (normalizeEmail (cu_email i)),
                    u_phone = Some (trim (cu_phone i)), u_normalizedPhone = Some (normalizePhone (cu_phone i)),
                    u_organization = Option.bind (cu_organization i) nonBlank,
                    u_passwordHash = bcrypt (cu_password i),
                    u_role = (if access = None then USER else ADMIN), u_isActive = True, u_deletedAt = None \<rparr>;
                  d1 = d\<lparr> users := users d @ [u], entitlements := entitlements d @
                    (case access of None \<Rightarrow> [] | Some a \<Rightarrow>
                       [\<lparr> en_userId = newId, en_status = EN_ACTIVE, en_activeFrom = activeFrom,
                          en_activeUntil = ia_activeUntil a, en_tournamentLimit = ia_tournamentLimit a,
                          en_adminAccessEndedAt = None \<rparr>]) \<rparr> in
              case identityConflict u (users d) of
                Some e \<Rightarrow> Inl e
              | None \<Rightarrow>
                  if newId \<in> u_id ` set (users d) \<or> (case access of None \<Rightarrow> False | Some a \<Rightarrow> \<not> fitsInt (ia_tournamentLimit a))
                  then Inl AccountRuntimeError
                  else Inr (u, superAudit actorId ''SUPER_ADMIN_USER_CREATED'' newId JNull (userSnapshot u [] d1) None d1))"

definition setUser :: "uuid \<Rightarrow> (user_row \<Rightarrow> user_row) \<Rightarrow> account_db \<Rightarrow> account_db" where
  "setUser uid f d = d\<lparr> users := updWhere (\<lambda>u. u_id u = uid) f (users d) \<rparr>"

text \<open>\<open>mutate\<close>: the operation gets the row found before and answers a value, the changed fields it
  reports, and the new state; the audit compares the user before and after.\<close>

definition mutateUser ::
  "uuid \<Rightarrow> uuid \<Rightarrow> string \<Rightarrow> string option \<Rightarrow> (user_row \<Rightarrow> account_db \<Rightarrow> account_error + (string list \<times> account_db))
   \<Rightarrow> account_db \<Rightarrow> account_error + (user_row \<times> account_db)" where
  "mutateUser uid actorId action reason op d =
     bindR (orThrow (getUser uid d) UserNotFound) (\<lambda>before.
     bindR (op before d) (\<lambda>(fields, d1).
     bindR (orThrow (getUser uid d1) UserNotFound) (\<lambda>after.
     Inr (after, superAudit actorId action uid (userSnapshot before [] d) (userSnapshot after fields d1) reason d1))))"

definition canRemove :: "account_db \<Rightarrow> account_error + unit" where
  "canRemove d =
     (if length (filter (\<lambda>u. u_role u = SUPER_ADMIN \<and> u_isActive u \<and> u_deletedAt u = None) (users d)) \<le> 1
      then Inl LastSuperAdmin else Inr ())"

definition changedProfileFields :: "update_user_input \<Rightarrow> string list" where
  "changedProfileFields i = List.map_filter id
     [map_option (\<lambda>_. ''username'') (uu_username i), map_option (\<lambda>_. ''fullName'') (uu_fullName i),
      map_option (\<lambda>_. ''email'') (uu_email i), map_option (\<lambda>_. ''phone'') (uu_phone i),
      map_option (\<lambda>_. ''organization'') (uu_organization i), map_option (\<lambda>_. ''isActive'') (uu_isActive i)]"

definition applyUpdate :: "update_user_input \<Rightarrow> user_row \<Rightarrow> user_row" where
  "applyUpdate i u = u\<lparr>
     u_username := (case uu_username i of None \<Rightarrow> u_username u | Some x \<Rightarrow> trim x),
     u_normalizedUsername := (case uu_username i of None \<Rightarrow> u_normalizedUsername u | Some x \<Rightarrow> normalizeUsername x),
     u_fullName := (case uu_fullName i of None \<Rightarrow> u_fullName u | Some x \<Rightarrow> Some (trim x)),
     u_email := (case uu_email i of None \<Rightarrow> u_email u | Some x \<Rightarrow> Some (trim x)),
     u_normalizedEmail := (case uu_email i of None \<Rightarrow> u_normalizedEmail u | Some x \<Rightarrow> Some (normalizeEmail x)),
     u_phone := (case uu_phone i of None \<Rightarrow> u_phone u | Some x \<Rightarrow> Some (trim x)),
     u_normalizedPhone := (case uu_phone i of None \<Rightarrow> u_normalizedPhone u | Some x \<Rightarrow> Some (normalizePhone x)),
     u_organization := (case uu_organization i of None \<Rightarrow> u_organization u | Some x \<Rightarrow> nonBlank x),
     u_isActive := orDefault (uu_isActive i) (u_isActive u) \<rparr>"

definition updateUser ::
  "uuid \<Rightarrow> update_user_input \<Rightarrow> uuid \<Rightarrow> account_db \<Rightarrow> account_error + (user_row \<times> account_db)" where
  "updateUser uid i actorId d =
     (if (case uu_phone i of None \<Rightarrow> False | Some p \<Rightarrow> length (normalizePhone p) < 6) then Inl InvalidPhone
      else mutateUser uid actorId ''SUPER_ADMIN_USER_UPDATED'' (uu_reason i) (\<lambda>before d.
        if uid = actorId \<and> uu_isActive i = Some False then Inl CannotModifySelf
        else bindR (if u_role before = SUPER_ADMIN \<and> uu_isActive i = Some False then canRemove d else Inr ()) (\<lambda>_.
          case identityConflict (applyUpdate i before) (filter (\<lambda>u. u_id u \<noteq> uid) (users d)) of
            Some e \<Rightarrow> Inl e
          | None \<Rightarrow> Inr (changedProfileFields i, setUser uid (applyUpdate i) d))) d)"

definition removeUser :: "uuid \<Rightarrow> string option \<Rightarrow> uuid \<Rightarrow> time \<Rightarrow> account_db \<Rightarrow> account_error + (user_row \<times> account_db)" where
  "removeUser uid reason actorId now =
     mutateUser uid actorId ''SUPER_ADMIN_USER_SOFT_DELETED'' reason (\<lambda>before d.
       if uid = actorId then Inl CannotModifySelf
       else bindR (if u_role before = SUPER_ADMIN then canRemove d else Inr ()) (\<lambda>_.
         Inr ([], setUser uid (\<lambda>u. u\<lparr> u_deletedAt := Some now, u_isActive := False \<rparr>)
           (d\<lparr> entitlements := updWhere (\<lambda>e. en_userId e = uid \<and> en_status e = EN_ACTIVE)
              (\<lambda>e. e\<lparr> en_status := EN_REVOKED, en_adminAccessEndedAt := Some now \<rparr>) (entitlements d) \<rparr>))))"

definition restoreUser :: "uuid \<Rightarrow> string option \<Rightarrow> uuid \<Rightarrow> account_db \<Rightarrow> account_error + (user_row \<times> account_db)" where
  "restoreUser uid reason actorId =
     mutateUser uid actorId ''SUPER_ADMIN_USER_RESTORED'' reason (\<lambda>before d.
       if u_deletedAt before = None then Inl UserNotDeleted
       else Inr ([], setUser uid (\<lambda>u. u\<lparr> u_deletedAt := None, u_isActive := False \<rparr>) d))"

definition actionStatus :: "access_action \<Rightarrow> entitlement_row option \<Rightarrow> entitlement_status" where
  "actionStatus action current =
     (case action of ACTIVATE \<Rightarrow> EN_ACTIVE | SUSPEND \<Rightarrow> EN_SUSPENDED | REVOKE \<Rightarrow> EN_REVOKED
      | ADJUST \<Rightarrow> (case current of None \<Rightarrow> EN_ACTIVE | Some e \<Rightarrow> en_status e))"

definition changeAccess ::
  "uuid \<Rightarrow> access_input \<Rightarrow> uuid \<Rightarrow> time \<Rightarrow> account_db \<Rightarrow> account_error + (user_row \<times> account_db)" where
  "changeAccess uid i actorId now =
     mutateUser uid actorId ''SUPER_ADMIN_ADMIN_ACCESS_CHANGED'' (ac_reason i) (\<lambda>user d.
       if u_deletedAt user \<noteq> None then Inl UserDeleted
       else if u_role user = SUPER_ADMIN then Inl CannotChangeSuperAdminEntitlement
       else
         let current = entitlementOf uid d; action = ac_action i in
         if current = None \<and> action \<noteq> ACTIVATE then Inl EntitlementNotFound
         else
           let from = (case ac_activeFrom i of Some t \<Rightarrow> t | None \<Rightarrow> (case current of Some e \<Rightarrow> en_activeFrom e | None \<Rightarrow> now));
               until = (case ac_activeUntil i of Some t \<Rightarrow> Some t | None \<Rightarrow> map_option en_activeUntil current) in
           case until of
             None \<Rightarrow> Inl InvalidEntitlementPeriod
           | Some end \<Rightarrow>
               if action \<in> {ACTIVATE, ADJUST} \<and> (end \<le> from \<or> (ac_tournamentLimit i = None \<and> current = None))
               then Inl InvalidEntitlementPeriod
               else if action = ACTIVATE \<and> end \<le> now then Inl InvalidEntitlementPeriod
               else
                 let status = actionStatus action current;
                     limit = (case ac_tournamentLimit i of Some n \<Rightarrow> n | None \<Rightarrow> (case current of Some e \<Rightarrow> en_tournamentLimit e | None \<Rightarrow> 0));
                     endedAt = (if status = EN_ACTIVE then None else Some now);
                     row = \<lparr> en_userId = uid, en_status = status, en_activeFrom = from, en_activeUntil = end,
                       en_tournamentLimit = limit, en_adminAccessEndedAt = endedAt \<rparr>;
                     d1 = upsertEntitlement uid row (\<lambda>e. row) d;
                     d2 = (if action = ACTIVATE then setUser uid (\<lambda>u. u\<lparr> u_role := ADMIN, u_isActive := True \<rparr>) d1 else d1);
                     d3 = (if action = REVOKE \<and> u_role user = ADMIN then setUser uid (\<lambda>u. u\<lparr> u_role := USER \<rparr>) d2 else d2) in
                 if \<not> fitsInt limit then Inl AccountRuntimeError else Inr ([], d3))"

end
