(* ===== verification/Tournament_Admin.thy ===== *)
theory Tournament_Admin
  imports Accounts
begin

text \<open>
  Tournaments as their administrators manage them: the part of
  \<open>admin-management/admin-management.service.ts\<close> that checks access and creates, changes and archives
  tournaments, on the tables of \<open>Accounts\<close>. A field an input leaves out is None, a field set to null is
  Some None. The public codes a creation draws are an argument; the copy of the sport in the audit of a
  creation is left out. An identifier that is taken violates the primary key.
\<close>

datatype admin_error =
    AccountError account_error | InvalidText | InvalidDate | InvalidTournamentDateRange | InvalidTournament
  | TournamentLimitReached | SportNotFound | SportInactive | TournamentPublicCodeCollision
  | TournamentNotFound | TournamentSportChangeNotAllowed | AdminForbidden | MatchNotFound | AdminRuntimeError

section \<open>Access\<close>

definition getTournamentRecord :: "uuid \<Rightarrow> account_db \<Rightarrow> tournament_record option" where
  "getTournamentRecord tid d = List.find (\<lambda>t. tr_id t = tid) (tournamentRecords d)"

definition subscriptionError :: "entitlement_row option \<Rightarrow> admin_error" where
  "subscriptionError e = AccountError (if e = None then AdminSubscriptionRequired else AdminSubscriptionExpired)"

definition assertAdminAccess :: "uuid \<Rightarrow> bool \<Rightarrow> time \<Rightarrow> account_db \<Rightarrow> admin_error + bool" where
  "assertAdminAccess uid mutation now d =
     bindR (orThrow (getUser uid d) AdminForbidden) (\<lambda>u.
     if u_role u = SUPER_ADMIN then Inr True
     else
       let state = calculateAdminAccessState (u_role u) (entitlementOf uid d) now in
       if \<not> mutation \<and> state = EXPIRED_READ_ONLY then Inr False
       else if isActiveAdminState state then Inr False
       else Inl (subscriptionError (entitlementOf uid d)))"

definition visibleTo :: "bool \<Rightarrow> uuid \<Rightarrow> tournament_record \<Rightarrow> bool" where
  "visibleTo isSuperAdmin uid t \<longleftrightarrow> tr_softDeletedAt t = None \<and> (isSuperAdmin \<or> tr_ownerUserId t = uid)"

definition assertTournamentAccess :: "uuid \<Rightarrow> uuid \<Rightarrow> bool \<Rightarrow> time \<Rightarrow> account_db \<Rightarrow> admin_error + unit" where
  "assertTournamentAccess tid uid mutation now d =
     bindR (assertAdminAccess uid mutation now d) (\<lambda>isSuperAdmin.
     if \<exists>t \<in> set (tournamentRecords d). tr_id t = tid \<and> visibleTo isSuperAdmin uid t then Inr ()
     else Inl TournamentNotFound)"

definition assertMatchAccess :: "uuid \<Rightarrow> uuid \<Rightarrow> bool \<Rightarrow> time \<Rightarrow> account_db \<Rightarrow> admin_error + unit" where
  "assertMatchAccess mid uid mutation now d =
     bindR (assertAdminAccess uid mutation now d) (\<lambda>isSuperAdmin.
     if \<exists>x \<in> set (matchTournaments d). fst x = mid \<and>
          (\<exists>t \<in> set (tournamentRecords d). tr_id t = snd x \<and> visibleTo isSuperAdmin uid t) then Inr ()
     else Inl MatchNotFound)"

definition assertTournamentMutationAccessInTransaction ::
  "uuid \<Rightarrow> uuid \<Rightarrow> time \<Rightarrow> account_db \<Rightarrow> admin_error + unit" where
  "assertTournamentMutationAccessInTransaction tid actorId now d =
     bindR (orThrow (getUser actorId d) AdminForbidden) (\<lambda>u.
     if \<not> u_isActive u \<or> u_deletedAt u \<noteq> None then Inl AdminForbidden
     else
       let isSuperAdmin = (u_role u = SUPER_ADMIN); e = entitlementOf actorId d in
       if \<not> isSuperAdmin \<and> (e = None \<or> \<not> isActiveAdminState (calculateAdminAccessState (u_role u) e now))
       then Inl (subscriptionError e)
       else if \<exists>t \<in> set (tournamentRecords d). tr_id t = tid \<and> visibleTo isSuperAdmin actorId t then Inr ()
       else Inl TournamentNotFound)"

section \<open>Inputs\<close>

definition requiredTrimmedText :: "string \<Rightarrow> admin_error + string" where
  "requiredTrimmedText v = (if trim v = [] then Inl InvalidText else Inr (trim v))"

definition isDigit :: "char \<Rightarrow> bool" where
  "isDigit c \<longleftrightarrow> c \<in> set ''0123456789''"

text \<open>A date text is read and printed again; only the ten characters \<open>YYYY-MM-DD\<close> of an existing day
  survive.\<close>

definition parseDate :: "string \<Rightarrow> admin_error + time" where
  "parseDate v =
     (let y = take 4 v; m = take 2 (drop 5 v); dd = take 2 (drop 8 v);
          month = int (readNat m); date = int (readNat dd) in
      if length v = 10 \<and> v ! 4 = CHR ''-'' \<and> v ! 7 = CHR ''-'' \<and> list_all isDigit (y @ m @ dd) \<and>
         1 \<le> month \<and> month \<le> 12 \<and> 1 \<le> date \<and> date \<le> daysInMonth (int (readNat y)) (month - 1)
      then Inr (makeDay (int (readNat y)) (month - 1) date * MS_PER_DAY)
      else Inl InvalidDate)"

definition parseOptionalDate :: "string option \<Rightarrow> admin_error + time option" where
  "parseOptionalDate v = (case v of None \<Rightarrow> Inr None | Some s \<Rightarrow> bindR (parseDate s) (\<lambda>t. Inr (Some t)))"

definition assertDateRange :: "time option \<Rightarrow> time option \<Rightarrow> admin_error + unit" where
  "assertDateRange startDate endDate =
     (case (startDate, endDate) of
        (Some s, Some e) \<Rightarrow> if s > e then Inl InvalidTournamentDateRange else Inr ()
      | _ \<Rightarrow> Inr ())"

section \<open>Operations\<close>

record create_tournament_input =
  ct_sportId :: uuid
  ct_name :: string
  ct_description :: "string option"
  ct_location :: "string option"
  ct_startDate :: "string option"
  ct_endDate :: "string option"
  ct_status :: "tournament_status option"

definition TOURNAMENT_PUBLIC_CODE_GENERATION_ATTEMPTS :: nat where
  "TOURNAMENT_PUBLIC_CODE_GENERATION_ATTEMPTS = 8"

definition assertQuota :: "uuid \<Rightarrow> time \<Rightarrow> account_db \<Rightarrow> admin_error + unit" where
  "assertQuota uid now d =
     bindR (orThrow (getUser uid d) AdminRuntimeError) (\<lambda>u.
     if u_role u = SUPER_ADMIN then Inr ()
     else case entitlementOf uid d of
       None \<Rightarrow> Inl (AccountError AdminSubscriptionRequired)
     | Some e \<Rightarrow>
         if \<not> isActiveAdminState (calculateAdminAccessState (u_role u) (Some e) now)
         then Inl (AccountError AdminSubscriptionExpired)
         else if int (length (filter (\<lambda>t. tr_ownerUserId t = uid) (tournamentRecords d))) \<ge> en_tournamentLimit e
         then Inl TournamentLimitReached else Inr ())"

text \<open>One attempt with one public code; the inner option is None when the code is taken.\<close>

definition createAttempt ::
  "uuid \<Rightarrow> string \<Rightarrow> create_tournament_input \<Rightarrow> string \<Rightarrow> time option \<Rightarrow> time option \<Rightarrow> uuid \<Rightarrow> time \<Rightarrow> account_db
   \<Rightarrow> admin_error + (tournament_record \<times> account_db) option" where
  "createAttempt newId publicCode i name startDate endDate uid now d =
     bindR (assertQuota uid now d) (\<lambda>_.
     case map_of (sports d) (ct_sportId i) of
       None \<Rightarrow> Inl SportNotFound
     | Some isActive \<Rightarrow>
         if \<not> isActive then Inl SportInactive
         else if publicCode \<in> tr_publicCode ` set (tournamentRecords d) then Inr None
         else if newId \<in> tr_id ` set (tournamentRecords d) then Inl AdminRuntimeError
         else
           let t = \<lparr> tr_id = newId, tr_publicCode = publicCode, tr_name = name,
                 tr_description = map_option trim (ct_description i), tr_imagePath = None,
                 tr_location = map_option trim (ct_location i), tr_startDate = startDate, tr_endDate = endDate,
                 tr_status = orDefault (ct_status i) T_DRAFT, tr_ownerUserId = uid, tr_sportId = ct_sportId i,
                 tr_softDeletedAt = None, tr_purgeAfter = None, tr_deletionReason = None, tr_restoredAt = None \<rparr> in
           Inr (Some (t, accountAudit (Some uid) TOURNAMENT_CREATED
             [(''tournamentId'', JId newId), (''sportId'', JId (ct_sportId i))]
             (d\<lparr> tournamentRecords := tournamentRecords d @ [t] \<rparr>))))"

fun createAttempts ::
  "string list \<Rightarrow> uuid \<Rightarrow> create_tournament_input \<Rightarrow> string \<Rightarrow> time option \<Rightarrow> time option \<Rightarrow> uuid \<Rightarrow> time \<Rightarrow> account_db
   \<Rightarrow> admin_error + (tournament_record \<times> account_db)" where
  "createAttempts [] newId i name startDate endDate uid now d = Inl TournamentPublicCodeCollision"
| "createAttempts (code # codes) newId i name startDate endDate uid now d =
     bindR (createAttempt newId code i name startDate endDate uid now d) (\<lambda>r.
     case r of Some x \<Rightarrow> Inr x | None \<Rightarrow> createAttempts codes newId i name startDate endDate uid now d)"

definition createTournament ::
  "(nat \<Rightarrow> string) \<Rightarrow> uuid \<Rightarrow> create_tournament_input \<Rightarrow> uuid \<Rightarrow> time \<Rightarrow> account_db
   \<Rightarrow> admin_error + (tournament_record \<times> account_db)" where
  "createTournament codes newId i uid now d =
     bindR (requiredTrimmedText (ct_name i)) (\<lambda>name.
     bindR (parseOptionalDate (ct_startDate i)) (\<lambda>startDate.
     bindR (parseOptionalDate (ct_endDate i)) (\<lambda>endDate.
     bindR (assertDateRange startDate endDate) (\<lambda>_.
     createAttempts (map codes [0..<TOURNAMENT_PUBLIC_CODE_GENERATION_ATTEMPTS]) newId i name startDate endDate uid now d))))"

record update_tournament_input =
  ut_sportId :: "uuid option"
  ut_name :: "string option"
  ut_description :: "string option option"
  ut_location :: "string option option"
  ut_startDate :: "string option option"
  ut_endDate :: "string option option"
  ut_status :: "tournament_status option"

definition updatedFields :: "update_tournament_input \<Rightarrow> string list" where
  "updatedFields i = List.map_filter id
     [map_option (\<lambda>_. ''sportId'') (ut_sportId i), map_option (\<lambda>_. ''name'') (ut_name i),
      map_option (\<lambda>_. ''description'') (ut_description i), map_option (\<lambda>_. ''location'') (ut_location i),
      map_option (\<lambda>_. ''startDate'') (ut_startDate i), map_option (\<lambda>_. ''endDate'') (ut_endDate i),
      map_option (\<lambda>_. ''status'') (ut_status i)]"

definition targetSport :: "uuid \<Rightarrow> update_tournament_input \<Rightarrow> tournament_record \<Rightarrow> account_db \<Rightarrow> admin_error + uuid option" where
  "targetSport tid i t d =
     (case ut_sportId i of
        None \<Rightarrow> Inr None
      | Some s \<Rightarrow>
          if s = tr_sportId t then Inr None
          else case map_of (sports d) s of
            None \<Rightarrow> Inl SportNotFound
          | Some isActive \<Rightarrow>
              if \<not> isActive then Inl SportInactive
              else if \<exists>x \<in> set (matchTournaments d). snd x = tid then Inl TournamentSportChangeNotAllowed
              else Inr (Some s))"

definition updateTournament ::
  "uuid \<Rightarrow> update_tournament_input \<Rightarrow> uuid \<Rightarrow> account_db \<Rightarrow> admin_error + (tournament_record \<times> account_db)" where
  "updateTournament tid i uid d =
     (if updatedFields i = [] then Inl InvalidTournament
      else
        bindR (orThrow (getTournamentRecord tid d) TournamentNotFound) (\<lambda>t.
        bindR (targetSport tid i t d) (\<lambda>sportId.
        bindR (case ut_startDate i of None \<Rightarrow> Inr (tr_startDate t) | Some v \<Rightarrow> parseOptionalDate v) (\<lambda>startDate.
        bindR (case ut_endDate i of None \<Rightarrow> Inr (tr_endDate t) | Some v \<Rightarrow> parseOptionalDate v) (\<lambda>endDate.
        bindR (assertDateRange startDate endDate) (\<lambda>_.
        bindR (case ut_name i of None \<Rightarrow> Inr (tr_name t) | Some v \<Rightarrow> requiredTrimmedText v) (\<lambda>name.
        let change = (\<lambda>x. x\<lparr> tr_name := name, tr_startDate := startDate, tr_endDate := endDate,
              tr_description := (case ut_description i of None \<Rightarrow> tr_description x | Some v \<Rightarrow> map_option trim v),
              tr_location := (case ut_location i of None \<Rightarrow> tr_location x | Some v \<Rightarrow> map_option trim v),
              tr_status := orDefault (ut_status i) (tr_status x),
              tr_sportId := orDefault sportId (tr_sportId x) \<rparr>) in
        Inr (change t, accountAudit (Some uid) TOURNAMENT_UPDATED
          ([(''fields'', JList (map JStr (updatedFields i))), (''tournamentId'', JId tid)] @
           (case sportId of None \<Rightarrow> [] | Some s \<Rightarrow> [(''previousSportId'', JId (tr_sportId t)), (''sportId'', JId s)]))
          (d\<lparr> tournamentRecords := updWhere (\<lambda>x. tr_id x = tid) change (tournamentRecords d) \<rparr>)))))))))"

definition tournamentStatusName :: "tournament_status \<Rightarrow> string" where
  "tournamentStatusName s = (case s of T_DRAFT \<Rightarrow> ''DRAFT'' | T_ACTIVE \<Rightarrow> ''ACTIVE'' | T_FINISHED \<Rightarrow> ''FINISHED''
     | T_ARCHIVED \<Rightarrow> ''ARCHIVED'')"

definition archiveTournament :: "uuid \<Rightarrow> uuid \<Rightarrow> account_db \<Rightarrow> admin_error + (tournament_record \<times> account_db)" where
  "archiveTournament tid uid d =
     bindR (orThrow (getTournamentRecord tid d) TournamentNotFound) (\<lambda>t.
     Inr (t\<lparr>tr_status := T_ARCHIVED\<rparr>, accountAudit (Some uid) TOURNAMENT_UPDATED
       [(''action'', JStr ''ARCHIVED''), (''previousStatus'', JStr (tournamentStatusName (tr_status t))),
        (''tournamentId'', JId tid)]
       (d\<lparr> tournamentRecords := updWhere (\<lambda>x. tr_id x = tid) (\<lambda>x. x\<lparr>tr_status := T_ARCHIVED\<rparr>) (tournamentRecords d) \<rparr>)))"

end
