(* ===== verification/Account_Facts.thy ===== *)
theory Account_Facts
  imports Tournament_Admin
begin

text \<open>
  What the account services guarantee. A quote is bounded by its parts. The worker never changes
  what an access check answers, and a second tick changes nothing. A paid activation extends the
  access it finds. Over every run of the services, tournaments are lost only after the grace
  period and the recovery period, and the last super administrator stays.
\<close>

section \<open>Frames\<close>

lemma account_frames [simp]:
  "users (accountAudit u ev m d) = users d" "entitlements (accountAudit u ev m d) = entitlements d"
  "tournamentRecords (accountAudit u ev m d) = tournamentRecords d" "plans (accountAudit u ev m d) = plans d"
  "orders (accountAudit u ev m d) = orders d"
  "users (superAudit a b t x y r d) = users d" "entitlements (superAudit a b t x y r d) = entitlements d"
  "tournamentRecords (superAudit a b t x y r d) = tournamentRecords d"
  "users (upsertEntitlement uid new f d) = users d" "tournamentRecords (upsertEntitlement uid new f d) = tournamentRecords d"
  "orders (upsertEntitlement uid new f d) = orders d" "plans (upsertEntitlement uid new f d) = plans d"
  "users (restoreLapsed uid now d) = users d" "entitlements (restoreLapsed uid now d) = entitlements d"
  "orders (restoreLapsed uid now d) = orders d"
  "entitlements (setRole uid ro d) = entitlements d" "tournamentRecords (setRole uid ro d) = tournamentRecords d"
  "orders (setRole uid ro d) = orders d"
  "entitlements (setUser uid g d) = entitlements d" "tournamentRecords (setUser uid g d) = tournamentRecords d"
  "tournamentRecords (updMedia p h d) = tournamentRecords d" "users (updMedia p h d) = users d"
  by (simp_all add: accountAudit_def superAudit_def upsertEntitlement_def restoreLapsed_def setRole_def setUser_def updMedia_def)

lemma worker_frames [simp]:
  "tournamentRecords (expireEntitlements now d) = tournamentRecords d" "users (expireEntitlements now d) = users d"
  "tournamentRecords (stampEndOfAccess d) = tournamentRecords d" "users (stampEndOfAccess d) = users d"
  "tournamentRecords (downgradeExpired d) = tournamentRecords d" "entitlements (downgradeExpired d) = entitlements d"
  "entitlements (restoreTournaments now d) = entitlements d" "users (restoreTournaments now d) = users d"
  "entitlements (softDeleteOf now uid d) = entitlements d" "users (softDeleteOf now uid d) = users d"
  by (simp_all add: expireEntitlements_def stampEndOfAccess_def downgradeExpired_def restoreTournaments_def softDeleteOf_def)

lemma find_updWhere_key:
  assumes "\<And>x. key (f x) = key x"
  shows "List.find (\<lambda>x. key x = k) (updWhere p f xs) = map_option (\<lambda>x. if p x then f x else x) (List.find (\<lambda>x. key x = k) xs)"
  using assms by (induction xs) auto

lemma find_append_single: "(\<And>x. x \<in> set xs \<Longrightarrow> \<not> p x) \<Longrightarrow> p y \<Longrightarrow> List.find p (xs @ [y]) = Some y"
  by (induction xs) auto

lemma softDeleteLapsed_frames [simp]:
  "entitlements (snd (softDeleteLapsed now es n d)) = entitlements d" "users (snd (softDeleteLapsed now es n d)) = users d"
  by (induction now es n d rule: softDeleteLapsed.induct) (auto split: option.splits)

lemma purgeOne_frames [simp]:
  "entitlements (snd (purgeOne ids now tid acc)) = entitlements (snd acc)" "users (snd (purgeOne ids now tid acc)) = users (snd acc)"
  by (simp_all add: purgeOne_def Let_def split: prod.splits)

lemma purge_frames [simp]:
  "entitlements (snd (foldl (\<lambda>acc tid. purgeOne ids now tid acc) acc tids)) = entitlements (snd acc)"
  "users (snd (foldl (\<lambda>acc tid. purgeOne ids now tid acc) acc tids)) = users (snd acc)"
  by (induction tids arbitrary: acc) simp_all

section \<open>Quotes\<close>

lemma truncDiv_bounds:
  assumes "0 \<le> s" and "0 \<le> bp" and "bp \<le> 10000"
  shows "0 \<le> truncDiv (s * bp) 10000" "truncDiv (s * bp) 10000 \<le> s"
    "10000 * truncDiv (s * bp) 10000 \<le> s * bp" "s * bp < 10000 * truncDiv (s * bp) 10000 + 10000"
proof -
  have nn: "0 \<le> s * bp" using assms by simp
  then have t: "truncDiv (s * bp) 10000 = s * bp div 10000" by (simp add: truncDiv_def)
  show "0 \<le> truncDiv (s * bp) 10000" unfolding t using nn by (simp add: pos_imp_zdiv_nonneg_iff)
  show b: "10000 * truncDiv (s * bp) 10000 \<le> s * bp" "s * bp < 10000 * truncDiv (s * bp) 10000 + 10000"
    unfolding t by (rule div_bounds; simp)+
  have "s * bp \<le> s * 10000" using assms by (intro mult_left_mono) auto
  then show "truncDiv (s * bp) 10000 \<le> s" using b(1) by linarith
qed

definition priced :: "pricing_plan \<Rightarrow> bool" where
  "priced p \<longleftrightarrow> 0 \<le> pp_baseAmountVnd p \<and> 1 \<le> pp_baseDurationMonths p \<and> 1 \<le> pp_baseTournamentLimit p \<and>
     0 \<le> pp_durationAddonUnitAmountVnd p \<and> 0 \<le> pp_tournamentAddonUnitAmountVnd p \<and>
     (\<forall>x \<in> set (pp_discountTiers p). 1 \<le> dt_quantity x \<and> 0 \<le> dt_discountBasisPoints x \<and> dt_discountBasisPoints x \<le> 10000)"

lemma calculateAddon_bounds:
  assumes "calculateAddon p type n unit = Inr a" and "priced p" and "0 \<le> unit"
  shows "0 \<le> n" "ad_subtotalVnd a = n * unit" "0 \<le> ad_discountVnd a" "ad_discountVnd a \<le> ad_subtotalVnd a"
proof -
  have n: "0 \<le> n" and sub: "ad_subtotalVnd a = n * unit"
    using assms(1) by (auto simp: calculateAddon_def Let_def split: if_splits)
  have "n = 0 \<and> ad_discountVnd a = 0 \<or> (\<exists>x \<in> set (pp_discountTiers p).
      ad_discountVnd a = truncDiv (n * unit * dt_discountBasisPoints x) 10000)"
    using assms(1) by (auto simp: calculateAddon_def Let_def tierOf_def split: if_splits dest!: find_SomeD)
  moreover have "0 \<le> n * unit" using n assms(3) by simp
  ultimately have "0 \<le> ad_discountVnd a \<and> ad_discountVnd a \<le> n * unit"
    using assms(2) truncDiv_bounds(1,2) by (auto simp: priced_def)
  then show "0 \<le> n" "ad_subtotalVnd a = n * unit" "0 \<le> ad_discountVnd a" "ad_discountVnd a \<le> ad_subtotalVnd a"
    using n sub by simp_all
qed

lemma createPricing_Inr:
  assumes "createPricing newId i actorId now d = Inr (plan, d')"
  shows "priced plan" "pp_id plan = newId" "pp_active plan" "plans d' = updWhere pp_active (\<lambda>p. p\<lparr>pp_active := False\<rparr>) (plans d) @ [plan]"
    "set requiredTiers \<subseteq> (\<lambda>x. (dt_type x, dt_quantity x)) ` set (pp_discountTiers plan)"
  using assms by (auto simp: createPricing_def validatePricing_def Let_def priced_def not_less split: if_splits)

lemma created_plan_is_quoted:
  assumes "createPricing newId i actorId now d = Inr (plan, d')"
  shows "pricingQuote du tn d' = calculateQuote plan du tn"
proof -
  have "List.find pp_active (updWhere pp_active (\<lambda>p. p\<lparr>pp_active := False\<rparr>) ps @ [plan]) = Some plan" for ps
    using createPricing_Inr(3) [OF assms] by (induction ps) auto
  then show ?thesis using createPricing_Inr(4) [OF assms] by (simp add: pricingQuote_def)
qed

lemma calculateAddon_total:
  assumes "n \<noteq> 0 \<Longrightarrow> (type, n) \<in> (\<lambda>x. (dt_type x, dt_quantity x)) ` set (pp_discountTiers p)" and "0 \<le> n"
  shows "\<exists>a. calculateAddon p type n unit = Inr a"
proof (cases "n = 0")
  case False
  then have "\<exists>x \<in> set (pp_discountTiers p). dt_type x = type \<and> dt_quantity x = n" using assms(1) by auto
  then have "tierOf p type n \<noteq> None" by (auto simp: tierOf_def find_None_iff)
  with assms(2) False show ?thesis by (auto simp: calculateAddon_def Let_def)
qed (simp add: calculateAddon_def)

text \<open>C35: A stored price list quotes every bundle it must offer, and its quotes are bounded: no discount
  is negative or exceeds what it discounts, so the price lies between the base amount and the sum
  of the undiscounted parts, and buys at least the base months and tournaments.\<close>

theorem stored_pricing_quotes_bounded:
  assumes "createPricing newId i actorId now d = Inr (plan, d')"
  shows "(\<forall>du tn q. pricingQuote du tn d' = Inr q \<longrightarrow>
      q_pricingVersionId q = newId \<and>
      0 \<le> ad_discountVnd (q_durationAddon q) \<and> ad_discountVnd (q_durationAddon q) \<le> ad_subtotalVnd (q_durationAddon q) \<and>
      0 \<le> ad_discountVnd (q_tournamentAddon q) \<and> ad_discountVnd (q_tournamentAddon q) \<le> ad_subtotalVnd (q_tournamentAddon q) \<and>
      pr_baseAmountVnd i \<le> q_totalPayableVnd q \<and>
      q_totalPayableVnd q \<le> pr_baseAmountVnd i + orDefault du 0 * pr_durationAddonUnitAmountVnd i +
        orDefault tn 0 * pr_tournamentAddonUnitAmountVnd i \<and>
      pr_baseDurationMonths i \<le> q_totalDurationMonths q \<and> pr_baseTournamentLimit i \<le> q_totalTournamentLimit q) \<and>
    (\<forall>du tn. orDefault du 0 \<in> {0, 6, 12} \<longrightarrow> orDefault tn 0 \<in> {0, 3, 5, 10} \<longrightarrow> (\<exists>q. pricingQuote du tn d' = Inr q))"
proof (intro conjI allI impI)
  note p = createPricing_Inr [OF assms] and quoted = created_plan_is_quoted [OF assms]
  have i: "pp_baseAmountVnd plan = pr_baseAmountVnd i" "pp_baseDurationMonths plan = pr_baseDurationMonths i"
    "pp_baseTournamentLimit plan = pr_baseTournamentLimit i"
    "pp_durationAddonUnitAmountVnd plan = pr_durationAddonUnitAmountVnd i"
    "pp_tournamentAddonUnitAmountVnd plan = pr_tournamentAddonUnitAmountVnd i"
    using assms by (auto simp: createPricing_def Let_def split: if_splits)
  have unit: "0 \<le> pp_durationAddonUnitAmountVnd plan" "0 \<le> pp_tournamentAddonUnitAmountVnd plan"
    using p(1) by (simp_all add: priced_def)
  {
    fix du tn q assume "pricingQuote du tn d' = Inr q"
    then obtain da ta where a: "calculateAddon plan DURATION (orDefault du 0) (pp_durationAddonUnitAmountVnd plan) = Inr da"
        "calculateAddon plan TOURNAMENT (orDefault tn 0) (pp_tournamentAddonUnitAmountVnd plan) = Inr ta"
      and q: "q = \<lparr> q_pricingVersionId = pp_id plan, q_baseAmountVnd = pp_baseAmountVnd plan,
        q_durationAddon = da, q_tournamentAddon = ta,
        q_totalDurationMonths = pp_baseDurationMonths plan + orDefault du 0,
        q_totalTournamentLimit = pp_baseTournamentLimit plan + orDefault tn 0,
        q_totalPayableVnd = pp_baseAmountVnd plan + ad_subtotalVnd da - ad_discountVnd da +
          ad_subtotalVnd ta - ad_discountVnd ta \<rparr>"
      unfolding quoted by (auto simp: calculateQuote_def Let_def)
    note b = calculateAddon_bounds [OF a(1) p(1) unit(1)] calculateAddon_bounds [OF a(2) p(1) unit(2)]
    show "q_pricingVersionId q = newId" using p(2) by (simp add: q)
    show "0 \<le> ad_discountVnd (q_durationAddon q)" "ad_discountVnd (q_durationAddon q) \<le> ad_subtotalVnd (q_durationAddon q)"
      "0 \<le> ad_discountVnd (q_tournamentAddon q)" "ad_discountVnd (q_tournamentAddon q) \<le> ad_subtotalVnd (q_tournamentAddon q)"
      "pr_baseAmountVnd i \<le> q_totalPayableVnd q"
      "q_totalPayableVnd q \<le> pr_baseAmountVnd i + orDefault du 0 * pr_durationAddonUnitAmountVnd i +
        orDefault tn 0 * pr_tournamentAddonUnitAmountVnd i"
      "pr_baseDurationMonths i \<le> q_totalDurationMonths q" "pr_baseTournamentLimit i \<le> q_totalTournamentLimit q"
      using b by (simp_all add: q i)
  next
    fix du tn :: "int option"
    assume "orDefault du 0 \<in> {0, 6, 12}" and "orDefault tn 0 \<in> {0, 3, 5, 10}"
    then have "\<exists>a. calculateAddon plan DURATION (orDefault du 0) (pp_durationAddonUnitAmountVnd plan) = Inr a"
      "\<exists>a. calculateAddon plan TOURNAMENT (orDefault tn 0) (pp_tournamentAddonUnitAmountVnd plan) = Inr a"
      using p(5) by (auto intro!: calculateAddon_total simp: requiredTiers_def)
    then show "\<exists>q. pricingQuote du tn d' = Inr q" unfolding quoted by (auto simp: calculateQuote_def Let_def)
  }
qed

section \<open>The worker and the access check\<close>

definition accessOf :: "uuid \<Rightarrow> time \<Rightarrow> account_db \<Rightarrow> access_state option" where
  "accessOf uid t d = map_option (\<lambda>u. calculateAdminAccessState (u_role u) (entitlementOf uid d) t) (getUser uid d)"

definition aged :: "time \<Rightarrow> entitlement_row \<Rightarrow> entitlement_row" where
  "aged now e = (let e' = (if en_status e = EN_ACTIVE \<and> en_activeUntil e \<le> now then e\<lparr>en_status := EN_EXPIRED\<rparr> else e) in
     if en_status e' = EN_EXPIRED \<and> en_adminAccessEndedAt e' = None then e'\<lparr>en_adminAccessEndedAt := Some (en_activeUntil e')\<rparr> else e')"

lemma aged_userId [simp]: "en_userId (aged now e) = en_userId e"
  by (simp add: aged_def Let_def)

lemma aged_access: "now \<le> t \<Longrightarrow> calculateAdminAccessState r (Some (aged now e)) t = calculateAdminAccessState r (Some e) t"
  by (cases "en_status e"; cases "en_adminAccessEndedAt e")
    (auto simp: aged_def calculateAdminAccessState_def adminAccessEndedAt_def orDefault_def)

lemma aged_aged [simp]: "aged now (aged now e) = aged now e"
  by (simp add: aged_def Let_def)

lemma run_entitlements: "entitlements (snd (runLifecycle ids now d)) = map (aged now) (entitlements d)"
  unfolding runLifecycle_def Let_def
  by (simp add: split_beta expireEntitlements_def stampEndOfAccess_def updWhere_def aged_def Let_def)

definition downgraded :: "account_db \<Rightarrow> user_row \<Rightarrow> user_row" where
  "downgraded d u = (if u_role u = ADMIN \<and> hasEntitlement (u_id u) (\<lambda>e. en_status e = EN_EXPIRED) d then u\<lparr>u_role := USER\<rparr> else u)"

lemma run_users: "users (snd (runLifecycle ids now d)) = map (downgraded (stampEndOfAccess (expireEntitlements now d))) (users d)"
  unfolding runLifecycle_def Let_def
  by (simp add: split_beta downgradeExpired_def updWhere_def downgraded_def)

lemma find_map_key: "(\<And>x. key (f x) = key x) \<Longrightarrow> List.find (\<lambda>x. key x = k) (map f xs) = map_option f (List.find (\<lambda>x. key x = k) xs)"
  by (induction xs) auto

text \<open>C31: Request-time authorization never depends on a worker tick: whatever a tick at one time expires,
  downgrades, restores, deletes or purges, the access state of every user at that and every later
  time is what it would be without the tick.\<close>

theorem worker_keeps_access_states:
  assumes "now \<le> t"
  shows "accessOf uid t (snd (runLifecycle ids now d)) = accessOf uid t d"
proof -
  have e: "entitlementOf uid (snd (runLifecycle ids now d)) = map_option (aged now) (entitlementOf uid d)"
    by (simp add: entitlementOf_def run_entitlements find_map_key)
  have u: "getUser uid (snd (runLifecycle ids now d)) =
      map_option (downgraded (stampEndOfAccess (expireEntitlements now d))) (getUser uid d)"
    by (simp add: getUser_def run_users find_map_key downgraded_def)
  have role: "calculateAdminAccessState (u_role (downgraded x v)) en t = calculateAdminAccessState (u_role v) en t" for x v en
    by (simp add: downgraded_def calculateAdminAccessState_def)
  show ?thesis
    using aged_access [OF assms] by (cases "entitlementOf uid d") (simp_all add: accessOf_def e u role option.map_comp comp_def)
qed

section \<open>The services as a machine\<close>

datatype account_command =
    Activate uuid uuid user_role activation_input
  | CreatePricing uuid pricing_input uuid
  | RunLifecycle "nat \<Rightarrow> uuid"
  | ReconcileMedia string "string \<Rightarrow> string option" nat
  | CreateUser uuid create_user_input uuid
  | UpdateUser uuid update_user_input uuid
  | RemoveUser uuid "string option" uuid
  | RestoreUser uuid "string option" uuid
  | ChangeAccess uuid access_input uuid
  | CreateTournament "nat \<Rightarrow> string" uuid create_tournament_input uuid
  | UpdateTournament uuid update_tournament_input uuid
  | ArchiveTournament uuid uuid

definition asAdmin :: "account_error + ('a \<times> account_db) \<Rightarrow> admin_error + account_db" where
  "asAdmin r = (case r of Inl e \<Rightarrow> Inl (AccountError e) | Inr x \<Rightarrow> Inr (snd x))"

definition stateOf :: "'e + ('a \<times> account_db) \<Rightarrow> 'e + account_db" where
  "stateOf r = (case r of Inl e \<Rightarrow> Inl e | Inr x \<Rightarrow> Inr (snd x))"

text \<open>A command runs at a time; the password hash of bcrypt is a parameter.\<close>

fun execAccount :: "(string \<Rightarrow> string) \<Rightarrow> time \<times> account_command \<Rightarrow> account_db \<Rightarrow> admin_error + account_db" where
  "execAccount bcrypt (now, Activate newId uid role input) d = asAdmin (activate newId uid role input now d)"
| "execAccount bcrypt (now, CreatePricing newId input actorId) d = asAdmin (createPricing newId input actorId now d)"
| "execAccount bcrypt (now, RunLifecycle ids) d = Inr (snd (runLifecycle ids now d))"
| "execAccount bcrypt (now, ReconcileMedia worker storage limit) d = Inr (fst (snd (reconcileMedia worker now storage limit d)))"
| "execAccount bcrypt (now, CreateUser newId input actorId) d = asAdmin (createUser bcrypt newId input actorId now d)"
| "execAccount bcrypt (now, UpdateUser uid input actorId) d = asAdmin (updateUser uid input actorId d)"
| "execAccount bcrypt (now, RemoveUser uid reason actorId) d = asAdmin (removeUser uid reason actorId now d)"
| "execAccount bcrypt (now, RestoreUser uid reason actorId) d = asAdmin (restoreUser uid reason actorId d)"
| "execAccount bcrypt (now, ChangeAccess uid input actorId) d = asAdmin (changeAccess uid input actorId now d)"
| "execAccount bcrypt (now, CreateTournament codes newId input uid) d = stateOf (createTournament codes newId input uid now d)"
| "execAccount bcrypt (now, UpdateTournament tid input uid) d = stateOf (updateTournament tid input uid d)"
| "execAccount bcrypt (now, ArchiveTournament tid uid) d = stateOf (archiveTournament tid uid d)"

lemma asAdmin_Inr [simp]: "asAdmin r = Inr d' \<longleftrightarrow> (\<exists>x. r = Inr (x, d'))"
  by (auto simp: asAdmin_def split: sum.splits)

lemma stateOf_Inr [simp]: "stateOf r = Inr d' \<longleftrightarrow> (\<exists>x. r = Inr (x, d'))"
  by (auto simp: stateOf_def split: sum.splits)

section \<open>Tournaments over a run\<close>

text \<open>How an operation other than the worker treats the tournaments: each stays with its owner, and
  stays as live as it was or becomes live.\<close>

definition keepsTournaments :: "account_db \<Rightarrow> account_db \<Rightarrow> bool" where
  "keepsTournaments d d' \<longleftrightarrow> (\<forall>t \<in> set (tournamentRecords d). \<exists>t' \<in> set (tournamentRecords d'). tr_id t' = tr_id t \<and>
     tr_ownerUserId t' = tr_ownerUserId t \<and>
     (tr_softDeletedAt t' = None \<or> tr_softDeletedAt t' = tr_softDeletedAt t \<and> tr_purgeAfter t' = tr_purgeAfter t))"

lemma keeps_refl: "tournamentRecords d' = tournamentRecords d \<Longrightarrow> keepsTournaments d d'"
  by (auto simp: keepsTournaments_def)

lemma keeps_cong: "tournamentRecords d' = tournamentRecords e \<Longrightarrow> keepsTournaments d e \<Longrightarrow> keepsTournaments d d'"
  by (simp add: keepsTournaments_def)

lemma keeps_append: "tournamentRecords d' = tournamentRecords d @ ts \<Longrightarrow> keepsTournaments d d'"
  by (auto simp: keepsTournaments_def)

lemma keeps_updWhere:
  assumes "tournamentRecords d' = updWhere p f (tournamentRecords d)"
    and "\<And>t. tr_id (f t) = tr_id t \<and> tr_ownerUserId (f t) = tr_ownerUserId t \<and>
      (tr_softDeletedAt (f t) = None \<or> tr_softDeletedAt (f t) = tr_softDeletedAt t \<and> tr_purgeAfter (f t) = tr_purgeAfter t)"
  shows "keepsTournaments d d'"
  unfolding keepsTournaments_def
proof
  fix t assume "t \<in> set (tournamentRecords d)"
  then have "(if p t then f t else t) \<in> set (tournamentRecords d')" by (auto simp: assms(1) updWhere_def)
  with assms(2) [of t] show "\<exists>t' \<in> set (tournamentRecords d'). tr_id t' = tr_id t \<and> tr_ownerUserId t' = tr_ownerUserId t \<and>
     (tr_softDeletedAt t' = None \<or> tr_softDeletedAt t' = tr_softDeletedAt t \<and> tr_purgeAfter t' = tr_purgeAfter t)"
    by (intro bexI [of _ "if p t then f t else t"]) auto
qed

lemma activate_records:
  "activate newId uid role input now d = Inr (x, d') \<Longrightarrow> tournamentRecords d' = tournamentRecords d \<or>
     tournamentRecords d' = tournamentRecords (restoreLapsed uid now d)"
  by (auto simp: activate_def activateTx_def Let_def restoreLapsed_def upsertEntitlement_def
      split: if_splits option.splits)

lemma mutateUser_Inr:
  assumes "mutateUser uid actorId action reason op d = Inr (x, d')"
  obtains u fields d1 where "getUser uid d = Some u" and "op u d = Inr (fields, d1)" and "users d' = users d1"
    and "entitlements d' = entitlements d1" and "tournamentRecords d' = tournamentRecords d1"
  using assms unfolding mutateUser_def by (elim inr_elims) auto

lemma reconcileRow_records [simp]:
  "tournamentRecords (fst (snd (reconcileRow w now st r acc))) = tournamentRecords (fst (snd acc))"
  "users (fst (snd (reconcileRow w now st r acc))) = users (fst (snd acc))"
  by (cases acc, cases "snd acc", auto simp: reconcileRow_def Let_def split: option.split)+

lemma reconcileMedia_records [simp]:
  "tournamentRecords (fst (snd (reconcileMedia w now st n d))) = tournamentRecords d"
  "users (fst (snd (reconcileMedia w now st n d))) = users d"
proof -
  have "tournamentRecords (fst (snd (foldl (\<lambda>acc row. reconcileRow w now st row acc) acc rows))) = tournamentRecords (fst (snd acc))"
    "users (fst (snd (foldl (\<lambda>acc row. reconcileRow w now st row acc) acc rows))) = users (fst (snd acc))" for acc rows
    by (induction rows arbitrary: acc) simp_all
  then show "tournamentRecords (fst (snd (reconcileMedia w now st n d))) = tournamentRecords d"
    "users (fst (snd (reconcileMedia w now st n d))) = users d" by (simp_all add: reconcileMedia_def)
qed

lemma updateUser_records: "updateUser uid i a d = Inr (x, d') \<Longrightarrow> tournamentRecords d' = tournamentRecords d"
  unfolding updateUser_def by (auto elim!: mutateUser_Inr split: if_splits option.splits)

lemma removeUser_records: "removeUser uid r a now d = Inr (x, d') \<Longrightarrow> tournamentRecords d' = tournamentRecords d"
  unfolding removeUser_def by (auto elim!: mutateUser_Inr split: if_splits option.splits)

lemma restoreUser_records: "restoreUser uid r a d = Inr (x, d') \<Longrightarrow> tournamentRecords d' = tournamentRecords d"
  unfolding restoreUser_def by (auto elim!: mutateUser_Inr split: if_splits option.splits)

lemma changeAccess_records: "changeAccess uid i a now d = Inr (x, d') \<Longrightarrow> tournamentRecords d' = tournamentRecords d"
  unfolding changeAccess_def by (auto elim!: mutateUser_Inr simp: Let_def split: if_splits option.splits)

lemma createAttempt_records:
  "createAttempt newId code i name s e uid now d = Inr (Some (t, d')) \<Longrightarrow> tournamentRecords d' = tournamentRecords d @ [t] \<and>
     users d' = users d \<and> tr_ownerUserId t = uid \<and> tr_softDeletedAt t = None \<and> assertQuota uid now d = Inr ()"
  by (auto simp: createAttempt_def Let_def split: if_splits option.splits)

lemma createAttempts_records:
  "createAttempts codes newId i name s e uid now d = Inr (t, d') \<Longrightarrow> tournamentRecords d' = tournamentRecords d @ [t] \<and>
     users d' = users d \<and> tr_ownerUserId t = uid \<and> tr_softDeletedAt t = None \<and> assertQuota uid now d = Inr ()"
  by (induction codes) (auto split: option.splits dest: createAttempt_records)

lemma createTournament_records:
  "createTournament codes newId i uid now d = Inr (t, d') \<Longrightarrow> tournamentRecords d' = tournamentRecords d @ [t] \<and>
     users d' = users d \<and> tr_ownerUserId t = uid \<and> tr_softDeletedAt t = None \<and> assertQuota uid now d = Inr ()"
  unfolding createTournament_def by (elim inr_elims) (rule createAttempts_records)

lemma createUser_records: "createUser bcrypt newId i a now d = Inr (u, d') \<Longrightarrow>
    tournamentRecords d' = tournamentRecords d \<and> users d' = users d @ [u] \<and> u_role u \<noteq> SUPER_ADMIN \<and>
    u_id u = newId \<and> newId \<notin> u_id ` set (users d)"
  by (auto simp: createUser_def Let_def split: option.splits if_splits)

lemma updateTournament_keeps: "updateTournament tid i uid d = Inr (t, d') \<Longrightarrow> keepsTournaments d d' \<and> users d' = users d"
  unfolding updateTournament_def Let_def
  by (elim bindR_InrE if_InrE Inl_InrE Inr_Pair_InrE) (rule conjI, rule keeps_updWhere, auto)

lemma archiveTournament_keeps: "archiveTournament tid uid d = Inr (t, d') \<Longrightarrow> keepsTournaments d d' \<and> users d' = users d"
  unfolding archiveTournament_def by (elim inr_elims) (auto intro!: keeps_updWhere)

lemma createPricing_records: "createPricing newId i a now d = Inr (p, d') \<Longrightarrow>
    tournamentRecords d' = tournamentRecords d \<and> users d' = users d"
  by (auto simp: createPricing_def Let_def split: if_splits)

lemma exec_keeps:
  assumes "execAccount bcrypt (now, c) d = Inr d'" and "\<nexists>ids. c = RunLifecycle ids"
  shows "keepsTournaments d d'"
proof (cases c)
  case (Activate newId uid role input)
  have "keepsTournaments d (restoreLapsed uid now d)" by (rule keeps_updWhere) (auto simp: restoreLapsed_def)
  then show ?thesis
    using assms Activate by (auto dest!: activate_records intro: keeps_refl keeps_cong)
qed (use assms in \<open>auto intro: keeps_refl keeps_append
    dest: updateUser_records removeUser_records restoreUser_records changeAccess_records createTournament_records
      createUser_records updateTournament_keeps archiveTournament_keeps createPricing_records\<close>)

section \<open>What a tick does to the tournaments\<close>

definition lapsed :: "time \<Rightarrow> entitlement_row \<Rightarrow> bool" where
  "lapsed now e \<longleftrightarrow> (case en_adminAccessEndedAt e of None \<Rightarrow> False | Some x \<Rightarrow> addUtcMonths x ADMIN_GRACE_MONTHS \<le> now)"

definition lapse :: "time \<Rightarrow> uuid set \<Rightarrow> tournament_record \<Rightarrow> tournament_record" where
  "lapse now U t = (if tr_ownerUserId t \<in> U \<and> tr_softDeletedAt t = None
     then t\<lparr> tr_softDeletedAt := Some now, tr_purgeAfter := Some (now + RECOVERY_DAYS * 86400000),
        tr_deletionReason := Some ADMIN_SUBSCRIPTION_LAPSED \<rparr> else t)"

definition revive :: "time \<Rightarrow> account_db \<Rightarrow> tournament_record \<Rightarrow> tournament_record" where
  "revive now d t = (if restorable now d t
     then t\<lparr> tr_softDeletedAt := None, tr_purgeAfter := None, tr_deletionReason := None, tr_restoredAt := Some now \<rparr> else t)"

lemma lapse_owner [simp]: "tr_ownerUserId (lapse now U t) = tr_ownerUserId t"
  by (simp add: lapse_def)

lemma revive_owner [simp]: "tr_ownerUserId (revive now d t) = tr_ownerUserId t"
  by (simp add: revive_def)

lemma lapse_lapse: "lapse now V (lapse now U t) = lapse now (U \<union> V) t"
  by (cases "tr_softDeletedAt t") (simp_all add: lapse_def)

lemma lapsed_ended: "lapsed now e \<Longrightarrow> \<exists>x. en_adminAccessEndedAt e = Some x"
  by (simp add: lapsed_def split: option.splits)

lemma softDeleteOf_records: "tournamentRecords (softDeleteOf now uid d) = map (lapse now {uid}) (tournamentRecords d)"
  by (auto simp: softDeleteOf_def updWhere_def lapse_def)

lemma softDeleteLapsed_records:
  "tournamentRecords (snd (softDeleteLapsed now es n d)) =
     map (lapse now (en_userId ` set (filter (lapsed now) es))) (tournamentRecords d)"
proof (induction now es n d rule: softDeleteLapsed.induct)
  case (1 now n d)
  then show ?case by (simp add: lapse_def cong: map_cong)
next
  case (2 now owner owners n d)
  then show ?case
    by (auto simp: lapsed_def softDeleteOf_records lapse_lapse not_less split: option.splits)
qed

lemma softDeleteLapsed_none:
  "(\<forall>e \<in> set es. lapsed now e \<longrightarrow> countOf (en_userId e) d = 0) \<Longrightarrow> softDeleteLapsed now es n d = (n, d)"
proof (induction now es n d rule: softDeleteLapsed.induct)
  case (2 now owner owners n d)
  have "softDeleteOf now uid d = d" if "countOf uid d = 0" for uid
    using that by (auto simp: countOf_def softDeleteOf_def filter_empty_conv updWhere_none)
  with 2 show ?case by (auto simp: lapsed_def not_less split: option.splits)
qed simp

lemma purge_records:
  "tournamentRecords (snd (foldl (\<lambda>acc tid. purgeOne ids now tid acc) acc tids)) =
     filter (\<lambda>t. \<not> (tr_id t \<in> set tids \<and> purgeable now t)) (tournamentRecords (snd acc))"
proof (induction tids arbitrary: acc)
  case (Cons tid tids)
  have "tournamentRecords (snd (purgeOne ids now tid acc)) =
      filter (\<lambda>t. \<not> (tr_id t = tid \<and> purgeable now t)) (tournamentRecords (snd acc))"
    by (cases acc) (auto simp: purgeOne_def Let_def filter_empty_conv intro!: filter_True [symmetric])
  with Cons show ?case by (auto intro: filter_cong)
qed simp

definition afterAging :: "time \<Rightarrow> account_db \<Rightarrow> account_db" where
  "afterAging now d = downgradeExpired (stampEndOfAccess (expireEntitlements now d))"

lemma afterAging_entitlements: "entitlements (afterAging now d) = map (aged now) (entitlements d)"
  by (simp add: afterAging_def expireEntitlements_def stampEndOfAccess_def updWhere_def aged_def Let_def)

lemma afterAging_records: "tournamentRecords (afterAging now d) = tournamentRecords d"
  by (simp add: afterAging_def)

definition lapsedUsers :: "time \<Rightarrow> account_db \<Rightarrow> uuid set" where
  "lapsedUsers now d = {en_userId e | e. e \<in> set (entitlements d) \<and> en_status (aged now e) = EN_EXPIRED \<and> lapsed now (aged now e)}"

lemma run_records:
  "tournamentRecords (snd (runLifecycle ids now d)) =
     filter (\<lambda>t. \<not> purgeable now t) (map (lapse now (lapsedUsers now d) \<circ> revive now (afterAging now d)) (tournamentRecords d))"
proof -
  let ?d1 = "afterAging now d"
  let ?d2 = "restoreTournaments now ?d1"
  let ?d3 = "snd (softDeleteLapsed now (lapsedOwners ?d2) 0 ?d2)"
  have run: "tournamentRecords (snd (runLifecycle ids now d)) = filter (\<lambda>t. \<not> purgeable now t) (tournamentRecords ?d3)"
    unfolding runLifecycle_def Let_def afterAging_def [symmetric]
    by (auto simp: split_beta purge_records intro!: filter_cong)
  have U: "en_userId ` set (filter (lapsed now) (lapsedOwners ?d2)) = lapsedUsers now d"
  proof -
    have "filter (lapsed now) (lapsedOwners ?d2) =
        map (aged now) (filter (\<lambda>e. en_status (aged now e) = EN_EXPIRED \<and> lapsed now (aged now e)) (entitlements d))"
      using lapsed_ended by (auto simp: lapsedOwners_def afterAging_entitlements filter_map comp_def intro!: arg_cong [of _ _ "map _"] filter_cong)
    then show ?thesis by (auto simp: lapsedUsers_def image_image)
  qed
  have "tournamentRecords ?d2 = map (revive now ?d1) (tournamentRecords d)"
    by (auto simp: restoreTournaments_def updWhere_def revive_def afterAging_records)
  then show ?thesis unfolding run softDeleteLapsed_records U by simp
qed

section \<open>Tournaments are kept through grace and recovery\<close>

definition RECOVERY_MS :: int where
  "RECOVERY_MS = RECOVERY_DAYS * 86400000"

text \<open>A committed command is a transaction, a thrown one leaves the state as it was.\<close>

definition transactAccount :: "(string \<Rightarrow> string) \<Rightarrow> time \<times> account_command \<Rightarrow> account_db \<Rightarrow> account_db" where
  "transactAccount bcrypt c d = (case execAccount bcrypt c d of Inl _ \<Rightarrow> d | Inr d' \<Rightarrow> d')"

definition safeUntil :: "time \<Rightarrow> uuid \<Rightarrow> uuid \<Rightarrow> account_db \<Rightarrow> bool" where
  "safeUntil b tid owner d \<longleftrightarrow> (\<exists>t \<in> set (tournamentRecords d). tr_id t = tid \<and> tr_ownerUserId t = owner \<and>
     (tr_softDeletedAt t = None \<or> (\<exists>p. tr_purgeAfter t = Some p \<and> b \<le> p)))"

lemma safeUntil_keeps: "safeUntil b tid o' d \<Longrightarrow> keepsTournaments d d' \<Longrightarrow> safeUntil b tid o' d'"
  unfolding safeUntil_def keepsTournaments_def by metis

lemma safeUntil_run:
  assumes "safeUntil b tid o' d" and "now < b" and "b \<le> now + RECOVERY_MS"
  shows "safeUntil b tid o' (snd (runLifecycle ids now d))"
proof -
  let ?f = "lapse now (lapsedUsers now d) \<circ> revive now (afterAging now d)"
  from assms(1) obtain t where t: "t \<in> set (tournamentRecords d)" "tr_id t = tid" "tr_ownerUserId t = o'"
      "tr_softDeletedAt t = None \<or> (\<exists>p. tr_purgeAfter t = Some p \<and> b \<le> p)"
    by (auto simp: safeUntil_def)
  have f: "tr_id (?f t) = tid" "tr_ownerUserId (?f t) = o'"
    using t(2,3) by (simp_all add: lapse_def revive_def)
  have ok: "tr_softDeletedAt (?f t) = None \<or> (\<exists>p. tr_purgeAfter (?f t) = Some p \<and> b \<le> p)"
    using t(4) assms(3) by (auto simp: lapse_def revive_def RECOVERY_MS_def)
  then have "\<not> purgeable now (?f t)" using assms(2) by (auto simp: purgeable_def)
  with t(1) have "?f t \<in> set (tournamentRecords (snd (runLifecycle ids now d)))"
    unfolding run_records by auto
  with f ok show ?thesis unfolding safeUntil_def by blast
qed

lemma safeUntil_step:
  assumes "safeUntil b tid o' d" and "now < b" and "b \<le> now + RECOVERY_MS"
  shows "safeUntil b tid o' (transactAccount bcrypt (now, c) d)"
proof (cases "execAccount bcrypt (now, c) d")
  case (Inr d')
  show ?thesis
  proof (cases "\<exists>ids. c = RunLifecycle ids")
    case True
    then show ?thesis using safeUntil_run [OF assms] by (auto simp: transactAccount_def)
  next
    case False
    then show ?thesis using Inr exec_keeps [OF Inr] safeUntil_keeps [OF assms(1)] by (simp add: transactAccount_def)
  qed
qed (use assms in \<open>simp add: transactAccount_def\<close>)

lemma aged_lapsed:
  assumes "en_status (aged now e) = EN_EXPIRED" and "lapsed now (aged now e)"
  shows "addUtcMonths (adminAccessEndedAt e) ADMIN_GRACE_MONTHS \<le> now \<and>
    (en_status e = EN_EXPIRED \<or> en_status e = EN_ACTIVE \<and> en_activeUntil e \<le> now)"
  using assms by (cases "en_adminAccessEndedAt e")
    (auto simp: aged_def lapsed_def Let_def adminAccessEndedAt_def orDefault_def split: if_splits)

lemma soft_deletion_justified:
  assumes live: "t \<in> set (tournamentRecords d)" "tr_softDeletedAt t = None" and ex: "execAccount bcrypt (now, c) d = Inr d'"
    and gone: "\<not> (\<exists>t' \<in> set (tournamentRecords d'). tr_id t' = tr_id t \<and> tr_softDeletedAt t' = None)"
  shows "\<exists>e \<in> set (entitlements d). en_userId e = tr_ownerUserId t \<and> addUtcMonths (adminAccessEndedAt e) 12 \<le> now \<and>
    (en_status e = EN_EXPIRED \<or> en_status e = EN_ACTIVE \<and> en_activeUntil e \<le> now)"
proof -
  have "\<exists>ids. c = RunLifecycle ids"
    using exec_keeps [OF ex] live gone by (fastforce simp: keepsTournaments_def)
  then obtain ids where d': "d' = snd (runLifecycle ids now d)" using ex by auto
  have rev: "revive now (afterAging now d) t = t" using live(2) by (simp add: revive_def restorable_def)
  have "tr_ownerUserId t \<in> lapsedUsers now d"
  proof (rule ccontr)
    assume "tr_ownerUserId t \<notin> lapsedUsers now d"
    then have "(lapse now (lapsedUsers now d) \<circ> revive now (afterAging now d)) t = t" by (simp add: rev lapse_def)
    moreover have "\<not> purgeable now t" using live(2) by (simp add: purgeable_def)
    ultimately have "t \<in> set (tournamentRecords d')" unfolding d' run_records using live(1) by (force intro: image_eqI [of t])
    with gone live(2) show False by blast
  qed
  then obtain e where "e \<in> set (entitlements d)" "en_userId e = tr_ownerUserId t" "en_status (aged now e) = EN_EXPIRED" "lapsed now (aged now e)"
    by (auto simp: lapsedUsers_def)
  then show "\<exists>e \<in> set (entitlements d). en_userId e = tr_ownerUserId t \<and> addUtcMonths (adminAccessEndedAt e) 12 \<le> now \<and>
        (en_status e = EN_EXPIRED \<or> en_status e = EN_ACTIVE \<and> en_activeUntil e \<le> now)"
    using aged_lapsed [of now e] by (auto simp: ADMIN_GRACE_MONTHS_def)
qed

text \<open>C8: Over every run of the account services, whoever issues the commands and in whatever order, a
  tournament that is live stays recoverable for sixty days: it still exists, with its owner, after
  every command of that time. And a command turns a live tournament into a deleted one only as a
  tick of the worker after the owner's access ended at least twelve calendar months ago.\<close>

theorem tournaments_kept_through_grace_and_recovery:
  assumes live: "t \<in> set (tournamentRecords d)" "tr_softDeletedAt t = None"
    and window: "list_all (\<lambda>(now, c). t0 \<le> now \<and> now < t0 + 60 * MS_PER_DAY) cs"
  shows "(\<exists>t' \<in> set (tournamentRecords (fold (transactAccount bcrypt) cs d)).
      tr_id t' = tr_id t \<and> tr_ownerUserId t' = tr_ownerUserId t) \<and>
    (\<forall>now c d'. execAccount bcrypt (now, c) d = Inr d' \<longrightarrow>
      (\<exists>t' \<in> set (tournamentRecords d'). tr_id t' = tr_id t \<and> tr_softDeletedAt t' = None) \<or>
      (\<exists>e \<in> set (entitlements d). en_userId e = tr_ownerUserId t \<and> addUtcMonths (adminAccessEndedAt e) 12 \<le> now \<and>
        (en_status e = EN_EXPIRED \<or> en_status e = EN_ACTIVE \<and> en_activeUntil e \<le> now)))"
proof -
  let ?b = "t0 + 60 * MS_PER_DAY"
  have b: "?b \<le> now + RECOVERY_MS" if "t0 \<le> now" for now
    using that by (simp add: RECOVERY_MS_def RECOVERY_DAYS_def MS_PER_DAY_def)
  have "safeUntil ?b (tr_id t) (tr_ownerUserId t) d" using live by (auto simp: safeUntil_def)
  then have "safeUntil ?b (tr_id t) (tr_ownerUserId t) (fold (transactAccount bcrypt) cs d)"
    using window by (induction cs arbitrary: d) (auto intro: safeUntil_step b)
  then have "\<exists>t' \<in> set (tournamentRecords (fold (transactAccount bcrypt) cs d)).
      tr_id t' = tr_id t \<and> tr_ownerUserId t' = tr_ownerUserId t" by (auto simp: safeUntil_def)
  then show ?thesis using soft_deletion_justified [OF live] by blast
qed

section \<open>A second tick\<close>

lemma aged_state: "en_status (aged now e) = EN_ACTIVE \<Longrightarrow> now < en_activeUntil (aged now e)"
  "en_status (aged now e) = EN_EXPIRED \<Longrightarrow> en_adminAccessEndedAt (aged now e) \<noteq> None"
  by (auto simp: aged_def Let_def not_le split: if_splits)

lemma aging_settled:
  assumes "entitlements d = map (aged now) es" and "users d = map (downgraded d0) us" and "entitlements d0 = entitlements d"
  shows "expireEntitlements now d = d" "stampEndOfAccess d = d" "downgradeExpired d = d"
proof -
  show "expireEntitlements now d = d"
  proof -
    have "updWhere (\<lambda>e. en_status e = EN_ACTIVE \<and> en_activeUntil e \<le> now) (\<lambda>e. e\<lparr>en_status := EN_EXPIRED\<rparr>) (entitlements d) = entitlements d"
      by (rule updWhere_none) (use aged_state(1) [of now] in \<open>fastforce simp: assms(1)\<close>)
    then show ?thesis by (simp add: expireEntitlements_def)
  qed
  show "stampEndOfAccess d = d"
  proof -
    have "updWhere (\<lambda>e. en_status e = EN_EXPIRED \<and> en_adminAccessEndedAt e = None)
        (\<lambda>e. e\<lparr>en_adminAccessEndedAt := Some (en_activeUntil e)\<rparr>) (entitlements d) = entitlements d"
      by (rule updWhere_none) (use aged_state(2) [of now] in \<open>auto simp: assms(1)\<close>)
    then show ?thesis by (simp add: stampEndOfAccess_def)
  qed
  have "hasEntitlement uid p d0 = hasEntitlement uid p d" for uid p by (simp add: hasEntitlement_def entitlementOf_def assms(3))
  then have "updWhere (\<lambda>u. u_role u = ADMIN \<and> hasEntitlement (u_id u) (\<lambda>e. en_status e = EN_EXPIRED) d)
      (\<lambda>u. u\<lparr>u_role := USER\<rparr>) (users d) = users d"
    by (intro updWhere_none) (auto simp: assms(2) downgraded_def split: if_splits)
  then show "downgradeExpired d = d" by (simp add: downgradeExpired_def)
qed

lemma lapsedUsers_not_active:
  assumes "distinct (map en_userId (entitlements d))" and "uid \<in> lapsedUsers now d" and "entitlements d' = map (aged now) (entitlements d)"
  shows "\<not> hasEntitlement uid (\<lambda>e. en_status e = EN_ACTIVE \<and> q e) d'"
proof
  assume "hasEntitlement uid (\<lambda>e. en_status e = EN_ACTIVE \<and> q e) d'"
  then obtain e where e: "e \<in> set (entitlements d)" "en_userId e = uid" "en_status (aged now e) = EN_ACTIVE"
    by (auto simp: hasEntitlement_def entitlementOf_def assms(3) find_map_key split: option.splits dest!: find_SomeD)
  from assms(2) obtain e' where "e' \<in> set (entitlements d)" "en_userId e' = uid" "en_status (aged now e') = EN_EXPIRED"
    by (auto simp: lapsedUsers_def)
  with e assms(1) show False by (auto simp: distinct_map dest!: inj_onD)
qed

lemma tick_records:
  assumes "distinct (map en_userId (entitlements d))"
    and "t \<in> set (tournamentRecords (snd (runLifecycle ids now d)))"
  defines "d' \<equiv> snd (runLifecycle ids now d)"
  shows "\<not> restorable now d' t" "\<not> purgeable now t" "tr_ownerUserId t \<in> lapsedUsers now d \<Longrightarrow> tr_softDeletedAt t \<noteq> None"
proof -
  let ?d1 = "afterAging now d"
  from assms(2) obtain s where t: "t = lapse now (lapsedUsers now d) (revive now ?d1 s)" and p: "\<not> purgeable now t"
    unfolding run_records by auto
  show "\<not> purgeable now t" by (rule p)
  show "tr_ownerUserId t \<in> lapsedUsers now d \<Longrightarrow> tr_softDeletedAt t \<noteq> None" by (simp add: t lapse_def split: if_splits)
  have ent: "entitlements d' = map (aged now) (entitlements d)" "entitlements ?d1 = entitlements d'"
    by (simp_all add: d'_def run_entitlements afterAging_entitlements)
  have same: "restorable now d' = restorable now ?d1"
    by (simp add: restorable_def hasEntitlement_def entitlementOf_def ent fun_eq_iff)
  show "\<not> restorable now d' t"
  proof
    assume r: "restorable now d' t"
    then have out: "tr_ownerUserId t \<notin> lapsedUsers now d"
      using lapsedUsers_not_active [OF assms(1) _ ent(1)] by (auto simp: restorable_def)
    then have "lapse now (lapsedUsers now d) (revive now ?d1 s) = revive now ?d1 s"
      unfolding t lapse_owner by (simp add: lapse_def)
    with r have r': "restorable now ?d1 (revive now ?d1 s)" by (simp add: t same)
    show False
    proof (cases "restorable now ?d1 s")
      case True
      then have "tr_softDeletedAt (revive now ?d1 s) = None" by (simp add: revive_def)
      with r' show False by (simp add: restorable_def)
    next
      case False
      with r' show False by (simp add: revive_def)
    qed
  qed
qed

text \<open>The worker is idempotent: a second tick at the same time finds nothing to expire, restore,
  delete or purge, and changes nothing, not even the audit log.\<close>

theorem tick_repeated_changes_nothing:
  assumes "distinct (map en_userId (entitlements d))" and run: "runLifecycle ids now d = (counts, d')"
  shows "runLifecycle ids' now d' = (\<lparr> lc_expired = 0, lc_softDeleted = 0, lc_restored = 0, lc_purged = 0 \<rparr>, d')"
proof -
  have d'_def: "d' = snd (runLifecycle ids now d)" by (simp add: run)
  have ent: "entitlements d' = map (aged now) (entitlements d)" by (simp add: d'_def run_entitlements)
  have us: "users d' = map (downgraded (stampEndOfAccess (expireEntitlements now d))) (users d)" by (simp add: d'_def run_users)
  have ent0: "entitlements (stampEndOfAccess (expireEntitlements now d)) = entitlements d'"
    using afterAging_entitlements [of now d] by (simp add: ent afterAging_def)
  note settled = aging_settled [OF ent us ent0]
  have rec: "\<forall>t \<in> set (tournamentRecords d'). \<not> restorable now d' t \<and> \<not> purgeable now t \<and>
      (tr_ownerUserId t \<in> lapsedUsers now d \<longrightarrow> tr_softDeletedAt t \<noteq> None)"
    using tick_records [OF assms(1), of _ ids now] by (auto simp: d'_def)
  have exp: "filter (\<lambda>e. en_status e = EN_ACTIVE \<and> en_activeUntil e \<le> now) (entitlements d') = []"
    using aged_state(1) [of now] by (fastforce simp: ent filter_empty_conv)
  have res: "filter (restorable now d') (tournamentRecords d') = []" "restoreTournaments now d' = d'"
    using rec by (auto simp: filter_empty_conv restoreTournaments_def updWhere_none)
  have "\<forall>e \<in> set (lapsedOwners d'). lapsed now e \<longrightarrow> countOf (en_userId e) d' = 0"
    using rec by (fastforce simp: lapsedOwners_def ent countOf_def filter_empty_conv lapsedUsers_def)
  then have soft: "softDeleteLapsed now (lapsedOwners d') 0 d' = (0, d')" by (rule softDeleteLapsed_none)
  have cand: "filter (purgeable now) (tournamentRecords d') = []" using rec by (auto simp: filter_empty_conv)
  show ?thesis unfolding runLifecycle_def Let_def settled res exp soft by (simp add: cand)
qed

section \<open>The last super administrator\<close>

abbreviation activeSuper :: "user_row \<Rightarrow> bool" where
  "activeSuper u \<equiv> u_role u = SUPER_ADMIN \<and> u_isActive u \<and> u_deletedAt u = None"

definition superAdmins :: "account_db \<Rightarrow> user_row list" where
  "superAdmins d = filter activeSuper (users d)"

definition administered :: "account_db \<Rightarrow> bool" where
  "administered d \<longleftrightarrow> distinct (map u_id (users d)) \<and> superAdmins d \<noteq> []"

lemma getUser_unique:
  "distinct (map u_id (users d)) \<Longrightarrow> getUser uid d = Some u \<Longrightarrow> x \<in> set (users d) \<Longrightarrow> u_id x = uid \<Longrightarrow> x = u"
  by (auto simp: getUser_def distinct_map dest!: find_SomeD inj_onD)

text \<open>A change of one user keeps a super administrator if it keeps this one active or another one
  is left.\<close>

lemma administered_update:
  assumes "administered d" and "getUser uid d = Some u" and "users d' = updWhere (\<lambda>x. u_id x = uid) f (users d)"
    and id: "\<And>x. u_id (f x) = u_id x"
    and keep: "activeSuper u \<Longrightarrow> activeSuper (f u) \<or> 1 < length (superAdmins d)"
  shows "administered d'"
proof -
  have dist: "distinct (map u_id (users d))" and ne: "superAdmins d \<noteq> []" using assms(1) by (simp_all add: administered_def)
  have "\<exists>x \<in> set (superAdmins d). u_id x \<noteq> uid \<or> activeSuper (f u)"
  proof (cases "activeSuper u \<and> \<not> activeSuper (f u)")
    case True
    then have len: "1 < length (superAdmins d)" using keep by blast
    show ?thesis
    proof (rule ccontr)
      assume "\<not> (\<exists>x \<in> set (superAdmins d). u_id x \<noteq> uid \<or> activeSuper (f u))"
      then have "set (superAdmins d) \<subseteq> {u}"
        using getUser_unique [OF dist assms(2)] by (auto simp: superAdmins_def)
      moreover have "distinct (superAdmins d)" using dist by (auto simp: superAdmins_def distinct_map)
      ultimately have "length (superAdmins d) \<le> 1"
        using card_mono [of "{u}" "set (superAdmins d)"] by (simp add: distinct_card)
      with len show False by simp
    qed
  next
    case False
    obtain x where x: "x \<in> set (superAdmins d)" using ne by (cases "superAdmins d") auto
    then have "x \<in> set (users d)" "activeSuper x" by (auto simp: superAdmins_def)
    with False have "u_id x \<noteq> uid \<or> activeSuper (f u)" using getUser_unique [OF dist assms(2)] by blast
    with x show ?thesis by blast
  qed
  then obtain x where x: "x \<in> set (users d)" "activeSuper x" "u_id x \<noteq> uid \<or> activeSuper (f u)"
    by (auto simp: superAdmins_def)
  have "activeSuper (if u_id x = uid then f x else x)" using x getUser_unique [OF dist assms(2) x(1)] by auto
  moreover have "(if u_id x = uid then f x else x) \<in> set (users d')" using x(1) by (auto simp: assms(3) updWhere_def)
  ultimately have "superAdmins d' \<noteq> []" by (auto simp: superAdmins_def filter_empty_conv)
  moreover have "map u_id (users d') = map u_id (users d)" by (simp add: assms(3) map_updWhere id)
  ultimately show ?thesis using dist by (simp add: administered_def)
qed

lemma administered_cong: "users d' = users d \<Longrightarrow> administered d \<Longrightarrow> administered d'"
  by (simp add: administered_def superAdmins_def)

lemma canRemove_Inr: "canRemove d = Inr () \<longleftrightarrow> 1 < length (superAdmins d)"
  by (auto simp: canRemove_def superAdmins_def)

lemma updateUser_administered:
  assumes "administered d" and "updateUser uid i a d = Inr (x, d')"
  shows "administered d'"
proof -
  from assms(2) obtain u where u: "getUser uid d = Some u" and us: "users d' = updWhere (\<lambda>x. u_id x = uid) (applyUpdate i) (users d)"
    and c: "u_role u = SUPER_ADMIN \<Longrightarrow> uu_isActive i = Some False \<Longrightarrow> canRemove d = Inr ()"
    unfolding updateUser_def by (auto elim!: mutateUser_Inr simp: setUser_def split: if_splits option.splits)
  show ?thesis
  proof (rule administered_update [OF assms(1) u us])
    show "u_id (applyUpdate i y) = u_id y" for y by (simp add: applyUpdate_def)
    show "activeSuper u \<Longrightarrow> activeSuper (applyUpdate i u) \<or> 1 < length (superAdmins d)"
      using c by (cases "uu_isActive i") (auto simp: applyUpdate_def orDefault_def canRemove_Inr)
  qed
qed

lemma removeUser_administered:
  assumes "administered d" and "removeUser uid r a now d = Inr (x, d')"
  shows "administered d'"
proof -
  from assms(2) obtain u where u: "getUser uid d = Some u"
    and us: "users d' = updWhere (\<lambda>x. u_id x = uid) (\<lambda>u. u\<lparr> u_deletedAt := Some now, u_isActive := False \<rparr>) (users d)"
    and c: "u_role u = SUPER_ADMIN \<Longrightarrow> canRemove d = Inr ()"
    unfolding removeUser_def by (auto elim!: mutateUser_Inr simp: setUser_def split: if_splits)
  show ?thesis by (rule administered_update [OF assms(1) u us]) (use c in \<open>simp_all add: canRemove_Inr\<close>)
qed

lemma restoreUser_administered:
  assumes "administered d" and "restoreUser uid r a d = Inr (x, d')"
  shows "administered d'"
proof -
  from assms(2) obtain u where u: "getUser uid d = Some u" and del: "u_deletedAt u \<noteq> None"
    and us: "users d' = updWhere (\<lambda>x. u_id x = uid) (\<lambda>u. u\<lparr> u_deletedAt := None, u_isActive := False \<rparr>) (users d)"
    unfolding restoreUser_def by (auto elim!: mutateUser_Inr simp: setUser_def split: if_splits)
  show ?thesis by (rule administered_update [OF assms(1) u us]) (use del in simp_all)
qed

definition accessRole :: "access_input \<Rightarrow> user_role \<Rightarrow> user_row \<Rightarrow> user_row" where
  "accessRole i role u = (if ac_action i = ACTIVATE then u\<lparr> u_role := ADMIN, u_isActive := True \<rparr>
     else if ac_action i = REVOKE \<and> role = ADMIN then u\<lparr> u_role := USER \<rparr> else u)"

lemma changeAccess_users:
  assumes "changeAccess uid i a now d = Inr (x, d')"
  obtains u where "getUser uid d = Some u" and "u_role u \<noteq> SUPER_ADMIN"
    and "users d' = updWhere (\<lambda>x. u_id x = uid) (accessRole i (u_role u)) (users d)"
proof -
  have same: "updWhere p (\<lambda>u. u) xs = xs" for p and xs :: "user_row list" by (simp add: updWhere_def)
  show thesis
    using assms unfolding changeAccess_def Let_def
    by (elim mutateUser_Inr if_InrE option_InrE Inl_InrE Inr_Pair_InrE)
      (rule that, assumption, assumption, cases "ac_action i = ACTIVATE"; cases "ac_action i = REVOKE";
        clarsimp simp: setUser_def accessRole_def [abs_def] same)+
qed

lemma changeAccess_administered:
  assumes "administered d" and "changeAccess uid i a now d = Inr (x, d')"
  shows "administered d'"
  using assms(2)
proof (rule changeAccess_users)
  fix u assume u: "getUser uid d = Some u" "u_role u \<noteq> SUPER_ADMIN"
    and us: "users d' = updWhere (\<lambda>x. u_id x = uid) (accessRole i (u_role u)) (users d)"
  show "administered d'" by (rule administered_update [OF assms(1) u(1) us]) (use u(2) in \<open>simp_all add: accessRole_def\<close>)
qed

lemma activate_users:
  assumes "activate newId uid role input now d = Inr (x, d')"
  shows "users d' = users d \<or> (\<exists>u. getUser uid d = Some u \<and> u_role u \<noteq> SUPER_ADMIN \<and>
    users d' = updWhere (\<lambda>x. u_id x = uid) (\<lambda>u. u\<lparr>u_role := ADMIN\<rparr>) (users d))"
  using assms
  by (auto simp: activate_def activateTx_def Let_def assertSubscriptionAllowed_def setRole_def split: if_splits option.splits)

lemma activate_administered:
  assumes "administered d" and "activate newId uid role input now d = Inr (x, d')"
  shows "administered d'"
  using activate_users [OF assms(2)]
proof (elim disjE exE conjE)
  fix u assume u: "getUser uid d = Some u" "u_role u \<noteq> SUPER_ADMIN"
    and us: "users d' = updWhere (\<lambda>x. u_id x = uid) (\<lambda>u. u\<lparr>u_role := ADMIN\<rparr>) (users d)"
  show "administered d'" by (rule administered_update [OF assms(1) u(1) us]) (use u(2) in simp_all)
qed (rule administered_cong [OF _ assms(1)])

lemma run_administered:
  assumes "administered d"
  shows "administered (snd (runLifecycle ids now d))"
proof -
  let ?f = "downgraded (stampEndOfAccess (expireEntitlements now d))"
  have "u_id (?f u) = u_id u" "activeSuper (?f u) \<longleftrightarrow> activeSuper u" "activeSuper u \<Longrightarrow> ?f u = u" for u by (simp_all add: downgraded_def)
  then have "map u_id (map ?f us) = map u_id us" "filter activeSuper (map ?f us) = filter activeSuper us" for us
    by (induction us) auto
  then show ?thesis using assms by (simp only: administered_def superAdmins_def run_users simp_thms)
qed

lemma createUser_administered:
  "administered d \<Longrightarrow> createUser bcrypt newId i a now d = Inr (u, d') \<Longrightarrow> administered d'"
  by (drule createUser_records) (auto simp: administered_def superAdmins_def)

interpretation accounts: tx_machine "execAccount bcrypt" administered for bcrypt
proof
  fix d d' and c :: "time \<times> account_command"
  assume inv: "administered d" and ex: "execAccount bcrypt c d = Inr d'"
  obtain now c' where c: "c = (now, c')" by (cases c)
  show "administered d'"
    using ex inv unfolding c
    by (cases c') (auto dest: activate_administered createUser_administered updateUser_administered removeUser_administered
      restoreUser_administered changeAccess_administered intro: administered_cong run_administered
      dest!: createPricing_records createTournament_records updateTournament_keeps archiveTournament_keeps)
qed

lemma transactAccount_tx: "transactAccount bcrypt = accounts.tx bcrypt"
  by (simp add: transactAccount_def accounts.tx_def fun_eq_iff)

text \<open>C34: There is always a super administrator: as long as user ids are distinct and one active super
  administrator exists, no sequence of account commands, with whatever actors and inputs, removes,
  deactivates or demotes the last one.\<close>

theorem super_administrator_remains:
  assumes "distinct (map u_id (users d))" and "u \<in> set (users d)"
    and "u_role u = SUPER_ADMIN" "u_isActive u" "u_deletedAt u = None"
  shows "\<exists>v \<in> set (users (fold (transactAccount bcrypt) cs d)). u_role v = SUPER_ADMIN \<and> u_isActive v \<and> u_deletedAt v = None"
proof -
  have "administered d" using assms by (auto simp: administered_def superAdmins_def filter_empty_conv)
  then have "administered (fold (transactAccount bcrypt) cs d)"
    unfolding transactAccount_tx by (rule accounts.run_inv)
  then show ?thesis by (auto simp: administered_def superAdmins_def filter_empty_conv)
qed

section \<open>Activation\<close>

definition renewable :: "uuid \<Rightarrow> time \<Rightarrow> account_db \<Rightarrow> entitlement_row option" where
  "renewable uid now d = (case entitlementOf uid d of None \<Rightarrow> None
     | Some e \<Rightarrow> if en_status e = EN_ACTIVE \<and> en_activeUntil e > now then Some e else None)"

lemma entitlementOf_upsert:
  assumes "en_userId new = uid" and "\<And>e. en_userId (f e) = en_userId e"
  shows "entitlementOf uid (upsertEntitlement uid new f d) =
    Some (case entitlementOf uid d of None \<Rightarrow> new | Some e \<Rightarrow> f e)"
proof (cases "entitlementOf uid d")
  case None
  then have "\<forall>e \<in> set (entitlements d). en_userId e \<noteq> uid" by (auto simp: entitlementOf_def find_None_iff)
  then show ?thesis using None assms(1) by (auto simp: entitlementOf_def upsertEntitlement_def find_append_single)
next
  case (Some e)
  then have "e \<in> set (entitlements d)" "en_userId e = uid" by (auto simp: entitlementOf_def dest: find_SomeD)
  then show ?thesis using Some assms(2)
    by (auto simp: entitlementOf_def upsertEntitlement_def find_updWhere_key)
qed

lemma activate_first:
  assumes "activate newId uid role input now d = Inr (order, d')" and "orderByKey (ai_idempotencyKey input) d = None"
  obtains q u e' where "pricingQuote (ai_durationBundle input) (ai_tournamentBundle input) d = Inr q" and "getUser uid d = Some u"
    and "entitlementOf uid d' = Some e'" and "getUser uid d' = Some (u\<lparr>u_role := ADMIN\<rparr>)"
    and "en_status e' = EN_ACTIVE" "en_activeFrom e' = (case renewable uid now d of None \<Rightarrow> now | Some e \<Rightarrow> en_activeFrom e)"
    and "en_activeUntil e' = addUtcMonths (case renewable uid now d of None \<Rightarrow> now | Some e \<Rightarrow> en_activeUntil e) (q_totalDurationMonths q)"
    and "en_tournamentLimit e' = (case renewable uid now d of None \<Rightarrow> 0 | Some e \<Rightarrow> en_tournamentLimit e) + q_totalTournamentLimit q"
    and "tournamentRecords d' = tournamentRecords (restoreLapsed uid now d)" and "orders d' = orders d @ [order]"
    and "o_userId order = uid" "o_idempotencyKey order = ai_idempotencyKey input" "trim (ai_idempotencyKey input) \<noteq> []"
    and "o_totalAmountVnd order = q_totalPayableVnd q"
proof -
  from assms obtain q where key: "trim (ai_idempotencyKey input) \<noteq> []"
    and q: "pricingQuote (ai_durationBundle input) (ai_tournamentBundle input) d = Inr q"
    and tx: "activateTx newId uid input q now d = Inr (order, d')"
    by (auto simp: activate_def split: if_splits)
  define active where "active \<longleftrightarrow> (case entitlementOf uid d of None \<Rightarrow> False | Some e \<Rightarrow> en_status e = EN_ACTIVE \<and> en_activeUntil e > now)"
  define until where "until = addUtcMonths (case renewable uid now d of None \<Rightarrow> now | Some e \<Rightarrow> en_activeUntil e) (q_totalDurationMonths q)"
  define limit where "limit = (case renewable uid now d of None \<Rightarrow> 0 | Some e \<Rightarrow> en_tournamentLimit e) + q_totalTournamentLimit q"
  let ?new = "\<lparr> en_userId = uid, en_status = EN_ACTIVE, en_activeFrom = now, en_activeUntil = until,
    en_tournamentLimit = limit, en_adminAccessEndedAt = None \<rparr>"
  let ?f = "\<lambda>e. e\<lparr> en_status := EN_ACTIVE, en_activeFrom := (if active then en_activeFrom e else now),
    en_activeUntil := until, en_tournamentLimit := limit, en_adminAccessEndedAt := None \<rparr>"
  let ?d2 = "upsertEntitlement uid ?new ?f (d\<lparr> orders := orders d @ [order] \<rparr>)"
  have u: "\<exists>u. getUser uid d = Some u" and o: "o_userId order = uid" "o_idempotencyKey order = ai_idempotencyKey input"
      "o_totalAmountVnd order = q_totalPayableVnd q"
    and d': "d' = accountAudit (Some uid) ADMIN_ACTION [(''action'', JStr ''SUBSCRIPTION_SIMULATED_SUCCESS''), (''orderId'', JId newId)]
      (setRole uid ADMIN (restoreLapsed uid now ?d2))"
    using tx assms(2) unfolding activateTx_def Let_def active_def until_def limit_def renewable_def
    by (cases "entitlementOf uid d"; auto split: if_splits)+
  then obtain u where u: "getUser uid d = Some u" by blast
  have e': "entitlementOf uid d' = Some (case entitlementOf uid d of None \<Rightarrow> ?new | Some e \<Rightarrow> ?f e)"
    using entitlementOf_upsert [of ?new uid ?f "d\<lparr> orders := orders d @ [order] \<rparr>"] by (simp add: d' entitlementOf_def)
  show thesis
  proof (rule that [OF q u e' _ _ _ _ _ _ _ o(1,2) key o(3)])
    show "getUser uid d' = Some (u\<lparr>u_role := ADMIN\<rparr>)"
      using u by (auto simp: d' getUser_def setRole_def find_updWhere_key dest: find_SomeD)
  qed (auto simp: d' restoreLapsed_def setRole_def upsertEntitlement_def accountAudit_def until_def limit_def active_def renewable_def split: option.splits)
qed

lemma calculateQuote_months:
  "calculateQuote p du tn = Inr q \<Longrightarrow> priced p \<Longrightarrow> 1 \<le> q_totalDurationMonths q"
  by (auto simp: calculateQuote_def calculateAddon_def Let_def priced_def split: if_splits)

lemma restoreLapsed_ids: "map tr_id (tournamentRecords (restoreLapsed uid now d)) = map tr_id (tournamentRecords d)"
  by (simp add: restoreLapsed_def map_updWhere)

lemma restoreLapsed_live:
  assumes t: "t \<in> set (tournamentRecords (restoreLapsed uid now d))" and "tr_ownerUserId t = uid"
    and "tr_deletionReason t = Some ADMIN_SUBSCRIPTION_LAPSED"
  shows "tr_softDeletedAt t = None"
proof -
  let ?p = "\<lambda>s. tr_deletionReason s = Some ADMIN_SUBSCRIPTION_LAPSED \<and> tr_ownerUserId s = uid \<and> tr_softDeletedAt s \<noteq> None"
  let ?f = "\<lambda>s. s\<lparr> tr_deletionReason := None, tr_purgeAfter := None, tr_restoredAt := Some now, tr_softDeletedAt := None \<rparr>"
  have "t \<in> set (updWhere ?p ?f (tournamentRecords d))" using t by (simp add: restoreLapsed_def)
  then obtain s where "t = (if ?p s then ?f s else s)" by (rule in_set_updWhereE)
  then show ?thesis using assms(2,3) by (cases "?p s") auto
qed

text \<open>C32: An activation gives what was bought. It extends an access that still runs from its end, another
  one from now, by the quoted number of calendar months, at least 28 days each, and adds the quoted
  tournaments to a running limit. From then until the new end the user is an active administrator.
  Every tournament the lapse had deleted is live again. Sending the key again answers the same
  order and changes nothing.\<close>

theorem activation_extends_access:
  assumes act: "activate newId uid role input now d = Inr (order, d')" and new: "orderByKey (ai_idempotencyKey input) d = None"
    and prices: "\<forall>p \<in> set (plans d). priced p" and year: "100 \<le> getUTCFullYear now"
  shows "\<exists>q e'. pricingQuote (ai_durationBundle input) (ai_tournamentBundle input) d = Inr q \<and>
    o_totalAmountVnd order = q_totalPayableVnd q \<and> entitlementOf uid d' = Some e' \<and>
    (let starts = (case renewable uid now d of None \<Rightarrow> now | Some e \<Rightarrow> en_activeUntil e) in
      now \<le> starts \<and> en_activeUntil e' = addUtcMonths starts (q_totalDurationMonths q) \<and>
      starts + 28 * q_totalDurationMonths q * MS_PER_DAY \<le> en_activeUntil e') \<and>
    en_tournamentLimit e' = (case renewable uid now d of None \<Rightarrow> 0 | Some e \<Rightarrow> en_tournamentLimit e) + q_totalTournamentLimit q \<and>
    en_activeFrom e' = (case renewable uid now d of None \<Rightarrow> now | Some e \<Rightarrow> en_activeFrom e) \<and>
    (\<forall>t. en_activeFrom e' \<le> t \<longrightarrow> t < en_activeUntil e' \<longrightarrow> accessOf uid t d' = Some ACTIVE_ADMIN) \<and>
    map tr_id (tournamentRecords d') = map tr_id (tournamentRecords d) \<and>
    (\<forall>t \<in> set (tournamentRecords d'). tr_ownerUserId t = uid \<longrightarrow> tr_deletionReason t = Some ADMIN_SUBSCRIPTION_LAPSED \<longrightarrow>
      tr_softDeletedAt t = None) \<and>
    (\<forall>newId' role' now' input'. role' \<noteq> SUPER_ADMIN \<longrightarrow> ai_idempotencyKey input' = ai_idempotencyKey input \<longrightarrow>
      activate newId' uid role' input' now' d' = Inr (order, d'))"
proof -
  obtain q u e' where q: "pricingQuote (ai_durationBundle input) (ai_tournamentBundle input) d = Inr q" and u: "getUser uid d = Some u"
    and e: "entitlementOf uid d' = Some e'" and u': "getUser uid d' = Some (u\<lparr>u_role := ADMIN\<rparr>)"
    and st: "en_status e' = EN_ACTIVE" and since: "en_activeFrom e' = (case renewable uid now d of None \<Rightarrow> now | Some e \<Rightarrow> en_activeFrom e)"
    and until: "en_activeUntil e' = addUtcMonths (case renewable uid now d of None \<Rightarrow> now | Some e \<Rightarrow> en_activeUntil e) (q_totalDurationMonths q)"
    and lim: "en_tournamentLimit e' = (case renewable uid now d of None \<Rightarrow> 0 | Some e \<Rightarrow> en_tournamentLimit e) + q_totalTournamentLimit q"
    and rec: "tournamentRecords d' = tournamentRecords (restoreLapsed uid now d)" and ord: "orders d' = orders d @ [order]"
    and o: "o_userId order = uid" "o_idempotencyKey order = ai_idempotencyKey input" "trim (ai_idempotencyKey input) \<noteq> []"
      "o_totalAmountVnd order = q_totalPayableVnd q"
    by (rule activate_first [OF act new])
  let ?starts = "case renewable uid now d of None \<Rightarrow> now | Some e \<Rightarrow> en_activeUntil e"
  have starts: "now \<le> ?starts" by (auto simp: renewable_def split: option.splits)
  have "1 \<le> q_totalDurationMonths q"
    using q prices by (auto simp: pricingQuote_def dest!: find_SomeD intro: calculateQuote_months)
  then have bound: "?starts + 28 * q_totalDurationMonths q * MS_PER_DAY \<le> en_activeUntil e'"
    using addUtcMonths_months [of ?starts "q_totalDurationMonths q"] getUTCFullYear_mono [OF starts] year by (simp add: until)
  have access: "accessOf uid t d' = Some ACTIVE_ADMIN" if "en_activeFrom e' \<le> t" "t < en_activeUntil e'" for t
    using that st by (simp add: accessOf_def u' e calculateAdminAccessState_def)
  have "\<not> (\<exists>x \<in> set (orders d). o_idempotencyKey x = ai_idempotencyKey input)"
    using new by (auto simp: orderByKey_def find_None_iff)
  then have key: "orderByKey (ai_idempotencyKey input) d' = Some order"
    using o(2) find_append_single [of "orders d" "\<lambda>x. o_idempotencyKey x = ai_idempotencyKey input" order] by (auto simp: orderByKey_def ord)
  have replay: "activate newId' uid role' input' now' d' = Inr (order, d')"
    if "role' \<noteq> SUPER_ADMIN" "ai_idempotencyKey input' = ai_idempotencyKey input" for newId' role' now' input'
    using that key o by (simp add: activate_def assertSubscriptionAllowed_def replayOrder_def)
  show ?thesis
    using q o(4) e starts until bound lim since access replay restoreLapsed_ids [of uid now d] restoreLapsed_live [of _ uid now d]
    by (intro exI [of _ q] exI [of _ e']) (simp add: Let_def rec)
qed

section \<open>A small account database\<close>

text \<open>A super administrator, an administrator whose access runs to the end of January 2020, and a
  tournament of theirs.\<close>

definition accessEnd :: time where
  "accessEnd = 1580428800000"

definition accountUser :: "uuid \<Rightarrow> string \<Rightarrow> user_role \<Rightarrow> user_row" where
  "accountUser uid name role = \<lparr> u_id = uid, u_username = name, u_normalizedUsername = name, u_fullName = None, u_email = None,
     u_normalizedEmail = None, u_phone = None, u_normalizedPhone = None, u_organization = None, u_passwordHash = ''h'',
     u_role = role, u_isActive = True, u_deletedAt = None \<rparr>"

definition samplePricing :: pricing_input where
  "samplePricing = \<lparr> pr_baseAmountVnd = 100000, pr_baseDurationMonths = 1, pr_baseTournamentLimit = 1,
     pr_durationAddonUnitAmountVnd = 50000, pr_tournamentAddonUnitAmountVnd = 30000,
     pr_discountTiers = map (\<lambda>(ty, n). \<lparr> dt_type = ty, dt_quantity = n, dt_discountBasisPoints = 1000 \<rparr>) requiredTiers \<rparr>"

definition samplePlan :: pricing_plan where
  "samplePlan = \<lparr> pp_id = 5, pp_baseAmountVnd = 100000, pp_baseDurationMonths = 1, pp_baseTournamentLimit = 1,
     pp_durationAddonUnitAmountVnd = 50000, pp_tournamentAddonUnitAmountVnd = 30000, pp_discountTiers = [],
     pp_active = True, pp_activatedAt = None, pp_createdByUserId = None \<rparr>"

definition sampleTournament :: tournament_record where
  "sampleTournament = \<lparr> tr_id = 7, tr_publicCode = ''C'', tr_name = ''T'', tr_description = None, tr_imagePath = None, tr_location = None,
     tr_startDate = None, tr_endDate = None, tr_status = T_ACTIVE, tr_ownerUserId = 2, tr_sportId = 3,
     tr_softDeletedAt = None, tr_purgeAfter = None, tr_deletionReason = None, tr_restoredAt = None \<rparr>"

definition accountsDb :: account_db where
  "accountsDb = \<lparr> users = [accountUser 1 ''root'' SUPER_ADMIN, accountUser 2 ''ann'' ADMIN],
     entitlements = [\<lparr> en_userId = 2, en_status = EN_ACTIVE, en_activeFrom = 0, en_activeUntil = accessEnd, en_tournamentLimit = 3,
       en_adminAccessEndedAt = None \<rparr>],
     plans = [samplePlan], orders = [], tournamentRecords = [sampleTournament], organizationImages = [], athleteImages = [],
     snapshotImages = [], matchTournaments = [], sports = [(3, True)], mediaDeletions = [], pendingMigrations = [],
     accountAudits = [] \<rparr>"

lemmas account_defs = accountsDb_def accountUser_def samplePlan_def sampleTournament_def

theorem stored_pricing_quotes_bounded_witness:
  "\<exists>plan d' q. createPricing 6 samplePricing 1 0 accountsDb = Inr (plan, d') \<and> pricingQuote (Some 6) (Some 3) d' = Inr q \<and>
     100000 \<le> q_totalPayableVnd q \<and> q_totalPayableVnd q \<le> 490000"
proof -
  obtain plan d' where p: "createPricing 6 samplePricing 1 0 accountsDb = Inr (plan, d')"
    by (auto simp: createPricing_def validatePricing_def samplePricing_def requiredTiers_def fitsInt_def Let_def)
  have s: "pr_baseAmountVnd samplePricing = 100000" "pr_durationAddonUnitAmountVnd samplePricing = 50000"
    "pr_tournamentAddonUnitAmountVnd samplePricing = 30000" by (simp_all add: samplePricing_def)
  note b = stored_pricing_quotes_bounded [OF p]
  have "\<exists>q. pricingQuote (Some 6) (Some 3) d' = Inr q" using b by (simp add: orDefault_def)
  then obtain q where q: "pricingQuote (Some 6) (Some 3) d' = Inr q" ..
  from conjunct1 [OF b, rule_format, OF q] have "100000 \<le> q_totalPayableVnd q" "q_totalPayableVnd q \<le> 100000 + 6 * 50000 + 3 * 30000"
    by (simp_all add: s orDefault_def)
  with p q show ?thesis by auto
qed

theorem worker_keeps_access_states_witness:
  "accessOf 2 accessEnd (snd (runLifecycle id accessEnd accountsDb)) = Some EXPIRED_READ_ONLY"
proof -
  have "accessOf 2 accessEnd accountsDb = Some EXPIRED_READ_ONLY" by code_simp
  then show ?thesis using worker_keeps_access_states [of accessEnd accessEnd 2 id accountsDb] by simp
qed

theorem tournaments_kept_through_grace_and_recovery_witness:
  "\<exists>t \<in> set (tournamentRecords (fold (transactAccount id) [(accessEnd, RunLifecycle id), (accessEnd + 1, RunLifecycle id)] accountsDb)).
     tr_id t = 7 \<and> tr_ownerUserId t = 2"
  using tournaments_kept_through_grace_and_recovery [of sampleTournament accountsDb accessEnd
      "[(accessEnd, RunLifecycle id), (accessEnd + 1, RunLifecycle id)]" id]
  by (simp add: account_defs MS_PER_DAY_def)

theorem tick_repeated_changes_nothing_witness:
  "snd (runLifecycle id accessEnd (snd (runLifecycle id accessEnd accountsDb))) = snd (runLifecycle id accessEnd accountsDb)"
  using tick_repeated_changes_nothing [of accountsDb id accessEnd "fst (runLifecycle id accessEnd accountsDb)"
      "snd (runLifecycle id accessEnd accountsDb)" id]
  by (simp add: account_defs)

theorem super_administrator_remains_witness:
  "\<exists>v \<in> set (users (fold (transactAccount id) [(0, RemoveUser 1 None 2), (1, RunLifecycle id)] accountsDb)).
     u_role v = SUPER_ADMIN \<and> u_isActive v \<and> u_deletedAt v = None"
  by (rule super_administrator_remains [of _ "accountUser 1 ''root'' SUPER_ADMIN"]) (simp_all add: account_defs)

definition sampleActivation :: activation_input where
  "sampleActivation = \<lparr> ai_durationBundle = None, ai_tournamentBundle = None, ai_idempotencyKey = ''k'' \<rparr>"

theorem activation_extends_access_witness:
  "\<exists>order d' e'. activate 8 2 ADMIN sampleActivation 0 accountsDb = Inr (order, d') \<and> entitlementOf 2 d' = Some e' \<and>
     en_activeUntil e' = addUtcMonths accessEnd 1 \<and> en_tournamentLimit e' = 4 \<and> accessOf 2 accessEnd d' = Some ACTIVE_ADMIN"
proof -
  have q: "pricingQuote None None accountsDb = Inr q \<Longrightarrow> q_totalDurationMonths q = 1 \<and> q_totalTournamentLimit q = 1" for q
    by (auto simp: pricingQuote_def calculateQuote_def calculateAddon_def orDefault_def account_defs)
  have r: "renewable 2 0 accountsDb = Some (hd (entitlements accountsDb))" by (simp add: renewable_def entitlementOf_def account_defs accessEnd_def)
  obtain order d' where a: "activate 8 2 ADMIN sampleActivation 0 accountsDb = Inr (order, d')"
    by (auto simp: activate_def activateTx_def sampleActivation_def assertSubscriptionAllowed_def trim_def isSpace_def orderByKey_def
      pricingQuote_def calculateQuote_def calculateAddon_def orDefault_def account_defs getUser_def entitlementOf_def fitsInt_def accessEnd_def Let_def)
  have n: "orderByKey (ai_idempotencyKey sampleActivation) accountsDb = None" by (simp add: orderByKey_def account_defs)
  have p: "\<forall>p \<in> set (plans accountsDb). priced p" by (simp add: account_defs priced_def)
  have y: "100 \<le> getUTCFullYear 0" by code_simp
  from activation_extends_access [OF a n p y] q
  obtain e' where e: "entitlementOf 2 d' = Some e'" "en_activeUntil e' = addUtcMonths accessEnd 1" "en_tournamentLimit e' = 4"
      "en_activeFrom e' = 0" "accessEnd + 28 * MS_PER_DAY \<le> en_activeUntil e'"
      and acc: "\<And>t. en_activeFrom e' \<le> t \<Longrightarrow> t < en_activeUntil e' \<Longrightarrow> accessOf 2 t d' = Some ACTIVE_ADMIN"
    unfolding r by (auto simp: sampleActivation_def account_defs Let_def)
  have "accessOf 2 accessEnd d' = Some ACTIVE_ADMIN" using e(4,5) by (intro acc) (simp_all add: accessEnd_def MS_PER_DAY_def)
  with a e show ?thesis by blast
qed

end
