(* ===== verification/Bracket_Preview.thy ===== *)
theory Bracket_Preview
  imports Bracket_Graph Sport_Rules
begin

text \<open>
  Drawing a bracket before it is stored: \<open>brackets/bracket-draw-setup.service.ts\<close> answers the
  eligible roster with a setup token, \<open>bracket-preview.service.ts\<close> draws and answers a preview
  token, or swaps two athletes of a preview. The two token services sign the JSON of their
  claims; the codec (base64url of JSON, HMAC and SHA-256 digest) is a parameter, the checks on
  the claims are translated. Nothing here writes to the database.
\<close>

section \<open>Errors\<close>

datatype draw_error =
    DrawTournamentNotFound | DrawTournamentArchived | WeightClassNotFound | BracketSportGroupUnsupported
  | BracketAlreadyExists | BracketInsufficientAthletes | BracketAthleteLimitExceeded
  | BracketDrawSetupExpired | BracketDrawSetupInvalid | BracketByeAthleteIneligible
  | BracketByeSelectionExcessive | BracketByeStrategyInvalid | BracketSeededByeSelectionInvalid
  | BracketPreviewExpired | BracketPreviewInvalid | BracketSwapInvalid | BracketSwapIneligible
  | BracketRosterChanged | BracketGraphInvalid | BracketConfirmationKeyReused
  | CurrentBracketNotFound | ActiveBracketNotFound | BracketRoundNotFound | BracketRoundStaffingLocked
  | BracketRoundStaffingInvalid nat | DrawRulesNotImplemented string
  | DrawUnexpected bracket_error | DrawRuntimeError

section \<open>The eligible roster\<close>

type_synonym roster_entry = "athlete_row \<times> organization_row option"

definition organizationOf :: "db \<Rightarrow> athlete_row \<Rightarrow> organization_row option" where
  "organizationOf d a = Option.bind (ta_organizationId a)
     (\<lambda>o'. List.find (\<lambda>g. og_id g = o' \<and> og_tournamentId g = ta_tournamentId a) (organizations d))"

definition weightClassActive :: "uuid \<Rightarrow> uuid \<Rightarrow> db \<Rightarrow> bool" where
  "weightClassActive tid wid d \<longleftrightarrow>
     (\<exists>w \<in> set (weightClasses d). wc_id w = wid \<and> wc_tournamentId w = tid \<and> wc_isActive w)"

definition eligibleAthletes :: "uuid \<Rightarrow> uuid \<Rightarrow> db \<Rightarrow> roster_entry list" where
  "eligibleAthletes tid wid d = map (\<lambda>a. (a, organizationOf d a)) (sort_key ta_id
     (filter (\<lambda>a. ta_tournamentId a = tid \<and> ta_weightClassId a = wid \<and> ta_isActive a \<and>
          weightClassActive (ta_tournamentId a) (ta_weightClassId a) d \<and>
          (case ta_organizationId a of None \<Rightarrow> True
           | Some _ \<Rightarrow> (case organizationOf d a of None \<Rightarrow> False | Some g \<Rightarrow> og_isActive g)))
       (rosterAthletes d)))"

abbreviation entryId :: "roster_entry \<Rightarrow> uuid" where
  "entryId e \<equiv> ta_id (fst e)"

definition entryJson :: "roster_entry \<Rightarrow> jval" where
  "entryJson e = (let a = fst e in
     JObj [(''athleteId'', JId (ta_id a)), (''active'', JBool (ta_isActive a)), (''isSeed'', JBool (ta_isSeed a)),
       (''weightClassId'', JId (ta_weightClassId a)), (''updatedAt'', JDate (ta_updatedAt a)),
       (''organizationId'', jOpt JId (ta_organizationId a)),
       (''organization'', jOpt (\<lambda>g. JObj [(''id'', JId (og_id g)), (''active'', JBool (og_isActive g)),
          (''updatedAt'', JDate (og_updatedAt g))]) (snd e))])"

definition rosterFingerprint :: "(jval \<Rightarrow> string) \<Rightarrow> roster_entry list \<Rightarrow> string" where
  "rosterFingerprint sha256 entries = sha256 (JList (map entryJson (sort_key entryId entries)))"

definition byId :: "roster_entry list \<Rightarrow> uuid \<Rightarrow> roster_entry option" where
  "byId entries a = map_of (rev (map (\<lambda>e. (entryId e, e)) entries)) a"

section \<open>Guards shared by setup and preview\<close>

definition currentBracket :: "uuid \<Rightarrow> uuid \<Rightarrow> db \<Rightarrow> bracket_row option" where
  "currentBracket tid wid d = List.find (\<lambda>b. b_tournamentId b = tid \<and> b_weightClassId b = wid \<and>
     b_status b \<in> {B_ACTIVE, B_COMPLETED}) (brackets d)"

definition assertDrawable :: "uuid \<Rightarrow> uuid \<Rightarrow> db \<Rightarrow> draw_error + unit" where
  "assertDrawable tid wid d =
     bindR (orThrow (List.find (\<lambda>t. t_id t = tid \<and> t_softDeletedAt t = None) (tournaments d))
              DrawTournamentNotFound) (\<lambda>t.
     if t_status t = T_ARCHIVED then Inl DrawTournamentArchived
     else if \<not> weightClassActive tid wid d then Inl WeightClassNotFound
     else case resolve (t_sportGroupCode t) of
         Inl _ \<Rightarrow> Inl BracketSportGroupUnsupported
       | Inr rules \<Rightarrow>
           if length (sr_athleteColors rules) \<noteq> 2 then Inl BracketSportGroupUnsupported
           else if currentBracket tid wid d \<noteq> None then Inl BracketAlreadyExists
           else if length (eligibleAthletes tid wid d) < 2 then Inl BracketInsufficientAthletes
           else Inr ())"

section \<open>Signed tokens\<close>

datatype bye_strategy = RANDOM | MANUAL | SEEDED

record setup_claims =
  sc_version :: int
  sc_tournamentId :: uuid
  sc_weightClassId :: uuid
  sc_rosterFingerprint :: string
  sc_summary :: bracket_summary
  sc_issuedAt :: int
  sc_expiresAt :: int
  sc_nonce :: string

record preview_claims =
  pc_version :: int
  pc_tournamentId :: uuid
  pc_weightClassId :: uuid
  pc_placements :: "placement list"
  pc_designatedByeAthleteIds :: "uuid list"
  pc_byeStrategy :: bye_strategy
  pc_rosterFingerprint :: string
  pc_issuedAt :: int
  pc_expiresAt :: int
  pc_nonce :: string

text \<open>The codec: base64url of the JSON text of claims with its reading (None when the text is
  not the JSON of claims of the right shape), the HMAC under the secret, and SHA-256.\<close>

record codec =
  tc_writeSetup :: "setup_claims \<Rightarrow> string"
  tc_readSetup :: "string \<Rightarrow> setup_claims option"
  tc_writePreview :: "preview_claims \<Rightarrow> string"
  tc_readPreview :: "string \<Rightarrow> preview_claims option"
  tc_hmac :: "string \<Rightarrow> string"
  tc_sha256 :: "jval \<Rightarrow> string"

definition TOKEN_VERSION :: int where
  "TOKEN_VERSION = 1"

definition TOKEN_TTL_SECONDS :: int where
  "TOKEN_TTL_SECONDS = 5 * 60"

text \<open>\<open>token.split('.')\<close>.\<close>

fun splitDots :: "string \<Rightarrow> string list" where
  "splitDots [] = [[]]"
| "splitDots (c # cs) = (if c = CHR ''.'' then [] # splitDots cs
     else case splitDots cs of [] \<Rightarrow> [[c]] | p # ps \<Rightarrow> (c # p) # ps)"

definition openToken :: "codec \<Rightarrow> string \<Rightarrow> string option" where
  "openToken cd token = (case splitDots token of
       [payload, signature] \<Rightarrow>
         (if payload = [] \<or> signature = [] \<or> signature \<noteq> tc_hmac cd payload then None else Some payload)
     | _ \<Rightarrow> None)"

definition sealToken :: "codec \<Rightarrow> string \<Rightarrow> string" where
  "sealToken cd payload = payload @ ''.'' @ tc_hmac cd payload"

definition isHex64 :: "string \<Rightarrow> bool" where
  "isHex64 s \<longleftrightarrow> length s = 64 \<and> list_all (\<lambda>c. c \<in> set ''0123456789abcdefABCDEF'') s"

definition safeInteger :: "int \<Rightarrow> bool" where
  "safeInteger n \<longleftrightarrow> - (2 ^ 53) < n \<and> n < 2 ^ 53"

definition floorSeconds :: "time \<Rightarrow> int" where
  "floorSeconds now = now div 1000"

definition issueSetup ::
  "codec \<Rightarrow> uuid \<Rightarrow> uuid \<Rightarrow> string \<Rightarrow> bracket_summary \<Rightarrow> time \<Rightarrow> string \<Rightarrow> string \<times> int" where
  "issueSetup cd tid wid fp summary now nonce =
     (let issuedAt = floorSeconds now; expiresAt = issuedAt + TOKEN_TTL_SECONDS in
      (sealToken cd (tc_writeSetup cd \<lparr> sc_version = TOKEN_VERSION, sc_tournamentId = tid, sc_weightClassId = wid,
         sc_rosterFingerprint = fp, sc_summary = summary, sc_issuedAt = issuedAt, sc_expiresAt = expiresAt,
         sc_nonce = nonce \<rparr>), expiresAt * 1000))"

definition verifySetup ::
  "codec \<Rightarrow> string \<Rightarrow> uuid \<Rightarrow> uuid \<Rightarrow> string \<Rightarrow> time \<Rightarrow> draw_error + setup_claims" where
  "verifySetup cd token tid wid fp now =
     bindR (orThrow (openToken cd token) BracketDrawSetupInvalid) (\<lambda>payload.
     bindR (orThrow (tc_readSetup cd payload) BracketDrawSetupInvalid) (\<lambda>c.
     let s = sc_summary c in
     if sc_version c \<noteq> TOKEN_VERSION \<or> sc_tournamentId c \<noteq> tid \<or> sc_weightClassId c \<noteq> wid \<or>
        sc_rosterFingerprint c \<noteq> fp \<or> \<not> isHex64 (sc_rosterFingerprint c) \<or> sc_nonce c = [] \<or>
        \<not> safeInteger (sc_issuedAt c) \<or> \<not> safeInteger (sc_expiresAt c) \<or>
        \<not> list_all (\<lambda>n. safeInteger (int n)) [bs_athleteCount s, bs_bracketSize s, bs_roundCount s,
            bs_totalFixtureCount s, bs_firstRoundFixtureCount s, bs_byeCount s]
     then Inl BracketDrawSetupInvalid
     else if sc_issuedAt c > floorSeconds now \<or> sc_expiresAt c \<le> sc_issuedAt c \<or>
        sc_expiresAt c - sc_issuedAt c > TOKEN_TTL_SECONDS
     then Inl BracketDrawSetupInvalid
     else if sc_expiresAt c \<le> floorSeconds now then Inl BracketDrawSetupExpired
     else Inr c))"

definition issuePreview ::
  "codec \<Rightarrow> uuid \<Rightarrow> uuid \<Rightarrow> placement list \<Rightarrow> string \<Rightarrow> uuid list \<Rightarrow> bye_strategy \<Rightarrow> time \<Rightarrow> string
   \<Rightarrow> string \<times> int" where
  "issuePreview cd tid wid ps fp designated strategy now nonce =
     (let issuedAt = floorSeconds now; expiresAt = issuedAt + TOKEN_TTL_SECONDS in
      (sealToken cd (tc_writePreview cd \<lparr> pc_version = TOKEN_VERSION, pc_tournamentId = tid,
         pc_weightClassId = wid, pc_placements = ps, pc_designatedByeAthleteIds = designated,
         pc_byeStrategy = strategy, pc_rosterFingerprint = fp, pc_issuedAt = issuedAt,
         pc_expiresAt = expiresAt, pc_nonce = nonce \<rparr>), expiresAt * 1000))"

definition verifyPreview :: "codec \<Rightarrow> string \<Rightarrow> uuid \<Rightarrow> uuid \<Rightarrow> time \<Rightarrow> draw_error + preview_claims" where
  "verifyPreview cd token tid wid now =
     bindR (orThrow (openToken cd token) BracketPreviewInvalid) (\<lambda>payload.
     bindR (orThrow (tc_readPreview cd payload) BracketPreviewInvalid) (\<lambda>c.
     if pc_version c \<noteq> TOKEN_VERSION \<or> pc_tournamentId c \<noteq> tid \<or> pc_weightClassId c \<noteq> wid \<or>
        \<not> safeInteger (pc_issuedAt c) \<or> \<not> safeInteger (pc_expiresAt c)
     then Inl BracketPreviewInvalid
     else if pc_issuedAt c > floorSeconds now \<or> pc_expiresAt c \<le> pc_issuedAt c \<or>
        pc_expiresAt c - pc_issuedAt c > TOKEN_TTL_SECONDS \<or> \<not> isHex64 (pc_rosterFingerprint c) \<or>
        pc_nonce c = [] \<or>
        \<not> list_all (\<lambda>p. safeInteger (int (pl_drawPosition p)) \<and> pl_drawPosition p > 0) (pc_placements c) \<or>
        \<not> distinct (pc_designatedByeAthleteIds c)
     then Inl BracketPreviewInvalid
     else if pc_expiresAt c \<le> floorSeconds now then Inl BracketPreviewExpired
     else Inr c))"

section \<open>Setup\<close>

record draw_setup =
  ds_setupToken :: string
  ds_expiresAt :: int
  ds_summary :: bracket_summary
  ds_eligibleAthletes :: "(uuid \<times> string \<times> bool \<times> string option \<times> string option) list"

definition imageUrl :: "athlete_row \<Rightarrow> string option" where
  "imageUrl a = (case ta_imagePath a of None \<Rightarrow> None
     | Some path \<Rightarrow> if path = [] then None else Some (''/api/media/'' @ path))"

definition drawSetup ::
  "codec \<Rightarrow> uuid \<Rightarrow> uuid \<Rightarrow> time \<Rightarrow> string \<Rightarrow> db \<Rightarrow> draw_error + draw_setup" where
  "drawSetup cd tid wid now nonce d =
     bindR (assertDrawable tid wid d) (\<lambda>_.
     let athletes = eligibleAthletes tid wid d in
     case summarizeBracket (length athletes) of
       Inl _ \<Rightarrow> Inl BracketAthleteLimitExceeded
     | Inr summary \<Rightarrow>
         let (token, expiresAt) = issueSetup cd tid wid (rosterFingerprint (tc_sha256 cd) athletes) summary now nonce in
         Inr \<lparr> ds_setupToken = token, ds_expiresAt = expiresAt, ds_summary = summary,
           ds_eligibleAthletes = map (\<lambda>(a, g). (ta_id a, ta_name a, ta_isSeed a, map_option og_name g, imageUrl a))
             athletes \<rparr>)"

section \<open>Preview\<close>

definition assertStrategySelection ::
  "bye_strategy \<Rightarrow> uuid list \<Rightarrow> roster_entry list \<Rightarrow> int \<Rightarrow> draw_error + unit" where
  "assertStrategySelection strategy ids athletes byeCount =
     (if strategy = RANDOM then (if ids \<noteq> [] then Inl BracketByeStrategyInvalid else Inr ())
      else if strategy \<noteq> SEEDED then Inr ()
      else if int (length ids) \<noteq> byeCount then Inl BracketSeededByeSelectionInvalid
      else
        let seeds = map entryId (filter (\<lambda>e. ta_isSeed (fst e)) athletes) in
        if int (length seeds) \<ge> byeCount
        then (if \<exists>a \<in> set ids. a \<notin> set seeds then Inl BracketSeededByeSelectionInvalid else Inr ())
        else if \<exists>a \<in> set seeds. a \<notin> set ids then Inl BracketSeededByeSelectionInvalid
        else Inr ())"

record athlete_snapshot =
  sn_id :: uuid
  sn_name :: string
  sn_birthYear :: int
  sn_organizationName :: "string option"
  sn_imageUrl :: "string option"
  sn_isSeed :: bool

definition snapshot :: "roster_entry \<Rightarrow> athlete_snapshot" where
  "snapshot e = \<lparr> sn_id = entryId e, sn_name = ta_name (fst e), sn_birthYear = ta_birthYear (fst e),
     sn_organizationName = map_option og_name (snd e), sn_imageUrl = imageUrl (fst e),
     sn_isSeed = ta_isSeed (fst e) \<rparr>"

fun mapR :: "('a \<Rightarrow> 'e + 'b) \<Rightarrow> 'a list \<Rightarrow> 'e + 'b list" where
  "mapR f [] = Inr []"
| "mapR f (x # xs) = bindR (f x) (\<lambda>y. bindR (mapR f xs) (\<lambda>ys. Inr (y # ys)))"

definition placementView ::
  "roster_entry list \<Rightarrow> placement \<Rightarrow> draw_error + (placement \<times> athlete_snapshot option \<times> bool)" where
  "placementView athletes p = (case pl_athleteId p of
       None \<Rightarrow> Inr (p, None, True)
     | Some a \<Rightarrow> bindR (orThrow (byId athletes a) DrawRuntimeError) (\<lambda>e. Inr (p, Some (snapshot e), False)))"

record preview_input =
  pi_setupToken :: string
  pi_designatedByeAthleteIds :: "uuid list"
  pi_byeStrategy :: "bye_strategy option"

record preview_result =
  pv_previewToken :: string
  pv_expiresAt :: int
  pv_rosterFingerprint :: string
  pv_summary :: bracket_summary
  pv_initialEntrants :: "(placement \<times> athlete_snapshot option \<times> bool) list"
  pv_rounds :: "bracket_round list"
  pv_fixtures :: "fixture list"

definition unexpected :: "bracket_error + 'a \<Rightarrow> draw_error + 'a" where
  "unexpected r = (case r of Inl e \<Rightarrow> Inl (DrawUnexpected e) | Inr x \<Rightarrow> Inr x)"

definition previewAnswer ::
  "codec \<Rightarrow> uuid \<Rightarrow> uuid \<Rightarrow> roster_entry list \<Rightarrow> placement list \<Rightarrow> string \<Rightarrow> uuid list \<Rightarrow> bye_strategy \<Rightarrow>
   generated_bracket \<Rightarrow> time \<Rightarrow> string \<Rightarrow> draw_error + preview_result" where
  "previewAnswer cd tid wid athletes ps fp designated strategy g now nonce =
     bindR (mapR (placementView athletes) (gb_initialEntrants g)) (\<lambda>entrants.
     bindR (unexpected (summarizeBracket (gb_athleteCount g))) (\<lambda>summary.
     let (token, expiresAt) = issuePreview cd tid wid ps fp designated strategy now nonce in
     Inr \<lparr> pv_previewToken = token, pv_expiresAt = expiresAt, pv_rosterFingerprint = fp, pv_summary = summary,
       pv_initialEntrants = entrants, pv_rounds = gb_rounds g, pv_fixtures = gb_fixtures g \<rparr>))"

definition preview ::
  "codec \<Rightarrow> random_source \<Rightarrow> uuid \<Rightarrow> uuid \<Rightarrow> preview_input \<Rightarrow> time \<Rightarrow> string \<Rightarrow> db \<Rightarrow> draw_error + preview_result" where
  "preview cd rs tid wid input now nonce d =
     bindR (assertDrawable tid wid d) (\<lambda>_.
     let athletes = eligibleAthletes tid wid d; designated = pi_designatedByeAthleteIds input in
     if length athletes > MAX_BRACKET_ATHLETES then Inl BracketAthleteLimitExceeded
     else
       let fp = rosterFingerprint (tc_sha256 cd) athletes in
       bindR (verifySetup cd (pi_setupToken input) tid wid fp now) (\<lambda>_.
       bindR (unexpected (summarizeBracket (length athletes))) (\<lambda>summary.
       if \<exists>a \<in> set designated. a \<notin> entryId ` set athletes then Inl BracketByeAthleteIneligible
       else if length designated > bs_byeCount summary then Inl BracketByeSelectionExcessive
       else
         let strategy = (case pi_byeStrategy input of Some s \<Rightarrow> s
                         | None \<Rightarrow> if designated = [] then RANDOM else MANUAL) in
         bindR (assertStrategySelection strategy designated athletes (int (bs_byeCount summary))) (\<lambda>_.
         bindR (unexpected (generateSingleEliminationBracket rs \<lparr> gi_athleteIds = map entryId athletes,
                  gi_designatedByeAthleteIds = designated, gi_maxAthletes = Some (int MAX_BRACKET_ATHLETES) \<rparr>)) (\<lambda>g.
         previewAnswer cd tid wid athletes (gb_initialEntrants g) fp (sort designated) strategy g now nonce)))))"

section \<open>Swapping two athletes of a preview\<close>

fun findIndex :: "('a \<Rightarrow> bool) \<Rightarrow> 'a list \<Rightarrow> nat option" where
  "findIndex p [] = None"
| "findIndex p (x # xs) = (if p x then Some 0 else map_option Suc (findIndex p xs))"

definition swapAthletes :: "nat \<Rightarrow> nat \<Rightarrow> placement list \<Rightarrow> placement list" where
  "swapAthletes i j ps = ps[i := (ps ! i)\<lparr>pl_athleteId := pl_athleteId (ps ! j)\<rparr>,
                            j := (ps ! j)\<lparr>pl_athleteId := pl_athleteId (ps ! i)\<rparr>]"

record swap_input =
  si_previewToken :: string
  si_athleteId :: uuid
  si_swapWithAthleteId :: uuid

definition swap ::
  "codec \<Rightarrow> uuid \<Rightarrow> uuid \<Rightarrow> swap_input \<Rightarrow> time \<Rightarrow> string \<Rightarrow> db \<Rightarrow> draw_error + preview_result" where
  "swap cd tid wid input now nonce d =
     bindR (verifyPreview cd (si_previewToken input) tid wid now) (\<lambda>c.
     let a = si_athleteId input; b = si_swapWithAthleteId input in
     if a = b then Inl BracketSwapInvalid
     else if currentBracket tid wid d \<noteq> None then Inl BracketAlreadyExists
     else
       let athletes = eligibleAthletes tid wid d in
       if rosterFingerprint (tc_sha256 cd) athletes \<noteq> pc_rosterFingerprint c then Inl BracketRosterChanged
       else case (findIndex (\<lambda>p. pl_athleteId p = Some a) (pc_placements c),
                  findIndex (\<lambda>p. pl_athleteId p = Some b) (pc_placements c)) of
         (Some i, Some j) \<Rightarrow>
           if a \<notin> entryId ` set athletes \<or> b \<notin> entryId ` set athletes then Inl BracketSwapIneligible
           else
             let ps = swapAthletes i j (pc_placements c) in
             (case buildSingleEliminationBracket ps of
                Inl _ \<Rightarrow> Inl BracketGraphInvalid
              | Inr g \<Rightarrow> previewAnswer cd tid wid athletes ps (pc_rosterFingerprint c)
                  (pc_designatedByeAthleteIds c) (pc_byeStrategy c) g now nonce)
       | _ \<Rightarrow> Inl BracketSwapIneligible)"

section \<open>Texts with dots\<close>

lemma splitDots_plain: "CHR ''.'' \<notin> set p \<Longrightarrow> splitDots p = [p]"
  by (induction p) auto

lemma splitDots_join: "CHR ''.'' \<notin> set p \<Longrightarrow> splitDots (p @ CHR ''.'' # q) = p # splitDots q"
  by (induction p) auto

end
