(* ===== verification/Session_Table.thy ===== *)
theory Session_Table
  imports Prelude
begin

text \<open>
  The contract of a table of login sessions: a credential owns at most one open session, a session is
  opened by one insert and never opened again. The two access services provide it, one per match access
  code and one per tournament official; their runs are reasoned about here once.
\<close>

lemma find_only:
  assumes "x \<in> set xs" "p x" "\<And>y. y \<in> set xs \<Longrightarrow> p y \<Longrightarrow> y = x"
  shows "List.find p xs = Some x"
proof -
  obtain y where y: "List.find p xs = Some y" using assms(1,2) find_Some_iff_ex [of p xs] by blast
  with assms(3) [of y] find_SomeD [OF y] show ?thesis by simp
qed

locale session_table =
  fixes ident :: "'r \<Rightarrow> uuid"
    and owner :: "'r \<Rightarrow> uuid"
    and token :: "'r \<Rightarrow> string"
    and isOpen :: "'r \<Rightarrow> bool"
    and deactivate :: "time \<Rightarrow> 'r \<Rightarrow> 'r"
    and close :: "time \<Rightarrow> 'r \<Rightarrow> 'r"
    and touch :: "time \<Rightarrow> 'r \<Rightarrow> 'r"
    and conflict :: "'r \<Rightarrow> 'r \<Rightarrow> bool"
  assumes keys: "f \<in> {deactivate t, close t, touch t} \<Longrightarrow> ident (f r) = ident r \<and> owner (f r) = owner r \<and> token (f r) = token r"
    and closed: "f \<in> {deactivate t, close t} \<Longrightarrow> \<not> isOpen (f r)"
    and touched: "isOpen (touch t r) = isOpen r"
    and conflict_iff: "conflict a b \<longleftrightarrow>
      ident a = ident b \<or> token a = token b \<or> (isOpen a \<and> isOpen b \<and> owner a = owner b)"
begin

definition evolves :: "'r \<Rightarrow> 'r \<Rightarrow> bool" where
  "evolves r r' \<longleftrightarrow> ident r' = ident r \<and> owner r' = owner r \<and> token r' = token r \<and> (isOpen r' \<longrightarrow> isOpen r)"

text \<open>The table after some operations: the old rows in place, perhaps closed, then new rows.\<close>

definition later :: "'r list \<Rightarrow> 'r list \<Rightarrow> bool" where
  "later rows rows' \<longleftrightarrow> (\<exists>old new. rows' = old @ new \<and> list_all2 evolves rows old)"

definition exclusive :: "'r list \<Rightarrow> bool" where
  "exclusive rows \<longleftrightarrow> distinct (map ident rows) \<and> distinct (map token rows) \<and> distinct (map owner (filter isOpen rows))"

lemma evolves_refl [simp]: "evolves r r"
  by (simp add: evolves_def)

lemma evolves_trans: "evolves a b \<Longrightarrow> evolves b c \<Longrightarrow> evolves a c"
  by (auto simp: evolves_def)

lemma evolves_operation:
  "f \<in> {deactivate t, close t, touch t} \<Longrightarrow> evolves r (f r)"
  using keys [of f t r] closed [of f t r] touched [of t r] by (auto simp: evolves_def)

lemma later_refl [simp]: "later rows rows"
  by (auto simp: later_def list_all2_same intro: exI [of _ rows])

lemma later_trans: "later a b \<Longrightarrow> later b c \<Longrightarrow> later a c"
proof -
  assume "later a b" "later b c"
  then obtain ob nb oc nc where b: "b = ob @ nb" "list_all2 evolves a ob" and c: "c = oc @ nc" "list_all2 evolves b oc"
    unfolding later_def by blast
  from c(2) b(1) obtain x y where "oc = x @ y" "list_all2 evolves ob x"
    by (auto simp: list_all2_append1)
  moreover have "list_all2 evolves a x"
    using b(2) \<open>list_all2 evolves ob x\<close> by (rule list_all2_trans [rotated, where ?P1.0 = evolves]) (blast intro: evolves_trans)
  ultimately show "later a c" using c(1) unfolding later_def by (metis append.assoc)
qed

lemma later_update:
  assumes "\<And>r. evolves r (f r)"
  shows "later rows (updWhere p f rows)"
proof -
  have "list_all2 evolves rows (updWhere p f rows)"
    using assms by (induction rows) auto
  then show ?thesis by (auto simp: later_def)
qed

lemma later_append [simp]: "later rows (rows @ new)"
  by (auto simp: later_def list_all2_same)

lemma exclusive_update:
  assumes "\<And>r. evolves r (f r)" and "exclusive rows"
  shows "exclusive (updWhere p f rows)"
proof -
  have same: "map ident (updWhere p f rows) = map ident rows" "map token (updWhere p f rows) = map token rows"
    using assms(1) by (induction rows) (auto simp: evolves_def)
  have sub: "set (map owner (filter isOpen (updWhere p f rows))) \<subseteq> set (map owner (filter isOpen rows))" for rows
    using assms(1) by (induction rows) (auto simp: evolves_def)
  have "distinct (map owner (filter isOpen rows)) \<Longrightarrow> distinct (map owner (filter isOpen (updWhere p f rows)))"
  proof (induction rows)
    case (Cons r rows)
    have "owner (f r) = owner r" "isOpen (f r) \<Longrightarrow> isOpen r" using assms(1) [of r] by (auto simp: evolves_def)
    with Cons sub [of rows] show ?case by (auto split: if_splits)
  qed simp
  with assms(2) same show ?thesis by (simp add: exclusive_def)
qed

lemma exclusive_insert:
  assumes "exclusive rows" and "\<not> (\<exists>x \<in> set rows. conflict x r)"
  shows "exclusive (rows @ [r])"
  using assms by (auto simp: exclusive_def conflict_iff image_iff)

lemma exclusive_owner:
  assumes "exclusive rows" "r \<in> set rows" "s \<in> set rows" "isOpen r" "isOpen s" "owner r = owner s"
  shows "r = s"
  using assms by (auto simp: exclusive_def distinct_map dest: inj_onD)

lemma exclusive_token:
  "exclusive rows \<Longrightarrow> r \<in> set rows \<Longrightarrow> s \<in> set rows \<Longrightarrow> token r = token s \<Longrightarrow> r = s"
  by (auto simp: exclusive_def distinct_map dest: inj_onD)

lemma exclusive_ident:
  "exclusive rows \<Longrightarrow> r \<in> set rows \<Longrightarrow> s \<in> set rows \<Longrightarrow> ident r = ident s \<Longrightarrow> r = s"
  by (auto simp: exclusive_def distinct_map dest: inj_onD)

lemma later_row:
  assumes "later rows rows'" "r \<in> set rows"
  obtains r' where "r' \<in> set rows'" "evolves r r'"
  using assms unfolding later_def by (metis Un_iff in_set_conv_nth list_all2_conv_all_nth set_append)

text \<open>A session that is closed, or whose token belongs to a closed session, is never open again.\<close>

lemma closed_stays_closed:
  assumes "exclusive rows'" "later rows rows'" "r \<in> set rows" "\<not> isOpen r" "r' \<in> set rows'" "token r' = token r"
  shows "\<not> isOpen r'"
proof -
  obtain s where s: "s \<in> set rows'" "evolves r s" using later_row [OF assms(2,3)] .
  have "s = r'" using exclusive_token [OF assms(1) s(1) assms(5)] s(2) assms(6) by (auto simp: evolves_def)
  with s(2) assms(4) show ?thesis by (auto simp: evolves_def)
qed

text \<open>What one operation may do to the table.\<close>

definition sound :: "'r list \<Rightarrow> 'r list \<Rightarrow> bool" where
  "sound rows rows' \<longleftrightarrow> later rows rows' \<and> (exclusive rows \<longrightarrow> exclusive rows')"

lemma sound_refl [simp]: "sound rows rows"
  by (simp add: sound_def)

lemma sound_trans: "sound a b \<Longrightarrow> sound b c \<Longrightarrow> sound a c"
  by (auto simp: sound_def intro: later_trans)

lemma sound_update:
  "sound rows (updWhere p (deactivate t) rows)" "sound rows (updWhere p (close t) rows)" "sound rows (updWhere p (touch t) rows)"
  by (auto simp: sound_def intro!: later_update exclusive_update evolves_operation [of _ t])

lemma sound_insert: "\<not> (\<exists>x \<in> set rows. conflict x r) \<Longrightarrow> sound rows (rows @ [r])"
  by (simp add: sound_def exclusive_insert)

end

end
