(* ===== verification/Access_Common.thy ===== *)
theory Access_Common
  imports Bracket_Preview Session_Table
begin

text \<open>
  What the two access services (\<open>match-access\<close>, \<open>official-access\<close>) share: the counters of
  \<open>redis/redis.service.ts\<close>, the cryptography they are given, signed tokens, and the table of sessions
  of which a credential owns one at a time.

  Cryptography is a parameter: bcrypt's comparison, the HMAC of a secret and a text, base64url and
  hexadecimal printing, and the JSON text of the three payloads with its reading (None when the text is
  not JSON of the right types). Random values (tokens, nonces, identifiers) are arguments.
\<close>

section \<open>Redis counters\<close>

text \<open>A key holds a number and, once \<open>EXPIRE\<close> ran, the time in milliseconds it vanishes.\<close>

type_synonym redis = "string \<Rightarrow> (int \<times> time option) option"

definition redisEntry :: "time \<Rightarrow> string \<Rightarrow> redis \<Rightarrow> (int \<times> time option) option" where
  "redisEntry now key r = (case r key of
       Some (n, Some t) \<Rightarrow> if t \<le> now then None else Some (n, Some t)
     | e \<Rightarrow> e)"

definition redisGet :: "time \<Rightarrow> string \<Rightarrow> redis \<Rightarrow> int option" where
  "redisGet now key r = map_option fst (redisEntry now key r)"

text \<open>The script increments the key and starts its expiry at the first count; the service throws on an
  answer that is no positive safe integer (None).\<close>

definition incrementWithExpiry :: "string \<Rightarrow> int \<Rightarrow> time \<Rightarrow> redis \<Rightarrow> int option \<times> redis" where
  "incrementWithExpiry key ttlSeconds now r =
     (let (old, expiry) = (case redisEntry now key r of None \<Rightarrow> (0, None) | Some e \<Rightarrow> e);
          count = old + 1;
          expiry' = (if count = 1 then Some (now + ttlSeconds * 1000) else expiry) in
      (if \<not> safeInteger count \<or> count < 1 then None else Some count, r(key \<mapsto> (count, expiry'))))"

definition incrementByWithExpiry :: "string \<Rightarrow> int \<Rightarrow> int \<Rightarrow> time \<Rightarrow> redis \<Rightarrow> int option \<times> redis" where
  "incrementByWithExpiry key increment ttlSeconds now r =
     (let (old, expiry) = (case redisEntry now key r of None \<Rightarrow> (0, None) | Some e \<Rightarrow> e);
          count = old + increment in
      if count \<le> 0 then (Some 0, r(key := None))
      else
        (if safeInteger count then Some count else None,
         r(key \<mapsto> (count, if count = 1 \<and> increment = 1 then Some (now + ttlSeconds * 1000) else expiry))))"

definition setWithExpiry :: "string \<Rightarrow> int \<Rightarrow> int \<Rightarrow> time \<Rightarrow> redis \<Rightarrow> redis" where
  "setWithExpiry key v ttlSeconds now r = r(key \<mapsto> (v, Some (now + ttlSeconds * 1000)))"

definition redisDelete :: "string \<Rightarrow> redis \<Rightarrow> redis" where
  "redisDelete key r = r(key := None)"

section \<open>Cryptography and signed tokens\<close>

record takeover_payload =
  tp_accessCodeId :: uuid
  tp_deviceId :: string
  tp_expiresAt :: int
  tp_matchId :: uuid
  tp_matchPublicId :: string
  tp_nonce :: string
  tp_observedSessionId :: uuid
  tp_version :: int

record official_challenge =
  oc_version :: int
  oc_observedSessionId :: uuid
  oc_officialId :: uuid
  oc_deviceId :: string
  oc_expiresAt :: int
  oc_nonce :: string

record link_payload =
  lp_officialId :: uuid
  lp_tournamentId :: uuid
  lp_expiresAt :: int
  lp_credential :: string
  lp_nonce :: string

record access_crypto =
  cy_compare :: "string \<Rightarrow> string \<Rightarrow> bool"
  cy_hmac :: "string \<Rightarrow> string \<Rightarrow> string"
  cy_hex :: "string \<Rightarrow> string"
  cy_toBase64url :: "string \<Rightarrow> string"
  cy_fromBase64url :: "string \<Rightarrow> string"
  cy_writeTakeover :: "takeover_payload \<Rightarrow> string"
  cy_readTakeover :: "string \<Rightarrow> takeover_payload option"
  cy_writeChallenge :: "official_challenge \<Rightarrow> string"
  cy_readChallenge :: "string \<Rightarrow> official_challenge option"
  cy_writeLink :: "link_payload \<Rightarrow> string"
  cy_readLink :: "string \<Rightarrow> link_payload option"

definition base64urlAlphabet :: string where
  "base64urlAlphabet = ''ABCDEFGHIJKLMNOPQRSTUVWXYZabcdefghijklmnopqrstuvwxyz0123456789_-''"

definition isBase64url :: "string \<Rightarrow> bool" where
  "isBase64url s \<longleftrightarrow> list_all (\<lambda>c. c \<in> set base64urlAlphabet) s"

definition SESSION_TOKEN_PATTERN :: "string \<Rightarrow> bool" where
  "SESSION_TOKEN_PATTERN s \<longleftrightarrow> length s = 43 \<and> isBase64url s"

definition NONCE_PATTERN :: "string \<Rightarrow> bool" where
  "NONCE_PATTERN s \<longleftrightarrow> length s = 22 \<and> isBase64url s"

text \<open>The digest of a name space, a NUL and a value under a secret.\<close>

definition keyed :: "access_crypto \<Rightarrow> string \<Rightarrow> string \<Rightarrow> string \<Rightarrow> string" where
  "keyed cy secret space v = cy_hmac cy secret (space @ [CHR 0x00] @ v)"

definition signed :: "access_crypto \<Rightarrow> string \<Rightarrow> string \<Rightarrow> string \<Rightarrow> string" where
  "signed cy secret space encoded = encoded @ ''.'' @ cy_toBase64url cy (keyed cy secret space encoded)"

definition BCRYPT_MAX_INPUT_BYTES :: nat where
  "BCRYPT_MAX_INPUT_BYTES = 72"

definition CHALLENGE_TTL_SECONDS :: int where
  "CHALLENGE_TTL_SECONDS = 2 * 60"

section \<open>State and results\<close>

datatype access_error =
    InvalidDeviceId | AccessRateLimited | InvalidCredentials | InvalidTakeover
  | SessionAlreadyActive string | AccessUniqueViolation | RedisInvalidCounter | LegacyAccessDisabled
  | SessionRequired | InMatchLogoutForbidden | SessionMissingExpiry | AccessRecordMissing

record access_config =
  cf_legacyAccessEnabled :: bool
  cf_sessionSecret :: string
  cf_passcodeSecret :: string
  cf_sessionTtlSeconds :: int
  cf_identityLimit :: int
  cf_ipLimit :: int
  cf_windowSeconds :: int

record fresh_values =
  fv_sessionId :: uuid
  fv_token :: string
  fv_nonce :: string

type_synonym access_state = "db \<times> redis"

definition sessionExpiry :: "access_config \<Rightarrow> time \<Rightarrow> time" where
  "sessionExpiry cf now = now + cf_sessionTtlSeconds cf * 1000"

text \<open>Two counters per attempt, one for the credential and one for the address; both are incremented
  whatever the other answers.\<close>

definition rateLimit ::
  "access_config \<Rightarrow> string \<Rightarrow> string \<Rightarrow> time \<Rightarrow> redis \<Rightarrow> (access_error + unit) \<times> redis" where
  "rateLimit cf identityKey ipKey now r =
     (let (identityAttempts, r1) = incrementWithExpiry identityKey (cf_windowSeconds cf) now r;
          (ipAttempts, r2) = incrementWithExpiry ipKey (cf_windowSeconds cf) now r1 in
      (case (identityAttempts, ipAttempts) of
         (Some a, Some b) \<Rightarrow> if a > cf_identityLimit cf \<or> b > cf_ipLimit cf then Inl AccessRateLimited else Inr ()
       | _ \<Rightarrow> Inl RedisInvalidCounter,
       r2))"

end
