(* ===== verification/Official_Access.thy ===== *)
theory Official_Access
  imports Access_Common
begin

text \<open>
  Access of tournament officials with a passcode or a login link:
  \<open>official-access/official-access.service.ts\<close>, its controller and its guard, on the same state as
  \<open>Match_Access\<close>. An absent field is None. A session refers to an existing official, an official to an
  existing tournament and an assignment to an existing match (foreign keys); the model throws where the
  joined row is missing.
\<close>

section \<open>Identities\<close>

record active_assignment =
  aa_id :: uuid
  aa_role :: match_role
  aa_judgePosition :: "nat option"
  aa_matchId :: uuid
  aa_matchPublicId :: string
  aa_matchStatus :: match_status

datatype official_status = OFFICIAL_READY | OFFICIAL_IN_MATCH

record official_identity =
  oi_sessionId :: uuid
  oi_deviceId :: string
  oi_expiresAt :: time
  oi_officialId :: uuid
  oi_tournamentId :: uuid
  oi_name :: string
  oi_role :: match_role
  oi_tournamentCode :: string
  oi_tournamentName :: string
  oi_activeAssignment :: "active_assignment option"
  oi_status :: official_status

definition getOfficial :: "uuid \<Rightarrow> db \<Rightarrow> official_row option" where
  "getOfficial oid d = List.find (\<lambda>x. of_id x = oid) (officials d)"

definition getTournament :: "uuid \<Rightarrow> db \<Rightarrow> tournament_row option" where
  "getTournament tid d = List.find (\<lambda>t. t_id t = tid) (tournaments d)"

definition activeAssignmentOf :: "uuid \<Rightarrow> db \<Rightarrow> access_error + active_assignment option" where
  "activeAssignmentOf oid d =
     (case List.find (\<lambda>a. as_officialId a = oid \<and> as_releasedAt a = None) (assignments d) of
        None \<Rightarrow> Inr None
      | Some a \<Rightarrow>
          bindR (orThrow (getMatch (as_matchId a) d) AccessRecordMissing) (\<lambda>m.
          Inr (Some \<lparr> aa_id = as_id a, aa_role = as_role a, aa_judgePosition = as_judgePosition a,
            aa_matchId = m_id m, aa_matchPublicId = m_publicId m, aa_matchStatus = m_status m \<rparr>)))"

definition presentSession :: "official_session_row \<Rightarrow> db \<Rightarrow> access_error + official_identity" where
  "presentSession s d =
     bindR (orThrow (getOfficial (os_officialId s) d) AccessRecordMissing) (\<lambda>x.
     bindR (orThrow (getTournament (of_tournamentId x) d) AccessRecordMissing) (\<lambda>t.
     bindR (activeAssignmentOf (of_id x) d) (\<lambda>a.
     bindR (orThrow (os_expiresAt s) SessionMissingExpiry) (\<lambda>expiresAt.
     Inr \<lparr> oi_sessionId = os_id s, oi_deviceId = os_deviceId s, oi_expiresAt = expiresAt, oi_officialId = of_id x,
       oi_tournamentId = t_id t, oi_name = of_name x, oi_role = of_role x, oi_tournamentCode = t_publicCode t,
       oi_tournamentName = t_name t, oi_activeAssignment = a,
       oi_status = (if a = None then OFFICIAL_READY else OFFICIAL_IN_MATCH) \<rparr>))))"

section \<open>Credentials\<close>

record official_credentials =
  cr_tournamentId :: uuid
  cr_officialId :: uuid
  cr_passcodeHash :: string
  cr_role :: match_role
  cr_tournamentCode :: string

record official_input =
  on_code :: string
  on_passcode :: string
  on_deviceId :: string

definition normalizeOfficialInput :: "string \<Rightarrow> string \<Rightarrow> string \<Rightarrow> access_error + official_input" where
  "normalizeOfficialInput code passcode deviceId =
     (if trim deviceId = [] then Inl InvalidCredentials
      else Inr \<lparr> on_code = toUpper (trim code), on_passcode = trim passcode, on_deviceId = trim deviceId \<rparr>)"

definition officialRedisKey :: "access_config \<Rightarrow> access_crypto \<Rightarrow> string \<Rightarrow> string \<Rightarrow> string" where
  "officialRedisKey cf cy space v =
     ''official-access:'' @ space @ '':'' @ cy_toBase64url cy (keyed cy (cf_sessionSecret cf) space v)"

definition officialRateLimit ::
  "access_config \<Rightarrow> access_crypto \<Rightarrow> string \<Rightarrow> string \<Rightarrow> string \<Rightarrow> time \<Rightarrow> redis \<Rightarrow> (access_error + unit) \<times> redis" where
  "officialRateLimit cf cy code passcode ip now r =
     rateLimit cf (officialRedisKey cf cy ''identity'' (code @ [CHR 0x00] @ passcode))
       (officialRedisKey cf cy ''ip'' (if trim ip = [] then ''unknown'' else trim ip)) now r"

definition tournamentOpenForOfficials :: "uuid \<Rightarrow> db \<Rightarrow> bool" where
  "tournamentOpenForOfficials tid d \<longleftrightarrow>
     (\<exists>t \<in> set (tournaments d). t_id t = tid \<and> t_softDeletedAt t = None \<and> t_status t \<noteq> T_ARCHIVED)"

definition passcodeDigest :: "access_config \<Rightarrow> access_crypto \<Rightarrow> string \<Rightarrow> string" where
  "passcodeDigest cf cy passcode = cy_hex cy (cy_hmac cy (cf_passcodeSecret cf) passcode)"

definition comparePasscode :: "access_crypto \<Rightarrow> string \<Rightarrow> string \<Rightarrow> bool" where
  "comparePasscode cy v digest \<longleftrightarrow> byteLength v \<le> BCRYPT_MAX_INPUT_BYTES \<and> cy_compare cy v digest"

definition verifyOfficial ::
  "access_config \<Rightarrow> access_crypto \<Rightarrow> string \<Rightarrow> string \<Rightarrow> match_role option \<Rightarrow> db \<Rightarrow> access_error + official_credentials" where
  "verifyOfficial cf cy code passcode expectedRole d =
     (if byteLength passcode > BCRYPT_MAX_INPUT_BYTES then Inl InvalidCredentials
      else
        bindR (orThrow (List.find (\<lambda>t. t_publicCode t = code \<and> t_softDeletedAt t = None \<and> t_status t \<noteq> T_ARCHIVED)
          (tournaments d)) InvalidCredentials) (\<lambda>t.
        bindR (orThrow (List.find (\<lambda>x. of_tournamentId x = t_id t \<and> of_isActive x \<and>
            of_passcodeLookupDigest x = passcodeDigest cf cy passcode) (officials d)) InvalidCredentials) (\<lambda>x.
        if \<not> comparePasscode cy passcode (of_passcodeHash x) \<or> (expectedRole \<noteq> None \<and> expectedRole \<noteq> Some (of_role x))
        then Inl InvalidCredentials
        else Inr \<lparr> cr_tournamentId = t_id t, cr_officialId = of_id x, cr_passcodeHash = of_passcodeHash x,
          cr_role = of_role x, cr_tournamentCode = code \<rparr>)))"

section \<open>Acquiring the session of an official\<close>

definition officialTokenHash :: "access_config \<Rightarrow> access_crypto \<Rightarrow> string \<Rightarrow> string" where
  "officialTokenHash cf cy token = cy_toBase64url cy (keyed cy (cf_sessionSecret cf) ''official-session-token'' token)"

definition openOfficial :: "uuid \<Rightarrow> uuid \<Rightarrow> db \<Rightarrow> official_row option" where
  "openOfficial oid tid d = List.find (\<lambda>x. of_id x = oid \<and> of_tournamentId x = tid \<and> of_isActive x \<and>
     tournamentOpenForOfficials tid d) (officials d)"

definition officialLive :: "time \<Rightarrow> official_session_row \<Rightarrow> bool" where
  "officialLive now s \<longleftrightarrow> os_active s \<and> os_revokedAt s = None \<and>
     (case os_expiresAt s of None \<Rightarrow> False | Some t \<Rightarrow> now < t)"

definition closeOfficialSession :: "time \<Rightarrow> official_session_row \<Rightarrow> official_session_row" where
  "closeOfficialSession now s = s\<lparr> os_active := False, os_revokedAt := Some now \<rparr>"

definition expiredOfficialSession :: "uuid \<Rightarrow> time \<Rightarrow> official_session_row \<Rightarrow> bool" where
  "expiredOfficialSession oid now s \<longleftrightarrow> os_officialId s = oid \<and> os_active s \<and>
     (case os_expiresAt s of None \<Rightarrow> True | Some t \<Rightarrow> t \<le> now)"

text \<open>The primary key, the token hash, and one active session per official.\<close>

definition officialSessionConflict :: "official_session_row \<Rightarrow> official_session_row \<Rightarrow> bool" where
  "officialSessionConflict a b \<longleftrightarrow> os_id a = os_id b \<or> os_tokenHash a = os_tokenHash b \<or>
     (os_active a \<and> os_active b \<and> os_officialId a = os_officialId b)"

datatype official_acquisition =
    OfficialConflict uuid
  | OfficialCreated official_identity string "uuid option"

definition acquire ::
  "access_config \<Rightarrow> access_crypto \<Rightarrow> fresh_values \<Rightarrow> env \<Rightarrow> official_credentials \<Rightarrow> string option \<Rightarrow> string \<Rightarrow> uuid option \<Rightarrow> db
   \<Rightarrow> access_error + (official_acquisition \<times> db)" where
  "acquire cf cy f e credential passcode deviceId observed d =
     (let now = appNow e; oid = cr_officialId credential in
      bindR (orThrow (openOfficial oid (cr_tournamentId credential) d) InvalidCredentials) (\<lambda>current.
      if (case passcode of
            None \<Rightarrow> of_passcodeHash current \<noteq> cr_passcodeHash credential
          | Some p \<Rightarrow> \<not> comparePasscode cy p (of_passcodeHash current))
      then Inl InvalidCredentials
      else
        let d1 = d\<lparr> officialSessions := updWhere (expiredOfficialSession oid now) (closeOfficialSession now) (officialSessions d) \<rparr>;
            owner = List.find (\<lambda>s. os_officialId s = oid \<and> officialLive now s) (officialSessions d1) in
        if owner \<noteq> None \<and> map_option os_id owner \<noteq> observed
        then Inr (OfficialConflict (os_id (the owner)), d1)
        else
          let d2 = (case owner of
                None \<Rightarrow> d1
              | Some s \<Rightarrow> d1\<lparr> officialSessions := updWhere (\<lambda>x. os_id x = os_id s) (closeOfficialSession now) (officialSessions d1) \<rparr>);
              session = \<lparr> os_id = fv_sessionId f, os_officialId = oid, os_deviceId = deviceId,
                os_tokenHash = officialTokenHash cf cy (fv_token f), os_active = True, os_lastSeenAt = Some now,
                os_expiresAt = Some (sessionExpiry cf now), os_revokedAt = None \<rparr> in
          if \<exists>x \<in> set (officialSessions d2). officialSessionConflict x session then Inl AccessUniqueViolation
          else
            let d3 = d2\<lparr> officialSessions := officialSessions d2 @ [session] \<rparr> in
            bindR (presentSession session d3) (\<lambda>identity.
            Inr (OfficialCreated identity (fv_token f) (map_option os_id owner), d3))))"

section \<open>Challenges and login links\<close>

definition officialChallenge ::
  "access_config \<Rightarrow> access_crypto \<Rightarrow> uuid \<Rightarrow> uuid \<Rightarrow> string \<Rightarrow> string \<Rightarrow> time \<Rightarrow> string" where
  "officialChallenge cf cy observed officialId deviceId nonce now =
     (let payload = \<lparr> oc_version = 1, oc_observedSessionId = observed, oc_officialId = officialId, oc_deviceId = deviceId,
            oc_expiresAt = floorSeconds now + CHALLENGE_TTL_SECONDS, oc_nonce = nonce \<rparr> in
      signed cy (cf_sessionSecret cf) ''official-takeover'' (cy_toBase64url cy (cy_writeChallenge cy payload)))"

definition verifyChallenge :: "access_config \<Rightarrow> access_crypto \<Rightarrow> string \<Rightarrow> time \<Rightarrow> access_error + official_challenge" where
  "verifyChallenge cf cy token now =
     (case splitDots token of
        encoded # signature # _ \<Rightarrow>
          if encoded = [] \<or> signature = [] \<or> length token > 2048 \<or> \<not> isBase64url encoded \<or> \<not> isBase64url signature \<or>
             cy_fromBase64url cy signature \<noteq> keyed cy (cf_sessionSecret cf) ''official-takeover'' encoded
          then Inl InvalidTakeover
          else bindR (orThrow (cy_readChallenge cy (cy_fromBase64url cy encoded)) InvalidTakeover) (\<lambda>c.
            if oc_version c \<noteq> 1 \<or> oc_expiresAt c \<le> floorSeconds now then Inl InvalidTakeover else Inr c)
      | _ \<Rightarrow> Inl InvalidTakeover)"

definition linkSignature :: "access_config \<Rightarrow> access_crypto \<Rightarrow> string \<Rightarrow> string" where
  "linkSignature cf cy v = cy_toBase64url cy (keyed cy (cf_sessionSecret cf) ''official-login-link'' v)"

definition createLoginToken ::
  "access_config \<Rightarrow> access_crypto \<Rightarrow> string \<Rightarrow> uuid \<Rightarrow> uuid \<Rightarrow> time \<Rightarrow> db \<Rightarrow> access_error + (string \<times> match_role \<times> time)" where
  "createLoginToken cf cy nonce tournamentId officialId now d =
     bindR (orThrow (openOfficial officialId tournamentId d) InvalidCredentials) (\<lambda>x.
     let expiresAt = now + 7 * 24 * 60 * 60 * 1000;
         encoded = cy_toBase64url cy (cy_writeLink cy \<lparr> lp_officialId = officialId, lp_tournamentId = tournamentId,
           lp_expiresAt = expiresAt, lp_credential = linkSignature cf cy (of_passcodeHash x), lp_nonce = nonce \<rparr>) in
     Inr (encoded @ ''.'' @ linkSignature cf cy encoded, of_role x, expiresAt))"

definition openLink :: "access_config \<Rightarrow> access_crypto \<Rightarrow> string \<Rightarrow> time \<Rightarrow> access_error + link_payload" where
  "openLink cf cy token now =
     (case splitDots token of
        encoded # signature # rest \<Rightarrow>
          if encoded = [] \<or> signature = [] \<or> (case rest of extra # _ \<Rightarrow> extra \<noteq> [] | [] \<Rightarrow> False) \<or> length token > 2048 \<or>
             cy_fromBase64url cy signature \<noteq> cy_fromBase64url cy (linkSignature cf cy encoded)
          then Inl InvalidCredentials
          else bindR (orThrow (cy_readLink cy (cy_fromBase64url cy encoded)) InvalidCredentials) (\<lambda>p.
            if lp_expiresAt p \<le> now then Inl InvalidCredentials else Inr p)
      | _ \<Rightarrow> Inl InvalidCredentials)"

section \<open>Login, takeover, login with a link\<close>

record official_created =
  oa_session :: official_identity
  oa_sessionToken :: string
  oa_disconnected :: "uuid list"

definition officialAcquired ::
  "access_config \<Rightarrow> access_crypto \<Rightarrow> fresh_values \<Rightarrow> env \<Rightarrow> uuid \<Rightarrow> string \<Rightarrow> access_error + (official_acquisition \<times> db) \<Rightarrow> access_state
   \<Rightarrow> (access_error + official_created) \<times> access_state" where
  "officialAcquired cf cy f e officialId deviceId result s =
     (case result of
        Inl err \<Rightarrow> (Inl err, s)
      | Inr (OfficialConflict sid, d) \<Rightarrow>
          (Inl (SessionAlreadyActive (officialChallenge cf cy sid officialId deviceId (fv_nonce f) (appNow e))), (d, snd s))
      | Inr (OfficialCreated identity token revoked, d) \<Rightarrow>
          (Inr \<lparr> oa_session = identity, oa_sessionToken = token,
             oa_disconnected = (case revoked of None \<Rightarrow> [] | Some sid \<Rightarrow> [sid]) \<rparr>, (d, snd s)))"

definition officialLogin ::
  "access_config \<Rightarrow> access_crypto \<Rightarrow> fresh_values \<Rightarrow> env \<Rightarrow> string \<Rightarrow> string \<Rightarrow> string \<Rightarrow> match_role option \<Rightarrow> string \<Rightarrow> access_state
   \<Rightarrow> (access_error + official_created) \<times> access_state" where
  "officialLogin cf cy f e code passcode deviceId expectedRole ip s =
     (case normalizeOfficialInput code passcode deviceId of
        Inl err \<Rightarrow> (Inl err, s)
      | Inr i \<Rightarrow>
          (case officialRateLimit cf cy (on_code i) (on_passcode i) ip (appNow e) (snd s) of
             (Inl err, r) \<Rightarrow> (Inl err, (fst s, r))
           | (Inr _, r) \<Rightarrow>
               (case verifyOfficial cf cy (on_code i) (on_passcode i) expectedRole (fst s) of
                  Inl err \<Rightarrow> (Inl err, (fst s, r))
                | Inr c \<Rightarrow>
                    officialAcquired cf cy f e (cr_officialId c) (on_deviceId i)
                      (acquire cf cy f e c (Some (on_passcode i)) (on_deviceId i) None (fst s)) (fst s, r))))"

definition officialTakeover ::
  "access_config \<Rightarrow> access_crypto \<Rightarrow> fresh_values \<Rightarrow> env \<Rightarrow> string \<Rightarrow> string \<Rightarrow> string \<Rightarrow> match_role option \<Rightarrow> string \<Rightarrow> string \<Rightarrow> access_state
   \<Rightarrow> (access_error + official_created) \<times> access_state" where
  "officialTakeover cf cy f e code passcode deviceId expectedRole takeoverToken ip s =
     (case bindR (normalizeOfficialInput code passcode deviceId) (\<lambda>i.
           bindR (verifyChallenge cf cy takeoverToken (appNow e)) (\<lambda>challenge.
           if oc_deviceId challenge \<noteq> on_deviceId i then Inl InvalidTakeover else Inr (i, challenge))) of
        Inl err \<Rightarrow> (Inl err, s)
      | Inr (i, challenge) \<Rightarrow>
          (case officialRateLimit cf cy (on_code i) (on_passcode i) ip (appNow e) (snd s) of
             (Inl err, r) \<Rightarrow> (Inl err, (fst s, r))
           | (Inr _, r) \<Rightarrow>
               (case verifyOfficial cf cy (on_code i) (on_passcode i) expectedRole (fst s) of
                  Inl err \<Rightarrow> (Inl err, (fst s, r))
                | Inr c \<Rightarrow>
                    if cr_officialId c \<noteq> oc_officialId challenge then (Inl InvalidTakeover, (fst s, r))
                    else officialAcquired cf cy f e (cr_officialId c) (on_deviceId i)
                      (acquire cf cy f e c (Some (on_passcode i)) (on_deviceId i)
                         (Some (oc_observedSessionId challenge)) (fst s)) (fst s, r))))"

definition verifyLink ::
  "access_config \<Rightarrow> access_crypto \<Rightarrow> string \<Rightarrow> string \<Rightarrow> match_role option \<Rightarrow> time \<Rightarrow> db \<Rightarrow> access_error + official_credentials" where
  "verifyLink cf cy token deviceId expectedRole now d =
     bindR (openLink cf cy token now) (\<lambda>p.
     bindR (orThrow (openOfficial (lp_officialId p) (lp_tournamentId p) d) InvalidCredentials) (\<lambda>x.
     bindR (orThrow (getTournament (lp_tournamentId p) d) InvalidCredentials) (\<lambda>t.
     if linkSignature cf cy (of_passcodeHash x) \<noteq> lp_credential p \<or>
        (expectedRole \<noteq> None \<and> expectedRole \<noteq> Some (of_role x)) \<or> trim deviceId = []
     then Inl InvalidCredentials
     else Inr \<lparr> cr_tournamentId = lp_tournamentId p, cr_officialId = lp_officialId p,
       cr_passcodeHash = of_passcodeHash x, cr_role = of_role x, cr_tournamentCode = t_publicCode t \<rparr>)))"

definition loginWithToken ::
  "access_config \<Rightarrow> access_crypto \<Rightarrow> fresh_values \<Rightarrow> env \<Rightarrow> string \<Rightarrow> string \<Rightarrow> match_role option \<Rightarrow> string \<Rightarrow> string option \<Rightarrow> access_state
   \<Rightarrow> (access_error + official_created) \<times> access_state" where
  "loginWithToken cf cy f e token deviceId expectedRole ip takeoverToken s =
     (case officialRateLimit cf cy ''login-link'' token ip (appNow e) (snd s) of
        (Inl err, r) \<Rightarrow> (Inl err, (fst s, r))
      | (Inr _, r) \<Rightarrow>
          (case bindR (verifyLink cf cy token deviceId expectedRole (appNow e) (fst s)) (\<lambda>c.
                if takeoverToken = None \<or> takeoverToken = Some [] then Inr (c, None)
                else bindR (verifyChallenge cf cy (the takeoverToken) (appNow e)) (\<lambda>challenge.
                  if oc_officialId challenge \<noteq> cr_officialId c \<or> oc_deviceId challenge \<noteq> trim deviceId
                  then Inl InvalidTakeover else Inr (c, Some (oc_observedSessionId challenge)))) of
             Inl err \<Rightarrow> (Inl err, (fst s, r))
           | Inr (c, observed) \<Rightarrow>
               officialAcquired cf cy f e (cr_officialId c) (trim deviceId)
                 (acquire cf cy f e c None (trim deviceId) observed (fst s)) (fst s, r)))"

section \<open>Resolution and logout\<close>

definition revokeOfficialSession :: "access_config \<Rightarrow> access_crypto \<Rightarrow> string \<Rightarrow> time \<Rightarrow> db \<Rightarrow> uuid list \<times> db" where
  "revokeOfficialSession cf cy token now d =
     (if \<not> SESSION_TOKEN_PATTERN token then ([], d)
      else
        let ids = map os_id (filter (\<lambda>s. os_tokenHash s = officialTokenHash cf cy token \<and> os_active s) (officialSessions d)) in
        (ids, d\<lparr> officialSessions := updWhere (\<lambda>s. os_id s \<in> set ids) (closeOfficialSession now) (officialSessions d) \<rparr>))"

definition resolveOfficialSession ::
  "access_config \<Rightarrow> access_crypto \<Rightarrow> string \<Rightarrow> time \<Rightarrow> db \<Rightarrow> (access_error + official_identity option) \<times> db" where
  "resolveOfficialSession cf cy token now d =
     (if \<not> SESSION_TOKEN_PATTERN token then (Inr None, d)
      else case List.find (\<lambda>s. os_tokenHash s = officialTokenHash cf cy token \<and> officialLive now s \<and>
             (\<exists>x \<in> set (officials d). of_id x = os_officialId s \<and> of_isActive x \<and>
                tournamentOpenForOfficials (of_tournamentId x) d)) (officialSessions d) of
        None \<Rightarrow> (Inr None, d)
      | Some s \<Rightarrow>
          (bindR (presentSession s d) (\<lambda>i. Inr (Some i)),
           d\<lparr> officialSessions := updWhere (\<lambda>x. os_id x = os_id s \<and> os_active x \<and> os_revokedAt x = None)
             (\<lambda>x. x\<lparr>os_lastSeenAt := Some now\<rparr>) (officialSessions d) \<rparr>))"

definition resolveIdentity :: "uuid \<Rightarrow> time \<Rightarrow> db \<Rightarrow> access_error + official_identity option" where
  "resolveIdentity sid now d =
     (case List.find (\<lambda>s. os_id s = sid \<and> officialLive now s) (officialSessions d) of
        None \<Rightarrow> Inr None
      | Some s \<Rightarrow> bindR (presentSession s d) (\<lambda>i. Inr (Some i)))"

definition assertRole :: "official_identity \<Rightarrow> match_role \<Rightarrow> time \<Rightarrow> db \<Rightarrow> access_error + unit" where
  "assertRole identity role now d =
     bindR (resolveIdentity (oi_sessionId identity) now d) (\<lambda>fresh.
     if map_option oi_role fresh \<noteq> Some role then Inl InvalidCredentials else Inr ())"

definition requireActiveAssignment :: "official_identity \<Rightarrow> time \<Rightarrow> db \<Rightarrow> access_error + active_assignment option" where
  "requireActiveAssignment identity now d =
     bindR (resolveIdentity (oi_sessionId identity) now d) (\<lambda>fresh.
     Inr (case fresh of None \<Rightarrow> None | Some i \<Rightarrow> oi_activeAssignment i))"

section \<open>Requests\<close>

datatype official_request =
    OfficialLoginRequest string string string "match_role option"
  | OfficialTokenLoginRequest string string "match_role option" "string option"
  | OfficialTakeoverRequest string string string "match_role option" string
  | OfficialLogoutRequest
  | OfficialSessionRequest

datatype official_answer =
    OfficialAnswerSession official_identity string "uuid list"
  | OfficialAnswerCleared "uuid list"
  | OfficialAnswerIdentity official_identity

text \<open>An empty cookie counts as none.\<close>

definition presentedToken :: "string option \<Rightarrow> string option" where
  "presentedToken cookie = (if cookie = Some [] then None else cookie)"

definition requireBrowserSessionReleased ::
  "access_config \<Rightarrow> access_crypto \<Rightarrow> string option \<Rightarrow> time \<Rightarrow> db \<Rightarrow> (access_error + unit) \<times> db" where
  "requireBrowserSessionReleased cf cy cookie now d =
     (case presentedToken cookie of
        None \<Rightarrow> (Inr (), d)
      | Some t \<Rightarrow>
          (case resolveOfficialSession cf cy t now d of
             (current, d1) \<Rightarrow>
               (bindR current (\<lambda>c. case c of
                    None \<Rightarrow> Inr ()
                  | Some identity \<Rightarrow>
                      bindR (requireActiveAssignment identity now d1) (\<lambda>a.
                      if a \<noteq> None then Inl InMatchLogoutForbidden else Inr ())), d1)))"

definition revokeBrowser ::
  "access_config \<Rightarrow> access_crypto \<Rightarrow> string option \<Rightarrow> string \<Rightarrow> time \<Rightarrow> db \<Rightarrow> uuid list \<times> db" where
  "revokeBrowser cf cy cookie newToken now d =
     (case presentedToken cookie of
        None \<Rightarrow> ([], d)
      | Some old \<Rightarrow> if old \<noteq> newToken then revokeOfficialSession cf cy old now d else ([], d))"

definition officialCreation ::
  "access_config \<Rightarrow> access_crypto \<Rightarrow> string option \<Rightarrow> time \<Rightarrow> (access_state \<Rightarrow> (access_error + official_created) \<times> access_state) \<Rightarrow> access_state
   \<Rightarrow> (access_error + official_answer) \<times> access_state" where
  "officialCreation cf cy cookie now create s =
     (case requireBrowserSessionReleased cf cy cookie now (fst s) of
        (Inl err, d1) \<Rightarrow> (Inl err, (d1, snd s))
      | (Inr _, d1) \<Rightarrow>
          (case create (d1, snd s) of
             (Inl err, s2) \<Rightarrow> (Inl err, s2)
           | (Inr c, (d2, r)) \<Rightarrow>
               (case revokeBrowser cf cy cookie (oa_sessionToken c) now d2 of
                  (closed, d3) \<Rightarrow>
                    (Inr (OfficialAnswerSession (oa_session c) (oa_sessionToken c) (oa_disconnected c @ closed)), (d3, r)))))"

definition officialSessionGuard ::
  "access_config \<Rightarrow> access_crypto \<Rightarrow> string option \<Rightarrow> time \<Rightarrow> db \<Rightarrow> (access_error + official_identity) \<times> db" where
  "officialSessionGuard cf cy cookie now d =
     (case presentedToken cookie of
        None \<Rightarrow> (Inl SessionRequired, d)
      | Some t \<Rightarrow>
          (case resolveOfficialSession cf cy t now d of
             (identity, d1) \<Rightarrow> (bindR identity (\<lambda>i. orThrow i SessionRequired), d1)))"

fun officialAccess ::
  "access_config \<Rightarrow> access_crypto \<Rightarrow> fresh_values \<Rightarrow> env \<Rightarrow> string option \<Rightarrow> string \<Rightarrow> official_request \<Rightarrow> access_state
   \<Rightarrow> (access_error + official_answer) \<times> access_state" where
  "officialAccess cf cy f e cookie ip (OfficialLoginRequest code passcode device role) s =
     officialCreation cf cy cookie (appNow e) (officialLogin cf cy f e code passcode device role ip) s"
| "officialAccess cf cy f e cookie ip (OfficialTokenLoginRequest token device role takeoverToken) s =
     officialCreation cf cy cookie (appNow e) (loginWithToken cf cy f e token device role ip takeoverToken) s"
| "officialAccess cf cy f e cookie ip (OfficialTakeoverRequest code passcode device role token) s =
     officialCreation cf cy cookie (appNow e) (officialTakeover cf cy f e code passcode device role token ip) s"
| "officialAccess cf cy f e cookie ip OfficialLogoutRequest s =
     (case officialSessionGuard cf cy cookie (appNow e) (fst s) of
        (Inl err, d1) \<Rightarrow> (Inl err, (d1, snd s))
      | (Inr identity, d1) \<Rightarrow>
          (case requireActiveAssignment identity (appNow e) d1 of
             Inl err \<Rightarrow> (Inl err, (d1, snd s))
           | Inr (Some _) \<Rightarrow> (Inl InMatchLogoutForbidden, (d1, snd s))
           | Inr None \<Rightarrow>
               (case revokeOfficialSession cf cy (the (presentedToken cookie)) (appNow e) d1 of
                  (closed, d2) \<Rightarrow> (Inr (OfficialAnswerCleared closed), (d2, snd s)))))"
| "officialAccess cf cy f e cookie ip OfficialSessionRequest s =
     (case officialSessionGuard cf cy cookie (appNow e) (fst s) of
        (Inl err, d1) \<Rightarrow> (Inl err, (d1, snd s))
      | (Inr identity, d1) \<Rightarrow> (Inr (OfficialAnswerIdentity identity), (d1, snd s)))"

section \<open>The table of sessions\<close>

interpretation os: session_table os_id os_officialId os_tokenHash os_active closeOfficialSession closeOfficialSession
  "\<lambda>t s. s\<lparr>os_lastSeenAt := Some t\<rparr>" officialSessionConflict
  by unfold_locales (auto simp: closeOfficialSession_def officialSessionConflict_def)

end
