(* ===== verification/Officials.thy ===== *)
theory Officials
  imports Official_Access
begin

text \<open>
  Maintenance of the officials of a tournament: \<open>tournament-officials/tournament-officials.service.ts\<close>.
  The passcodes drawn by an operation, with their bcrypt hashes, are a list argument of which it tries
  the first eight; a draw whose lookup digest is taken in the tournament is retried. An absent field of
  an input is None. Creation and update stamps of the answers are left out.
\<close>

datatype official_error =
    OfficialNotFound | OfficialNameExists | RoleChangeNotAllowed | OfficialUpdateEmpty | OfficialInActiveMatch
  | OfficialCountBelowStaffingRequirement nat nat "(uuid \<times> nat) list" | OfficialTournamentArchived
  | OfficialTournamentNotFound | OfficialInvalidText | OfficialPasscodeCollision | OfficialUniqueViolation
  | OfficialRecordMissing

section \<open>Rows and answers\<close>

definition requireOfficial :: "uuid \<Rightarrow> uuid \<Rightarrow> db \<Rightarrow> official_error + official_row" where
  "requireOfficial tid oid d =
     orThrow (List.find (\<lambda>x. of_id x = oid \<and> of_tournamentId x = tid) (officials d)) OfficialNotFound"

definition lockMutableTournament :: "uuid \<Rightarrow> db \<Rightarrow> official_error + unit" where
  "lockMutableTournament tid d =
     (case getTournament tid d of
        None \<Rightarrow> Inl OfficialTournamentNotFound
      | Some t \<Rightarrow>
          if t_softDeletedAt t \<noteq> None then Inl OfficialTournamentNotFound
          else if t_status t = T_ARCHIVED then Inl OfficialTournamentArchived
          else Inr ())"

definition officialName :: "string \<Rightarrow> official_error + string" where
  "officialName v = (if trim v = [] then Inl OfficialInvalidText else Inr (trim v))"

text \<open>\<open>normalize('NFKC').toLocaleLowerCase('vi')\<close> on the letters of \<open>Prelude\<close>.\<close>

definition normalizedName :: "string \<Rightarrow> string" where
  "normalizedName v = toLower v"

definition activeAssignment :: "uuid \<Rightarrow> db \<Rightarrow> assignment_row option" where
  "activeAssignment oid d = List.find (\<lambda>a. as_officialId a = oid \<and> as_releasedAt a = None) (assignments d)"

datatype roster_status = OFFICIAL_DISABLED | OFFICIAL_BUSY | OFFICIAL_FREE

record official_view =
  ov_id :: uuid
  ov_tournamentId :: uuid
  ov_role :: match_role
  ov_name :: string
  ov_isActive :: bool
  ov_deactivatedAt :: "time option"
  ov_status :: roster_status
  ov_connected :: bool
  ov_currentMatch :: "(uuid \<times> string \<times> match_status) option"

definition officialOnlineKey :: "uuid \<Rightarrow> string" where
  "officialOnlineKey oid = ''realtime:official-online:'' @ showNat oid"

definition isOfficialConnected :: "uuid \<Rightarrow> time \<Rightarrow> redis \<Rightarrow> bool" where
  "isOfficialConnected oid now r \<longleftrightarrow>
     (case redisGet now (officialOnlineKey oid) r of None \<Rightarrow> False | Some n \<Rightarrow> safeInteger n \<and> n > 0)"

definition presentOfficial :: "official_row \<Rightarrow> time \<Rightarrow> db \<Rightarrow> redis \<Rightarrow> official_view" where
  "presentOfficial x now d r =
     (let a = activeAssignment (of_id x) d in
      \<lparr> ov_id = of_id x, ov_tournamentId = of_tournamentId x, ov_role = of_role x, ov_name = of_name x,
        ov_isActive = of_isActive x, ov_deactivatedAt = of_deactivatedAt x,
        ov_status = (if \<not> of_isActive x then OFFICIAL_DISABLED else if a \<noteq> None then OFFICIAL_BUSY else OFFICIAL_FREE),
        ov_connected = isOfficialConnected (of_id x) now r,
        ov_currentMatch = Option.bind a (\<lambda>a. map_option (\<lambda>m. (m_id m, m_publicId m, m_status m)) (getMatch (as_matchId a) d)) \<rparr>)"

definition safeOfficial :: "official_row \<Rightarrow> jval" where
  "safeOfficial x = JObj [(''role'', JRole (of_role x)), (''name'', JStr (of_name x)), (''isActive'', JBool (of_isActive x)),
     (''deactivatedAt'', jOpt JDate (of_deactivatedAt x))]"

definition officialAudit ::
  "uuid \<Rightarrow> audit_event \<Rightarrow> uuid \<Rightarrow> uuid \<Rightarrow> jval \<Rightarrow> official_row \<Rightarrow> db \<Rightarrow> db" where
  "officialAudit actorId event tid oid before after d =
     addAudit \<lparr> a_id = None, a_eventType = event, a_matchId = None, a_adminUserId = Some actorId, a_sessionId = None,
       a_officialSessionId = None,
       a_metadata = JObj [(''tournamentId'', JId tid), (''officialId'', JId oid), (''role'', JRole (of_role after)),
         (''before'', before), (''after'', safeOfficial after)] \<rparr> d"

section \<open>Creation\<close>

definition PASSCODE_GENERATION_ATTEMPTS :: nat where
  "PASSCODE_GENERATION_ATTEMPTS = 8"

definition nameTaken :: "uuid \<Rightarrow> uuid \<Rightarrow> match_role \<Rightarrow> string \<Rightarrow> db \<Rightarrow> bool" where
  "nameTaken tid oid role name d \<longleftrightarrow> (\<exists>x \<in> set (officials d). of_id x \<noteq> oid \<and> of_tournamentId x = tid \<and> of_role x = role \<and>
     of_normalizedName x = normalizedName name)"

definition digestTaken :: "uuid \<Rightarrow> uuid \<Rightarrow> string \<Rightarrow> db \<Rightarrow> bool" where
  "digestTaken tid oid digest d \<longleftrightarrow>
     (\<exists>x \<in> set (officials d). of_id x \<noteq> oid \<and> of_tournamentId x = tid \<and> of_passcodeLookupDigest x = digest)"

record create_official_input =
  co_role :: match_role
  co_name :: string

text \<open>One attempt; None stands for a taken digest. PostgreSQL checks the unique indexes in the order of
  their creation: the primary key, the name, the digest.\<close>

definition createOfficialAttempt ::
  "access_config \<Rightarrow> access_crypto \<Rightarrow> uuid \<Rightarrow> string \<times> string \<Rightarrow> uuid \<Rightarrow> match_role \<Rightarrow> string \<Rightarrow> uuid \<Rightarrow> db
   \<Rightarrow> official_error + (official_row \<times> db) option" where
  "createOfficialAttempt cf cy newId draw tid role name actorId d =
     bindR (lockMutableTournament tid d) (\<lambda>_.
     let x = \<lparr> of_id = newId, of_tournamentId = tid, of_role = role, of_name = name, of_normalizedName = normalizedName name,
           of_passcodeHash = snd draw, of_passcodeLookupDigest = passcodeDigest cf cy (fst draw), of_isActive = True,
           of_deactivatedAt = None \<rparr> in
     if newId \<in> of_id ` set (officials d) then Inl OfficialUniqueViolation
     else if nameTaken tid newId role name d then Inl OfficialNameExists
     else if digestTaken tid newId (of_passcodeLookupDigest x) d then Inr None
     else Inr (Some (x, officialAudit actorId TOURNAMENT_OFFICIAL_CREATED tid newId JNull x
       (d\<lparr> officials := officials d @ [x] \<rparr>))))"

text \<open>The loop over the draws: a taken digest is retried while attempts remain, and thrown as it is by
  the last attempt.\<close>

fun withPasscode ::
  "(string \<times> string \<Rightarrow> official_error + 'a option) \<Rightarrow> (string \<times> string) list \<Rightarrow> official_error + ('a \<times> string)" where
  "withPasscode attempt [] = Inl OfficialPasscodeCollision"
| "withPasscode attempt (draw # draws) =
     bindR (attempt draw) (\<lambda>r.
     case r of
       Some a \<Rightarrow> Inr (a, fst draw)
     | None \<Rightarrow> if draws = [] then Inl OfficialUniqueViolation else withPasscode attempt draws)"

definition createOfficial ::
  "access_config \<Rightarrow> access_crypto \<Rightarrow> uuid \<Rightarrow> (nat \<Rightarrow> string \<times> string) \<Rightarrow> uuid \<Rightarrow> create_official_input \<Rightarrow> uuid \<Rightarrow> db
   \<Rightarrow> official_error + ((official_row \<times> db) \<times> string)" where
  "createOfficial cf cy newId draws tid input actorId d =
     bindR (officialName (co_name input)) (\<lambda>name.
     withPasscode (\<lambda>draw. createOfficialAttempt cf cy newId draw tid (co_role input) name actorId d)
       (map draws [0..<PASSCODE_GENERATION_ATTEMPTS]))"

section \<open>Update and deactivation\<close>

record update_official_input =
  uo_role :: "match_role option"
  uo_name :: "string option"
  uo_isActive :: "bool option"

definition unfinishedRequirements :: "uuid \<Rightarrow> db \<Rightarrow> staffing_row list" where
  "unfinishedRequirements tid d =
     filter (\<lambda>s. \<exists>b \<in> set (brackets d). b_id b = rs_bracketId s \<and> b_tournamentId b = tid \<and> b_status b = B_ACTIVE \<and>
       (\<exists>f \<in> set (fixtureRows d). bf_bracketId f = b_id b \<and> bf_status f \<noteq> FX_COMPLETED)) (roundStaffing d)"

definition activeJudges :: "uuid \<Rightarrow> db \<Rightarrow> nat" where
  "activeJudges tid d = length (filter (\<lambda>x. of_tournamentId x = tid \<and> of_role x = JUDGE \<and> of_isActive x) (officials d))"

definition assertDeactivationAllowed :: "uuid \<Rightarrow> official_row \<Rightarrow> db \<Rightarrow> official_error + unit" where
  "assertDeactivationAllowed tid x d =
     (if activeAssignment (of_id x) d \<noteq> None then Inl OfficialInActiveMatch
      else if of_role x \<noteq> JUDGE then Inr ()
      else
        let requirements = unfinishedRequirements tid d in
        if requirements = [] then Inr ()
        else
          let active = activeJudges tid d; maximum = Max (set (map rs_requiredJudgeCount requirements)) in
          if int active - 1 < int maximum
          then Inl (OfficialCountBelowStaffingRequirement active maximum
            (map (\<lambda>s. (rs_bracketId s, rs_roundNumber s)) requirements))
          else Inr ())"

text \<open>The sessions of an official that are active, and their revocation.\<close>

definition revokeSessionsOf :: "uuid \<Rightarrow> time \<Rightarrow> db \<Rightarrow> uuid list \<times> db" where
  "revokeSessionsOf oid now d =
     (let ids = map os_id (filter (\<lambda>s. os_officialId s = oid \<and> os_active s) (officialSessions d)) in
      (ids, d\<lparr> officialSessions := updWhere (\<lambda>s. os_id s \<in> set ids) (closeOfficialSession now) (officialSessions d) \<rparr>))"

definition officialChange :: "string option \<Rightarrow> bool option \<Rightarrow> time \<Rightarrow> official_row \<Rightarrow> official_row" where
  "officialChange name isActive now x = x\<lparr>
     of_name := (case name of None \<Rightarrow> of_name x | Some n \<Rightarrow> n),
     of_normalizedName := (case name of None \<Rightarrow> of_normalizedName x | Some n \<Rightarrow> normalizedName n),
     of_isActive := (case isActive of None \<Rightarrow> of_isActive x | Some b \<Rightarrow> b),
     of_deactivatedAt := (case isActive of None \<Rightarrow> of_deactivatedAt x | Some b \<Rightarrow> if b then None else Some now) \<rparr>"

definition updateOfficial ::
  "uuid \<Rightarrow> uuid \<Rightarrow> update_official_input \<Rightarrow> uuid \<Rightarrow> time \<Rightarrow> db \<Rightarrow> official_error + (official_row \<times> uuid list \<times> db)" where
  "updateOfficial tid oid input actorId now d =
     (if uo_role input = None \<and> uo_name input = None \<and> uo_isActive input = None then Inl OfficialUpdateEmpty
      else
        bindR (lockMutableTournament tid d) (\<lambda>_.
        bindR (requireOfficial tid oid d) (\<lambda>before.
        if uo_role input \<noteq> None \<and> uo_role input \<noteq> Some (of_role before) then Inl RoleChangeNotAllowed
        else
          bindR (case uo_name input of None \<Rightarrow> Inr None | Some v \<Rightarrow> bindR (officialName v) (\<lambda>n. Inr (Some n))) (\<lambda>name.
          let deactivates = (uo_isActive input = Some False \<and> of_isActive before) in
          bindR (if deactivates then assertDeactivationAllowed tid before d else Inr ()) (\<lambda>_.
          let change = officialChange name (uo_isActive input) now in
          if name \<noteq> None \<and> nameTaken tid oid (of_role before) (the name) d then Inl OfficialNameExists
          else
            let after = change before;
                d1 = officialAudit actorId
                  (if deactivates then TOURNAMENT_OFFICIAL_DEACTIVATED else TOURNAMENT_OFFICIAL_UPDATED)
                  tid oid (safeOfficial before) after
                  (d\<lparr> officials := updWhere (\<lambda>x. of_id x = oid) change (officials d) \<rparr>) in
            if deactivates then (case revokeSessionsOf oid now d1 of (ids, d2) \<Rightarrow> Inr (after, ids, d2))
            else Inr (after, [], d1))))))"

definition deactivateOfficial :: "uuid \<Rightarrow> uuid \<Rightarrow> uuid \<Rightarrow> time \<Rightarrow> db \<Rightarrow> official_error + (official_row \<times> uuid list \<times> db)" where
  "deactivateOfficial tid oid actorId now d =
     updateOfficial tid oid \<lparr> uo_role = None, uo_name = None, uo_isActive = Some False \<rparr> actorId now d"

section \<open>A new passcode\<close>

definition regenerateAttempt ::
  "access_config \<Rightarrow> access_crypto \<Rightarrow> string \<times> string \<Rightarrow> uuid \<Rightarrow> uuid \<Rightarrow> uuid \<Rightarrow> time \<Rightarrow> db
   \<Rightarrow> official_error + (official_row \<times> uuid list \<times> db) option" where
  "regenerateAttempt cf cy draw tid oid actorId now d =
     bindR (lockMutableTournament tid d) (\<lambda>_.
     bindR (requireOfficial tid oid d) (\<lambda>current.
     let digest = passcodeDigest cf cy (fst draw);
         change = (\<lambda>x. x\<lparr> of_passcodeHash := snd draw, of_passcodeLookupDigest := digest \<rparr>) in
     if digestTaken tid oid digest d then Inr None
     else
       (case revokeSessionsOf oid now (d\<lparr> officials := updWhere (\<lambda>x. of_id x = oid) change (officials d) \<rparr>) of
          (ids, d1) \<Rightarrow>
            Inr (Some (change current, ids, officialAudit actorId TOURNAMENT_OFFICIAL_PASSCODE_REGENERATED tid oid
              (safeOfficial current) current d1)))))"

definition regeneratePasscode ::
  "access_config \<Rightarrow> access_crypto \<Rightarrow> (nat \<Rightarrow> string \<times> string) \<Rightarrow> uuid \<Rightarrow> uuid \<Rightarrow> uuid \<Rightarrow> time \<Rightarrow> db
   \<Rightarrow> official_error + ((official_row \<times> uuid list \<times> db) \<times> string)" where
  "regeneratePasscode cf cy draws tid oid actorId now d =
     withPasscode (\<lambda>draw. regenerateAttempt cf cy draw tid oid actorId now d) (map draws [0..<PASSCODE_GENERATION_ATTEMPTS])"

end
