(* ===== verification/Match_Access.thy ===== *)
theory Match_Access
  imports Access_Common
begin

text \<open>
  Access to a match with one of its four security codes:
  \<open>match-access/match-access.service.ts\<close>, its controller and its guard. A handler takes the database and
  the Redis counters and gives back both with its answer; a transaction that throws leaves the database
  as it was, one that answers a conflict has already closed the stale sessions. The disconnection of
  sockets is the list of the session identifiers handed to the registry. One command reads the process
  clock once.
\<close>

section \<open>Credentials\<close>

record verified_credential =
  vc_accessCodeId :: uuid
  vc_codeHash :: string
  vc_matchId :: uuid
  vc_matchPublicId :: string
  vc_role :: access_role

record login_input =
  li_deviceId :: string
  li_matchPublicId :: string
  li_securityCode :: string

definition normalizeLoginInput :: "string \<Rightarrow> string \<Rightarrow> string \<Rightarrow> access_error + login_input" where
  "normalizeLoginInput matchPublicId securityCode deviceId =
     (if trim deviceId = [] then Inl InvalidDeviceId
      else Inr \<lparr> li_deviceId = trim deviceId, li_matchPublicId = toUpper (trim matchPublicId),
        li_securityCode = trim securityCode \<rparr>)"

definition deriveRedisKey :: "access_config \<Rightarrow> access_crypto \<Rightarrow> string \<Rightarrow> string \<Rightarrow> string" where
  "deriveRedisKey cf cy space v =
     ''match-access:'' @ space @ '':'' @ cy_toBase64url cy (keyed cy (cf_sessionSecret cf) space v)"

definition enforceAccessRateLimit ::
  "access_config \<Rightarrow> access_crypto \<Rightarrow> login_input \<Rightarrow> string \<Rightarrow> time \<Rightarrow> redis \<Rightarrow> (access_error + unit) \<times> redis" where
  "enforceAccessRateLimit cf cy i clientAddress now r =
     rateLimit cf
       (deriveRedisKey cf cy ''access-rate:identity'' (li_matchPublicId i @ [CHR 0x00] @ li_securityCode i))
       (deriveRedisKey cf cy ''access-rate:ip''
          (if trim clientAddress = [] then ''unknown'' else trim clientAddress)) now r"

definition tournamentOpen :: "uuid \<Rightarrow> db \<Rightarrow> bool" where
  "tournamentOpen tid d \<longleftrightarrow> (\<exists>t \<in> set (tournaments d). t_id t = tid \<and> t_softDeletedAt t = None)"

definition verifyCredential :: "access_crypto \<Rightarrow> string \<Rightarrow> string \<Rightarrow> db \<Rightarrow> access_error + verified_credential" where
  "verifyCredential cy matchPublicId securityCode d =
     (case List.find (\<lambda>m. m_publicId m = matchPublicId \<and> tournamentOpen (m_tournamentId m) d) (matches d) of
        None \<Rightarrow> Inl InvalidCredentials
      | Some m \<Rightarrow>
          if \<exists>a \<in> set (assignments d). as_matchId a = m_id m \<and> as_releasedAt a = None then Inl InvalidCredentials
          else
            let fits = byteLength securityCode \<le> BCRYPT_MAX_INPUT_BYTES;
                comparisonInput = (if fits then securityCode else ''invalid-overlong-security-code'') in
            case List.find (\<lambda>c. cy_compare cy comparisonInput (ac_codeHash c))
                   (filter (\<lambda>c. ac_matchId c = m_id m) (accessCodes d)) of
              None \<Rightarrow> Inl InvalidCredentials
            | Some c \<Rightarrow>
                if \<not> fits then Inl InvalidCredentials
                else Inr \<lparr> vc_accessCodeId = ac_id c, vc_codeHash = ac_codeHash c, vc_matchId = m_id m,
                  vc_matchPublicId = m_publicId m, vc_role = ac_role c \<rparr>)"

text \<open>\<open>lockAccessCode\<close> finds the row by its identifier and locks it; the second read sees the same row.
  A code refers to an existing match (foreign key).\<close>

definition lockAccessCode :: "uuid \<Rightarrow> db \<Rightarrow> access_code_row option" where
  "lockAccessCode cid d = List.find (\<lambda>c. ac_id c = cid) (accessCodes d)"

definition lockAndReverifyCredential ::
  "access_crypto \<Rightarrow> verified_credential \<Rightarrow> string \<Rightarrow> db \<Rightarrow> access_error + verified_credential" where
  "lockAndReverifyCredential cy credential securityCode d =
     bindR (orThrow (lockAccessCode (vc_accessCodeId credential) d) InvalidCredentials) (\<lambda>c.
     bindR (orThrow (getMatch (ac_matchId c) d) InvalidCredentials) (\<lambda>m.
     if m_id m \<noteq> vc_matchId credential \<or> m_publicId m \<noteq> vc_matchPublicId credential \<or>
        \<not> tournamentOpen (m_tournamentId m) d \<or> \<not> cy_compare cy securityCode (ac_codeHash c)
     then Inl InvalidCredentials
     else Inr \<lparr> vc_accessCodeId = ac_id c, vc_codeHash = ac_codeHash c, vc_matchId = m_id m,
       vc_matchPublicId = m_publicId m, vc_role = ac_role c \<rparr>))"

section \<open>Sessions\<close>

definition hashSessionToken :: "access_config \<Rightarrow> access_crypto \<Rightarrow> string \<Rightarrow> string" where
  "hashSessionToken cf cy sessionToken =
     cy_toBase64url cy (keyed cy (cf_sessionSecret cf) ''match-session-token'' sessionToken)"

definition staleSession :: "uuid \<Rightarrow> time \<Rightarrow> match_session_row \<Rightarrow> bool" where
  "staleSession cid now s \<longleftrightarrow> ms_accessCodeId s = cid \<and> ms_active s \<and>
     ((case ms_expiresAt s of None \<Rightarrow> True | Some t \<Rightarrow> t \<le> now) \<or> ms_revokedAt s \<noteq> None)"

definition deactivateStaleSessions :: "uuid \<Rightarrow> time \<Rightarrow> db \<Rightarrow> db" where
  "deactivateStaleSessions cid now d =
     d\<lparr> matchSessions := updWhere (staleSession cid now) (\<lambda>s. s\<lparr>ms_active := False\<rparr>) (matchSessions d) \<rparr>"

definition liveSession :: "time \<Rightarrow> match_session_row \<Rightarrow> bool" where
  "liveSession now s \<longleftrightarrow> ms_active s \<and> ms_revokedAt s = None \<and>
     (case ms_expiresAt s of None \<Rightarrow> False | Some t \<Rightarrow> now < t)"

definition findCurrentOwner :: "uuid \<Rightarrow> time \<Rightarrow> db \<Rightarrow> match_session_row option" where
  "findCurrentOwner cid now d =
     firstBy (\<lambda>s. - ms_createdAt s) (\<lambda>s. ms_accessCodeId s = cid \<and> liveSession now s) (matchSessions d)"

fun sessionRole :: "access_role \<Rightarrow> judge_slot option \<times> match_role" where
  "sessionRole AR_JUDGE_1 = (Some JUDGE_1, JUDGE)"
| "sessionRole AR_JUDGE_2 = (Some JUDGE_2, JUDGE)"
| "sessionRole AR_JUDGE_3 = (Some JUDGE_3, JUDGE)"
| "sessionRole AR_SUPERVISOR = (None, SUPERVISOR)"

text \<open>The unique indexes of the table: the primary key, the token hash, and one active unrevoked session
  per credential.\<close>

definition matchSessionConflict :: "match_session_row \<Rightarrow> match_session_row \<Rightarrow> bool" where
  "matchSessionConflict a b \<longleftrightarrow> ms_id a = ms_id b \<or> ms_tokenHash a = ms_tokenHash b \<or>
     (ms_active a \<and> ms_revokedAt a = None \<and> ms_active b \<and> ms_revokedAt b = None \<and>
      ms_accessCodeId a = ms_accessCodeId b)"

record match_session_identity =
  mi_deviceId :: string
  mi_expiresAt :: time
  mi_matchPublicId :: string
  mi_judgeSlot :: "judge_slot option"
  mi_role :: match_role
  mi_sessionId :: uuid

definition sessionAudit :: "uuid \<Rightarrow> uuid \<Rightarrow> (string \<times> jval) list \<Rightarrow> db \<Rightarrow> db" where
  "sessionAudit mid sid metadata d = addAudit \<lparr> a_id = None, a_eventType = SESSION_ACTION, a_matchId = Some mid,
     a_adminUserId = None, a_sessionId = Some sid, a_officialSessionId = None, a_metadata = JObj metadata \<rparr> d"

definition createSessionRecord ::
  "uuid \<Rightarrow> verified_credential \<Rightarrow> string \<Rightarrow> string \<Rightarrow> env \<Rightarrow> time \<Rightarrow> string \<Rightarrow> db
   \<Rightarrow> access_error + (match_session_identity \<times> db)" where
  "createSessionRecord newId credential deviceId tokenHash e expiresAt action d =
     (let (slot, role) = sessionRole (vc_role credential);
          s = \<lparr> ms_id = newId, ms_matchId = vc_matchId credential, ms_accessCodeId = vc_accessCodeId credential,
            ms_role = role, ms_judgeSlot = slot, ms_deviceId = deviceId, ms_tokenHash = tokenHash,
            ms_active = True, ms_createdAt = txNow e, ms_lastSeenAt = Some (appNow e),
            ms_expiresAt = Some expiresAt, ms_revokedAt = None \<rparr> in
      if \<exists>x \<in> set (matchSessions d). matchSessionConflict x s then Inl AccessUniqueViolation
      else Inr (\<lparr> mi_deviceId = deviceId, mi_expiresAt = expiresAt, mi_matchPublicId = vc_matchPublicId credential,
          mi_judgeSlot = slot, mi_role = role, mi_sessionId = newId \<rparr>,
        sessionAudit (vc_matchId credential) newId
          [(''action'', JStr action), (''deviceId'', JStr deviceId), (''judgeSlot'', jOpt JSlot slot), (''role'', JRole role)]
          (d\<lparr> matchSessions := matchSessions d @ [s] \<rparr>)))"

definition revokeSessionRecord :: "uuid \<Rightarrow> time \<Rightarrow> db \<Rightarrow> db" where
  "revokeSessionRecord sid revokedAt d =
     d\<lparr> matchSessions := updWhere (\<lambda>s. ms_active s \<and> ms_id s = sid)
       (\<lambda>s. s\<lparr> ms_active := False, ms_revokedAt := Some revokedAt \<rparr>) (matchSessions d) \<rparr>"

section \<open>Takeover challenges\<close>

record ownership_conflict =
  cn_accessCodeId :: uuid
  cn_deviceId :: string
  cn_matchId :: uuid
  cn_matchPublicId :: string
  cn_observedSessionId :: uuid

definition ownershipConflict :: "verified_credential \<Rightarrow> uuid \<Rightarrow> string \<Rightarrow> ownership_conflict" where
  "ownershipConflict credential observed deviceId =
     \<lparr> cn_accessCodeId = vc_accessCodeId credential, cn_deviceId = deviceId, cn_matchId = vc_matchId credential,
       cn_matchPublicId = vc_matchPublicId credential, cn_observedSessionId = observed \<rparr>"

definition createTakeoverToken :: "access_config \<Rightarrow> access_crypto \<Rightarrow> ownership_conflict \<Rightarrow> string \<Rightarrow> time \<Rightarrow> string" where
  "createTakeoverToken cf cy k nonce now =
     (let payload = \<lparr> tp_accessCodeId = cn_accessCodeId k, tp_deviceId = cn_deviceId k,
            tp_expiresAt = floorSeconds now + CHALLENGE_TTL_SECONDS, tp_matchId = cn_matchId k,
            tp_matchPublicId = cn_matchPublicId k, tp_nonce = nonce,
            tp_observedSessionId = cn_observedSessionId k, tp_version = 1 \<rparr> in
      signed cy (cf_sessionSecret cf) ''match-takeover-challenge'' (cy_toBase64url cy (cy_writeTakeover cy payload)))"

definition isTakeoverPayload :: "takeover_payload \<Rightarrow> bool" where
  "isTakeoverPayload p \<longleftrightarrow> tp_version p = 1 \<and> tp_matchPublicId p \<noteq> [] \<and> length (tp_matchPublicId p) \<le> 32 \<and>
     tp_deviceId p \<noteq> [] \<and> length (tp_deviceId p) \<le> 255 \<and> NONCE_PATTERN (tp_nonce p) \<and> safeInteger (tp_expiresAt p)"

definition verifyTakeoverToken ::
  "access_config \<Rightarrow> access_crypto \<Rightarrow> string \<Rightarrow> time \<Rightarrow> access_error + takeover_payload" where
  "verifyTakeoverToken cf cy token now =
     (case splitDots token of
        [encodedPayload, encodedSignature] \<Rightarrow>
          if encodedPayload = [] \<or> encodedSignature = [] \<or> length token > 2048 \<or>
             \<not> isBase64url encodedPayload \<or> \<not> isBase64url encodedSignature \<or>
             cy_fromBase64url cy encodedSignature \<noteq>
               keyed cy (cf_sessionSecret cf) ''match-takeover-challenge'' encodedPayload
          then Inl InvalidTakeover
          else bindR (orThrow (cy_readTakeover cy (cy_fromBase64url cy encodedPayload)) InvalidTakeover) (\<lambda>payload.
            if \<not> isTakeoverPayload payload \<or> tp_expiresAt payload \<le> floorSeconds now then Inl InvalidTakeover
            else Inr payload)
      | _ \<Rightarrow> Inl InvalidTakeover)"

section \<open>Login and takeover\<close>

datatype session_acquisition =
    AcquisitionCreated "uuid option" match_session_identity
  | AcquisitionConflict ownership_conflict

definition loginTransaction ::
  "access_config \<Rightarrow> access_crypto \<Rightarrow> fresh_values \<Rightarrow> env \<Rightarrow> verified_credential \<Rightarrow> login_input \<Rightarrow> db
   \<Rightarrow> access_error + (session_acquisition \<times> db)" where
  "loginTransaction cf cy f e credential i d =
     bindR (lockAndReverifyCredential cy credential (li_securityCode i) d) (\<lambda>locked.
     let now = appNow e; d1 = deactivateStaleSessions (vc_accessCodeId locked) now d in
     case findCurrentOwner (vc_accessCodeId locked) now d1 of
       Some owner \<Rightarrow> Inr (AcquisitionConflict (ownershipConflict locked (ms_id owner) (li_deviceId i)), d1)
     | None \<Rightarrow>
         bindR (createSessionRecord (fv_sessionId f) locked (li_deviceId i) (hashSessionToken cf cy (fv_token f))
                  e (sessionExpiry cf now) ''LOGIN'' d1) (\<lambda>(session, d2).
         Inr (AcquisitionCreated None session, d2)))"

definition takeoverTransaction ::
  "access_config \<Rightarrow> access_crypto \<Rightarrow> fresh_values \<Rightarrow> env \<Rightarrow> takeover_payload \<Rightarrow> verified_credential \<Rightarrow> login_input \<Rightarrow> db
   \<Rightarrow> access_error + (session_acquisition \<times> db)" where
  "takeoverTransaction cf cy f e challenge credential i d =
     bindR (lockAndReverifyCredential cy credential (li_securityCode i) d) (\<lambda>locked.
     let now = appNow e; d1 = deactivateStaleSessions (vc_accessCodeId locked) now d;
         currentOwner = findCurrentOwner (vc_accessCodeId locked) now d1;
         create = (\<lambda>revoked d2.
           bindR (createSessionRecord (fv_sessionId f) locked (li_deviceId i) (hashSessionToken cf cy (fv_token f))
                    e (sessionExpiry cf now) ''TAKEOVER'' d2) (\<lambda>(session, d3).
           Inr (AcquisitionCreated revoked session, d3))) in
     case currentOwner of
       None \<Rightarrow> create None d1
     | Some owner \<Rightarrow>
         if ms_id owner \<noteq> tp_observedSessionId challenge
         then Inr (AcquisitionConflict (ownershipConflict locked (ms_id owner) (li_deviceId i)), d1)
         else create (Some (ms_id owner)) (revokeSessionRecord (ms_id owner) now d1))"

record created_session =
  cs_session :: match_session_identity
  cs_sessionToken :: string
  cs_disconnected :: "uuid list"

definition acquired ::
  "access_config \<Rightarrow> access_crypto \<Rightarrow> fresh_values \<Rightarrow> env \<Rightarrow> access_error + (session_acquisition \<times> db) \<Rightarrow> access_state
   \<Rightarrow> (access_error + created_session) \<times> access_state" where
  "acquired cf cy f e result s =
     (case result of
        Inl err \<Rightarrow> (Inl err, s)
      | Inr (AcquisitionConflict k, d) \<Rightarrow>
          (Inl (SessionAlreadyActive (createTakeoverToken cf cy k (fv_nonce f) (appNow e))), (d, snd s))
      | Inr (AcquisitionCreated revoked session, d) \<Rightarrow>
          (Inr \<lparr> cs_session = session, cs_sessionToken = fv_token f,
             cs_disconnected = (case revoked of None \<Rightarrow> [] | Some sid \<Rightarrow> [sid]) \<rparr>, (d, snd s)))"

definition login ::
  "access_config \<Rightarrow> access_crypto \<Rightarrow> fresh_values \<Rightarrow> env \<Rightarrow> string \<Rightarrow> string \<Rightarrow> string \<Rightarrow> string \<Rightarrow> access_state
   \<Rightarrow> (access_error + created_session) \<times> access_state" where
  "login cf cy f e matchPublicId securityCode deviceId clientAddress s =
     (case normalizeLoginInput matchPublicId securityCode deviceId of
        Inl err \<Rightarrow> (Inl err, s)
      | Inr i \<Rightarrow>
          (case enforceAccessRateLimit cf cy i clientAddress (appNow e) (snd s) of
             (Inl err, r) \<Rightarrow> (Inl err, (fst s, r))
           | (Inr _, r) \<Rightarrow>
               acquired cf cy f e
                 (bindR (verifyCredential cy (li_matchPublicId i) (li_securityCode i) (fst s)) (\<lambda>credential.
                  loginTransaction cf cy f e credential i (fst s))) (fst s, r)))"

definition takeover ::
  "access_config \<Rightarrow> access_crypto \<Rightarrow> fresh_values \<Rightarrow> env \<Rightarrow> string \<Rightarrow> string \<Rightarrow> string \<Rightarrow> string \<Rightarrow> string \<Rightarrow> access_state
   \<Rightarrow> (access_error + created_session) \<times> access_state" where
  "takeover cf cy f e matchPublicId securityCode deviceId takeoverToken clientAddress s =
     (case bindR (normalizeLoginInput matchPublicId securityCode deviceId) (\<lambda>i.
           bindR (verifyTakeoverToken cf cy takeoverToken (appNow e)) (\<lambda>challenge.
           if tp_matchPublicId challenge \<noteq> li_matchPublicId i \<or> tp_deviceId challenge \<noteq> li_deviceId i
           then Inl InvalidTakeover else Inr (i, challenge))) of
        Inl err \<Rightarrow> (Inl err, s)
      | Inr (i, challenge) \<Rightarrow>
          (case enforceAccessRateLimit cf cy i clientAddress (appNow e) (snd s) of
             (Inl err, r) \<Rightarrow> (Inl err, (fst s, r))
           | (Inr _, r) \<Rightarrow>
               acquired cf cy f e
                 (bindR (verifyCredential cy (li_matchPublicId i) (li_securityCode i) (fst s)) (\<lambda>credential.
                  if vc_accessCodeId credential \<noteq> tp_accessCodeId challenge \<or> vc_matchId credential \<noteq> tp_matchId challenge
                  then Inl InvalidTakeover
                  else takeoverTransaction cf cy f e challenge credential i (fst s))) (fst s, r)))"

section \<open>Resolution and logout\<close>

record validated_session = match_session_identity +
  vs_accessCodeId :: uuid
  vs_matchId :: uuid

definition sessionByHash :: "string \<Rightarrow> db \<Rightarrow> match_session_row option" where
  "sessionByHash tokenHash d = List.find (\<lambda>s. ms_tokenHash s = tokenHash) (matchSessions d)"

definition touchSession :: "uuid \<Rightarrow> time \<Rightarrow> db \<Rightarrow> db" where
  "touchSession sid now d = d\<lparr> matchSessions := updWhere (\<lambda>s. ms_active s \<and> ms_id s = sid \<and> ms_revokedAt s = None)
     (\<lambda>s. s\<lparr>ms_lastSeenAt := Some now\<rparr>) (matchSessions d) \<rparr>"

definition resolveSession ::
  "access_config \<Rightarrow> access_crypto \<Rightarrow> string \<Rightarrow> time \<Rightarrow> db \<Rightarrow> validated_session option \<times> db" where
  "resolveSession cf cy sessionToken now d =
     (if \<not> cf_legacyAccessEnabled cf \<or> \<not> SESSION_TOKEN_PATTERN sessionToken then (None, d)
      else let tokenHash = hashSessionToken cf cy sessionToken in
      case sessionByHash tokenHash d of
        None \<Rightarrow> (None, d)
      | Some initial \<Rightarrow>
          if lockAccessCode (ms_accessCodeId initial) d = None then (None, d)
          else let d1 = deactivateStaleSessions (ms_accessCodeId initial) now d in
          case List.find (\<lambda>s. liveSession now s \<and> ms_tokenHash s = tokenHash) (matchSessions d1) of
            None \<Rightarrow> (None, d1)
          | Some s \<Rightarrow>
              if map_option ms_id (findCurrentOwner (ms_accessCodeId s) now d1) \<noteq> Some (ms_id s) then (None, d1)
              else if length (filter (\<lambda>x. ms_active x \<and> ms_id x = ms_id s \<and> ms_revokedAt x = None) (matchSessions d1)) \<noteq> 1
              then (None, touchSession (ms_id s) now d1)
              else case (ms_expiresAt s, getMatch (ms_matchId s) d1) of
                (Some t, Some m) \<Rightarrow>
                  (Some \<lparr> mi_deviceId = ms_deviceId s, mi_expiresAt = t, mi_matchPublicId = m_publicId m,
                     mi_judgeSlot = ms_judgeSlot s, mi_role = ms_role s, mi_sessionId = ms_id s,
                     vs_accessCodeId = ms_accessCodeId s, vs_matchId = ms_matchId s \<rparr>,
                   touchSession (ms_id s) now d1)
              | _ \<Rightarrow> (None, d1))"

definition revokeSession ::
  "access_config \<Rightarrow> access_crypto \<Rightarrow> string \<Rightarrow> time \<Rightarrow> db \<Rightarrow> uuid list \<times> db" where
  "revokeSession cf cy sessionToken now d =
     (if \<not> SESSION_TOKEN_PATTERN sessionToken then ([], d)
      else let tokenHash = hashSessionToken cf cy sessionToken in
      case sessionByHash tokenHash d of
        None \<Rightarrow> ([], d)
      | Some initial \<Rightarrow>
          if lockAccessCode (ms_accessCodeId initial) d = None then ([], d)
          else let d1 = deactivateStaleSessions (ms_accessCodeId initial) now d in
          case List.find (\<lambda>s. ms_active s \<and> ms_revokedAt s = None \<and> ms_tokenHash s = tokenHash) (matchSessions d1) of
            None \<Rightarrow> ([], d1)
          | Some s \<Rightarrow>
              ([ms_id s], sessionAudit (ms_matchId s) (ms_id s) [(''action'', JStr ''LOGOUT'')]
                 (revokeSessionRecord (ms_id s) now d1)))"

section \<open>Requests\<close>

text \<open>The cookie of a request is the session token it carries. A new session closes the one of the
  same browser.\<close>

definition revokePreviousBrowserSession ::
  "access_config \<Rightarrow> access_crypto \<Rightarrow> string option \<Rightarrow> string \<Rightarrow> time \<Rightarrow> db \<Rightarrow> uuid list \<times> db" where
  "revokePreviousBrowserSession cf cy cookie newSessionToken now d =
     (case cookie of
        None \<Rightarrow> ([], d)
      | Some previous \<Rightarrow> if previous \<noteq> newSessionToken then revokeSession cf cy previous now d else ([], d))"

datatype match_access_request =
    LoginRequest string string string
  | TakeoverRequest string string string string
  | LogoutRequest
  | SessionRequest

datatype match_access_answer =
    AnswerSession match_session_identity string "uuid list"
  | AnswerCleared "uuid list"
  | AnswerIdentity match_session_identity

definition afterCreation ::
  "access_config \<Rightarrow> access_crypto \<Rightarrow> string option \<Rightarrow> time \<Rightarrow> (access_error + created_session) \<times> access_state
   \<Rightarrow> (access_error + match_access_answer) \<times> access_state" where
  "afterCreation cf cy cookie now outcome =
     (case outcome of
        (Inl err, s) \<Rightarrow> (Inl err, s)
      | (Inr c, (d, r)) \<Rightarrow>
          (case revokePreviousBrowserSession cf cy cookie (cs_sessionToken c) now d of
             (closed, d') \<Rightarrow> (Inr (AnswerSession (cs_session c) (cs_sessionToken c) (cs_disconnected c @ closed)), (d', r))))"

definition matchSessionGuard ::
  "access_config \<Rightarrow> access_crypto \<Rightarrow> string option \<Rightarrow> time \<Rightarrow> db \<Rightarrow> (access_error + validated_session) \<times> db" where
  "matchSessionGuard cf cy cookie now d =
     (case cookie of
        None \<Rightarrow> (Inl SessionRequired, d)
      | Some t \<Rightarrow> (case resolveSession cf cy t now d of
          (None, d') \<Rightarrow> (Inl SessionRequired, d')
        | (Some v, d') \<Rightarrow> (Inr v, d')))"

fun matchAccess ::
  "access_config \<Rightarrow> access_crypto \<Rightarrow> fresh_values \<Rightarrow> env \<Rightarrow> string option \<Rightarrow> string \<Rightarrow> match_access_request \<Rightarrow> access_state
   \<Rightarrow> (access_error + match_access_answer) \<times> access_state" where
  "matchAccess cf cy f e cookie clientAddress (LoginRequest mid code device) s =
     (if \<not> cf_legacyAccessEnabled cf then (Inl LegacyAccessDisabled, s)
      else afterCreation cf cy cookie (appNow e) (login cf cy f e mid code device clientAddress s))"
| "matchAccess cf cy f e cookie clientAddress (TakeoverRequest mid code device token) s =
     (if \<not> cf_legacyAccessEnabled cf then (Inl LegacyAccessDisabled, s)
      else afterCreation cf cy cookie (appNow e) (takeover cf cy f e mid code device token clientAddress s))"
| "matchAccess cf cy f e cookie clientAddress LogoutRequest s =
     (case cookie of
        None \<Rightarrow> (Inr (AnswerCleared []), s)
      | Some t \<Rightarrow> (case revokeSession cf cy t (appNow e) (fst s) of
          (closed, d') \<Rightarrow> (Inr (AnswerCleared closed), (d', snd s))))"
| "matchAccess cf cy f e cookie clientAddress SessionRequest s =
     (case matchSessionGuard cf cy cookie (appNow e) (fst s) of
        (Inl err, d') \<Rightarrow> (Inl err, (d', snd s))
      | (Inr v, d') \<Rightarrow>
          if \<not> cf_legacyAccessEnabled cf then (Inl LegacyAccessDisabled, (d', snd s))
          else (Inr (AnswerIdentity (match_session_identity.truncate v)), (d', snd s)))"

section \<open>The table of sessions\<close>

definition openSession :: "match_session_row \<Rightarrow> bool" where
  "openSession s \<longleftrightarrow> ms_active s \<and> ms_revokedAt s = None"

interpretation ms: session_table ms_id ms_accessCodeId ms_tokenHash openSession
  "\<lambda>_ s. s\<lparr>ms_active := False\<rparr>" "\<lambda>t s. s\<lparr> ms_active := False, ms_revokedAt := Some t \<rparr>"
  "\<lambda>t s. s\<lparr>ms_lastSeenAt := Some t\<rparr>" matchSessionConflict
  by unfold_locales (auto simp: openSession_def matchSessionConflict_def)

end
