(* ===== verification/Redis_Facts.thy ===== *)
theory Redis_Facts
  imports Match_Access Official_Access
begin

text \<open>
  The rate limits of the access services: within one window no key passes more often than twice its
  limit, whatever else is counted in between. (Counting restarts when a counter expires, so a window that
  started earlier may end inside the interval and a second one begin.)
\<close>

text \<open>How many attempts on \<open>key\<close> can still pass up to the time \<open>T\<close>.\<close>

definition allowance :: "int \<Rightarrow> time \<Rightarrow> string \<Rightarrow> time \<Rightarrow> redis \<Rightarrow> int" where
  "allowance L T key now r =
     (case redisEntry now key r of
        None \<Rightarrow> max 0 L
      | Some (n, e) \<Rightarrow>
          max 0 (L - max n 0) + (case e of None \<Rightarrow> 0 | Some t \<Rightarrow> if t < T then max 0 L else 0))"

lemma allowance_bounds: "0 \<le> allowance L T key now r \<and> allowance L T key now r \<le> 2 * max 0 L"
  by (auto simp: allowance_def split: option.split)

lemma allowance_time:
  assumes "now \<le> now'" "now' < T"
  shows "allowance L T key now' r \<le> allowance L T key now r"
  using assms by (auto simp: allowance_def redisEntry_def split: option.split prod.split)

lemma increment_allowance:
  assumes inc: "incrementWithExpiry j W now r = (c, r')" and T: "T \<le> now + W * 1000" "now < T"
  shows "allowance L T key now r' + (if j = key \<and> (\<exists>n. c = Some n \<and> n \<le> L) then 1 else 0) \<le> allowance L T key now r"
proof (cases "j = key")
  case False
  then have "redisEntry now key r' = redisEntry now key r"
    using inc by (auto simp: incrementWithExpiry_def redisEntry_def Let_def split: prod.splits)
  with False show ?thesis by (simp add: allowance_def)
next
  case True
  show ?thesis
  proof (cases "redisEntry now key r")
    case None
    with True inc T show ?thesis
      by (auto simp: incrementWithExpiry_def allowance_def redisEntry_def [of now key r'] Let_def safeInteger_def)
  next
    case (Some x)
    obtain n e where x: "x = (n, e)" by (cases x)
    have e: "\<And>t. e = Some t \<Longrightarrow> now < t"
      using Some x by (auto simp: redisEntry_def split: option.splits if_splits)
    have r': "redisEntry now key r' = Some (n + 1, if n = 0 then Some (now + W * 1000) else e)"
      and c: "c = (if \<not> safeInteger (n + 1) \<or> n + 1 < 1 then None else Some (n + 1))"
      using inc True Some x e T by (auto simp: incrementWithExpiry_def redisEntry_def [of now key r'] Let_def split: option.split if_splits)
    show ?thesis using Some x r' c T by (auto simp: allowance_def True split: option.splits if_splits)
  qed
qed

text \<open>An attempt as its two keys and its time; the answers of the limiter to a sequence of attempts.\<close>

fun limited :: "access_config \<Rightarrow> (string \<times> string \<times> time) list \<Rightarrow> redis \<Rightarrow> (access_error + unit) list" where
  "limited cf [] r = []"
| "limited cf ((identityKey, ipKey, now) # as) r =
     (case rateLimit cf identityKey ipKey now r of (x, r') \<Rightarrow> x # limited cf as r')"

lemma rateLimit_allowance:
  assumes "rateLimit cf i a now r = (x, r')" and "T \<le> now + cf_windowSeconds cf * 1000" "now < T"
  shows "allowance (cf_identityLimit cf) T key now r' + (if i = key \<and> x = Inr () then 1 else 0) \<le> allowance (cf_identityLimit cf) T key now r"
    and "allowance (cf_ipLimit cf) T key now r' + (if a = key \<and> x = Inr () then 1 else 0) \<le> allowance (cf_ipLimit cf) T key now r"
proof -
  obtain m r1 where 1: "incrementWithExpiry i (cf_windowSeconds cf) now r = (m, r1)" by fastforce
  obtain n r2 where 2: "incrementWithExpiry a (cf_windowSeconds cf) now r1 = (n, r2)" by fastforce
  have x: "r' = r2" "x = Inr () \<Longrightarrow> (\<exists>k. m = Some k \<and> k \<le> cf_identityLimit cf) \<and> (\<exists>k. n = Some k \<and> k \<le> cf_ipLimit cf)"
    using assms(1) 1 2 by (auto simp: rateLimit_def split: option.splits if_splits)
  note inc = increment_allowance [OF 1 assms(2,3)] increment_allowance [OF 2 assms(2,3)]
  show "allowance (cf_identityLimit cf) T key now r' + (if i = key \<and> x = Inr () then 1 else 0) \<le> allowance (cf_identityLimit cf) T key now r"
    using x inc(1) [of "cf_identityLimit cf" key] inc(2) [of "cf_identityLimit cf" key] by (auto split: if_splits)
  show "allowance (cf_ipLimit cf) T key now r' + (if a = key \<and> x = Inr () then 1 else 0) \<le> allowance (cf_ipLimit cf) T key now r"
    using x inc(1) [of "cf_ipLimit cf" key] inc(2) [of "cf_ipLimit cf" key] by (auto split: if_splits)
qed

definition passes :: "(string \<times> string \<times> time \<Rightarrow> bool) \<Rightarrow> access_config \<Rightarrow> (string \<times> string \<times> time) list \<Rightarrow> redis \<Rightarrow> nat" where
  "passes p cf as r = length (filter (\<lambda>(a, x). p a \<and> x = Inr ()) (zip as (limited cf as r)))"

lemma passes_allowance:
  assumes "sorted (map (snd \<circ> snd) as)" "\<forall>a \<in> set as. now \<le> snd (snd a) \<and> snd (snd a) < T"
    and "T \<le> now + cf_windowSeconds cf * 1000"
  shows "int (passes (\<lambda>a. fst a = key) cf as r) \<le> allowance (cf_identityLimit cf) T key now r \<and>
    int (passes (\<lambda>a. fst (snd a) = key) cf as r) \<le> allowance (cf_ipLimit cf) T key now r"
  using assms
proof (induction as arbitrary: now r)
  case Nil
  show ?case using allowance_bounds by (simp add: passes_def)
next
  case (Cons a as)
  obtain i p t where a: "a = (i, p, t)" by (cases a)
  obtain x r' where x: "rateLimit cf i p t r = (x, r')" by fastforce
  have t: "now \<le> t" "t < T" "T \<le> t + cf_windowSeconds cf * 1000" using Cons.prems a by auto
  have IH: "int (passes (\<lambda>a. fst a = key) cf as r') \<le> allowance (cf_identityLimit cf) T key t r'"
    "int (passes (\<lambda>a. fst (snd a) = key) cf as r') \<le> allowance (cf_ipLimit cf) T key t r'"
    using Cons.IH [of t r'] Cons.prems a t by auto
  have split: "passes q cf (a # as) r = (if q a \<and> x = Inr () then 1 else 0) + passes q cf as r'" for q
    by (simp add: passes_def a x)
  show ?case
    using IH rateLimit_allowance [OF x t(3,2), of key] allowance_time [OF t(1,2), of "cf_identityLimit cf" key r]
      allowance_time [OF t(1,2), of "cf_ipLimit cf" key r]
    unfolding split by (auto simp: a split: if_splits)
qed

text \<open>C20: of any sequence of attempts within one window of time, at most twice the identity limit pass with
  the same credential key and at most twice the address limit with the same address key, whatever other
  keys are counted in between and whatever the counters held before. (A window that began earlier may end
  inside the interval, so that one limit would be too strong.)\<close>

theorem attempts_bounded_per_window:
  assumes "sorted (map (snd \<circ> snd) as)"
    and "\<forall>a \<in> set as. start \<le> snd (snd a) \<and> snd (snd a) < start + cf_windowSeconds cf * 1000"
  shows "passes (\<lambda>a. fst a = key) cf as r \<le> 2 * nat (cf_identityLimit cf) \<and>
    passes (\<lambda>a. fst (snd a) = key) cf as r \<le> 2 * nat (cf_ipLimit cf)"
proof -
  let ?T = "start + cf_windowSeconds cf * 1000"
  have "int (passes (\<lambda>a. fst a = key) cf as r) \<le> 2 * max 0 (cf_identityLimit cf)"
    "int (passes (\<lambda>a. fst (snd a) = key) cf as r) \<le> 2 * max 0 (cf_ipLimit cf)"
    using passes_allowance [OF assms order_refl, of key r] allowance_bounds [of "cf_identityLimit cf" ?T key start r]
      allowance_bounds [of "cf_ipLimit cf" ?T key start r] by linarith+
  then show ?thesis by linarith
qed

end
