(* ===== verification/Access_Facts.thy ===== *)
theory Access_Facts
  imports Redis_Facts
begin

text \<open>
  What the access services guarantee over every sequence of requests: one open session per credential,
  closed for good once it is closed, and takeovers that close only the session they were shown.
\<close>

section \<open>Every request keeps the table sound\<close>

lemma sessionAudit_fields [simp]:
  "matchSessions (sessionAudit mid sid md d) = matchSessions d" "accessCodes (sessionAudit mid sid md d) = accessCodes d"
  "matches (sessionAudit mid sid md d) = matches d" "tournaments (sessionAudit mid sid md d) = tournaments d"
  "assignments (sessionAudit mid sid md d) = assignments d"
  by (simp_all add: sessionAudit_def addAudit_def)

lemma deactivate_sound: "ms.sound (matchSessions d) (matchSessions (deactivateStaleSessions cid now d))"
  by (simp add: deactivateStaleSessions_def ms.sound_update)

lemma revokeRecord_sound: "ms.sound (matchSessions d) (matchSessions (revokeSessionRecord sid now d))"
  by (simp add: revokeSessionRecord_def ms.sound_update)

lemma touch_sound: "ms.sound (matchSessions d) (matchSessions (touchSession sid now d))"
  by (simp add: touchSession_def ms.sound_update)

lemma create_sound:
  "createSessionRecord newId c dev h e x action d = Inr (i, d') \<Longrightarrow> ms.sound (matchSessions d) (matchSessions d')"
  by (auto simp: createSessionRecord_def Let_def ms.sound_insert split: prod.splits if_splits)

lemmas table_sound = deactivate_sound revokeRecord_sound touch_sound create_sound

text \<open>The tables a request reads and never writes.\<close>

definition sameMatches :: "db \<Rightarrow> db \<Rightarrow> bool" where
  "sameMatches d d' \<longleftrightarrow> accessCodes d' = accessCodes d \<and> matches d' = matches d \<and> tournaments d' = tournaments d \<and>
     assignments d' = assignments d"

lemma sameMatches_refl [simp]: "sameMatches d d"
  by (simp add: sameMatches_def)

lemma sameMatches_trans: "sameMatches a b \<Longrightarrow> sameMatches b c \<Longrightarrow> sameMatches a c"
  by (simp add: sameMatches_def)

lemma sessions_same [simp]:
  "sameMatches d (deactivateStaleSessions cid now d)" "sameMatches d (revokeSessionRecord sid now d)"
  "sameMatches d (touchSession sid now d)" "sameMatches d (sessionAudit mid sid md d)"
  by (simp_all add: sameMatches_def deactivateStaleSessions_def revokeSessionRecord_def touchSession_def)

lemma create_same:
  "createSessionRecord newId c dev h e x action d = Inr (i, d') \<Longrightarrow> sameMatches d d'"
  by (auto simp: createSessionRecord_def sameMatches_def Let_def split: prod.splits if_splits)

definition goodStep :: "db \<Rightarrow> db \<Rightarrow> bool" where
  "goodStep d d' \<longleftrightarrow> ms.sound (matchSessions d) (matchSessions d') \<and> sameMatches d d'"

lemma goodStep_refl [simp]: "goodStep d d"
  by (simp add: goodStep_def)

lemma goodStep_trans: "goodStep a b \<Longrightarrow> goodStep b c \<Longrightarrow> goodStep a c"
  by (auto simp: goodStep_def intro: ms.sound_trans sameMatches_trans)

lemma goodStep_audit [simp]: "goodStep d (sessionAudit mid sid md d') = goodStep d d'"
  by (simp add: goodStep_def sameMatches_def)

lemma good_operations [simp]:
  "goodStep d (deactivateStaleSessions cid now d)" "goodStep d (revokeSessionRecord sid now d)"
  "goodStep d (touchSession sid now d)"
  by (simp_all add: goodStep_def table_sound)

lemma good_after:
  "goodStep d d' \<Longrightarrow> goodStep d (deactivateStaleSessions cid now d')"
  "goodStep d d' \<Longrightarrow> goodStep d (revokeSessionRecord sid now d')"
  "goodStep d d' \<Longrightarrow> goodStep d (touchSession sid now d')"
  by (blast intro: goodStep_trans good_operations)+

lemma good_create: "createSessionRecord newId c dev h e x action d = Inr (i, d') \<Longrightarrow> goodStep d d'"
  by (simp add: goodStep_def create_same create_sound)

lemma good_revoke: "goodStep d (snd (revokeSession cf cy t now d))"
  by (auto simp: revokeSession_def Let_def split: option.split intro!: good_after)

lemma good_resolve: "goodStep d (snd (resolveSession cf cy t now d))"
  by (auto simp: resolveSession_def Let_def split: option.split intro!: good_after)

lemma good_login:
  "loginTransaction cf cy f e c i d = Inr (a, d') \<Longrightarrow> goodStep d d'"
  by (auto simp: loginTransaction_def Let_def split: option.splits prod.splits
      intro!: good_after dest!: good_create elim: goodStep_trans [rotated])

text \<open>The two ways a takeover transaction ends: a conflict that only closed stale sessions, or a new
  session after the observed one, if it is still the owner, was revoked.\<close>

lemma takeover_cases:
  assumes "takeoverTransaction cf cy f e ch c i d = Inr (a, d')"
  obtains (conflict) locked s where "lockAndReverifyCredential cy c (li_securityCode i) d = Inr locked"
      "findCurrentOwner (vc_accessCodeId locked) (appNow e) (deactivateStaleSessions (vc_accessCodeId locked) (appNow e) d) = Some s"
      "ms_id s \<noteq> tp_observedSessionId ch" "a = AcquisitionConflict (ownershipConflict locked (ms_id s) (li_deviceId i))"
      "d' = deactivateStaleSessions (vc_accessCodeId locked) (appNow e) d"
    | (created) locked owner session d2 where "lockAndReverifyCredential cy c (li_securityCode i) d = Inr locked"
      "findCurrentOwner (vc_accessCodeId locked) (appNow e) (deactivateStaleSessions (vc_accessCodeId locked) (appNow e) d) = owner"
      "\<forall>s. owner = Some s \<longrightarrow> ms_id s = tp_observedSessionId ch"
      "d2 = (case owner of None \<Rightarrow> deactivateStaleSessions (vc_accessCodeId locked) (appNow e) d
         | Some s \<Rightarrow> revokeSessionRecord (ms_id s) (appNow e) (deactivateStaleSessions (vc_accessCodeId locked) (appNow e) d))"
      "createSessionRecord (fv_sessionId f) locked (li_deviceId i) (hashSessionToken cf cy (fv_token f)) e
         (sessionExpiry cf (appNow e)) ''TAKEOVER'' d2 = Inr (session, d')"
      "a = AcquisitionCreated (map_option ms_id owner) session"
proof -
  obtain locked where l: "lockAndReverifyCredential cy c (li_securityCode i) d = Inr locked"
    using assms by (auto simp: takeoverTransaction_def)
  show thesis
  proof (cases "findCurrentOwner (vc_accessCodeId locked) (appNow e) (deactivateStaleSessions (vc_accessCodeId locked) (appNow e) d)")
    case None
    with assms l show thesis by (auto simp: takeoverTransaction_def Let_def intro: created [OF l None _ refl, simplified])
  next
    case (Some s)
    show thesis
    proof (cases "ms_id s = tp_observedSessionId ch")
      case True
      with assms l Some show thesis
        by (auto simp: takeoverTransaction_def Let_def intro: created [OF l Some _ refl, simplified])
    next
      case False
      with assms l Some show thesis by (intro conflict [OF l Some False]) (auto simp: takeoverTransaction_def Let_def)
    qed
  qed
qed

lemma good_takeover:
  assumes "takeoverTransaction cf cy f e ch c i d = Inr (a, d')"
  shows "goodStep d d'"
  using assms
proof (cases rule: takeover_cases)
  case (created locked owner session d2)
  have "goodStep d d2" by (auto simp: created(4) split: option.split intro!: good_after)
  with good_create [OF created(5)] show ?thesis by (blast intro: goodStep_trans)
qed simp

lemma good_acquired:
  assumes "\<And>a d'. res = Inr (a, d') \<Longrightarrow> goodStep (fst s) d'"
  shows "goodStep (fst s) (fst (snd (acquired cf cy f e res s)))"
  using assms by (auto simp: acquired_def split: sum.split session_acquisition.split)

lemma good_service:
  "goodStep (fst s) (fst (snd (login cf cy f e mid code dev addr s)))"
  "goodStep (fst s) (fst (snd (takeover cf cy f e mid code dev tok addr s)))"
  by (auto simp: login_def takeover_def split: sum.split prod.split
      intro!: good_acquired [where s = "(fst s, r)" for r, simplified] elim!: good_login good_takeover split: if_splits)

lemma good_creation:
  "goodStep (fst s) (fst (snd out)) \<Longrightarrow> goodStep (fst s) (fst (snd (afterCreation cf cy cookie now out)))"
  using good_revoke by (auto simp: afterCreation_def revokePreviousBrowserSession_def split: prod.split sum.split option.split if_splits
      intro: goodStep_trans) (metis goodStep_trans snd_conv)

lemma good_request: "goodStep (fst s) (fst (snd (matchAccess cf cy f e cookie addr q s)))"
proof (cases q)
  case LogoutRequest
  then show ?thesis using good_revoke by (auto split: option.split prod.split) (metis snd_conv)
next
  case SessionRequest
  then show ?thesis using good_resolve
    by (auto simp: matchSessionGuard_def split: option.split prod.split sum.split) (metis snd_conv)+
qed (auto intro!: good_creation good_service)

section \<open>Runs of requests\<close>

type_synonym match_access_command = "fresh_values \<times> env \<times> string option \<times> string \<times> match_access_request"

definition matchAccessStep :: "access_config \<Rightarrow> access_crypto \<Rightarrow> match_access_command \<Rightarrow> access_state \<Rightarrow> access_state" where
  "matchAccessStep cf cy c s = (case c of (f, e, cookie, addr, q) \<Rightarrow> snd (matchAccess cf cy f e cookie addr q s))"

lemma good_run: "goodStep (fst s) (fst (fold (matchAccessStep cf cy) cs s))"
proof (induction cs arbitrary: s)
  case (Cons c cs)
  have "goodStep (fst s) (fst (matchAccessStep cf cy c s))"
    by (auto simp: matchAccessStep_def good_request split: prod.split)
  with Cons.IH [of "matchAccessStep cf cy c s"] show ?case by (auto intro: goodStep_trans)
qed simp

lemma liveSession_open: "liveSession now s \<Longrightarrow> openSession s"
  by (simp add: liveSession_def openSession_def)

lemma deactivate_rows:
  "s \<in> set (matchSessions (deactivateStaleSessions cid now d)) \<Longrightarrow> openSession s \<Longrightarrow> s \<in> set (matchSessions d)"
  "s \<in> set (matchSessions d) \<Longrightarrow> liveSession now s \<Longrightarrow> s \<in> set (matchSessions (deactivateStaleSessions cid now d))"
  by (auto simp: deactivateStaleSessions_def updWhere_def openSession_def liveSession_def staleSession_def
      split: if_splits option.splits)

lemma resolve_SomeD:
  assumes "resolveSession cf cy t now d = (Some v, d')"
  obtains s where "s \<in> set (matchSessions d)" "liveSession now s" "ms_tokenHash s = hashSessionToken cf cy t"
    "ms_id s = mi_sessionId v" "ms_accessCodeId s = vs_accessCodeId v"
  using assms
  by (auto simp: resolveSession_def Let_def split: if_splits option.splits dest!: find_SomeD
      dest: deactivate_rows(1) [OF _ liveSession_open])

text \<open>C14: in a table with at most one open session per access code, after every sequence of requests (logins,
  takeovers, logouts and session checks) this is still so, and two session tokens that resolve to the same
  access code at the same time belong to the same session.\<close>

theorem one_session_per_access_code:
  assumes "ms.exclusive (matchSessions d)" and "(d', r') = fold (matchAccessStep cf cy) cs (d, r)"
    and "resolveSession cf cy t1 now d' = (Some v1, d1)" "resolveSession cf cy t2 now d' = (Some v2, d2)"
    and "vs_accessCodeId v1 = vs_accessCodeId v2"
  shows "ms.exclusive (matchSessions d') \<and> mi_sessionId v1 = mi_sessionId v2 \<and>
    hashSessionToken cf cy t1 = hashSessionToken cf cy t2"
proof -
  have ex: "ms.exclusive (matchSessions d')"
    using good_run [of "(d, r)" cf cy cs] assms(1) by (simp add: goodStep_def ms.sound_def assms(2) [symmetric])
  obtain s1 where s1: "s1 \<in> set (matchSessions d')" "liveSession now s1" "ms_tokenHash s1 = hashSessionToken cf cy t1"
    "ms_id s1 = mi_sessionId v1" "ms_accessCodeId s1 = vs_accessCodeId v1" using resolve_SomeD [OF assms(3)] .
  obtain s2 where s2: "s2 \<in> set (matchSessions d')" "liveSession now s2" "ms_tokenHash s2 = hashSessionToken cf cy t2"
    "ms_id s2 = mi_sessionId v2" "ms_accessCodeId s2 = vs_accessCodeId v2" using resolve_SomeD [OF assms(4)] .
  have "s1 = s2"
    using ms.exclusive_owner [OF ex s1(1) s2(1)] s1 s2 assms(5) by (auto dest: liveSession_open)
  with s1 s2 ex show ?thesis by simp
qed

lemma revoke_closes:
  assumes "ms.exclusive (matchSessions d)" "SESSION_TOKEN_PATTERN t" "sessionByHash (hashSessionToken cf cy t) d = Some x"
    and "lockAccessCode (ms_accessCodeId x) d \<noteq> None" and "s \<in> set (matchSessions (snd (revokeSession cf cy t now d)))"
    and "ms_tokenHash s = hashSessionToken cf cy t"
  shows "\<not> openSession s"
proof (cases "List.find (\<lambda>s. ms_active s \<and> ms_revokedAt s = None \<and> ms_tokenHash s = hashSessionToken cf cy t)
    (matchSessions (deactivateStaleSessions (ms_accessCodeId x) now d))")
  case None
  with assms(2-5) have "s \<in> set (matchSessions (deactivateStaleSessions (ms_accessCodeId x) now d))"
    by (auto simp: revokeSession_def Let_def)
  with None assms(6) show ?thesis by (auto simp: find_None_iff openSession_def)
next
  case (Some y)
  let ?d1 = "deactivateStaleSessions (ms_accessCodeId x) now d"
  have ex: "ms.exclusive (matchSessions ?d1)" using deactivate_sound assms(1) by (auto simp: ms.sound_def)
  have "s \<in> set (matchSessions (revokeSessionRecord (ms_id y) now ?d1))"
    using assms(2-5) Some by (auto simp: revokeSession_def Let_def)
  then obtain z where z: "z \<in> set (matchSessions ?d1)"
    "s = (if ms_active z \<and> ms_id z = ms_id y then z\<lparr> ms_active := False, ms_revokedAt := Some now \<rparr> else z)"
    by (auto simp: revokeSessionRecord_def elim: in_set_updWhereE)
  have "z = y" using z Some assms(6) by (intro ms.exclusive_token [OF ex]) (auto dest!: find_SomeD split: if_splits)
  with z show ?thesis by (auto simp: openSession_def)
qed

text \<open>C19: once a session was logged out with its token, no session check with that token succeeds any more,
  after whatever sequence of requests and at whatever time.\<close>

theorem logged_out_session_stays_closed:
  assumes "ms.exclusive (matchSessions d)" and "sessionByHash (hashSessionToken cf cy t) d = Some x"
    and "lockAccessCode (ms_accessCodeId x) d \<noteq> None"
    and "(closed, d1) = revokeSession cf cy t now d" and "(d2, r2) = fold (matchAccessStep cf cy) cs (d1, r1)"
  shows "fst (resolveSession cf cy t now2 d2) = None"
proof (rule ccontr)
  assume "fst (resolveSession cf cy t now2 d2) \<noteq> None"
  then obtain v d3 where v: "resolveSession cf cy t now2 d2 = (Some v, d3)" by (cases "resolveSession cf cy t now2 d2") auto
  have p: "SESSION_TOKEN_PATTERN t" using v by (auto simp: resolveSession_def split: if_splits)
  obtain s where s: "s \<in> set (matchSessions d2)" "liveSession now2 s" "ms_tokenHash s = hashSessionToken cf cy t"
    using resolve_SomeD [OF v] by metis
  have d1: "d1 = snd (revokeSession cf cy t now d)" using assms(4) by (metis snd_conv)
  have g: "goodStep d d1" "goodStep d1 d2"
    using good_revoke [of d cf cy t now] good_run [of "(d1, r1)" cf cy cs] assms(5) by (metis d1, metis fst_conv)
  have x: "x \<in> set (matchSessions d)" "ms_tokenHash x = hashSessionToken cf cy t"
    using assms(2) by (auto simp: sessionByHash_def dest!: find_SomeD)
  obtain y where y: "y \<in> set (matchSessions d1)" "ms.evolves x y"
    using g(1) x(1) ms.later_row unfolding goodStep_def ms.sound_def by metis
  have "\<not> openSession y"
    using revoke_closes [OF assms(1) p assms(2,3), of y now] x y d1 by (simp add: ms.evolves_def)
  moreover have "ms.exclusive (matchSessions d2)" "ms.later (matchSessions d1) (matchSessions d2)"
    using g assms(1) by (auto simp: goodStep_def ms.sound_def)
  ultimately have "\<not> openSession s"
    using ms.closed_stays_closed y s x by (metis ms.evolves_def)
  with s(2) show False by (blast dest: liveSession_open)
qed

section \<open>Takeovers\<close>

lemma create_keeps:
  "createSessionRecord newId c dev h e x action d = Inr (i, d') \<Longrightarrow> set (matchSessions d) \<subseteq> set (matchSessions d')"
  by (auto simp: createSessionRecord_def Let_def split: prod.splits if_splits)

lemma revokeRecord_keeps:
  "s \<in> set (matchSessions d) \<Longrightarrow> ms_id s \<noteq> sid \<Longrightarrow> s \<in> set (matchSessions (revokeSessionRecord sid now d))"
  by (auto simp: revokeSessionRecord_def updWhere_def)

lemma takeoverTransaction_keeps:
  assumes "takeoverTransaction cf cy f e ch c i d = Inr (a, d')" "s \<in> set (matchSessions d)" "liveSession (appNow e) s"
    and "ms_id s \<noteq> tp_observedSessionId ch"
  shows "s \<in> set (matchSessions d')"
  using assms(1)
proof (cases rule: takeover_cases)
  case (conflict locked s')
  with assms deactivate_rows(2) show ?thesis by simp
next
  case (created locked owner session d2)
  have "s \<in> set (matchSessions d2)"
    using created(3) assms(4) deactivate_rows(2) [OF assms(2,3)]
    by (auto simp: created(4) split: option.split intro!: revokeRecord_keeps)
  with create_keeps [OF created(5)] show ?thesis by blast
qed

text \<open>C17: a takeover, successful or refused, leaves every live session as it is unless it is the very session
  its challenge names: a session that replaced the observed one in the meantime is never closed.\<close>

theorem takeover_closes_only_the_observed_session:
  assumes "s \<in> set (matchSessions (fst st))" and "liveSession (appNow e) s"
    and "\<And>ch. verifyTakeoverToken cf cy tok (appNow e) = Inr ch \<Longrightarrow> ms_id s \<noteq> tp_observedSessionId ch"
  shows "s \<in> set (matchSessions (fst (snd (takeover cf cy f e mid code dev tok addr st))))"
proof -
  have acq: "s \<in> set (matchSessions (fst (snd (acquired cf cy f e res (fst st, r)))))"
    if "\<And>a d'. res = Inr (a, d') \<Longrightarrow> s \<in> set (matchSessions d')" for res r
    using that assms(1) by (auto simp: acquired_def split: sum.split session_acquisition.split)
  show ?thesis
    using assms(1) unfolding takeover_def
    by (auto split: sum.split prod.split if_splits intro!: acq
        intro: takeoverTransaction_keeps [OF _ assms(1,2)] dest!: assms(3))
qed

lemma filter_key_one:
  assumes "distinct (map g xs)" "x \<in> set xs" "P x"
  shows "length (filter (\<lambda>y. P y \<and> g y = g x) xs) = 1"
  using assms
proof (induction xs)
  case (Cons y ys)
  show ?case
  proof (cases "x \<in> set ys")
    case True
    then have "g y \<noteq> g x" using Cons.prems(1) by auto
    with Cons True show ?thesis by auto
  next
    case False
    with Cons.prems have "y = x" "\<forall>z \<in> set ys. g z \<noteq> g x" by (auto simp: image_iff)
    with Cons.prems(3) show ?thesis by (auto simp: filter_empty_conv)
  qed
qed simp

lemma owner_of_live:
  assumes "ms.exclusive (matchSessions d)" "s \<in> set (matchSessions d)" "liveSession now s"
  shows "findCurrentOwner (ms_accessCodeId s) now d = Some s"
proof -
  obtain x where x: "findCurrentOwner (ms_accessCodeId s) now d = Some x"
    using assms(2,3) firstBy_None_iff unfolding findCurrentOwner_def by (metis (mono_tags, lifting) not_Some_eq)
  then have "x \<in> set (matchSessions d)" "ms_accessCodeId x = ms_accessCodeId s" "liveSession now x"
    by (auto simp: findCurrentOwner_def dest!: firstBy_SomeD)
  with ms.exclusive_owner [OF assms(1) _ assms(2)] assms(3) have "x = s" by (blast dest: liveSession_open)
  with x show ?thesis by simp
qed

lemma live_session_resolves:
  assumes "ms.exclusive (matchSessions d)" "s \<in> set (matchSessions d)" "liveSession now s"
    and "ms_tokenHash s = hashSessionToken cf cy t" "SESSION_TOKEN_PATTERN t" "cf_legacyAccessEnabled cf"
    and "lockAccessCode (ms_accessCodeId s) d \<noteq> None" "getMatch (ms_matchId s) d = Some m"
  shows "\<exists>v d'. resolveSession cf cy t now d = (Some v, d') \<and> mi_sessionId v = ms_id s \<and>
    vs_accessCodeId v = ms_accessCodeId s \<and> vs_matchId v = ms_matchId s \<and> mi_role v = ms_role s \<and> mi_judgeSlot v = ms_judgeSlot s"
proof -
  let ?d1 = "deactivateStaleSessions (ms_accessCodeId s) now d"
  have hash: "sessionByHash (hashSessionToken cf cy t) d = Some s"
    unfolding sessionByHash_def using assms(2,4) by (intro find_only) (auto intro: ms.exclusive_token [OF assms(1)])
  have s1: "s \<in> set (matchSessions ?d1)" using assms(2,3) by (rule deactivate_rows)
  have ex1: "ms.exclusive (matchSessions ?d1)" using deactivate_sound assms(1) by (auto simp: ms.sound_def)
  have found: "List.find (\<lambda>x. liveSession now x \<and> ms_tokenHash x = hashSessionToken cf cy t) (matchSessions ?d1) = Some s"
    using s1 assms(3,4) by (intro find_only) (auto intro: ms.exclusive_token [OF ex1])
  have "length (filter (\<lambda>x. (ms_active x \<and> ms_revokedAt x = None) \<and> ms_id x = ms_id s) (matchSessions ?d1)) = 1"
    using ex1 s1 assms(3) by (intro filter_key_one) (auto simp: ms.exclusive_def liveSession_def)
  then have one: "length (filter (\<lambda>x. ms_active x \<and> ms_id x = ms_id s \<and> ms_revokedAt x = None) (matchSessions ?d1)) = 1"
    by (simp add: conj_ac)
  have m: "getMatch (ms_matchId s) ?d1 = Some m" using assms(8) by (simp add: getMatch_def deactivateStaleSessions_def)
  obtain x where x: "ms_expiresAt s = Some x" using assms(3) by (auto simp: liveSession_def split: option.splits)
  show ?thesis
    using assms(5-7) by (simp add: resolveSession_def hash found owner_of_live [OF ex1 s1 assms(3)] one [simplified] m x)
qed

end
