(* ===== verification/Takeover_Facts.thy ===== *)
theory Takeover_Facts
  imports Access_Facts
begin

text \<open>
  The way around a refused login: the challenge in the refusal lets the same device take the session
  over, as long as the challenge lasts.
\<close>

text \<open>What the services rely on of their cryptography: decoding inverts encoding, base64url has its
  alphabet, digests and JSON texts are not empty, payloads are read back as they were written.\<close>

definition cryptoOk :: "access_crypto \<Rightarrow> bool" where
  "cryptoOk cy \<longleftrightarrow>
     (\<forall>x. cy_fromBase64url cy (cy_toBase64url cy x) = x \<and> isBase64url (cy_toBase64url cy x) \<and>
        (x \<noteq> [] \<longrightarrow> cy_toBase64url cy x \<noteq> [])) \<and>
     (\<forall>k m. cy_hmac cy k m \<noteq> []) \<and>
     (\<forall>p. cy_writeTakeover cy p \<noteq> [] \<and> cy_readTakeover cy (cy_writeTakeover cy p) = Some p) \<and>
     (\<forall>p. cy_writeChallenge cy p \<noteq> [] \<and> cy_readChallenge cy (cy_writeChallenge cy p) = Some p) \<and>
     (\<forall>p. cy_writeLink cy p \<noteq> [] \<and> cy_readLink cy (cy_writeLink cy p) = Some p)"

lemma base64url_no_dot: "isBase64url s \<Longrightarrow> CHR ''.'' \<notin> set s"
proof -
  have "CHR ''.'' \<notin> set base64urlAlphabet" by (simp add: base64urlAlphabet_def)
  then show "isBase64url s \<Longrightarrow> CHR ''.'' \<notin> set s" by (auto simp: isBase64url_def list_all_iff)
qed

lemma splitDots_signed:
  assumes "cryptoOk cy"
  shows "splitDots (signed cy k space (cy_toBase64url cy x)) =
    [cy_toBase64url cy x, cy_toBase64url cy (keyed cy k space (cy_toBase64url cy x))]"
  using assms by (simp add: signed_def splitDots_join splitDots_plain base64url_no_dot cryptoOk_def)

lemma verify_created_takeover:
  assumes cy: "cryptoOk cy" and len: "length (createTakeoverToken cf cy k nonce now) \<le> 2048"
    and shape: "cn_matchPublicId k \<noteq> []" "length (cn_matchPublicId k) \<le> 32" "cn_deviceId k \<noteq> []" "length (cn_deviceId k) \<le> 255"
      "NONCE_PATTERN nonce" "safeInteger (floorSeconds now + CHALLENGE_TTL_SECONDS)"
    and time: "floorSeconds now' < floorSeconds now + CHALLENGE_TTL_SECONDS"
  shows "\<exists>p. verifyTakeoverToken cf cy (createTakeoverToken cf cy k nonce now) now' = Inr p \<and>
    tp_accessCodeId p = cn_accessCodeId k \<and> tp_deviceId p = cn_deviceId k \<and> tp_matchId p = cn_matchId k \<and>
    tp_matchPublicId p = cn_matchPublicId k \<and> tp_observedSessionId p = cn_observedSessionId k"
proof -
  have k: "keyed cy sec sp v \<noteq> []" for sec sp v using cy by (simp add: cryptoOk_def keyed_def)
  show ?thesis
    using cy len shape time k
    by (auto simp: verifyTakeoverToken_def createTakeoverToken_def Let_def splitDots_signed cryptoOk_def isTakeoverPayload_def)
qed

lemma same_credentials:
  assumes "sameMatches d d'"
  shows "verifyCredential cy p code d' = verifyCredential cy p code d"
    and "lockAndReverifyCredential cy c code d' = lockAndReverifyCredential cy c code d"
    and "lockAccessCode cid d' = lockAccessCode cid d" and "getMatch mid d' = getMatch mid d"
proof -
  have eq: "accessCodes d' = accessCodes d" "matches d' = matches d" "tournaments d' = tournaments d" "assignments d' = assignments d"
    using assms by (simp_all add: sameMatches_def)
  show "verifyCredential cy p code d' = verifyCredential cy p code d"
    unfolding verifyCredential_def tournamentOpen_def eq ..
  show "lockAndReverifyCredential cy c code d' = lockAndReverifyCredential cy c code d"
    unfolding lockAndReverifyCredential_def lockAccessCode_def getMatch_def tournamentOpen_def eq ..
  show "lockAccessCode cid d' = lockAccessCode cid d" "getMatch mid d' = getMatch mid d"
    by (simp_all add: lockAccessCode_def getMatch_def eq)
qed

lemma locked_credential:
  assumes "lockAndReverifyCredential cy c code d = Inr l"
  shows "vc_accessCodeId l = vc_accessCodeId c \<and> vc_matchId l = vc_matchId c \<and> vc_matchPublicId l = vc_matchPublicId c \<and>
    lockAccessCode (vc_accessCodeId l) d \<noteq> None \<and> getMatch (vc_matchId l) d \<noteq> None"
proof -
  obtain x m where x: "lockAccessCode (vc_accessCodeId c) d = Some x" and m: "getMatch (ac_matchId x) d = Some m"
    and eq: "m_id m = vc_matchId c" "m_publicId m = vc_matchPublicId c"
      "l = \<lparr> vc_accessCodeId = ac_id x, vc_codeHash = ac_codeHash x, vc_matchId = m_id m, vc_matchPublicId = m_publicId m,
         vc_role = ac_role x \<rparr>"
    using assms by (auto simp: lockAndReverifyCredential_def split: if_splits)
  have "ac_id x = vc_accessCodeId c" using x by (auto simp: lockAccessCode_def dest!: find_SomeD)
  moreover have "m_id m = ac_matchId x" using getMatch_SomeD [OF m] by simp
  ultimately show ?thesis using x m eq by simp
qed

lemma verified_publicId:
  "verifyCredential cy p code d = Inr c \<Longrightarrow> vc_matchPublicId c = p"
  by (auto simp: verifyCredential_def Let_def split: option.splits if_splits dest!: find_SomeD)

text \<open>Once the stale sessions are closed, an open session of the credential is live.\<close>

lemma open_after_deactivation:
  assumes "s \<in> set (matchSessions (deactivateStaleSessions cid now d))" "openSession s" "ms_accessCodeId s = cid"
  shows "liveSession now s"
proof -
  obtain z where "s = (if staleSession cid now z then z\<lparr>ms_active := False\<rparr> else z)"
    using assms(1) by (auto simp: deactivateStaleSessions_def elim: in_set_updWhereE)
  with assms(2) have "\<not> staleSession cid now s" by (auto simp: openSession_def split: if_splits)
  with assms(2,3) show ?thesis
    by (auto simp: staleSession_def openSession_def liveSession_def split: option.splits)
qed

lemma takeover_of_observed:
  assumes ex: "ms.exclusive (matchSessions d)" and l: "lockAndReverifyCredential cy c (li_securityCode i) d = Inr l"
    and o: "\<And>s. s \<in> set (matchSessions d) \<Longrightarrow> openSession s \<Longrightarrow> ms_accessCodeId s = vc_accessCodeId c \<Longrightarrow> ms_id s = tp_observedSessionId ch"
    and fresh: "fv_sessionId f \<notin> ms_id ` set (matchSessions d)"
      "hashSessionToken cf cy (fv_token f) \<notin> ms_tokenHash ` set (matchSessions d)"
  shows "\<exists>revoked session d' s. takeoverTransaction cf cy f e ch c i d = Inr (AcquisitionCreated revoked session, d') \<and>
    s \<in> set (matchSessions d') \<and> openSession s \<and> ms_expiresAt s = Some (sessionExpiry cf (appNow e)) \<and>
    ms_id s = fv_sessionId f \<and> ms_tokenHash s = hashSessionToken cf cy (fv_token f) \<and> ms_accessCodeId s = vc_accessCodeId c \<and>
    ms_matchId s = vc_matchId c \<and> mi_sessionId session = fv_sessionId f"
proof -
  let ?now = "appNow e" and ?cid = "vc_accessCodeId l"
  let ?d1 = "deactivateStaleSessions ?cid ?now d"
  let ?owner = "findCurrentOwner ?cid ?now ?d1"
  define d2 where "d2 = (case ?owner of None \<Rightarrow> ?d1 | Some s \<Rightarrow> revokeSessionRecord (ms_id s) ?now ?d1)"
  note lc = locked_credential [OF l]
  have owner: "ms_id s = tp_observedSessionId ch" if "?owner = Some s" for s
    using that o [of s] lc by (auto simp: findCurrentOwner_def dest!: firstBy_SomeD intro: deactivate_rows(1) liveSession_open)
  have good: "goodStep d d2" by (auto simp: d2_def split: option.split intro: good_after)
  have keys: "map ms_id (matchSessions d2) = map ms_id (matchSessions d)" "map ms_tokenHash (matchSessions d2) = map ms_tokenHash (matchSessions d)"
    by (simp_all add: d2_def deactivateStaleSessions_def revokeSessionRecord_def map_updWhere split: option.split)
  have ex1: "ms.exclusive (matchSessions ?d1)" using deactivate_sound ex by (auto simp: ms.sound_def)
  have none: "\<not> openSession s" if s: "s \<in> set (matchSessions d2)" "ms_accessCodeId s = ?cid" for s
  proof
    assume op: "openSession s"
    have "z \<in> set (matchSessions ?d1) \<Longrightarrow> openSession z \<Longrightarrow> ms_accessCodeId z = ?cid \<Longrightarrow> ?owner = Some z" for z
      using owner_of_live [OF ex1 _ open_after_deactivation] by metis
    then show False
      using s op by (auto simp: d2_def revokeSessionRecord_def updWhere_def openSession_def split: option.splits if_splits)
  qed
  obtain slot role where sr: "sessionRole (vc_role l) = (slot, role)" by fastforce
  define s where "s = \<lparr> ms_id = fv_sessionId f, ms_matchId = vc_matchId l, ms_accessCodeId = ?cid, ms_role = role,
    ms_judgeSlot = slot, ms_deviceId = li_deviceId i, ms_tokenHash = hashSessionToken cf cy (fv_token f), ms_active = True,
    ms_createdAt = txNow e, ms_lastSeenAt = Some ?now, ms_expiresAt = Some (sessionExpiry cf ?now), ms_revokedAt = None \<rparr>"
  have fresh2: "fv_sessionId f \<notin> ms_id ` set (matchSessions d2)"
    "hashSessionToken cf cy (fv_token f) \<notin> ms_tokenHash ` set (matchSessions d2)"
    using fresh keys by (metis set_map)+
  have "\<not> matchSessionConflict x s" if "x \<in> set (matchSessions d2)" for x
    using that fresh2 none [OF that] by (auto simp: matchSessionConflict_def s_def openSession_def image_iff)
  then obtain session d' where create: "createSessionRecord (fv_sessionId f) l (li_deviceId i) (hashSessionToken cf cy (fv_token f)) e
      (sessionExpiry cf ?now) ''TAKEOVER'' d2 = Inr (session, d')" "mi_sessionId session = fv_sessionId f" "s \<in> set (matchSessions d')"
    by (auto simp: createSessionRecord_def sr s_def Let_def)
  have "takeoverTransaction cf cy f e ch c i d = Inr (AcquisitionCreated (map_option ms_id ?owner) session, d')"
    using l create(1) owner by (auto simp: takeoverTransaction_def Let_def d2_def split: option.splits)
  with create(2,3) lc show ?thesis by (auto simp: s_def openSession_def)
qed

lemma credential_errors:
  "verifyCredential cy p code d = Inl err \<Longrightarrow> err = InvalidCredentials"
  "lockAndReverifyCredential cy c code d = Inl err \<Longrightarrow> err = InvalidCredentials"
  "createSessionRecord newId c dev h e x action d = Inl err \<Longrightarrow> err = AccessUniqueViolation"
  by (auto simp: verifyCredential_def lockAndReverifyCredential_def createSessionRecord_def Let_def bindR_eq_Inl orThrow_def
      split: option.splits if_splits prod.splits)

lemma login_conflict:
  assumes "login cf cy f e mid code dev addr (d, r) = (Inl (SessionAlreadyActive tok), (d1, r1))"
  obtains i c l s where "normalizeLoginInput mid code dev = Inr i"
    "verifyCredential cy (li_matchPublicId i) (li_securityCode i) d = Inr c"
    "lockAndReverifyCredential cy c (li_securityCode i) d = Inr l" "d1 = deactivateStaleSessions (vc_accessCodeId l) (appNow e) d"
    "findCurrentOwner (vc_accessCodeId l) (appNow e) d1 = Some s"
    "tok = createTakeoverToken cf cy (ownershipConflict l (ms_id s) (li_deviceId i)) (fv_nonce f) (appNow e)"
proof -
  obtain i where i: "normalizeLoginInput mid code dev = Inr i"
    using assms by (auto simp: login_def normalizeLoginInput_def split: if_splits)
  obtain r2 where r2: "enforceAccessRateLimit cf cy i addr (appNow e) r = (Inr (), r2)"
    using assms i by (auto simp: login_def enforceAccessRateLimit_def rateLimit_def Let_def
        split: prod.splits option.splits if_splits)
  obtain k where k: "bindR (verifyCredential cy (li_matchPublicId i) (li_securityCode i) d) (\<lambda>c. loginTransaction cf cy f e c i d) =
      Inr (AcquisitionConflict k, d1)" "tok = createTakeoverToken cf cy k (fv_nonce f) (appNow e)"
    using assms i r2
    by (auto simp: login_def acquired_def loginTransaction_def Let_def bindR_eq_Inl
        split: sum.splits session_acquisition.splits option.splits prod.splits dest: credential_errors)
  then show thesis
    using that [OF i] by (auto simp: loginTransaction_def Let_def split: option.splits prod.splits)
qed

text \<open>C15: a login that is refused because of a live session answers a challenge. Within its two minutes a
  takeover with the same input and that challenge succeeds (if the rate limit allows it and the drawn
  identifier and token are new), the new token resolves to the new session until it expires, and no other
  session of the access code is open.\<close>

theorem refused_login_can_take_over:
  assumes cy: "cryptoOk cy" and ex: "ms.exclusive (matchSessions d)"
    and refused: "login cf cy f e mid code dev addr (d, r) = (Inl (SessionAlreadyActive tok), (d1, r1))"
    and input: "trim mid \<noteq> []" "length (trim mid) \<le> 32" "length (trim dev) \<le> 255" "NONCE_PATTERN (fv_nonce f)"
      "length tok \<le> 2048" "safeInteger (floorSeconds (appNow e) + CHALLENGE_TTL_SECONDS)"
    and inTime: "floorSeconds (appNow e') < floorSeconds (appNow e) + CHALLENGE_TTL_SECONDS"
    and rate: "\<And>i. normalizeLoginInput mid code dev = Inr i \<Longrightarrow>
      fst (enforceAccessRateLimit cf cy i addr (appNow e') r1) = Inr ()"
    and fresh: "fv_sessionId f' \<notin> ms_id ` set (matchSessions d1)"
      "hashSessionToken cf cy (fv_token f') \<notin> ms_tokenHash ` set (matchSessions d1)"
    and token: "SESSION_TOKEN_PATTERN (fv_token f')" "cf_legacyAccessEnabled cf" "t < sessionExpiry cf (appNow e')"
  shows "\<exists>c d2 r2 v d3. takeover cf cy f' e' mid code dev tok addr (d1, r1) = (Inr c, (d2, r2)) \<and>
    mi_sessionId (cs_session c) = fv_sessionId f' \<and>
    resolveSession cf cy (fv_token f') t d2 = (Some v, d3) \<and> mi_sessionId v = fv_sessionId f' \<and>
    (\<forall>s \<in> set (matchSessions d2). openSession s \<and> ms_accessCodeId s = vs_accessCodeId v \<longrightarrow> ms_id s = fv_sessionId f')"
proof -
  obtain i c l s where i: "normalizeLoginInput mid code dev = Inr i"
    and c: "verifyCredential cy (li_matchPublicId i) (li_securityCode i) d = Inr c"
    and l: "lockAndReverifyCredential cy c (li_securityCode i) d = Inr l"
    and d1: "d1 = deactivateStaleSessions (vc_accessCodeId l) (appNow e) d"
    and s: "findCurrentOwner (vc_accessCodeId l) (appNow e) d1 = Some s"
    and tok: "tok = createTakeoverToken cf cy (ownershipConflict l (ms_id s) (li_deviceId i)) (fv_nonce f) (appNow e)"
    using login_conflict [OF refused] .
  note lc = locked_credential [OF l]
  have same: "sameMatches d d1" by (simp add: d1)
  note eq = same_credentials [OF same]
  have ex1: "ms.exclusive (matchSessions d1)" using deactivate_sound ex by (auto simp: d1 ms.sound_def)
  have s1: "s \<in> set (matchSessions d1)" "ms_accessCodeId s = vc_accessCodeId l" "openSession s"
    using s by (auto simp: findCurrentOwner_def dest!: firstBy_SomeD intro: liveSession_open)
  have i': "li_deviceId i = trim dev" "trim dev \<noteq> []" "li_matchPublicId i = toUpper (trim mid)"
    using i by (auto simp: normalizeLoginInput_def split: if_splits)
  have pub: "vc_matchPublicId l = li_matchPublicId i" using lc verified_publicId [OF c] by simp
  have len: "li_matchPublicId i \<noteq> []" "length (li_matchPublicId i) \<le> 32" using input(1,2) i'(3) by (simp_all add: toUpper_def)
  obtain ch where ch: "verifyTakeoverToken cf cy tok (appNow e') = Inr ch" "tp_accessCodeId ch = vc_accessCodeId c"
    "tp_deviceId ch = li_deviceId i" "tp_matchId ch = vc_matchId c" "tp_matchPublicId ch = li_matchPublicId i" "tp_observedSessionId ch = ms_id s"
    using verify_created_takeover [OF cy input(5) [unfolded tok], of "appNow e'"] input(3,4,6) i'(1,2) len lc pub inTime
    by (auto simp: ownershipConflict_def tok)
  have obs: "ms_id x = tp_observedSessionId ch"
    if "x \<in> set (matchSessions d1)" "openSession x" "ms_accessCodeId x = vc_accessCodeId c" for x
    using ms.exclusive_owner [OF ex1 that(1) s1(1) that(2) s1(3)] that(3) s1(2) lc ch(6) by simp
  obtain r2 where r2: "enforceAccessRateLimit cf cy i addr (appNow e') r1 = (Inr (), r2)"
    using rate [OF i] by (cases "enforceAccessRateLimit cf cy i addr (appNow e') r1") simp
  have c1: "verifyCredential cy (li_matchPublicId i) (li_securityCode i) d1 = Inr c"
    and l1: "lockAndReverifyCredential cy c (li_securityCode i) d1 = Inr l" using c l eq by simp_all
  obtain revoked session d2 z where tx: "takeoverTransaction cf cy f' e' ch c i d1 = Inr (AcquisitionCreated revoked session, d2)"
    and z: "z \<in> set (matchSessions d2)" "openSession z" "ms_expiresAt z = Some (sessionExpiry cf (appNow e'))" "ms_id z = fv_sessionId f'"
      "ms_tokenHash z = hashSessionToken cf cy (fv_token f')" "ms_accessCodeId z = vc_accessCodeId c" "ms_matchId z = vc_matchId c"
    and sid: "mi_sessionId session = fv_sessionId f'"
    using takeover_of_observed [OF ex1 l1 _ fresh, of ch e'] obs by blast
  have good: "goodStep d1 d2" by (rule good_takeover [OF tx])
  have ex2: "ms.exclusive (matchSessions d2)" using good ex1 by (simp add: goodStep_def ms.sound_def)
  have same2: "sameMatches d d2" using good same by (auto simp: goodStep_def intro: sameMatches_trans)
  have live: "liveSession t z" using z token(3) by (simp add: openSession_def liveSession_def)
  obtain m where "getMatch (vc_matchId c) d2 = Some m" "lockAccessCode (vc_accessCodeId c) d2 \<noteq> None"
    using lc same_credentials(3,4) [OF same2] by auto
  then obtain v d3 where v: "resolveSession cf cy (fv_token f') t d2 = (Some v, d3)" "mi_sessionId v = fv_sessionId f'"
      "vs_accessCodeId v = vc_accessCodeId c"
    using live_session_resolves [OF ex2 z(1) live z(5) token(1,2)] z by auto
  have "takeover cf cy f' e' mid code dev tok addr (d1, r1) =
      (Inr \<lparr> cs_session = session, cs_sessionToken = fv_token f', cs_disconnected = (case revoked of None \<Rightarrow> [] | Some x \<Rightarrow> [x]) \<rparr>, (d2, r2))"
    by (simp add: takeover_def i ch r2 c1 tx acquired_def)
  moreover have "\<forall>x \<in> set (matchSessions d2). openSession x \<and> ms_accessCodeId x = vs_accessCodeId v \<longrightarrow> ms_id x = fv_sessionId f'"
    using ms.exclusive_owner [OF ex2 _ z(1) _ z(2)] z v(3) by metis
  ultimately show ?thesis using v sid by (intro exI conjI) auto
qed

end
