(* ===== verification/Access_Sample.thy ===== *)
theory Access_Sample
  imports Takeover_Facts Sample "HOL-Library.Countable"
begin

text \<open>
  A concrete access configuration: cryptography that satisfies \<open>cryptoOk\<close> (texts of the alphabet are
  marked, others numbered; digests keep the letters of the text), a match with its codes and two
  sessions. The properties are applied to it.
\<close>

instance takeover_payload_ext :: (countable) countable
  by (rule countable_classI [of "\<lambda>p. to_nat (tp_accessCodeId p, tp_deviceId p, tp_expiresAt p, tp_matchId p,
        tp_matchPublicId p, tp_nonce p, tp_observedSessionId p, tp_version p, takeover_payload.more p)"]) simp

instance official_challenge_ext :: (countable) countable
  by (rule countable_classI [of "\<lambda>p. to_nat (oc_version p, oc_observedSessionId p, oc_officialId p, oc_deviceId p,
        oc_expiresAt p, oc_nonce p, official_challenge.more p)"]) simp

instance link_payload_ext :: (countable) countable
  by (rule countable_classI [of "\<lambda>p. to_nat (lp_officialId p, lp_tournamentId p, lp_expiresAt p, lp_credential p, lp_nonce p,
        link_payload.more p)"]) simp

text \<open>A numbering of texts that gives one chosen value a short text.\<close>

definition writeShort :: "'a::countable \<Rightarrow> 'a \<Rightarrow> string" where
  "writeShort p0 p = (if p = p0 then ''x'' else ''y'' @ showNat (to_nat p))"

definition readShort :: "'a::countable \<Rightarrow> string \<Rightarrow> 'a option" where
  "readShort p0 s = (case s of [] \<Rightarrow> None | c # cs \<Rightarrow> Some (if c = CHR ''x'' then p0 else from_nat (readNat cs)))"

lemma readShort_writeShort [simp]: "readShort p0 (writeShort p0 p) = Some p" "writeShort p0 p \<noteq> []"
  by (auto simp: readShort_def writeShort_def readNat_showNat)

definition toLetters :: "string \<Rightarrow> string" where
  "toLetters s = (if isBase64url s then CHR ''a'' # s else CHR ''b'' # showNat (to_nat s))"

definition fromLetters :: "string \<Rightarrow> string" where
  "fromLetters s = (case s of [] \<Rightarrow> [] | c # cs \<Rightarrow> if c = CHR ''a'' then cs else from_nat (readNat cs))"

lemma fromLetters_toLetters [simp]: "fromLetters (toLetters s) = s"
  by (auto simp: fromLetters_def toLetters_def readNat_showNat)

lemma digits_in_alphabet: "list_all (\<lambda>k. char_of (48 + k :: nat) \<in> set base64urlAlphabet) [0..<10]"
  by code_simp

lemma digits_base64url: "isBase64url (showNat n)"
proof (induction n rule: showNat.induct)
  case (1 n)
  have "char_of (48 + k) \<in> set base64urlAlphabet" if "k < 10" for k :: nat
    using that digits_in_alphabet by (simp add: list_all_iff)
  with 1 show ?case by (auto simp: showNat.simps [of n] isBase64url_def)
qed

lemma toLetters_base64url: "isBase64url (toLetters s) \<and> toLetters s \<noteq> []"
proof -
  have "{CHR ''a'', CHR ''b''} \<subseteq> set base64urlAlphabet" by (simp add: base64urlAlphabet_def)
  then show ?thesis using digits_base64url by (auto simp: toLetters_def isBase64url_def)
qed

definition sampleCrypto :: "takeover_payload \<Rightarrow> official_challenge \<Rightarrow> link_payload \<Rightarrow> access_crypto" where
  "sampleCrypto p q l = \<lparr> cy_compare = (\<lambda>v h. v = h), cy_hmac = (\<lambda>k m. ''m'' @ filter (\<lambda>c. c \<in> set base64urlAlphabet) m),
     cy_hex = (\<lambda>s. s), cy_toBase64url = toLetters, cy_fromBase64url = fromLetters,
     cy_writeTakeover = writeShort p, cy_readTakeover = readShort p, cy_writeChallenge = writeShort q,
     cy_readChallenge = readShort q, cy_writeLink = writeShort l, cy_readLink = readShort l \<rparr>"

lemma sampleCrypto_ok: "cryptoOk (sampleCrypto p q l)"
  using toLetters_base64url by (simp add: cryptoOk_def sampleCrypto_def)

definition sampleToken :: "char \<Rightarrow> string" where
  "sampleToken c = replicate 43 c"

definition samplePayload :: takeover_payload where
  "samplePayload = \<lparr> tp_accessCodeId = 1, tp_deviceId = ''phone'', tp_expiresAt = 125, tp_matchId = 1,
     tp_matchPublicId = ''M1'', tp_nonce = replicate 22 CHR ''n'', tp_observedSessionId = 1, tp_version = 1 \<rparr>"

definition sampleChallenge :: official_challenge where
  "sampleChallenge = \<lparr> oc_version = 1, oc_observedSessionId = 71, oc_officialId = 61, oc_deviceId = ''phone'', oc_expiresAt = 125,
     oc_nonce = ''n'' \<rparr>"

definition sampleLink :: link_payload where
  "sampleLink = \<lparr> lp_officialId = 61, lp_tournamentId = 1, lp_expiresAt = 604805000, lp_credential = ''c'', lp_nonce = ''n'' \<rparr>"

definition sampleConfig :: access_config where
  "sampleConfig = \<lparr> cf_legacyAccessEnabled = True, cf_sessionSecret = ''k'', cf_passcodeSecret = ''p'',
     cf_sessionTtlSeconds = 3600, cf_identityLimit = 5, cf_ipLimit = 5, cf_windowSeconds = 60 \<rparr>"

definition crypto1 :: access_crypto where
  "crypto1 = sampleCrypto samplePayload sampleChallenge sampleLink"

lemma crypto1_ok: "cryptoOk crypto1"
  unfolding crypto1_def by (rule sampleCrypto_ok)

definition freshSample :: "uuid \<Rightarrow> char \<Rightarrow> fresh_values" where
  "freshSample i c = \<lparr> fv_sessionId = i, fv_token = sampleToken c, fv_nonce = replicate 22 CHR ''n'' \<rparr>"

text \<open>Judges one and two are logged in.\<close>

definition accessDb :: db where
  "accessDb = waitingDb\<lparr>
     accessCodes := [\<lparr> ac_id = 1, ac_matchId = 1, ac_role = AR_JUDGE_1, ac_codeHash = ''red'' \<rparr>,
       \<lparr> ac_id = 2, ac_matchId = 1, ac_role = AR_JUDGE_2, ac_codeHash = ''blue'' \<rparr>],
     matchSessions := [
       (sampleSession 1 JUDGE (Some JUDGE_1))\<lparr> ms_tokenHash := hashSessionToken sampleConfig crypto1 (sampleToken CHR ''A'') \<rparr>,
       (sampleSession 2 JUDGE (Some JUDGE_2))\<lparr> ms_tokenHash := hashSessionToken sampleConfig crypto1 (sampleToken CHR ''B'') \<rparr>] \<rparr>"

lemma letters_replicate:
  "c \<in> set base64urlAlphabet \<Longrightarrow> isBase64url (replicate n c)"
  by (simp add: isBase64url_def list_all_iff)

lemma sample_letters: "c \<in> {CHR ''A'', CHR ''B'', CHR ''C'', CHR ''n''} \<Longrightarrow> c \<in> set base64urlAlphabet"
  by (auto simp: base64urlAlphabet_def)

lemma sample_patterns:
  "SESSION_TOKEN_PATTERN (sampleToken CHR ''A'')" "SESSION_TOKEN_PATTERN (sampleToken CHR ''B'')"
  "SESSION_TOKEN_PATTERN (sampleToken CHR ''C'')" "NONCE_PATTERN (replicate 22 CHR ''n'')"
  by (simp_all add: SESSION_TOKEN_PATTERN_def NONCE_PATTERN_def sampleToken_def letters_replicate sample_letters)

lemma toLetters_eq [simp]: "toLetters a = toLetters b \<longleftrightarrow> a = b"
  by (metis fromLetters_toLetters)

text \<open>Different tokens of the sample have different hashes.\<close>

lemma hash_sample:
  assumes "a \<in> set base64urlAlphabet" "b \<in> set base64urlAlphabet"
  shows "hashSessionToken cf crypto1 (sampleToken a) = hashSessionToken cf' crypto1 (sampleToken b) \<longleftrightarrow> a = b"
proof -
  have f: "filter (\<lambda>c. c \<in> set base64urlAlphabet) (sampleToken c) = sampleToken c" if "c \<in> set base64urlAlphabet" for c
    using that by (simp add: sampleToken_def)
  have "sampleToken a = sampleToken b \<longleftrightarrow> a = b" by (simp add: sampleToken_def)
  with assms f show ?thesis by (simp add: hashSessionToken_def crypto1_def sampleCrypto_def keyed_def)
qed

lemma accessDb_exclusive: "ms.exclusive (matchSessions accessDb)"
  using hash_sample [OF sample_letters sample_letters]
  by (simp add: accessDb_def ms.exclusive_def sampleSession_def openSession_def)

lemma accessDb_token:
  "sessionByHash (hashSessionToken sampleConfig crypto1 (sampleToken CHR ''A'')) accessDb = Some (matchSessions accessDb ! 0)"
  "lockAccessCode (ms_accessCodeId (matchSessions accessDb ! 0)) accessDb \<noteq> None"
  by (simp_all add: accessDb_def sessionByHash_def lockAccessCode_def sampleSession_def)

section \<open>The properties on the sample\<close>

lemma sampleA_resolves:
  "\<exists>v d. resolveSession sampleConfig crypto1 (sampleToken CHR ''A'') 0 accessDb = (Some v, d) \<and> vs_accessCodeId v = 1"
proof -
  let ?s = "matchSessions accessDb ! 0"
  have "?s \<in> set (matchSessions accessDb)" "liveSession 0 ?s" "ms_accessCodeId ?s = 1" "getMatch (ms_matchId ?s) accessDb = Some sampleMatch"
    "ms_tokenHash ?s = hashSessionToken sampleConfig crypto1 (sampleToken CHR ''A'')"
    by (simp_all add: accessDb_def sampleSession_def liveSession_def getMatch_def waitingDb_def sampleMatch_def)
  with live_session_resolves [OF accessDb_exclusive _ _ _ sample_patterns(1) _ accessDb_token(2), of 0 sampleConfig crypto1]
  show ?thesis by (fastforce simp: sampleConfig_def)
qed

theorem one_session_per_access_code_witness:
  "\<exists>v d. resolveSession sampleConfig crypto1 (sampleToken CHR ''A'') 0
      (fst (fold (matchAccessStep sampleConfig crypto1) [(freshSample 3 CHR ''C'', at 0, None, ''ip'', LogoutRequest)] (accessDb, \<lambda>_. None))) = (Some v, d) \<and>
     ms.exclusive (matchSessions (fst (fold (matchAccessStep sampleConfig crypto1)
       [(freshSample 3 CHR ''C'', at 0, None, ''ip'', LogoutRequest)] (accessDb, \<lambda>_. None))))"
proof -
  let ?run = "fold (matchAccessStep sampleConfig crypto1) [(freshSample 3 CHR ''C'', at 0, None, ''ip'', LogoutRequest)] (accessDb, \<lambda>_. None)"
  have run: "(accessDb, \<lambda>_. None) = ?run" by (simp add: matchAccessStep_def)
  obtain v d where v: "resolveSession sampleConfig crypto1 (sampleToken CHR ''A'') 0 accessDb = (Some v, d)"
    using sampleA_resolves by blast
  show ?thesis using one_session_per_access_code [OF accessDb_exclusive run v v refl] v run [symmetric] by simp
qed

theorem logged_out_session_stays_closed_witness:
  "fst (resolveSession sampleConfig crypto1 (sampleToken CHR ''A'') 6000
     (fst (fold (matchAccessStep sampleConfig crypto1) [(freshSample 3 CHR ''C'', at 5500, None, ''ip'', LoginRequest ''m1'' ''red'' ''phone'')]
       (snd (revokeSession sampleConfig crypto1 (sampleToken CHR ''A'') 5000 accessDb), \<lambda>_. None)))) = None"
  by (rule logged_out_session_stays_closed [OF accessDb_exclusive accessDb_token prod.collapse prod.collapse])

lemma byteLength_ascii: "list_all (\<lambda>c. of_char c < (128 :: nat)) s \<Longrightarrow> byteLength s = length s"
  by (induction s) (auto simp: byteLength_def)

lemma sample_normalized:
  "normalizeLoginInput ''m1'' ''red'' ''phone'' = Inr \<lparr> li_deviceId = ''phone'', li_matchPublicId = ''M1'', li_securityCode = ''red'' \<rparr>"
  by code_simp

lemma sample_credential:
  "verifyCredential crypto1 ''M1'' ''red'' accessDb = Inr \<lparr> vc_accessCodeId = 1, vc_codeHash = ''red'', vc_matchId = 1,
     vc_matchPublicId = ''M1'', vc_role = AR_JUDGE_1 \<rparr>"
  by (simp add: verifyCredential_def accessDb_def waitingDb_def emptyDb_def sampleMatch_def tournamentOpen_def byteLength_ascii
      BCRYPT_MAX_INPUT_BYTES_def crypto1_def sampleCrypto_def)

lemma sample_locked:
  "lockAndReverifyCredential crypto1 \<lparr> vc_accessCodeId = 1, vc_codeHash = ''red'', vc_matchId = 1,
     vc_matchPublicId = ''M1'', vc_role = AR_JUDGE_1 \<rparr> ''red'' accessDb = Inr \<lparr> vc_accessCodeId = 1, vc_codeHash = ''red'', vc_matchId = 1,
     vc_matchPublicId = ''M1'', vc_role = AR_JUDGE_1 \<rparr>"
  by (simp add: lockAndReverifyCredential_def lockAccessCode_def accessDb_def waitingDb_def emptyDb_def sampleMatch_def getMatch_def
      tournamentOpen_def crypto1_def sampleCrypto_def)

lemma deactivate_accessDb: "deactivateStaleSessions 1 5000 accessDb = accessDb"
  by (simp add: deactivateStaleSessions_def accessDb_def sampleSession_def staleSession_def)

lemma owner_accessDb: "findCurrentOwner 1 5000 accessDb = Some (matchSessions accessDb ! 0)"
  by (simp add: findCurrentOwner_def firstBy_def accessDb_def sampleSession_def liveSession_def)

definition sampleTakeoverToken :: string where
  "sampleTakeoverToken = createTakeoverToken sampleConfig crypto1 (ownershipConflict \<lparr> vc_accessCodeId = 1, vc_codeHash = ''red'',
     vc_matchId = 1, vc_matchPublicId = ''M1'', vc_role = AR_JUDGE_1 \<rparr> 1 ''phone'') (replicate 22 CHR ''n'') 5000"

lemma length_toLetters: "isBase64url x \<Longrightarrow> length (toLetters x) = Suc (length x)"
  by (simp add: toLetters_def)

lemma digest_letters: "isBase64url (cy_hmac crypto1 k m)" "length (cy_hmac crypto1 k m) \<le> Suc (length m)"
proof -
  have "CHR ''m'' \<in> set base64urlAlphabet" by (simp add: base64urlAlphabet_def)
  then show "isBase64url (cy_hmac crypto1 k m)" by (simp add: crypto1_def sampleCrypto_def isBase64url_def list_all_iff)
  show "length (cy_hmac crypto1 k m) \<le> Suc (length m)" by (simp add: crypto1_def sampleCrypto_def)
qed

lemma sample_length: "length sampleTakeoverToken \<le> 2048"
proof -
  have x: "isBase64url ''x''" by (simp add: isBase64url_def base64urlAlphabet_def)
  have "cy_writeTakeover crypto1 samplePayload = ''x''" "cy_toBase64url crypto1 = toLetters"
    by (simp_all add: crypto1_def sampleCrypto_def writeShort_def)
  then have eq: "sampleTakeoverToken = signed crypto1 ''k'' ''match-takeover-challenge'' (toLetters ''x'')"
    by (simp add: sampleTakeoverToken_def createTakeoverToken_def ownershipConflict_def sampleConfig_def floorSeconds_def
        CHALLENGE_TTL_SECONDS_def samplePayload_def)
  have "length (cy_hmac crypto1 ''k'' (''match-takeover-challenge'' @ [CHR 0x00] @ toLetters ''x'')) \<le> 28"
    by (rule order_trans [OF digest_letters(2)]) (simp add: length_toLetters [OF x])
  then show ?thesis
    by (simp add: eq signed_def keyed_def length_toLetters [OF x] length_toLetters [OF digest_letters(1)]
        \<open>cy_toBase64url crypto1 = toLetters\<close>)
qed

lemma sample_refusal:
  "\<exists>r. login sampleConfig crypto1 (freshSample 9 CHR ''B'') (at 5000) ''m1'' ''red'' ''phone'' ''ip'' (accessDb, \<lambda>_. None) =
     (Inl (SessionAlreadyActive sampleTakeoverToken), (accessDb, r)) \<and>
   fst (enforceAccessRateLimit sampleConfig crypto1 \<lparr> li_deviceId = ''phone'', li_matchPublicId = ''M1'', li_securityCode = ''red'' \<rparr>
     ''ip'' 9000 r) = Inr ()"
proof -
  let ?i = "\<lparr> li_deviceId = ''phone'', li_matchPublicId = ''M1'', li_securityCode = ''red'' \<rparr>"
  obtain x r where r: "enforceAccessRateLimit sampleConfig crypto1 ?i ''ip'' 5000 (\<lambda>_. None) = (x, r)" by fastforce
  have x: "x = Inr ()" and again: "fst (enforceAccessRateLimit sampleConfig crypto1 ?i ''ip'' 9000 r) = Inr ()"
    using r by (auto simp: enforceAccessRateLimit_def rateLimit_def incrementWithExpiry_def redisEntry_def sampleConfig_def safeInteger_def
        Let_def split: if_splits)
  have "loginTransaction sampleConfig crypto1 (freshSample 9 CHR ''B'') (at 5000) \<lparr> vc_accessCodeId = 1, vc_codeHash = ''red'', vc_matchId = 1,
      vc_matchPublicId = ''M1'', vc_role = AR_JUDGE_1 \<rparr> ?i accessDb =
    Inr (AcquisitionConflict (ownershipConflict \<lparr> vc_accessCodeId = 1, vc_codeHash = ''red'',
     vc_matchId = 1, vc_matchPublicId = ''M1'', vc_role = AR_JUDGE_1 \<rparr> 1 ''phone''), accessDb)"
    using sample_locked deactivate_accessDb owner_accessDb
    by (simp add: loginTransaction_def at_def) (simp add: accessDb_def sampleSession_def)
  with r x again show ?thesis
    by (auto simp: login_def sample_normalized sample_credential acquired_def at_def sampleTakeoverToken_def freshSample_def)
qed

theorem refused_login_can_take_over_witness:
  "\<exists>r c d2 r2 v d3. login sampleConfig crypto1 (freshSample 9 CHR ''B'') (at 5000) ''m1'' ''red'' ''phone'' ''ip'' (accessDb, \<lambda>_. None) =
     (Inl (SessionAlreadyActive sampleTakeoverToken), (accessDb, r)) \<and>
   takeover sampleConfig crypto1 (freshSample 3 CHR ''C'') (at 9000) ''m1'' ''red'' ''phone'' sampleTakeoverToken ''ip'' (accessDb, r) =
     (Inr c, (d2, r2)) \<and> resolveSession sampleConfig crypto1 (sampleToken CHR ''C'') 10000 d2 = (Some v, d3) \<and> mi_sessionId v = 3"
proof -
  obtain r where r: "login sampleConfig crypto1 (freshSample 9 CHR ''B'') (at 5000) ''m1'' ''red'' ''phone'' ''ip'' (accessDb, \<lambda>_. None) =
     (Inl (SessionAlreadyActive sampleTakeoverToken), (accessDb, r))"
   "fst (enforceAccessRateLimit sampleConfig crypto1 \<lparr> li_deviceId = ''phone'', li_matchPublicId = ''M1'', li_securityCode = ''red'' \<rparr>
     ''ip'' 9000 r) = Inr ()" using sample_refusal by blast
  have t: "trim ''m1'' = ''m1''" "trim ''phone'' = ''phone''" by code_simp+
  have fresh: "fv_sessionId (freshSample 3 CHR ''C'') \<notin> ms_id ` set (matchSessions accessDb)"
    "hashSessionToken sampleConfig crypto1 (fv_token (freshSample 3 CHR ''C'')) \<notin> ms_tokenHash ` set (matchSessions accessDb)"
    using hash_sample [OF sample_letters sample_letters]
    by (auto simp: accessDb_def sampleSession_def freshSample_def)
  from refused_login_can_take_over [OF crypto1_ok accessDb_exclusive r(1) _ _ _ _ sample_length _ _ _ fresh, of "at 9000" 10000]
  show ?thesis using r t sample_patterns
    by (auto simp: freshSample_def at_def sample_normalized floorSeconds_def CHALLENGE_TTL_SECONDS_def safeInteger_def sampleConfig_def
        sessionExpiry_def)
qed

theorem takeover_closes_only_the_observed_session_witness:
  "verifyTakeoverToken sampleConfig crypto1 sampleTakeoverToken 9000 \<noteq> Inl InvalidTakeover \<and>
   matchSessions accessDb ! 1 \<in> set (matchSessions (fst (snd (takeover sampleConfig crypto1 (freshSample 3 CHR ''C'') (at 9000)
     ''m1'' ''red'' ''phone'' sampleTakeoverToken ''ip'' (accessDb, \<lambda>_. None)))))"
proof -
  obtain p where p: "verifyTakeoverToken sampleConfig crypto1 sampleTakeoverToken 9000 = Inr p" "tp_observedSessionId p = 1"
    using verify_created_takeover [OF crypto1_ok sample_length [unfolded sampleTakeoverToken_def], of 9000] sample_patterns(4)
    by (auto simp: sampleTakeoverToken_def ownershipConflict_def floorSeconds_def CHALLENGE_TTL_SECONDS_def safeInteger_def)
  have s: "matchSessions accessDb ! 1 \<in> set (matchSessions (fst (accessDb, \<lambda>_. None)))" "liveSession (appNow (at 9000)) (matchSessions accessDb ! 1)"
    "ms_id (matchSessions accessDb ! 1) \<noteq> 1"
    by (simp_all add: accessDb_def sampleSession_def liveSession_def at_def)
  show ?thesis using takeover_closes_only_the_observed_session [OF s(1,2), of sampleConfig crypto1 sampleTakeoverToken] p s(3)
    by (simp add: at_def)
qed

theorem attempts_bounded_per_window_witness:
  "passes (\<lambda>a. fst a = ''id'') sampleConfig (map (\<lambda>n. (''id'', ''ip'', int n * 1000)) [0..<20]) (\<lambda>_. None) \<le> 10"
proof -
  have "sorted (map (snd \<circ> snd) (map (\<lambda>n. (''id'', ''ip'', int n * 1000)) [0..<20]))"
    by code_simp
  then show ?thesis
    using attempts_bounded_per_window [of "map (\<lambda>n. (''id'', ''ip'', int n * 1000)) [0..<20]" 0 sampleConfig "''id''" "\<lambda>_. None"]
    by (auto simp: sampleConfig_def)
qed

end
