(* ===== verification/Official_Facts.thy ===== *)
theory Official_Facts
  imports Officials Access_Sample
begin

text \<open>
  Sessions of officials over every sequence of requests and administrative commands, what a new passcode
  locks out, and what a deactivation leaves.
\<close>

section \<open>Every command keeps the table sound\<close>

abbreviation osSound :: "db \<Rightarrow> db \<Rightarrow> bool" where
  "osSound d d' \<equiv> os.sound (officialSessions d) (officialSessions d')"

text \<open>The two ways an acquisition ends.\<close>

definition afterExpiry :: "uuid \<Rightarrow> time \<Rightarrow> db \<Rightarrow> official_session_row list" where
  "afterExpiry oid now d = updWhere (expiredOfficialSession oid now) (closeOfficialSession now) (officialSessions d)"

lemma acquire_cases:
  assumes "acquire cf cy f e c p dev obs d = Inr (a, d')"
  obtains (conflict) s where "List.find (\<lambda>s. os_officialId s = cr_officialId c \<and> officialLive (appNow e) s)
        (afterExpiry (cr_officialId c) (appNow e) d) = Some s" "Some (os_id s) \<noteq> obs" "a = OfficialConflict (os_id s)"
      "officialSessions d' = afterExpiry (cr_officialId c) (appNow e) d"
    | (created) owner rows s i where "List.find (\<lambda>s. os_officialId s = cr_officialId c \<and> officialLive (appNow e) s)
        (afterExpiry (cr_officialId c) (appNow e) d) = owner" "\<forall>s. owner = Some s \<longrightarrow> Some (os_id s) = obs"
      "rows = (case owner of None \<Rightarrow> afterExpiry (cr_officialId c) (appNow e) d
         | Some s \<Rightarrow> updWhere (\<lambda>x. os_id x = os_id s) (closeOfficialSession (appNow e)) (afterExpiry (cr_officialId c) (appNow e) d))"
      "os_officialId s = cr_officialId c" "\<not> (\<exists>x \<in> set rows. officialSessionConflict x s)" "officialSessions d' = rows @ [s]"
      "a = OfficialCreated i (fv_token f) (map_option os_id owner)"
proof (cases "List.find (\<lambda>s. os_officialId s = cr_officialId c \<and> officialLive (appNow e) s) (afterExpiry (cr_officialId c) (appNow e) d)")
  case None
  show thesis
    using assms None [unfolded afterExpiry_def] unfolding acquire_def Let_def
    by (elim inr_elims) (auto intro!: created [OF None _ refl, simplified] simp: afterExpiry_def)
next
  case (Some s)
  show thesis
  proof (cases "Some (os_id s) = obs")
    case True
    show thesis
      using assms True Some [unfolded afterExpiry_def] unfolding acquire_def Let_def
      by (elim inr_elims) (auto intro!: created [OF Some _ refl, simplified] simp: afterExpiry_def)
  next
    case False
    show thesis
      using assms False Some [unfolded afterExpiry_def] unfolding acquire_def Let_def
      by (elim inr_elims) (auto intro!: conflict [OF Some False] simp: afterExpiry_def)
  qed
qed

lemma sound_acquire:
  assumes "acquire cf cy f e c p dev obs d = Inr (a, d')"
  shows "osSound d d'"
  using assms
proof (cases rule: acquire_cases)
  case (conflict s)
  then show ?thesis by (simp add: afterExpiry_def os.sound_update)
next
  case (created owner rows s i)
  have 1: "os.sound (officialSessions d) (afterExpiry oid now d)" for oid now by (simp add: afterExpiry_def os.sound_update)
  have "os.sound (officialSessions d) rows"
    by (auto simp: created(3) split: option.split intro: 1 os.sound_trans [OF 1 os.sound_update(1)])
  then show ?thesis unfolding created(6) by (rule os.sound_trans [OF _ os.sound_insert [OF created(5)]])
qed

lemma sound_revoke: "osSound d (snd (revokeOfficialSession cf cy t now d))"
  by (simp add: revokeOfficialSession_def Let_def os.sound_update)

lemma sound_resolve: "osSound d (snd (resolveOfficialSession cf cy t now d))"
  by (auto simp: resolveOfficialSession_def split: option.split intro: os.sound_update)

lemma sound_revokeSessionsOf: "osSound d (snd (revokeSessionsOf oid now d))"
  by (simp add: revokeSessionsOf_def Let_def os.sound_update)

lemma sound_acquired:
  assumes "\<And>a d'. res = Inr (a, d') \<Longrightarrow> osSound (fst s) d'"
  shows "osSound (fst s) (fst (snd (officialAcquired cf cy f e oid dev res s)))"
  using assms by (auto simp: officialAcquired_def split: sum.split official_acquisition.split)

lemma sound_service:
  "osSound (fst s) (fst (snd (officialLogin cf cy f e code p dev role ip s)))"
  "osSound (fst s) (fst (snd (officialTakeover cf cy f e code p dev role tok ip s)))"
  "osSound (fst s) (fst (snd (loginWithToken cf cy f e tok dev role ip ttok s)))"
  by (auto simp: officialLogin_def officialTakeover_def loginWithToken_def split: sum.split prod.split if_split
      intro!: sound_acquired [where s = "(fst s, r)" for r, simplified] dest!: sound_acquire)

lemma sound_released: "osSound d (snd (requireBrowserSessionReleased cf cy cookie now d))"
  using sound_resolve
  by (auto simp: requireBrowserSessionReleased_def split: option.split prod.split) (metis snd_conv)

lemma sound_browser: "osSound d (snd (revokeBrowser cf cy cookie t now d))"
  using sound_revoke by (auto simp: revokeBrowser_def split: option.split)

lemma sound_guard: "osSound d (snd (officialSessionGuard cf cy cookie now d))"
  using sound_resolve by (auto simp: officialSessionGuard_def split: option.split prod.split) (metis snd_conv)

lemma sound_creation:
  assumes "\<And>s. osSound (fst s) (fst (snd (create s)))"
  shows "osSound (fst s) (fst (snd (officialCreation cf cy cookie now create s)))"
proof -
  obtain x d1 where 1: "requireBrowserSessionReleased cf cy cookie now (fst s) = (x, d1)" by fastforce
  obtain y d2 r where 2: "create (d1, snd s) = (y, (d2, r))" by (metis prod.exhaust)
  have s1: "osSound (fst s) d1" using sound_released [of "fst s" cf cy cookie now] 1 by simp
  have s2: "osSound (fst s) d2" using assms [of "(d1, snd s)"] 2 os.sound_trans [OF s1] by simp
  have s3: "osSound (fst s) (snd (revokeBrowser cf cy cookie t now d2))" for t
    by (rule os.sound_trans [OF s2 sound_browser])
  show ?thesis
    using s1 s2 s3 by (auto simp: officialCreation_def 1 2 split: sum.split prod.split) (metis snd_conv)
qed

lemma sound_request: "osSound (fst s) (fst (snd (officialAccess cf cy f e cookie ip q s)))"
proof (cases q)
  case OfficialLogoutRequest
  obtain x d1 where 1: "officialSessionGuard cf cy cookie (appNow e) (fst s) = (x, d1)" by fastforce
  have s1: "osSound (fst s) d1" using sound_guard [of "fst s" cf cy cookie "appNow e"] 1 by simp
  have "osSound (fst s) (snd (revokeOfficialSession cf cy t (appNow e) d1))" for t
    by (rule os.sound_trans [OF s1 sound_revoke])
  with s1 show ?thesis
    by (auto simp: OfficialLogoutRequest 1 split: sum.split prod.split option.split) (metis snd_conv)
next
  case OfficialSessionRequest
  then show ?thesis using sound_guard [of "fst s" cf cy cookie "appNow e"] by (auto split: sum.split prod.split)
qed (auto intro!: sound_creation sound_service)

lemma officialAudit_fields [simp]:
  "officialSessions (officialAudit a ev tid oid b x d) = officialSessions d" "officials (officialAudit a ev tid oid b x d) = officials d"
  "tournaments (officialAudit a ev tid oid b x d) = tournaments d" "assignments (officialAudit a ev tid oid b x d) = assignments d"
  "brackets (officialAudit a ev tid oid b x d) = brackets d" "roundStaffing (officialAudit a ev tid oid b x d) = roundStaffing d"
  "fixtureRows (officialAudit a ev tid oid b x d) = fixtureRows d"
  by (simp_all add: officialAudit_def addAudit_def)

lemma withPasscode_Inr:
  assumes "withPasscode attempt draws = Inr (a, p)"
  obtains draw where "draw \<in> set draws" "attempt draw = Inr (Some a)" "p = fst draw"
  using assms by (induction draws) (auto split: option.splits if_splits)

lemma revokeSessionsOf_fields [simp]:
  "officials (snd (revokeSessionsOf oid now d)) = officials d" "assignments (snd (revokeSessionsOf oid now d)) = assignments d"
  "brackets (snd (revokeSessionsOf oid now d)) = brackets d" "roundStaffing (snd (revokeSessionsOf oid now d)) = roundStaffing d"
  "fixtureRows (snd (revokeSessionsOf oid now d)) = fixtureRows d"
  by (simp_all add: revokeSessionsOf_def Let_def)

lemma revokeSessionsOf_sessions:
  "officialSessions d1 = officialSessions d \<Longrightarrow>
   officialSessions (snd (revokeSessionsOf oid now d1)) = officialSessions (snd (revokeSessionsOf oid now d))"
  by (simp add: revokeSessionsOf_def Let_def)

lemma updated:
  assumes "updateOfficial tid oid u actor now d = Inr (x, ids, d')"
  obtains before name where "requireOfficial tid oid d = Inr before"
    "officials d' = updWhere (\<lambda>x. of_id x = oid) (officialChange name (uo_isActive u) now) (officials d)"
    "officialSessions d' = (if uo_isActive u = Some False \<and> of_isActive before then officialSessions (snd (revokeSessionsOf oid now d))
       else officialSessions d)"
    "assignments d' = assignments d" "brackets d' = brackets d" "roundStaffing d' = roundStaffing d" "fixtureRows d' = fixtureRows d"
    "uo_isActive u = Some False \<and> of_isActive before \<Longrightarrow> assertDeactivationAllowed tid before d = Inr ()"
proof -
  obtain before where b: "requireOfficial tid oid d = Inr before"
    using assms unfolding updateOfficial_def by (elim inr_elims) auto
  obtain name where r: "(if uo_isActive u = Some False \<and> of_isActive before then assertDeactivationAllowed tid before d else Inr ()) = Inr ()"
    and o: "(let after = officialChange name (uo_isActive u) now before;
                d1 = officialAudit actor
                  (if uo_isActive u = Some False \<and> of_isActive before then TOURNAMENT_OFFICIAL_DEACTIVATED else TOURNAMENT_OFFICIAL_UPDATED)
                  tid oid (safeOfficial before) after
                  (d\<lparr> officials := updWhere (\<lambda>x. of_id x = oid) (officialChange name (uo_isActive u) now) (officials d) \<rparr>) in
            if uo_isActive u = Some False \<and> of_isActive before then (case revokeSessionsOf oid now d1 of (ids, d2) \<Rightarrow> Inr (after, ids, d2))
            else Inr (after, [], d1)) = Inr (x, ids, d')"
    using assms b unfolding updateOfficial_def Let_def by (auto simp del: split_paired_Ex split: if_splits)
  show thesis
  proof (cases "uo_isActive u = Some False \<and> of_isActive before")
    case True
    with o have "d' = snd (revokeSessionsOf oid now (officialAudit actor TOURNAMENT_OFFICIAL_DEACTIVATED tid oid (safeOfficial before)
        (officialChange name (uo_isActive u) now before)
        (d\<lparr> officials := updWhere (\<lambda>x. of_id x = oid) (officialChange name (uo_isActive u) now) (officials d) \<rparr>)))"
      by (auto simp: Let_def split: prod.splits)
    with True r b show thesis by (intro that [OF b, of name]) (auto intro!: revokeSessionsOf_sessions)
  next
    case False
    with o b show thesis by (intro that [OF b, of name]) (auto simp: Let_def)
  qed
qed

lemma sound_admin:
  "createOfficial cf cy newId draws tid i actor d = Inr ((x, d'), p) \<Longrightarrow> osSound d d'"
  "updateOfficial tid oid u actor now d = Inr (x, ids, d') \<Longrightarrow> osSound d d'"
  "regeneratePasscode cf cy draws tid oid actor now d = Inr ((x, ids, d'), p) \<Longrightarrow> osSound d d'"
proof -
  show "createOfficial cf cy newId draws tid i actor d = Inr ((x, d'), p) \<Longrightarrow> osSound d d'"
    by (auto simp: createOfficial_def createOfficialAttempt_def Let_def elim!: withPasscode_Inr split: if_splits)
  show "regeneratePasscode cf cy draws tid oid actor now d = Inr ((x, ids, d'), p) \<Longrightarrow> osSound d d'"
    by (auto simp: regeneratePasscode_def regenerateAttempt_def revokeSessionsOf_def Let_def os.sound_update elim!: withPasscode_Inr split: if_splits)
  show "updateOfficial tid oid u actor now d = Inr (x, ids, d') \<Longrightarrow> osSound d d'"
    by (erule updated) (simp add: sound_revokeSessionsOf)
qed

section \<open>Runs\<close>

datatype official_command =
    AccessCommand fresh_values env "string option" string official_request
  | CreateCommand uuid "nat \<Rightarrow> string \<times> string" uuid create_official_input uuid
  | UpdateCommand uuid uuid update_official_input uuid time
  | RegenerateCommand "nat \<Rightarrow> string \<times> string" uuid uuid uuid time

text \<open>One command; a command that throws changes nothing, except for what its request already counted
  or closed.\<close>

fun officialStep :: "access_config \<Rightarrow> access_crypto \<Rightarrow> official_command \<Rightarrow> access_state \<Rightarrow> access_state" where
  "officialStep cf cy (AccessCommand f e cookie ip q) s = snd (officialAccess cf cy f e cookie ip q s)"
| "officialStep cf cy (CreateCommand newId draws tid i actor) s =
     (case createOfficial cf cy newId draws tid i actor (fst s) of Inl _ \<Rightarrow> s | Inr ((_, d), _) \<Rightarrow> (d, snd s))"
| "officialStep cf cy (UpdateCommand tid oid u actor now) s =
     (case updateOfficial tid oid u actor now (fst s) of Inl _ \<Rightarrow> s | Inr (_, _, d) \<Rightarrow> (d, snd s))"
| "officialStep cf cy (RegenerateCommand draws tid oid actor now) s =
     (case regeneratePasscode cf cy draws tid oid actor now (fst s) of Inl _ \<Rightarrow> s | Inr ((_, _, d), _) \<Rightarrow> (d, snd s))"

lemma sound_step: "osSound (fst s) (fst (officialStep cf cy c s))"
  by (cases c) (auto simp: sound_request split: sum.split dest: sound_admin)

lemma sound_run: "osSound (fst s) (fst (fold (officialStep cf cy) cs s))"
proof (induction cs arbitrary: s)
  case (Cons c cs)
  show ?case using os.sound_trans [OF sound_step Cons.IH] by simp
qed simp

lemma resolve_official_live:
  assumes "fst (resolveOfficialSession cf cy t now d) \<noteq> Inr None"
  obtains s where "s \<in> set (officialSessions d)" "officialLive now s" "os_tokenHash s = officialTokenHash cf cy t"
  using assms by (auto simp: resolveOfficialSession_def split: if_splits option.splits dest!: find_SomeD)

text \<open>In a table with at most one active session per official this holds after every sequence of requests and
  administrative commands: two tokens that resolve to the same official belong to the same session.\<close>

theorem one_session_per_official:
  assumes "os.exclusive (officialSessions d)" and "(d', r') = fold (officialStep cf cy) cs (d, r)"
    and "fst (resolveOfficialSession cf cy t1 now d') = Inr (Some i1)" "fst (resolveOfficialSession cf cy t2 now d') = Inr (Some i2)"
    and "oi_officialId i1 = oi_officialId i2"
  shows "oi_sessionId i1 = oi_sessionId i2 \<and> officialTokenHash cf cy t1 = officialTokenHash cf cy t2"
proof -
  have ex: "os.exclusive (officialSessions d')"
    using sound_run [of "(d, r)" cf cy cs] assms(1) by (simp add: os.sound_def assms(2) [symmetric])
  have res: "\<exists>s \<in> set (officialSessions d'). os_active s \<and> os_tokenHash s = officialTokenHash cf cy t \<and>
      os_id s = oi_sessionId i \<and> os_officialId s = oi_officialId i"
    if "fst (resolveOfficialSession cf cy t now d') = Inr (Some i)" for t i
    using that by (auto simp: resolveOfficialSession_def presentSession_def officialLive_def getOfficial_def
        split: if_splits option.splits dest!: find_SomeD)
  obtain s1 s2 where s: "s1 \<in> set (officialSessions d')" "os_active s1" "os_tokenHash s1 = officialTokenHash cf cy t1"
      "os_id s1 = oi_sessionId i1" "os_officialId s1 = oi_officialId i1" "s2 \<in> set (officialSessions d')" "os_active s2"
      "os_tokenHash s2 = officialTokenHash cf cy t2" "os_id s2 = oi_sessionId i2" "os_officialId s2 = oi_officialId i2"
    using res [OF assms(3)] res [OF assms(4)] by blast
  then have "s1 = s2" using os.exclusive_owner [OF ex] assms(5) by simp
  with s show ?thesis by simp
qed

section \<open>A new passcode\<close>

lemma regenerated:
  assumes "regeneratePasscode cf cy draws tid oid actor now d = Inr ((x, ids, d'), p)"
  obtains h where "officials d' = updWhere (\<lambda>x. of_id x = oid)
      (\<lambda>x. x\<lparr> of_passcodeHash := h, of_passcodeLookupDigest := passcodeDigest cf cy p \<rparr>) (officials d)"
    "officialSessions d' = officialSessions (snd (revokeSessionsOf oid now d))" "tournaments d' = tournaments d" "of_passcodeHash x = h"
  using assms by (auto simp: regeneratePasscode_def regenerateAttempt_def revokeSessionsOf_def Let_def elim!: withPasscode_Inr
      split: if_splits)

lemma revokeSessionsOf_closes:
  assumes "s \<in> set (officialSessions (snd (revokeSessionsOf oid now d)))" "os_officialId s = oid"
  shows "\<not> os_active s"
proof
  assume "os_active s"
  with assms obtain z where "z \<in> set (officialSessions d)" "s = z" "os_id z \<notin> os_id ` {s \<in> set (officialSessions d). os_officialId s = oid \<and> os_active s}"
    by (auto simp: revokeSessionsOf_def Let_def closeOfficialSession_def elim!: in_set_updWhereE split: if_splits)
  with assms(2) \<open>os_active s\<close> show False by auto
qed

lemma link_refused:
  assumes cy: "cryptoOk cy" and tok: "createLoginToken cf cy nonce tid oid t0 d = Inr (tok, role, x0)"
    and new: "\<And>y. y \<in> set (officials d') \<Longrightarrow> of_id y = oid \<Longrightarrow> of_passcodeHash y = h"
    and old: "\<And>y. y \<in> set (officials d) \<Longrightarrow> of_id y = oid \<Longrightarrow> linkSignature cf cy (of_passcodeHash y) \<noteq> linkSignature cf cy h"
  shows "verifyLink cf cy tok dev expected t1 d' = Inl InvalidCredentials"
proof -
  obtain y where y: "y \<in> set (officials d)" "of_id y = oid" and eq: "tok = (let encoded = cy_toBase64url cy (cy_writeLink cy
      \<lparr> lp_officialId = oid, lp_tournamentId = tid, lp_expiresAt = x0, lp_credential = linkSignature cf cy (of_passcodeHash y), lp_nonce = nonce \<rparr>)
      in encoded @ ''.'' @ linkSignature cf cy encoded)"
    using tok by (auto simp: createLoginToken_def openOfficial_def Let_def dest!: find_SomeD)
  have split: "splitDots (cy_toBase64url cy m @ CHR ''.'' # linkSignature cf cy n) = [cy_toBase64url cy m, linkSignature cf cy n]" for m n
    using cy by (simp add: linkSignature_def splitDots_join splitDots_plain base64url_no_dot cryptoOk_def)
  have "openLink cf cy tok t1 = Inl InvalidCredentials \<or> (\<exists>p. openLink cf cy tok t1 = Inr p \<and> lp_officialId p = oid \<and>
      lp_credential p = linkSignature cf cy (of_passcodeHash y))"
    using cy by (auto simp: openLink_def eq Let_def split cryptoOk_def)
  then show ?thesis
  proof
    assume "\<exists>p. openLink cf cy tok t1 = Inr p \<and> lp_officialId p = oid \<and> lp_credential p = linkSignature cf cy (of_passcodeHash y)"
    then obtain p where p: "openLink cf cy tok t1 = Inr p" "lp_officialId p = oid" "lp_credential p = linkSignature cf cy (of_passcodeHash y)"
      by blast
    have "of_passcodeHash z = h" if "openOfficial oid (lp_tournamentId p) d' = Some z" for z
      using that new by (auto simp: openOfficial_def dest!: find_SomeD)
    with p old [OF y] show ?thesis
      by (auto simp: verifyLink_def orThrow_def bindR_eq_Inl split: option.split)
  qed (simp add: verifyLink_def)
qed

text \<open>C16: a new passcode locks out what was handed out before: a session of the official is never resolved
  again, whatever requests and administrative commands follow; a login link made before is refused; and a
  passcode with another digest does not identify the official. The digests of the old and the new passcode
  hash are assumed to differ.\<close>

theorem new_passcode_locks_out:
  assumes "cryptoOk cy" and "os.exclusive (officialSessions d)"
    and reg: "regeneratePasscode cf cy draws tid oid actor now d = Inr ((x, ids, d'), p)"
    and s: "s \<in> set (officialSessions d)" "os_officialId s = oid" "os_tokenHash s = officialTokenHash cf cy t"
    and run: "(d2, r2) = fold (officialStep cf cy) cs (d', r1)"
    and link: "createLoginToken cf cy nonce tid oid t0 d = Inr (tok, role, x0)"
      "\<And>y. y \<in> set (officials d) \<Longrightarrow> of_id y = oid \<Longrightarrow>
        linkSignature cf cy (of_passcodeHash y) \<noteq> linkSignature cf cy (of_passcodeHash x)"
    and code: "passcodeDigest cf cy q \<noteq> passcodeDigest cf cy p"
  shows "fst (resolveOfficialSession cf cy t t2 d2) = Inr None \<and>
    verifyLink cf cy tok dev expected t1 d' = Inl InvalidCredentials \<and>
    \<not> (\<exists>c. verifyOfficial cf cy tcode q expected d' = Inr c \<and> cr_officialId c = oid)"
proof -
  obtain h where o: "officials d' = updWhere (\<lambda>x. of_id x = oid)
        (\<lambda>x. x\<lparr> of_passcodeHash := h, of_passcodeLookupDigest := passcodeDigest cf cy p \<rparr>) (officials d)"
    and os: "officialSessions d' = officialSessions (snd (revokeSessionsOf oid now d))" and h: "of_passcodeHash x = h"
    using regenerated [OF reg] by metis
  have new: "of_passcodeHash y = h \<and> of_passcodeLookupDigest y = passcodeDigest cf cy p" if y: "y \<in> set (officials d')" "of_id y = oid" for y
  proof -
    obtain z where "y = (if of_id z = oid then z\<lparr> of_passcodeHash := h, of_passcodeLookupDigest := passcodeDigest cf cy p \<rparr> else z)"
      using y(1) unfolding o by (elim in_set_updWhereE) blast
    with y(2) show ?thesis by (cases "of_id z = oid") simp_all
  qed
  have 1: "fst (resolveOfficialSession cf cy t t2 d2) = Inr None"
  proof (rule ccontr)
    assume "fst (resolveOfficialSession cf cy t t2 d2) \<noteq> Inr None"
    then obtain z where z: "z \<in> set (officialSessions d2)" "officialLive t2 z" "os_tokenHash z = officialTokenHash cf cy t"
      by (rule resolve_official_live)
    have l: "osSound d d'" "osSound d' d2" using sound_admin(3) [OF reg] sound_run [of "(d', r1)" cf cy cs] run by (simp, metis fst_conv)
    obtain y where y: "y \<in> set (officialSessions d')" "os.evolves s y" using l(1) s(1) os.later_row unfolding os.sound_def by metis
    have "\<not> os_active y" using revokeSessionsOf_closes [of y oid now d] y s(2) os by (simp add: os.evolves_def)
    moreover have "os.exclusive (officialSessions d2)" "os.later (officialSessions d') (officialSessions d2)"
      using l assms(2) by (auto simp: os.sound_def)
    ultimately have "\<not> os_active z" using os.closed_stays_closed y z s(3) by (metis os.evolves_def)
    with z(2) show False by (simp add: officialLive_def)
  qed
  have 2: "verifyLink cf cy tok dev expected t1 d' = Inl InvalidCredentials"
    using link_refused [OF assms(1) link(1), where h = h and d' = d'] new link(2) h by blast
  have 3: "cr_officialId c \<noteq> oid" if "verifyOfficial cf cy tcode q expected d' = Inr c" for c
    using that new code by (auto simp: verifyOfficial_def split: if_splits dest!: find_SomeD)
  from 1 2 3 show ?thesis by blast
qed

section \<open>Deactivation\<close>

lemma length_filter_without:
  "distinct (map g xs) \<Longrightarrow> length (filter P xs) \<le> Suc (length (filter (\<lambda>x. P x \<and> g x \<noteq> k) xs))"
proof (induction xs)
  case (Cons x xs)
  show ?case
  proof (cases "g x = k")
    case True
    with Cons.prems have "filter (\<lambda>x. P x \<and> g x \<noteq> k) xs = filter P xs" by (intro filter_cong) (auto simp: image_iff)
    then show ?thesis by simp
  qed (use Cons in auto)
qed simp

text \<open>C18: after the deactivation of an active official none of their sessions is active and none of their
  assignments is unreleased, and if they were a judge, the active judges that remain are enough for every
  round of every active bracket with unfinished fixtures.\<close>

theorem deactivation_leaves_the_crews_staffed:
  assumes upd: "updateOfficial tid oid u actor now d = Inr (x, ids, d')" and off: "uo_isActive u = Some False"
    and before: "requireOfficial tid oid d = Inr before" "of_isActive before" and ids: "distinct (map of_id (officials d))"
  shows "(\<forall>s \<in> set (officialSessions d'). os_officialId s = oid \<longrightarrow> \<not> os_active s) \<and>
    (\<forall>a \<in> set (assignments d'). as_officialId a = oid \<longrightarrow> as_releasedAt a \<noteq> None) \<and>
    (of_role before = JUDGE \<longrightarrow> (\<forall>s \<in> set (unfinishedRequirements tid d'). rs_requiredJudgeCount s \<le> activeJudges tid d'))"
proof -
  obtain name where o: "officials d' = updWhere (\<lambda>x. of_id x = oid) (officialChange name (uo_isActive u) now) (officials d)"
    and os: "officialSessions d' = officialSessions (snd (revokeSessionsOf oid now d))"
    and same: "assignments d' = assignments d" "brackets d' = brackets d" "roundStaffing d' = roundStaffing d" "fixtureRows d' = fixtureRows d"
    and ok: "assertDeactivationAllowed tid before d = Inr ()"
    using updated [OF upd] off before by (smt (verit) sum.inject(2))
  have b: "of_id before = oid" using before(1) by (auto simp: requireOfficial_def dest!: find_SomeD)
  have free: "\<forall>a \<in> set (assignments d). as_officialId a = oid \<longrightarrow> as_releasedAt a \<noteq> None"
    using ok b by (auto simp: assertDeactivationAllowed_def activeAssignment_def find_None_iff split: if_splits)
  have req: "unfinishedRequirements tid d' = unfinishedRequirements tid d" by (simp add: unfinishedRequirements_def same)
  have count: "activeJudges tid d \<le> Suc (activeJudges tid d')"
  proof -
    have "filter (\<lambda>x. of_tournamentId x = tid \<and> of_role x = JUDGE \<and> of_isActive x) (updWhere (\<lambda>x. of_id x = oid)
        (officialChange name (Some False) now) xs) = filter (\<lambda>x. (of_tournamentId x = tid \<and> of_role x = JUDGE \<and> of_isActive x) \<and> of_id x \<noteq> oid) xs" for xs
      by (induction xs) (auto simp: officialChange_def)
    with length_filter_without [OF ids, of "\<lambda>x. of_tournamentId x = tid \<and> of_role x = JUDGE \<and> of_isActive x" oid]
    show ?thesis by (simp add: activeJudges_def o off)
  qed
  have "rs_requiredJudgeCount s \<le> activeJudges tid d'" if "of_role before = JUDGE" "s \<in> set (unfinishedRequirements tid d)" for s
  proof -
    have ne: "unfinishedRequirements tid d \<noteq> []" using that by auto
    have "rs_requiredJudgeCount s \<le> Max (set (map rs_requiredJudgeCount (unfinishedRequirements tid d)))"
      using that(2) by (intro Max_ge) auto
    moreover have "int (Max (set (map rs_requiredJudgeCount (unfinishedRequirements tid d)))) \<le> int (activeJudges tid d) - 1"
      using ok that(1) ne by (simp add: assertDeactivationAllowed_def Let_def split: if_splits del: Max_le_iff Max_less_iff)
    ultimately show ?thesis using count by linarith
  qed
  then show ?thesis using revokeSessionsOf_closes free by (auto simp: os same req)
qed

section \<open>The properties on a sample\<close>

text \<open>The supervisor 61 is logged in; a bracket asks for two of the three judges.\<close>

definition officialDb :: db where
  "officialDb = waitingDb\<lparr>
     officialSessions := [\<lparr> os_id = 71, os_officialId = 61, os_deviceId = ''device'',
       os_tokenHash = officialTokenHash sampleConfig crypto1 (sampleToken CHR ''A''), os_active = True, os_lastSeenAt = None,
       os_expiresAt = Some 1000000, os_revokedAt = None \<rparr>],
     brackets := [\<lparr> b_id = 5, b_tournamentId = 1, b_weightClassId = 1, b_status = B_ACTIVE, b_athleteCount = 2, b_bracketSize = 2,
       b_roundCount = 1, b_confirmationKey = ''k'', b_confirmationFingerprint = ''f'', b_confirmedByUserId = None,
       b_completedAt = None, b_cancelledAt = None, b_championEntrantId = None \<rparr>],
     fixtureRows := [\<lparr> bf_id = 6, bf_bracketId = 5, bf_roundNumber = 1, bf_position = 1, bf_displayReference = ''F'',
       bf_status = READY, bf_winnerEntrantId = None, bf_winnerDecision = JNull \<rparr>],
     roundStaffing := [\<lparr> rs_id = 8, rs_bracketId = 5, rs_roundNumber = 1, rs_requiredJudgeCount = 2 \<rparr>] \<rparr>"

lemmas officialDb_defs = officialDb_def waitingDb_def emptyDb_def sampleOfficial_def sampleMatch_def

lemma officialDb_exclusive: "os.exclusive (officialSessions officialDb)"
  by (simp add: os.exclusive_def officialDb_def)

lemma officialDb_open: "openOfficial 61 1 officialDb = Some (sampleOfficial 61 SUPERVISOR)"
  by (simp add: openOfficial_def tournamentOpenForOfficials_def officialDb_defs)

lemma officialDb_resolves:
  "\<exists>i. fst (resolveOfficialSession sampleConfig crypto1 (sampleToken CHR ''A'') 0 officialDb) = Inr (Some i)"
  using sample_patterns(1)
  by (simp add: resolveOfficialSession_def officialDb_defs officialLive_def presentSession_def getOfficial_def getTournament_def
      activeAssignmentOf_def tournamentOpenForOfficials_def)

theorem one_session_per_official_witness:
  "\<exists>i1 i2. fst (resolveOfficialSession sampleConfig crypto1 (sampleToken CHR ''A'') 0
     (fst (fold (officialStep sampleConfig crypto1) [UpdateCommand 2 61 \<lparr> uo_role = None, uo_name = None, uo_isActive = None \<rparr> 7 0]
        (officialDb, \<lambda>_. None)))) = Inr (Some i1) \<and>
   fst (resolveOfficialSession sampleConfig crypto1 (sampleToken CHR ''A'') 0 officialDb) = Inr (Some i2) \<and>
   oi_sessionId i1 = oi_sessionId i2"
proof -
  have run: "(officialDb, \<lambda>_. None) = fold (officialStep sampleConfig crypto1)
      [UpdateCommand 2 61 \<lparr> uo_role = None, uo_name = None, uo_isActive = None \<rparr> 7 0] (officialDb, \<lambda>_. None)"
    by (simp add: updateOfficial_def)
  obtain i where i: "fst (resolveOfficialSession sampleConfig crypto1 (sampleToken CHR ''A'') 0 officialDb) = Inr (Some i)"
    using officialDb_resolves by blast
  with one_session_per_official [OF officialDb_exclusive run i i refl] show ?thesis using run [symmetric] by auto
qed

lemma sample_regenerated:
  "\<exists>x ids d'. regeneratePasscode sampleConfig crypto1 (\<lambda>n. (''new'', ''newhash'')) 1 61 7 5000 officialDb = Inr ((x, ids, d'), ''new'') \<and>
     of_passcodeHash x = ''newhash''"
proof -
  have "passcodeDigest sampleConfig crypto1 ''new'' \<noteq> ''digest''"
    by (simp add: passcodeDigest_def crypto1_def sampleCrypto_def)
  then show ?thesis
    by (simp add: regeneratePasscode_def PASSCODE_GENERATION_ATTEMPTS_def upt_rec regenerateAttempt_def lockMutableTournament_def
        getTournament_def requireOfficial_def officialDb_defs digestTaken_def Let_def revokeSessionsOf_def)
qed

lemma letters_of_alphabet: "isBase64url s \<Longrightarrow> filter (\<lambda>c. c \<in> set base64urlAlphabet) s = s"
  by (simp add: isBase64url_def list_all_iff filter_id_conv)

lemma keyed_letters:
  "keyed crypto1 k space v = ''m'' @ filter (\<lambda>c. c \<in> set base64urlAlphabet) space @ filter (\<lambda>c. c \<in> set base64urlAlphabet) v"
proof -
  have "CHR 0x00 \<notin> set base64urlAlphabet" by (simp add: base64urlAlphabet_def)
  then show ?thesis by (simp add: keyed_def crypto1_def sampleCrypto_def)
qed

lemma crypto1_base64url: "cy_toBase64url crypto1 = toLetters"
  by (simp add: crypto1_def sampleCrypto_def)

lemma sample_texts: "isBase64url ''code''" "isBase64url ''newhash''" "isBase64url ''new''" "isBase64url ''old''"
  by (simp_all add: isBase64url_def base64urlAlphabet_def)

theorem new_passcode_locks_out_witness:
  "\<exists>x ids d' tok role x0. regeneratePasscode sampleConfig crypto1 (\<lambda>n. (''new'', ''newhash'')) 1 61 7 5000 officialDb = Inr ((x, ids, d'), ''new'') \<and>
     createLoginToken sampleConfig crypto1 ''n'' 1 61 0 officialDb = Inr (tok, role, x0) \<and>
     fst (resolveOfficialSession sampleConfig crypto1 (sampleToken CHR ''A'') 6000
       (fst (fold (officialStep sampleConfig crypto1) [AccessCommand (freshSample 9 CHR ''C'') (at 5500) None ''ip''
          (OfficialLoginRequest ''T1'' ''new'' ''phone'' None)] (d', \<lambda>_. None)))) = Inr None \<and>
     verifyLink sampleConfig crypto1 tok ''phone'' None 6000 d' = Inl InvalidCredentials"
proof -
  obtain x ids d' where r: "regeneratePasscode sampleConfig crypto1 (\<lambda>n. (''new'', ''newhash'')) 1 61 7 5000 officialDb = Inr ((x, ids, d'), ''new'')"
    "of_passcodeHash x = ''newhash''" using sample_regenerated by blast
  obtain tok role x0 where l: "createLoginToken sampleConfig crypto1 ''n'' 1 61 0 officialDb = Inr (tok, role, x0)"
    by (simp add: createLoginToken_def officialDb_open Let_def del: One_nat_def)
  let ?s = "officialSessions officialDb ! 0"
  have s: "?s \<in> set (officialSessions officialDb)" "os_officialId ?s = 61"
    "os_tokenHash ?s = officialTokenHash sampleConfig crypto1 (sampleToken CHR ''A'')" by (simp_all add: officialDb_def)
  have sig: "linkSignature sampleConfig crypto1 (of_passcodeHash y) \<noteq> linkSignature sampleConfig crypto1 (of_passcodeHash x)"
    if "y \<in> set (officials officialDb)" for y
  proof -
    have "of_passcodeHash y = ''code''" using that by (auto simp: officialDb_defs)
    then show ?thesis
      using letters_of_alphabet [OF sample_texts(1)] letters_of_alphabet [OF sample_texts(2)]
      by (simp add: r(2) linkSignature_def keyed_letters crypto1_base64url del: filter.simps)
  qed
  have digest: "passcodeDigest sampleConfig crypto1 ''old'' \<noteq> passcodeDigest sampleConfig crypto1 ''new''"
    using letters_of_alphabet [OF sample_texts(3)] letters_of_alphabet [OF sample_texts(4)]
    by (simp add: passcodeDigest_def crypto1_def sampleCrypto_def del: filter.simps)
  from new_passcode_locks_out [OF crypto1_ok officialDb_exclusive r(1) s prod.collapse l sig digest] r(1) l
  show ?thesis by blast
qed

theorem deactivation_leaves_the_crews_staffed_witness:
  "\<exists>x ids d'. updateOfficial 1 62 \<lparr> uo_role = None, uo_name = None, uo_isActive = Some False \<rparr> 7 5000 officialDb = Inr (x, ids, d') \<and>
     (\<forall>s \<in> set (unfinishedRequirements 1 d'). rs_requiredJudgeCount s \<le> activeJudges 1 d')"
proof -
  let ?u = "\<lparr> uo_role = None, uo_name = None, uo_isActive = Some False \<rparr>"
  have req: "requireOfficial 1 62 officialDb = Inr (sampleOfficial 62 JUDGE)" by (simp add: requireOfficial_def officialDb_defs)
  have "assertDeactivationAllowed 1 (sampleOfficial 62 JUDGE) officialDb = Inr ()"
    by (simp add: assertDeactivationAllowed_def activeAssignment_def unfinishedRequirements_def activeJudges_def officialDb_defs Let_def)
  moreover have "lockMutableTournament 1 officialDb = Inr ()" by (simp add: lockMutableTournament_def getTournament_def officialDb_defs)
  moreover have "of_isActive (sampleOfficial 62 JUDGE)" by (simp add: sampleOfficial_def)
  ultimately obtain x ids d' where u: "updateOfficial 1 62 ?u 7 5000 officialDb = Inr (x, ids, d')"
    using req by (auto simp: updateOfficial_def Let_def simp del: One_nat_def split: prod.split) (metis surj_pair)
  have "distinct (map of_id (officials officialDb))" by (simp add: officialDb_defs)
  from deactivation_leaves_the_crews_staffed [OF u _ req _ this] u show ?thesis by (auto simp: sampleOfficial_def)
qed

end
