(* ===== verification/Roster.thy ===== *)
theory Roster
  imports Bracket_Preview Calendar
begin

text \<open>
  The roster of a tournament: participating organizations and weight classes
  (\<open>tournament-roster/tournament-roster.service.ts\<close>), athletes (\<open>athlete.service.ts\<close>) and the import of
  athletes from a spreadsheet (\<open>athlete-import.service.ts\<close>). Every command runs in one transaction that
  locks the tournament row, so commands are functions on the database. The Unicode normalization
  \<open>normalize('NFKC').toLocaleLowerCase('vi')\<close> is the argument \<open>nf\<close>, PostgreSQL's collation of names and its
  \<open>ILIKE\<close> are arguments of the listing. An absent field of an input is None and an explicit null
  \<open>Some None\<close>. Image columns of organizations and creation stamps are left out.
\<close>

datatype roster_error =
    RosterTournamentNotFound | RosterTournamentArchived | OrganizationNotFound | RosterWeightClassNotFound
  | OrganizationNameExists | WeightClassNameExists | OrganizationUpdateEmpty | WeightClassUpdateEmpty
  | WeightClassInUse | AthleteNotFound | RosterAssignmentNotFound | AthleteUpdateEmpty
  | AthleteInActiveBracket | WeightClassBracketLocked | InvalidBirthYear int | RosterInvalidText
  | RosterUniqueViolation | InvalidPagination | InvalidAthleteFilters
  | DuplicateRowNumbers "nat list" | ImportKeyRequired | ImportKeyConflict

section \<open>Shared steps\<close>

definition lockTournament :: "uuid \<Rightarrow> db \<Rightarrow> roster_error + unit" where
  "lockTournament tid d =
     (case List.find (\<lambda>t. t_id t = tid) (tournaments d) of
        None \<Rightarrow> Inl RosterTournamentNotFound
      | Some t \<Rightarrow>
          if t_softDeletedAt t \<noteq> None then Inl RosterTournamentNotFound
          else if t_status t = T_ARCHIVED then Inl RosterTournamentArchived
          else Inr ())"

definition rosterName :: "string \<Rightarrow> roster_error + string" where
  "rosterName v = (if trim v = [] then Inl RosterInvalidText else Inr (trim v))"

text \<open>\<open>value.trim() || null\<close> on a text or null.\<close>

definition textOrNull :: "string option \<Rightarrow> string option" where
  "textOrNull v = Option.bind v (\<lambda>s. if trim s = [] then None else Some (trim s))"

definition rosterAudit :: "uuid \<Rightarrow> string \<Rightarrow> uuid \<Rightarrow> jval \<Rightarrow> jval \<Rightarrow> (string \<times> jval) list \<Rightarrow> db \<Rightarrow> db" where
  "rosterAudit actorId action targetId before after extra d =
     addAudit \<lparr> a_id = None, a_eventType = ADMIN_ACTION, a_matchId = None, a_adminUserId = Some actorId, a_sessionId = None,
       a_officialSessionId = None,
       a_metadata = JObj ([(''action'', JStr action), (''targetId'', JId targetId), (''before'', before), (''after'', after)] @ extra) \<rparr> d"

definition organizationJson :: "organization_row \<Rightarrow> jval" where
  "organizationJson g = JObj [(''id'', JId (og_id g)), (''tournamentId'', JId (og_tournamentId g)), (''name'', JStr (og_name g)),
     (''location'', jOpt JStr (og_location g)), (''details'', jOpt JStr (og_details g)), (''isActive'', JBool (og_isActive g)),
     (''deactivatedAt'', jOpt JDate (og_deactivatedAt g)), (''updatedAt'', JDate (og_updatedAt g))]"

definition weightClassJson :: "weight_class_row \<Rightarrow> jval" where
  "weightClassJson w = JObj [(''id'', JId (wc_id w)), (''tournamentId'', JId (wc_tournamentId w)), (''name'', JStr (wc_name w)),
     (''details'', jOpt JStr (wc_details w)), (''intermissionDurationSeconds'', JInt (wc_intermissionDurationSeconds w)),
     (''isActive'', JBool (wc_isActive w)), (''deactivatedAt'', jOpt JDate (wc_deactivatedAt w))]"

section \<open>Organizations\<close>

record roster_item_input =
  ri_name :: string
  ri_location :: "string option"
  ri_details :: "string option"

record roster_item_update =
  ru_name :: "string option"
  ru_location :: "string option option"
  ru_details :: "string option option"
  ru_isActive :: "bool option"
  ru_intermissionDurationSeconds :: "int option"

definition emptyUpdate :: "roster_item_update \<Rightarrow> bool" where
  "emptyUpdate u \<longleftrightarrow> ru_name u = None \<and> ru_location u = None \<and> ru_details u = None \<and> ru_isActive u = None \<and>
     ru_intermissionDurationSeconds u = None"

definition updateName :: "roster_item_update \<Rightarrow> roster_error + string option" where
  "updateName u = (case ru_name u of None \<Rightarrow> Inr None | Some v \<Rightarrow> bindR (rosterName v) (\<lambda>n. Inr (Some n)))"

definition getOrganization :: "uuid \<Rightarrow> uuid \<Rightarrow> db \<Rightarrow> roster_error + organization_row" where
  "getOrganization tid oid d =
     orThrow (List.find (\<lambda>g. og_id g = oid \<and> og_tournamentId g = tid) (organizations d)) OrganizationNotFound"

text \<open>The unique index on tournament, name and locality.\<close>

definition sameOrganizationName :: "organization_row \<Rightarrow> organization_row \<Rightarrow> bool" where
  "sameOrganizationName g x \<longleftrightarrow> og_tournamentId x = og_tournamentId g \<and> og_normalizedName x = og_normalizedName g \<and>
     og_normalizedLocation x = og_normalizedLocation g"

definition newOrganization :: "(string \<Rightarrow> string) \<Rightarrow> uuid \<Rightarrow> uuid \<Rightarrow> string \<Rightarrow> string option \<Rightarrow> string option \<Rightarrow> time \<Rightarrow> organization_row" where
  "newOrganization nf newId tid name location details now =
     \<lparr> og_id = newId, og_tournamentId = tid, og_name = name, og_normalizedName = nf name,
       og_normalizedLocation = nf (case location of None \<Rightarrow> [] | Some l \<Rightarrow> l), og_location = location, og_details = details,
       og_isActive = True, og_deactivatedAt = None, og_updatedAt = now \<rparr>"

definition createOrganization ::
  "(string \<Rightarrow> string) \<Rightarrow> uuid \<Rightarrow> uuid \<Rightarrow> roster_item_input \<Rightarrow> uuid \<Rightarrow> time \<Rightarrow> db \<Rightarrow> roster_error + (organization_row \<times> db)" where
  "createOrganization nf newId tid input actorId now d =
     bindR (rosterName (ri_name input)) (\<lambda>name.
     bindR (lockTournament tid d) (\<lambda>_.
     let g = newOrganization nf newId tid name (textOrNull (ri_location input)) (textOrNull (ri_details input)) now in
     if \<exists>x \<in> set (organizations d). og_id x = newId \<or> sameOrganizationName g x then Inl OrganizationNameExists
     else Inr (g, rosterAudit actorId ''ORGANIZATION_CREATED'' newId JNull (organizationJson g) []
       (d\<lparr> organizations := organizations d @ [g] \<rparr>))))"

text \<open>\<open>updateMany\<close> that takes the athletes out of an organization.\<close>

definition leaveOrganization :: "uuid \<Rightarrow> uuid \<Rightarrow> time \<Rightarrow> db \<Rightarrow> db" where
  "leaveOrganization tid oid now d = d\<lparr> rosterAthletes := updWhere (\<lambda>a. ta_tournamentId a = tid \<and> ta_organizationId a = Some oid)
     (\<lambda>a. a\<lparr> ta_organizationId := None, ta_updatedAt := now \<rparr>) (rosterAthletes d) \<rparr>"

definition organizationChange ::
  "(string \<Rightarrow> string) \<Rightarrow> string option \<Rightarrow> roster_item_update \<Rightarrow> time \<Rightarrow> organization_row \<Rightarrow> organization_row" where
  "organizationChange nf name u now g = g\<lparr>
     og_name := (case name of None \<Rightarrow> og_name g | Some n \<Rightarrow> n),
     og_normalizedName := (case name of None \<Rightarrow> og_normalizedName g | Some n \<Rightarrow> nf n),
     og_details := (case ru_details u of None \<Rightarrow> og_details g | Some v \<Rightarrow> textOrNull v),
     og_location := (case ru_location u of None \<Rightarrow> og_location g | Some v \<Rightarrow> textOrNull v),
     og_normalizedLocation := (case ru_location u of None \<Rightarrow> og_normalizedLocation g
       | Some v \<Rightarrow> nf (case textOrNull v of None \<Rightarrow> [] | Some l \<Rightarrow> l)),
     og_isActive := (case ru_isActive u of None \<Rightarrow> og_isActive g | Some b \<Rightarrow> b),
     og_deactivatedAt := (case ru_isActive u of None \<Rightarrow> og_deactivatedAt g | Some b \<Rightarrow> if b then None else Some now),
     og_updatedAt := now \<rparr>"

definition updateOrganization ::
  "(string \<Rightarrow> string) \<Rightarrow> uuid \<Rightarrow> uuid \<Rightarrow> roster_item_update \<Rightarrow> uuid \<Rightarrow> time \<Rightarrow> db \<Rightarrow> roster_error + (organization_row \<times> db)" where
  "updateOrganization nf tid oid u actorId now d =
     (if emptyUpdate u then Inl OrganizationUpdateEmpty
      else
        bindR (updateName u) (\<lambda>name.
        bindR (lockTournament tid d) (\<lambda>_.
        bindR (getOrganization tid oid d) (\<lambda>before.
        let deactivates = (ru_isActive u = Some False \<and> og_isActive before);
            d1 = (if deactivates then leaveOrganization tid oid now d else d);
            change = organizationChange nf name u now;
            after = change before in
        if \<exists>x \<in> set (organizations d1). og_id x \<noteq> oid \<and> sameOrganizationName after x then Inl OrganizationNameExists
        else Inr (after, rosterAudit actorId
          (if ru_isActive u = Some True \<and> \<not> og_isActive before then ''ORGANIZATION_RESTORED''
           else if deactivates then ''ORGANIZATION_DEACTIVATED'' else ''ORGANIZATION_UPDATED'')
          oid (organizationJson before) (organizationJson after) []
          (d1\<lparr> organizations := updWhere (\<lambda>g. og_id g = oid) change (organizations d1) \<rparr>))))))"

definition deactivateOrganization :: "uuid \<Rightarrow> uuid \<Rightarrow> uuid \<Rightarrow> time \<Rightarrow> db \<Rightarrow> roster_error + (organization_row \<times> db)" where
  "deactivateOrganization tid oid actorId now d =
     bindR (lockTournament tid d) (\<lambda>_.
     bindR (getOrganization tid oid d) (\<lambda>before.
     if \<not> og_isActive before then Inr (before, d)
     else
       let d1 = leaveOrganization tid oid now d;
           change = (\<lambda>g. g\<lparr> og_isActive := False, og_deactivatedAt := Some now, og_updatedAt := now \<rparr>) in
       Inr (change before, rosterAudit actorId ''ORGANIZATION_DEACTIVATED'' oid (organizationJson before)
         (organizationJson (change before)) []
         (d1\<lparr> organizations := updWhere (\<lambda>g. og_id g = oid) change (organizations d1) \<rparr>))))"

section \<open>Weight classes\<close>

definition getWeightClass :: "uuid \<Rightarrow> uuid \<Rightarrow> db \<Rightarrow> roster_error + weight_class_row" where
  "getWeightClass tid wid d =
     orThrow (List.find (\<lambda>w. wc_id w = wid \<and> wc_tournamentId w = tid) (weightClasses d)) RosterWeightClassNotFound"

definition sameWeightClassName :: "weight_class_row \<Rightarrow> weight_class_row \<Rightarrow> bool" where
  "sameWeightClassName w x \<longleftrightarrow> wc_tournamentId x = wc_tournamentId w \<and> wc_normalizedName x = wc_normalizedName w"

definition createWeightClass ::
  "(string \<Rightarrow> string) \<Rightarrow> uuid \<Rightarrow> uuid \<Rightarrow> roster_item_input \<Rightarrow> uuid \<Rightarrow> db \<Rightarrow> roster_error + (weight_class_row \<times> db)" where
  "createWeightClass nf newId tid input actorId d =
     bindR (rosterName (ri_name input)) (\<lambda>name.
     bindR (lockTournament tid d) (\<lambda>_.
     let w = \<lparr> wc_id = newId, wc_tournamentId = tid, wc_name = name, wc_normalizedName = nf name,
           wc_details = textOrNull (ri_details input), wc_intermissionDurationSeconds = 0, wc_isActive = True,
           wc_deactivatedAt = None \<rparr> in
     if \<exists>x \<in> set (weightClasses d). wc_id x = newId \<or> sameWeightClassName w x then Inl WeightClassNameExists
     else Inr (w, rosterAudit actorId ''WEIGHT_CLASS_CREATED'' newId JNull (weightClassJson w) []
       (d\<lparr> weightClasses := weightClasses d @ [w] \<rparr>))))"

definition weightClassInUse :: "uuid \<Rightarrow> uuid \<Rightarrow> db \<Rightarrow> bool" where
  "weightClassInUse tid wid d \<longleftrightarrow>
     (\<exists>a \<in> set (rosterAthletes d). ta_tournamentId a = tid \<and> ta_weightClassId a = wid \<and> ta_isActive a) \<or>
     (\<exists>m \<in> set (matches d). m_tournamentId m = tid \<and> m_weightClassId m = Some wid) \<or>
     currentBracket tid wid d \<noteq> None"

definition weightClassChange ::
  "(string \<Rightarrow> string) \<Rightarrow> string option \<Rightarrow> roster_item_update \<Rightarrow> time \<Rightarrow> weight_class_row \<Rightarrow> weight_class_row" where
  "weightClassChange nf name u now w = w\<lparr>
     wc_name := (case name of None \<Rightarrow> wc_name w | Some n \<Rightarrow> n),
     wc_normalizedName := (case name of None \<Rightarrow> wc_normalizedName w | Some n \<Rightarrow> nf n),
     wc_details := (case ru_details u of None \<Rightarrow> wc_details w | Some v \<Rightarrow> textOrNull v),
     wc_intermissionDurationSeconds := (case ru_intermissionDurationSeconds u of
       None \<Rightarrow> wc_intermissionDurationSeconds w | Some s \<Rightarrow> s),
     wc_isActive := (case ru_isActive u of None \<Rightarrow> wc_isActive w | Some b \<Rightarrow> b),
     wc_deactivatedAt := (case ru_isActive u of None \<Rightarrow> wc_deactivatedAt w | Some b \<Rightarrow> if b then None else Some now) \<rparr>"

definition updateWeightClass ::
  "(string \<Rightarrow> string) \<Rightarrow> uuid \<Rightarrow> uuid \<Rightarrow> roster_item_update \<Rightarrow> uuid \<Rightarrow> time \<Rightarrow> db \<Rightarrow> roster_error + (weight_class_row \<times> db)" where
  "updateWeightClass nf tid wid u actorId now d =
     (if emptyUpdate u then Inl WeightClassUpdateEmpty
      else
        bindR (updateName u) (\<lambda>name.
        bindR (lockTournament tid d) (\<lambda>_.
        bindR (getWeightClass tid wid d) (\<lambda>before.
        let deactivates = (ru_isActive u = Some False \<and> wc_isActive before);
            change = weightClassChange nf name u now;
            after = change before in
        if deactivates \<and> weightClassInUse tid wid d then Inl WeightClassInUse
        else if \<exists>x \<in> set (weightClasses d). wc_id x \<noteq> wid \<and> sameWeightClassName after x then Inl WeightClassNameExists
        else Inr (after, rosterAudit actorId
          (if ru_isActive u = Some True \<and> \<not> wc_isActive before then ''WEIGHT_CLASS_RESTORED''
           else if deactivates then ''WEIGHT_CLASS_DEACTIVATED'' else ''WEIGHT_CLASS_UPDATED'')
          wid (weightClassJson before) (weightClassJson after) []
          (d\<lparr> weightClasses := updWhere (\<lambda>w. wc_id w = wid) change (weightClasses d) \<rparr>))))))"

definition deactivateWeightClass :: "uuid \<Rightarrow> uuid \<Rightarrow> uuid \<Rightarrow> time \<Rightarrow> db \<Rightarrow> roster_error + (weight_class_row \<times> db)" where
  "deactivateWeightClass tid wid actorId now d =
     bindR (lockTournament tid d) (\<lambda>_.
     bindR (getWeightClass tid wid d) (\<lambda>before.
     if \<not> wc_isActive before then Inr (before, d)
     else if weightClassInUse tid wid d then Inl WeightClassInUse
     else
       let change = (\<lambda>w. w\<lparr> wc_isActive := False, wc_deactivatedAt := Some now \<rparr>) in
       Inr (change before, rosterAudit actorId ''WEIGHT_CLASS_DEACTIVATED'' wid (weightClassJson before)
         (weightClassJson (change before)) []
         (d\<lparr> weightClasses := updWhere (\<lambda>w. wc_id w = wid) change (weightClasses d) \<rparr>))))"

text \<open>The listings, ordered by name and identifier; \<open>rank\<close> orders the names.\<close>

definition listOrganizations :: "(string \<Rightarrow> nat) \<Rightarrow> uuid \<Rightarrow> bool \<Rightarrow> db \<Rightarrow> organization_row list" where
  "listOrganizations rank tid includeInactive d = sort_key (\<lambda>g. rank (og_name g)) (sort_key og_id
     (filter (\<lambda>g. og_tournamentId g = tid \<and> (includeInactive \<or> og_isActive g)) (organizations d)))"

definition listWeightClasses :: "(string \<Rightarrow> nat) \<Rightarrow> uuid \<Rightarrow> bool \<Rightarrow> db \<Rightarrow> (weight_class_row \<times> bool) list" where
  "listWeightClasses rank tid includeInactive d =
     map (\<lambda>w. (w, \<exists>b \<in> set (brackets d). b_tournamentId b = wc_tournamentId w \<and> b_weightClassId b = wc_id w \<and>
         b_status b \<in> {B_ACTIVE, B_COMPLETED}))
       (sort_key (\<lambda>w. rank (wc_name w)) (sort_key wc_id
         (filter (\<lambda>w. wc_tournamentId w = tid \<and> (includeInactive \<or> wc_isActive w)) (weightClasses d))))"

end
