(* ===== verification/Roster_Athletes.thy ===== *)
theory Roster_Athletes
  imports Roster
begin

text \<open>
  Athletes of a tournament: \<open>tournament-roster/athlete.service.ts\<close> and the import of a spreadsheet,
  \<open>athlete-import.service.ts\<close>. The digest of the submitted rows is an argument. The messages of the import
  are values of \<open>import_issue\<close>; the name given to a missing organization is written without its marks.
\<close>

section \<open>Athletes\<close>

definition birth :: "int \<Rightarrow> time \<Rightarrow> roster_error + int" where
  "birth year now =
     (let current = getUTCFullYear now in if year < 1900 \<or> current < year then Inl (InvalidBirthYear current) else Inr year)"

definition athleteDetails :: "string option \<Rightarrow> string option" where
  "athleteDetails v = map_option trim v"

definition athleteJson :: "db \<Rightarrow> athlete_row \<Rightarrow> jval" where
  "athleteJson d a = JObj [(''id'', JId (ta_id a)), (''tournamentId'', JId (ta_tournamentId a)),
     (''organizationId'', jOpt JId (ta_organizationId a)), (''weightClassId'', JId (ta_weightClassId a)),
     (''name'', JStr (ta_name a)), (''birthYear'', JInt (ta_birthYear a)), (''details'', jOpt JStr (ta_details a)),
     (''imagePath'', jOpt JStr (ta_imagePath a)), (''isSeed'', JBool (ta_isSeed a)), (''isActive'', JBool (ta_isActive a)),
     (''deactivatedAt'', jOpt JDate (ta_deactivatedAt a)), (''updatedAt'', JDate (ta_updatedAt a)),
     (''organization'', jOpt (\<lambda>g. JObj [(''id'', JId (og_id g)), (''name'', JStr (og_name g)), (''isActive'', JBool (og_isActive g))])
       (organizationOf d a)),
     (''weightClass'', jOpt (\<lambda>w. JObj [(''id'', JId (wc_id w)), (''name'', JStr (wc_name w)), (''isActive'', JBool (wc_isActive w))])
       (List.find (\<lambda>w. wc_id w = ta_weightClassId a \<and> wc_tournamentId w = ta_tournamentId a) (weightClasses d)))]"

definition athleteImageUrl :: "athlete_row \<Rightarrow> string option" where
  "athleteImageUrl a = (case ta_imagePath a of None \<Rightarrow> None | Some p \<Rightarrow> if p = [] then None else Some (''/api/media/'' @ p))"

definition athleteOf :: "uuid \<Rightarrow> uuid \<Rightarrow> db \<Rightarrow> roster_error + athlete_row" where
  "athleteOf tid aid d = orThrow (List.find (\<lambda>a. ta_id a = aid \<and> ta_tournamentId a = tid) (rosterAthletes d)) AthleteNotFound"

definition getAthlete :: "uuid \<Rightarrow> uuid \<Rightarrow> db \<Rightarrow> roster_error + (athlete_row \<times> string option)" where
  "getAthlete tid aid d = bindR (athleteOf tid aid d) (\<lambda>a. Inr (a, athleteImageUrl a))"

definition rosterAssignments :: "uuid \<Rightarrow> uuid \<Rightarrow> uuid option \<Rightarrow> bool \<Rightarrow> db \<Rightarrow> roster_error + (uuid \<times> uuid option)" where
  "rosterAssignments tid wid org lockBracket d =
     (if \<not> weightClassActive tid wid d then Inl RosterAssignmentNotFound
      else if lockBracket \<and> currentBracket tid wid d \<noteq> None then Inl WeightClassBracketLocked
      else if org \<noteq> None \<and>
        \<not> (\<exists>g \<in> set (organizations d). Some (og_id g) = org \<and> og_tournamentId g = tid \<and> og_isActive g)
      then Inl RosterAssignmentNotFound
      else Inr (wid, org))"

record create_athlete_input =
  ca_name :: string
  ca_birthYear :: int
  ca_weightClassId :: uuid
  ca_organizationId :: "uuid option"
  ca_details :: "string option"
  ca_isSeed :: "bool option"

definition createAthlete :: "uuid \<Rightarrow> uuid \<Rightarrow> create_athlete_input \<Rightarrow> uuid \<Rightarrow> time \<Rightarrow> db \<Rightarrow> roster_error + (athlete_row \<times> db)" where
  "createAthlete newId tid input actorId now d =
     bindR (lockTournament tid d) (\<lambda>_.
     bindR (rosterAssignments tid (ca_weightClassId input) (ca_organizationId input) True d) (\<lambda>_.
     bindR (rosterName (ca_name input)) (\<lambda>name.
     bindR (birth (ca_birthYear input) now) (\<lambda>year.
     let a = \<lparr> ta_id = newId, ta_tournamentId = tid, ta_organizationId = ca_organizationId input,
           ta_weightClassId = ca_weightClassId input, ta_name = name, ta_birthYear = year,
           ta_details = athleteDetails (ca_details input), ta_imagePath = None,
           ta_isSeed = (case ca_isSeed input of None \<Rightarrow> False | Some b \<Rightarrow> b), ta_isActive = True,
           ta_deactivatedAt = None, ta_updatedAt = now \<rparr> in
     if newId \<in> ta_id ` set (rosterAthletes d) then Inl RosterUniqueViolation
     else Inr (a, rosterAudit actorId ''ATHLETE_CREATED'' newId JNull (athleteJson d a) []
       (d\<lparr> rosterAthletes := rosterAthletes d @ [a] \<rparr>))))))"

record update_athlete_input =
  ua_name :: "string option"
  ua_birthYear :: "int option"
  ua_weightClassId :: "uuid option"
  ua_organizationId :: "uuid option option"
  ua_details :: "string option option"
  ua_isActive :: "bool option"
  ua_isSeed :: "bool option"

definition noAthleteUpdate :: update_athlete_input where
  "noAthleteUpdate = \<lparr> ua_name = None, ua_birthYear = None, ua_weightClassId = None, ua_organizationId = None,
     ua_details = None, ua_isActive = None, ua_isSeed = None \<rparr>"

definition activeEntrant :: "uuid \<Rightarrow> db \<Rightarrow> bool" where
  "activeEntrant aid d \<longleftrightarrow> (\<exists>e \<in> set (entrants d). e_athleteId e = aid \<and>
     (\<exists>b \<in> set (brackets d). b_id b = e_bracketId e \<and> b_status b \<in> {B_ACTIVE, B_COMPLETED}))"

definition movesClass :: "update_athlete_input \<Rightarrow> athlete_row \<Rightarrow> bool" where
  "movesClass u before \<longleftrightarrow> ua_weightClassId u \<noteq> None \<and> ua_weightClassId u \<noteq> Some (ta_weightClassId before)"

definition changesEligibility :: "update_athlete_input \<Rightarrow> athlete_row \<Rightarrow> bool" where
  "changesEligibility u before \<longleftrightarrow> (ua_isActive u = Some False \<and> ta_isActive before) \<or> movesClass u before"

definition restoresAthlete :: "update_athlete_input \<Rightarrow> athlete_row \<Rightarrow> bool" where
  "restoresAthlete u before \<longleftrightarrow> ua_isActive u = Some True \<and> \<not> ta_isActive before"

definition updateAssignments :: "uuid \<Rightarrow> update_athlete_input \<Rightarrow> athlete_row \<Rightarrow> db \<Rightarrow> roster_error + (uuid \<times> uuid option) option" where
  "updateAssignments tid u before d =
     (if ua_weightClassId u \<noteq> None \<or> ua_organizationId u \<noteq> None \<or> restoresAthlete u before
      then bindR (rosterAssignments tid (case ua_weightClassId u of None \<Rightarrow> ta_weightClassId before | Some w \<Rightarrow> w)
             (case ua_organizationId u of None \<Rightarrow> ta_organizationId before | Some g \<Rightarrow> g)
             (movesClass u before \<or> restoresAthlete u before) d) (\<lambda>p. Inr (Some p))
      else Inr None)"

definition athleteChange ::
  "(uuid \<times> uuid option) option \<Rightarrow> string option \<Rightarrow> int option \<Rightarrow> update_athlete_input \<Rightarrow> time \<Rightarrow> athlete_row \<Rightarrow> athlete_row" where
  "athleteChange placed name year u now a = a\<lparr>
     ta_weightClassId := (case placed of None \<Rightarrow> ta_weightClassId a | Some p \<Rightarrow> fst p),
     ta_organizationId := (case placed of None \<Rightarrow> ta_organizationId a | Some p \<Rightarrow> snd p),
     ta_name := (case name of None \<Rightarrow> ta_name a | Some n \<Rightarrow> n),
     ta_birthYear := (case year of None \<Rightarrow> ta_birthYear a | Some y \<Rightarrow> y),
     ta_details := (case ua_details u of None \<Rightarrow> ta_details a | Some v \<Rightarrow> athleteDetails v),
     ta_isActive := (case ua_isActive u of None \<Rightarrow> ta_isActive a | Some b \<Rightarrow> b),
     ta_deactivatedAt := (case ua_isActive u of None \<Rightarrow> ta_deactivatedAt a | Some b \<Rightarrow> if b then None else Some now),
     ta_isSeed := (case ua_isSeed u of None \<Rightarrow> ta_isSeed a | Some b \<Rightarrow> b),
     ta_updatedAt := now \<rparr>"

definition optional :: "('a \<Rightarrow> roster_error + 'b) \<Rightarrow> 'a option \<Rightarrow> roster_error + 'b option" where
  "optional f v = (case v of None \<Rightarrow> Inr None | Some x \<Rightarrow> bindR (f x) (\<lambda>y. Inr (Some y)))"

definition updateAthlete ::
  "uuid \<Rightarrow> uuid \<Rightarrow> update_athlete_input \<Rightarrow> uuid \<Rightarrow> time \<Rightarrow> db \<Rightarrow> roster_error + (athlete_row \<times> db)" where
  "updateAthlete tid aid u actorId now d =
     (if u = noAthleteUpdate then Inl AthleteUpdateEmpty
      else
        bindR (lockTournament tid d) (\<lambda>_.
        bindR (athleteOf tid aid d) (\<lambda>before.
        if changesEligibility u before \<and> activeEntrant aid d then Inl AthleteInActiveBracket
        else
          bindR (updateAssignments tid u before d) (\<lambda>placed.
          bindR (optional (\<lambda>y. birth y now) (ua_birthYear u)) (\<lambda>year.
          bindR (optional rosterName (ua_name u)) (\<lambda>name.
          let change = athleteChange placed name year u now;
              d1 = d\<lparr> rosterAthletes := updWhere (\<lambda>a. ta_id a = aid) change (rosterAthletes d) \<rparr> in
          Inr (change before, rosterAudit actorId
            (if restoresAthlete u before then ''ATHLETE_RESTORED''
             else if ua_isActive u = Some False \<and> ta_isActive before then ''ATHLETE_DEACTIVATED'' else ''ATHLETE_UPDATED'')
            aid (athleteJson d before) (athleteJson d1 (change before)) [] d1)))))))"

definition deactivateAthlete :: "uuid \<Rightarrow> uuid \<Rightarrow> uuid \<Rightarrow> time \<Rightarrow> db \<Rightarrow> roster_error + (athlete_row \<times> db)" where
  "deactivateAthlete tid aid actorId now d = updateAthlete tid aid (noAthleteUpdate\<lparr> ua_isActive := Some False \<rparr>) actorId now d"

record athlete_query =
  aq_page :: "int option"
  aq_pageSize :: "int option"
  aq_search :: "string option"
  aq_weightClassId :: "uuid option"
  aq_organizationId :: "uuid option"
  aq_noOrganization :: "bool option"
  aq_isActive :: "bool option"

definition athleteMatches :: "(string \<Rightarrow> string \<Rightarrow> bool) \<Rightarrow> uuid \<Rightarrow> athlete_query \<Rightarrow> athlete_row \<Rightarrow> bool" where
  "athleteMatches containsText tid q a \<longleftrightarrow> ta_tournamentId a = tid \<and>
     (case aq_weightClassId q of None \<Rightarrow> True | Some w \<Rightarrow> ta_weightClassId a = w) \<and>
     (if aq_noOrganization q = Some True then ta_organizationId a = None
      else case aq_organizationId q of None \<Rightarrow> True | Some g \<Rightarrow> ta_organizationId a = Some g) \<and>
     (case aq_isActive q of None \<Rightarrow> True | Some b \<Rightarrow> ta_isActive a = b) \<and>
     (case aq_search q of None \<Rightarrow> True | Some s \<Rightarrow> trim s = [] \<or> containsText (ta_name a) (trim s))"

record athlete_page =
  ap_items :: "athlete_row list"
  ap_page :: int
  ap_pageSize :: int
  ap_total :: nat
  ap_totalPages :: int

definition listAthletes ::
  "(string \<Rightarrow> nat) \<Rightarrow> (string \<Rightarrow> string \<Rightarrow> bool) \<Rightarrow> uuid \<Rightarrow> athlete_query \<Rightarrow> db \<Rightarrow> roster_error + athlete_page" where
  "listAthletes rank containsText tid q d =
     (let page = (case aq_page q of None \<Rightarrow> 1 | Some p \<Rightarrow> p);
          size = (case aq_pageSize q of None \<Rightarrow> 25 | Some s \<Rightarrow> s) in
      if page < 1 \<or> size < 1 \<or> 100 < size then Inl InvalidPagination
      else if aq_noOrganization q = Some True \<and> aq_organizationId q \<noteq> None then Inl InvalidAthleteFilters
      else
        let rows = filter (athleteMatches containsText tid q) (rosterAthletes d);
            ordered = sort_key (\<lambda>a. rank (ta_name a)) (sort_key ta_id rows) in
        Inr \<lparr> ap_items = take (nat size) (drop (nat ((page - 1) * size)) ordered), ap_page = page, ap_pageSize = size,
          ap_total = length rows, ap_totalPages = (int (length rows) + size - 1) div size \<rparr>)"

section \<open>The rows of an import\<close>

record import_row =
  iw_rowNumber :: nat
  iw_name :: string
  iw_birthYear :: int
  iw_weightClass :: string
  iw_organizationName :: string
  iw_organizationLocation :: string

definition NO_ORGANIZATION_NAME :: string where
  "NO_ORGANIZATION_NAME = ''Khong don vi''"

definition importOrganizationName :: "string \<Rightarrow> string" where
  "importOrganizationName v = (if trim v = [] then NO_ORGANIZATION_NAME else trim v)"

definition importNormalized :: "(string \<Rightarrow> string) \<Rightarrow> string \<Rightarrow> string" where
  "importNormalized nf v = nf (trim v)"

definition showInt :: "int \<Rightarrow> string" where
  "showInt i = (if i < 0 then ''-'' @ showNat (nat (- i)) else showNat (nat i))"

text \<open>Two parts of a key, with the character U+0000 between them.\<close>

definition joinKey :: "string \<Rightarrow> string \<Rightarrow> string" where
  "joinKey a b = a @ CHR 0x00 # b"

definition unitKey :: "(string \<Rightarrow> string) \<Rightarrow> import_row \<Rightarrow> string" where
  "unitKey nf w = joinKey (importNormalized nf (importOrganizationName (iw_organizationName w)))
     (importNormalized nf (iw_organizationLocation w))"

definition athleteKey :: "(string \<Rightarrow> string) \<Rightarrow> import_row \<Rightarrow> string" where
  "athleteKey nf w = joinKey (importNormalized nf (iw_name w)) (joinKey (showInt (iw_birthYear w)) (unitKey nf w))"

text \<open>The loop keeps the numbers seen and, in the order of their discovery, those seen twice.\<close>

fun duplicateNumbers :: "nat list \<Rightarrow> nat list \<Rightarrow> nat list \<Rightarrow> nat list" where
  "duplicateNumbers seen dups [] = dups"
| "duplicateNumbers seen dups (n # ns) =
     duplicateNumbers (n # seen) (if n \<in> set seen \<and> n \<notin> set dups then dups @ [n] else dups) ns"

definition assertUniqueRowNumbers :: "import_row list \<Rightarrow> roster_error + unit" where
  "assertUniqueRowNumbers rows =
     (let dups = duplicateNumbers [] [] (map iw_rowNumber rows) in if dups = [] then Inr () else Inl (DuplicateRowNumbers dups))"

section \<open>Validation\<close>

definition importWeightClass :: "(string \<Rightarrow> string) \<Rightarrow> uuid \<Rightarrow> import_row \<Rightarrow> db \<Rightarrow> weight_class_row option" where
  "importWeightClass nf tid w d = List.find (\<lambda>x. wc_tournamentId x = tid \<and> wc_isActive x \<and>
     wc_normalizedName x = importNormalized nf (iw_weightClass w)) (weightClasses d)"

definition importUnit :: "(string \<Rightarrow> string) \<Rightarrow> uuid \<Rightarrow> import_row \<Rightarrow> db \<Rightarrow> organization_row option" where
  "importUnit nf tid w d = List.find (\<lambda>x. og_tournamentId x = tid \<and>
     og_normalizedName x = importNormalized nf (importOrganizationName (iw_organizationName w)) \<and>
     og_normalizedLocation x = importNormalized nf (iw_organizationLocation w)) (organizations d)"

definition alreadyRegistered :: "(string \<Rightarrow> string) \<Rightarrow> uuid \<Rightarrow> import_row \<Rightarrow> db \<Rightarrow> bool" where
  "alreadyRegistered nf tid w d \<longleftrightarrow> (\<exists>a \<in> set (rosterAthletes d). ta_tournamentId a = tid \<and> ta_isActive a \<and>
     importNormalized nf (ta_name a) = importNormalized nf (iw_name w) \<and> ta_birthYear a = iw_birthYear w \<and>
     (case organizationOf d a of None \<Rightarrow> False
      | Some g \<Rightarrow> og_normalizedName g = importNormalized nf (importOrganizationName (iw_organizationName w)) \<and>
          og_normalizedLocation g = importNormalized nf (iw_organizationLocation w)))"

definition athleteIssues :: "(string \<Rightarrow> string) \<Rightarrow> uuid \<Rightarrow> int \<Rightarrow> bool \<Rightarrow> import_row \<Rightarrow> db \<Rightarrow> import_issue list" where
  "athleteIssues nf tid currentYear repeated w d =
     (if trim (iw_name w) = [] \<or> 255 < length (trim (iw_name w)) then [NameRequired] else []) @
     (if iw_birthYear w < 1900 \<or> currentYear < iw_birthYear w then [BirthYearOutOfRange] else []) @
     (case importWeightClass nf tid w d of
        None \<Rightarrow> [WeightClassMissing]
      | Some x \<Rightarrow> if currentBracket tid (wc_id x) d \<noteq> None then [CurrentBracketExists] else []) @
     (if repeated then [DuplicateRow] else []) @
     (if alreadyRegistered nf tid w d then [AlreadyRegistered] else [])"

definition unitIssues :: "import_row \<Rightarrow> import_issue list" where
  "unitIssues w = (if trim (iw_organizationLocation w) = [] \<and>
     importOrganizationName (iw_organizationName w) \<noteq> NO_ORGANIZATION_NAME then [LocalityRequired] else [])"

definition validateRow :: "(string \<Rightarrow> string) \<Rightarrow> uuid \<Rightarrow> int \<Rightarrow> bool \<Rightarrow> nat \<Rightarrow> import_row \<Rightarrow> db \<Rightarrow> import_result" where
  "validateRow nf tid currentYear repeated inputIndex w d =
     (let athleteErrors = athleteIssues nf tid currentYear repeated w d; unitErrors = unitIssues w;
          errors = unitErrors @ athleteErrors in
      \<lparr> ir_inputIndex = inputIndex, ir_rowNumber = iw_rowNumber w,
        ir_status = (if errors \<noteq> [] then IMPORT_INVALID else IMPORT_ELIGIBLE), ir_errors = errors,
        ir_unitName = importOrganizationName (iw_organizationName w), ir_unitLocality = iw_organizationLocation w,
        ir_unitStatus = (if unitErrors \<noteq> [] then UNIT_INVALID
          else case importUnit nf tid w d of None \<Rightarrow> UNIT_PENDING
            | Some g \<Rightarrow> if og_isActive g then UNIT_EXISTING else UNIT_RESTORED),
        ir_unitErrors = unitErrors, ir_athleteName = iw_name w,
        ir_athleteStatus = (if athleteErrors \<noteq> [] then ATHLETE_INVALID else ATHLETE_PENDING), ir_athleteErrors = athleteErrors \<rparr>)"

fun validateRows :: "(string \<Rightarrow> string) \<Rightarrow> uuid \<Rightarrow> int \<Rightarrow> db \<Rightarrow> string list \<Rightarrow> nat \<Rightarrow> import_row list \<Rightarrow> import_result list" where
  "validateRows nf tid currentYear d seen k [] = []"
| "validateRows nf tid currentYear d seen k (w # ws) =
     validateRow nf tid currentYear (athleteKey nf w \<in> set seen) k w d #
     validateRows nf tid currentYear d (athleteKey nf w # seen) (Suc k) ws"

definition previewImport ::
  "(string \<Rightarrow> string) \<Rightarrow> uuid \<Rightarrow> import_row list \<Rightarrow> time \<Rightarrow> db \<Rightarrow> roster_error + import_result list" where
  "previewImport nf tid rows now d =
     bindR (assertUniqueRowNumbers rows) (\<lambda>_. Inr (validateRows nf tid (getUTCFullYear now) d [] 0 rows))"

section \<open>Confirmation\<close>

text \<open>The organization of a row, created or restored when it has to be, with the status it gives.\<close>

definition ensureUnit ::
  "(string \<Rightarrow> string) \<Rightarrow> uuid \<Rightarrow> uuid \<Rightarrow> import_row \<Rightarrow> uuid \<Rightarrow> time \<Rightarrow> db \<Rightarrow> import_issue + (uuid \<times> unit_status \<times> db)" where
  "ensureUnit nf newId tid w actorId now d =
     (let name = importOrganizationName (iw_organizationName w);
          location = textOrNull (Some (iw_organizationLocation w));
          selected = (\<lambda>g. JObj [(''id'', JId (og_id g)), (''isActive'', JBool (og_isActive g)), (''name'', JStr (og_name g)),
            (''location'', jOpt JStr (og_location g))]) in
      case importUnit nf tid w d of
        None \<Rightarrow>
          let g = \<lparr> og_id = newId, og_tournamentId = tid, og_name = name, og_normalizedName = importNormalized nf name,
                og_normalizedLocation = importNormalized nf (iw_organizationLocation w), og_location = location,
                og_details = None, og_isActive = True, og_deactivatedAt = None, og_updatedAt = now \<rparr> in
          if \<exists>x \<in> set (organizations d). og_id x = newId then Inl ImportUniqueViolation
          else Inr (newId, UNIT_CREATED, rosterAudit actorId ''ORGANIZATION_CREATED'' newId JNull (selected g) []
            (d\<lparr> organizations := organizations d @ [g] \<rparr>))
      | Some g \<Rightarrow>
          if og_isActive g then Inr (og_id g, UNIT_EXISTING, d)
          else
            let change = (\<lambda>x. x\<lparr> og_isActive := True, og_deactivatedAt := None, og_updatedAt := now \<rparr>) in
            Inr (og_id g, UNIT_RESTORED, rosterAudit actorId ''ORGANIZATION_RESTORED'' (og_id g) (selected g) (selected (change g)) []
              (d\<lparr> organizations := updWhere (\<lambda>x. og_id x = og_id g) change (organizations d) \<rparr>)))"

definition importedAthlete :: "uuid \<Rightarrow> uuid \<Rightarrow> uuid \<Rightarrow> uuid \<Rightarrow> import_row \<Rightarrow> time \<Rightarrow> athlete_row" where
  "importedAthlete newId tid unitId wid w now =
     \<lparr> ta_id = newId, ta_tournamentId = tid, ta_organizationId = Some unitId, ta_weightClassId = wid,
       ta_name = trim (iw_name w), ta_birthYear = iw_birthYear w, ta_details = None, ta_imagePath = None,
       ta_isSeed = False, ta_isActive = True, ta_deactivatedAt = None, ta_updatedAt = now \<rparr>"

definition importRow ::
  "(string \<Rightarrow> string) \<Rightarrow> uuid \<times> uuid \<Rightarrow> uuid \<Rightarrow> import_row \<Rightarrow> uuid \<Rightarrow> time \<Rightarrow> import_result \<Rightarrow> db \<Rightarrow> import_issue + (import_result \<times> db)" where
  "importRow nf newIds tid w actorId now result d =
     bindR (ensureUnit nf (fst newIds) tid w actorId now d) (\<lambda>(unitId, unitStatus, d1).
     case importWeightClass nf tid w d1 of
       None \<Rightarrow> Inl WeightClassInactive
     | Some x \<Rightarrow>
         if currentBracket tid (wc_id x) d1 \<noteq> None then Inl CurrentBracketExists
         else if snd newIds \<in> ta_id ` set (rosterAthletes d1) then Inl ImportUniqueViolation
         else
           let a = importedAthlete (snd newIds) tid unitId (wc_id x) w now in
           Inr (result\<lparr> ir_unitStatus := unitStatus, ir_status := IMPORT_CREATED, ir_athleteStatus := ATHLETE_CREATED \<rparr>,
             rosterAudit actorId ''ATHLETE_CREATED'' (ta_id a) JNull (JObj [(''id'', JId (ta_id a))])
               [(''rowNumber'', JInt (int (ir_rowNumber result)))] (d1\<lparr> rosterAthletes := rosterAthletes d1 @ [a] \<rparr>)))"

definition failResult :: "import_issue \<Rightarrow> import_result \<Rightarrow> import_result" where
  "failResult message r = r\<lparr> ir_status := IMPORT_FAILED, ir_errors := ir_errors r @ [message], ir_unitStatus := UNIT_INVALID,
     ir_unitErrors := ir_unitErrors r @ [message], ir_athleteStatus := ATHLETE_FAILED,
     ir_athleteErrors := ir_athleteErrors r @ [message] \<rparr>"

text \<open>A row is imported under a savepoint: a throw rolls back what the row wrote, and only that.\<close>

definition importStep ::
  "(string \<Rightarrow> string) \<Rightarrow> (nat \<Rightarrow> uuid \<times> uuid) \<Rightarrow> uuid \<Rightarrow> import_row list \<Rightarrow> uuid \<Rightarrow> time \<Rightarrow> import_result \<Rightarrow> db \<Rightarrow> import_result \<times> db" where
  "importStep nf ids tid rows actorId now r d =
     (if ir_status r \<noteq> IMPORT_ELIGIBLE then (r, d)
      else case importRow nf (ids (ir_inputIndex r)) tid (rows ! ir_inputIndex r) actorId now r d of
          Inl message \<Rightarrow> (failResult message r, d)
        | Inr rd \<Rightarrow> rd)"

fun importRows ::
  "(string \<Rightarrow> string) \<Rightarrow> (nat \<Rightarrow> uuid \<times> uuid) \<Rightarrow> uuid \<Rightarrow> import_row list \<Rightarrow> uuid \<Rightarrow> time \<Rightarrow> import_result list \<Rightarrow> db
   \<Rightarrow> import_result list \<times> db" where
  "importRows nf ids tid rows actorId now [] d = ([], d)"
| "importRows nf ids tid rows actorId now (r # rs) d =
     (case importStep nf ids tid rows actorId now r d of
        (r', d1) \<Rightarrow> case importRows nf ids tid rows actorId now rs d1 of (rs', d2) \<Rightarrow> (r' # rs', d2))"

definition confirmImport ::
  "(string \<Rightarrow> string) \<Rightarrow> (import_row list \<Rightarrow> string) \<Rightarrow> (nat \<Rightarrow> uuid \<times> uuid) \<Rightarrow> uuid \<Rightarrow> import_row list \<Rightarrow> uuid \<Rightarrow> string \<Rightarrow> time \<Rightarrow> db
   \<Rightarrow> roster_error + (import_result list \<times> db)" where
  "confirmImport nf sha256 ids tid rows actorId idempotencyKey now d =
     bindR (assertUniqueRowNumbers rows) (\<lambda>_.
     let key = trim idempotencyKey; fingerprint = sha256 rows in
     if key = [] then Inl ImportKeyRequired
     else
       bindR (lockTournament tid d) (\<lambda>_.
       case List.find (\<lambda>c. ic_key c = key) (importConfirmations d) of
         Some prior \<Rightarrow>
           if ic_tournamentId prior \<noteq> tid \<or> ic_actorId prior \<noteq> actorId \<or> ic_fingerprint prior \<noteq> fingerprint
           then Inl ImportKeyConflict
           else Inr (ic_results prior, d)
       | None \<Rightarrow>
           (case importRows nf ids tid rows actorId now (validateRows nf tid (getUTCFullYear now) d [] 0 rows) d of
              (results, d1) \<Rightarrow>
                Inr (results, d1\<lparr> importConfirmations := importConfirmations d1 @
                  [\<lparr> ic_tournamentId = tid, ic_actorId = actorId, ic_key = key, ic_fingerprint = fingerprint,
                     ic_results = results \<rparr>] \<rparr>))))"

end
