(* ===== verification/Bracket_Confirmation.thy ===== *)
theory Bracket_Confirmation
  imports Bracket_Preview Bracket_Outcome
begin

text \<open>
  \<open>brackets/bracket-confirmation.service.ts\<close> stores a previewed bracket as rows of the database
  and answers its view, \<open>bracket-round-staffing.service.ts\<close> changes the number of judges of a
  round, \<open>match-display-state.ts\<close> projects a state for display. The identifiers the database
  creates are arguments. Confirmations of one weight class are serialised by row locks and
  those of one key by a unique index whose violation replays the stored bracket, so a
  transaction that runs alone shows every outcome; the copies of entrant rows joined into the
  slots of a view are left out.
\<close>

section \<open>Display state\<close>

datatype display_state = DS_NOT_READY | DS_READY | DS_NOT_STARTED | DS_IN_PROGRESS | DS_SUSPENDED | DS_COMPLETED

fun lifecycleDisplayState :: "match_lifecycle \<Rightarrow> display_state" where
  "lifecycleDisplayState NOT_STARTED = DS_NOT_STARTED"
| "lifecycleDisplayState IN_PROGRESS = DS_IN_PROGRESS"
| "lifecycleDisplayState SUSPENDED = DS_SUSPENDED"
| "lifecycleDisplayState LC_COMPLETED = DS_COMPLETED"

datatype display_source = OPERATIONAL_MATCH match_lifecycle | BRACKET_FIXTURE fixture_status "match_lifecycle option"

fun projectMatchDisplayState :: "display_source \<Rightarrow> draw_error + display_state" where
  "projectMatchDisplayState (OPERATIONAL_MATCH l) = Inr (lifecycleDisplayState l)"
| "projectMatchDisplayState (BRACKET_FIXTURE s l) = (case s of
       PENDING_PARTICIPANTS \<Rightarrow> Inr DS_NOT_READY
     | READY \<Rightarrow> Inr DS_READY
     | FX_COMPLETED \<Rightarrow> Inr (case l of None \<Rightarrow> DS_COMPLETED | Some l' \<Rightarrow> lifecycleDisplayState l')
     | _ \<Rightarrow> (case l of None \<Rightarrow> Inl DrawRuntimeError | Some l' \<Rightarrow> Inr (lifecycleDisplayState l')))"

section \<open>The stored bracket as a view\<close>

record fixture_view =
  fv_fixture :: fixture_row
  fv_winnerDecision :: "(string \<times> string option) option"
  fv_displayState :: display_state
  fv_slots :: "slot_row list"
  fv_match :: "(uuid \<times> string \<times> match_lifecycle \<times> match_status) option"

record bracket_view =
  bv_bracket :: bracket_row
  bv_entrants :: "(entrant_row \<times> bool) list"
  bv_fixtures :: "fixture_view list"
  bv_staffing :: "(staffing_row \<times> round_label) list"

definition sideOrder :: "side \<Rightarrow> nat" where
  "sideOrder c = (case c of RED \<Rightarrow> 0 | BLUE \<Rightarrow> 1)"

definition bracketEntrants :: "uuid \<Rightarrow> db \<Rightarrow> entrant_row list" where
  "bracketEntrants bid d = sort_key e_initialRoundNumber (sort_key e_initialFixturePosition
     (sort_key (\<lambda>e. sideOrder (e_initialSide e)) (filter (\<lambda>e. e_bracketId e = bid) (entrants d))))"

definition bracketFixtures :: "uuid \<Rightarrow> db \<Rightarrow> fixture_row list" where
  "bracketFixtures bid d = sort_key bf_roundNumber (sort_key bf_position
     (filter (\<lambda>f. bf_bracketId f = bid) (fixtureRows d)))"

definition fixtureSlots :: "uuid \<Rightarrow> db \<Rightarrow> slot_row list" where
  "fixtureSlots fid d = sort_key (\<lambda>s. sideOrder (sb_side s)) (filter (\<lambda>s. sb_fixtureId s = fid) (slotRows d))"

definition shownDecision :: "jval \<Rightarrow> (string \<times> string option) option" where
  "shownDecision wd = (case jField ''decisionType'' wd of
       Some (JStr t) \<Rightarrow>
         (if t \<in> {''ADMIN_TIEBREAK'', ''WITHDRAWAL_OR_INJURY''}
          then Some (t, case jField ''reason'' wd of Some (JStr r) \<Rightarrow> Some r | _ \<Rightarrow> None) else None)
     | _ \<Rightarrow> None)"

definition viewFixture :: "db \<Rightarrow> fixture_row \<Rightarrow> draw_error + fixture_view" where
  "viewFixture d f =
     (let m = fixtureMatch (bf_id f) d in
      bindR (projectMatchDisplayState (BRACKET_FIXTURE (bf_status f) (map_option m_lifecycle m))) (\<lambda>s.
      Inr \<lparr> fv_fixture = f, fv_winnerDecision = shownDecision (bf_winnerDecision f), fv_displayState = s,
        fv_slots = fixtureSlots (bf_id f) d,
        fv_match = map_option (\<lambda>x. (m_id x, m_publicId x, m_lifecycle x, m_status x)) m \<rparr>))"

definition viewBracket :: "bracket_row \<Rightarrow> db \<Rightarrow> draw_error + bracket_view" where
  "viewBracket b d =
     bindR (mapR (viewFixture d) (bracketFixtures (b_id b) d)) (\<lambda>fs.
     Inr \<lparr> bv_bracket = b,
       bv_entrants = map (\<lambda>e. (e, \<exists>a \<in> set (rosterAthletes d). ta_id a = e_athleteId e \<and> ta_isSeed a))
         (bracketEntrants (b_id b) d),
       bv_fixtures = fs,
       bv_staffing = map (\<lambda>r. (r, bracketRoundLabel (rs_roundNumber r) (b_roundCount b)))
         (sort_key rs_roundNumber (filter (\<lambda>r. rs_bracketId r = b_id b) (roundStaffing d))) \<rparr>)"

definition activeJudgeCount :: "uuid \<Rightarrow> db \<Rightarrow> nat" where
  "activeJudgeCount tid d =
     length (filter (\<lambda>f. of_tournamentId f = tid \<and> of_role f = JUDGE \<and> of_isActive f) (officials d))"

definition findBracket :: "uuid \<Rightarrow> uuid \<Rightarrow> db \<Rightarrow> draw_error + (bracket_view \<times> nat)" where
  "findBracket tid wid d =
     bindR (orThrow (currentBracket tid wid d) CurrentBracketNotFound) (\<lambda>b.
     bindR (viewBracket b d) (\<lambda>v. Inr (v, activeJudgeCount tid d)))"

section \<open>Confirmation\<close>

record new_ids =
  ni_bracket :: uuid
  ni_entrant :: "nat \<Rightarrow> uuid"
  ni_fixture :: "nat \<Rightarrow> uuid"
  ni_slot :: "nat \<Rightarrow> uuid"
  ni_staffing :: "nat \<Rightarrow> uuid"

definition strategyName :: "bye_strategy \<Rightarrow> string" where
  "strategyName s = (case s of RANDOM \<Rightarrow> ''RANDOM'' | MANUAL \<Rightarrow> ''MANUAL'' | SEEDED \<Rightarrow> ''SEEDED'')"

definition confirmationFingerprint :: "(jval \<Rightarrow> string) \<Rightarrow> preview_claims \<Rightarrow> string" where
  "confirmationFingerprint sha256 c = sha256 (JObj
     [(''tournamentId'', JId (pc_tournamentId c)), (''weightClassId'', JId (pc_weightClassId c)),
      (''rosterFingerprint'', JStr (pc_rosterFingerprint c)),
      (''designatedByeAthleteIds'', JList (map JId (sort (pc_designatedByeAthleteIds c)))),
      (''byeStrategy'', JStr (strategyName (pc_byeStrategy c))),
      (''bracketSize'', JInt (int (length (pc_placements c)))),
      (''placements'', JList (map (\<lambda>p. JList [JInt (int (pl_drawPosition p)), jOpt JId (pl_athleteId p)])
         (sort_key pl_drawPosition (pc_placements c))))])"

definition graphOf :: "preview_claims \<Rightarrow> uuid list \<Rightarrow> draw_error + generated_bracket" where
  "graphOf c eligible =
     (let ps = pc_placements c; ids = placedIds ps; n = length ps in
      if n < 2 \<or> n AND (n - 1) \<noteq> 0 \<or> length ids \<noteq> length (remdups eligible) \<or> \<not> distinct ids \<or>
         \<not> set ids \<subseteq> set eligible
      then Inl BracketGraphInvalid
      else case buildSingleEliminationBracket ps of Inl _ \<Rightarrow> Inl BracketGraphInvalid | Inr g \<Rightarrow> Inr g)"

definition entrantSource :: "bracket_slot \<Rightarrow> uuid option" where
  "entrantSource s = (case sl_source s of Entrant e \<Rightarrow> Some e | FixtureWinner _ \<Rightarrow> None)"

definition fixtureSource :: "bracket_slot \<Rightarrow> string option" where
  "fixtureSource s = (case sl_source s of Entrant _ \<Rightarrow> None | FixtureWinner f \<Rightarrow> Some f)"

definition openingByAthleteId :: "fixture list \<Rightarrow> uuid \<Rightarrow> fixture option" where
  "openingByAthleteId fs = map_of (rev (concat (map (\<lambda>f. map (\<lambda>a. (a, f))
     (List.map_filter entrantSource [fx_red f, fx_blue f])) fs)))"

definition pairedIsBye :: "placement list \<Rightarrow> nat \<Rightarrow> bool" where
  "pairedIsBye ps drawPosition =
     (if even drawPosition
      then 2 \<le> drawPosition \<and> drawPosition - 2 < length ps \<and> pl_athleteId (ps ! (drawPosition - 2)) = None
      else drawPosition < length ps \<and> pl_athleteId (ps ! drawPosition) = None)"

definition newEntrant ::
  "new_ids \<Rightarrow> roster_entry list \<Rightarrow> placement list \<Rightarrow> fixture list \<Rightarrow> nat \<times> placement \<Rightarrow> draw_error + entrant_row" where
  "newEntrant ids athletes ps fs = (\<lambda>(k, p).
     bindR (orThrow (Option.bind (pl_athleteId p) (byId athletes)) DrawRuntimeError) (\<lambda>(a, g).
     bindR (orThrow (Option.bind (pl_athleteId p) (openingByAthleteId fs)) DrawRuntimeError) (\<lambda>at.
     bindR (orThrow (List.find (\<lambda>s. entrantSource s = pl_athleteId p) [fx_red at, fx_blue at]) DrawRuntimeError) (\<lambda>s.
     Inr \<lparr> e_id = ni_entrant ids k, e_bracketId = ni_bracket ids, e_athleteId = ta_id a,
       e_snapshotName = ta_name a, e_snapshotBirthYear = ta_birthYear a,
       e_snapshotOrganization = map_option og_name g, e_snapshotImagePath = ta_imagePath a,
       e_initialRoundNumber = fx_roundNumber at, e_initialFixturePosition = fx_position at,
       e_initialSide = sl_side s, e_receivedBye = pairedIsBye ps (pl_drawPosition p) \<rparr>))))"

definition entrantIds :: "entrant_row list \<Rightarrow> uuid \<Rightarrow> uuid option" where
  "entrantIds es = map_of (rev (map (\<lambda>e. (e_athleteId e, e_id e)) es))"

definition newSlot ::
  "uuid \<Rightarrow> uuid \<Rightarrow> (uuid \<Rightarrow> uuid option) \<Rightarrow> (string \<rightharpoonup> uuid) \<Rightarrow> bracket_slot \<Rightarrow> slot_row" where
  "newSlot sid fid entrantOf fixtureIds s =
     \<lparr> sb_id = sid, sb_fixtureId = fid, sb_side = sl_side s,
       sb_directEntrantId = Option.bind (entrantSource s) entrantOf,
       sb_sourceFixtureId = Option.bind (fixtureSource s) fixtureIds,
       sb_resolvedEntrantId = (case sl_source s of
          Entrant _ \<Rightarrow> Option.bind (sl_resolvedEntrantId s) entrantOf | FixtureWinner _ \<Rightarrow> None) \<rparr>"

text \<open>The loop over the fixtures: \<open>fixtureIds\<close> maps the fixtures already stored to their rows.\<close>

fun storeFixtures ::
  "new_ids \<Rightarrow> (uuid \<Rightarrow> uuid option) \<Rightarrow> (string \<rightharpoonup> uuid) \<Rightarrow> nat \<Rightarrow> fixture list \<Rightarrow> (fixture_row \<times> slot_row list) list" where
  "storeFixtures ids entrantOf fixtureIds k [] = []"
| "storeFixtures ids entrantOf fixtureIds k (f # fs) =
     (let fid = ni_fixture ids k;
          slots = [newSlot (ni_slot ids (2 * k)) fid entrantOf fixtureIds (fx_red f),
                   newSlot (ni_slot ids (2 * k + 1)) fid entrantOf fixtureIds (fx_blue f)];
          row = \<lparr> bf_id = fid, bf_bracketId = ni_bracket ids, bf_roundNumber = fx_roundNumber f,
                  bf_position = fx_position f, bf_displayReference = fx_displayReference f,
                  bf_status = (if list_all (\<lambda>s. sb_resolvedEntrantId s \<noteq> None) slots then READY
                               else PENDING_PARTICIPANTS),
                  bf_winnerEntrantId = None, bf_winnerDecision = JNull \<rparr> in
      (row, slots) # storeFixtures ids entrantOf (fixtureIds(fx_id f \<mapsto> fid)) (Suc k) fs)"

definition newStaffing :: "new_ids \<Rightarrow> nat \<Rightarrow> nat \<Rightarrow> staffing_row list" where
  "newStaffing ids roundCount judges = map (\<lambda>i. \<lparr> rs_id = ni_staffing ids i, rs_bracketId = ni_bracket ids,
     rs_roundNumber = i + 1, rs_requiredJudgeCount = judges \<rparr>) [0..<roundCount]"

definition adminAudit :: "audit_event \<Rightarrow> uuid \<Rightarrow> (string \<times> jval) list \<Rightarrow> audit_row" where
  "adminAudit event userId meta = \<lparr> a_id = None, a_eventType = event, a_matchId = None,
     a_adminUserId = Some userId, a_sessionId = None, a_officialSessionId = None, a_metadata = JObj meta \<rparr>"

definition storeBracket ::
  "new_ids \<Rightarrow> preview_claims \<Rightarrow> string \<Rightarrow> string \<Rightarrow> uuid \<Rightarrow> sport_rules \<Rightarrow> roster_entry list \<Rightarrow> generated_bracket \<Rightarrow> db
   \<Rightarrow> draw_error + (bracket_row \<times> db)" where
  "storeBracket ids c key fingerprint userId rules athletes g d =
     (let ps = pc_placements c; tid = pc_tournamentId c; wid = pc_weightClassId c in
      bindR (mapR (newEntrant ids athletes ps (gb_fixtures g))
               (enumerate 0 (filter (\<lambda>p. pl_athleteId p \<noteq> None) ps))) (\<lambda>es.
      let b = \<lparr> b_id = ni_bracket ids, b_tournamentId = tid, b_weightClassId = wid, b_status = B_ACTIVE,
                b_athleteCount = length athletes, b_bracketSize = length ps, b_roundCount = gb_roundCount g,
                b_confirmationKey = key, b_confirmationFingerprint = fingerprint,
                b_confirmedByUserId = Some userId, b_completedAt = None, b_cancelledAt = None,
                b_championEntrantId = None \<rparr>;
          stored = storeFixtures ids (entrantIds es) Map.empty 0 (gb_fixtures g);
          d1 = d\<lparr> brackets := brackets d @ [b], entrants := entrants d @ es,
                 fixtureRows := fixtureRows d @ map fst stored,
                 slotRows := slotRows d @ concat (map snd stored),
                 roundStaffing := roundStaffing d @
                   newStaffing ids (gb_roundCount g) (sr_defaultRequiredJudgeCount rules) \<rparr> in
      Inr (b, addAudit (adminAudit BRACKET_CONFIRMED userId
        [(''athleteCount'', JInt (int (length athletes))), (''bracketId'', JId (ni_bracket ids)),
         (''bracketSize'', JInt (int (length ps))), (''roundCount'', JInt (int (gb_roundCount g))),
         (''tournamentId'', JId tid), (''weightClassId'', JId wid)]) d1)))"

definition confirm ::
  "codec \<Rightarrow> new_ids \<Rightarrow> uuid \<Rightarrow> uuid \<Rightarrow> string \<Rightarrow> string \<Rightarrow> uuid \<Rightarrow> time \<Rightarrow> db \<Rightarrow> draw_error + (bracket_view \<times> db)" where
  "confirm cd ids tid wid token key userId now d =
     bindR (verifyPreview cd token tid wid now) (\<lambda>c.
     let fingerprint = confirmationFingerprint (tc_sha256 cd) c in
     case List.find (\<lambda>b. b_confirmationKey b = key) (brackets d) of
       Some b \<Rightarrow>
         (if b_confirmationFingerprint b \<noteq> fingerprint then Inl BracketConfirmationKeyReused
          else bindR (viewBracket b d) (\<lambda>v. Inr (v, d)))
     | None \<Rightarrow>
         bindR (orThrow (List.find (\<lambda>t. t_id t = tid) (tournaments d)) DrawTournamentNotFound) (\<lambda>t.
         if t_status t = T_ARCHIVED then Inl DrawTournamentArchived
         else case resolve (t_sportGroupCode t) of
           Inl _ \<Rightarrow> Inl (DrawRulesNotImplemented (t_sportGroupCode t))
         | Inr rules \<Rightarrow>
             if \<not> weightClassActive tid wid d then Inl WeightClassNotFound
             else if currentBracket tid wid d \<noteq> None then Inl BracketAlreadyExists
             else
               let athletes = eligibleAthletes tid wid d in
               if rosterFingerprint (tc_sha256 cd) athletes \<noteq> pc_rosterFingerprint c then Inl BracketRosterChanged
               else bindR (assertStrategySelection (pc_byeStrategy c) (pc_designatedByeAthleteIds c) athletes
                      (int (length (pc_placements c)) - int (length athletes))) (\<lambda>_.
               bindR (graphOf c (map entryId athletes)) (\<lambda>g.
               bindR (storeBracket ids c key fingerprint userId rules athletes g d) (\<lambda>(b, d').
               bindR (viewBracket b d') (\<lambda>v. Inr (v, d')))))))"

section \<open>Staffing of a round\<close>

definition updateRoundStaffing ::
  "uuid \<Rightarrow> uuid \<Rightarrow> nat \<Rightarrow> nat \<Rightarrow> uuid \<Rightarrow> db \<Rightarrow> draw_error + ((staffing_row \<times> round_label \<times> nat) \<times> db)" where
  "updateRoundStaffing tid wid roundNumber requiredJudgeCount actorId d =
     bindR (orThrow (List.find (\<lambda>t. t_id t = tid \<and> t_softDeletedAt t = None) (tournaments d))
              DrawTournamentNotFound) (\<lambda>t.
     if t_status t = T_ARCHIVED then Inl DrawTournamentArchived
     else case resolve (t_sportGroupCode t) of
       Inl _ \<Rightarrow> Inl (DrawRulesNotImplemented (t_sportGroupCode t))
     | Inr policy \<Rightarrow>
         bindR (orThrow (List.find (\<lambda>b. b_tournamentId b = tid \<and> b_weightClassId b = wid \<and> b_status b = B_ACTIVE)
                  (brackets d)) ActiveBracketNotFound) (\<lambda>b.
         bindR (orThrow (List.find (\<lambda>r. rs_bracketId r = b_id b \<and> rs_roundNumber r = roundNumber)
                  (roundStaffing d)) BracketRoundNotFound) (\<lambda>staffing.
         if \<exists>f \<in> set (fixtureRows d). bf_bracketId f = b_id b \<and> bf_roundNumber f = roundNumber \<and>
              bf_status f \<in> {MATCH_PREPARED, AWAITING_WINNER, FX_COMPLETED}
         then Inl BracketRoundStaffingLocked
         else
           let active = activeJudgeCount tid d in
           if requiredJudgeCount < sr_minimumRequiredRefereeCount policy \<or>
              (sr_requiresOddRefereeCount policy \<and> even requiredJudgeCount) \<or> requiredJudgeCount > active
           then Inl (BracketRoundStaffingInvalid active)
           else
             let updated = staffing\<lparr>rs_requiredJudgeCount := requiredJudgeCount\<rparr>;
                 d1 = d\<lparr>roundStaffing := updWhere (\<lambda>r. rs_id r = rs_id staffing)
                          (\<lambda>r. r\<lparr>rs_requiredJudgeCount := requiredJudgeCount\<rparr>) (roundStaffing d)\<rparr> in
             Inr ((updated, bracketRoundLabel roundNumber (b_roundCount b), active),
               addAudit (adminAudit BRACKET_ROUND_STAFFING_UPDATED actorId
                 [(''tournamentId'', JId tid), (''bracketId'', JId (b_id b)), (''roundNumber'', JInt (int roundNumber)),
                  (''before'', JInt (int (rs_requiredJudgeCount staffing))),
                  (''after'', JInt (int requiredJudgeCount))]) d1))))"

end
