(* ===== verification/Draw_Facts.thy ===== *)
theory Draw_Facts
  imports Bracket_Confirmation Sample "HOL-Library.Countable"
begin

text \<open>
  Facts about previews and confirmations: the rows a confirmation stores, read back through
  their foreign keys, are the generated graph; a draw that is set up, previewed and confirmed
  in time on an unchanged roster is stored; a repeated confirmation answers the stored bracket;
  swapping two athletes only exchanges them.
\<close>

section \<open>Lists\<close>

lemma mapR_Inr: "mapR f xs = Inr ys \<longleftrightarrow> list_all2 (\<lambda>x y. f x = Inr y) xs ys"
  by (induction xs arbitrary: ys) (auto simp: list_all2_Cons1)

lemma map_of_rev_distinct:
  assumes "distinct (map fst kvs)" and "(k, v) \<in> set kvs"
  shows "map_of (rev kvs) k = Some v"
  using assms by (intro map_of_is_SomeI) (auto simp: rev_map [symmetric])

lemma find_distinct:
  assumes "distinct (map g xs)" and "x \<in> set xs"
  shows "List.find (\<lambda>y. g y = g x) xs = Some x"
  using assms by (induction xs) auto

lemma find_append_none: "(\<And>x. x \<in> set xs \<Longrightarrow> \<not> p x) \<Longrightarrow> List.find p (xs @ ys) = List.find p ys"
  by (induction xs) auto

lemma in_concat_map: "x \<in> set xs \<Longrightarrow> y \<in> set (f x) \<Longrightarrow> y \<in> set (concat (map f xs))"
  by auto

section \<open>Sources come first\<close>

fun sourcesKnown :: "advancement set \<Rightarrow> fixture list \<Rightarrow> bool" where
  "sourcesKnown K [] \<longleftrightarrow> True"
| "sourcesKnown K (f # fs) \<longleftrightarrow> sl_source (fx_red f) \<in> K \<and> sl_source (fx_blue f) \<in> K \<and>
     sourcesKnown (insert (FixtureWinner (fx_id f)) K) fs"

lemma sourcesKnown_mono: "sourcesKnown K fs \<Longrightarrow> K \<subseteq> L \<Longrightarrow> sourcesKnown L fs"
  by (induction fs arbitrary: K L) (auto, meson insert_mono)

lemma sourcesKnown_append:
  "sourcesKnown K (fs @ gs) \<longleftrightarrow> sourcesKnown K fs \<and> sourcesKnown (K \<union> (\<lambda>f. FixtureWinner (fx_id f)) ` set fs) gs"
  by (induction fs arbitrary: K) (auto simp: Un_commute)

lemma pairRound_sources:
  "pairRound r p advs = Inr (fs, nx) \<Longrightarrow> sourcesKnown {a. Some a \<in> set advs} fs \<and>
   {a. Some a \<in> set nx} \<subseteq> {a. Some a \<in> set advs} \<union> (\<lambda>f. FixtureWinner (fx_id f)) ` set fs \<and>
   (\<forall>f \<in> set fs. \<exists>q a b. f = createFixture r q a b)"
proof (induction advs arbitrary: p fs nx rule: noDoubleBye.induct)
  case (3 red blue rest)
  from 3(2) obtain fs' nx' where rec: "pairRound r (Suc p) rest = Inr (fs', nx')"
    and cs: "case (red, blue) of
        (Some a, Some b) \<Rightarrow> fs = createFixture r p a b # fs' \<and> nx = Some (FixtureWinner (fixtureId r p)) # nx'
      | (Some a, None) \<Rightarrow> fs = fs' \<and> nx = Some a # nx'
      | (None, Some b) \<Rightarrow> fs = fs' \<and> nx = Some b # nx'
      | (None, None) \<Rightarrow> False"
    by (rule pairRound_step)
  note IH = 3(1) [OF rec]
  have more: "sourcesKnown L fs'" if "{a. Some a \<in> set rest} \<subseteq> L" for L
    using IH that by (blast intro: sourcesKnown_mono)
  show ?case
    using cs IH by (cases red; cases blue) (auto intro!: more)
qed auto

lemma buildRounds_sources:
  "buildRounds n r advs = Inr fs \<Longrightarrow>
   sourcesKnown {a. Some a \<in> set advs} fs \<and> (\<forall>f \<in> set fs. \<exists>r p a b. f = createFixture r p a b)"
proof (induction n arbitrary: r advs fs)
  case (Suc n)
  then obtain gs nx hs where p: "pairRound r 1 advs = Inr (gs, nx)" and b: "buildRounds n (Suc r) nx = Inr hs"
    and fs: "fs = gs @ hs" by auto
  note ps = pairRound_sources [OF p] and IH = Suc.IH [OF b]
  have "sourcesKnown ({a. Some a \<in> set advs} \<union> (\<lambda>f. FixtureWinner (fx_id f)) ` set gs) hs"
    using ps IH by (blast intro: sourcesKnown_mono)
  moreover have "\<exists>r p a b. f = createFixture r p a b" if "f \<in> set (gs @ hs)" for f
    using ps IH that by (metis UnE set_append)
  ultimately show ?case using ps by (simp add: fs sourcesKnown_append)
qed simp

section \<open>The loop that stores the fixtures\<close>

definition storeOne ::
  "new_ids \<Rightarrow> (uuid \<Rightarrow> uuid option) \<Rightarrow> (string \<rightharpoonup> uuid) \<Rightarrow> nat \<Rightarrow> fixture \<Rightarrow> fixture_row \<times> slot_row list" where
  "storeOne ids ent M k f = hd (storeFixtures ids ent M k [f])"

fun rowIds :: "new_ids \<Rightarrow> (string \<rightharpoonup> uuid) \<Rightarrow> nat \<Rightarrow> fixture list \<Rightarrow> (string \<rightharpoonup> uuid)" where
  "rowIds ids m k [] = m"
| "rowIds ids m k (f # fs) = rowIds ids (m(fx_id f \<mapsto> ni_fixture ids k)) (Suc k) fs"

lemma rowIds_other: "x \<notin> fx_id ` set fs \<Longrightarrow> rowIds ids m k fs x = m x"
  by (induction fs arbitrary: m k) auto

lemma rowIds_own:
  "distinct (map fx_id fs) \<Longrightarrow> (i, f) \<in> set (enumerate k fs) \<Longrightarrow> rowIds ids m k fs (fx_id f) = Some (ni_fixture ids i)"
  by (induction fs arbitrary: m k) (auto simp: rowIds_other)

lemma newSlot_cong:
  "(\<And>x. sl_source s = FixtureWinner x \<Longrightarrow> m x = m' x) \<Longrightarrow> newSlot sid fid ent m s = newSlot sid fid ent m' s"
  by (auto simp: newSlot_def fixtureSource_def split: advancement.splits)

lemma storeFixtures_eq:
  assumes "distinct (map fx_id fs)" and "sourcesKnown K fs" and "\<forall>x. FixtureWinner x \<in> K \<longrightarrow> x \<in> dom m"
    and "dom m \<inter> fx_id ` set fs = {}"
  shows "storeFixtures ids ent m k fs = map (\<lambda>(i, f). storeOne ids ent (rowIds ids m k fs) i f) (enumerate k fs)"
  using assms
proof (induction fs arbitrary: K m k)
  case (Cons f fs)
  let ?m = "m(fx_id f \<mapsto> ni_fixture ids k)" and ?K = "insert (FixtureWinner (fx_id f)) K"
  let ?M = "rowIds ids m k (f # fs)"
  have eq: "newSlot sid fid ent m s = newSlot sid fid ent ?M s" if "sl_source s \<in> K" for sid fid s
  proof (rule newSlot_cong)
    fix x assume "sl_source s = FixtureWinner x"
    with that Cons.prems(3) have "x \<in> dom m" by metis
    with Cons.prems(4) have "x \<notin> fx_id ` set (f # fs)" by blast
    then show "m x = ?M x" by (rule rowIds_other [symmetric])
  qed
  have "storeFixtures ids ent ?m (Suc k) fs =
      map (\<lambda>(i, f). storeOne ids ent (rowIds ids ?m (Suc k) fs) i f) (enumerate (Suc k) fs)"
    by (rule Cons.IH [of ?K]) (use Cons.prems in \<open>auto simp del: fun_upd_apply\<close>)
  with Cons.prems(2) show ?case
    by (simp add: storeOne_def Let_def eq)
qed simp

lemma storeFixtures_relink:
  "storeFixtures ids ent m k (map (relink L) fs) = storeFixtures ids ent m k fs"
proof (induction fs arbitrary: m k)
  case (Cons f fs)
  have "fx_displayReference (relink L f) = fx_displayReference f"
    by (simp add: relink_def split: option.split)
  with Cons show ?case by (simp add: Let_def del: fun_upd_apply)
qed simp

section \<open>The stored entrants\<close>

lemma byId_SomeD: "byId entries a = Some e \<Longrightarrow> e \<in> set entries \<and> entryId e = a"
  by (auto simp: byId_def dest!: map_of_SomeD)

lemma newEntrant_Inr:
  assumes "newEntrant ids athletes ps fs (k, p) = Inr e"
  shows "e_id e = ni_entrant ids k \<and> e_bracketId e = ni_bracket ids \<and> pl_athleteId p = Some (e_athleteId e) \<and>
    e_receivedBye e = pairedIsBye ps (pl_drawPosition p)"
  using assms unfolding newEntrant_def prod.case
  by (elim inr_elims) (auto simp: bind_eq_Some_conv dest!: byId_SomeD)

lemma newEntrants:
  assumes "mapR (newEntrant ids athletes ps fs) (enumerate k qs) = Inr es"
  shows "map e_athleteId es = placedIds qs \<and> map e_id es = map (ni_entrant ids) [k..<k + length es] \<and>
    (\<forall>e \<in> set es. e_bracketId e = ni_bracket ids)"
  using assms
proof (induction qs arbitrary: k es)
  case (Cons q qs)
  then obtain e es' where e: "newEntrant ids athletes ps fs (k, q) = Inr e"
    and es: "mapR (newEntrant ids athletes ps fs) (enumerate (Suc k) qs) = Inr es'" "es = e # es'" by auto
  have "[k..<k + length es] = k # [Suc k..<Suc k + length es']"
    using upt_conv_Cons [of k "k + length es"] by (simp add: es(2) del: upt_Suc)
  with newEntrant_Inr [OF e] Cons.IH [OF es(1)] show ?case
    by (simp add: es(2) del: upt_Suc)
qed simp

lemma placedIds_filter: "placedIds (filter (\<lambda>p. pl_athleteId p \<noteq> None) ps) = placedIds ps"
  by (induction ps) auto

section \<open>Reading the rows back\<close>

definition athleteOfEntrant :: "db \<Rightarrow> uuid \<Rightarrow> uuid option" where
  "athleteOfEntrant d e = map_option e_athleteId (List.find (\<lambda>x. e_id x = e) (entrants d))"

definition nameOfFixture :: "db \<Rightarrow> uuid \<Rightarrow> string option" where
  "nameOfFixture d f = map_option (\<lambda>r. fixtureId (bf_roundNumber r) (bf_position r))
     (List.find (\<lambda>r. bf_id r = f) (fixtureRows d))"

definition readSlot :: "db \<Rightarrow> slot_row \<Rightarrow> bracket_slot option" where
  "readSlot d s = map_option (\<lambda>source. \<lparr> sl_side = sb_side s, sl_source = source,
       sl_resolvedEntrantId = Option.bind (sb_resolvedEntrantId s) (athleteOfEntrant d) \<rparr>)
     (case sb_directEntrantId s of
        Some e \<Rightarrow> map_option Entrant (athleteOfEntrant d e)
      | None \<Rightarrow> map_option FixtureWinner (Option.bind (sb_sourceFixtureId s) (nameOfFixture d)))"

definition readFixture :: "db \<Rightarrow> fixture_row \<Rightarrow> fixture option" where
  "readFixture d r = (case map (readSlot d) (fixtureSlots (bf_id r) d) of
       [Some red, Some blue] \<Rightarrow> Some \<lparr> fx_id = fixtureId (bf_roundNumber r) (bf_position r),
         fx_roundNumber = bf_roundNumber r, fx_position = bf_position r,
         fx_displayReference = bf_displayReference r, fx_red = red, fx_blue = blue, fx_downstream = None \<rparr>
     | _ \<Rightarrow> None)"

definition freshIds :: "new_ids \<Rightarrow> db \<Rightarrow> bool" where
  "freshIds ids d \<longleftrightarrow> inj (ni_entrant ids) \<and> inj (ni_fixture ids) \<and>
     (\<forall>b \<in> set (brackets d). b_id b \<noteq> ni_bracket ids) \<and>
     (\<forall>e \<in> set (entrants d). e_id e \<notin> range (ni_entrant ids) \<and> e_bracketId e \<noteq> ni_bracket ids) \<and>
     (\<forall>f \<in> set (fixtureRows d). bf_id f \<notin> range (ni_fixture ids) \<and> bf_bracketId f \<noteq> ni_bracket ids) \<and>
     (\<forall>s \<in> set (slotRows d). sb_fixtureId s \<notin> range (ni_fixture ids))"

lemma filter_concat_one:
  assumes "\<And>i x s. (i, x) \<in> set (enumerate k xs) \<Longrightarrow> s \<in> set (f i x) \<Longrightarrow> g s = h i" and "inj h"
    and "(j, y) \<in> set (enumerate k xs)"
  shows "filter (\<lambda>s. g s = h j) (concat (map (\<lambda>(i, x). f i x) (enumerate k xs))) = f j y"
  using assms(1,3)
proof (induction xs arbitrary: k)
  case (Cons x xs)
  have own: "filter (\<lambda>s. g s = h k) (f k x) = f k x"
    using Cons.prems(1) [of k x] by (auto intro: filter_True)
  have others: "filter (\<lambda>s. g s = h k) (concat (map (\<lambda>(i, x). f i x) (enumerate (Suc k) xs))) = []"
    using Cons.prems(1) injD [OF assms(2)]
    by (fastforce simp: filter_empty_conv dest: set_zip_leftD simp: in_set_enumerate_eq)
  show ?case
  proof (cases "j = k")
    case True
    with Cons.prems(2) have "y = x" by (auto simp: in_set_enumerate_eq)
    with True own others show ?thesis by simp
  next
    case False
    with Cons.prems(2) have j: "(j, y) \<in> set (enumerate (Suc k) xs)" by auto
    from False have "filter (\<lambda>s. g s = h j) (f k x) = []"
      using Cons.prems(1) [of k x] injD [OF assms(2), of k j] by (auto simp: filter_empty_conv)
    moreover have "filter (\<lambda>s. g s = h j) (concat (map (\<lambda>(i, x). f i x) (enumerate (Suc k) xs))) = f j y"
      by (rule Cons.IH [OF _ j]) (use Cons.prems(1) in auto)
    ultimately show ?thesis by simp
  qed
qed simp

lemma storeOne_sel:
  "bf_id (fst (storeOne ids ent M k f)) = ni_fixture ids k"
  "bf_bracketId (fst (storeOne ids ent M k f)) = ni_bracket ids"
  "bf_roundNumber (fst (storeOne ids ent M k f)) = fx_roundNumber f"
  "bf_position (fst (storeOne ids ent M k f)) = fx_position f"
  "bf_displayReference (fst (storeOne ids ent M k f)) = fx_displayReference f"
  "snd (storeOne ids ent M k f) =
     [newSlot (ni_slot ids (2 * k)) (ni_fixture ids k) ent M (fx_red f),
      newSlot (ni_slot ids (2 * k + 1)) (ni_fixture ids k) ent M (fx_blue f)]"
  by (simp_all add: storeOne_def Let_def)

lemma newSlot_sel [simp]: "sb_fixtureId (newSlot sid fid ent M s) = fid" "sb_side (newSlot sid fid ent M s) = sl_side s"
  by (simp_all add: newSlot_def)

lemma readSlot_newSlot:
  assumes "s = createSlot c adv" and "\<And>a. adv = Entrant a \<Longrightarrow> \<exists>e. ent a = Some e \<and> athleteOfEntrant d e = Some a"
    and "\<And>x. adv = FixtureWinner x \<Longrightarrow> \<exists>r. M x = Some r \<and> nameOfFixture d r = Some x"
  shows "readSlot d (newSlot sid fid ent M s) = Some s"
proof (cases adv)
  case (Entrant a)
  with assms(2) obtain e where "ent a = Some e" "athleteOfEntrant d e = Some a" by blast
  with Entrant show ?thesis
    by (simp add: assms(1) readSlot_def newSlot_def entrantSource_def fixtureSource_def createSlot_def)
next
  case (FixtureWinner x)
  with assms(3) obtain r where "M x = Some r" "nameOfFixture d r = Some x" by blast
  with FixtureWinner show ?thesis
    by (simp add: assms(1) readSlot_def newSlot_def entrantSource_def fixtureSource_def createSlot_def)
qed

lemma sourcesKnown_cases:
  "sourcesKnown K fs \<Longrightarrow> f \<in> set fs \<Longrightarrow> s \<in> {fx_red f, fx_blue f} \<Longrightarrow>
   sl_source s \<in> K \<union> (\<lambda>f. FixtureWinner (fx_id f)) ` set fs"
  by (induction fs arbitrary: K) fastforce+

lemma entrant_lookup:
  assumes "distinct (map e_athleteId es)" and "distinct (map e_id es)" and "a \<in> e_athleteId ` set es"
    and "entrants d = old @ es" and "\<And>x. x \<in> set old \<Longrightarrow> e_id x \<notin> e_id ` set es"
  shows "\<exists>e. entrantIds es a = Some e \<and> athleteOfEntrant d e = Some a"
proof -
  from assms(3) obtain e where e: "e \<in> set es" "a = e_athleteId e" by blast
  have "entrantIds es a = Some (e_id e)"
    unfolding entrantIds_def by (rule map_of_rev_distinct) (use assms(1) e in \<open>auto simp: comp_def\<close>)
  moreover have "List.find (\<lambda>x. e_id x = e_id e) (entrants d) = Some e"
    unfolding assms(4) using assms(5) e(1) find_distinct [OF assms(2) e(1)]
    by (subst find_append_none) (auto simp: image_iff)
  ultimately show ?thesis by (simp add: athleteOfEntrant_def e(2))
qed

text \<open>The rows of one fixture, once the tables hold the rows of all fixtures.\<close>

lemma readFixture_stored:
  assumes f: "(i, f) \<in> set (enumerate 0 fs)" "f = createFixture r p a b"
    and dist: "distinct (map fx_id fs)" and known: "sourcesKnown {x. \<exists>y \<in> A. x = Entrant y} fs"
    and names: "\<And>g. g \<in> set fs \<Longrightarrow> fx_id g = fixtureId (fx_roundNumber g) (fx_position g)"
    and fresh: "inj (ni_fixture ids)" "\<And>x. x \<in> set oldF \<Longrightarrow> bf_id x \<notin> range (ni_fixture ids)"
      "\<And>x. x \<in> set oldS \<Longrightarrow> sb_fixtureId x \<notin> range (ni_fixture ids)"
    and ent: "\<And>y. y \<in> A \<Longrightarrow> \<exists>e. ent y = Some e \<and> athleteOfEntrant d e = Some y"
    and M: "M = rowIds ids Map.empty 0 fs"
    and rows: "fixtureRows d = oldF @ map (\<lambda>(i, f). fst (storeOne ids ent M i f)) (enumerate 0 fs)"
    and slots: "slotRows d = oldS @ concat (map (\<lambda>(i, f). snd (storeOne ids ent M i f)) (enumerate 0 fs))"
  shows "readFixture d (fst (storeOne ids ent M i f)) = Some f"
proof -
  have M_name: "\<exists>q. M x = Some q \<and> nameOfFixture d q = Some x" if x: "x \<in> fx_id ` set fs" for x
  proof -
    from x obtain g where g: "g \<in> set fs" "x = fx_id g" by blast
    from g(1) obtain j where "j < length fs" "fs ! j = g" by (auto simp: in_set_conv_nth)
    then have j: "(j, g) \<in> set (enumerate 0 fs)" by (simp add: in_set_enumerate_eq)
    from rowIds_own [OF dist j] g have Mx: "M x = Some (ni_fixture ids j)" by (simp add: M)
    have "map bf_id (map (\<lambda>(i, f). fst (storeOne ids ent M i f)) (enumerate 0 fs)) = map (ni_fixture ids) [0..<length fs]"
      by (rule nth_equalityI) (simp_all add: storeOne_sel nth_enumerate_eq)
    then have ids: "distinct (map bf_id (map (\<lambda>(i, f). fst (storeOne ids ent M i f)) (enumerate 0 fs)))"
      using fresh(1) by (metis distinct_map distinct_upt inj_on_subset subset_UNIV)
    have "List.find (\<lambda>r. bf_id r = ni_fixture ids j) (fixtureRows d) = Some (fst (storeOne ids ent M j g))"
      using fresh(2) find_distinct [OF ids, of "fst (storeOne ids ent M j g)"] j
      unfolding rows by (subst find_append_none) (force simp: storeOne_sel)+
    with Mx names [OF g(1)] g(2) show ?thesis by (simp add: nameOfFixture_def storeOne_sel)
  qed
  have slot: "readSlot d (newSlot sid fid ent M s) = Some s" if s: "s \<in> {fx_red f, fx_blue f}" for sid fid s
  proof -
    have fs: "f \<in> set fs" using f(1) by (auto simp: in_set_enumerate_eq)
    from s obtain c adv where cs: "s = createSlot c adv" unfolding f(2) by auto
    from sourcesKnown_cases [OF known fs s]
    have "adv \<in> {x. \<exists>y \<in> A. x = Entrant y} \<union> (\<lambda>f. FixtureWinner (fx_id f)) ` set fs" by (simp add: cs)
    then show ?thesis using ent M_name by (intro readSlot_newSlot [OF cs]) auto
  qed
  have "filter (\<lambda>s. sb_fixtureId s = ni_fixture ids i) (slotRows d) = snd (storeOne ids ent M i f)"
    using fresh(3) filter_concat_one [OF _ fresh(1) f(1), of "\<lambda>i f. snd (storeOne ids ent M i f)" sb_fixtureId]
    unfolding slots by (force simp: storeOne_sel filter_empty_conv)
  then have "fixtureSlots (ni_fixture ids i) d = snd (storeOne ids ent M i f)"
    by (simp add: fixtureSlots_def storeOne_sel f(2) sideOrder_def)
  then show ?thesis using slot [of "fx_red f"] slot [of "fx_blue f"]
    by (simp add: readFixture_def storeOne_sel) (simp add: f(2) createFixture_def)
qed

lemma status_stored:
  assumes "f = createFixture r p a b" and "\<And>y. Entrant y \<in> {a, b} \<Longrightarrow> ent y \<noteq> None"
  shows "bf_status (fst (storeOne ids ent M i f)) =
    (if sl_resolvedEntrantId (fx_red f) \<noteq> None \<and> sl_resolvedEntrantId (fx_blue f) \<noteq> None then READY
     else PENDING_PARTICIPANTS)"
  using assms(2) by (cases a; cases b) (auto simp: assms(1) storeOne_def Let_def newSlot_def createFixture_def createSlot_def)

lemma graphOf_Inr:
  assumes "graphOf c eligible = Inr g"
  shows "buildSingleEliminationBracket (pc_placements c) = Inr g \<and> set (placedIds (pc_placements c)) = set eligible"
proof -
  let ?ids = "placedIds (pc_placements c)"
  from assms have b: "buildSingleEliminationBracket (pc_placements c) = Inr g" and len: "length ?ids = length (remdups eligible)"
    and dist: "distinct ?ids" and sub: "set ?ids \<subseteq> set eligible"
    by (auto simp: graphOf_def Let_def split: if_splits sum.splits)
  have "card (set ?ids) = card (set eligible)"
    using len dist by (simp add: distinct_card length_remdups_card_conv)
  with sub b show ?thesis by (simp add: card_subset_eq)
qed

lemma storeBracketE:
  assumes "storeBracket ids c key fp uid rules athletes g d = Inr (b, d')"
  obtains es where "map e_athleteId es = placedIds (pc_placements c)" and "map e_id es = map (ni_entrant ids) [0..<length es]"
    and "\<forall>e \<in> set es. e_bracketId e = ni_bracket ids"
    and "entrants d' = entrants d @ es" and "brackets d' = brackets d @ [b]" and "matches d' = matches d"
    and "fixtureRows d' = fixtureRows d @ map fst (storeFixtures ids (entrantIds es) Map.empty 0 (gb_fixtures g))"
    and "slotRows d' = slotRows d @ concat (map snd (storeFixtures ids (entrantIds es) Map.empty 0 (gb_fixtures g)))"
    and "b_id b = ni_bracket ids" and "b_tournamentId b = pc_tournamentId c" and "b_weightClassId b = pc_weightClassId c"
    and "b_status b = B_ACTIVE" and "b_confirmationKey b = key" and "b_confirmationFingerprint b = fp"
    and "tournaments d' = tournaments d" and "weightClasses d' = weightClasses d"
proof -
  let ?qs = "filter (\<lambda>p. pl_athleteId p \<noteq> None) (pc_placements c)"
  from assms obtain es where es: "mapR (newEntrant ids athletes (pc_placements c) (gb_fixtures g)) (enumerate 0 ?qs) = Inr es"
    unfolding storeBracket_def Let_def by (elim inr_elims) auto
  from assms es newEntrants [OF es, unfolded placedIds_filter] show thesis
    by (intro that [of es]) (auto simp: storeBracket_def Let_def addAudit_def)
qed

lemma graph_parts:
  assumes "buildSingleEliminationBracket ps = Inr g"
  obtains fs where "gb_fixtures g = map (relink (links fs)) fs" and "linkDownstreamFixtures fs = Inr (gb_fixtures g)"
    and "distinct (map fx_id fs)" and "sourcesKnown {x. \<exists>y \<in> set (placedIds ps). x = Entrant y} fs"
    and "\<forall>f \<in> set fs. \<exists>r p a b. f = createFixture r p a b" and "distinct (placedIds ps)"
proof -
  from assms obtain k where k: "placementsOk k ps" "bracketGraph k g" by (rule build_graph)
  from assms k(1) obtain fs where br: "buildRounds k 1 (map toAdvancement ps) = Inr fs"
    and fs: "gb_fixtures g = map (relink (links fs)) fs" by (rule build_parts)
  have "{a. Some a \<in> set (map toAdvancement ps)} \<subseteq> {x. \<exists>y \<in> set (placedIds ps). x = Entrant y}"
    by (induction ps) (auto simp: toAdvancement_def split: option.splits)
  with buildRounds_sources [OF br] have "sourcesKnown {x. \<exists>y \<in> set (placedIds ps). x = Entrant y} fs"
    by (blast intro: sourcesKnown_mono)
  moreover have "distinct (map fx_id fs)"
    using k(2) by (simp add: bracketGraph_def fs comp_def)
  moreover have "linkDownstreamFixtures fs = Inr (gb_fixtures g)"
    using linkDownstream_ok(1) [OF br] k(1) by (simp add: placementsOk_def fs)
  ultimately show thesis using fs buildRounds_sources [OF br] k(1) by (intro that [of fs]) (auto simp: placementsOk_def)
qed

lemma stored_reads_back:
  assumes g: "buildSingleEliminationBracket (pc_placements c) = Inr g"
    and st: "storeBracket ids c key fp uid rules athletes g d = Inr (b, d')" and fresh: "freshIds ids d"
  obtains fs where
    "map (readFixture d') (filter (\<lambda>f. bf_bracketId f = ni_bracket ids) (fixtureRows d')) = map Some fs"
    and "linkDownstreamFixtures fs = Inr (gb_fixtures g)"
    and "map bf_status (filter (\<lambda>f. bf_bracketId f = ni_bracket ids) (fixtureRows d')) =
      map (\<lambda>f. if sl_resolvedEntrantId (fx_red f) \<noteq> None \<and> sl_resolvedEntrantId (fx_blue f) \<noteq> None then READY
        else PENDING_PARTICIPANTS) fs"
    and "map e_athleteId (filter (\<lambda>e. e_bracketId e = ni_bracket ids) (entrants d')) = placedIds (pc_placements c)"
proof -
  let ?A = "set (placedIds (pc_placements c))"
  from st obtain es where es: "map e_athleteId es = placedIds (pc_placements c)"
      "map e_id es = map (ni_entrant ids) [0..<length es]" "\<forall>e \<in> set es. e_bracketId e = ni_bracket ids"
    and ents: "entrants d' = entrants d @ es"
    and rows: "fixtureRows d' = fixtureRows d @ map fst (storeFixtures ids (entrantIds es) Map.empty 0 (gb_fixtures g))"
    and slots: "slotRows d' = slotRows d @ concat (map snd (storeFixtures ids (entrantIds es) Map.empty 0 (gb_fixtures g)))"
    by (rule storeBracketE)
  from g obtain fs where fs: "gb_fixtures g = map (relink (links fs)) fs" and link: "linkDownstreamFixtures fs = Inr (gb_fixtures g)"
    and dist: "distinct (map fx_id fs)" and known: "sourcesKnown {x. \<exists>y \<in> ?A. x = Entrant y} fs"
    and shape: "\<forall>f \<in> set fs. \<exists>r p a b. f = createFixture r p a b" and placed: "distinct (placedIds (pc_placements c))"
    by (rule graph_parts)
  define M where "M = rowIds ids Map.empty 0 fs"
  have stored: "storeFixtures ids (entrantIds es) Map.empty 0 (gb_fixtures g) =
      map (\<lambda>(i, f). storeOne ids (entrantIds es) M i f) (enumerate 0 fs)"
    unfolding fs storeFixtures_relink M_def by (rule storeFixtures_eq [OF dist known]) auto
  have eids: "distinct (map e_id es)" using es(2) fresh
    by (metis distinct_map distinct_upt freshIds_def inj_on_subset subset_UNIV)
  have old: "e_id x \<notin> e_id ` set es" if "x \<in> set (entrants d)" for x
  proof -
    have "e_id ` set es \<subseteq> range (ni_entrant ids)" using es(2) by (metis image_mono image_set subset_UNIV)
    then show ?thesis using fresh that by (auto simp: freshIds_def)
  qed
  have ent: "\<exists>e. entrantIds es y = Some e \<and> athleteOfEntrant d' e = Some y" if "y \<in> ?A" for y
  proof (rule entrant_lookup [OF _ eids _ ents old])
    show "distinct (map e_athleteId es)" using es(1) placed by simp
    show "y \<in> e_athleteId ` set es" using that by (metis es(1) image_set)
  qed
  have read: "readFixture d' (fst (storeOne ids (entrantIds es) M i f)) = Some f" and
    status: "bf_status (fst (storeOne ids (entrantIds es) M i f)) =
      (if sl_resolvedEntrantId (fx_red f) \<noteq> None \<and> sl_resolvedEntrantId (fx_blue f) \<noteq> None then READY
        else PENDING_PARTICIPANTS)" if i: "(i, f) \<in> set (enumerate 0 fs)" for i f
  proof -
    have f: "f \<in> set fs" using i by (auto simp: in_set_enumerate_eq)
    then obtain r p x y where s: "f = createFixture r p x y" using shape by blast
    show "readFixture d' (fst (storeOne ids (entrantIds es) M i f)) = Some f"
    proof (rule readFixture_stored [OF i s dist known _ _ _ _ ent M_def])
      show "fx_id h = fixtureId (fx_roundNumber h) (fx_position h)" if "h \<in> set fs" for h
        using shape that by auto
      show "inj (ni_fixture ids)" using fresh by (simp add: freshIds_def)
      show "bf_id x \<notin> range (ni_fixture ids)" if "x \<in> set (fixtureRows d)" for x
        using fresh that by (simp add: freshIds_def)
      show "sb_fixtureId x \<notin> range (ni_fixture ids)" if "x \<in> set (slotRows d)" for x
        using fresh that by (simp add: freshIds_def)
    qed (simp_all add: rows slots stored comp_def case_prod_unfold)
    have "entrantIds es z \<noteq> None" if "Entrant z \<in> {x, y}" for z
      using sourcesKnown_cases [OF known f, of "fx_red f"] sourcesKnown_cases [OF known f, of "fx_blue f"] that ent
      by (auto simp: s)
    then show "bf_status (fst (storeOne ids (entrantIds es) M i f)) =
      (if sl_resolvedEntrantId (fx_red f) \<noteq> None \<and> sl_resolvedEntrantId (fx_blue f) \<noteq> None then READY
        else PENDING_PARTICIPANTS)" by (rule status_stored [OF s])
  qed
  have mine: "filter (\<lambda>f. bf_bracketId f = ni_bracket ids) (fixtureRows d') =
      map (\<lambda>(i, f). fst (storeOne ids (entrantIds es) M i f)) (enumerate 0 fs)"
    using fresh by (simp add: rows stored comp_def case_prod_unfold freshIds_def filter_empty_conv filter_map storeOne_sel)
  have each: "map (\<lambda>(i, f). G f) (enumerate 0 fs) = map G fs" for G :: "fixture \<Rightarrow> 'x"
    by (rule nth_equalityI) (simp_all add: nth_enumerate_eq)
  show thesis
  proof (rule that [of fs])
    show "map (readFixture d') (filter (\<lambda>f. bf_bracketId f = ni_bracket ids) (fixtureRows d')) = map Some fs"
      unfolding mine each [symmetric] map_map by (rule map_cong) (auto simp: read)
    show "map bf_status (filter (\<lambda>f. bf_bracketId f = ni_bracket ids) (fixtureRows d')) =
      map (\<lambda>f. if sl_resolvedEntrantId (fx_red f) \<noteq> None \<and> sl_resolvedEntrantId (fx_blue f) \<noteq> None then READY
        else PENDING_PARTICIPANTS) fs"
      unfolding mine each [symmetric] map_map by (rule map_cong) (auto simp: status)
    show "map e_athleteId (filter (\<lambda>e. e_bracketId e = ni_bracket ids) (entrants d')) = placedIds (pc_placements c)"
      using fresh es(1,3) by (simp add: ents freshIds_def filter_empty_conv)
  qed (rule link)
qed

section \<open>Tokens\<close>

text \<open>What the services rely on of their codec: base64url has no dot and is not empty, claims are
  read back as they were written, and a SHA-256 digest is printed as 64 hexadecimal digits.\<close>

definition codecOk :: "codec \<Rightarrow> bool" where
  "codecOk cd \<longleftrightarrow>
     (\<forall>c. CHR ''.'' \<notin> set (tc_writeSetup cd c) \<and> tc_writeSetup cd c \<noteq> [] \<and>
        tc_readSetup cd (tc_writeSetup cd c) = Some c) \<and>
     (\<forall>c. CHR ''.'' \<notin> set (tc_writePreview cd c) \<and> tc_writePreview cd c \<noteq> [] \<and>
        tc_readPreview cd (tc_writePreview cd c) = Some c) \<and>
     (\<forall>p. CHR ''.'' \<notin> set (tc_hmac cd p) \<and> tc_hmac cd p \<noteq> []) \<and> (\<forall>j. isHex64 (tc_sha256 cd j))"

lemma open_seal:
  assumes "CHR ''.'' \<notin> set p" "p \<noteq> []" "CHR ''.'' \<notin> set (tc_hmac cd p)" "tc_hmac cd p \<noteq> []"
  shows "openToken cd (sealToken cd p) = Some p"
  using assms by (simp add: openToken_def sealToken_def splitDots_join splitDots_plain)

definition dateTime :: "time \<Rightarrow> bool" where
  "dateTime t \<longleftrightarrow> 0 \<le> t \<and> t \<le> 8640000000000000"

lemma dateTime_safe: "dateTime t \<Longrightarrow> safeInteger (floorSeconds t) \<and> safeInteger (floorSeconds t + TOKEN_TTL_SECONDS)"
  by (auto simp: dateTime_def safeInteger_def floorSeconds_def TOKEN_TTL_SECONDS_def)

lemma verify_issued_setup:
  assumes cd: "codecOk cd" and t: "dateTime t0" "floorSeconds t0 \<le> floorSeconds t" and n: "nonce \<noteq> []"
    and s: "list_all (\<lambda>n. n < 2 ^ 53) [bs_athleteCount s, bs_bracketSize s, bs_roundCount s, bs_totalFixtureCount s,
      bs_firstRoundFixtureCount s, bs_byeCount s]" and fp: "isHex64 fp"
  shows "isl (verifySetup cd (fst (issueSetup cd tid wid fp s t0 nonce)) tid wid fp t) \<longleftrightarrow>
    floorSeconds t0 + TOKEN_TTL_SECONDS \<le> floorSeconds t"
proof -
  define c where "c = \<lparr> sc_version = TOKEN_VERSION, sc_tournamentId = tid, sc_weightClassId = wid,
         sc_rosterFingerprint = fp, sc_summary = s, sc_issuedAt = floorSeconds t0,
         sc_expiresAt = floorSeconds t0 + TOKEN_TTL_SECONDS, sc_nonce = nonce \<rparr>"
  have tok: "fst (issueSetup cd tid wid fp s t0 nonce) = sealToken cd (tc_writeSetup cd c)"
    by (simp add: issueSetup_def Let_def c_def)
  have o: "openToken cd (sealToken cd (tc_writeSetup cd c)) = Some (tc_writeSetup cd c)"
    using cd by (intro open_seal) (simp_all add: codecOk_def)
  have r: "tc_readSetup cd (tc_writeSetup cd c) = Some c" using cd by (simp add: codecOk_def)
  have pos: "safeInteger (int n)" if "n < 2 ^ 53" for n :: nat
    using that by (simp add: safeInteger_def)
  show ?thesis
    unfolding tok verifySetup_def o orThrow_simps bindR_simps r Let_def
    using dateTime_safe [OF t(1)] t(2) n s fp pos by (simp add: c_def TOKEN_TTL_SECONDS_def)
qed

lemma verify_issued_preview:
  assumes cd: "codecOk cd" and t: "dateTime t0" "floorSeconds t0 \<le> floorSeconds t" and n: "nonce \<noteq> []"
    and ps: "list_all (\<lambda>p. pl_drawPosition p < 2 ^ 53 \<and> pl_drawPosition p > 0) ps" and fp: "isHex64 fp" and des: "distinct ids"
  shows "verifyPreview cd (fst (issuePreview cd tid wid ps fp ids strategy t0 nonce)) tid wid t =
    (if floorSeconds t0 + TOKEN_TTL_SECONDS \<le> floorSeconds t then Inl BracketPreviewExpired
     else Inr \<lparr> pc_version = TOKEN_VERSION, pc_tournamentId = tid, pc_weightClassId = wid, pc_placements = ps,
       pc_designatedByeAthleteIds = ids, pc_byeStrategy = strategy, pc_rosterFingerprint = fp,
       pc_issuedAt = floorSeconds t0, pc_expiresAt = floorSeconds t0 + TOKEN_TTL_SECONDS, pc_nonce = nonce \<rparr>)"
    (is "_ = (if ?late then _ else Inr ?c)")
proof -
  have tok: "fst (issuePreview cd tid wid ps fp ids strategy t0 nonce) = sealToken cd (tc_writePreview cd ?c)"
    by (simp add: issuePreview_def Let_def)
  have o: "openToken cd (sealToken cd (tc_writePreview cd ?c)) = Some (tc_writePreview cd ?c)"
    using cd by (intro open_seal) (simp_all add: codecOk_def)
  have r: "tc_readPreview cd (tc_writePreview cd ?c) = Some ?c" using cd by (simp add: codecOk_def)
  have pos: "list_all (\<lambda>p. safeInteger (int (pl_drawPosition p)) \<and> pl_drawPosition p > 0) ps"
    using ps by (auto simp: list_all_iff safeInteger_def)
  show ?thesis
    unfolding tok verifyPreview_def o orThrow_simps bindR_simps r
    using dateTime_safe [OF t(1)] t(2) n fp des pos by (simp add: TOKEN_TTL_SECONDS_def)
qed

lemma verifyPreview_Inr: "verifyPreview cd token tid wid now = Inr c \<Longrightarrow> pc_tournamentId c = tid \<and> pc_weightClassId c = wid"
  unfolding verifyPreview_def by (elim inr_elims) auto

section \<open>A confirmation that stores\<close>

lemma confirmE:
  assumes "confirm cd ids tid wid token key userId now d = Inr (v, d')"
    and "\<forall>b \<in> set (brackets d). b_confirmationKey b \<noteq> key"
  obtains c rules g b where "verifyPreview cd token tid wid now = Inr c" and "currentBracket tid wid d = None"
    and "graphOf c (map entryId (eligibleAthletes tid wid d)) = Inr g"
    and "storeBracket ids c key (confirmationFingerprint (tc_sha256 cd) c) userId rules (eligibleAthletes tid wid d) g d = Inr (b, d')"
    and "viewBracket b d' = Inr v"
proof -
  have "List.find (\<lambda>b. b_confirmationKey b = key) (brackets d) = None"
    using assms(2) by (auto simp: find_None_iff)
  with assms(1) that show thesis
    unfolding confirm_def Let_def by (elim inr_elims) (auto split: sum.splits if_splits elim!: inr_elims)
qed

lemma viewBracket_bracket: "viewBracket b d = Inr v \<Longrightarrow> bv_bracket v = b"
  unfolding viewBracket_def by (elim inr_elims) auto

lemma currentBracket_appended:
  assumes "currentBracket tid wid d = None" and "brackets d' = brackets d @ [b]" and "b_status b = B_ACTIVE"
    and "b_tournamentId b = tid" "b_weightClassId b = wid"
  shows "currentBracket tid wid d' = Some b"
  using assms by (simp add: currentBracket_def find_append_none find_None_iff)

text \<open>C6: A confirmation stores the bracket that was drawn. The fixtures of the new bracket, read back
  through the entrants and source fixtures their slots point to and linked, are the generated
  fixtures, in their order; a fixture is ready exactly when both its athletes are known; the
  entrants are the placed athletes, who are exactly the eligible athletes; and the new bracket is
  the only current one of its weight class.\<close>

theorem confirmed_rows_are_the_generated_graph:
  assumes "confirm cd ids tid wid token key userId now d = Inr (v, d')"
    and "\<forall>b \<in> set (brackets d). b_confirmationKey b \<noteq> key" and fresh: "freshIds ids d"
  shows "\<exists>c g fs. verifyPreview cd token tid wid now = Inr c \<and> buildSingleEliminationBracket (pc_placements c) = Inr g \<and>
    (let rows = filter (\<lambda>f. bf_bracketId f = ni_bracket ids) (fixtureRows d') in
      map (readFixture d') rows = map Some fs \<and> linkDownstreamFixtures fs = Inr (gb_fixtures g) \<and>
      map bf_status rows = map (\<lambda>f. if sl_resolvedEntrantId (fx_red f) \<noteq> None \<and> sl_resolvedEntrantId (fx_blue f) \<noteq> None
        then READY else PENDING_PARTICIPANTS) fs) \<and>
    map e_athleteId (filter (\<lambda>e. e_bracketId e = ni_bracket ids) (entrants d')) = placedIds (pc_placements c) \<and>
    set (placedIds (pc_placements c)) = entryId ` set (eligibleAthletes tid wid d) \<and>
    currentBracket tid wid d = None \<and> brackets d' = brackets d @ [bv_bracket v] \<and>
    currentBracket tid wid d' = Some (bv_bracket v) \<and> b_id (bv_bracket v) = ni_bracket ids \<and> matches d' = matches d"
proof -
  from assms(1,2) obtain c rules g b where c: "verifyPreview cd token tid wid now = Inr c" and none: "currentBracket tid wid d = None"
    and g: "graphOf c (map entryId (eligibleAthletes tid wid d)) = Inr g"
    and st: "storeBracket ids c key (confirmationFingerprint (tc_sha256 cd) c) userId rules (eligibleAthletes tid wid d) g d = Inr (b, d')"
    and v: "viewBracket b d' = Inr v" by (rule confirmE)
  note g' = graphOf_Inr [OF g]
  from st have b: "brackets d' = brackets d @ [b]" "b_status b = B_ACTIVE" "b_tournamentId b = tid" "b_weightClassId b = wid"
      "b_id b = ni_bracket ids" "matches d' = matches d"
    using verifyPreview_Inr [OF c] by (auto elim: storeBracketE)
  from stored_reads_back [OF conjunct1 [OF g'] st fresh] obtain fs where fs:
    "map (readFixture d') (filter (\<lambda>f. bf_bracketId f = ni_bracket ids) (fixtureRows d')) = map Some fs"
    "linkDownstreamFixtures fs = Inr (gb_fixtures g)"
    "map bf_status (filter (\<lambda>f. bf_bracketId f = ni_bracket ids) (fixtureRows d')) =
      map (\<lambda>f. if sl_resolvedEntrantId (fx_red f) \<noteq> None \<and> sl_resolvedEntrantId (fx_blue f) \<noteq> None then READY
        else PENDING_PARTICIPANTS) fs"
    "map e_athleteId (filter (\<lambda>e. e_bracketId e = ni_bracket ids) (entrants d')) = placedIds (pc_placements c)" .
  show ?thesis
    using c g' fs none b currentBracket_appended [OF none b(1-4)]
    by (intro exI [of _ c] exI [of _ g] exI [of _ fs]) (simp add: viewBracket_bracket [OF v] Let_def)
qed

text \<open>A stored confirmation is final for its key: any later valid preview token sent with the same
  key gets the stored bracket back when it stands for the same draw, and is refused when it stands for
  another one; neither changes the database.\<close>

theorem confirmation_replayed:
  assumes "confirm cd ids tid wid token key userId now d = Inr (v, d')"
    and "\<forall>b \<in> set (brackets d). b_confirmationKey b \<noteq> key"
    and c: "verifyPreview cd token tid wid now = Inr c" and c': "verifyPreview cd token' tid' wid' now' = Inr c'"
  shows "confirm cd ids' tid' wid' token' key userId' now' d' =
    (if confirmationFingerprint (tc_sha256 cd) c' = confirmationFingerprint (tc_sha256 cd) c then Inr (v, d')
     else Inl BracketConfirmationKeyReused)"
proof -
  from assms(1,2) obtain e rules g b where e: "verifyPreview cd token tid wid now = Inr e"
    and st: "storeBracket ids e key (confirmationFingerprint (tc_sha256 cd) e) userId rules (eligibleAthletes tid wid d) g d = Inr (b, d')"
    and v: "viewBracket b d' = Inr v" by (rule confirmE)
  from e c have "e = c" by simp
  with st have b: "brackets d' = brackets d @ [b]" "b_confirmationKey b = key"
    "b_confirmationFingerprint b = confirmationFingerprint (tc_sha256 cd) c" by (auto elim: storeBracketE)
  have "List.find (\<lambda>x. b_confirmationKey x = key) (brackets d') = Some b"
    using assms(2) by (simp add: b find_append_none)
  with c' v show ?thesis by (auto simp: confirm_def Let_def b(3))
qed

section \<open>From setup to confirmation\<close>

lemma pairRound_places:
  "pairRound r p advs = Inr (fs, nx) \<Longrightarrow> Some adv \<in> set advs \<Longrightarrow>
   (\<exists>f \<in> set fs. adv \<in> {sl_source (fx_red f), sl_source (fx_blue f)}) \<or> None \<in> set advs \<and> Some adv \<in> set nx"
proof (induction advs arbitrary: p fs nx rule: noDoubleBye.induct)
  case (3 red blue rest)
  from 3(2) obtain fs' nx' where rec: "pairRound r (Suc p) rest = Inr (fs', nx')"
    and cs: "case (red, blue) of
        (Some a, Some b) \<Rightarrow> fs = createFixture r p a b # fs' \<and> nx = Some (FixtureWinner (fixtureId r p)) # nx'
      | (Some a, None) \<Rightarrow> fs = fs' \<and> nx = Some a # nx'
      | (None, Some b) \<Rightarrow> fs = fs' \<and> nx = Some b # nx'
      | (None, None) \<Rightarrow> False"
    by (rule pairRound_step)
  from 3(3) 3(1) [OF rec] cs show ?case
    by (cases red; cases blue) auto
qed auto

lemma pairRound_no_bye: "pairRound r p advs = Inr (fs, nx) \<Longrightarrow> None \<notin> set nx"
proof (induction advs arbitrary: p fs nx rule: noDoubleBye.induct)
  case (3 red blue rest)
  from 3(2) show ?case
    by (rule pairRound_step) (use 3(1) in \<open>auto split: option.splits\<close>)
qed auto

lemma buildRounds_places:
  assumes "buildRounds (Suc n) r advs = Inr fs" and "Some adv \<in> set advs" and "0 < n \<or> None \<notin> set advs"
  shows "\<exists>f \<in> set fs. adv \<in> {sl_source (fx_red f), sl_source (fx_blue f)}"
proof -
  from assms(1) obtain gs nx hs where p: "pairRound r 1 advs = Inr (gs, nx)" and b: "buildRounds n (Suc r) nx = Inr hs"
    and fs: "fs = gs @ hs" by auto
  from pairRound_places [OF p assms(2)] consider
    "\<exists>f \<in> set gs. adv \<in> {sl_source (fx_red f), sl_source (fx_blue f)}" | "None \<in> set advs" "Some adv \<in> set nx" by blast
  then show ?thesis
  proof cases
    case 1
    then show ?thesis by (auto simp: fs)
  next
    case 2
    with assms(3) obtain m where m: "n = Suc m" by (cases n) auto
    from b m obtain gs' nx' where p': "pairRound (Suc r) 1 nx = Inr (gs', nx')" "set gs' \<subseteq> set hs" by auto
    from pairRound_places [OF p'(1) 2(2)] pairRound_no_bye [OF p] p'(2) show ?thesis by (fastforce simp: fs)
  qed
qed

lemma everyone_opens:
  assumes "buildSingleEliminationBracket ps = Inr g" and "a \<in> set (placedIds ps)"
  shows "\<exists>f. openingByAthleteId (gb_fixtures g) a = Some f \<and>
    List.find (\<lambda>s. entrantSource s = Some a) [fx_red f, fx_blue f] \<noteq> None"
proof -
  from assms(1) obtain k where k: "placementsOk k ps" by (rule build_graph)
  from assms(1) k obtain fs where br: "buildRounds k 1 (map toAdvancement ps) = Inr fs"
    and fs: "gb_fixtures g = map (relink (links fs)) fs" by (rule build_parts)
  obtain n where n: "k = Suc n" using k by (cases k) (auto simp: placementsOk_def)
  have "Some (Entrant a) \<in> set (map toAdvancement ps)"
    using assms(2) by (induction ps) (auto simp: toAdvancement_def split: option.splits)
  moreover have "0 < n \<or> None \<notin> set (map toAdvancement ps)"
  proof (cases n)
    case 0
    with k n obtain p q where "ps = [p, q]" "length (placedIds ps) > 1"
      by (auto simp: placementsOk_def length_Suc_conv numeral_2_eq_2)
    then show ?thesis by (auto simp: toAdvancement_def split: option.splits)
  qed simp
  ultimately obtain f where f: "f \<in> set fs" "Entrant a \<in> {sl_source (fx_red f), sl_source (fx_blue f)}"
    using buildRounds_places [OF br [unfolded n]] by blast
  let ?h = "relink (links fs) f"
  define L where "L = concat (map (\<lambda>f. map (\<lambda>a. (a, f)) (List.map_filter entrantSource [fx_red f, fx_blue f])) (gb_fixtures g))"
  have "a \<in> set (List.map_filter entrantSource [fx_red f, fx_blue f])"
    using f(2) by (cases "sl_source (fx_red f)"; cases "sl_source (fx_blue f)") (auto simp: map_filter_simps entrantSource_def)
  then have "(a, ?h) \<in> set (map (\<lambda>a. (a, ?h)) (List.map_filter entrantSource [fx_red ?h, fx_blue ?h]))"
    by (simp only: relink_sel set_map) blast
  moreover have "?h \<in> set (gb_fixtures g)" using f(1) by (simp add: fs)
  ultimately have "(a, ?h) \<in> set L" unfolding L_def by (intro in_concat_map)
  then have "a \<in> fst ` set L" by (rule image_eqI [rotated]) simp
  then have "map_of (rev L) a \<noteq> None" by (simp add: map_of_eq_None_iff)
  then obtain h where h: "map_of (rev L) a = Some h" by blast
  then have "(a, h) \<in> set L" by (auto dest: map_of_SomeD)
  then have "List.find (\<lambda>s. entrantSource s = Some a) [fx_red h, fx_blue h] \<noteq> None"
    by (auto simp: L_def map_filter_simps split: option.splits)
  with h show ?thesis by (auto simp: openingByAthleteId_def L_def)
qed

lemma mapR_total: "(\<And>x. x \<in> set xs \<Longrightarrow> \<exists>y. f x = Inr y) \<Longrightarrow> \<exists>ys. mapR f xs = Inr ys"
  by (induction xs) (force, fastforce)

lemma byId_total: "a \<in> entryId ` set entries \<Longrightarrow> \<exists>e. byId entries a = Some e"
  by (cases "byId entries a") (auto simp: byId_def map_of_eq_None_iff image_image)

lemma storeBracket_total:
  assumes g: "buildSingleEliminationBracket (pc_placements c) = Inr g"
    and ids: "set (placedIds (pc_placements c)) \<subseteq> entryId ` set athletes"
  shows "\<exists>b d'. storeBracket ids c key fp uid rules athletes g d = Inr (b, d')"
proof -
  let ?ps = "pc_placements c"
  have "\<exists>e. newEntrant ids athletes ?ps (gb_fixtures g) x = Inr e"
    if "x \<in> set (enumerate 0 (filter (\<lambda>p. pl_athleteId p \<noteq> None) ?ps))" for x
  proof -
    obtain k p where x: "x = (k, p)" by (cases x)
    from that x have "p \<in> set ?ps" "pl_athleteId p \<noteq> None"
      by (auto simp: in_set_enumerate_eq dest!: nth_mem)
    then obtain a where a: "pl_athleteId p = Some a" "a \<in> set (placedIds ?ps)"
      by (cases "pl_athleteId p") (force simp: placedIds_def map_filter_def)+
    from byId_total [of a athletes] ids a(2) obtain e where e: "byId athletes a = Some e" by blast
    from everyone_opens [OF g a(2)] obtain f s where "openingByAthleteId (gb_fixtures g) a = Some f"
      "List.find (\<lambda>s. entrantSource s = Some a) [fx_red f, fx_blue f] = Some s" by auto
    with a(1) e show ?thesis by (cases e) (simp add: newEntrant_def x del: find.simps)
  qed
  then obtain es where "mapR (newEntrant ids athletes ?ps (gb_fixtures g))
      (enumerate 0 (filter (\<lambda>p. pl_athleteId p \<noteq> None) ?ps)) = Inr es" using mapR_total by blast
  then show ?thesis by (simp add: storeBracket_def Let_def)
qed

lemma stored_status: "r \<in> fst ` set (storeFixtures ids ent m k fs) \<Longrightarrow> bf_status r \<in> {READY, PENDING_PARTICIPANTS}"
  by (induction fs arbitrary: m k) (auto simp: Let_def split: if_splits)

lemma view_total:
  assumes st: "storeBracket ids c key fp uid rules athletes g d = Inr (b, d')" and fresh: "freshIds ids d"
  shows "\<exists>v. viewBracket b d' = Inr v"
proof -
  from st obtain es where rows: "fixtureRows d' = fixtureRows d @ map fst (storeFixtures ids (entrantIds es) Map.empty 0 (gb_fixtures g))"
    and b: "b_id b = ni_bracket ids" by (rule storeBracketE)
  have "\<exists>x. viewFixture d' f = Inr x" if "f \<in> set (bracketFixtures (b_id b) d')" for f
  proof -
    from that have "f \<in> set (fixtureRows d')" "bf_bracketId f = ni_bracket ids" by (auto simp: bracketFixtures_def b)
    with fresh rows have "f \<in> fst ` set (storeFixtures ids (entrantIds es) Map.empty 0 (gb_fixtures g))"
      by (auto simp: freshIds_def)
    then have "bf_status f \<in> {READY, PENDING_PARTICIPANTS}" by (rule stored_status)
    then show ?thesis by (auto simp: viewFixture_def Let_def)
  qed
  then obtain fs where "mapR (viewFixture d') (bracketFixtures (b_id b) d') = Inr fs" using mapR_total by blast
  then show ?thesis by (simp add: viewBracket_def)
qed

lemma generated_is_built: "generateSingleEliminationBracket rs input = Inr g \<Longrightarrow> buildSingleEliminationBracket (gb_initialEntrants g) = Inr g"
  unfolding generateSingleEliminationBracket_def by (elim inr_elims) (metis build_graph)

lemma built_size:
  assumes "buildSingleEliminationBracket ps = Inr g" and "summarizeBracket (length (placedIds ps)) = Inr sm"
  shows "length ps = length (placedIds ps) + bs_byeCount sm"
    and "list_all (\<lambda>p. pl_drawPosition p < 2 ^ 53 \<and> pl_drawPosition p > 0) ps"
    and "2 \<le> length ps" and "length ps AND (length ps - 1) = 0" and "gb_athleteCount g = length (placedIds ps)"
proof -
  from assms(1) obtain k where k: "placementsOk k ps" and n: "gb_athleteCount g = length (placedIds ps)" by (rule build_graph)
  from assms have size: "bs_bracketSize sm = length ps" and two: "2 \<le> length ps" "length ps AND (length ps - 1) = 0"
    by (auto simp: buildSingleEliminationBracket_def Let_def split: if_splits)
  show "2 \<le> length ps" "length ps AND (length ps - 1) = 0" "gb_athleteCount g = length (placedIds ps)" by (rule two n)+
  show "length ps = length (placedIds ps) + bs_byeCount sm"
    using assms(2) size placedIds_length_le [of ps] by (auto simp: summarizeBracket_def Let_def split: if_splits)
  have "2 ^ k = 2 * (2 :: nat) ^ (k - 1)" using k by (cases k) (auto simp: placementsOk_def)
  then have "length ps < 2 * 64" using k by (auto simp: placementsOk_def)
  moreover have "pl_drawPosition p \<in> set [1..<length ps + 1]" if "p \<in> set ps" for p
    using k that by (metis image_eqI image_set placementsOk_def)
  ultimately show "list_all (\<lambda>p. pl_drawPosition p < 2 ^ 53 \<and> pl_drawPosition p > 0) ps"
    by (fastforce simp: list_all_iff)
qed

lemma eligible_distinct: "distinct (map ta_id (rosterAthletes d)) \<Longrightarrow> distinct (map entryId (eligibleAthletes tid wid d))"
  by (auto simp: eligibleAthletes_def comp_def distinct_map intro: inj_on_subset)

lemma assertStrategy_sort [simp]: "assertStrategySelection st (sort ids) as n = assertStrategySelection st ids as n"
proof -
  have "sort ids = [] \<longleftrightarrow> ids = []" by (metis length_0_conv length_sort)
  then show ?thesis by (simp only: assertStrategySelection_def set_sort length_sort)
qed

lemma placementView_total:
  assumes "set (placedIds ps) \<subseteq> entryId ` set athletes"
  shows "\<exists>vs. mapR (placementView athletes) ps = Inr vs"
proof (rule mapR_total)
  fix p assume "p \<in> set ps"
  then have "a \<in> set (placedIds ps)" if "pl_athleteId p = Some a" for a
    using that by (force simp: placedIds_def map_filter_def)
  with assms have "byId athletes a \<noteq> None" if "pl_athleteId p = Some a" for a
    using byId_total [of a athletes] that by auto
  then show "\<exists>y. placementView athletes p = Inr y"
    by (cases "pl_athleteId p") (auto simp: placementView_def)
qed

definition chosenStrategy :: "preview_input \<Rightarrow> bye_strategy" where
  "chosenStrategy input = (case pi_byeStrategy input of Some s \<Rightarrow> s
     | None \<Rightarrow> if pi_designatedByeAthleteIds input = [] then RANDOM else MANUAL)"

text \<open>A choice of byes the preview admits for its roster.\<close>

definition admissible :: "preview_input \<Rightarrow> roster_entry list \<Rightarrow> bracket_summary \<Rightarrow> bool" where
  "admissible input athletes sm \<longleftrightarrow> (let ids = pi_designatedByeAthleteIds input in
     distinct ids \<and> set ids \<subseteq> entryId ` set athletes \<and> length ids \<le> bs_byeCount sm \<and>
     assertStrategySelection (chosenStrategy input) ids athletes (int (bs_byeCount sm)) = Inr ())"

lemma setup_Inr:
  assumes "drawSetup cd tid wid t nonce d = Inr s"
  shows "assertDrawable tid wid d = Inr () \<and> summarizeBracket (length (eligibleAthletes tid wid d)) = Inr (ds_summary s) \<and>
    ds_setupToken s = fst (issueSetup cd tid wid (rosterFingerprint (tc_sha256 cd) (eligibleAthletes tid wid d)) (ds_summary s) t nonce)"
  using assms unfolding drawSetup_def Let_def
  by (elim inr_elims) (auto split: sum.splits prod.splits)

lemma summary_small:
  assumes "summarizeBracket n = Inr s"
  shows "list_all (\<lambda>n. n < 2 ^ 53) [bs_athleteCount s, bs_bracketSize s, bs_roundCount s, bs_totalFixtureCount s,
      bs_firstRoundFixtureCount s, bs_byeCount s]" and "2 \<le> n" "n \<le> 64" "bs_byeCount s = nextPowerOfTwo n - n"
proof -
  from assms have n: "2 \<le> n" "n \<le> 64" by (auto simp: summarizeBracket_def Let_def MAX_BRACKET_ATHLETES_def split: if_splits)
  then obtain k s' where k: "summarizeBracket n = Inr s'" "bs_bracketSize s' = 2 ^ k" "bs_roundCount s' = k" "0 < k" "2 ^ (k - 1) < n"
    by (rule summarizeBracket_ok) blast
  have "2 ^ k = 2 * (2 :: nat) ^ (k - 1)" using k(4) by (cases k) auto
  with k n have "(2 :: nat) ^ k < 128" by linarith
  moreover have "k < 2 ^ k" by (rule less_exp)
  ultimately show "list_all (\<lambda>n. n < 2 ^ 53) [bs_athleteCount s, bs_bracketSize s, bs_roundCount s, bs_totalFixtureCount s,
      bs_firstRoundFixtureCount s, bs_byeCount s]"
  proof -
    assume k7: "(2 :: nat) ^ k < 128" "k < 2 ^ k"
    from assms k(1) have "s' = s" by simp
    have "k < 128" using k7 by linarith
    with \<open>s' = s\<close> k k7 have "bs_bracketSize s < 128" "bs_roundCount s < 128" by simp_all
    moreover from assms n have "bs_athleteCount s \<le> 64" "bs_totalFixtureCount s \<le> 64" "bs_firstRoundFixtureCount s \<le> 64"
      "bs_byeCount s \<le> bs_bracketSize s" by (auto simp: summarizeBracket_def Let_def split: if_splits)
    ultimately show ?thesis by simp
  qed
  show "2 \<le> n" "n \<le> 64" by (rule n)+
  show "bs_byeCount s = nextPowerOfTwo n - n"
    using assms by (auto simp: summarizeBracket_def Let_def split: if_splits)
qed

text \<open>The preview of a set-up draw: what it draws and the token it answers.\<close>

lemma preview_of_setup:
  assumes cd: "codecOk cd" and rs: "valid_source rs" and pk: "distinct (map ta_id (rosterAthletes d))"
    and s: "drawSetup cd tid wid t0 n0 d = Inr s" and tok: "pi_setupToken input = ds_setupToken s"
    and adm: "admissible input (eligibleAthletes tid wid d) (ds_summary s)"
    and t: "dateTime t0" "floorSeconds t0 \<le> floorSeconds t1" "floorSeconds t1 < floorSeconds t0 + TOKEN_TTL_SECONDS"
    and n0: "n0 \<noteq> []"
  obtains p g where "preview cd rs tid wid input t1 n1 d = Inr p" and "buildSingleEliminationBracket (gb_initialEntrants g) = Inr g"
    and "mset (placedIds (gb_initialEntrants g)) = mset (map entryId (eligibleAthletes tid wid d))"
    and "pv_fixtures p = gb_fixtures g"
    and "pv_previewToken p = fst (issuePreview cd tid wid (gb_initialEntrants g)
       (rosterFingerprint (tc_sha256 cd) (eligibleAthletes tid wid d)) (sort (pi_designatedByeAthleteIds input))
       (chosenStrategy input) t1 n1)"
proof -
  let ?as = "eligibleAthletes tid wid d" and ?ids = "pi_designatedByeAthleteIds input" and ?sm = "ds_summary s"
  let ?gi = "\<lparr> gi_athleteIds = map entryId ?as, gi_designatedByeAthleteIds = ?ids, gi_maxAthletes = Some (int MAX_BRACKET_ATHLETES) \<rparr>"
  note s' = setup_Inr [OF s]
  note sm = summary_small [OF conjunct1 [OF conjunct2 [OF s']]]
  from adm have a: "distinct ?ids" "set ?ids \<subseteq> entryId ` set ?as" "length ?ids \<le> bs_byeCount ?sm"
    "assertStrategySelection (chosenStrategy input) ?ids ?as (int (bs_byeCount ?sm)) = Inr ()"
    by (simp_all add: admissible_def Let_def)
  have "drawable ?gi"
    using a sm eligible_distinct [OF pk] by (simp add: drawable_def MAX_BRACKET_ATHLETES_def)
  from drawable_generates [OF rs this] obtain g k where g: "generateSingleEliminationBracket rs ?gi = Inr g"
    and "bracketGraph k g" and all: "mset (placedIds (gb_initialEntrants g)) = mset (gi_athleteIds ?gi)"
    and "set (gi_designatedByeAthleteIds ?gi) \<subseteq> set (byeHolders (gb_initialEntrants g))"
    and "length (byeHolders (gb_initialEntrants g)) = gb_byeCount g" and n: "gb_athleteCount g = length (gi_athleteIds ?gi)" .
  have placed: "mset (placedIds (gb_initialEntrants g)) = mset (map entryId ?as)" "gb_athleteCount g = length ?as"
    using all n by simp_all
  have set: "set (placedIds (gb_initialEntrants g)) = entryId ` set ?as"
    using mset_eq_setD [OF placed(1)] by simp
  from placementView_total [of "gb_initialEntrants g" ?as] set obtain vs
    where vs: "mapR (placementView ?as) (gb_initialEntrants g) = Inr vs" by blast
  have "\<not> isl (verifySetup cd (pi_setupToken input) tid wid (rosterFingerprint (tc_sha256 cd) ?as) t1)"
    using verify_issued_setup [OF cd t(1,2) n0 sm(1), of "rosterFingerprint (tc_sha256 cd) ?as" tid wid] s' cd t(3)
    by (simp add: tok codecOk_def rosterFingerprint_def)
  then obtain sc where sc: "verifySetup cd (pi_setupToken input) tid wid (rosterFingerprint (tc_sha256 cd) ?as) t1 = Inr sc"
    by (cases "verifySetup cd (pi_setupToken input) tid wid (rosterFingerprint (tc_sha256 cd) ?as) t1") auto
  obtain tk ex where tk: "issuePreview cd tid wid (gb_initialEntrants g) (rosterFingerprint (tc_sha256 cd) ?as) (sort ?ids)
      (chosenStrategy input) t1 n1 = (tk, ex)" by (cases "issuePreview cd tid wid (gb_initialEntrants g)
        (rosterFingerprint (tc_sha256 cd) ?as) (sort ?ids) (chosenStrategy input) t1 n1")
  have ineligible: "\<not> (\<exists>x \<in> set ?ids. x \<notin> entryId ` set ?as)" using a(2) by blast
  have "preview cd rs tid wid input t1 n1 d = previewAnswer cd tid wid ?as (gb_initialEntrants g)
      (rosterFingerprint (tc_sha256 cd) ?as) (sort ?ids) (chosenStrategy input) g t1 n1"
    using s' sc a(3,4) g sm(3) ineligible
    by (simp add: preview_def Let_def unexpected_def MAX_BRACKET_ATHLETES_def chosenStrategy_def)
  then have "preview cd rs tid wid input t1 n1 d = Inr \<lparr> pv_previewToken = tk, pv_expiresAt = ex,
      pv_rosterFingerprint = rosterFingerprint (tc_sha256 cd) ?as, pv_summary = ?sm, pv_initialEntrants = vs,
      pv_rounds = gb_rounds g, pv_fixtures = gb_fixtures g \<rparr>"
    using vs tk s' placed(2) by (simp add: previewAnswer_def unexpected_def)
  then show thesis using generated_is_built [OF g] placed(1) tk by (intro that) auto
qed

lemma confirm_of_preview:
  assumes key: "\<forall>b \<in> set (brackets d). b_confirmationKey b \<noteq> key" and fresh: "freshIds ids d"
    and ok: "assertDrawable tid wid d = Inr ()" and c: "verifyPreview cd token tid wid now = Inr c"
    and fp: "pc_rosterFingerprint c = rosterFingerprint (tc_sha256 cd) (eligibleAthletes tid wid d)"
    and g: "buildSingleEliminationBracket (pc_placements c) = Inr g"
    and placed: "mset (placedIds (pc_placements c)) = mset (map entryId (eligibleAthletes tid wid d))"
    and pk: "distinct (map entryId (eligibleAthletes tid wid d))" and ts: "distinct (map t_id (tournaments d))"
    and sm: "summarizeBracket (length (eligibleAthletes tid wid d)) = Inr sm"
    and str: "assertStrategySelection (pc_byeStrategy c) (pc_designatedByeAthleteIds c) (eligibleAthletes tid wid d)
      (int (bs_byeCount sm)) = Inr ()"
  shows "\<exists>v d'. confirm cd ids tid wid token key userId now d = Inr (v, d')"
proof -
  let ?as = "eligibleAthletes tid wid d" and ?ps = "pc_placements c"
  have len: "length (placedIds ?ps) = length ?as" using mset_eq_length [OF placed] by simp
  have set: "set (placedIds ?ps) = entryId ` set ?as" using mset_eq_setD [OF placed] by simp
  have dist: "distinct (placedIds ?ps)" using pk placed by (metis mset_eq_imp_distinct_iff)
  note size = built_size [OF g, of sm, unfolded len, OF sm]
  have graph: "graphOf c (map entryId ?as) = Inr g"
    using size(3,4) len set dist pk g by (simp add: graphOf_def Let_def distinct_remdups_id)
  from ok obtain t where t: "List.find (\<lambda>t. t_id t = tid \<and> t_softDeletedAt t = None) (tournaments d) = Some t"
      "t_status t \<noteq> T_ARCHIVED" "weightClassActive tid wid d" "currentBracket tid wid d = None"
    and rules: "resolve (t_sportGroupCode t) = Inr oneOnOneCombatRules"
    unfolding assertDrawable_def by (elim inr_elims) (auto split: sum.splits if_splits)
  have t': "List.find (\<lambda>t. t_id t = tid) (tournaments d) = Some t"
    using find_SomeD [OF t(1)] find_distinct [OF ts, of t] by auto
  from storeBracket_total [OF g, of ?as] set obtain b d' where
    st: "storeBracket ids c key (confirmationFingerprint (tc_sha256 cd) c) userId oneOnOneCombatRules ?as g d = Inr (b, d')"
    by blast
  from view_total [OF st fresh] obtain v where v: "viewBracket b d' = Inr v" ..
  have nokey: "List.find (\<lambda>b. b_confirmationKey b = key) (brackets d) = None" using key by (simp add: find_None_iff)
  have byes: "int (length ?ps) - int (length ?as) = int (bs_byeCount sm)" using size(1) by simp
  have "confirm cd ids tid wid token key userId now d = Inr (v, d')"
    using c nokey t' t(2-4) rules fp byes str graph st v
    by (simp add: confirm_def Let_def resolve_Inr del: resolve_Inr)
  then show ?thesis by blast
qed

lemma draw_confirmable:
  assumes cd: "codecOk cd" and rs: "valid_source rs"
    and pk: "distinct (map ta_id (rosterAthletes d))" "distinct (map t_id (tournaments d))"
    and s: "drawSetup cd tid wid t0 n0 d = Inr s" and tok: "pi_setupToken input = ds_setupToken s"
    and adm: "admissible input (eligibleAthletes tid wid d) (ds_summary s)"
    and t: "dateTime t0" "floorSeconds t0 \<le> floorSeconds t1" "floorSeconds t1 < floorSeconds t0 + 300"
    and t1: "dateTime t1" and n: "n0 \<noteq> []" "n1 \<noteq> []"
    and key: "\<forall>b \<in> set (brackets d). b_confirmationKey b \<noteq> key" and fresh: "freshIds ids d"
  shows "\<exists>p. preview cd rs tid wid input t1 n1 d = Inr p \<and>
    (\<forall>t2. floorSeconds t1 \<le> floorSeconds t2 \<longrightarrow>
      (if floorSeconds t2 < floorSeconds t1 + 300
       then \<exists>v d'. confirm cd ids tid wid (pv_previewToken p) key userId t2 d = Inr (v, d')
       else confirm cd ids tid wid (pv_previewToken p) key userId t2 d = Inl BracketPreviewExpired))"
proof -
  let ?as = "eligibleAthletes tid wid d" and ?des = "sort (pi_designatedByeAthleteIds input)"
  let ?fp = "rosterFingerprint (tc_sha256 cd) ?as"
  have ttl: "floorSeconds t1 < floorSeconds t0 + TOKEN_TTL_SECONDS" using t(3) by (simp add: TOKEN_TTL_SECONDS_def)
  obtain p g
    where p: "preview cd rs tid wid input t1 n1 d = Inr p" and g: "buildSingleEliminationBracket (gb_initialEntrants g) = Inr g"
    and placed: "mset (placedIds (gb_initialEntrants g)) = mset (map entryId ?as)"
    and pt: "pv_previewToken p = fst (issuePreview cd tid wid (gb_initialEntrants g) ?fp ?des (chosenStrategy input) t1 n1)"
    by (rule preview_of_setup [OF cd rs pk(1) s tok adm t(1,2) ttl n(1), of n1]) blast
  note s' = setup_Inr [OF s]
  from adm have a: "distinct ?des" "assertStrategySelection (chosenStrategy input) ?des ?as (int (bs_byeCount (ds_summary s))) = Inr ()"
    by (simp_all add: admissible_def Let_def)
  have len: "length (placedIds (gb_initialEntrants g)) = length ?as" using mset_eq_length [OF placed] by simp
  have pos: "list_all (\<lambda>p. pl_drawPosition p < 2 ^ 53 \<and> pl_drawPosition p > 0) (gb_initialEntrants g)"
    using built_size(2) [OF g, of "ds_summary s", unfolded len] s' by blast
  have hex: "isHex64 ?fp" using cd by (simp add: codecOk_def rosterFingerprint_def)
  have "if floorSeconds t2 < floorSeconds t1 + 300
       then \<exists>v d'. confirm cd ids tid wid (pv_previewToken p) key userId t2 d = Inr (v, d')
       else confirm cd ids tid wid (pv_previewToken p) key userId t2 d = Inl BracketPreviewExpired"
    if t2: "floorSeconds t1 \<le> floorSeconds t2" for t2
  proof (cases "floorSeconds t2 < floorSeconds t1 + 300")
    case True
    with verify_issued_preview [OF cd t1 t2 n(2) pos hex a(1), of tid wid "chosenStrategy input"]
    obtain c where c: "verifyPreview cd (pv_previewToken p) tid wid t2 = Inr c" "pc_placements c = gb_initialEntrants g"
      "pc_rosterFingerprint c = ?fp" "pc_byeStrategy c = chosenStrategy input" "pc_designatedByeAthleteIds c = ?des"
      by (simp add: pt TOKEN_TTL_SECONDS_def)
    have "\<exists>v d'. confirm cd ids tid wid (pv_previewToken p) key userId t2 d = Inr (v, d')"
      using confirm_of_preview [OF key fresh _ c(1,3) _ _ eligible_distinct [OF pk(1)] pk(2)] s' g placed a(2) c by simp
    with True show ?thesis by simp
  next
    case False
    with verify_issued_preview [OF cd t1 t2 n(2) pos hex a(1), of tid wid "chosenStrategy input"]
    have "verifyPreview cd (pv_previewToken p) tid wid t2 = Inl BracketPreviewExpired"
      by (simp add: pt TOKEN_TTL_SECONDS_def)
    with False show ?thesis by (simp add: confirm_def)
  qed
  with p show ?thesis by blast
qed

text \<open>C33: A draw that was set up can be previewed within five minutes under every admissible choice of
  byes and every random source, and the preview can be confirmed within five minutes when nothing
  changed in between: no draw is lost to the checks of the services. After five minutes the
  confirmation is refused as expired.\<close>

theorem set_up_draw_can_be_confirmed:
  assumes cd: "codecOk cd" and rs: "valid_source rs"
    and pk: "distinct (map ta_id (rosterAthletes d))" "distinct (map t_id (tournaments d))"
    and s: "drawSetup cd tid wid t0 n0 d = Inr s" and tok: "pi_setupToken input = ds_setupToken s"
    and adm: "admissible input (eligibleAthletes tid wid d) (ds_summary s)"
    and t: "dateTime t0" "floorSeconds t0 \<le> floorSeconds t1" "floorSeconds t1 < floorSeconds t0 + 300"
    and t1: "dateTime t1" and n: "n0 \<noteq> []" "n1 \<noteq> []"
    and key: "\<forall>b \<in> set (brackets d). b_confirmationKey b \<noteq> key" and fresh: "freshIds ids d"
  shows "\<exists>p. preview cd rs tid wid input t1 n1 d = Inr p \<and>
    (\<forall>t2. floorSeconds t1 \<le> floorSeconds t2 \<longrightarrow>
      (if floorSeconds t2 < floorSeconds t1 + 300
       then \<exists>v d'. confirm cd ids tid wid (pv_previewToken p) key userId t2 d = Inr (v, d')
       else confirm cd ids tid wid (pv_previewToken p) key userId t2 d = Inl BracketPreviewExpired))"
  by (rule draw_confirmable [OF assms])

section \<open>Swapping\<close>

lemma findIndex_SomeD: "findIndex p xs = Some i \<Longrightarrow> i < length xs \<and> p (xs ! i)"
  by (induction xs arbitrary: i) (auto split: if_splits)

lemma placed_once:
  "distinct (placedIds ps) \<Longrightarrow> k < length ps \<Longrightarrow> l < length ps \<Longrightarrow> pl_athleteId (ps ! k) = Some x \<Longrightarrow>
   pl_athleteId (ps ! l) = Some x \<Longrightarrow> k = l"
proof (induction ps arbitrary: k l)
  case (Cons p ps)
  have mem: "x \<in> set (placedIds ps)" if "m < length ps" "pl_athleteId (ps ! m) = Some x" for m
    using that by (force simp: placedIds_def map_filter_def dest: nth_mem)
  from Cons show ?case
    by (cases k; cases l) (auto split: option.splits dest: mem)
qed simp

definition exchange :: "uuid \<Rightarrow> uuid \<Rightarrow> uuid \<Rightarrow> uuid" where
  "exchange a b x = (if x = a then b else if x = b then a else x)"

lemma swap_exchanges:
  assumes i: "i < length ps" "pl_athleteId (ps ! i) = Some a" and j: "j < length ps" "pl_athleteId (ps ! j) = Some b"
    and "a \<noteq> b" and dist: "distinct (placedIds (swapAthletes i j ps))"
  shows "swapAthletes i j ps = map (\<lambda>p. p\<lparr>pl_athleteId := map_option (exchange a b) (pl_athleteId p)\<rparr>) ps"
proof (rule nth_equalityI)
  have ij: "i \<noteq> j" using assms by auto
  fix k assume k: "k < length (swapAthletes i j ps)"
  have at: "pl_athleteId (swapAthletes i j ps ! i) = Some b" "pl_athleteId (swapAthletes i j ps ! j) = Some a"
    using i j ij by (simp_all add: swapAthletes_def)
  have other: "pl_athleteId (ps ! k) \<noteq> Some a \<and> pl_athleteId (ps ! k) \<noteq> Some b" if "k \<noteq> i" "k \<noteq> j"
    using placed_once [OF dist, of k i b] placed_once [OF dist, of k j a] at i j k that
    by (auto simp: swapAthletes_def)
  show "swapAthletes i j ps ! k = map (\<lambda>p. p\<lparr>pl_athleteId := map_option (exchange a b) (pl_athleteId p)\<rparr>) ps ! k"
    using i j k ij other \<open>a \<noteq> b\<close>
    by (cases "k = i"; cases "k = j"; cases "pl_athleteId (ps ! k)") (auto simp: swapAthletes_def exchange_def)
qed (simp add: swapAthletes_def)

lemma mapR_placementView: "mapR (placementView as) ps = Inr vs \<Longrightarrow> map fst vs = ps"
proof (induction ps arbitrary: vs)
  case (Cons p ps)
  then obtain v ws where v: "placementView as p = Inr v" "mapR (placementView as) ps = Inr ws" "vs = v # ws" by auto
  from v(1) have "fst v = p" unfolding placementView_def by (elim inr_elims) auto
  with v Cons.IH show ?case by simp
qed simp

text \<open>A swap exchanges two eligible athletes of the preview and changes nothing else: every other
  athlete and every bye keeps its place, and the fixtures answered are those of the exchanged draw.\<close>

theorem swap_exchanges_two_athletes:
  assumes s: "swap cd tid wid input now nonce d = Inr p" and c: "verifyPreview cd (si_previewToken input) tid wid now = Inr c"
  shows "\<exists>g. buildSingleEliminationBracket (map fst (pv_initialEntrants p)) = Inr g \<and> pv_fixtures p = gb_fixtures g \<and>
    map fst (pv_initialEntrants p) =
      map (\<lambda>q. q\<lparr>pl_athleteId := map_option (exchange (si_athleteId input) (si_swapWithAthleteId input)) (pl_athleteId q)\<rparr>)
        (pc_placements c) \<and>
    {si_athleteId input, si_swapWithAthleteId input} \<subseteq> entryId ` set (eligibleAthletes tid wid d)"
proof -
  let ?a = "si_athleteId input" and ?b = "si_swapWithAthleteId input" and ?as = "eligibleAthletes tid wid d"
  from s c obtain i j g where ab: "?a \<noteq> ?b" and i: "findIndex (\<lambda>p. pl_athleteId p = Some ?a) (pc_placements c) = Some i"
    and j: "findIndex (\<lambda>p. pl_athleteId p = Some ?b) (pc_placements c) = Some j"
    and el: "?a \<in> entryId ` set ?as" "?b \<in> entryId ` set ?as"
    and g: "buildSingleEliminationBracket (swapAthletes i j (pc_placements c)) = Inr g"
    and an: "previewAnswer cd tid wid ?as (swapAthletes i j (pc_placements c)) (pc_rosterFingerprint c)
      (pc_designatedByeAthleteIds c) (pc_byeStrategy c) g now nonce = Inr p"
    unfolding swap_def by (auto simp: Let_def split: if_splits option.splits sum.splits)
  from g obtain k where k: "placementsOk k (swapAthletes i j (pc_placements c))"
    and ie: "gb_initialEntrants g = swapAthletes i j (pc_placements c)" by (rule build_graph)
  from an have "map fst (pv_initialEntrants p) = gb_initialEntrants g" "pv_fixtures p = gb_fixtures g"
    unfolding previewAnswer_def by (elim inr_elims, auto simp: mapR_placementView split: prod.splits)+
  moreover have "swapAthletes i j (pc_placements c) =
      map (\<lambda>q. q\<lparr>pl_athleteId := map_option (exchange ?a ?b) (pl_athleteId q)\<rparr>) (pc_placements c)"
    using findIndex_SomeD [OF i] findIndex_SomeD [OF j] ab k by (intro swap_exchanges) (auto simp: placementsOk_def)
  ultimately show ?thesis using g el ie by auto
qed

section \<open>A concrete codec and draw\<close>

instance bye_strategy :: countable
  by countable_datatype

instance bracket_summary_ext :: (countable) countable
  by (rule countable_classI [of "\<lambda>r. to_nat (bs_athleteCount r, bs_bracketSize r, bs_roundCount r,
        bs_totalFixtureCount r, bs_firstRoundFixtureCount r, bs_byeCount r, bracket_summary.more r)"]) simp

instance placement_ext :: (countable) countable
  by (rule countable_classI [of "\<lambda>r. to_nat (pl_drawPosition r, pl_athleteId r, placement.more r)"]) simp

instance setup_claims_ext :: (countable) countable
  by (rule countable_classI [of "\<lambda>r. to_nat (sc_version r, sc_tournamentId r, sc_weightClassId r,
        sc_rosterFingerprint r, sc_summary r, sc_issuedAt r, sc_expiresAt r, sc_nonce r, setup_claims.more r)"]) simp

instance preview_claims_ext :: (countable) countable
  by (rule countable_classI [of "\<lambda>r. to_nat (pc_version r, pc_tournamentId r, pc_weightClassId r, pc_placements r,
        pc_designatedByeAthleteIds r, pc_byeStrategy r, pc_rosterFingerprint r, pc_issuedAt r, pc_expiresAt r,
        pc_nonce r, preview_claims.more r)"]) simp

text \<open>Claims are written as the decimal number of their place in an enumeration.\<close>

definition decimalCodec :: codec where
  "decimalCodec = \<lparr> tc_writeSetup = (\<lambda>c. showNat (to_nat c)), tc_readSetup = (\<lambda>s. Some (from_nat (readNat s))),
     tc_writePreview = (\<lambda>c. showNat (to_nat c)), tc_readPreview = (\<lambda>s. Some (from_nat (readNat s))),
     tc_hmac = (\<lambda>p. ''h''), tc_sha256 = (\<lambda>j. replicate 64 CHR ''a'') \<rparr>"

lemma showNat_plain: "CHR ''.'' \<notin> set (showNat n)" "showNat n \<noteq> []"
  using showNat_digits [of "CHR ''.''" n] by (auto simp: showNat.simps [of n])

lemma decimalCodec_ok: "codecOk decimalCodec"
  by (simp add: codecOk_def decimalCodec_def showNat_plain readNat_showNat isHex64_def list_all_iff)

definition drawAthlete :: "uuid \<Rightarrow> athlete_row" where
  "drawAthlete i = \<lparr> ta_id = i, ta_tournamentId = 1, ta_organizationId = None, ta_weightClassId = 1, ta_name = ''A'',
     ta_birthYear = 2000, ta_details = None, ta_imagePath = None, ta_isSeed = False, ta_isActive = True,
     ta_deactivatedAt = None, ta_updatedAt = 0 \<rparr>"

definition drawDb :: db where
  "drawDb = waitingDb\<lparr> weightClasses := [\<lparr> wc_id = 1, wc_tournamentId = 1, wc_name = ''K'', wc_normalizedName = ''k'',
       wc_details = None, wc_intermissionDurationSeconds = 0, wc_isActive = True, wc_deactivatedAt = None \<rparr>],
     rosterAthletes := [drawAthlete 21, drawAthlete 22, drawAthlete 23] \<rparr>"

definition drawIds :: new_ids where
  "drawIds = \<lparr> ni_bracket = 900, ni_entrant = (\<lambda>k. 1000 + k), ni_fixture = (\<lambda>k. 2000 + k),
     ni_slot = (\<lambda>k. 3000 + k), ni_staffing = (\<lambda>k. 4000 + k) \<rparr>"

definition drawInput :: "draw_setup \<Rightarrow> preview_input" where
  "drawInput s = \<lparr> pi_setupToken = ds_setupToken s, pi_designatedByeAthleteIds = [], pi_byeStrategy = None \<rparr>"

lemma drawDb_eligible: "eligibleAthletes 1 1 drawDb = [(drawAthlete 21, None), (drawAthlete 22, None), (drawAthlete 23, None)]"
  by (simp add: eligibleAthletes_def drawDb_def drawAthlete_def weightClassActive_def organizationOf_def)

definition drawTournament :: tournament_row where
  "drawTournament = \<lparr> t_id = 1, t_publicCode = ''T1'', t_name = ''open'', t_sportGroupCode = ''ONE_ON_ONE_COMBAT'', t_status = T_ACTIVE, t_softDeletedAt = None \<rparr>"

lemma drawDb_drawable: "assertDrawable 1 1 drawDb = Inr ()"
proof -
  have "List.find (\<lambda>t. t_id t = 1 \<and> t_softDeletedAt t = None) (tournaments drawDb) = Some drawTournament"
    and "weightClassActive 1 1 drawDb" and "currentBracket 1 1 drawDb = None"
    by (simp_all add: drawDb_def drawTournament_def sample_defs weightClassActive_def currentBracket_def)
  moreover have "resolve (t_sportGroupCode drawTournament) = Inr oneOnOneCombatRules" by (simp add: drawTournament_def)
  ultimately show ?thesis
    by (simp add: assertDrawable_def drawDb_eligible drawTournament_def oneOnOneCombatRules_def del: One_nat_def resolve_Inr)
qed

lemma three_summary: "\<exists>sm. summarizeBracket (length (eligibleAthletes 1 1 drawDb)) = Inr sm"
  by (simp add: drawDb_eligible summarizeBracket_def MAX_BRACKET_ATHLETES_def Let_def del: One_nat_def)

lemma drawDb_setup: "\<exists>s. drawSetup decimalCodec 1 1 0 ''n'' drawDb = Inr s"
  using three_summary by (auto simp: drawSetup_def drawDb_drawable Let_def issueSetup_def simp del: One_nat_def)

lemma drawDb_fresh: "freshIds drawIds drawDb"
  by (auto simp: freshIds_def drawIds_def drawDb_def sample_defs inj_def)

lemma drawDb_keys: "distinct (map ta_id (rosterAthletes drawDb))" "distinct (map t_id (tournaments drawDb))"
  "\<forall>b \<in> set (brackets drawDb). b_confirmationKey b \<noteq> ''k''"
  by (simp_all add: drawDb_def drawAthlete_def sample_defs)

lemma zero_source: "valid_source (\<lambda>k m. 0)"
  by (simp add: valid_source_def)

lemma drawInput_admissible: "admissible (drawInput s) (eligibleAthletes 1 1 drawDb) sm"
  by (simp add: admissible_def drawInput_def chosenStrategy_def assertStrategySelection_def)

lemma drawDb_confirmed:
  "\<exists>token v d'. confirm decimalCodec drawIds 1 1 token ''k'' 7 10000 drawDb = Inr (v, d')"
proof -
  obtain s where s: "drawSetup decimalCodec 1 1 0 ''n'' drawDb = Inr s" using drawDb_setup ..
  have t: "dateTime 0" "dateTime 5000" "floorSeconds 0 \<le> floorSeconds 5000" "floorSeconds 5000 < floorSeconds 0 + 300"
    "floorSeconds 5000 \<le> floorSeconds 10000" "floorSeconds 10000 < floorSeconds 5000 + 300"
    by (simp_all add: dateTime_def floorSeconds_def)
  have tok: "pi_setupToken (drawInput s) = ds_setupToken s" by (simp add: drawInput_def)
  have n: "''n'' \<noteq> []" "''m'' \<noteq> []" by simp_all
  from draw_confirmable [OF decimalCodec_ok zero_source drawDb_keys(1,2) s tok drawInput_admissible t(1,3,4,2) n
      drawDb_keys(3) drawDb_fresh, of 7] t(5,6) show ?thesis by meson
qed

theorem set_up_draw_can_be_confirmed_witness:
  "\<exists>s p v d'. drawSetup decimalCodec 1 1 0 ''n'' drawDb = Inr s \<and>
     preview decimalCodec (\<lambda>k m. 0) 1 1 (drawInput s) 5000 ''m'' drawDb = Inr p \<and>
     confirm decimalCodec drawIds 1 1 (pv_previewToken p) ''k'' 7 10000 drawDb = Inr (v, d') \<and>
     confirm decimalCodec drawIds 1 1 (pv_previewToken p) ''k'' 7 400000 drawDb = Inl BracketPreviewExpired"
proof -
  obtain s where s: "drawSetup decimalCodec 1 1 0 ''n'' drawDb = Inr s" using drawDb_setup ..
  have t: "dateTime 0" "dateTime 5000" "floorSeconds 0 \<le> floorSeconds 5000" "floorSeconds 5000 < floorSeconds 0 + 300"
    by (simp_all add: dateTime_def floorSeconds_def)
  have tok: "pi_setupToken (drawInput s) = ds_setupToken s" by (simp add: drawInput_def)
  have n: "''n'' \<noteq> []" "''m'' \<noteq> []" by simp_all
  from set_up_draw_can_be_confirmed [OF decimalCodec_ok zero_source drawDb_keys(1,2) s tok drawInput_admissible t(1,3,4,2) n
      drawDb_keys(3) drawDb_fresh, of 7] obtain p where p: "preview decimalCodec (\<lambda>k m. 0) 1 1 (drawInput s) 5000 ''m'' drawDb = Inr p"
    and c: "\<And>t2. floorSeconds 5000 \<le> floorSeconds t2 \<Longrightarrow>
      (if floorSeconds t2 < floorSeconds 5000 + 300
       then \<exists>v d'. confirm decimalCodec drawIds 1 1 (pv_previewToken p) ''k'' 7 t2 drawDb = Inr (v, d')
       else confirm decimalCodec drawIds 1 1 (pv_previewToken p) ''k'' 7 t2 drawDb = Inl BracketPreviewExpired)" by blast
  from c [of 10000] c [of 400000] s p show ?thesis by (auto simp: floorSeconds_def)
qed

theorem confirmed_rows_are_the_generated_graph_witness:
  "\<exists>token v d'. confirm decimalCodec drawIds 1 1 token ''k'' 7 10000 drawDb = Inr (v, d') \<and>
     brackets d' = [bv_bracket v] \<and> currentBracket 1 1 d' = Some (bv_bracket v)"
proof -
  obtain token v d' where c: "confirm decimalCodec drawIds 1 1 token ''k'' 7 10000 drawDb = Inr (v, d')"
    using drawDb_confirmed by blast
  have "brackets drawDb = []" by (simp add: drawDb_def sample_defs)
  with confirmed_rows_are_the_generated_graph [OF c drawDb_keys(3) drawDb_fresh]
  have "brackets d' = [bv_bracket v] \<and> currentBracket 1 1 d' = Some (bv_bracket v)" by (metis append_Nil)
  with c show ?thesis by blast
qed

theorem confirmation_replayed_witness:
  "\<exists>token v d'. confirm decimalCodec drawIds 1 1 token ''k'' 7 10000 drawDb = Inr (v, d') \<and>
     confirm decimalCodec drawIds 1 1 token ''k'' 8 10000 d' = Inr (v, d')"
proof -
  obtain token v d' where c: "confirm decimalCodec drawIds 1 1 token ''k'' 7 10000 drawDb = Inr (v, d')"
    using drawDb_confirmed by blast
  then obtain cl where cl: "verifyPreview decimalCodec token 1 1 10000 = Inr cl"
    using drawDb_keys(3) by (rule confirmE)
  have "confirm decimalCodec drawIds 1 1 token ''k'' 8 10000 d' = Inr (v, d')"
    by (simp only: confirmation_replayed [OF c drawDb_keys(3) cl cl] refl if_True)
  with c show ?thesis by blast
qed

definition drawPlacementsSample :: "placement list" where
  "drawPlacementsSample = [\<lparr> pl_drawPosition = 1, pl_athleteId = Some 21 \<rparr>, \<lparr> pl_drawPosition = 2, pl_athleteId = None \<rparr>,
     \<lparr> pl_drawPosition = 3, pl_athleteId = Some 22 \<rparr>, \<lparr> pl_drawPosition = 4, pl_athleteId = Some 23 \<rparr>]"

theorem swap_exchanges_two_athletes_witness:
  "\<exists>token p. swap decimalCodec 1 1 \<lparr> si_previewToken = token, si_athleteId = 21, si_swapWithAthleteId = 23 \<rparr> 5000 ''m'' drawDb = Inr p \<and>
     map (pl_athleteId \<circ> fst) (pv_initialEntrants p) = [Some 23, None, Some 22, Some 21]"
proof -
  let ?fp = "rosterFingerprint (tc_sha256 decimalCodec) (eligibleAthletes 1 1 drawDb)"
  define token where "token = fst (issuePreview decimalCodec 1 1 drawPlacementsSample ?fp [] RANDOM 0 ''n'')"
  let ?in = "\<lparr> si_previewToken = token, si_athleteId = 21, si_swapWithAthleteId = 23 \<rparr>"
  have t: "dateTime 0" "floorSeconds 0 \<le> floorSeconds 5000" by (simp_all add: dateTime_def floorSeconds_def)
  have hex: "isHex64 ?fp" by (simp add: rosterFingerprint_def decimalCodec_def isHex64_def list_all_iff)
  have pos: "list_all (\<lambda>p. pl_drawPosition p < 2 ^ 53 \<and> pl_drawPosition p > 0) drawPlacementsSample"
    by (simp add: drawPlacementsSample_def)
  from verify_issued_preview [OF decimalCodec_ok t _ pos hex, of "''n''" "[]" 1 1 RANDOM]
  obtain c where c: "verifyPreview decimalCodec token 1 1 5000 = Inr c" "pc_placements c = drawPlacementsSample" "pc_rosterFingerprint c = ?fp"
    by (auto simp: token_def floorSeconds_def TOKEN_TTL_SECONDS_def simp del: One_nat_def)
  have sw: "swapAthletes 0 3 drawPlacementsSample = [\<lparr> pl_drawPosition = 1, pl_athleteId = Some 23 \<rparr>,
      \<lparr> pl_drawPosition = 2, pl_athleteId = None \<rparr>, \<lparr> pl_drawPosition = 3, pl_athleteId = Some 22 \<rparr>,
      \<lparr> pl_drawPosition = 4, pl_athleteId = Some 21 \<rparr>]"
    by (simp add: swapAthletes_def drawPlacementsSample_def)
  have "\<not> isl (buildSingleEliminationBracket (swapAthletes 0 3 drawPlacementsSample))" unfolding sw by code_simp
  then obtain g where g: "buildSingleEliminationBracket (swapAthletes 0 3 drawPlacementsSample) = Inr g"
    by (cases "buildSingleEliminationBracket (swapAthletes 0 3 drawPlacementsSample)") auto
  then have ie: "gb_initialEntrants g = swapAthletes 0 3 drawPlacementsSample" "gb_athleteCount g = length (eligibleAthletes 1 1 drawDb)"
    by (auto elim!: build_graph simp: sw drawDb_eligible simp del: One_nat_def)
  from placementView_total [of "gb_initialEntrants g" "eligibleAthletes 1 1 drawDb"]
  obtain vs where vs: "mapR (placementView (eligibleAthletes 1 1 drawDb)) (gb_initialEntrants g) = Inr vs"
    by (auto simp: ie sw drawDb_eligible drawAthlete_def simp del: One_nat_def)
  have none: "currentBracket 1 1 drawDb = None" by (simp add: currentBracket_def drawDb_def sample_defs)
  have idx: "findIndex (\<lambda>p. pl_athleteId p = Some 21) drawPlacementsSample = Some 0"
    "findIndex (\<lambda>p. pl_athleteId p = Some 23) drawPlacementsSample = Some 3"
    by (simp_all add: drawPlacementsSample_def)
  have el: "21 \<in> entryId ` set (eligibleAthletes 1 1 drawDb)" "23 \<in> entryId ` set (eligibleAthletes 1 1 drawDb)"
    by (simp_all add: drawDb_eligible drawAthlete_def del: One_nat_def)
  have "\<exists>p. swap decimalCodec 1 1 ?in 5000 ''m'' drawDb = Inr p"
    using c none idx g vs three_summary el
    by (auto simp: swap_def Let_def previewAnswer_def unexpected_def ie(2) issuePreview_def simp del: One_nat_def)
  then obtain p where p: "swap decimalCodec 1 1 ?in 5000 ''m'' drawDb = Inr p" ..
  have "verifyPreview decimalCodec (si_previewToken ?in) 1 1 5000 = Inr c" using c by simp
  from swap_exchanges_two_athletes [OF p this] have "map fst (pv_initialEntrants p) =
      map (\<lambda>q. q\<lparr>pl_athleteId := map_option (exchange 21 23) (pl_athleteId q)\<rparr>) drawPlacementsSample"
    by (auto simp: c)
  then have "map pl_athleteId (map fst (pv_initialEntrants p)) = [Some 23, None, Some 22, Some 21]"
    by (simp only:) (simp add: drawPlacementsSample_def exchange_def)
  with p show ?thesis by (intro exI [of _ token] exI [of _ p]) simp
qed

end
