(* ===== verification/Roster_Facts.thy ===== *)
theory Roster_Facts
  imports Roster_Athletes Draw_Facts
begin

text \<open>
  What every sequence of roster commands keeps. The commands are first reduced to elementary changes of
  rows, each with the guards the code has checked (\<open>rosterEffect\<close>); the invariants are proved over those.
\<close>

section \<open>Elementary changes\<close>

text \<open>An athlete may only refer to an active organization of the same tournament.\<close>

definition assignedTo :: "uuid \<Rightarrow> uuid option \<Rightarrow> db \<Rightarrow> bool" where
  "assignedTo tid org d \<longleftrightarrow> (case org of None \<Rightarrow> True
     | Some oid \<Rightarrow> \<exists>g \<in> set (organizations d). og_id g = oid \<and> og_tournamentId g = tid \<and> og_isActive g)"

definition keepsOrganization :: "(organization_row \<Rightarrow> organization_row) \<Rightarrow> bool" where
  "keepsOrganization f \<longleftrightarrow> (\<forall>g. og_id (f g) = og_id g \<and> og_tournamentId (f g) = og_tournamentId g)"

definition keepsWeightClass :: "(weight_class_row \<Rightarrow> weight_class_row) \<Rightarrow> bool" where
  "keepsWeightClass f \<longleftrightarrow> (\<forall>w. wc_id (f w) = wc_id w \<and> wc_tournamentId (f w) = wc_tournamentId w)"

definition keepsAthlete :: "(athlete_row \<Rightarrow> athlete_row) \<Rightarrow> bool" where
  "keepsAthlete f \<longleftrightarrow> (\<forall>a. ta_id (f a) = ta_id a \<and> ta_tournamentId (f a) = ta_tournamentId a)"

inductive rosterEffect :: "db \<Rightarrow> db \<Rightarrow> bool" where
  logged: "rosterEffect d (d\<lparr> auditLogs := l, importConfirmations := c \<rparr>)"
| organization_added: "og_id g \<notin> og_id ` set (organizations d) \<Longrightarrow>
    rosterEffect d (d\<lparr> organizations := organizations d @ [g] \<rparr>)"
| organization_changed: "keepsOrganization f \<Longrightarrow>
    (\<And>g. g \<in> set (organizations d) \<Longrightarrow> og_id g = oid \<Longrightarrow> og_isActive g \<Longrightarrow> og_isActive (f g)) \<Longrightarrow>
    rosterEffect d (d\<lparr> organizations := updWhere (\<lambda>g. og_id g = oid) f (organizations d) \<rparr>)"
| organization_left: "keepsOrganization f \<Longrightarrow> g \<in> set (organizations d) \<Longrightarrow> og_id g = oid \<Longrightarrow> og_tournamentId g = tid \<Longrightarrow>
    rosterEffect d ((leaveOrganization tid oid now d)\<lparr> organizations := updWhere (\<lambda>g. og_id g = oid) f (organizations d) \<rparr>)"
| class_added: "wc_id w \<notin> wc_id ` set (weightClasses d) \<Longrightarrow>
    rosterEffect d (d\<lparr> weightClasses := weightClasses d @ [w] \<rparr>)"
| class_changed: "keepsWeightClass f \<Longrightarrow> w \<in> set (weightClasses d) \<Longrightarrow> wc_id w = wid \<Longrightarrow>
    (wc_isActive w \<Longrightarrow> \<not> wc_isActive (f w) \<Longrightarrow> \<not> weightClassInUse (wc_tournamentId w) wid d) \<Longrightarrow>
    rosterEffect d (d\<lparr> weightClasses := updWhere (\<lambda>w. wc_id w = wid) f (weightClasses d) \<rparr>)"
| athlete_added: "ta_id a \<notin> ta_id ` set (rosterAthletes d) \<Longrightarrow> currentBracket (ta_tournamentId a) (ta_weightClassId a) d = None \<Longrightarrow>
    assignedTo (ta_tournamentId a) (ta_organizationId a) d \<Longrightarrow>
    rosterEffect d (d\<lparr> rosterAthletes := rosterAthletes d @ [a] \<rparr>)"
| athlete_changed: "keepsAthlete f \<Longrightarrow> a \<in> set (rosterAthletes d) \<Longrightarrow> ta_id a = aid \<Longrightarrow>
    ta_organizationId (f a) = ta_organizationId a \<or> assignedTo (ta_tournamentId a) (ta_organizationId (f a)) d \<Longrightarrow>
    (ta_isActive a \<Longrightarrow> \<not> ta_isActive (f a) \<or> ta_weightClassId (f a) \<noteq> ta_weightClassId a \<Longrightarrow> \<not> activeEntrant aid d) \<Longrightarrow>
    (ta_isActive (f a) \<Longrightarrow> \<not> ta_isActive a \<or> ta_weightClassId (f a) \<noteq> ta_weightClassId a \<Longrightarrow>
      currentBracket (ta_tournamentId a) (ta_weightClassId (f a)) d = None) \<Longrightarrow>
    rosterEffect d (d\<lparr> rosterAthletes := updWhere (\<lambda>a. ta_id a = aid) f (rosterAthletes d) \<rparr>)"

section \<open>Commands are made of elementary changes\<close>

abbreviation rosterEffects :: "db \<Rightarrow> db \<Rightarrow> bool" where
  "rosterEffects \<equiv> rosterEffect\<^sup>*\<^sup>*"

lemma rosterAudit_logged: "rosterEffect d (rosterAudit actor act target before after extra d)"
  using logged [where d = d and l = "auditLogs (rosterAudit actor act target before after extra d)" and c = "importConfirmations d"]
  by (simp add: rosterAudit_def addAudit_def)

lemma effects_audit: "rosterEffects d d' \<Longrightarrow> rosterEffects d (rosterAudit actor act target before after extra d')"
  using rosterAudit_logged by (rule rtranclp.rtrancl_into_rtrancl [rotated])

lemma effect_audit: "rosterEffect d d' \<Longrightarrow> rosterEffects d (rosterAudit actor act target before after extra d')"
  by (rule effects_audit) (rule r_into_rtranclp)

lemma effects_createOrganization:
  "createOrganization nf newId tid input actor now d = Inr (g, d') \<Longrightarrow> rosterEffects d d'"
  unfolding createOrganization_def Let_def
  by (elim inr_elims) (auto intro!: effect_audit organization_added simp: newOrganization_def)

lemma getOrganization_Inr:
  "getOrganization tid oid d = Inr g \<Longrightarrow> g \<in> set (organizations d) \<and> og_id g = oid \<and> og_tournamentId g = tid"
  by (auto simp: getOrganization_def dest: find_SomeD)

lemma leaveOrganization_organizations [simp]: "organizations (leaveOrganization tid oid now d) = organizations d"
  by (simp add: leaveOrganization_def)

lemma keeps_changes [simp]:
  "keepsOrganization (organizationChange nf name u now)" "keepsWeightClass (weightClassChange nf name u now)"
  "keepsOrganization (\<lambda>g. g\<lparr> og_isActive := b, og_deactivatedAt := t, og_updatedAt := now \<rparr>)"
  "keepsWeightClass (\<lambda>w. w\<lparr> wc_isActive := b, wc_deactivatedAt := t \<rparr>)"
  "keepsAthlete (athleteChange placed name' year ua now)"
  by (simp_all add: keepsOrganization_def keepsWeightClass_def keepsAthlete_def organizationChange_def weightClassChange_def
      athleteChange_def)

text \<open>Rows are found by their identifier, which the table does not repeat.\<close>

definition rosterKeys :: "db \<Rightarrow> bool" where
  "rosterKeys d \<longleftrightarrow> distinct (map ta_id (rosterAthletes d)) \<and> distinct (map og_id (organizations d)) \<and>
     distinct (map wc_id (weightClasses d))"

lemma key_unique: "distinct (map f xs) \<Longrightarrow> x \<in> set xs \<Longrightarrow> y \<in> set xs \<Longrightarrow> f x = f y \<Longrightarrow> x = y"
  by (metis distinct_map inj_onD)

lemma find_key:
  assumes "distinct (map f xs)" "x \<in> set xs" "p x" "\<And>y. p y \<Longrightarrow> f y = f x"
  shows "List.find p xs = Some x"
proof -
  obtain y where y: "List.find p xs = Some y" using assms(2,3) find_Some_iff_ex [of p xs] by blast
  with find_SomeD [OF y] key_unique [OF assms(1) _ assms(2), of y] assms(4) [of y] show ?thesis by simp
qed

lemma effects_updateOrganization:
  assumes "updateOrganization nf tid oid u actor now d = Inr (g, d')" and keys: "rosterKeys d"
  shows "rosterEffects d d'"
proof -
  from assms(1) obtain before name act ab aa where b: "getOrganization tid oid d = Inr before"
    and d': "d' = rosterAudit actor act oid ab aa []
      ((if ru_isActive u = Some False \<and> og_isActive before then leaveOrganization tid oid now d else d)
         \<lparr> organizations := updWhere (\<lambda>g. og_id g = oid) (organizationChange nf name u now) (organizations d) \<rparr>)"
    unfolding updateOrganization_def Let_def by (elim inr_elims) (auto split: if_splits)
  note before = getOrganization_Inr [OF b]
  show ?thesis
  proof (cases "ru_isActive u = Some False \<and> og_isActive before")
    case True
    with before show ?thesis
      unfolding d' by (auto intro!: effect_audit organization_left [of _ before])
  next
    case False
    have "g = before" if "g \<in> set (organizations d)" "og_id g = oid" for g
      using that before keys key_unique [of og_id "organizations d" g before] by (auto simp: rosterKeys_def)
    with False show ?thesis
      unfolding d' by (auto intro!: effect_audit organization_changed simp: organizationChange_def split: option.splits)
  qed
qed

lemma effects_deactivateOrganization:
  assumes "deactivateOrganization tid oid actor now d = Inr (g, d')"
  shows "rosterEffects d d'"
  using assms unfolding deactivateOrganization_def Let_def
  by (elim inr_elims) (auto dest!: getOrganization_Inr intro!: effect_audit organization_left)

lemma getWeightClass_Inr:
  "getWeightClass tid wid d = Inr w \<Longrightarrow> w \<in> set (weightClasses d) \<and> wc_id w = wid \<and> wc_tournamentId w = tid"
  by (auto simp: getWeightClass_def dest: find_SomeD)

lemma effects_weightClass:
  "createWeightClass nf newId tid input actor d = Inr (w, d') \<Longrightarrow> rosterEffects d d'"
  "updateWeightClass nf tid wid u actor now d = Inr (w, d') \<Longrightarrow> rosterEffects d d'"
  "deactivateWeightClass tid wid actor now d = Inr (w, d') \<Longrightarrow> rosterEffects d d'"
proof -
  show "createWeightClass nf newId tid input actor d = Inr (w, d') \<Longrightarrow> rosterEffects d d'"
    unfolding createWeightClass_def Let_def by (elim inr_elims) (auto intro!: effect_audit class_added)
  show "updateWeightClass nf tid wid u actor now d = Inr (w, d') \<Longrightarrow> rosterEffects d d'"
    unfolding updateWeightClass_def Let_def
    by (elim inr_elims) (auto dest!: getWeightClass_Inr intro!: effect_audit class_changed
        simp: weightClassChange_def split: option.splits)
  show "deactivateWeightClass tid wid actor now d = Inr (w, d') \<Longrightarrow> rosterEffects d d'"
    unfolding deactivateWeightClass_def Let_def
    by (elim inr_elims) (auto dest!: getWeightClass_Inr intro!: effect_audit class_changed)
qed

lemma rosterAssignments_Inr:
  "rosterAssignments tid wid org lock d = Inr p \<Longrightarrow> p = (wid, org) \<and> assignedTo tid org d \<and>
    (lock \<longrightarrow> currentBracket tid wid d = None)"
  unfolding rosterAssignments_def assignedTo_def by (elim inr_elims) (auto split: option.splits)

lemma effects_createAthlete:
  "createAthlete newId tid input actor now d = Inr (a, d') \<Longrightarrow> rosterEffects d d'"
  unfolding createAthlete_def Let_def
  by (elim inr_elims) (auto dest!: rosterAssignments_Inr intro!: effect_audit athlete_added)

lemma effects_updateAthlete:
  assumes "updateAthlete tid aid u actor now d = Inr (a, d')"
  shows "rosterEffects d d'"
proof -
  from assms obtain before placed year name act ab aa where
    b: "athleteOf tid aid d = Inr before" and e: "changesEligibility u before \<Longrightarrow> \<not> activeEntrant aid d"
    and p: "updateAssignments tid u before d = Inr placed"
    and d': "d' = rosterAudit actor act aid ab aa []
      (d\<lparr> rosterAthletes := updWhere (\<lambda>a. ta_id a = aid) (athleteChange placed name year u now) (rosterAthletes d) \<rparr>)"
    unfolding updateAthlete_def Let_def by (elim inr_elims) (auto split: if_splits)
  have before: "before \<in> set (rosterAthletes d)" "ta_id before = aid" "ta_tournamentId before = tid"
    using b by (auto simp: athleteOf_def dest: find_SomeD)
  show ?thesis unfolding d'
  proof (rule effect_audit, rule athlete_changed [OF keeps_changes(5) before(1,2)])
    let ?a = "athleteChange placed name year u now before"
    show "ta_organizationId ?a = ta_organizationId before \<or> assignedTo (ta_tournamentId before) (ta_organizationId ?a) d"
      using p before(3) unfolding updateAssignments_def
      by (elim inr_elims) (auto dest!: rosterAssignments_Inr simp: athleteChange_def)
    show "\<not> activeEntrant aid d" if "ta_isActive before" "\<not> ta_isActive ?a \<or> ta_weightClassId ?a \<noteq> ta_weightClassId before"
      using p e that unfolding updateAssignments_def
      by (elim inr_elims) (auto dest!: rosterAssignments_Inr simp: athleteChange_def changesEligibility_def movesClass_def split: option.splits)
    show "currentBracket (ta_tournamentId before) (ta_weightClassId ?a) d = None"
      if "ta_isActive ?a" "\<not> ta_isActive before \<or> ta_weightClassId ?a \<noteq> ta_weightClassId before"
      using p before(3) that unfolding updateAssignments_def
      by (elim inr_elims) (auto dest!: rosterAssignments_Inr
          simp: athleteChange_def movesClass_def restoresAthlete_def split: option.splits if_splits)
  qed
qed

lemma importUnit_Some:
  "importUnit nf tid w d = Some g \<Longrightarrow> g \<in> set (organizations d) \<and> og_tournamentId g = tid \<and>
     og_normalizedName g = importNormalized nf (importOrganizationName (iw_organizationName w)) \<and>
     og_normalizedLocation g = importNormalized nf (iw_organizationLocation w)"
  by (auto simp: importUnit_def dest: find_SomeD)

text \<open>The three ways a row finds its organization.\<close>

lemma ensureUnit_cases:
  assumes "ensureUnit nf newId tid w actor now d = Inr (oid, st, d1)"
  obtains (existing) g where "importUnit nf tid w d = Some g" "og_isActive g" "og_id g = oid" "d1 = d"
    | (restored) g act ab aa where "importUnit nf tid w d = Some g" "\<not> og_isActive g" "og_id g = oid"
      "d1 = rosterAudit actor act oid ab aa [] (d\<lparr> organizations := updWhere (\<lambda>x. og_id x = oid)
         (\<lambda>x. x\<lparr> og_isActive := True, og_deactivatedAt := None, og_updatedAt := now \<rparr>) (organizations d) \<rparr>)"
    | (created) g act ab aa where "importUnit nf tid w d = None" "og_id g = oid" "og_id g \<notin> og_id ` set (organizations d)"
      "og_tournamentId g = tid" "og_isActive g"
      "og_normalizedName g = importNormalized nf (importOrganizationName (iw_organizationName w))"
      "og_normalizedLocation g = importNormalized nf (iw_organizationLocation w)"
      "d1 = rosterAudit actor act oid ab aa [] (d\<lparr> organizations := organizations d @ [g] \<rparr>)"
proof (cases "importUnit nf tid w d")
  case None
  with assms show thesis unfolding ensureUnit_def Let_def
    by simp (elim inr_elims, rule created [where g = "\<lparr> og_id = newId, og_tournamentId = tid,
      og_name = importOrganizationName (iw_organizationName w),
      og_normalizedName = importNormalized nf (importOrganizationName (iw_organizationName w)),
      og_normalizedLocation = importNormalized nf (iw_organizationLocation w),
      og_location = textOrNull (Some (iw_organizationLocation w)), og_details = None, og_isActive = True,
      og_deactivatedAt = None, og_updatedAt = now \<rparr>"], auto)
next
  case (Some g)
  with assms show thesis unfolding ensureUnit_def Let_def
    by (cases "og_isActive g") (auto intro: existing restored [of g])
qed

lemma rosterAudit_tables [simp]:
  "organizations (rosterAudit actor act target before after extra d) = organizations d"
  "rosterAthletes (rosterAudit actor act target before after extra d) = rosterAthletes d"
  "weightClasses (rosterAudit actor act target before after extra d) = weightClasses d"
  "brackets (rosterAudit actor act target before after extra d) = brackets d"
  "entrants (rosterAudit actor act target before after extra d) = entrants d"
  "matches (rosterAudit actor act target before after extra d) = matches d"
  "importConfirmations (rosterAudit actor act target before after extra d) = importConfirmations d"
  by (simp_all add: rosterAudit_def addAudit_def)

lemma ensureUnit_effects:
  assumes "ensureUnit nf newId tid w actor now d = Inr (oid, st, d1)"
  shows "rosterEffects d d1 \<and> assignedTo tid (Some oid) d1 \<and> rosterAthletes d1 = rosterAthletes d \<and>
    weightClasses d1 = weightClasses d \<and> brackets d1 = brackets d \<and> importConfirmations d1 = importConfirmations d"
  using assms
proof (cases rule: ensureUnit_cases)
  case (existing g)
  then show ?thesis by (auto simp: assignedTo_def dest: importUnit_Some)
next
  case (restored g)
  have "rosterEffects d d1"
    unfolding restored(4) by (auto intro!: effect_audit organization_changed)
  moreover have "assignedTo tid (Some oid) d1"
    using restored(3) importUnit_Some [OF restored(1)]
    by (auto simp: assignedTo_def restored(4) set_updWhere intro!: bexI [of _ "g\<lparr> og_isActive := True, og_deactivatedAt := None, og_updatedAt := now \<rparr>"])
  ultimately show ?thesis by (simp add: restored(4))
next
  case (created g)
  then show ?thesis by (auto simp: assignedTo_def intro!: effect_audit organization_added)
qed

text \<open>An imported row, as one athlete appended to the database its organization left.\<close>

lemma importRow_Inr:
  assumes "importRow nf newIds tid w actor now r d = Inr (r', d')"
  obtains oid st d1 x a extra where "ensureUnit nf (fst newIds) tid w actor now d = Inr (oid, st, d1)"
    "importWeightClass nf tid w d1 = Some x" "currentBracket tid (wc_id x) d1 = None"
    "ta_id a \<notin> ta_id ` set (rosterAthletes d1)" "a = importedAthlete (snd newIds) tid oid (wc_id x) w now"
    "r' = r\<lparr> ir_unitStatus := st, ir_status := IMPORT_CREATED, ir_athleteStatus := ATHLETE_CREATED \<rparr>"
    "d' = rosterAudit actor ''ATHLETE_CREATED'' (ta_id a) JNull (JObj [(''id'', JId (ta_id a))]) extra
       (d1\<lparr> rosterAthletes := rosterAthletes d1 @ [a] \<rparr>)"
  using assms unfolding importRow_def Let_def
  by (elim inr_elims) (auto split: option.splits prod.splits if_splits intro!: that simp: importedAthlete_def)

lemma effects_importRow:
  assumes "importRow nf newIds tid w actor now r d = Inr (r', d')"
  shows "rosterEffects d d'"
  using assms
proof (rule importRow_Inr)
  fix oid st d1 x a extra
  assume u: "ensureUnit nf (fst newIds) tid w actor now d = Inr (oid, st, d1)" and b: "currentBracket tid (wc_id x) d1 = None"
    and a: "ta_id a \<notin> ta_id ` set (rosterAthletes d1)" "a = importedAthlete (snd newIds) tid oid (wc_id x) w now"
    and d': "d' = rosterAudit actor ''ATHLETE_CREATED'' (ta_id a) JNull (JObj [(''id'', JId (ta_id a))]) extra
       (d1\<lparr> rosterAthletes := rosterAthletes d1 @ [a] \<rparr>)"
  note u = ensureUnit_effects [OF u]
  have "rosterEffects d1 d'"
    unfolding d' using a b u by (intro effect_audit athlete_added) (simp_all add: importedAthlete_def)
  with u show ?thesis by (auto intro: rtranclp_trans)
qed

lemma effects_importRows:
  "rosterEffects d (snd (importRows nf ids tid rows actor now rs d))"
proof (induction rs arbitrary: d)
  case (Cons r rs)
  have "rosterEffects d (snd (importStep nf ids tid rows actor now r d))"
    by (auto simp: importStep_def split: sum.split intro: effects_importRow)
  with Cons.IH [of "snd (importStep nf ids tid rows actor now r d)"] show ?case
    by (auto split: prod.splits intro: rtranclp_trans)
qed simp

lemma effects_confirmImport:
  assumes "confirmImport nf sha ids tid rows actor key now d = Inr (rs, d')"
  shows "rosterEffects d d'"
proof -
  have "rosterEffects d (d1\<lparr> importConfirmations := c \<rparr>)" if "rosterEffects d d1" for d1 c
    using that logged [where d = d1 and l = "auditLogs d1" and c = c] by simp
  with effects_importRows [of d nf ids tid rows actor now "validateRows nf tid (getUTCFullYear now) d [] 0 rows"] show ?thesis
    using assms unfolding confirmImport_def Let_def by (elim inr_elims) auto
qed

section \<open>Runs of roster commands\<close>

datatype roster_command =
    CreateOrganization uuid uuid roster_item_input uuid time
  | UpdateOrganization uuid uuid roster_item_update uuid time
  | DeactivateOrganization uuid uuid uuid time
  | CreateWeightClass uuid uuid roster_item_input uuid
  | UpdateWeightClass uuid uuid roster_item_update uuid time
  | DeactivateWeightClass uuid uuid uuid time
  | CreateAthlete uuid uuid create_athlete_input uuid time
  | UpdateAthlete uuid uuid update_athlete_input uuid time
  | DeactivateAthlete uuid uuid uuid time
  | ConfirmImport "nat \<Rightarrow> uuid \<times> uuid" uuid "import_row list" uuid string time

abbreviation commits :: "'e + ('a \<times> db) \<Rightarrow> 'e + db" where
  "commits r \<equiv> bindR r (\<lambda>p. Inr (snd p))"

fun execRoster :: "(string \<Rightarrow> string) \<Rightarrow> (import_row list \<Rightarrow> string) \<Rightarrow> roster_command \<Rightarrow> db \<Rightarrow> roster_error + db" where
  "execRoster nf sha (CreateOrganization i t x u n) d = commits (createOrganization nf i t x u n d)"
| "execRoster nf sha (UpdateOrganization t i x u n) d = commits (updateOrganization nf t i x u n d)"
| "execRoster nf sha (DeactivateOrganization t i u n) d = commits (deactivateOrganization t i u n d)"
| "execRoster nf sha (CreateWeightClass i t x u) d = commits (createWeightClass nf i t x u d)"
| "execRoster nf sha (UpdateWeightClass t i x u n) d = commits (updateWeightClass nf t i x u n d)"
| "execRoster nf sha (DeactivateWeightClass t i u n) d = commits (deactivateWeightClass t i u n d)"
| "execRoster nf sha (CreateAthlete i t x u n) d = commits (createAthlete i t x u n d)"
| "execRoster nf sha (UpdateAthlete t i x u n) d = commits (updateAthlete t i x u n d)"
| "execRoster nf sha (DeactivateAthlete t i u n) d = commits (deactivateAthlete t i u n d)"
| "execRoster nf sha (ConfirmImport ids t rows u k n) d = commits (confirmImport nf sha ids t rows u k n d)"

text \<open>A command that throws leaves the database as it was.\<close>

definition transactRoster :: "(string \<Rightarrow> string) \<Rightarrow> (import_row list \<Rightarrow> string) \<Rightarrow> roster_command \<Rightarrow> db \<Rightarrow> db" where
  "transactRoster nf sha c d = (case execRoster nf sha c d of Inl _ \<Rightarrow> d | Inr d' \<Rightarrow> d')"

lemma effects_execRoster:
  "execRoster nf sha c d = Inr d' \<Longrightarrow> rosterKeys d \<Longrightarrow> rosterEffects d d'"
  by (cases c) (auto simp: deactivateAthlete_def intro: effects_createOrganization effects_updateOrganization
      effects_deactivateOrganization effects_weightClass effects_createAthlete effects_updateAthlete effects_confirmImport)

section \<open>Assignments stay active\<close>

definition rosterOk :: "db \<Rightarrow> bool" where
  "rosterOk d \<longleftrightarrow> rosterKeys d \<and> (\<forall>a \<in> set (rosterAthletes d). assignedTo (ta_tournamentId a) (ta_organizationId a) d)"

lemma map_updWhere_key: "(\<And>x. k (f x) = k x) \<Longrightarrow> map k (updWhere p f xs) = map k xs"
  by (simp add: updWhere_def)

lemma rosterEffect_keys: "rosterEffect d d' \<Longrightarrow> rosterKeys d \<Longrightarrow> rosterKeys d'"
  by (induction rule: rosterEffect.induct)
    (auto simp: rosterKeys_def map_updWhere_key leaveOrganization_def keepsOrganization_def keepsWeightClass_def keepsAthlete_def)

lemma assignedTo_mono:
  assumes "assignedTo tid org d"
    and "\<And>g. g \<in> set (organizations d) \<Longrightarrow> og_isActive g \<Longrightarrow> org = Some (og_id g) \<Longrightarrow>
      \<exists>g' \<in> set (organizations d'). og_id g' = og_id g \<and> og_tournamentId g' = og_tournamentId g \<and> og_isActive g'"
  shows "assignedTo tid org d'"
  using assms by (fastforce simp: assignedTo_def split: option.splits)

lemma assignedTo_updates [simp]:
  "assignedTo tid org (d\<lparr> rosterAthletes := as \<rparr>) = assignedTo tid org d"
  "assignedTo tid org (d\<lparr> weightClasses := ws \<rparr>) = assignedTo tid org d"
  "assignedTo tid org (d\<lparr> auditLogs := l, importConfirmations := c \<rparr>) = assignedTo tid org d"
  by (simp_all add: assignedTo_def split: option.split)

lemma updWhere_memberI: "x \<in> set xs \<Longrightarrow> (if p x then f x else x) \<in> set (updWhere p f xs)"
  by (auto simp: updWhere_def)

lemma rosterEffect_ok:
  assumes "rosterEffect d d'" "rosterOk d"
  shows "rosterOk d'"
proof -
  have keys: "rosterKeys d'" using assms rosterEffect_keys by (auto simp: rosterOk_def)
  have ok: "assignedTo (ta_tournamentId a) (ta_organizationId a) d" if "a \<in> set (rosterAthletes d)" for a
    using that assms(2) by (simp add: rosterOk_def)
  have "assignedTo (ta_tournamentId a) (ta_organizationId a) d'" if "a \<in> set (rosterAthletes d')" for a
    using assms(1)
  proof cases
    case (organization_added g)
    with that ok show ?thesis by (auto intro!: assignedTo_mono [OF ok])
  next
    case (organization_changed f oid)
    have "\<exists>g' \<in> set (organizations d'). og_id g' = og_id g \<and> og_tournamentId g' = og_tournamentId g \<and> og_isActive g'"
      if "g \<in> set (organizations d)" "og_isActive g" for g
      using updWhere_memberI [OF that(1), of "\<lambda>g. og_id g = oid" f] organization_changed that
      by (auto simp: keepsOrganization_def split: if_splits)
    with that ok organization_changed(1) show ?thesis by (auto intro!: assignedTo_mono [OF ok])
  next
    case (organization_left f g oid tid now)
    from that obtain a0 where a0: "a0 \<in> set (rosterAthletes d)"
      "a = (if ta_tournamentId a0 = tid \<and> ta_organizationId a0 = Some oid then a0\<lparr> ta_organizationId := None, ta_updatedAt := now \<rparr> else a0)"
      by (auto simp: organization_left(1) leaveOrganization_def updWhere_def)
    have "g' \<in> set (organizations d')" if "g' \<in> set (organizations d)" "og_id g' \<noteq> oid" for g'
      using updWhere_memberI [OF that(1), of "\<lambda>g. og_id g = oid" f] that(2) by (simp add: organization_left(1))
    moreover have "og_id g' \<noteq> oid" if "g' \<in> set (organizations d)" "ta_organizationId a0 = Some (og_id g')" "ta_tournamentId a0 \<noteq> tid"
      "og_tournamentId g' = ta_tournamentId a0" for g'
      using that organization_left key_unique [of og_id "organizations d" g' g] assms(2) by (auto simp: rosterOk_def rosterKeys_def)
    ultimately show ?thesis
      using ok [OF a0(1)] unfolding a0(2)
      by (cases "ta_tournamentId a0 = tid") (fastforce simp: assignedTo_def split: option.splits)+
  next
    case (athlete_changed f b aid)
    from that athlete_changed(1) obtain a0 where a0: "a0 \<in> set (rosterAthletes d)" "a = (if ta_id a0 = aid then f a0 else a0)"
      by (auto simp: updWhere_def)
    show ?thesis
    proof (cases "ta_id a0 = aid")
      case True
      then have "a0 = b" using key_unique [of ta_id "rosterAthletes d" a0 b] a0 athlete_changed assms(2) by (auto simp: rosterOk_def rosterKeys_def)
      with True a0 ok [OF a0(1)] athlete_changed show ?thesis by (auto simp: keepsAthlete_def)
    qed (use a0 ok athlete_changed(1) in simp)
  qed (use that ok in auto)
  with keys show ?thesis by (simp add: rosterOk_def)
qed

lemma rosterEffects_ok: "rosterEffects d d' \<Longrightarrow> rosterOk d \<Longrightarrow> rosterOk d'"
  by (induction rule: rtranclp_induct) (auto intro: rosterEffect_ok)

interpretation roster: tx_machine "execRoster nf sha" rosterOk for nf sha
proof unfold_locales
  show "rosterOk s \<Longrightarrow> execRoster nf sha c s = Inr s' \<Longrightarrow> rosterOk s'" for s c s'
    by (rule rosterEffects_ok [OF effects_execRoster]) (auto simp: rosterOk_def)
qed

section \<open>A current bracket freezes its weight class\<close>

definition activeIn :: "uuid \<Rightarrow> uuid \<Rightarrow> athlete_row \<Rightarrow> bool" where
  "activeIn tid wid a \<longleftrightarrow> ta_tournamentId a = tid \<and> ta_weightClassId a = wid \<and> ta_isActive a"

definition frozen :: "uuid \<Rightarrow> uuid \<Rightarrow> bracket_row \<Rightarrow> uuid list \<Rightarrow> db \<Rightarrow> bool" where
  "frozen tid wid b ids d \<longleftrightarrow> weightClassActive tid wid d \<and> currentBracket tid wid d = Some b \<and>
     map ta_id (filter (activeIn tid wid) (rosterAthletes d)) = ids \<and> (\<forall>i \<in> set ids. activeEntrant i d)"

lemma rosterEffect_brackets: "rosterEffect d d' \<Longrightarrow> brackets d' = brackets d \<and> entrants d' = entrants d"
  by (induction rule: rosterEffect.induct) (auto simp: leaveOrganization_def)

lemma filter_updWhere_key:
  "(\<And>x. x \<in> set xs \<Longrightarrow> q x \<Longrightarrow> p (f x) = p x \<and> k (f x) = k x) \<Longrightarrow>
   map k (filter p (updWhere q f xs)) = map k (filter p xs)"
  by (induction xs) auto

lemma rosterEffect_frozen:
  assumes eff: "rosterEffect d d'" and ok: "rosterOk d" and fz: "frozen tid wid b ids d"
  shows "frozen tid wid b ids d'"
proof -
  have same: "currentBracket tid wid d' = currentBracket tid wid d" "activeEntrant i d' = activeEntrant i d" for i
    using rosterEffect_brackets [OF eff] by (simp_all add: currentBracket_def activeEntrant_def)
  have cur: "currentBracket tid wid d \<noteq> None" and cls: "weightClassActive tid wid d"
    and ent: "activeEntrant (ta_id a) d" if "a \<in> set (rosterAthletes d)" "activeIn tid wid a" for a
    using fz that by (auto simp: frozen_def)
  have cur: "currentBracket tid wid d \<noteq> None" and cls: "weightClassActive tid wid d" using fz by (auto simp: frozen_def)
  have "weightClassActive tid wid d' \<and>
    map ta_id (filter (activeIn tid wid) (rosterAthletes d')) = map ta_id (filter (activeIn tid wid) (rosterAthletes d))"
    using eff
  proof cases
    case (organization_left f g oid tid' now)
    then show ?thesis using cls
      by (auto simp: leaveOrganization_def weightClassActive_def activeIn_def intro!: filter_updWhere_key)
  next
    case (class_changed f w k)
    obtain w0 where w0: "w0 \<in> set (weightClasses d)" "wc_id w0 = wid" "wc_tournamentId w0 = tid" "wc_isActive w0"
      using cls by (auto simp: weightClassActive_def)
    have "wc_isActive (if wc_id w0 = k then f w0 else w0)"
    proof (cases "wc_id w0 = k")
      case True
      then have "w0 = w" using key_unique [of wc_id "weightClasses d" w0 w] w0(1) class_changed ok by (auto simp: rosterOk_def rosterKeys_def)
      with w0 class_changed cur True show ?thesis by (cases "wc_isActive (f w)") (auto simp: weightClassInUse_def)
    qed (use w0 in simp)
    with updWhere_memberI [OF w0(1), of "\<lambda>w. wc_id w = k" f] w0 class_changed show ?thesis
      by (auto simp: weightClassActive_def keepsWeightClass_def intro!: bexI [of _ "if wc_id w0 = k then f w0 else w0"])
  next
    case (athlete_added a)
    with cur cls show ?thesis by (auto simp: activeIn_def weightClassActive_def)
  next
    case (athlete_changed f a aid)
    have "activeIn tid wid (f x) = activeIn tid wid x \<and> ta_id (f x) = ta_id x"
      if x: "x \<in> set (rosterAthletes d)" "ta_id x = aid" for x
    proof -
      have [simp]: "x = a" using x athlete_changed key_unique [of ta_id "rosterAthletes d" x a] ok by (auto simp: rosterOk_def rosterKeys_def)
      have "ta_isActive a \<and> (\<not> ta_isActive (f a) \<or> ta_weightClassId (f a) \<noteq> ta_weightClassId a) \<longrightarrow> \<not> activeEntrant aid d"
        "ta_isActive (f a) \<and> (\<not> ta_isActive a \<or> ta_weightClassId (f a) \<noteq> ta_weightClassId a) \<longrightarrow>
          currentBracket (ta_tournamentId a) (ta_weightClassId (f a)) d = None"
        using athlete_changed by blast+
      with cur ent [OF x(1)] x(2) athlete_changed(2) show ?thesis by (auto simp: activeIn_def keepsAthlete_def)
    qed
    with cls show ?thesis by (auto simp: athlete_changed(1) weightClassActive_def intro!: filter_updWhere_key)
  qed (use cls in \<open>auto simp: weightClassActive_def\<close>)
  with fz show ?thesis by (simp add: frozen_def same)
qed

lemma rosterEffects_frozen:
  "rosterEffects d d' \<Longrightarrow> rosterOk d \<and> frozen tid wid b ids d \<Longrightarrow> rosterOk d' \<and> frozen tid wid b ids d'"
  by (induction rule: rtranclp_induct) (auto intro: rosterEffect_ok rosterEffect_frozen)

interpretation frozenRoster: tx_machine "execRoster nf sha" "\<lambda>d. rosterOk d \<and> frozen tid wid b ids d" for nf sha tid wid b ids
proof unfold_locales
  show "rosterOk s \<and> frozen tid wid b ids s \<Longrightarrow> execRoster nf sha c s = Inr s' \<Longrightarrow> rosterOk s' \<and> frozen tid wid b ids s'" for s c s'
    by (rule rosterEffects_frozen [OF effects_execRoster]) (auto simp: rosterOk_def)
qed

lemma organizationOf_found:
  assumes "rosterOk d" "a \<in> set (rosterAthletes d)" "ta_organizationId a = Some oid"
  obtains g where "g \<in> set (organizations d)" "og_id g = oid" "og_tournamentId g = ta_tournamentId a" "og_isActive g"
    "organizationOf d a = Some g"
proof -
  obtain g where g: "g \<in> set (organizations d)" "og_id g = oid" "og_tournamentId g = ta_tournamentId a" "og_isActive g"
    using assms bspec [of "set (rosterAthletes d)" _ a] by (fastforce simp: rosterOk_def assignedTo_def)
  have "List.find (\<lambda>g. og_id g = oid \<and> og_tournamentId g = ta_tournamentId a) (organizations d) = Some g"
    using assms(1) g by (intro find_key [of og_id]) (auto simp: rosterOk_def rosterKeys_def)
  with g assms(3) show thesis by (intro that [of g]) (auto simp: organizationOf_def)
qed

lemma eligible_ids:
  assumes "rosterOk d" "weightClassActive tid wid d"
  shows "map entryId (eligibleAthletes tid wid d) = sort (map ta_id (filter (activeIn tid wid) (rosterAthletes d)))"
proof -
  have org: "case ta_organizationId a of None \<Rightarrow> True | Some _ \<Rightarrow> (case organizationOf d a of None \<Rightarrow> False | Some g \<Rightarrow> og_isActive g)"
    if "a \<in> set (rosterAthletes d)" for a
    by (cases "ta_organizationId a") (auto elim: organizationOf_found [OF assms(1) that])
  have "filter (\<lambda>a. ta_tournamentId a = tid \<and> ta_weightClassId a = wid \<and> ta_isActive a \<and>
          weightClassActive (ta_tournamentId a) (ta_weightClassId a) d \<and>
          (case ta_organizationId a of None \<Rightarrow> True
           | Some _ \<Rightarrow> (case organizationOf d a of None \<Rightarrow> False | Some g \<Rightarrow> og_isActive g))) (rosterAthletes d) =
        filter (activeIn tid wid) (rosterAthletes d)"
    using org assms(2) by (intro filter_cong) (auto simp: activeIn_def)
  moreover have "map ta_id (sort_key ta_id xs) = sort (map ta_id xs)" for xs
    by (rule properties_for_sort [symmetric]) simp_all
  ultimately show ?thesis by (simp add: eligibleAthletes_def comp_def)
qed

lemma transactRoster_tx: "transactRoster nf sha = roster.tx nf sha" "transactRoster nf sha = frozenRoster.tx nf sha"
  by (simp_all add: transactRoster_def roster.tx_def fun_eq_iff)

lemma storeBracket_roster:
  assumes "storeBracket ids c key fp uid rules athletes g d = Inr (b, d')"
  shows "rosterAthletes d' = rosterAthletes d \<and> organizations d' = organizations d \<and> weightClasses d' = weightClasses d"
  using assms unfolding storeBracket_def Let_def by (elim inr_elims) (auto simp: addAudit_def)

lemma rosterOk_cong:
  "rosterAthletes d' = rosterAthletes d \<Longrightarrow> organizations d' = organizations d \<Longrightarrow> weightClasses d' = weightClasses d \<Longrightarrow>
   rosterOk d' = rosterOk d"
  by (simp add: rosterOk_def rosterKeys_def assignedTo_def cong: option.case_cong)

lemma confirm_freezes:
  assumes "confirm cd ids tid wid token key userId now d = Inr (v, d')"
    and new: "\<forall>b \<in> set (brackets d). b_confirmationKey b \<noteq> key" and ok: "rosterOk d"
  shows "rosterOk d' \<and> frozen tid wid (bv_bracket v) (map ta_id (filter (activeIn tid wid) (rosterAthletes d))) d' \<and>
    weightClassActive tid wid d"
proof -
  from assms(1) new obtain c rules g b where c: "verifyPreview cd token tid wid now = Inr c" and none: "currentBracket tid wid d = None"
    and g: "graphOf c (map entryId (eligibleAthletes tid wid d)) = Inr g"
    and st: "storeBracket ids c key (confirmationFingerprint (tc_sha256 cd) c) userId rules (eligibleAthletes tid wid d) g d = Inr (b, d')"
    and v: "viewBracket b d' = Inr v" by (rule confirmE)
  have nk: "List.find (\<lambda>b. b_confirmationKey b = key) (brackets d) = None" using new by (auto simp: find_None_iff)
  have act: "weightClassActive tid wid d"
    using assms(1) nk unfolding confirm_def Let_def by (elim inr_elims) (auto split: sum.splits if_splits elim!: inr_elims)
  note same = storeBracket_roster [OF st]
  from st obtain es where es: "map e_athleteId es = placedIds (pc_placements c)" "\<forall>e \<in> set es. e_bracketId e = ni_bracket ids"
    "entrants d' = entrants d @ es" and b: "brackets d' = brackets d @ [b]" "b_id b = ni_bracket ids" "b_status b = B_ACTIVE"
    "b_tournamentId b = tid" "b_weightClassId b = wid"
    using verifyPreview_Inr [OF c] by (auto elim: storeBracketE)
  have placed: "set (placedIds (pc_placements c)) = set (map ta_id (filter (activeIn tid wid) (rosterAthletes d)))"
    using conjunct2 [OF graphOf_Inr [OF g]] arg_cong [OF eligible_ids [OF ok act], of set] by (simp add: image_image)
  have "activeEntrant i d'" if "i \<in> set (map ta_id (filter (activeIn tid wid) (rosterAthletes d)))" for i
  proof -
    from that es(1) obtain e where "e \<in> set es" "e_athleteId e = i" unfolding placed [symmetric] by (metis (no_types, lifting) image_iff list.set_map)
    with es(2,3) b show ?thesis by (auto simp: activeEntrant_def)
  qed
  moreover have "weightClassActive tid wid d'" using act same by (simp add: weightClassActive_def)
  moreover have "rosterOk d'" using same ok rosterOk_cong [of d' d] by simp
  ultimately show ?thesis
    using currentBracket_appended [OF none b(1,3-5)] same act by (simp add: frozen_def viewBracket_bracket [OF v])
qed

text \<open>C21: From its confirmation on, a current bracket freezes the roster of its weight class: whatever
  roster commands follow, on organizations, weight classes, athletes or imports, the athletes eligible for
  the draw stay exactly those the bracket was drawn for, the class stays active and the bracket current.\<close>

theorem current_bracket_freezes_roster:
  assumes "confirm cd ids tid wid token key userId now d = Inr (v, d')"
    and "\<forall>b \<in> set (brackets d). b_confirmationKey b \<noteq> key" and "rosterOk d"
  shows "let d'' = fold (transactRoster nf sha) cs d' in
    map entryId (eligibleAthletes tid wid d'') = map entryId (eligibleAthletes tid wid d) \<and>
    weightClassActive tid wid d'' \<and> currentBracket tid wid d'' = Some (bv_bracket v)"
proof -
  let ?ids = "map ta_id (filter (activeIn tid wid) (rosterAthletes d))"
  note c = confirm_freezes [OF assms]
  have "rosterOk (fold (transactRoster nf sha) cs d') \<and> frozen tid wid (bv_bracket v) ?ids (fold (transactRoster nf sha) cs d')"
    unfolding transactRoster_tx(2) using c by (intro frozenRoster.run_inv) simp
  with c eligible_ids [of d tid wid] eligible_ids [of "fold (transactRoster nf sha) cs d'" tid wid] assms(3) show ?thesis
    by (simp add: frozen_def Let_def)
qed

text \<open>C24: Every sequence of roster commands keeps the roster well formed: identifiers stay distinct and an
  athlete refers to no organization or to an active one of the same tournament. The draw's filter on
  organizations therefore never hides an athlete: the eligible athletes of an active weight class are its
  active athletes, in the order of their identifiers.\<close>

theorem eligible_athletes_are_the_active_ones:
  assumes "rosterOk d"
  shows "let d' = fold (transactRoster nf sha) cs d in rosterOk d' \<and>
    (weightClassActive tid wid d' \<longrightarrow>
      map entryId (eligibleAthletes tid wid d') = sort (map ta_id (filter (activeIn tid wid) (rosterAthletes d'))))"
  using roster.run_inv [OF assms, of nf sha cs] eligible_ids by (auto simp: Let_def transactRoster_tx(1))

section \<open>Witnesses\<close>

lemma drawDb_ok: "rosterOk drawDb"
  by (simp add: rosterOk_def rosterKeys_def drawDb_def drawAthlete_def assignedTo_def sample_defs)

definition rosterCommands :: "roster_command list" where
  "rosterCommands = [DeactivateAthlete 1 21 7 20000, DeactivateWeightClass 1 1 7 20000,
     CreateAthlete 90 1 \<lparr> ca_name = ''B'', ca_birthYear = 1960, ca_weightClassId = 1, ca_organizationId = None, ca_details = None,
       ca_isSeed = None \<rparr> 7 20000]"

theorem current_bracket_freezes_roster_witness:
  "\<exists>token v d'. confirm decimalCodec drawIds 1 1 token ''k'' 7 10000 drawDb = Inr (v, d') \<and>
     map entryId (eligibleAthletes 1 1 (fold (transactRoster toLower (\<lambda>rows. [])) rosterCommands d')) = [21, 22, 23]"
proof -
  obtain token v d' where c: "confirm decimalCodec drawIds 1 1 token ''k'' 7 10000 drawDb = Inr (v, d')"
    using drawDb_confirmed by blast
  have "map entryId (eligibleAthletes 1 1 (fold (transactRoster toLower (\<lambda>rows. [])) rosterCommands d')) =
    map entryId (eligibleAthletes 1 1 drawDb)"
    using current_bracket_freezes_roster [OF c drawDb_keys(3) drawDb_ok, of toLower "\<lambda>rows. []" rosterCommands] by (meson Let_def)
  then have "map entryId (eligibleAthletes 1 1 (fold (transactRoster toLower (\<lambda>rows. [])) rosterCommands d')) = [21, 22, 23]"
    unfolding drawDb_eligible by (simp add: drawAthlete_def)
  with c show ?thesis by (intro exI conjI)
qed

theorem eligible_athletes_are_the_active_ones_witness:
  "let d' = fold (transactRoster toLower (\<lambda>rows. [])) rosterCommands drawDb in rosterOk d' \<and>
     map entryId (eligibleAthletes 1 1 d') = [22, 23, 90]"
proof -
  let ?d = "fold (transactRoster toLower (\<lambda>rows. [])) rosterCommands drawDb"
  have "weightClassActive 1 1 ?d \<and> sort (map ta_id (filter (activeIn 1 1) (rosterAthletes ?d))) = [22, 23, 90]"
    by code_simp
  with eligible_athletes_are_the_active_ones [OF drawDb_ok, of toLower "\<lambda>rows. []" rosterCommands 1 1] show ?thesis
    by (auto simp: Let_def)
qed

end
