(* ===== verification/Import_Facts.thy ===== *)
theory Import_Facts
  imports Roster_Facts "HOL-Library.Sublist"
begin

text \<open>
  The import of athletes: nobody is registered twice, and a confirmation creates what the preview announced.
\<close>

section \<open>Registrations\<close>

text \<open>What the import compares: the normalized name, the birth year and the organization's identity.\<close>

definition registration :: "(string \<Rightarrow> string) \<Rightarrow> db \<Rightarrow> athlete_row \<Rightarrow> (string \<times> int \<times> string \<times> string) option" where
  "registration nf d a = map_option (\<lambda>g. (importNormalized nf (ta_name a), ta_birthYear a, og_normalizedName g, og_normalizedLocation g))
     (organizationOf d a)"

definition registrations :: "(string \<Rightarrow> string) \<Rightarrow> uuid \<Rightarrow> db \<Rightarrow> (string \<times> int \<times> string \<times> string) list" where
  "registrations nf tid d =
     List.map_filter (registration nf d) (filter (\<lambda>a. ta_tournamentId a = tid \<and> ta_isActive a) (rosterAthletes d))"

definition rowRegistration :: "(string \<Rightarrow> string) \<Rightarrow> import_row \<Rightarrow> string \<times> int \<times> string \<times> string" where
  "rowRegistration nf w = (importNormalized nf (iw_name w), iw_birthYear w,
     importNormalized nf (importOrganizationName (iw_organizationName w)), importNormalized nf (iw_organizationLocation w))"

lemma alreadyRegistered_iff: "alreadyRegistered nf tid w d \<longleftrightarrow> rowRegistration nf w \<in> set (registrations nf tid d)"
  by (force simp: alreadyRegistered_def registrations_def List.map_filter_def registration_def rowRegistration_def split: option.splits)

lemma athleteKey_registration: "rowRegistration nf w = rowRegistration nf w' \<Longrightarrow> athleteKey nf w = athleteKey nf w'"
  by (simp add: athleteKey_def unitKey_def rowRegistration_def)

section \<open>Texts\<close>

lemma dropWhile_idem [simp]: "dropWhile p (dropWhile p xs) = dropWhile p xs"
  by (induction xs) auto

lemma trim_trim [simp]: "trim (trim s) = trim s"
proof -
  define t where "t = dropWhile isSpace s"
  have ends: "dropWhile isSpace (rev (dropWhile isSpace (rev t))) = rev (dropWhile isSpace (rev t))"
  proof (cases t)
    case (Cons c cs)
    then have "\<not> isSpace c" using hd_dropWhile [of isSpace s] by (auto simp: t_def)
    obtain us where "rev t = us @ [c]" using Cons by simp
    then have "dropWhile isSpace (rev t) = dropWhile isSpace us @ [c]" using \<open>\<not> isSpace c\<close>
      by (simp add: dropWhile_append)
    then show ?thesis using \<open>\<not> isSpace c\<close> by simp
  qed simp
  show ?thesis unfolding trim_def t_def [symmetric] by (simp add: ends)
qed

section \<open>One row\<close>

lemma find_append_Some: "List.find p xs = Some x \<Longrightarrow> List.find p (xs @ ys) = Some x"
  by (induction xs) auto

text \<open>Finding the organization of a row does not change the registrations there are.\<close>

lemma registration_unit:
  assumes "ensureUnit nf newId tid w actor now d = Inr (oid, st, d1)" "rosterOk d" "a \<in> set (rosterAthletes d)"
  shows "registration nf d1 a = registration nf d a"
proof (cases "ta_organizationId a")
  case None
  then show ?thesis by (simp add: registration_def organizationOf_def)
next
  case (Some k)
  from organizationOf_found [OF assms(2,3) Some] obtain g where g: "organizationOf d a = Some g" .
  show ?thesis using assms(1)
  proof (cases rule: ensureUnit_cases)
    case (restored u act ab aa)
    have "List.find p (updWhere q f xs) = map_option (\<lambda>x. if q x then f x else x) (List.find p xs)"
      if "\<And>x. p (f x) = p x" for p q and f :: "organization_row \<Rightarrow> organization_row" and xs
      using that by (induction xs) auto
    then show ?thesis using Some
      by (auto simp: registration_def organizationOf_def restored(4) option.map_comp comp_def intro!: map_option_cong)
  next
    case (created u)
    have "organizationOf d1 a = Some g"
      using g Some by (simp add: created(8) organizationOf_def find_append_Some)
    with g show ?thesis by (simp add: registration_def)
  qed simp
qed

lemma map_filter_append: "List.map_filter f (xs @ ys) = List.map_filter f xs @ List.map_filter f ys"
  by (simp add: List.map_filter_def)

lemma map_filter_same: "(\<And>x. x \<in> set xs \<Longrightarrow> f x = g x) \<Longrightarrow> List.map_filter f xs = List.map_filter g xs"
  by (induction xs) (auto simp: List.map_filter_simps split: option.split)

lemma ensureUnit_found:
  assumes "ensureUnit nf newId tid w actor now d = Inr (oid, st, d1)" "rosterKeys d"
  shows "\<exists>g. List.find (\<lambda>g. og_id g = oid \<and> og_tournamentId g = tid) (organizations d1) = Some g \<and>
    og_normalizedName g = importNormalized nf (importOrganizationName (iw_organizationName w)) \<and>
    og_normalizedLocation g = importNormalized nf (iw_organizationLocation w)"
proof -
  have keys: "distinct (map og_id (organizations d1))"
    using assms ensureUnit_effects [OF assms(1)] rosterEffect_keys
    by (metis (no_types, lifting) rosterKeys_def rtranclp_induct)
  have "\<exists>g \<in> set (organizations d1). og_id g = oid \<and> og_tournamentId g = tid \<and>
      og_normalizedName g = importNormalized nf (importOrganizationName (iw_organizationName w)) \<and>
      og_normalizedLocation g = importNormalized nf (iw_organizationLocation w)"
    using assms(1)
  proof (cases rule: ensureUnit_cases)
    case (restored g)
    with importUnit_Some [OF restored(1)] show ?thesis
      by (auto simp: set_updWhere intro!: bexI [of _ "g\<lparr> og_isActive := True, og_deactivatedAt := None, og_updatedAt := now \<rparr>"])
  qed (auto dest: importUnit_Some)
  then obtain g where g: "g \<in> set (organizations d1)" "og_id g = oid" "og_tournamentId g = tid"
    "og_normalizedName g = importNormalized nf (importOrganizationName (iw_organizationName w))"
    "og_normalizedLocation g = importNormalized nf (iw_organizationLocation w)" by blast
  have "List.find (\<lambda>g. og_id g = oid \<and> og_tournamentId g = tid) (organizations d1) = Some g"
    using g(1-3) by (intro find_key [OF keys]) auto
  with g show ?thesis by blast
qed

lemma registrations_importRow:
  assumes "importRow nf newIds tid w actor now r d = Inr (r', d')" "rosterOk d"
  shows "registrations nf tid d' = registrations nf tid d @ [rowRegistration nf w]"
  using assms(1)
proof (rule importRow_Inr)
  fix oid st d1 x a extra
  assume u: "ensureUnit nf (fst newIds) tid w actor now d = Inr (oid, st, d1)"
    and a: "a = importedAthlete (snd newIds) tid oid (wc_id x) w now"
    and d': "d' = rosterAudit actor ''ATHLETE_CREATED'' (ta_id a) JNull (JObj [(''id'', JId (ta_id a))]) extra
       (d1\<lparr> rosterAthletes := rosterAthletes d1 @ [a] \<rparr>)"
  have same: "registration nf d' = registration nf d1" by (simp add: registration_def organizationOf_def d' fun_eq_iff)
  obtain g where "List.find (\<lambda>g. og_id g = oid \<and> og_tournamentId g = tid) (organizations d1) = Some g"
    "og_normalizedName g = importNormalized nf (importOrganizationName (iw_organizationName w))"
    "og_normalizedLocation g = importNormalized nf (iw_organizationLocation w)"
    using ensureUnit_found [OF u] assms(2) by (auto simp: rosterOk_def)
  then have new: "registration nf d1 a = Some (rowRegistration nf w)"
    by (simp add: registration_def organizationOf_def a importedAthlete_def rowRegistration_def importNormalized_def)
  have old: "rosterAthletes d1 = rosterAthletes d" using ensureUnit_effects [OF u] by simp
  have "List.map_filter (registration nf d1) (filter (\<lambda>a. ta_tournamentId a = tid \<and> ta_isActive a) (rosterAthletes d)) =
    registrations nf tid d"
    unfolding registrations_def by (rule map_filter_same) (auto intro: registration_unit [OF u assms(2)])
  moreover have "rosterAthletes d' = rosterAthletes d @ [a]" "ta_tournamentId a = tid" "ta_isActive a"
    by (simp_all add: d' old a importedAthlete_def)
  ultimately show ?thesis
    using new by (simp add: registrations_def same map_filter_append List.map_filter_simps)
qed

section \<open>All rows\<close>

abbreviation isCreated :: "import_result \<Rightarrow> bool" where
  "isCreated r \<equiv> ir_status r = IMPORT_CREATED"

abbreviation isEligible :: "import_result \<Rightarrow> bool" where
  "isEligible r \<equiv> ir_status r = IMPORT_ELIGIBLE"

lemma importStep_cases:
  assumes "importStep nf ids tid rows actor now r d = (r', d1)" "\<not> isCreated r"
  obtains (unchanged) "d1 = d" "\<not> isCreated r'" "ir_inputIndex r' = ir_inputIndex r" "ir_rowNumber r' = ir_rowNumber r"
      "\<not> isEligible r'"
      "isEligible r \<Longrightarrow> \<exists>m. importRow nf (ids (ir_inputIndex r)) tid (rows ! ir_inputIndex r) actor now r d = Inl m"
    | (imported) "isEligible r" "isCreated r'" "ir_inputIndex r' = ir_inputIndex r" "ir_rowNumber r' = ir_rowNumber r"
      "importRow nf (ids (ir_inputIndex r)) tid (rows ! ir_inputIndex r) actor now r d = Inr (r', d1)"
proof (cases "isEligible r")
  case True
  show thesis
  proof (cases "importRow nf (ids (ir_inputIndex r)) tid (rows ! ir_inputIndex r) actor now r d")
    case (Inl m)
    with assms True show thesis by (intro unchanged) (auto simp: importStep_def failResult_def)
  next
    case (Inr rd)
    with assms True have "importRow nf (ids (ir_inputIndex r)) tid (rows ! ir_inputIndex r) actor now r d = Inr (r', d1)"
      by (simp add: importStep_def)
    then show thesis by (intro imported True) (auto elim: importRow_Inr)
  qed
qed (use assms unchanged in \<open>auto simp: importStep_def\<close>)

lemma importRows_registrations:
  assumes "importRows nf ids tid rows actor now rs d = (rs', d')" "rosterOk d" "\<forall>r \<in> set rs. \<not> isCreated r"
  shows "registrations nf tid d' = registrations nf tid d @ map (\<lambda>r. rowRegistration nf (rows ! ir_inputIndex r)) (filter isCreated rs') \<and>
    subseq (map ir_inputIndex (filter isCreated rs')) (map ir_inputIndex (filter isEligible rs)) \<and>
    map ir_inputIndex rs' = map ir_inputIndex rs \<and> map ir_rowNumber rs' = map ir_rowNumber rs"
  using assms
proof (induction rs arbitrary: rs' d)
  case (Cons r rs)
  obtain r' d1 where s: "importStep nf ids tid rows actor now r d = (r', d1)" by fastforce
  obtain rs1 where t: "importRows nf ids tid rows actor now rs d1 = (rs1, d')" "rs' = r' # rs1"
    using Cons.prems(1) s by (auto split: prod.splits)
  have ok: "rosterOk d1"
    using s Cons.prems(2) by (auto simp: importStep_def split: if_splits sum.splits intro: rosterEffects_ok [OF effects_importRow])
  note IH = Cons.IH [OF t(1) ok]
  have nc: "\<not> isCreated r" "\<forall>r \<in> set rs. \<not> isCreated r" using Cons.prems(3) by auto
  from s nc(1) show ?case
  proof (cases rule: importStep_cases)
    case unchanged
    with IH [OF nc(2)] show ?thesis by (auto simp: t(2) intro: list_emb_Cons)
  next
    case imported
    with IH [OF nc(2)] registrations_importRow [OF imported(5) Cons.prems(2)] show ?thesis by (simp add: t(2))
  qed
qed simp

lemma validateRows_fields:
  "map ir_inputIndex (validateRows nf tid y d seen k ws) = [k..<k + length ws]"
  "map ir_rowNumber (validateRows nf tid y d seen k ws) = map iw_rowNumber ws"
  by (induction ws arbitrary: seen k) (auto simp: validateRow_def Let_def upt_rec)

lemma validateRow_status: "ir_status (validateRow nf tid y rep k w d) = (if unitIssues w @ athleteIssues nf tid y rep w d = [] then IMPORT_ELIGIBLE else IMPORT_INVALID)"
  by (simp add: validateRow_def Let_def)

lemma validateRows_status: "r \<in> set (validateRows nf tid y d seen k ws) \<Longrightarrow> \<not> isCreated r"
  by (induction ws arbitrary: seen k) (auto simp: validateRow_status split: if_splits)

lemma eligible_row:
  assumes "isEligible (validateRow nf tid y rep k w d)"
  shows "\<not> rep" "rowRegistration nf w \<notin> set (registrations nf tid d)" "\<exists>x. importWeightClass nf tid w d = Some x \<and> currentBracket tid (wc_id x) d = None"
  using assms by (auto simp: validateRow_status athleteIssues_def alreadyRegistered_iff split: if_splits option.splits)

lemma validateRows_eligible:
  assumes "r \<in> set (validateRows nf tid y d seen k ws)" "isEligible r" "ws = drop k rows" "k \<le> length rows"
  shows "ir_inputIndex r < length rows \<and> athleteKey nf (rows ! ir_inputIndex r) \<notin> set seen \<and>
    rowRegistration nf (rows ! ir_inputIndex r) \<notin> set (registrations nf tid d) \<and>
    (\<exists>x. importWeightClass nf tid (rows ! ir_inputIndex r) d = Some x \<and> currentBracket tid (wc_id x) d = None)"
  using assms
proof (induction ws arbitrary: seen k)
  case (Cons w ws)
  have k: "k < length rows" "w = rows ! k" "ws = drop (Suc k) rows"
    using Cons.prems(3,4) by (metis drop_eq_Nil leI list.distinct(1), metis hd_drop_conv_nth drop_eq_Nil leI list.distinct(1) list.sel(1),
      metis drop_Suc list.sel(3) tl_drop)
  show ?case
  proof (cases "r = validateRow nf tid y (athleteKey nf w \<in> set seen) k w d")
    case True
    moreover have "ir_inputIndex r = k" using True by (simp add: validateRow_def Let_def)
    ultimately show ?thesis using eligible_row Cons.prems(2) k by metis
  next
    case False
    with Cons.prems(1) have "r \<in> set (validateRows nf tid y d (athleteKey nf w # seen) (Suc k) ws)" by simp
    from Cons.IH [OF this Cons.prems(2) k(3)] k(1) show ?thesis by simp
  qed
qed simp

lemma validateRows_distinct:
  assumes "ws = drop k rows" "k \<le> length rows"
  shows "distinct (map (\<lambda>r. athleteKey nf (rows ! ir_inputIndex r)) (filter isEligible (validateRows nf tid y d seen k ws)))"
  using assms
proof (induction ws arbitrary: seen k)
  case (Cons w ws)
  have k: "k < length rows" "w = rows ! k" "ws = drop (Suc k) rows"
    using Cons.prems by (metis drop_eq_Nil leI list.distinct(1), metis hd_drop_conv_nth drop_eq_Nil leI list.distinct(1) list.sel(1),
      metis drop_Suc list.sel(3) tl_drop)
  have "athleteKey nf (rows ! ir_inputIndex r) \<noteq> athleteKey nf w"
    if "r \<in> set (validateRows nf tid y d (athleteKey nf w # seen) (Suc k) ws)" "isEligible r" for r
    using validateRows_eligible [OF that k(3)] k(1) by auto
  moreover have "ir_inputIndex (validateRow nf tid y rep k w d) = k" for rep by (simp add: validateRow_def Let_def)
  ultimately show ?case using Cons.IH [OF k(3), of "athleteKey nf w # seen"] k by force
qed simp

section \<open>Fresh identifiers\<close>

text \<open>\<open>gen_random_uuid()\<close> gives the rows of the import identifiers that no row of the tables has.\<close>

definition freshImport :: "(nat \<Rightarrow> uuid \<times> uuid) \<Rightarrow> nat set \<Rightarrow> db \<Rightarrow> bool" where
  "freshImport ids ks d \<longleftrightarrow> inj_on (\<lambda>k. fst (ids k)) ks \<and> inj_on (\<lambda>k. snd (ids k)) ks \<and>
     (\<forall>k \<in> ks. fst (ids k) \<notin> og_id ` set (organizations d) \<and> snd (ids k) \<notin> ta_id ` set (rosterAthletes d))"

lemma image_updWhere_key: "(\<And>x. k (f x) = k x) \<Longrightarrow> k ` set (updWhere p f xs) = k ` set xs"
  by (metis list.set_map map_updWhere_key)

lemma ensureUnit_total:
  assumes "newId \<notin> og_id ` set (organizations d)"
  shows "\<exists>oid st d1. ensureUnit nf newId tid w actor now d = Inr (oid, st, d1) \<and>
    og_id ` set (organizations d1) \<subseteq> insert newId (og_id ` set (organizations d))"
proof (cases "importUnit nf tid w d")
  case None
  with assms show ?thesis by (auto simp: ensureUnit_def Let_def)
next
  case (Some g)
  then show ?thesis by (cases "og_isActive g") (auto simp: ensureUnit_def Let_def image_updWhere_key)
qed

lemma importRow_total:
  assumes "fst newIds \<notin> og_id ` set (organizations d)" "snd newIds \<notin> ta_id ` set (rosterAthletes d)"
    and "importWeightClass nf tid w d = Some x" "currentBracket tid (wc_id x) d = None"
  shows "\<exists>r' d'. importRow nf newIds tid w actor now r d = Inr (r', d') \<and>
    og_id ` set (organizations d') \<subseteq> insert (fst newIds) (og_id ` set (organizations d)) \<and>
    ta_id ` set (rosterAthletes d') \<subseteq> insert (snd newIds) (ta_id ` set (rosterAthletes d)) \<and>
    weightClasses d' = weightClasses d \<and> brackets d' = brackets d"
proof -
  obtain oid st d1 where u: "ensureUnit nf (fst newIds) tid w actor now d = Inr (oid, st, d1)"
    "og_id ` set (organizations d1) \<subseteq> insert (fst newIds) (og_id ` set (organizations d))"
    using ensureUnit_total [OF assms(1)] by metis
  note e = ensureUnit_effects [OF u(1)]
  have "importWeightClass nf tid w d1 = Some x" "currentBracket tid (wc_id x) d1 = None"
    using e assms(3,4) by (simp_all add: importWeightClass_def currentBracket_def)
  with e assms(2) u show ?thesis by (auto simp: importRow_def Let_def importedAthlete_def)
qed

lemma importRows_created:
  assumes "importRows nf ids tid rows actor now rs d = (rs', d')" "freshImport ids (ir_inputIndex ` set rs) d"
    "distinct (map ir_inputIndex rs)" "\<forall>r \<in> set rs. \<not> isCreated r"
    "\<And>r. r \<in> set rs \<Longrightarrow> isEligible r \<Longrightarrow>
      \<exists>x. importWeightClass nf tid (rows ! ir_inputIndex r) d = Some x \<and> currentBracket tid (wc_id x) d = None"
  shows "map isCreated rs' = map isEligible rs"
  using assms
proof (induction rs arbitrary: rs' d)
  case (Cons r rs)
  obtain r' d1 where s: "importStep nf ids tid rows actor now r d = (r', d1)" by fastforce
  obtain rs1 where t: "importRows nf ids tid rows actor now rs d1 = (rs1, d')" "rs' = r' # rs1"
    using Cons.prems(1) s by (auto split: prod.splits)
  have "isCreated r' = isEligible r \<and> freshImport ids (ir_inputIndex ` set rs) d1 \<and> weightClasses d1 = weightClasses d \<and> brackets d1 = brackets d"
  proof (cases "isEligible r")
    case True
    then obtain x where x: "importWeightClass nf tid (rows ! ir_inputIndex r) d = Some x" "currentBracket tid (wc_id x) d = None"
      using Cons.prems(5) [of r] by auto
    have f: "fst (ids (ir_inputIndex r)) \<notin> og_id ` set (organizations d)" "snd (ids (ir_inputIndex r)) \<notin> ta_id ` set (rosterAthletes d)"
      using Cons.prems(2) by (auto simp: freshImport_def)
    obtain r1 d2 where i: "importRow nf (ids (ir_inputIndex r)) tid (rows ! ir_inputIndex r) actor now r d = Inr (r1, d2)"
      "og_id ` set (organizations d2) \<subseteq> insert (fst (ids (ir_inputIndex r))) (og_id ` set (organizations d))"
      "ta_id ` set (rosterAthletes d2) \<subseteq> insert (snd (ids (ir_inputIndex r))) (ta_id ` set (rosterAthletes d))"
      "weightClasses d2 = weightClasses d" "brackets d2 = brackets d"
      using importRow_total [OF f x] by metis
    have eq [simp]: "r1 = r'" "d2 = d1" using s True i(1) by (simp_all add: importStep_def)
    have "isCreated r'" using i(1) by (auto elim: importRow_Inr)
    moreover have "freshImport ids (ir_inputIndex ` set rs) d1"
      unfolding freshImport_def
    proof (intro conjI ballI)
      show "inj_on (\<lambda>k. fst (ids k)) (ir_inputIndex ` set rs)" "inj_on (\<lambda>k. snd (ids k)) (ir_inputIndex ` set rs)"
        using Cons.prems(2) by (auto simp: freshImport_def inj_on_def)
      fix k assume k: "k \<in> ir_inputIndex ` set rs"
      with Cons.prems(3) have "k \<noteq> ir_inputIndex r" by (metis distinct.simps(2) list.set_map list.simps(9))
      with k Cons.prems(2) have "fst (ids k) \<noteq> fst (ids (ir_inputIndex r))" "snd (ids k) \<noteq> snd (ids (ir_inputIndex r))"
        by (auto simp: freshImport_def inj_on_def)
      with k Cons.prems(2) have "fst (ids k) \<notin> insert (fst (ids (ir_inputIndex r))) (og_id ` set (organizations d))"
        "snd (ids k) \<notin> insert (snd (ids (ir_inputIndex r))) (ta_id ` set (rosterAthletes d))"
        by (auto simp: freshImport_def)
      with i(2,3) [unfolded eq] show "fst (ids k) \<notin> og_id ` set (organizations d1)" "snd (ids k) \<notin> ta_id ` set (rosterAthletes d1)"
        by (meson subsetD)+
    qed
    ultimately show ?thesis using True i by simp
  next
    case False
    with s Cons.prems(2,4) show ?thesis by (auto simp: importStep_def freshImport_def inj_on_def)
  qed
  note st = this
  have "map isCreated rs1 = map isEligible rs"
    using Cons.prems(3-5) st by (intro Cons.IH [OF t(1)]) (auto simp: importWeightClass_def currentBracket_def)
  with st show ?case by (simp add: t(2))
qed simp

section \<open>What a confirmation does\<close>

lemma importRow_other:
  assumes "importRow nf newIds tid w actor now r d = Inr (r', d')"
  shows "importConfirmations d' = importConfirmations d \<and> tournaments d' = tournaments d"
  using assms
proof (rule importRow_Inr)
  fix oid st d1 x a extra
  assume u: "ensureUnit nf (fst newIds) tid w actor now d = Inr (oid, st, d1)"
    and d': "d' = rosterAudit actor ''ATHLETE_CREATED'' (ta_id a) JNull (JObj [(''id'', JId (ta_id a))]) extra
       (d1\<lparr> rosterAthletes := rosterAthletes d1 @ [a] \<rparr>)"
  from u have "tournaments d1 = tournaments d" by (cases rule: ensureUnit_cases) (simp_all add: rosterAudit_def addAudit_def)
  with ensureUnit_effects [OF u] show ?thesis by (simp add: d' rosterAudit_def addAudit_def)
qed

lemma importRows_other:
  "importRows nf ids tid rows actor now rs d = (rs', d') \<Longrightarrow>
   importConfirmations d' = importConfirmations d \<and> tournaments d' = tournaments d"
proof (induction rs arbitrary: rs' d)
  case (Cons r rs)
  obtain r' d1 where s: "importStep nf ids tid rows actor now r d = (r', d1)" by fastforce
  then have "importConfirmations d1 = importConfirmations d \<and> tournaments d1 = tournaments d"
    by (auto simp: importStep_def split: if_splits sum.splits dest: importRow_other)
  with Cons s show ?case by (auto split: prod.splits)
qed simp

lemma confirmImport_first:
  assumes "confirmImport nf sha ids tid rows actor key now d = Inr (rs, d')" "\<forall>c \<in> set (importConfirmations d). ic_key c \<noteq> trim key"
  obtains d1 where "importRows nf ids tid rows actor now (validateRows nf tid (getUTCFullYear now) d [] 0 rows) d = (rs, d1)"
    "d' = d1\<lparr> importConfirmations := importConfirmations d1 @ [\<lparr> ic_tournamentId = tid, ic_actorId = actor, ic_key = trim key,
       ic_fingerprint = sha rows, ic_results = rs \<rparr>] \<rparr>"
    "assertUniqueRowNumbers rows = Inr ()" "trim key \<noteq> []" "lockTournament tid d = Inr ()"
proof -
  have "List.find (\<lambda>c. ic_key c = trim key) (importConfirmations d) = None" using assms(2) by (auto simp: find_None_iff)
  with assms(1) show thesis
    unfolding confirmImport_def Let_def by (elim inr_elims) (auto intro: that)
qed

lemma registrations_confirmations [simp]: "registrations nf tid (d\<lparr> importConfirmations := c \<rparr>) = registrations nf tid d"
proof -
  have "registration nf (d\<lparr> importConfirmations := c \<rparr>) = registration nf d"
    by (simp add: registration_def organizationOf_def fun_eq_iff)
  then show ?thesis by (simp add: registrations_def)
qed

lemma subseq_distinct: "subseq xs ys \<Longrightarrow> distinct ys \<Longrightarrow> distinct xs"
  by (induction rule: list_emb.induct) (auto dest: list_emb_set)

text \<open>C22: An import never registers an athlete twice. When the active athletes of a tournament differ in
  normalized name, birth year or organization, they still do after the confirmation of any spreadsheet,
  whatever rows it repeats, whatever rows name athletes already registered, and whatever identifiers the
  database hands out.\<close>

theorem import_never_registers_twice:
  assumes "confirmImport nf sha ids tid rows actor key now d = Inr (rs, d')" and ok: "rosterOk d"
    and distinct: "distinct (registrations nf tid d)"
  shows "distinct (registrations nf tid d')"
proof (cases "List.find (\<lambda>c. ic_key c = trim key) (importConfirmations d)")
  case (Some c)
  with assms(1) have "d' = d" unfolding confirmImport_def Let_def by (elim inr_elims) auto
  with distinct show ?thesis by simp
next
  case None
  let ?vs = "validateRows nf tid (getUTCFullYear now) d [] 0 rows"
  have "\<forall>c \<in> set (importConfirmations d). ic_key c \<noteq> trim key" using None by (auto simp: find_None_iff)
  with assms(1) obtain d1 where i: "importRows nf ids tid rows actor now ?vs d = (rs, d1)"
    and d': "registrations nf tid d' = registrations nf tid d1" by (rule confirmImport_first) simp
  let ?key = "\<lambda>k. athleteKey nf (rows ! k)"
  have "\<forall>r \<in> set ?vs. \<not> isCreated r" using validateRows_status by blast
  note reg = importRows_registrations [OF i ok this]
  have sub: "subseq (map ?key (map ir_inputIndex (filter isCreated rs))) (map ?key (map ir_inputIndex (filter isEligible ?vs)))"
    by (rule subseq_map [OF conjunct1 [OF conjunct2 [OF reg]]])
  have "distinct (map ?key (map ir_inputIndex (filter isEligible ?vs)))"
    using validateRows_distinct [of rows 0 rows nf tid "getUTCFullYear now" d "[]"] by (simp add: comp_def)
  with sub have "distinct (map ?key (map ir_inputIndex (filter isCreated rs)))" by (rule subseq_distinct)
  then have new: "distinct (map (\<lambda>r. rowRegistration nf (rows ! ir_inputIndex r)) (filter isCreated rs))"
    unfolding map_map comp_def distinct_map inj_on_def using athleteKey_registration by blast
  have "rowRegistration nf (rows ! ir_inputIndex r) \<notin> set (registrations nf tid d)" if "r \<in> set rs" "isCreated r" for r
  proof -
    have "ir_inputIndex r \<in> set (map ir_inputIndex (filter isCreated rs))" using that by simp
    with list_emb_set [OF conjunct1 [OF conjunct2 [OF reg]]] have "ir_inputIndex r \<in> set (map ir_inputIndex (filter isEligible ?vs))" by blast
    then obtain v where "v \<in> set ?vs" "isEligible v" "ir_inputIndex v = ir_inputIndex r" by auto
    with validateRows_eligible [of v nf tid "getUTCFullYear now" d "[]" 0 rows rows] show ?thesis by auto
  qed
  with new distinct reg show ?thesis by (auto simp: d')
qed

text \<open>C23: A confirmation does what its preview announced, once. With identifiers that are not in use, the
  answers list the rows of the spreadsheet in order, exactly the rows that validation finds eligible are
  created, each adds one registration with its name, birth year and organization, and nothing else
  changes the registrations; the same request sent again gets the stored answers and changes nothing.\<close>

theorem import_creates_the_announced_rows:
  assumes "confirmImport nf sha ids tid rows actor key now d = Inr (rs, d')" and ok: "rosterOk d"
    and "\<forall>c \<in> set (importConfirmations d). ic_key c \<noteq> trim key" and fresh: "freshImport ids {..<length rows} d"
  shows "\<exists>announced. previewImport nf tid rows now d = Inr announced \<and> map isCreated rs = map isEligible announced \<and>
    map ir_inputIndex rs = [0..<length rows] \<and> map ir_rowNumber rs = map iw_rowNumber rows \<and>
    registrations nf tid d' = registrations nf tid d @
      map (\<lambda>r. rowRegistration nf (rows ! ir_inputIndex r)) (filter isCreated rs) \<and>
    confirmImport nf sha ids' tid rows actor key now' d' = Inr (rs, d')"
proof -
  let ?vs = "validateRows nf tid (getUTCFullYear now) d [] 0 rows"
  from assms(1,3) obtain d1 where i: "importRows nf ids tid rows actor now ?vs d = (rs, d1)"
    and d': "d' = d1\<lparr> importConfirmations := importConfirmations d1 @ [\<lparr> ic_tournamentId = tid, ic_actorId = actor, ic_key = trim key,
       ic_fingerprint = sha rows, ic_results = rs \<rparr>] \<rparr>"
    and u: "assertUniqueRowNumbers rows = Inr ()" "trim key \<noteq> []" "lockTournament tid d = Inr ()" by (rule confirmImport_first)
  have nc: "\<forall>r \<in> set ?vs. \<not> isCreated r" using validateRows_status by blast
  note reg = importRows_registrations [OF i ok nc]
  have idx: "map ir_inputIndex ?vs = [0..<length rows]" "map ir_rowNumber ?vs = map iw_rowNumber rows"
    by (simp_all add: validateRows_fields)
  then have set: "ir_inputIndex ` set ?vs = {..<length rows}" by (metis atLeast_upt list.set_map)
  have "map isCreated rs = map isEligible ?vs"
  proof (rule importRows_created [OF i _ _ nc])
    show "freshImport ids (ir_inputIndex ` set ?vs) d" unfolding set by (rule fresh)
    show "distinct (map ir_inputIndex ?vs)" by (simp add: idx)
    show "\<exists>x. importWeightClass nf tid (rows ! ir_inputIndex r) d = Some x \<and> currentBracket tid (wc_id x) d = None"
      if "r \<in> set ?vs" "isEligible r" for r
      using validateRows_eligible [OF that, of rows] by simp
  qed
  moreover have "importConfirmations d1 = importConfirmations d" "tournaments d1 = tournaments d"
    using importRows_other [OF i] by simp_all
  then have "confirmImport nf sha ids' tid rows actor key now' d' = Inr (rs, d')"
    using u assms(3) by (simp add: confirmImport_def Let_def d' lockTournament_def find_append_none)
  ultimately show ?thesis using reg idx u(1) by (simp add: previewImport_def d')
qed

section \<open>Witnesses\<close>

text \<open>Three rows: a new athlete of a new organization, the same athlete again, and one with no name.\<close>

definition importSheet :: "import_row list" where
  "importSheet =
     [\<lparr> iw_rowNumber = 2, iw_name = '' Lan '', iw_birthYear = 1965, iw_weightClass = ''K'', iw_organizationName = ''Club'',
        iw_organizationLocation = ''Hue'' \<rparr>,
      \<lparr> iw_rowNumber = 3, iw_name = ''LAN'', iw_birthYear = 1965, iw_weightClass = ''k'', iw_organizationName = '' club'',
        iw_organizationLocation = ''hue'' \<rparr>,
      \<lparr> iw_rowNumber = 4, iw_name = '' '', iw_birthYear = 1965, iw_weightClass = ''k'', iw_organizationName = ''Club'',
        iw_organizationLocation = ''Hue'' \<rparr>]"

definition importIds :: "nat \<Rightarrow> uuid \<times> uuid" where
  "importIds k = (500 + k, 600 + k)"

lemma importSheet_confirmed:
  "\<exists>rs d'. confirmImport toLower (\<lambda>rows. ''f'') importIds 1 importSheet 7 ''key'' 0 drawDb = Inr (rs, d') \<and>
     map ir_status rs = [IMPORT_CREATED, IMPORT_INVALID, IMPORT_INVALID] \<and>
     registrations toLower 1 d' = [(''lan'', 1965, ''club'', ''hue'')]"
proof -
  have "(case confirmImport toLower (\<lambda>rows. ''f'') importIds 1 importSheet 7 ''key'' 0 drawDb of Inl e \<Rightarrow> False
    | Inr (rs, d') \<Rightarrow> map ir_status rs = [IMPORT_CREATED, IMPORT_INVALID, IMPORT_INVALID] \<and>
       registrations toLower 1 d' = [(''lan'', 1965, ''club'', ''hue'')])"
    by code_simp
  then show ?thesis by (auto split: sum.splits)
qed

lemma drawDb_registrations: "registrations toLower 1 drawDb = []"
  by code_simp

theorem import_never_registers_twice_witness:
  "\<exists>rs d'. confirmImport toLower (\<lambda>rows. ''f'') importIds 1 importSheet 7 ''key'' 0 drawDb = Inr (rs, d') \<and>
     registrations toLower 1 d' \<noteq> [] \<and> distinct (registrations toLower 1 d')"
proof -
  obtain rs d' where c: "confirmImport toLower (\<lambda>rows. ''f'') importIds 1 importSheet 7 ''key'' 0 drawDb = Inr (rs, d')"
    "registrations toLower 1 d' = [(''lan'', 1965, ''club'', ''hue'')]" by (rule exE [OF importSheet_confirmed]) (elim exE conjE, rule that, assumption+)
  have "distinct (registrations toLower 1 drawDb)" unfolding drawDb_registrations by simp
  note d = import_never_registers_twice [OF c(1) drawDb_ok this]
  have "registrations toLower 1 d' \<noteq> []" unfolding c(2) by simp
  with c(1) d show ?thesis by (intro exI conjI)
qed

theorem import_creates_the_announced_rows_witness:
  "\<exists>rs d'. confirmImport toLower (\<lambda>rows. ''f'') importIds 1 importSheet 7 ''key'' 0 drawDb = Inr (rs, d') \<and>
     map isCreated rs = [True, False, False] \<and> map ir_rowNumber rs = [2, 3, 4] \<and>
     confirmImport toLower (\<lambda>rows. ''f'') importIds 1 importSheet 7 ''key'' 90 d' = Inr (rs, d')"
proof -
  obtain rs d' where c: "confirmImport toLower (\<lambda>rows. ''f'') importIds 1 importSheet 7 ''key'' 0 drawDb = Inr (rs, d')"
    "map ir_status rs = [IMPORT_CREATED, IMPORT_INVALID, IMPORT_INVALID]" by (rule exE [OF importSheet_confirmed]) (elim exE conjE, rule that, assumption+)
  have none: "\<forall>c \<in> set (importConfirmations drawDb). ic_key c \<noteq> trim ''key''" by (simp add: drawDb_def sample_defs)
  have fresh: "freshImport importIds {..<length importSheet} drawDb"
    by (auto simp: freshImport_def importIds_def importSheet_def drawDb_def drawAthlete_def sample_defs inj_on_def)
  from import_creates_the_announced_rows [OF c(1) drawDb_ok none fresh]
  have r: "map ir_rowNumber rs = map iw_rowNumber importSheet"
    "confirmImport toLower (\<lambda>rows. ''f'') importIds 1 importSheet 7 ''key'' 90 d' = Inr (rs, d')" by blast+
  have "map isCreated rs = map (\<lambda>s. s = IMPORT_CREATED) (map ir_status rs)" by simp
  then have "map isCreated rs = [True, False, False]" unfolding c(2) by simp
  moreover from r(1) have "map ir_rowNumber rs = [2, 3, 4]" by (simp add: importSheet_def)
  ultimately show ?thesis using c(1) r(2) by (intro exI conjI)
qed

end
