(* ===== verification/Spec2Isabelle.thy ===== *)
theory Spec2Isabelle
  imports Bracket_Graph Match_Runs Account_Facts Official_Facts Import_Facts
begin

text \<open>
  A verification development for the API of a martial-arts tournament system
  (\<open>src/apps/api\<close>): draws are generated and decided, matches are staffed, fought and scored by
  judges in real time, their results are appealed, published, cancelled and restored.

  \<^bold>\<open>The program.\<close> A tournament has weight classes with athletes. The \<^emph>\<open>draw\<close> shuffles the
  athletes into a single-elimination bracket whose fixtures become matches. An inspector \<^emph>\<open>takes\<close>
  a match with a crew of judges. The supervisor starts, pauses and resumes rounds; judges cast
  votes that are collected in short scoring windows, and a window in which a majority of the
  required judges agrees awards a point. Rounds expire by the clock. Under the older rules the
  match is then completed; under the fault and appeal rules the supervisor judges an appeal, a
  tie leads to overtime, and a publication names the winner. A finished match decides its
  fixture and moves the winner on; cancelling results or leaving a match takes this back.
  Administrators buy the right to run tournaments by subscription; when it lapses their tournaments
  are deleted after a grace period and purged after a recovery period.
  The services share one PostgreSQL database and change it in serialisable transactions.

  \<^bold>\<open>The model.\<close> The database is the record \<open>db\<close> of \<open>Domain\<close>: one list of rows per table, one
  record type per table with the columns the modelled code reads or writes, enums as datatypes.
  A transaction is a function from its inputs, the clock readings of its environment (\<open>env\<close>)
  and the database to an error or an answer and the new database; a thrown error leaves no
  change, as the rollback does. Identifiers the database would create are arguments. Row locks
  need no counterpart, since a transaction is one step. What is not under \<open>src/\<close> is a
  parameter: the random source of the draw, the codec and digest of signed tokens, the password
  hash, the cryptography of access tokens and the image storage.

  \<^item> \<open>Prelude\<close>: results with their bind and elimination rules (\<open>inr_elims\<close>), table helpers
    (\<open>updWhere\<close>, \<open>firstBy\<close>, \<open>insertUnique\<close>), and the locales \<open>unique_index\<close> (a table with a
    uniqueness constraint), \<open>soft_table\<close> (rows invalidated by a stamp) and \<open>tx_machine\<close> (an
    invariant kept by every transaction holds after every run).
  \<^item> \<open>Bracket_Generator\<close>: \<open>brackets/bracket-summary.ts\<close>,
    \<open>brackets/single-elimination-bracket.generator.ts\<close>, \<open>bracket-presentation.ts\<close>.
    \<open>Bracket_Draw\<close> and \<open>Bracket_Graph\<close> show that the shuffle reaches exactly the permutations,
    which inputs are accepted, that every athlete is placed once with the designated byes, and
    that the fixtures form the single-elimination graph.
  \<^item> \<open>Bracket_Preview\<close> and \<open>Bracket_Confirmation\<close>: how a draw becomes rows. The setup
    (\<open>brackets/bracket-draw-setup.service.ts\<close>) signs the eligible roster, the preview
    (\<open>bracket-preview.service.ts\<close>) draws and signs the placements, swaps exchange two athletes, and
    the confirmation (\<open>bracket-confirmation.service.ts\<close>) stores bracket, entrants, fixtures, slots and
    staffing; \<open>bracket-round-staffing.service.ts\<close> changes the judges of a round. The tokens are those
    of the two token services; JSON, base64url, HMAC and SHA-256 are the parameter \<open>codec\<close>, of which
    \<open>codecOk\<close> says that reading inverts writing and that texts and digests have their alphabets.
    \<open>Draw_Facts\<close>: the stored rows read back as the generated graph, replay by key, no draw lost
    between setup and confirmation, and what a swap changes.
  \<^item> \<open>Domain\<close>: \<open>prisma/schema.prisma\<close>; \<open>Constraints\<close>: the partial unique indexes of the
    migrations, each an interpretation of \<open>unique_index\<close>, and the invalidation columns, each an
    interpretation of \<open>soft_table\<close>. \<open>Sport_Rules\<close>: \<open>sport-rules\<close>.
  \<^item> \<open>Scoring\<close>: \<open>realtime/scoring.service.ts\<close>, \<open>round-timing.ts\<close>, \<open>match-score-projection.ts\<close>,
    \<open>result-calculations.ts\<close>. \<open>Scoring_Facts\<close>: a point exactly on a majority, the guards of an
    accepted vote, the due-window loop returns with no due window left, the projection equals
    the per-athlete sums, and an index that makes later votes fail.
  \<^item> \<open>Supervision\<close>: identity checks, penalties, faults. \<open>Match_Lifecycle\<close> and \<open>Match_Results\<close>:
    \<open>realtime/match-lifecycle.service.ts\<close> and the assignment release. \<open>Lifecycle_Facts\<close>: time is
    conserved over pauses, a round is closed once, a due round can be closed. \<open>Results_Facts\<close>:
    undo puts back what a cancellation stamped.
  \<^item> \<open>Appeals\<close>: \<open>regulation-appeal.service.ts\<close>, \<open>overtime.service.ts\<close>,
    \<open>result-publication.service.ts\<close>. \<open>Appeals_Facts\<close>: how an appeal decides the phase, replay by
    idempotency key, who a publication can name, and a point that the appeal never sees.
  \<^item> \<open>Bracket_Outcome\<close>: \<open>brackets/bracket-outcome.service.ts\<close> and
    \<open>bracket-cancellation.service.ts\<close>. \<open>Bracket_Outcome_Facts\<close>: propagation, idempotence,
    retraction as the inverse of an automatic decision, manual decisions.
  \<^item> \<open>Staffing\<close>: \<open>match-official-assignments\<close> with the row trigger of the migrations.
    \<open>Staffing_Facts\<close>: the crew a take leaves, repetition, and release against the trigger.
  \<^item> \<open>Frames\<close>: what groups of operations leave alone. \<open>Phase_Spec\<close>: the abstract phase machine
    with its invariant. \<open>Match_Machine\<close>: every command of the services as one step, the
    simulation of the phase machine by all of them, and what follows for every run.
    \<open>Match_Runs\<close>: outcomes and publications over runs.

  \<^item> \<open>Calendar\<close>: the calendar of JavaScript dates and \<open>addUtcMonths\<close>, with bounds for every month
    added. \<open>Accounts\<close>: the commercial side on its own tables, the record \<open>account_db\<close>: \<open>pricing\<close>, the
    access policy, \<open>subscriptions.service.ts\<close>, \<open>tournament-lifecycle.service.ts\<close>, \<open>auth/roles.guard.ts\<close>,
    \<open>media-deletion.service.ts\<close> and \<open>super-admin.service.ts\<close>. \<open>Tournament_Admin\<close>: access checks, quota,
    creation and change of tournaments in \<open>admin-management.service.ts\<close>. \<open>Account_Facts\<close>: quotes are
    bounded, the worker never changes an access check and is idempotent, activation, and over all runs
    of the commands: tournaments survive grace and recovery, a super administrator remains.

  \<^item> \<open>Session_Table\<close>: the locale \<open>session_table\<close>, a table of login sessions of which a credential owns one
    at a time, with what follows for runs. \<open>Access_Common\<close>: the counters of \<open>redis/redis.service.ts\<close>, signed
    tokens and the parameter \<open>access_crypto\<close> (bcrypt, HMAC, base64url, JSON). \<open>Match_Access\<close>: \<open>match-access\<close>,
    service, controller and guard; \<open>Official_Access\<close>: \<open>official-access\<close>; both interpret \<open>session_table\<close>.
    \<open>Officials\<close>: \<open>tournament-officials.service.ts\<close>. \<open>Redis_Facts\<close>: attempts per window. \<open>Access_Facts\<close> and
    \<open>Takeover_Facts\<close>: one session per code over every run, logout for good, what a takeover closes, and the
    takeover after a refused login. \<open>Official_Facts\<close>: the same table for officials, new passcodes and
    deactivation. \<open>Access_Sample\<close>: cryptography that satisfies \<open>cryptoOk\<close>, and the sample the properties
    are applied to.

  \<^item> \<open>Roster\<close>: organizations and weight classes, \<open>tournament-roster/tournament-roster.service.ts\<close>.
    \<open>Roster_Athletes\<close>: \<open>athlete.service.ts\<close> and the spreadsheet import of \<open>athlete-import.service.ts\<close>.
    \<open>Roster_Facts\<close> reduces every command to guarded elementary changes of rows (\<open>rosterEffect\<close>) and shows
    over all runs that athletes refer to active organizations only and that a confirmed bracket freezes
    the athletes of its weight class. \<open>Import_Facts\<close>: nobody is registered twice, and a confirmation creates
    exactly what its preview announced.

  \<^bold>\<open>Bounds and loops.\<close> No definition uses fuel. Loops of the source are structural recursion or
  folds over the rows they visit; the loop over due windows and the doubling loop of the draw
  have termination proofs by a measure. Times are milliseconds as \<open>int\<close>, scores \<open>int\<close>, counts
  and positions \<open>nat\<close>: the source computes with small JavaScript numbers, exact in this range.

  \<^bold>\<open>Not modelled.\<close> Sockets, timers, logging and the gateway that routes events (the model has the
  transactions they trigger, at any time and in any order); read-only views of the match state;
  matches created by hand, most listings, and image files; login of administrators; the web client.
  Organization names outside U+0000 to U+00FF: the import's name for a missing organization is written
  without its marks, and Unicode normalization is a parameter of the roster.
\<close>

end
